(* ===== verification/Py_Base.thy ===== *)
theory Py_Base
  imports Complex_Main "HOL-Library.AList" "HOL-Library.List_Lexorder" "HOL-Library.Char_ord"
begin

text \<open>
  The prelude of the development: the Python values and library operations that the services
  share, with the lemmas about them that the component theories use.

  Python floats are modelled as exact real numbers: rounding of IEEE doubles, infinities and NaN
  are outside the model, while division by zero is kept as the exception it is in Python.
  Python integers are \<open>int\<close> (or \<open>nat\<close> for counters that only grow from 0). Strings are ASCII
  strings. A \<open>dict\<close> is an association list in insertion order, updated with \<open>AList.update\<close>
  (an existing key keeps its place, a new key goes to the end, as in Python) and
  \<open>AList.delete\<close>. A \<open>deque(maxlen=n)\<close> is a list that forgets its oldest element when full.
\<close>

named_theorems lookups \<open>dictionary look-ups with and without a default, unfolded\<close>
named_theorems letter_case \<open>changes of letter case, unfolded to evaluate them\<close>

section \<open>Exceptions\<close>

datatype py_error =
    KeyError string
  | IndexError
  | ValueError string
  | TypeError
  | ZeroDivisionError
  | AttributeError string
  | ExternalError string

definition py_div :: "real \<Rightarrow> real \<Rightarrow> py_error + real" where
  "py_div a b = (if b = 0 then Inl ZeroDivisionError else Inr (a / b))"

lemma py_div_Inr [simp]: "b \<noteq> 0 \<Longrightarrow> py_div a b = Inr (a / b)"
  by (simp add: py_div_def)

lemma py_div_zero [simp]: "py_div a 0 = Inl ZeroDivisionError"
  by (simp add: py_div_def)

definition ebind :: "'e + 'a \<Rightarrow> ('a \<Rightarrow> 'e + 'b) \<Rightarrow> 'e + 'b" where
  \<comment> \<open>sequencing: an exception of the first computation ends the whole\<close>
  "ebind r f = (case r of Inl e \<Rightarrow> Inl e | Inr x \<Rightarrow> f x)"

lemma ebind_Inr [simp]: "ebind (Inr x) f = f x"
  by (simp add: ebind_def)

lemma ebind_Inl [simp]: "ebind (Inl e) f = Inl e"
  by (simp add: ebind_def)

lemma ebind_eq_Inr: "ebind r f = Inr y \<longleftrightarrow> (\<exists>x. r = Inr x \<and> f x = Inr y)"
  by (cases r) auto

section \<open>Numbers: int(), round()\<close>

definition py_int :: "real \<Rightarrow> int" where
  \<comment> \<open>int(x): truncation towards zero\<close>
  "py_int x = (if 0 \<le> x then \<lfloor>x\<rfloor> else \<lceil>x\<rceil>)"

definition round_half_even :: "real \<Rightarrow> int" where
  "round_half_even y =
     (let f = \<lfloor>y\<rfloor>; d = y - of_int f in
      if d < 1 / 2 then f else if d > 1 / 2 then f + 1 else if even f then f else f + 1)"

definition py_round :: "real \<Rightarrow> nat \<Rightarrow> real" where
  \<comment> \<open>round(x, n): ties to even in the last digit kept\<close>
  "py_round x n = of_int (round_half_even (x * 10 ^ n)) / 10 ^ n"

lemma round_half_even_error: "\<bar>of_int (round_half_even y) - y\<bar> \<le> 1 / 2"
  unfolding round_half_even_def Let_def by (simp; linarith)

lemma py_round_error: "\<bar>py_round x n - x\<bar> \<le> 1 / (2 * 10 ^ n)"
proof -
  let ?y = "x * 10 ^ n"
  have "\<bar>of_int (round_half_even ?y) - ?y\<bar> / 10 ^ n \<le> (1 / 2) / 10 ^ n"
    by (intro divide_right_mono round_half_even_error) simp
  moreover have "\<bar>of_int (round_half_even ?y) - ?y\<bar> / 10 ^ n = \<bar>py_round x n - x\<bar>"
  proof -
    have "\<bar>of_int (round_half_even ?y) - ?y\<bar> / 10 ^ n = \<bar>(of_int (round_half_even ?y) - ?y) / 10 ^ n\<bar>"
      by simp
    also have "(of_int (round_half_even ?y) - ?y) / 10 ^ n = py_round x n - x"
      by (simp add: py_round_def diff_divide_distrib)
    finally show ?thesis .
  qed
  ultimately show ?thesis by simp
qed

lemma py_round_0 [simp]: "py_round 0 n = 0"
  by (simp add: py_round_def round_half_even_def)

section \<open>ASCII strings\<close>

definition upper_char :: "char \<Rightarrow> char" where
  "upper_char c = (let n = (of_char c :: nat) in if 97 \<le> n \<and> n \<le> 122 then char_of (n - 32) else c)"

declare upper_char_def [letter_case]

definition lower_char :: "char \<Rightarrow> char" where
  "lower_char c = (let n = (of_char c :: nat) in if 65 \<le> n \<and> n \<le> 90 then char_of (n + 32) else c)"

declare lower_char_def [letter_case]

definition upper :: "string \<Rightarrow> string" where
  "upper s = map upper_char s"

declare upper_def [letter_case]

definition lower :: "string \<Rightarrow> string" where
  "lower s = map lower_char s"

declare lower_def [letter_case]

lemma upper_char_idem [simp]: "upper_char (upper_char c) = upper_char c"
proof (cases "97 \<le> (of_char c :: nat) \<and> (of_char c :: nat) \<le> 122")
  case True
  then have "(of_char (upper_char c) :: nat) = of_char c - 32"
    by (auto simp: upper_char_def Let_def)
  with True show ?thesis
    by (subst upper_char_def) (auto simp: Let_def)
qed (auto simp: upper_char_def Let_def)

lemma upper_idem [simp]: "upper (upper s) = upper s"
  by (simp add: upper_def)

fun join :: "string \<Rightarrow> string list \<Rightarrow> string" where
  "join sep [] = []"
| "join sep [x] = x"
| "join sep (x # xs) = x @ sep @ join sep xs"

definition digit :: "nat \<Rightarrow> char" where
  "digit n = char_of (48 + n)"

fun show_nat :: "nat \<Rightarrow> string" where
  \<comment> \<open>\<open>str(n)\<close>\<close>
  "show_nat n = (if n < 10 then [digit n] else show_nat (n div 10) @ [digit (n mod 10)])"

declare show_nat.simps [simp del]

definition fixed2 :: "real \<Rightarrow> string" where
  \<comment> \<open>\<open>format(x, '.2f')\<close> of a non-negative number\<close>
  "fixed2 x = (let k = nat (round_half_even (x * 100)) in
     show_nat (k div 100) @ ''.'' @ [digit (k mod 100 div 10), digit (k mod 10)])"

section \<open>Dictionaries\<close>

type_synonym ('k, 'v) dict = "('k \<times> 'v) list"

definition dget :: "('k, 'v) dict \<Rightarrow> 'k \<Rightarrow> 'v \<Rightarrow> 'v" where
  \<comment> \<open>d.get(k, default)\<close>
  "dget d k v = (case map_of d k of None \<Rightarrow> v | Some w \<Rightarrow> w)"

declare dget_def [lookups]

definition dict_wf :: "('k, 'v) dict \<Rightarrow> bool" where
  "dict_wf d = distinct (map fst d)"

definition dict_merge :: "('k, 'v) dict \<Rightarrow> ('k, 'v) dict \<Rightarrow> ('k, 'v) dict" where
  \<comment> \<open>\<open>{**d, **e}\<close> and \<open>d.update(e)\<close>\<close>
  "dict_merge d e = foldl (\<lambda>acc (k, v). AList.update k v acc) d e"

lemma dget_update [simp]: "dget (AList.update k v d) k' w = (if k' = k then v else dget d k' w)"
  by (simp add: dget_def update_conv')

lemma dget_Nil [simp]: "dget [] k w = w"
  by (simp add: dget_def)

lemma dict_wf_Nil [simp]: "dict_wf []"
  by (simp add: dict_wf_def)

lemma dict_wf_update [simp]: "dict_wf d \<Longrightarrow> dict_wf (AList.update k v d)"
  by (simp add: dict_wf_def distinct_update)

lemma dict_wf_delete [simp]: "dict_wf d \<Longrightarrow> dict_wf (AList.delete k d)"
  by (simp add: dict_wf_def distinct_delete)

lemma dict_wf_merge: "dict_wf d \<Longrightarrow> dict_wf (dict_merge d e)"
  unfolding dict_merge_def by (induction e arbitrary: d) auto

lemma map_of_merge: "map_of (dict_merge d e) k = (case map_of (rev e) k of None \<Rightarrow> map_of d k | Some v \<Rightarrow> Some v)"
  unfolding dict_merge_def
  by (induction e arbitrary: d)
     (auto simp: update_conv' map_add_def fun_upd_def split: option.splits if_splits)

text \<open>
  What the code relies on when it keeps a table: a lookup sees the last insert, other keys are
  untouched, removal removes. The locale is the interface through which the components use
  their tables; dictionaries provide it.
\<close>

locale table =
  fixes lookup :: "'d \<Rightarrow> 'k \<Rightarrow> 'v option"
    and insert :: "'k \<Rightarrow> 'v \<Rightarrow> 'd \<Rightarrow> 'd"
    and remove :: "'k \<Rightarrow> 'd \<Rightarrow> 'd"
    and wf :: "'d \<Rightarrow> bool"
  assumes lookup_insert: "lookup (insert k v d) k' = (if k' = k then Some v else lookup d k')"
    and lookup_remove: "lookup (remove k d) k' = (if k' = k then None else lookup d k')"
    and wf_insert: "wf d \<Longrightarrow> wf (insert k v d)"
    and wf_remove: "wf d \<Longrightarrow> wf (remove k d)"
begin

lemma lookup_insert_same: "lookup (insert k v d) k = Some v"
  by (simp add: lookup_insert)

lemma lookup_insert_other: "k' \<noteq> k \<Longrightarrow> lookup (insert k v d) k' = lookup d k'"
  by (simp add: lookup_insert)

lemma insert_remove: "lookup (remove k (insert k v d)) = lookup (remove k d)"
  by (rule ext) (simp add: lookup_insert lookup_remove)

text \<open>
  A property of the stored values that every inserted value has, and that removals cannot
  break, holds of every value a lookup finds.
\<close>

lemma lookup_all_insert:
  assumes "\<And>k' v'. lookup d k' = Some v' \<Longrightarrow> P k' v'" and "P k v"
    and "lookup (insert k v d) k' = Some v'"
  shows "P k' v'"
  using assms by (auto simp: lookup_insert split: if_splits)

lemma lookup_all_remove:
  assumes "\<And>k' v'. lookup d k' = Some v' \<Longrightarrow> P k' v'" and "lookup (remove k d) k' = Some v'"
  shows "P k' v'"
  using assms by (auto simp: lookup_remove split: if_splits)

end

interpretation dict: table map_of AList.update AList.delete dict_wf
  by unfold_locales (auto simp: update_conv' delete_conv')

lemma dget_delete [simp]: "dget (AList.delete k d) k' w = (if k' = k then w else dget d k' w)"
  by (simp add: dget_def dict.lookup_remove)

lemma map_of_value: "dict_wf d \<Longrightarrow> map_of d k = Some v \<longleftrightarrow> (k, v) \<in> set d"
  by (auto simp: dict_wf_def map_of_eq_Some_iff)

lemma map_of_map_pair: "map_of (map (\<lambda>(k, v). (k, g k v)) d) k = map_option (g k) (map_of d k)"
  by (induction d) auto

section \<open>Bounded queues\<close>

definition deque_append :: "nat \<Rightarrow> 'a list \<Rightarrow> 'a \<Rightarrow> 'a list" where
  \<comment> \<open>\<open>append\<close> on a \<open>deque(maxlen=n)\<close>\<close>
  "deque_append n xs x = (let ys = xs @ [x] in drop (length ys - n) ys)"

definition last_n :: "nat \<Rightarrow> 'a list \<Rightarrow> 'a list" where
  \<comment> \<open>\<open>xs[-n:]\<close> for positive \<open>n\<close>\<close>
  "last_n n xs = drop (length xs - n) xs"

text \<open>
  The contract of a sliding window that keeps the newest \<open>cap\<close> observations: below capacity an
  observation is added, at capacity the oldest one leaves. A client may then keep a running sum
  of any measure of the window's elements by adding the new element and subtracting the oldest
  one, and its running sum never drifts from the sum over the window.
\<close>

locale window =
  fixes cap :: nat and push :: "'a list \<Rightarrow> 'a \<Rightarrow> 'a list"
  assumes cap_pos: "0 < cap"
    and push_below: "length xs < cap \<Longrightarrow> push xs x = xs @ [x]"
    and push_full: "length xs = cap \<Longrightarrow> push xs x = tl xs @ [x]"
begin

lemma length_push: "length xs \<le> cap \<Longrightarrow> length (push xs x) \<le> cap"
  using cap_pos by (cases "length xs = cap") (auto simp: push_below push_full)

lemma push_ne: "length xs \<le> cap \<Longrightarrow> push xs x \<noteq> []"
  by (cases "length xs = cap") (auto simp: push_below push_full)

lemma last_push: "length xs \<le> cap \<Longrightarrow> last (push xs x) = x"
  by (cases "length xs = cap") (auto simp: push_below push_full)

lemma set_push: "length xs \<le> cap \<Longrightarrow> set (push xs x) \<subseteq> set xs \<union> {x}"
  by (cases "length xs = cap"; cases xs) (auto simp: push_below push_full)

lemma map_push: "length xs \<le> cap \<Longrightarrow>
   map f (push xs x) = (if length xs = cap then tl (map f xs) @ [f x] else map f xs @ [f x])"
  by (auto simp: push_below push_full map_tl)

lemma running_sum:
  fixes f :: "'a \<Rightarrow> real"
  assumes "length xs \<le> cap" and "s = sum_list (map f xs)"
  shows "sum_list (map f (push xs x)) = (if length xs = cap then s - f (hd xs) else s) + f x"
proof (cases "length xs = cap")
  case True
  with cap_pos obtain y ys where "xs = y # ys" by (cases xs) auto
  with True assms show ?thesis by (simp add: push_full)
qed (use assms in \<open>simp add: push_below\<close>)

end

lemma deque_window: "0 < n \<Longrightarrow> window n (deque_append n)"
proof
  fix xs :: "'a list" and x assume "0 < n" and "length xs = n"
  then show "deque_append n xs x = tl xs @ [x]"
    by (cases xs) (auto simp: deque_append_def Let_def)
qed (auto simp: deque_append_def Let_def)

interpretation deque1: window "Suc n" "deque_append (Suc n)" for n
  by (rule deque_window) simp

lemma length_deque_append: "length (deque_append n xs x) = min n (Suc (length xs))"
  by (simp add: deque_append_def Let_def)

section \<open>Steps and invariants\<close>

text \<open>
  Every stateful component is a step function over its operations. An invariant that each
  admissible step keeps holds after any sequence of admissible steps.
\<close>

locale machine =
  fixes step :: "'s \<Rightarrow> 'e \<Rightarrow> 's" and ok :: "'e \<Rightarrow> bool" and inv :: "'s \<Rightarrow> bool"
  assumes inv_step: "inv s \<Longrightarrow> ok e \<Longrightarrow> inv (step s e)"
begin

lemma inv_run: "inv s \<Longrightarrow> list_all ok es \<Longrightarrow> inv (foldl step s es)"
  by (induction es arbitrary: s) (auto intro: inv_step)

lemma inv_prefix: "inv s \<Longrightarrow> list_all ok (es @ es') \<Longrightarrow> inv (foldl step s es)"
  by (auto intro: inv_run)

end

section \<open>Extrema, averages\<close>

fun py_max :: "real list \<Rightarrow> real" where
  \<comment> \<open>\<open>max\<close> of a non-empty sequence; the callers guard the empty one\<close>
  "py_max [] = 0"
| "py_max [x] = x"
| "py_max (x # y # xs) = max x (py_max (y # xs))"

fun py_min :: "real list \<Rightarrow> real" where
  "py_min [] = 0"
| "py_min [x] = x"
| "py_min (x # y # xs) = min x (py_min (y # xs))"

lemma py_max_Max: "xs \<noteq> [] \<Longrightarrow> py_max xs = Max (set xs)"
  by (induction xs rule: py_max.induct) simp_all

lemma py_min_Min: "xs \<noteq> [] \<Longrightarrow> py_min xs = Min (set xs)"
  by (induction xs rule: py_min.induct) simp_all

lemma py_max_ge: "x \<in> set xs \<Longrightarrow> x \<le> py_max xs"
  by (cases xs) (simp_all add: py_max_Max)

lemma py_min_le: "x \<in> set xs \<Longrightarrow> py_min xs \<le> x"
  by (cases xs) (simp_all add: py_min_Min)

lemma py_max_in: "xs \<noteq> [] \<Longrightarrow> py_max xs \<in> set xs"
  by (simp add: py_max_Max)

lemma py_min_in: "xs \<noteq> [] \<Longrightarrow> py_min xs \<in> set xs"
  by (simp add: py_min_Min)

lemma share_bounded:
  fixes a b :: real
  assumes "0 \<le> a" "0 \<le> b"
  shows "\<bar>(a - b) / (a + b)\<bar> \<le> 1"
proof (cases "a + b = 0")
  case False
  with assms have "0 < a + b" by linarith
  with assms show ?thesis by (simp add: abs_le_iff field_simps)
qed simp

text \<open>A weighted average lies between bounds of the values.\<close>

lemma weighted_average_bounds:
  fixes f g :: "'a \<Rightarrow> real"
  assumes "\<And>x. x \<in> set xs \<Longrightarrow> 0 \<le> g x" and "\<And>x. x \<in> set xs \<Longrightarrow> lo \<le> f x \<and> f x \<le> hi"
  shows "lo * sum_list (map g xs) \<le> sum_list (map (\<lambda>x. f x * g x) xs)"
    and "sum_list (map (\<lambda>x. f x * g x) xs) \<le> hi * sum_list (map g xs)"
  using assms
  by (induction xs) (simp_all add: distrib_left add_mono mult_right_mono)

definition mean :: "real list \<Rightarrow> real" where
  "mean xs = sum_list xs / real (length xs)"

definition sq_dev :: "real list \<Rightarrow> real" where
  \<comment> \<open>the sum of squared deviations from the mean\<close>
  "sq_dev xs = sum_list (map (\<lambda>x. (x - mean xs)\<^sup>2) xs)"

lemma sq_dev_nonneg [simp]: "0 \<le> sq_dev xs"
  unfolding sq_dev_def by (rule sum_list_nonneg) auto

section \<open>Correlation\<close>

definition co_dev :: "real list \<Rightarrow> real list \<Rightarrow> real" where
  \<comment> \<open>the sum of products of deviations from the means\<close>
  "co_dev xs ys = sum_list (map (\<lambda>(x, y). (x - mean xs) * (y - mean ys)) (zip xs ys))"

lemma cauchy_step:
  fixes S A B a b :: real
  assumes "S\<^sup>2 \<le> A * B" "0 \<le> A" "0 \<le> B"
  shows "(S + a * b)\<^sup>2 \<le> (A + a\<^sup>2) * (B + b\<^sup>2)"
proof -
  define x where "x = A * b\<^sup>2"
  define y where "y = B * a\<^sup>2"
  have "(2 * S * (a * b))\<^sup>2 = 4 * S\<^sup>2 * (a\<^sup>2 * b\<^sup>2)" by (simp add: power_mult_distrib)
  also have "\<dots> \<le> 4 * (A * B) * (a\<^sup>2 * b\<^sup>2)" using assms by (intro mult_right_mono) auto
  also have "\<dots> = 4 * (x * y)" by (simp add: x_def y_def)
  also have "\<dots> \<le> (x + y)\<^sup>2"
    using zero_le_power2 [of "x - y"] by (simp add: power2_sum power2_diff)
  finally have "\<bar>2 * S * (a * b)\<bar> \<le> \<bar>x + y\<bar>" by (simp only: abs_le_square_iff)
  moreover have "0 \<le> x + y" using assms(2,3) by (simp add: x_def y_def)
  ultimately have "2 * S * (a * b) \<le> x + y" by linarith
  moreover have "(S + a * b)\<^sup>2 = S\<^sup>2 + 2 * S * (a * b) + a\<^sup>2 * b\<^sup>2"
    by (simp add: power2_sum power_mult_distrib)
  moreover have "(A + a\<^sup>2) * (B + b\<^sup>2) = A * B + (x + y) + a\<^sup>2 * b\<^sup>2"
    by (simp add: x_def y_def algebra_simps)
  ultimately show ?thesis using assms(1) by linarith
qed

lemma cauchy_schwarz_list:
  fixes ps :: "(real \<times> real) list"
  shows "(sum_list (map (\<lambda>(a, b). a * b) ps))\<^sup>2 \<le> sum_list (map (\<lambda>(a, b). a\<^sup>2) ps) * sum_list (map (\<lambda>(a, b). b\<^sup>2) ps)"
proof (induction ps)
  case (Cons p ps)
  obtain a b where p: "p = (a, b)" by fastforce
  have "0 \<le> sum_list (map (\<lambda>(a, b). a\<^sup>2) ps)" "0 \<le> sum_list (map (\<lambda>(a, b). b\<^sup>2) ps)"
    by (rule sum_list_nonneg; auto)+
  from cauchy_step [OF Cons.IH this, of a b] show ?case by (simp add: p add.commute)
qed simp

lemma sq_dev_zip:
  assumes "length xs = length ys"
  shows "sq_dev xs = sum_list (map (\<lambda>(a, b). a\<^sup>2) (map (\<lambda>(x, y). (x - mean xs, y - mean ys)) (zip xs ys)))"
    "sq_dev ys = sum_list (map (\<lambda>(a, b). b\<^sup>2) (map (\<lambda>(x, y). (x - mean xs, y - mean ys)) (zip xs ys)))"
proof -
  have "map (\<lambda>x. (x - m)\<^sup>2) xs = map (\<lambda>p. (fst p - m)\<^sup>2) (zip xs ys)" for m
    by (rule nth_equalityI) (use assms in auto)
  moreover have "map (\<lambda>y. (y - m)\<^sup>2) ys = map (\<lambda>p. (snd p - m)\<^sup>2) (zip xs ys)" for m
    by (rule nth_equalityI) (use assms in auto)
  ultimately show "sq_dev xs = sum_list (map (\<lambda>(a, b). a\<^sup>2) (map (\<lambda>(x, y). (x - mean xs, y - mean ys)) (zip xs ys)))"
    "sq_dev ys = sum_list (map (\<lambda>(a, b). b\<^sup>2) (map (\<lambda>(x, y). (x - mean xs, y - mean ys)) (zip xs ys)))"
    by (simp_all add: sq_dev_def o_def case_prod_unfold)
qed

text \<open>Correlations lie between -1 and 1.\<close>

lemma co_dev_bound:
  assumes "length xs = length ys"
  shows "(co_dev xs ys)\<^sup>2 \<le> sq_dev xs * sq_dev ys"
  using cauchy_schwarz_list [of "map (\<lambda>(x, y). (x - mean xs, y - mean ys)) (zip xs ys)"]
  unfolding sq_dev_zip [OF assms, symmetric] by (simp add: co_dev_def o_def case_prod_unfold)

lemma correlation_bound:
  assumes "length xs = length ys" and "0 < n"
  shows "\<bar>co_dev xs ys / n\<bar> \<le> sqrt ((sq_dev xs / n) * (sq_dev ys / n))"
proof -
  have "\<bar>co_dev xs ys\<bar> \<le> sqrt (sq_dev xs * sq_dev ys)"
    using co_dev_bound [OF assms(1)] by (simp add: real_le_rsqrt)
  moreover have "sqrt ((sq_dev xs / n) * (sq_dev ys / n)) = sqrt (sq_dev xs * sq_dev ys) / n"
    using assms(2) by (simp add: real_sqrt_mult real_sqrt_divide)
  ultimately show ?thesis using assms(2) by (simp add: divide_right_mono)
qed

lemma round_half_even_bound:
  assumes "\<bar>y\<bar> \<le> of_int k"
  shows "\<bar>round_half_even y\<bar> \<le> k"
proof -
  have "\<bar>of_int (round_half_even y)\<bar> \<le> \<bar>y\<bar> + 1 / 2" using round_half_even_error [of y] by linarith
  with assms have "\<bar>of_int (round_half_even y) :: real\<bar> < of_int (k + 1)" by simp
  then show ?thesis by linarith
qed

lemma py_round_le_1: "\<bar>x\<bar> \<le> 1 \<Longrightarrow> \<bar>py_round x n\<bar> \<le> 1"
proof -
  assume "\<bar>x\<bar> \<le> 1"
  then have "\<bar>x * 10 ^ n\<bar> \<le> of_int (10 ^ n)" by (simp add: abs_mult)
  from round_half_even_bound [OF this] have "\<bar>of_int (round_half_even (x * 10 ^ n)) :: real\<bar> \<le> 10 ^ n"
    by (metis of_int_abs of_int_le_iff of_int_numeral of_int_power)
  then show ?thesis by (simp add: py_round_def abs_divide divide_le_eq)
qed

lemma py_round_nonneg: "0 \<le> x \<Longrightarrow> 0 \<le> py_round x n"
proof -
  assume "0 \<le> x"
  then have "0 \<le> \<lfloor>x * 10 ^ n\<rfloor>" by simp
  then have "0 \<le> round_half_even (x * 10 ^ n)" by (auto simp: round_half_even_def Let_def)
  then show ?thesis by (simp add: py_round_def)
qed

lemma round_half_even_ge: "of_int k \<le> y \<Longrightarrow> k \<le> round_half_even y"
  by (simp add: round_half_even_def Let_def le_floor_iff [symmetric])

lemma round_half_even_le: "y \<le> of_int k \<Longrightarrow> round_half_even y \<le> k"
proof -
  assume "y \<le> of_int k"
  moreover have "of_int (round_half_even y) \<le> y + 1 / 2" using round_half_even_error [of y] by linarith
  ultimately have "(of_int (round_half_even y) :: real) < of_int (k + 1)" by simp
  then show ?thesis by linarith
qed

lemma py_round_between:
  assumes "of_int a / 10 ^ n \<le> x" and "x \<le> of_int b / 10 ^ n"
  shows "of_int a / 10 ^ n \<le> py_round x n \<and> py_round x n \<le> of_int b / 10 ^ n"
proof -
  have "of_int a \<le> x * 10 ^ n" "x * 10 ^ n \<le> of_int b" using assms by (simp_all add: field_simps)
  from round_half_even_ge [OF this(1)] round_half_even_le [OF this(2)] show ?thesis
    by (simp add: py_round_def divide_right_mono)
qed

lemma py_round_ge: "of_int a / 10 ^ n \<le> x \<Longrightarrow> of_int a / 10 ^ n \<le> py_round x n"
proof -
  assume "of_int a / 10 ^ n \<le> x"
  then have "of_int a \<le> x * 10 ^ n" by (simp add: field_simps)
  from round_half_even_ge [OF this] show ?thesis by (simp add: py_round_def divide_right_mono)
qed

end
