(* ===== verification/Json_Value.thy ===== *)
theory Json_Value
  imports Py_Base
begin

text \<open>
  JSON documents as the services exchange them. \<open>json.dumps\<close> and \<open>json.loads\<close> of the standard
  library convert between the text and this tree and are inverse to each other, so a message is
  modelled by its tree. The decoding functions are the pieces of \<open>cls(**data)\<close>: an object
  that is no dictionary or has an unknown key is a \<open>TypeError\<close>, a missing key takes the
  dataclass default. Python does not check the types of the fields; a field of the wrong type is
  rejected here at once, where Python fails at the first arithmetic on it.
\<close>

datatype json =
    JNull
  | JBool bool
  | JInt int
  | JNum real
  | JStr string
  | JList "json list"
  | JObj "(string \<times> json) list"

text \<open>A text from outside (a Kafka payload, a Redis value): the document it parses to, or no JSON at all.\<close>

datatype stored = Document json | Unparsable string

fun loads :: "stored \<Rightarrow> py_error + json" where
  "loads (Document j) = Inr j"
| "loads (Unparsable _) = Inl (ValueError ''JSONDecodeError'')"

fun as_str :: "json \<Rightarrow> py_error + string" where
  "as_str (JStr s) = Inr s"
| "as_str _ = Inl TypeError"

fun as_int :: "json \<Rightarrow> py_error + int" where
  "as_int (JInt i) = Inr i"
| "as_int _ = Inl TypeError"

fun as_num :: "json \<Rightarrow> py_error + real" where
  "as_num (JNum x) = Inr x"
| "as_num (JInt i) = Inr (of_int i)"
| "as_num _ = Inl TypeError"

fun as_bool :: "json \<Rightarrow> py_error + bool" where
  "as_bool (JBool b) = Inr b"
| "as_bool _ = Inl TypeError"

fun as_opt :: "(json \<Rightarrow> py_error + 'a) \<Rightarrow> json \<Rightarrow> py_error + 'a option" where
  "as_opt dec JNull = Inr None"
| "as_opt dec j = (case dec j of Inl e \<Rightarrow> Inl e | Inr x \<Rightarrow> Inr (Some x))"

fun as_list :: "(json \<Rightarrow> py_error + 'a) \<Rightarrow> json \<Rightarrow> py_error + 'a list" where
  "as_list dec (JList js) =
     foldr (\<lambda>j acc. ebind (dec j) (\<lambda>x. ebind acc (\<lambda>xs. Inr (x # xs)))) js (Inr [])"
| "as_list dec _ = Inl TypeError"

fun as_obj :: "json \<Rightarrow> py_error + (string, json) dict" where
  "as_obj (JObj kvs) = Inr kvs"
| "as_obj _ = Inl TypeError"

fun as_pair :: "json \<Rightarrow> py_error + (real \<times> real)" where
  \<comment> \<open>a book level \<open>[price, qty]\<close>\<close>
  "as_pair (JList [a, b]) = ebind (as_num a) (\<lambda>p. ebind (as_num b) (\<lambda>q. Inr (p, q)))"
| "as_pair _ = Inl TypeError"

definition kwargs :: "string list \<Rightarrow> json \<Rightarrow> py_error + (string, json) dict" where
  "kwargs names j = ebind (as_obj j) (\<lambda>d. if list_all (\<lambda>(k, _). k \<in> set names) d then Inr d else Inl TypeError)"

definition arg :: "(json \<Rightarrow> py_error + 'a) \<Rightarrow> (string, json) dict \<Rightarrow> string \<Rightarrow> 'a \<Rightarrow> py_error + 'a" where
  "arg dec d name dflt = (case map_of d name of None \<Rightarrow> Inr dflt | Some j \<Rightarrow> dec j)"

definition subscript :: "(string, json) dict \<Rightarrow> string \<Rightarrow> py_error + json" where
  \<comment> \<open>\<open>d[k]\<close>\<close>
  "subscript d k = (case map_of d k of None \<Rightarrow> Inl (KeyError k) | Some j \<Rightarrow> Inr j)"

declare subscript_def [lookups]

fun as_dict :: "json \<Rightarrow> py_error + (string, json) dict" where
  \<comment> \<open>a value on which \<open>.get\<close> is called\<close>
  "as_dict (JObj kvs) = Inr kvs"
| "as_dict _ = Inl (AttributeError ''get'')"

fun items_of :: "json \<Rightarrow> py_error + json list" where
  \<comment> \<open>iteration over a list\<close>
  "items_of (JList js) = Inr js"
| "items_of _ = Inl TypeError"

definition zip_strict :: "'a list \<Rightarrow> 'b list \<Rightarrow> py_error + ('a \<times> 'b) list" where
  "zip_strict xs ys = (if length xs = length ys then Inr (zip xs ys) else Inl (ValueError ''zip() arguments differ in length''))"

definition of_opt :: "('a \<Rightarrow> json) \<Rightarrow> 'a option \<Rightarrow> json" where
  "of_opt enc x = (case x of None \<Rightarrow> JNull | Some v \<Rightarrow> enc v)"

definition of_level :: "real \<times> real \<Rightarrow> json" where
  "of_level = (\<lambda>(p, q). JList [JNum p, JNum q])"

lemma as_list_map:
  assumes "\<And>x. dec (enc x) = Inr x"
  shows "as_list dec (JList (map enc xs)) = Inr xs"
  by (induction xs) (simp_all add: assms)

lemma as_pair_level [simp]: "as_pair (of_level pq) = Inr pq"
  by (cases pq) (simp add: of_level_def)

lemma as_list_levels [simp]: "as_list as_pair (JList (map of_level ls)) = Inr ls"
  by (rule as_list_map) simp

lemma as_list_strs [simp]: "as_list as_str (JList (map JStr ls)) = Inr ls"
  by (rule as_list_map) simp

lemma as_opt_str [simp]: "as_opt as_str (of_opt JStr x) = Inr x"
  by (cases x) (simp_all add: of_opt_def)

lemma as_opt_num [simp]: "as_opt as_num (of_opt JNum x) = Inr x"
  by (cases x) (simp_all add: of_opt_def)

end
