(* ===== verification/Models.thy ===== *)
theory Models
  imports Json_Value
begin

text \<open>
  The event dataclasses of \<open>lib/quant_core/models.py\<close>, each with its \<open>to_json\<close> and
  \<open>from_json\<close>. The fields have the source's order and defaults; a field's name carries a prefix
  for its record (\<open>tr_\<close> for Trade, \<open>dp_\<close> DepthUpdate, \<open>sg_\<close> Signal, \<open>or_\<close> Order, \<open>fl_\<close> Fill,
  \<open>su_\<close> OrderStatusUpdate, \<open>rd_\<close> RiskDecision). A default that the source draws from
  \<open>uuid.uuid4()\<close> is the argument \<open>uid\<close>.
\<close>

section \<open>Enumerations\<close>

datatype order_status = SUBMITTED | ACCEPTED | FILLED | PARTIALLY_FILLED | REJECTED | CANCELLED

fun status_str :: "order_status \<Rightarrow> string" where
  "status_str SUBMITTED = ''SUBMITTED''"
| "status_str ACCEPTED = ''ACCEPTED''"
| "status_str FILLED = ''FILLED''"
| "status_str PARTIALLY_FILLED = ''PARTIALLY_FILLED''"
| "status_str REJECTED = ''REJECTED''"
| "status_str CANCELLED = ''CANCELLED''"

lemma status_str_inj [simp]: "status_str s = status_str t \<longleftrightarrow> s = t"
  by (cases s; cases t) simp_all

section \<open>Market data events\<close>

record trade =
  tr_type :: string
  tr_exchange :: string
  tr_symbol :: string
  tr_trade_id :: int
  tr_price :: real
  tr_quantity :: real
  tr_timestamp_exchange :: int
  tr_timestamp_ingested :: int
  tr_is_buyer_maker :: bool

definition trade_default :: trade where
  "trade_default = \<lparr>tr_type = ''trade'', tr_exchange = ''binance'', tr_symbol = '''', tr_trade_id = 0,
     tr_price = 0, tr_quantity = 0, tr_timestamp_exchange = 0, tr_timestamp_ingested = 0,
     tr_is_buyer_maker = False\<rparr>"

definition trade_fields :: "string list" where
  "trade_fields = [''type'', ''exchange'', ''symbol'', ''trade_id'', ''price'', ''quantity'',
     ''timestamp_exchange'', ''timestamp_ingested'', ''is_buyer_maker'']"

definition trade_to_json :: "trade \<Rightarrow> json" where
  "trade_to_json t = JObj [(''type'', JStr (tr_type t)), (''exchange'', JStr (tr_exchange t)),
     (''symbol'', JStr (tr_symbol t)), (''trade_id'', JInt (tr_trade_id t)),
     (''price'', JNum (tr_price t)), (''quantity'', JNum (tr_quantity t)),
     (''timestamp_exchange'', JInt (tr_timestamp_exchange t)),
     (''timestamp_ingested'', JInt (tr_timestamp_ingested t)),
     (''is_buyer_maker'', JBool (tr_is_buyer_maker t))]"

definition trade_from_json :: "json \<Rightarrow> py_error + trade" where
  "trade_from_json raw = ebind (kwargs trade_fields raw) (\<lambda>data.
     ebind (arg as_str data ''type'' ''trade'') (\<lambda>ty.
     ebind (arg as_str data ''exchange'' ''binance'') (\<lambda>ex.
     ebind (arg as_str data ''symbol'' '''') (\<lambda>sym.
     ebind (arg as_int data ''trade_id'' 0) (\<lambda>tid.
     ebind (arg as_num data ''price'' 0) (\<lambda>p.
     ebind (arg as_num data ''quantity'' 0) (\<lambda>q.
     ebind (arg as_int data ''timestamp_exchange'' 0) (\<lambda>te.
     ebind (arg as_int data ''timestamp_ingested'' 0) (\<lambda>ti.
     ebind (arg as_bool data ''is_buyer_maker'' False) (\<lambda>m.
     Inr \<lparr>tr_type = ty, tr_exchange = ex, tr_symbol = sym, tr_trade_id = tid, tr_price = p,
       tr_quantity = q, tr_timestamp_exchange = te, tr_timestamp_ingested = ti,
       tr_is_buyer_maker = m\<rparr>))))))))))"

record depth_update =
  dp_type :: string
  dp_exchange :: string
  dp_symbol :: string
  dp_first_update_id :: int
  dp_final_update_id :: int
  dp_bids :: "(real \<times> real) list"
  dp_asks :: "(real \<times> real) list"
  dp_timestamp_exchange :: int
  dp_timestamp_ingested :: int

definition depth_default :: depth_update where
  "depth_default = \<lparr>dp_type = ''depth_update'', dp_exchange = ''binance'', dp_symbol = '''',
     dp_first_update_id = 0, dp_final_update_id = 0, dp_bids = [], dp_asks = [],
     dp_timestamp_exchange = 0, dp_timestamp_ingested = 0\<rparr>"

definition depth_fields :: "string list" where
  "depth_fields = [''type'', ''exchange'', ''symbol'', ''first_update_id'', ''final_update_id'',
     ''bids'', ''asks'', ''timestamp_exchange'', ''timestamp_ingested'']"

definition depth_to_json :: "depth_update \<Rightarrow> json" where
  "depth_to_json d = JObj [(''type'', JStr (dp_type d)), (''exchange'', JStr (dp_exchange d)),
     (''symbol'', JStr (dp_symbol d)), (''first_update_id'', JInt (dp_first_update_id d)),
     (''final_update_id'', JInt (dp_final_update_id d)),
     (''bids'', JList (map of_level (dp_bids d))), (''asks'', JList (map of_level (dp_asks d))),
     (''timestamp_exchange'', JInt (dp_timestamp_exchange d)),
     (''timestamp_ingested'', JInt (dp_timestamp_ingested d))]"

definition depth_from_json :: "json \<Rightarrow> py_error + depth_update" where
  "depth_from_json raw = ebind (kwargs depth_fields raw) (\<lambda>data.
     ebind (arg as_str data ''type'' ''depth_update'') (\<lambda>ty.
     ebind (arg as_str data ''exchange'' ''binance'') (\<lambda>ex.
     ebind (arg as_str data ''symbol'' '''') (\<lambda>sym.
     ebind (arg as_int data ''first_update_id'' 0) (\<lambda>fi.
     ebind (arg as_int data ''final_update_id'' 0) (\<lambda>la.
     ebind (arg (as_list as_pair) data ''bids'' []) (\<lambda>bs.
     ebind (arg (as_list as_pair) data ''asks'' []) (\<lambda>as.
     ebind (arg as_int data ''timestamp_exchange'' 0) (\<lambda>te.
     ebind (arg as_int data ''timestamp_ingested'' 0) (\<lambda>ti.
     Inr \<lparr>dp_type = ty, dp_exchange = ex, dp_symbol = sym, dp_first_update_id = fi,
       dp_final_update_id = la, dp_bids = bs, dp_asks = as, dp_timestamp_exchange = te,
       dp_timestamp_ingested = ti\<rparr>))))))))))"

section \<open>Signals\<close>

record signal =
  sg_signal_id :: string
  sg_timestamp :: int
  sg_strategy_id :: string
  sg_symbol :: string
  sg_side :: string
  sg_strength :: real
  sg_target_quantity :: real
  sg_urgency :: real
  sg_metadata :: "(string, json) dict"
  sg_mid_price_at_signal :: real
  sg_spread_at_signal :: real

definition signal_fields :: "string list" where
  "signal_fields = [''signal_id'', ''timestamp'', ''strategy_id'', ''symbol'', ''side'', ''strength'',
     ''target_quantity'', ''urgency'', ''metadata'', ''mid_price_at_signal'', ''spread_at_signal'']"

definition signal_to_json :: "signal \<Rightarrow> json" where
  "signal_to_json s = JObj [(''signal_id'', JStr (sg_signal_id s)), (''timestamp'', JInt (sg_timestamp s)),
     (''strategy_id'', JStr (sg_strategy_id s)), (''symbol'', JStr (sg_symbol s)),
     (''side'', JStr (sg_side s)), (''strength'', JNum (sg_strength s)),
     (''target_quantity'', JNum (sg_target_quantity s)), (''urgency'', JNum (sg_urgency s)),
     (''metadata'', JObj (sg_metadata s)),
     (''mid_price_at_signal'', JNum (sg_mid_price_at_signal s)),
     (''spread_at_signal'', JNum (sg_spread_at_signal s))]"

definition signal_from_json :: "string \<Rightarrow> json \<Rightarrow> py_error + signal" where
  "signal_from_json uid raw = ebind (kwargs signal_fields raw) (\<lambda>data.
     ebind (arg as_str data ''signal_id'' uid) (\<lambda>sid.
     ebind (arg as_int data ''timestamp'' 0) (\<lambda>ts.
     ebind (arg as_str data ''strategy_id'' '''') (\<lambda>strat.
     ebind (arg as_str data ''symbol'' '''') (\<lambda>sym.
     ebind (arg as_str data ''side'' '''') (\<lambda>side.
     ebind (arg as_num data ''strength'' 0) (\<lambda>str.
     ebind (arg as_num data ''target_quantity'' 0) (\<lambda>q.
     ebind (arg as_num data ''urgency'' (1 / 2)) (\<lambda>u.
     ebind (arg as_obj data ''metadata'' []) (\<lambda>md.
     ebind (arg as_num data ''mid_price_at_signal'' 0) (\<lambda>mid.
     ebind (arg as_num data ''spread_at_signal'' 0) (\<lambda>spr.
     Inr \<lparr>sg_signal_id = sid, sg_timestamp = ts, sg_strategy_id = strat, sg_symbol = sym,
       sg_side = side, sg_strength = str, sg_target_quantity = q, sg_urgency = u,
       sg_metadata = md, sg_mid_price_at_signal = mid, sg_spread_at_signal = spr\<rparr>))))))))))))"

section \<open>Orders and fills\<close>

record order =
  or_order_id :: string
  or_timestamp :: int
  or_symbol :: string
  or_side :: string
  or_order_type :: string
  or_quantity :: real
  or_limit_price :: "real option"
  or_status :: string
  or_signal_id :: string
  or_strategy_id :: string
  or_backtest_id :: "string option"

definition order_fields :: "string list" where
  "order_fields = [''order_id'', ''timestamp'', ''symbol'', ''side'', ''order_type'', ''quantity'',
     ''limit_price'', ''status'', ''signal_id'', ''strategy_id'', ''backtest_id'']"

definition order_to_json :: "order \<Rightarrow> json" where
  "order_to_json r = JObj [(''order_id'', JStr (or_order_id r)), (''timestamp'', JInt (or_timestamp r)),
     (''symbol'', JStr (or_symbol r)), (''side'', JStr (or_side r)),
     (''order_type'', JStr (or_order_type r)), (''quantity'', JNum (or_quantity r)),
     (''limit_price'', of_opt JNum (or_limit_price r)), (''status'', JStr (or_status r)),
     (''signal_id'', JStr (or_signal_id r)), (''strategy_id'', JStr (or_strategy_id r)),
     (''backtest_id'', of_opt JStr (or_backtest_id r))]"

definition order_from_json :: "string \<Rightarrow> json \<Rightarrow> py_error + order" where
  "order_from_json uid raw = ebind (kwargs order_fields raw) (\<lambda>data.
     ebind (arg as_str data ''order_id'' uid) (\<lambda>oid.
     ebind (arg as_int data ''timestamp'' 0) (\<lambda>ts.
     ebind (arg as_str data ''symbol'' '''') (\<lambda>sym.
     ebind (arg as_str data ''side'' '''') (\<lambda>side.
     ebind (arg as_str data ''order_type'' ''MARKET'') (\<lambda>ot.
     ebind (arg as_num data ''quantity'' 0) (\<lambda>q.
     ebind (arg (as_opt as_num) data ''limit_price'' None) (\<lambda>lp.
     ebind (arg as_str data ''status'' ''SUBMITTED'') (\<lambda>st.
     ebind (arg as_str data ''signal_id'' '''') (\<lambda>sid.
     ebind (arg as_str data ''strategy_id'' '''') (\<lambda>strat.
     ebind (arg (as_opt as_str) data ''backtest_id'' None) (\<lambda>bt.
     Inr \<lparr>or_order_id = oid, or_timestamp = ts, or_symbol = sym, or_side = side,
       or_order_type = ot, or_quantity = q, or_limit_price = lp, or_status = st,
       or_signal_id = sid, or_strategy_id = strat, or_backtest_id = bt\<rparr>))))))))))))"

record fill =
  fl_fill_id :: string
  fl_timestamp :: int
  fl_order_id :: string
  fl_symbol :: string
  fl_side :: string
  fl_quantity :: real
  fl_fill_price :: real
  fl_fee :: real
  fl_fee_rate :: real
  fl_is_maker :: bool
  fl_slippage_bps :: real
  fl_backtest_id :: "string option"
  fl_strategy_id :: string
  fl_trading_mode :: string

definition fill_fields :: "string list" where
  "fill_fields = [''fill_id'', ''timestamp'', ''order_id'', ''symbol'', ''side'', ''quantity'',
     ''fill_price'', ''fee'', ''fee_rate'', ''is_maker'', ''slippage_bps'', ''backtest_id'',
     ''strategy_id'', ''trading_mode'']"

definition fill_to_json :: "fill \<Rightarrow> json" where
  "fill_to_json f = JObj [(''fill_id'', JStr (fl_fill_id f)), (''timestamp'', JInt (fl_timestamp f)),
     (''order_id'', JStr (fl_order_id f)), (''symbol'', JStr (fl_symbol f)),
     (''side'', JStr (fl_side f)), (''quantity'', JNum (fl_quantity f)),
     (''fill_price'', JNum (fl_fill_price f)), (''fee'', JNum (fl_fee f)),
     (''fee_rate'', JNum (fl_fee_rate f)), (''is_maker'', JBool (fl_is_maker f)),
     (''slippage_bps'', JNum (fl_slippage_bps f)), (''backtest_id'', of_opt JStr (fl_backtest_id f)),
     (''strategy_id'', JStr (fl_strategy_id f)), (''trading_mode'', JStr (fl_trading_mode f))]"

definition setdefault :: "string \<Rightarrow> json \<Rightarrow> (string, json) dict \<Rightarrow> (string, json) dict" where
  "setdefault k v d = (case map_of d k of None \<Rightarrow> AList.update k v d | Some _ \<Rightarrow> d)"

definition fill_from_json :: "string \<Rightarrow> json \<Rightarrow> py_error + fill" where
  "fill_from_json uid raw = ebind (as_obj raw) (\<lambda>raw_data.
     ebind (kwargs fill_fields (JObj
       (setdefault ''is_maker'' (JBool False) (setdefault ''fee_rate'' (JNum 0)
         (setdefault ''trading_mode'' (JStr ''paper'') raw_data))))) (\<lambda>data.
     ebind (arg as_str data ''fill_id'' uid) (\<lambda>fid.
     ebind (arg as_int data ''timestamp'' 0) (\<lambda>ts.
     ebind (arg as_str data ''order_id'' '''') (\<lambda>oid.
     ebind (arg as_str data ''symbol'' '''') (\<lambda>sym.
     ebind (arg as_str data ''side'' '''') (\<lambda>side.
     ebind (arg as_num data ''quantity'' 0) (\<lambda>q.
     ebind (arg as_num data ''fill_price'' 0) (\<lambda>p.
     ebind (arg as_num data ''fee'' 0) (\<lambda>fee.
     ebind (arg as_num data ''fee_rate'' 0) (\<lambda>rate.
     ebind (arg as_bool data ''is_maker'' False) (\<lambda>mk.
     ebind (arg as_num data ''slippage_bps'' 0) (\<lambda>sl.
     ebind (arg (as_opt as_str) data ''backtest_id'' None) (\<lambda>bt.
     ebind (arg as_str data ''strategy_id'' '''') (\<lambda>strat.
     ebind (arg as_str data ''trading_mode'' ''paper'') (\<lambda>mode.
     Inr \<lparr>fl_fill_id = fid, fl_timestamp = ts, fl_order_id = oid, fl_symbol = sym, fl_side = side,
       fl_quantity = q, fl_fill_price = p, fl_fee = fee, fl_fee_rate = rate, fl_is_maker = mk,
       fl_slippage_bps = sl, fl_backtest_id = bt, fl_strategy_id = strat,
       fl_trading_mode = mode\<rparr>))))))))))))))))"

section \<open>Order status events and risk decisions\<close>

record order_status_update =
  su_order_id :: string
  su_exchange_order_id :: string
  su_status :: string
  su_filled_quantity :: real
  su_remaining_quantity :: real
  su_avg_fill_price :: real
  su_timestamp :: int
  su_reason :: string
  su_backtest_id :: "string option"

definition status_update_to_json :: "order_status_update \<Rightarrow> json" where
  "status_update_to_json u = JObj [(''order_id'', JStr (su_order_id u)),
     (''exchange_order_id'', JStr (su_exchange_order_id u)), (''status'', JStr (su_status u)),
     (''filled_quantity'', JNum (su_filled_quantity u)),
     (''remaining_quantity'', JNum (su_remaining_quantity u)),
     (''avg_fill_price'', JNum (su_avg_fill_price u)), (''timestamp'', JInt (su_timestamp u)),
     (''reason'', JStr (su_reason u)), (''backtest_id'', of_opt JStr (su_backtest_id u))]"

definition status_update_fields :: "string list" where
  "status_update_fields = [''order_id'', ''exchange_order_id'', ''status'', ''filled_quantity'',
     ''remaining_quantity'', ''avg_fill_price'', ''timestamp'', ''reason'', ''backtest_id'']"

definition status_update_from_json :: "json \<Rightarrow> py_error + order_status_update" where
  "status_update_from_json raw = ebind (kwargs status_update_fields raw) (\<lambda>data.
     ebind (arg as_str data ''order_id'' '''') (\<lambda>oid.
     ebind (arg as_str data ''exchange_order_id'' '''') (\<lambda>eid.
     ebind (arg as_str data ''status'' '''') (\<lambda>st.
     ebind (arg as_num data ''filled_quantity'' 0) (\<lambda>fq.
     ebind (arg as_num data ''remaining_quantity'' 0) (\<lambda>rq.
     ebind (arg as_num data ''avg_fill_price'' 0) (\<lambda>ap.
     ebind (arg as_int data ''timestamp'' 0) (\<lambda>ts.
     ebind (arg as_str data ''reason'' '''') (\<lambda>rs.
     ebind (arg (as_opt as_str) data ''backtest_id'' None) (\<lambda>bt.
     Inr \<lparr>su_order_id = oid, su_exchange_order_id = eid, su_status = st, su_filled_quantity = fq,
       su_remaining_quantity = rq, su_avg_fill_price = ap, su_timestamp = ts, su_reason = rs,
       su_backtest_id = bt\<rparr>))))))))))"

record risk_decision =
  rd_signal_id :: string
  rd_decision :: string
  rd_reason :: string
  rd_adjusted_quantity :: real
  rd_timestamp :: int
  rd_checks_passed :: "string list"
  rd_checks_failed :: "string list"

definition risk_decision_to_json :: "risk_decision \<Rightarrow> json" where
  "risk_decision_to_json r = JObj [(''signal_id'', JStr (rd_signal_id r)),
     (''decision'', JStr (rd_decision r)), (''reason'', JStr (rd_reason r)),
     (''adjusted_quantity'', JNum (rd_adjusted_quantity r)), (''timestamp'', JInt (rd_timestamp r)),
     (''checks_passed'', JList (map JStr (rd_checks_passed r))),
     (''checks_failed'', JList (map JStr (rd_checks_failed r)))]"

definition risk_decision_fields :: "string list" where
  "risk_decision_fields = [''signal_id'', ''decision'', ''reason'', ''adjusted_quantity'', ''timestamp'',
     ''checks_passed'', ''checks_failed'']"

definition risk_decision_from_json :: "json \<Rightarrow> py_error + risk_decision" where
  "risk_decision_from_json raw = ebind (kwargs risk_decision_fields raw) (\<lambda>data.
     ebind (arg as_str data ''signal_id'' '''') (\<lambda>sid.
     ebind (arg as_str data ''decision'' '''') (\<lambda>dec.
     ebind (arg as_str data ''reason'' '''') (\<lambda>rs.
     ebind (arg as_num data ''adjusted_quantity'' 0) (\<lambda>q.
     ebind (arg as_int data ''timestamp'' 0) (\<lambda>ts.
     ebind (arg (as_list as_str) data ''checks_passed'' []) (\<lambda>cp.
     ebind (arg (as_list as_str) data ''checks_failed'' []) (\<lambda>cf.
     Inr \<lparr>rd_signal_id = sid, rd_decision = dec, rd_reason = rs, rd_adjusted_quantity = q,
       rd_timestamp = ts, rd_checks_passed = cp, rd_checks_failed = cf\<rparr>))))))))"

section \<open>Round trips\<close>

lemma arg_hit: "map_of d k = Some j \<Longrightarrow> arg dec d k v = dec j"
  by (simp add: arg_def)

lemma arg_miss: "map_of d k = None \<Longrightarrow> arg dec d k v = Inr v"
  by (simp add: arg_def)

lemma kwargs_obj: "list_all (\<lambda>(k, _). k \<in> set names) d \<Longrightarrow> kwargs names (JObj d) = Inr d"
  by (simp add: kwargs_def)

lemma kwargs_unknown: "\<not> list_all (\<lambda>(k, _). k \<in> set names) d \<Longrightarrow> kwargs names (JObj d) = Inl TypeError"
  by (simp add: kwargs_def)

lemma kwargs_no_obj: "(\<And>d. j \<noteq> JObj d) \<Longrightarrow> kwargs names j = Inl TypeError"
  by (cases j) (auto simp: kwargs_def)

lemma setdefault_hit [simp]: "map_of d k = Some j \<Longrightarrow> setdefault k v d = d"
  by (simp add: setdefault_def)

lemma trade_roundtrip [simp]: "trade_from_json (trade_to_json t) = Inr t"
  by (simp add: trade_from_json_def trade_to_json_def kwargs_obj trade_fields_def arg_hit)

lemma depth_roundtrip [simp]: "depth_from_json (depth_to_json d) = Inr d"
  by (simp add: depth_from_json_def depth_to_json_def kwargs_obj depth_fields_def arg_hit
      del: as_list.simps)

lemma signal_roundtrip [simp]: "signal_from_json uid (signal_to_json s) = Inr s"
  by (simp add: signal_from_json_def signal_to_json_def kwargs_obj signal_fields_def arg_hit)

lemma order_roundtrip [simp]: "order_from_json uid (order_to_json r) = Inr r"
  by (simp add: order_from_json_def order_to_json_def kwargs_obj order_fields_def arg_hit)

lemma fill_roundtrip [simp]: "fill_from_json uid (fill_to_json f) = Inr f"
  by (simp add: fill_from_json_def fill_to_json_def kwargs_obj fill_fields_def arg_hit)

lemma status_update_roundtrip [simp]: "status_update_from_json (status_update_to_json u) = Inr u"
  by (simp add: status_update_from_json_def status_update_to_json_def kwargs_obj
      status_update_fields_def arg_hit)

lemma risk_decision_roundtrip [simp]: "risk_decision_from_json (risk_decision_to_json r) = Inr r"
  by (simp add: risk_decision_from_json_def risk_decision_to_json_def kwargs_obj
      risk_decision_fields_def arg_hit del: as_list.simps)

text \<open>An order used as a concrete example.\<close>

definition sample_order :: order where
  "sample_order = \<lparr>or_order_id = ''o1'', or_timestamp = 0, or_symbol = ''BTCUSD'', or_side = ''BUY'',
     or_order_type = ''MARKET'', or_quantity = 2, or_limit_price = None, or_status = ''SUBMITTED'',
     or_signal_id = ''s1'', or_strategy_id = ''m'', or_backtest_id = None\<rparr>"

end
