(* ===== verification/Metrics_Registry.thy ===== *)
theory Metrics_Registry
  imports Py_Base "HOL-Library.Multiset"
begin

text \<open>
  \<open>lib/quant_core/metrics.py\<close>: the Prometheus registry every service keeps. The nested
  \<open>defaultdict\<close>s are dictionaries of dictionaries; the registry's lock makes each operation one
  atomic step. A line of the exposition text is modelled by its parts (\<open>export\<close>), since the
  rendering of a float is Python's own. The HTTP server that serves the text is not modelled.
\<close>

type_synonym labels = "(string, string) dict"

record metrics =
  mt_service :: string
  mt_counters :: "(string, (string, real) dict) dict"
  mt_counter_labels :: "(string, (string, labels) dict) dict"
  mt_gauges :: "(string, (string, real) dict) dict"
  mt_gauge_labels :: "(string, (string, labels) dict) dict"
  mt_histograms :: "(string, (string, real list) dict) dict"
  mt_hist_labels :: "(string, (string, labels) dict) dict"
  mt_common_labels :: labels

definition metrics_init :: "string \<Rightarrow> metrics" where
  "metrics_init service_name = \<lparr>mt_service = service_name, mt_counters = [], mt_counter_labels = [],
     mt_gauges = [], mt_gauge_labels = [], mt_histograms = [], mt_hist_labels = [],
     mt_common_labels = [(''service'', service_name)]\<rparr>"

definition label_key :: "labels \<Rightarrow> string" where
  "label_key ls = join '','' (map (\<lambda>(k, v). k @ ''=\"'' @ v @ ''\"'') (sort_key fst ls))"

definition put2 :: "string \<Rightarrow> string \<Rightarrow> 'v \<Rightarrow> (string, (string, 'v) dict) dict \<Rightarrow> (string, (string, 'v) dict) dict" where
  \<comment> \<open>\<open>d[name][key] = v\<close> on a defaultdict of dictionaries\<close>
  "put2 name key v d = AList.update name (AList.update key v (dget d name [])) d"

definition get2 :: "(string, (string, 'v) dict) dict \<Rightarrow> string \<Rightarrow> string \<Rightarrow> 'v \<Rightarrow> 'v" where
  "get2 d name key v = dget (dget d name []) key v"

definition all_labels :: "metrics \<Rightarrow> labels option \<Rightarrow> labels" where
  "all_labels m ls = dict_merge (mt_common_labels m) (case ls of None \<Rightarrow> [] | Some l \<Rightarrow> l)"

definition metric_inc :: "string \<Rightarrow> real \<Rightarrow> labels option \<Rightarrow> metrics \<Rightarrow> metrics" where
  "metric_inc name v ls m =
     (let al = all_labels m ls; key = label_key al in
      m\<lparr>mt_counters := put2 name key (get2 (mt_counters m) name key 0 + v) (mt_counters m),
        mt_counter_labels := put2 name key al (mt_counter_labels m)\<rparr>)"

definition metric_set_gauge :: "string \<Rightarrow> real \<Rightarrow> labels option \<Rightarrow> metrics \<Rightarrow> metrics" where
  "metric_set_gauge name v ls m =
     (let al = all_labels m ls; key = label_key al in
      m\<lparr>mt_gauges := put2 name key v (mt_gauges m),
        mt_gauge_labels := put2 name key al (mt_gauge_labels m)\<rparr>)"

definition metric_observe :: "string \<Rightarrow> real \<Rightarrow> labels option \<Rightarrow> metrics \<Rightarrow> metrics" where
  "metric_observe name v ls m =
     (let al = all_labels m ls; key = label_key al in
      m\<lparr>mt_histograms := put2 name key (get2 (mt_histograms m) name key [] @ [v]) (mt_histograms m),
        mt_hist_labels := put2 name key al (mt_hist_labels m)\<rparr>)"

datatype export_line =
    TypeLine string string
  | Sample string string real
  | CountSample string string nat
  | EmptyLine

definition export :: "metrics \<Rightarrow> export_line list" where
  "export m =
     concat (map (\<lambda>(name, vals). TypeLine name ''counter'' #
       map (\<lambda>(key, v). Sample name (label_key (get2 (mt_counter_labels m) name key [])) v) vals) (mt_counters m)) @
     concat (map (\<lambda>(name, vals). TypeLine name ''gauge'' #
       map (\<lambda>(key, v). Sample name (label_key (get2 (mt_gauge_labels m) name key [])) v) vals) (mt_gauges m)) @
     concat (map (\<lambda>(name, vals). TypeLine name ''summary'' #
       concat (map (\<lambda>(key, os). let part = label_key (get2 (mt_hist_labels m) name key []) in
         [Sample (name @ ''_sum'') part (sum_list os), CountSample (name @ ''_count'') part (length os)]) vals))
       (mt_histograms m)) @
     [EmptyLine]"

section \<open>Tables of tables\<close>

lemma get2_put2 [simp]:
  "get2 (put2 n k v d) n' k' w = (if n' = n \<and> k' = k then v else get2 d n' k' w)"
  by (simp add: get2_def put2_def)

definition has2 :: "(string, (string, 'v) dict) dict \<Rightarrow> string \<Rightarrow> string \<Rightarrow> bool" where
  "has2 d n k = (k \<in> fst ` set (dget d n []))"

lemma set_keys_update: "fst ` set (AList.update k v d) = insert k (fst ` set d)"
  by (simp add: dom_update)

lemma has2_put2 [simp]: "has2 (put2 n k v d) n' k' \<longleftrightarrow> (n' = n \<and> k' = k) \<or> has2 d n' k'"
  by (auto simp: has2_def put2_def set_keys_update)

definition wf2 :: "(string, (string, 'v) dict) dict \<Rightarrow> bool" where
  "wf2 d \<longleftrightarrow> dict_wf d \<and> (\<forall>(n, t) \<in> set d. dict_wf t)"

lemma wf2_Nil [simp]: "wf2 []"
  by (simp add: wf2_def)

lemma set_update_subset: "set (AList.update k v d) \<subseteq> insert (k, v) (set d)"
  by (induction d) auto

lemma dget_wf: "wf2 d \<Longrightarrow> dict_wf (dget d n [])"
  by (auto simp: wf2_def dget_def split: option.splits dest: map_of_SomeD)

lemma wf2_put2 [simp]: "wf2 d \<Longrightarrow> wf2 (put2 n k v d)"
  using set_update_subset [of n "AList.update k v (dget d n [])" d] dget_wf [of d n]
  by (fastforce simp: put2_def wf2_def)

lemma get2_entry: "wf2 d \<Longrightarrow> (n, t) \<in> set d \<Longrightarrow> dget d n [] = t"
  by (auto simp: wf2_def dget_def dict_wf_def)

section \<open>The label key\<close>

text \<open>The key of a label set does not depend on the order in which the labels were given.\<close>

lemma sort_key_fst_eqI:
  assumes "mset xs = mset ys" and "distinct (map fst xs)"
  shows "sort_key fst xs = sort_key fst ys"
proof (rule properties_for_sort_key)
  show "mset (sort_key fst ys) = mset xs" using assms(1) by simp
  show "sorted (map fst (sort_key fst ys))" by simp
  fix k assume "k \<in> set (sort_key fst ys)"
  have d: "distinct (map fst (sort_key fst ys))"
    using assms by (metis mset_eq_imp_distinct_iff mset_map mset_sort)
  have one: "length (filter (\<lambda>x. fst k = fst x) zs) \<le> 1" if "distinct (map fst zs)" for zs :: "('a \<times> 'b) list"
    using that by (induction zs) (auto simp: filter_empty_conv image_iff)
  have "mset (filter (\<lambda>x. fst k = fst x) (sort_key fst ys)) = mset (filter (\<lambda>x. fst k = fst x) xs)"
    using assms(1) by simp
  then show "filter (\<lambda>x. fst k = fst x) (sort_key fst ys) = filter (\<lambda>x. fst k = fst x) xs"
    using one [OF d] one [OF assms(2)]
    by (cases "filter (\<lambda>x. fst k = fst x) (sort_key fst ys)"; cases "filter (\<lambda>x. fst k = fst x) xs") auto
qed

lemma label_key_perm: "mset xs = mset ys \<Longrightarrow> distinct (map fst xs) \<Longrightarrow> label_key xs = label_key ys"
  by (simp add: label_key_def sort_key_fst_eqI)

section \<open>The registry's invariant\<close>

text \<open>
  Every series that has a value has its labels recorded under the key those labels render to,
  so the exposition shows each series under its own labels.
\<close>

definition labelled :: "(string, (string, 'v) dict) dict \<Rightarrow> (string, (string, labels) dict) dict \<Rightarrow> bool" where
  "labelled d ls \<longleftrightarrow> wf2 d \<and> (\<forall>n k. has2 d n k \<longrightarrow> label_key (get2 ls n k []) = k)"

lemma labelled_put2:
  "labelled d ls \<Longrightarrow> key = label_key al \<Longrightarrow> labelled (put2 n key v d) (put2 n key al ls)"
  by (auto simp: labelled_def)

definition metrics_inv :: "metrics \<Rightarrow> bool" where
  "metrics_inv m \<longleftrightarrow> labelled (mt_counters m) (mt_counter_labels m) \<and>
     labelled (mt_gauges m) (mt_gauge_labels m) \<and> labelled (mt_histograms m) (mt_hist_labels m)"

lemma metrics_inv_init [simp]: "metrics_inv (metrics_init s)"
  by (simp add: metrics_inv_def metrics_init_def labelled_def has2_def)

lemma metrics_inv_inc [simp]: "metrics_inv m \<Longrightarrow> metrics_inv (metric_inc n v ls m)"
  by (simp add: metrics_inv_def metric_inc_def Let_def labelled_put2)

lemma metrics_inv_gauge [simp]: "metrics_inv m \<Longrightarrow> metrics_inv (metric_set_gauge n v ls m)"
  by (simp add: metrics_inv_def metric_set_gauge_def Let_def labelled_put2)

lemma metrics_inv_observe [simp]: "metrics_inv m \<Longrightarrow> metrics_inv (metric_observe n v ls m)"
  by (simp add: metrics_inv_def metric_observe_def Let_def labelled_put2)

datatype metric_op = Inc string real "labels option" | Gauge string real "labels option" | Observe string real "labels option"

fun metric_step :: "metrics \<Rightarrow> metric_op \<Rightarrow> metrics" where
  "metric_step m (Inc n v ls) = metric_inc n v ls m"
| "metric_step m (Gauge n v ls) = metric_set_gauge n v ls m"
| "metric_step m (Observe n v ls) = metric_observe n v ls m"

interpretation registry: machine metric_step "\<lambda>_. True" metrics_inv
proof
  fix m e assume "metrics_inv m"
  then show "metrics_inv (metric_step m e)" by (cases e) simp_all
qed

section \<open>What a counter and a histogram hold\<close>

lemma common_step [simp]: "mt_common_labels (metric_step m e) = mt_common_labels m"
  by (cases e) (simp_all add: metric_inc_def metric_set_gauge_def metric_observe_def Let_def)

fun inc_amount :: "metrics \<Rightarrow> string \<Rightarrow> string \<Rightarrow> metric_op \<Rightarrow> real" where
  "inc_amount m n k (Inc n' v ls) = (if n' = n \<and> label_key (all_labels m ls) = k then v else 0)"
| "inc_amount m n k _ = 0"

lemma inc_amount_common: "mt_common_labels m = mt_common_labels m' \<Longrightarrow> inc_amount m n k e = inc_amount m' n k e"
  by (cases e) (simp_all add: all_labels_def)

lemma counter_step:
  "get2 (mt_counters (metric_step m e)) n k 0 = get2 (mt_counters m) n k 0 + inc_amount m n k e"
  by (cases e) (auto simp: metric_inc_def metric_set_gauge_def metric_observe_def Let_def)

lemma counter_run:
  "get2 (mt_counters (foldl metric_step m es)) n k 0 =
   get2 (mt_counters m) n k 0 + sum_list (map (inc_amount m n k) es)"
proof (induction es arbitrary: m)
  case (Cons e es)
  have "inc_amount (metric_step m e) n k = inc_amount m n k"
    by (rule ext) (simp add: inc_amount_common [of "metric_step m e" m])
  with Cons show ?case by (simp add: counter_step)
qed simp

text \<open>
  Whatever the services report, in any order, a counter series shows exactly the sum of the
  increments reported under its name and its label set, and each exported series is printed with
  the labels whose rendering is its key.
\<close>

theorem counter_is_sum_of_increments:
  "get2 (mt_counters (foldl metric_step (metrics_init s) es)) n k 0 =
     sum_list (map (inc_amount (metrics_init s) n k) es) \<and>
   metrics_inv (foldl metric_step (metrics_init s) es)"
proof
  show "get2 (mt_counters (foldl metric_step (metrics_init s) es)) n k 0 =
     sum_list (map (inc_amount (metrics_init s) n k) es)"
    by (subst counter_run) (simp add: metrics_init_def get2_def)
  show "metrics_inv (foldl metric_step (metrics_init s) es)"
    by (rule registry.inv_run) (simp_all add: list_all_iff)
qed

end
