(* ===== verification/Rate_Limiter.thy ===== *)
theory Rate_Limiter
  imports Py_Base
begin

text \<open>
  \<open>lib/quant_core/rate_limiter.py\<close>: the token bucket and the retry policy. The clock
  \<open>time.monotonic()\<close> is the argument \<open>clk\<close>, the \<open>i\<close>-th reading of one call; the lock makes the
  refill and the taking of a token one atomic step (\<open>try_take\<close>). The waiting loop takes fuel,
  and \<open>acquire_returns\<close> shows that fuel 2 is always enough on a clock that runs
  at least as long as \<open>time.sleep\<close> was asked to.
\<close>

section \<open>The token bucket\<close>

record limiter =
  rl_rate :: real
  rl_max_tokens :: int
  rl_tokens :: real
  rl_last_refill :: real
  rl_total_waits :: nat

definition limiter_init :: "real \<Rightarrow> int option \<Rightarrow> real \<Rightarrow> limiter" where
  "limiter_init calls_per_second burst_size now =
     (let dflt = max (py_int (calls_per_second * 2)) 1;
          mx = (case burst_size of None \<Rightarrow> dflt | Some b \<Rightarrow> if b = 0 then dflt else b) in
      \<lparr>rl_rate = calls_per_second, rl_max_tokens = mx, rl_tokens = of_int mx,
       rl_last_refill = now, rl_total_waits = 0\<rparr>)"

definition refill :: "real \<Rightarrow> limiter \<Rightarrow> limiter" where
  "refill now l =
     (let elapsed = now - rl_last_refill l; new_tokens = elapsed * rl_rate l in
      l\<lparr>rl_tokens := min (rl_tokens l + new_tokens) (of_int (rl_max_tokens l)), rl_last_refill := now\<rparr>)"

definition try_take :: "real \<Rightarrow> limiter \<Rightarrow> bool \<times> limiter" where
  "try_take now l =
     (let l' = refill now l in
      if 1 \<le> rl_tokens l' then (True, l'\<lparr>rl_tokens := rl_tokens l' - 1\<rparr>) else (False, l'))"

fun acquire_loop :: "nat \<Rightarrow> (nat \<Rightarrow> real) \<Rightarrow> nat \<Rightarrow> real \<Rightarrow> limiter \<Rightarrow> (py_error + bool \<times> limiter) option" where
  "acquire_loop 0 clk i deadline l = None"
| "acquire_loop (Suc fuel) clk i deadline l =
     (case try_take (clk i) l of
        (True, l') \<Rightarrow> Some (Inr (True, l'))
      | (False, l') \<Rightarrow>
          if rl_rate l' = 0 then Some (Inl ZeroDivisionError)
          else if min (1 / rl_rate l') (deadline - clk (i + 1)) \<le> 0 then Some (Inr (False, l'))
          else acquire_loop fuel clk (i + 2) deadline (l'\<lparr>rl_total_waits := rl_total_waits l' + 1\<rparr>))"

definition acquire :: "nat \<Rightarrow> (nat \<Rightarrow> real) \<Rightarrow> real \<Rightarrow> limiter \<Rightarrow> (py_error + bool \<times> limiter) option" where
  "acquire fuel clk timeout l = acquire_loop fuel clk 1 (clk 0 + timeout) l"

definition limiter_inv :: "limiter \<Rightarrow> bool" where
  "limiter_inv l \<longleftrightarrow> 0 \<le> rl_tokens l \<and> rl_tokens l \<le> of_int (rl_max_tokens l) \<and>
     1 \<le> rl_max_tokens l \<and> 0 < rl_rate l"

lemma limiter_init_inv:
  "0 < r \<Longrightarrow> (\<And>b. burst = Some b \<Longrightarrow> 0 \<le> b) \<Longrightarrow> limiter_inv (limiter_init r burst now)"
  by (auto simp: limiter_inv_def limiter_init_def Let_def split: option.splits)

lemma refill_inv: "limiter_inv l \<Longrightarrow> rl_last_refill l \<le> now \<Longrightarrow> limiter_inv (refill now l)"
  by (simp add: limiter_inv_def refill_def Let_def)

lemma refill_fields [simp]:
  "rl_rate (refill now l) = rl_rate l" "rl_max_tokens (refill now l) = rl_max_tokens l"
  "rl_last_refill (refill now l) = now"
  by (simp_all add: refill_def Let_def)

lemma refill_tokens_le: "rl_tokens (refill now l) \<le> rl_tokens l + (now - rl_last_refill l) * rl_rate l"
  by (simp add: refill_def Let_def)

lemma try_take_inv: "limiter_inv l \<Longrightarrow> rl_last_refill l \<le> now \<Longrightarrow> limiter_inv (snd (try_take now l))"
  using refill_inv [of l now] by (auto simp: try_take_def Let_def limiter_inv_def)

lemma try_take_fields [simp]:
  "rl_rate (snd (try_take now l)) = rl_rate l" "rl_last_refill (snd (try_take now l)) = now"
  "rl_max_tokens (snd (try_take now l)) = rl_max_tokens l"
  by (simp_all add: try_take_def Let_def)

section \<open>The guarantee of the bucket\<close>

text \<open>
  The calls of any number of threads reach the bucket one after the other, at times that never
  decrease. \<open>grants\<close> counts the calls that got a token.
\<close>

fun take_run :: "limiter \<Rightarrow> real list \<Rightarrow> nat \<times> limiter" where
  "take_run l [] = (0, l)"
| "take_run l (t # ts) =
     (let (ok, l') = try_take t l; (n, l'') = take_run l' ts in ((if ok then Suc n else n), l''))"

lemma try_take_budget:
  "(if fst (try_take t l) then 1 else 0) + rl_tokens (snd (try_take t l)) \<le>
   rl_tokens l + (t - rl_last_refill l) * rl_rate l"
  using refill_tokens_le [of t l] by (simp add: try_take_def Let_def)

lemma take_run_budget:
  "of_nat (fst (take_run l ts)) + rl_tokens (snd (take_run l ts)) \<le>
   rl_tokens l + (last (rl_last_refill l # ts) - rl_last_refill l) * rl_rate l"
proof (induction ts arbitrary: l)
  case (Cons t ts)
  let ?l = "snd (try_take t l)"
  have split: "last (t # ts) - rl_last_refill l = (last (t # ts) - t) + (t - rl_last_refill l)"
    by simp
  show ?case
    using Cons.IH [of ?l] try_take_budget [of t l]
    by (simp add: Let_def split_def split distrib_right del: last.simps) (auto simp: algebra_simps)
qed simp

lemma take_run_inv:
  "limiter_inv l \<Longrightarrow> sorted (rl_last_refill l # ts) \<Longrightarrow> limiter_inv (snd (take_run l ts))"
proof (induction ts arbitrary: l)
  case (Cons t ts)
  then show ?case
    using try_take_inv [of l t] by (auto simp: Let_def split_def)
qed simp

text \<open>
  C14. The token bucket keeps its promise to the exchange: from any state the limiter can be in,
  over any sequence of calls made at non-decreasing times, the number of calls granted is at most
  the burst size plus the rate times the time elapsed, and the bucket never holds a negative
  number of tokens or more than its burst size.
\<close>

theorem rate_limit_guarantee:
  assumes "limiter_inv l" and "sorted (rl_last_refill l # ts)"
  shows "of_nat (fst (take_run l ts)) \<le>
           of_int (rl_max_tokens l) + (last (rl_last_refill l # ts) - rl_last_refill l) * rl_rate l \<and>
         limiter_inv (snd (take_run l ts))"
proof -
  have inv: "limiter_inv (snd (take_run l ts))"
    using assms by (rule take_run_inv)
  with take_run_budget [of l ts] assms(1) show ?thesis
    unfolding limiter_inv_def by linarith
qed

lemma rate_limit_guarantee_witness:
  "of_nat (fst (take_run (limiter_init 1 (Some 2) 0) [0, 0, 0, 1])) \<le>
     of_int (rl_max_tokens (limiter_init 1 (Some 2) 0)) + (1 - 0) * (1 :: real) \<and>
   fst (take_run (limiter_init 1 (Some 2) 0) [0, 0, 0, 1]) = 3"
  using rate_limit_guarantee [of "limiter_init 1 (Some 2) 0" "[0, 0, 0, 1]"]
  by (simp add: limiter_inv_def limiter_init_def take_run.simps try_take_def refill_def Let_def)

section \<open>acquire returns\<close>

text \<open>
  The clock of one call: readings never decrease, the first one is not before the last refill,
  and after a wait the next reading is at least the requested time later
  (\<open>time.sleep\<close> suspends for at least the given number of seconds).
\<close>

definition clock_ok :: "(nat \<Rightarrow> real) \<Rightarrow> real \<Rightarrow> limiter \<Rightarrow> bool" where
  "clock_ok clk timeout l \<longleftrightarrow>
     rl_last_refill l \<le> clk 0 \<and> (\<forall>i. clk i \<le> clk (i + 1)) \<and>
     (\<forall>i. clk (2 * i + 3) \<ge> clk (2 * i + 2) + min (1 / rl_rate l) (clk 0 + timeout - clk (2 * i + 2)))"

lemma refill_after_wait:
  assumes "limiter_inv l" and "rl_last_refill l + 1 / rl_rate l \<le> now"
  shows "1 \<le> rl_tokens (refill now l)"
proof -
  have "1 \<le> (now - rl_last_refill l) * rl_rate l"
    using assms by (simp add: limiter_inv_def field_simps)
  with assms(1) show ?thesis
    by (simp add: refill_def Let_def limiter_inv_def)
qed

lemma acquire_within_fuel:
  assumes "limiter_inv l" and "clock_ok clk timeout l"
  shows "\<exists>ok l'. acquire 2 clk timeout l = Some (Inr (ok, l')) \<and> (\<not> ok \<longrightarrow> clk 0 + timeout \<le> clk 4)"
proof -
  let ?dl = "clk 0 + timeout"
  obtain ok1 l1 where t1: "try_take (clk 1) l = (ok1, l1)" by fastforce
  have mono: "clk i \<le> clk (i + 1)" for i using assms(2) by (simp add: clock_ok_def)
  have c01: "clk 0 \<le> clk 1" and c12: "clk 1 \<le> clk 2" and c23: "clk 2 \<le> clk 3" and c34: "clk 3 \<le> clk 4"
    using mono [of 0] mono [of 1] mono [of 2] mono [of 3] by (simp_all add: eval_nat_numeral)
  have last0: "rl_last_refill l \<le> clk 1" using assms(2) c01 unfolding clock_ok_def by linarith
  have inv1: "limiter_inv l1" using try_take_inv [OF assms(1) last0] t1 by simp
  have r1: "rl_rate l1 = rl_rate l" "rl_last_refill l1 = clk 1"
    using t1 by (metis snd_conv try_take_fields(1), metis snd_conv try_take_fields(2))
  have pos: "0 < rl_rate l" using assms(1) by (simp add: limiter_inv_def)
  show ?thesis
  proof (cases "ok1 \<or> min (1 / rl_rate l) (?dl - clk 2) \<le> 0")
    case True
    have pos': "0 < 1 / rl_rate l" using pos by simp
    from True show ?thesis
    proof (cases ok1)
      case False
      with True pos' have "?dl \<le> clk 2" by (simp add: min_def split: if_splits)
      with False True pos show ?thesis
        using t1 r1 c23 c34 by (auto simp: acquire_def numeral_2_eq_2)
    qed (use t1 in \<open>auto simp: acquire_def numeral_2_eq_2\<close>)
  next
    case False
    let ?l1 = "l1\<lparr>rl_total_waits := rl_total_waits l1 + 1\<rparr>"
    obtain ok2 l2 where t2: "try_take (clk 3) ?l1 = (ok2, l2)" by fastforce
    have r2: "rl_rate l2 = rl_rate l"
      using try_take_fields(1) [of "clk 3" ?l1] unfolding t2 using r1 by simp
    have sleep: "clk 3 \<ge> clk 2 + min (1 / rl_rate l) (?dl - clk 2)"
    proof -
      have "clk (2 * 0 + 3) \<ge> clk (2 * 0 + 2) + min (1 / rl_rate l) (?dl - clk (2 * 0 + 2))"
        using assms(2) unfolding clock_ok_def by blast
      then show ?thesis by (simp add: eval_nat_numeral)
    qed
    have step: "acquire 2 clk timeout l = acquire_loop 1 clk 3 ?dl ?l1"
      using False t1 r1 pos by (simp add: acquire_def numeral_2_eq_2 numeral_3_eq_3)
    show ?thesis
    proof (cases ok2)
      case True
      then show ?thesis using step t2 by auto
    next
      case False
      have "\<not> clk 1 + 1 / rl_rate l \<le> clk 3"
      proof
        assume "clk 1 + 1 / rl_rate l \<le> clk 3"
        then have "1 \<le> rl_tokens (refill (clk 3) ?l1)"
          using inv1 r1 by (intro refill_after_wait) (simp_all add: limiter_inv_def)
        then show False using t2 False by (simp add: try_take_def Let_def)
      qed
      with sleep c12 have "?dl \<le> clk 3" by (simp add: min_def split: if_splits)
      with c34 have "min (1 / rl_rate l2) (?dl - clk 4) \<le> 0" and "?dl \<le> clk 4" by simp_all
      then show ?thesis
        using step t2 False r2 pos by auto
    qed
  qed
qed



section \<open>The retry policy\<close>

record retry_policy =
  rp_max_retries :: nat
  rp_base_delay :: real
  rp_max_delay :: real
  rp_exponential_base :: real

definition retry_default :: retry_policy where
  "retry_default = \<lparr>rp_max_retries = 3, rp_base_delay = 1 / 2, rp_max_delay = 30, rp_exponential_base = 2\<rparr>"

definition delay_for_attempt :: "retry_policy \<Rightarrow> nat \<Rightarrow> real" where
  "delay_for_attempt p attempt =
     (let delay = rp_base_delay p * rp_exponential_base p ^ attempt in min delay (rp_max_delay p))"

definition should_retry :: "retry_policy \<Rightarrow> nat \<Rightarrow> int option \<Rightarrow> bool" where
  "should_retry p attempt status_code =
     (if rp_max_retries p \<le> attempt then False
      else \<not> (case status_code of None \<Rightarrow> False | Some c \<Rightarrow> 400 \<le> c \<and> c < 500 \<and> c \<noteq> 429))"

lemma delay_mono:
  assumes "0 \<le> rp_base_delay p" and "1 \<le> rp_exponential_base p" and "i \<le> j"
  shows "delay_for_attempt p i \<le> delay_for_attempt p j"
  unfolding delay_for_attempt_def Let_def
  using assms by (intro min.mono mult_left_mono power_increasing) auto

lemma delay_le_max: "delay_for_attempt p i \<le> rp_max_delay p"
  by (simp add: delay_for_attempt_def Let_def)

end
