(* ===== verification/Circuit_Breaker.thy ===== *)
theory Circuit_Breaker
  imports Json_Value
begin

text \<open>
  \<open>lib/quant_core/circuit_breaker.py\<close>: the kill switch. Redis is outside the repository, so what
  it answers is an argument: the result of \<open>get\<close> is an exception (unreachable), no value, or the
  stored value. \<open>time.monotonic()\<close> is the argument \<open>now\<close>. The calls to Redis that an operation
  makes are part of its result (\<open>redis_call\<close>).
\<close>

definition circuit_breaker_key :: "string \<Rightarrow> string" where
  "circuit_breaker_key run_id = ''risk:circuit_breaker:'' @ run_id"

type_synonym redis_reply = "py_error + stored option"

datatype redis_call = RSet string json | RDelete string

record breaker =
  cb_key :: string
  cb_run_id :: string
  cb_cached_state :: bool
  cb_last_check :: real

definition breaker_init :: "string \<Rightarrow> breaker" where
  "breaker_init run_id = \<lparr>cb_key = circuit_breaker_key run_id, cb_run_id = run_id,
     cb_cached_state = False, cb_last_check = 0\<rparr>"

definition check_interval_s :: real where
  "check_interval_s = 1 / 2"

definition is_tripped :: "real \<Rightarrow> redis_reply \<Rightarrow> breaker \<Rightarrow> bool \<times> breaker" where
  "is_tripped now reply cb =
     (if now - cb_last_check cb < check_interval_s then (cb_cached_state cb, cb)
      else let state = (case reply of Inl _ \<Rightarrow> True | Inr val \<Rightarrow> val \<noteq> None);
               cb' = cb\<lparr>cb_cached_state := state, cb_last_check := now\<rparr>
           in (cb_cached_state cb', cb'))"

definition trip :: "string \<Rightarrow> string \<Rightarrow> real \<Rightarrow> real \<Rightarrow> py_error option \<Rightarrow> breaker \<Rightarrow>
    redis_call list \<times> (py_error + breaker)" where
  \<comment> \<open>\<open>set_result\<close>: the exception of \<open>redis.set\<close>, if it raises; \<open>wall\<close>: \<open>time.time()\<close>\<close>
  "trip reason triggered_by wall now set_result cb =
     (let payload = JObj [(''tripped'', JBool True), (''reason'', JStr reason),
            (''triggered_by'', JStr triggered_by), (''timestamp'', JNum wall)] in
      ([RSet (cb_key cb) payload],
       case set_result of Some e \<Rightarrow> Inl e
       | None \<Rightarrow> Inr (cb\<lparr>cb_cached_state := True, cb_last_check := now\<rparr>)))"

definition reset :: "real \<Rightarrow> py_error option \<Rightarrow> breaker \<Rightarrow> redis_call list \<times> (py_error + breaker)" where
  "reset now delete_result cb =
     ([RDelete (cb_key cb)],
      case delete_result of Some e \<Rightarrow> Inl e
      | None \<Rightarrow> Inr (cb\<lparr>cb_cached_state := False, cb_last_check := now\<rparr>))"

datatype breaker_status =
    Clear string
  | Info "(string, json) dict"
  | Opaque string stored

definition status :: "redis_reply \<Rightarrow> breaker \<Rightarrow> py_error + breaker_status" where
  "status reply cb = ebind reply (\<lambda>val.
     case val of
       None \<Rightarrow> Inr (Clear (cb_run_id cb))
     | Some (Document (JObj d)) \<Rightarrow> Inr (Info (AList.update ''run_id'' (JStr (cb_run_id cb)) d))
     | Some v \<Rightarrow> Inr (Opaque (cb_run_id cb) v))"

section \<open>A process using the breaker\<close>

text \<open>
  The operations of one process on its breaker, in the order they happen: checks from the consume
  loop and, in the risk gateway, trips and resets from the HTTP API. A trip or reset whose Redis
  call raises leaves the breaker as it was.
\<close>

datatype breaker_op = Check real redis_reply | Trip real "py_error option" | Reset real "py_error option"

fun op_time :: "breaker_op \<Rightarrow> real" where
  "op_time (Check t _) = t"
| "op_time (Trip t _) = t"
| "op_time (Reset t _) = t"

fun breaker_step :: "breaker \<Rightarrow> breaker_op \<Rightarrow> breaker" where
  "breaker_step cb (Check now reply) = snd (is_tripped now reply cb)"
| "breaker_step cb (Trip now r) =
     (case snd (trip ''manual'' ''unknown'' now now r cb) of Inl _ \<Rightarrow> cb | Inr cb' \<Rightarrow> cb')"
| "breaker_step cb (Reset now r) = (case snd (reset now r cb) of Inl _ \<Rightarrow> cb | Inr cb' \<Rightarrow> cb')"

text \<open>
  From time \<open>T\<close> on the halt is in force: whenever Redis is asked it has the key or is
  unreachable, and nobody resets the breaker of this process.
\<close>

fun halted :: "real \<Rightarrow> breaker_op \<Rightarrow> bool" where
  "halted T (Check now reply) = (T \<le> now \<longrightarrow> reply \<noteq> Inr None)"
| "halted T (Trip now r) = True"
| "halted T (Reset now r) = (now < T)"

definition halt_inv :: "real \<Rightarrow> breaker \<Rightarrow> bool" where
  "halt_inv T cb \<longleftrightarrow> (T < cb_last_check cb \<longrightarrow> cb_cached_state cb)"

lemma reply_tripped: "reply \<noteq> Inr None \<Longrightarrow> (case reply of Inl _ \<Rightarrow> True | Inr val \<Rightarrow> val \<noteq> None)"
  by (auto split: sum.splits)

lemma halt_inv_step: "halt_inv T cb \<Longrightarrow> halted T e \<Longrightarrow> halt_inv T (breaker_step cb e)"
  using reply_tripped
  by (cases e) (auto simp: halt_inv_def is_tripped_def trip_def reset_def Let_def split: option.splits)

interpretation kill_switch: machine breaker_step "halted T" "halt_inv T" for T
  by unfold_locales (rule halt_inv_step)

lemma is_tripped_halted:
  assumes "halt_inv T cb" and "reply \<noteq> Inr None" and "T + check_interval_s \<le> now"
  shows "fst (is_tripped now reply cb)"
  using assms reply_tripped [OF assms(2)]
  by (auto simp: halt_inv_def is_tripped_def Let_def check_interval_s_def)

text \<open>
  The kill switch fails safe and takes effect within its check interval: in a process that has
  not checked after \<open>T\<close> yet, if from \<open>T\<close> on Redis holds the key or cannot be reached (and the
  process itself does not reset), then after any such sequence of checks and trips every check
  made at least half a second after \<open>T\<close> says tripped, whatever the cache held before.
\<close>

theorem kill_switch_takes_effect:
  assumes "cb_last_check cb \<le> T" and "list_all (halted T) ops"
    and "reply \<noteq> Inr None" and "T + check_interval_s \<le> now"
  shows "fst (is_tripped now reply (foldl breaker_step cb ops))"
proof (rule is_tripped_halted [OF _ assms(3,4)])
  show "halt_inv T (foldl breaker_step cb ops)"
    using assms(1,2) by (intro kill_switch.inv_run) (simp_all add: halt_inv_def)
qed

lemma kill_switch_takes_effect_witness:
  "fst (is_tripped 11 (Inl (ExternalError ''down''))
     (foldl breaker_step (breaker_init ''live'')
       [Check 9 (Inr None), Check (99 / 10) (Inr None), Check (102 / 10) (Inr (Some (Document (JObj []))))]))"
  by (rule kill_switch_takes_effect [where T = 10])
     (simp_all add: breaker_init_def check_interval_s_def)

text \<open>
  The cache is what bounds the delay: a check that comes earlier than the interval after the last
  one answers from the cache and does not look at Redis.
\<close>

lemma cached_check:
  "now - cb_last_check cb < check_interval_s \<Longrightarrow> is_tripped now reply cb = (cb_cached_state cb, cb)"
  by (simp add: is_tripped_def)

lemma fresh_check:
  "check_interval_s \<le> now - cb_last_check cb \<Longrightarrow>
   fst (is_tripped now reply cb) \<longleftrightarrow> reply \<noteq> Inr None"
  by (auto simp: is_tripped_def Let_def split: sum.splits)

end
