(* ===== verification/Kafka_Utils.thy ===== *)
theory Kafka_Utils
  imports Json_Value
begin

text \<open>
  \<open>lib/quant_core/kafka_utils.py\<close>: the producer and consumer wrappers. confluent-kafka is outside
  the repository: a producer is modelled by the records it was handed, in order, a consumer by the
  stream of replies that its successive \<open>poll\<close> calls get, and the admin client by the set of topics
  the cluster lists.
\<close>

section \<open>Topics\<close>

definition topic_raw_trades :: string where "topic_raw_trades = ''raw.trades''"
definition topic_raw_depth :: string where "topic_raw_depth = ''raw.depth''"
definition topic_signals :: string where "topic_signals = ''signals''"
definition topic_orders :: string where "topic_orders = ''orders''"
definition topic_order_status :: string where "topic_order_status = ''order.status''"
definition topic_fills :: string where "topic_fills = ''fills''"
definition topic_risk_events :: string where "topic_risk_events = ''risk.events''"
definition topic_audit :: string where "topic_audit = ''audit.log''"
definition topic_heartbeat :: string where "topic_heartbeat = ''system.heartbeat''"

lemmas topic_defs = topic_raw_trades_def topic_raw_depth_def topic_signals_def topic_orders_def
  topic_order_status_def topic_fills_def topic_risk_events_def topic_audit_def topic_heartbeat_def

lemma topics_distinct [simp]:
  "topic_raw_trades \<noteq> topic_raw_depth" "topic_raw_trades \<noteq> topic_signals"
  "topic_raw_trades \<noteq> topic_orders" "topic_raw_trades \<noteq> topic_order_status"
  "topic_raw_trades \<noteq> topic_fills" "topic_raw_trades \<noteq> topic_risk_events"
  "topic_raw_trades \<noteq> topic_audit" "topic_raw_trades \<noteq> topic_heartbeat"
  "topic_raw_depth \<noteq> topic_raw_trades" "topic_raw_depth \<noteq> topic_signals"
  "topic_raw_depth \<noteq> topic_orders" "topic_raw_depth \<noteq> topic_order_status"
  "topic_raw_depth \<noteq> topic_fills" "topic_raw_depth \<noteq> topic_risk_events"
  "topic_raw_depth \<noteq> topic_audit" "topic_raw_depth \<noteq> topic_heartbeat"
  "topic_signals \<noteq> topic_raw_trades" "topic_signals \<noteq> topic_raw_depth"
  "topic_signals \<noteq> topic_orders" "topic_signals \<noteq> topic_order_status"
  "topic_signals \<noteq> topic_fills" "topic_signals \<noteq> topic_risk_events"
  "topic_signals \<noteq> topic_audit" "topic_signals \<noteq> topic_heartbeat"
  "topic_orders \<noteq> topic_raw_trades" "topic_orders \<noteq> topic_raw_depth"
  "topic_orders \<noteq> topic_signals" "topic_orders \<noteq> topic_order_status"
  "topic_orders \<noteq> topic_fills" "topic_orders \<noteq> topic_risk_events"
  "topic_orders \<noteq> topic_audit" "topic_orders \<noteq> topic_heartbeat"
  "topic_order_status \<noteq> topic_raw_trades" "topic_order_status \<noteq> topic_raw_depth"
  "topic_order_status \<noteq> topic_signals" "topic_order_status \<noteq> topic_orders"
  "topic_order_status \<noteq> topic_fills" "topic_order_status \<noteq> topic_risk_events"
  "topic_order_status \<noteq> topic_audit" "topic_order_status \<noteq> topic_heartbeat"
  "topic_fills \<noteq> topic_raw_trades" "topic_fills \<noteq> topic_raw_depth"
  "topic_fills \<noteq> topic_signals" "topic_fills \<noteq> topic_orders"
  "topic_fills \<noteq> topic_order_status" "topic_fills \<noteq> topic_risk_events"
  "topic_fills \<noteq> topic_audit" "topic_fills \<noteq> topic_heartbeat"
  "topic_risk_events \<noteq> topic_raw_trades" "topic_risk_events \<noteq> topic_raw_depth"
  "topic_risk_events \<noteq> topic_signals" "topic_risk_events \<noteq> topic_orders"
  "topic_risk_events \<noteq> topic_order_status" "topic_risk_events \<noteq> topic_fills"
  "topic_risk_events \<noteq> topic_audit" "topic_risk_events \<noteq> topic_heartbeat"
  "topic_audit \<noteq> topic_raw_trades" "topic_audit \<noteq> topic_raw_depth"
  "topic_audit \<noteq> topic_signals" "topic_audit \<noteq> topic_orders"
  "topic_audit \<noteq> topic_order_status" "topic_audit \<noteq> topic_fills"
  "topic_audit \<noteq> topic_risk_events" "topic_audit \<noteq> topic_heartbeat"
  "topic_heartbeat \<noteq> topic_raw_trades" "topic_heartbeat \<noteq> topic_raw_depth"
  "topic_heartbeat \<noteq> topic_signals" "topic_heartbeat \<noteq> topic_orders"
  "topic_heartbeat \<noteq> topic_order_status" "topic_heartbeat \<noteq> topic_fills"
  "topic_heartbeat \<noteq> topic_risk_events" "topic_heartbeat \<noteq> topic_audit"
  by (simp_all add: topic_defs)

section \<open>Producer\<close>

record kafka_record =
  kr_topic :: string
  kr_value :: stored
  kr_key :: "string option"
  kr_headers :: "(string \<times> string) list option"

record qproducer =
  qp_backtest_id :: "string option"
  qp_sent :: "kafka_record list"

definition producer_init :: "string option \<Rightarrow> qproducer" where
  "producer_init backtest_id = \<lparr>qp_backtest_id = backtest_id, qp_sent = []\<rparr>"

definition msg_headers :: "string option \<Rightarrow> (string, string) dict \<Rightarrow> (string, string) dict" where
  "msg_headers backtest_id headers =
     (let base = (case backtest_id of None \<Rightarrow> [] | Some b \<Rightarrow> if b = '''' then [] else [(''backtest_id'', b)]) in
      if headers \<noteq> [] then dict_merge base headers else base)"

definition produce :: "string \<Rightarrow> stored \<Rightarrow> string option \<Rightarrow> (string, string) dict \<Rightarrow> qproducer \<Rightarrow> qproducer" where
  \<comment> \<open>\<open>headers\<close>: \<open>[]\<close> for the default \<open>None\<close> as well as for an empty dictionary\<close>
  "produce topic value key headers p =
     (let hs = msg_headers (qp_backtest_id p) headers;
          kafka_headers = (if hs = [] then None else Some hs) in
      p\<lparr>qp_sent := qp_sent p @
        [\<lparr>kr_topic = topic, kr_value = value, kr_key = key, kr_headers = kafka_headers\<rparr>]\<rparr>)"

abbreviation publish :: "string \<Rightarrow> string \<Rightarrow> json \<Rightarrow> qproducer \<Rightarrow> qproducer" where
  "publish topic key j \<equiv> produce topic (Document j) (Some key) []"

definition sent_on :: "string \<Rightarrow> qproducer \<Rightarrow> stored list" where
  \<comment> \<open>the values handed over for a topic\<close>
  "sent_on topic p = map kr_value (filter (\<lambda>r. kr_topic r = topic) (qp_sent p))"

lemma sent_on_produce [simp]:
  "sent_on t (produce t' v k hs p) = (if t' = t then sent_on t p @ [v] else sent_on t p)"
  by (simp add: sent_on_def produce_def Let_def)

lemma sent_on_init [simp]: "sent_on t (producer_init b) = []"
  by (simp add: sent_on_def producer_init_def)

lemma produce_backtest_id [simp]: "qp_backtest_id (produce t v k hs p) = qp_backtest_id p"
  by (simp add: produce_def Let_def)

lemma qp_sent_produce:
  "qp_sent (produce t v k hs p) = qp_sent p @ [\<lparr>kr_topic = t, kr_value = v, kr_key = k,
     kr_headers = (if msg_headers (qp_backtest_id p) hs = [] then None
       else Some (msg_headers (qp_backtest_id p) hs))\<rparr>]"
  by (simp add: produce_def Let_def)

text \<open>The audit record that the services publish (\<open>_emit_audit\<close> of each \<open>main.py\<close>).\<close>

definition emit_audit :: "string \<Rightarrow> string \<Rightarrow> int \<Rightarrow> (string, json) dict \<Rightarrow> qproducer \<Rightarrow> qproducer" where
  "emit_audit service_name event_type now detail p =
     publish topic_audit service_name
       (JObj (dict_merge [(''service'', JStr service_name), (''event'', JStr event_type), (''timestamp'', JInt now)] detail)) p"

lemma sent_on_audit [simp]: "t \<noteq> topic_audit \<Longrightarrow> sent_on t (emit_audit s e n d p) = sent_on t p"
  by (simp add: emit_audit_def)

text \<open>Every record of a backtest carries the backtest's id, unless the caller overrides the header.\<close>

lemma produce_tags_backtest:
  assumes "qp_backtest_id p = Some b" and "b \<noteq> ''''" and "map_of (rev hs) ''backtest_id'' = None"
  shows "\<exists>kh. kr_headers (last (qp_sent (produce t v k hs p))) = Some kh \<and> map_of kh ''backtest_id'' = Some b"
proof -
  have hit: "map_of (msg_headers (Some b) hs) ''backtest_id'' = Some b"
    using assms(2,3) by (simp add: msg_headers_def map_of_merge Let_def)
  then have "msg_headers (Some b) hs \<noteq> []" by auto
  with hit assms(1) show ?thesis by (simp add: qp_sent_produce)
qed

section \<open>Consumer\<close>

datatype kafka_error = Partition_EOF | Kafka_error string

record kafka_message =
  km_error :: "kafka_error option"
  km_topic :: string
  km_key :: "string option"
  km_value :: stored
  km_headers :: "(string \<times> string) list option"

type_synonym replies = "kafka_message option list"

fun poll :: "replies \<Rightarrow> kafka_message option \<times> replies" where
  \<comment> \<open>once the stream of replies is used up there is nothing to deliver\<close>
  "poll [] = (None, [])"
| "poll (r # rs) = (r, rs)"

type_synonym unpacked = "string \<times> string option \<times> stored \<times> (string, string) dict"

definition unpack :: "kafka_message \<Rightarrow> unpacked" where
  "unpack m =
     (km_topic m,
      (case km_key m of None \<Rightarrow> None | Some k \<Rightarrow> if k = '''' then None else Some k),
      km_value m,
      (case km_headers m of None \<Rightarrow> [] | Some hs \<Rightarrow> dict_merge [] hs))"

fun drain :: "nat \<Rightarrow> replies \<Rightarrow> unpacked list \<times> replies" where
  \<comment> \<open>the \<open>for _ in range(max_messages - 1)\<close> loop\<close>
  "drain 0 rs = ([], rs)"
| "drain (Suc n) rs =
     (case poll rs of
        (None, rs') \<Rightarrow> ([], rs')
      | (Some m, rs') \<Rightarrow>
          (if km_error m \<noteq> None then drain n rs'
           else let (ms, rs'') = drain n rs' in (unpack m # ms, rs'')))"

definition poll_messages :: "nat \<Rightarrow> replies \<Rightarrow> (py_error + unpacked list) \<times> replies" where
  "poll_messages max_messages rs =
     (case poll rs of
        (None, rs') \<Rightarrow> (Inr [], rs')
      | (Some m, rs') \<Rightarrow>
          (case km_error m of
             Some Partition_EOF \<Rightarrow> (Inr [], rs')
           | Some (Kafka_error e) \<Rightarrow> (Inl (ExternalError e), rs')
           | None \<Rightarrow> let (ms, rs'') = drain (max_messages - 1) rs' in (Inr (unpack m # ms), rs'')))"

text \<open>What a consumer should see of a stream: the messages without an error, in order.\<close>

definition good :: "replies \<Rightarrow> unpacked list" where
  "good rs = map (unpack \<circ> the) (filter (\<lambda>r. r \<noteq> None \<and> km_error (the r) = None) rs)"

lemma good_simps [simp]:
  "good [] = []" "good (None # rs) = good rs"
  "good (Some m # rs) = (if km_error m = None then unpack m # good rs else good rs)"
  by (simp_all add: good_def)

lemma good_append: "good (rs @ rs') = good rs @ good rs'"
  by (simp add: good_def)

lemma drain_lossless: "drain n rs = (ms, rs') \<Longrightarrow> good rs = ms @ good rs' \<and> length ms \<le> n"
  by (induction n rs arbitrary: ms rule: drain.induct)
     (auto split: list.splits option.splits prod.splits if_splits elim!: poll.elims intro: le_SucI)

lemma poll_messages_lossless:
  "poll_messages n rs = (Inr ms, rs') \<Longrightarrow> good rs = ms @ good rs' \<and> length ms \<le> max 1 n"
  by (cases rs)
     (auto simp: poll_messages_def split: option.splits kafka_error.splits prod.splits dest: drain_lossless)

text \<open>
  A batch read neither loses, repeats nor reorders messages: however large a batch the caller
  asks for and whatever errors are interleaved, what \<open>poll_messages\<close> returned followed by what is
  still to be delivered is exactly what there was to deliver, an exception consumes no
  message, and a batch has at most the requested number of messages (one if none is requested).
\<close>

theorem poll_messages_exactly_once:
  "(case poll_messages max_messages rs of
      (Inr ms, rest) \<Rightarrow> good rs = ms @ good rest \<and> length ms \<le> max 1 max_messages
    | (Inl e, rest) \<Rightarrow> good rs = good rest)"
proof (cases "poll_messages max_messages rs")
  case (Pair r rest)
  show ?thesis
  proof (cases r)
    case (Inl e)
    with Pair show ?thesis
      by (cases rs) (auto simp: poll_messages_def split: option.splits kafka_error.splits prod.splits)
  next
    case (Inr ms)
    with Pair poll_messages_lossless show ?thesis by simp
  qed
qed

section \<open>Topic creation\<close>

record topic_spec =
  ts_name :: string
  ts_partitions :: "nat option"
  ts_retention_ms :: "int option"

definition ensure_topics :: "string list \<Rightarrow> topic_spec list \<Rightarrow> (string \<times> nat \<times> int option) list" where
  \<comment> \<open>the \<open>NewTopic\<close> requests: name, partitions, retention.ms\<close>
  "ensure_topics existing topics =
     map (\<lambda>t. (ts_name t, (case ts_partitions t of None \<Rightarrow> 6 | Some n \<Rightarrow> n), ts_retention_ms t))
       (filter (\<lambda>t. ts_name t \<notin> set existing) topics)"

lemma ensure_topics_missing:
  "set (map fst (ensure_topics existing topics)) = ts_name ` set topics - set existing"
  by (auto simp: ensure_topics_def)

end
