(* ===== verification/Portfolio_Sync.thy ===== *)
theory Portfolio_Sync
  imports Py_Base "HOL-Library.Sublist"
begin

text \<open>
  \<open>lib/quant_core/redis_utils.py\<close> (the key schema and the hash helper) and
  \<open>lib/quant_core/portfolio_state.py\<close>: the portfolio state that the post-trade service writes to
  Redis and the risk gateway reads. Redis is outside the repository: the writer is modelled by the
  commands of its pipeline, the reader takes the answers of \<open>hgetall\<close> and the pages that the \<open>scan\<close>
  cursor walks through. A hash field is a text; \<open>Float_Text x\<close> is the text \<open>str(x)\<close> of a float, which
  \<open>float\<close> reads back as \<open>x\<close>.
\<close>

section \<open>Keys\<close>

definition key_book_bids :: "string \<Rightarrow> string" where "key_book_bids symbol = ''book:'' @ symbol @ '':bids''"
definition key_book_asks :: "string \<Rightarrow> string" where "key_book_asks symbol = ''book:'' @ symbol @ '':asks''"
definition key_book_mid :: "string \<Rightarrow> string" where "key_book_mid symbol = ''book:'' @ symbol @ '':mid_price''"
definition key_book_spread :: "string \<Rightarrow> string" where "key_book_spread symbol = ''book:'' @ symbol @ '':spread''"
definition key_book_last_update :: "string \<Rightarrow> string" where
  "key_book_last_update symbol = ''book:'' @ symbol @ '':last_update''"
definition key_feature :: "string \<Rightarrow> string \<Rightarrow> string" where
  "key_feature symbol name = ''features:'' @ symbol @ '':'' @ name"
definition key_position :: "string \<Rightarrow> string \<Rightarrow> string" where
  "key_position run_id symbol = ''positions:'' @ run_id @ '':'' @ symbol"
definition key_portfolio :: "string \<Rightarrow> string" where "key_portfolio run_id = ''portfolio:'' @ run_id"
definition key_risk_limits :: "string \<Rightarrow> string" where "key_risk_limits run_id = ''risk:limits:'' @ run_id"
definition key_order_timestamps :: "string \<Rightarrow> string \<Rightarrow> string" where
  "key_order_timestamps run_id symbol = ''risk:order_timestamps:'' @ run_id @ '':'' @ symbol"
definition key_heartbeat :: "string \<Rightarrow> string" where "key_heartbeat service = ''heartbeat:'' @ service"

section \<open>Values\<close>

datatype redis_text = Float_Text real | Raw string

type_synonym redis_hash = "(string, redis_text) dict"

fun float_of :: "redis_text \<Rightarrow> py_error + real" where
  "float_of (Float_Text x) = Inr x"
| "float_of (Raw s) = Inl (ValueError s)"

definition hash_float :: "redis_hash \<Rightarrow> string \<Rightarrow> real \<Rightarrow> py_error + real" where
  \<comment> \<open>\<open>float(h.get(name, default))\<close>\<close>
  "hash_float h name dflt = float_of (dget h name (Float_Text dflt))"

datatype redis_cmd = HSet string redis_hash

section \<open>Writer\<close>

definition initial_equity :: real where "initial_equity = 100000"

definition position_hash :: "(string, real) dict \<Rightarrow> redis_hash" where
  "position_hash pos =
     [(''quantity'', Float_Text (dget pos ''quantity'' 0)),
      (''avg_entry_price'', Float_Text (dget pos ''avg_entry_price'' 0)),
      (''realized_pnl'', Float_Text (dget pos ''realized_pnl'' 0)),
      (''unrealized_pnl'', Float_Text (dget pos ''unrealized_pnl'' 0))]"

definition sync_portfolio_to_redis :: "string \<Rightarrow> (string, (string, real) dict) dict \<Rightarrow> real \<Rightarrow> real \<Rightarrow> real \<Rightarrow> real \<Rightarrow>
    real \<Rightarrow> redis_cmd list" where
  "sync_portfolio_to_redis run_id positions current_equity peak_equity realized_pnl unrealized_pnl total_fees =
     HSet (key_portfolio run_id)
       [(''current_equity'', Float_Text current_equity), (''peak_equity'', Float_Text peak_equity),
        (''realized_pnl'', Float_Text realized_pnl), (''unrealized_pnl'', Float_Text unrealized_pnl),
        (''total_fees'', Float_Text total_fees)] #
     map (\<lambda>(symbol, pos). HSet (key_position run_id symbol) (position_hash pos)) positions"

section \<open>Reader\<close>

record portfolio_data =
  pd_positions :: "(string, real) dict"
  pd_current_equity :: real
  pd_peak_equity :: real
  pd_realized_pnl :: real
  pd_unrealized_pnl :: real

definition colon :: char where "colon = CHR '':''"

definition last_segment :: "string \<Rightarrow> string" where
  \<comment> \<open>\<open>key.split(':')[-1]\<close>\<close>
  "last_segment s = rev (takeWhile (\<lambda>c. c \<noteq> colon) (rev s))"

fun read_positions :: "(string \<Rightarrow> py_error + redis_hash) \<Rightarrow> (string \<times> string) list \<Rightarrow> (string, real) dict \<Rightarrow>
    py_error + (string, real) dict" where
  \<comment> \<open>the loop over the keys, given with the symbol each one is stored under\<close>
  "read_positions hgetall [] positions = Inr positions"
| "read_positions hgetall ((key, symbol) # keys) positions =
     ebind (hgetall key) (\<lambda>pos_data.
       if pos_data \<noteq> []
       then ebind (hash_float pos_data ''quantity'' 0) (\<lambda>qty.
         read_positions hgetall keys (if qty \<noteq> 0 then AList.update symbol qty positions else positions))
       else read_positions hgetall keys positions)"

definition read_portfolio_from_redis :: "(string \<Rightarrow> py_error + redis_hash) \<Rightarrow> (string \<Rightarrow> string list list) \<Rightarrow> string \<Rightarrow>
    string list \<Rightarrow> py_error + portfolio_data" where
  \<comment> \<open>\<open>scan prefix\<close>: the pages of the cursor loop; \<open>symbols = []\<close> for \<open>None\<close> too\<close>
  "read_portfolio_from_redis hgetall scan run_id symbols =
     ebind (hgetall (key_portfolio run_id)) (\<lambda>summary.
       if summary = []
       then Inr \<lparr>pd_positions = [], pd_current_equity = initial_equity, pd_peak_equity = initial_equity,
              pd_realized_pnl = 0, pd_unrealized_pnl = 0\<rparr>
       else ebind (hash_float summary ''current_equity'' initial_equity) (\<lambda>current_equity.
         ebind (hash_float summary ''peak_equity'' initial_equity) (\<lambda>peak_equity.
         ebind (hash_float summary ''realized_pnl'' 0) (\<lambda>realized_pnl.
         ebind (hash_float summary ''unrealized_pnl'' 0) (\<lambda>unrealized_pnl.
         ebind (read_positions hgetall
             (if symbols \<noteq> [] then map (\<lambda>sym. (key_position run_id (upper sym), upper sym)) symbols
              else map (\<lambda>key. (key, last_segment key)) (concat (scan (''positions:'' @ run_id @ '':'')))) [])
           (\<lambda>positions.
         Inr \<lparr>pd_positions = positions, pd_current_equity = current_equity, pd_peak_equity = peak_equity,
           pd_realized_pnl = realized_pnl, pd_unrealized_pnl = unrealized_pnl\<rparr>))))))"

section \<open>What the services rely on from Redis\<close>

text \<open>
  \<open>HSET\<close> sets the given fields of a hash and keeps the others; \<open>HGETALL\<close> returns the fields of a hash,
  none for a missing key; a full \<open>SCAN\<close> iteration returns every key with the prefix, in any order
  and possibly more than once.
\<close>

fun apply_cmd :: "(string, redis_hash) dict \<Rightarrow> redis_cmd \<Rightarrow> (string, redis_hash) dict" where
  "apply_cmd store (HSet key h) = AList.update key (dict_merge (dget store key []) h) store"

definition serves :: "(string, redis_hash) dict \<Rightarrow> (string \<Rightarrow> py_error + redis_hash) \<Rightarrow> (string \<Rightarrow> string list list) \<Rightarrow> bool" where
  "serves store hgetall scan \<longleftrightarrow> (\<forall>k. hgetall k = Inr (dget store k [])) \<and>
     (\<forall>p. set (concat (scan p)) = {k \<in> fst ` set store. prefix p k})"

section \<open>Keys do not clash\<close>

lemma last_segment_app: "colon \<notin> set s \<Longrightarrow> last_segment (p @ '':'' @ s) = s"
  unfolding last_segment_def colon_def
  by (simp add: takeWhile_append takeWhile_eq_all_conv)

lemma last_segment_position: "colon \<notin> set s \<Longrightarrow> last_segment (key_position run s) = s"
  using last_segment_app [of s "''positions:'' @ run"] by (simp add: key_position_def)

lemma key_position_inj [simp]: "key_position run s = key_position run s' \<longleftrightarrow> s = s'"
  by (simp add: key_position_def)

lemma key_position_portfolio [simp]: "key_position run s \<noteq> key_portfolio run'" "key_portfolio run' \<noteq> key_position run s"
  by (simp_all add: key_position_def key_portfolio_def)

definition position_prefix :: "string \<Rightarrow> string" where
  "position_prefix run_id = ''positions:'' @ run_id @ '':''"

lemma prefix_position [simp]: "prefix (position_prefix run) (key_position run s)"
  by (simp add: key_position_def position_prefix_def)

lemma prefix_portfolio [simp]: "\<not> prefix (position_prefix run) (key_portfolio run')"
  by (simp add: key_portfolio_def position_prefix_def)

section \<open>Reading positions\<close>

text \<open>What the loop leaves in the table: the quantity of every key read, unless it is zero.\<close>

definition holds :: "redis_hash \<Rightarrow> real option \<Rightarrow> bool" where
  "holds h q \<longleftrightarrow> (case q of None \<Rightarrow> h = [] | Some x \<Rightarrow> map_of h ''quantity'' = Some (Float_Text x))"

lemma read_positions_spec:
  assumes "\<forall>(k, s) \<in> set keys. k = key s"
    and "\<And>s. \<exists>h. hgetall (key s) = Inr h \<and> holds h (q s)"
  shows "\<exists>pos'. read_positions hgetall keys pos = Inr pos' \<and>
    (\<forall>s. map_of pos' s = (case q s of
        Some x \<Rightarrow> if s \<in> snd ` set keys \<and> x \<noteq> 0 then Some x else map_of pos s
      | None \<Rightarrow> map_of pos s))"
  using assms(1)
proof (induction keys arbitrary: pos)
  case (Cons ks keys)
  obtain s where ks: "ks = (key s, s)" using Cons.prems by (cases ks) auto
  define pos1 where "pos1 = (case q s of Some x \<Rightarrow> if x \<noteq> 0 then AList.update s x pos else pos | None \<Rightarrow> pos)"
  obtain h where "hgetall (key s) = Inr h" "holds h (q s)" using assms(2) by blast
  then have step: "read_positions hgetall (ks # keys) pos = read_positions hgetall keys pos1"
    by (auto simp: ks pos1_def hash_float_def dget_def holds_def split: option.splits)
  obtain pos' where pos': "read_positions hgetall keys pos1 = Inr pos'"
      "\<And>s. map_of pos' s = (case q s of
        Some x \<Rightarrow> if s \<in> snd ` set keys \<and> x \<noteq> 0 then Some x else map_of pos1 s | None \<Rightarrow> map_of pos1 s)"
    using Cons.IH [of pos1] Cons.prems by auto
  have "map_of pos' s' = (case q s' of
        Some x \<Rightarrow> if s' \<in> snd ` set (ks # keys) \<and> x \<noteq> 0 then Some x else map_of pos s' | None \<Rightarrow> map_of pos s')" for s'
    by (auto simp: pos'(2) ks pos1_def update_conv' split: option.split)
  with step pos'(1) show ?case by auto
qed (auto split: option.split)

section \<open>The store after a synchronisation\<close>

definition position_cmds :: "string \<Rightarrow> (string, (string, real) dict) dict \<Rightarrow> redis_cmd list" where
  "position_cmds run ps = map (\<lambda>(s, pos). HSet (key_position run s) (position_hash pos)) ps"

lemma position_cmds_simps [simp]:
  "position_cmds run [] = []"
  "position_cmds run ((s, pos) # ps) = HSet (key_position run s) (position_hash pos) # position_cmds run ps"
  by (simp_all add: position_cmds_def)

lemma cmds_portfolio: "dget (foldl apply_cmd base (position_cmds run ps)) (key_portfolio run') [] =
   dget base (key_portfolio run') []"
  by (induction ps arbitrary: base) auto

lemma cmds_keys: "fst ` set (foldl apply_cmd base (position_cmds run ps)) =
   fst ` set base \<union> key_position run ` fst ` set ps"
proof (induction ps arbitrary: base)
  case (Cons p ps)
  then show ?case by (cases p) (simp add: dom_update)
qed simp

lemma cmds_other: "s \<notin> fst ` set ps \<Longrightarrow>
   dget (foldl apply_cmd base (position_cmds run ps)) (key_position run s) [] = dget base (key_position run s) []"
  by (induction ps arbitrary: base) auto

lemma cmds_position:
  "dict_wf ps \<Longrightarrow> map_of ps s = Some pos \<Longrightarrow>
   map_of (dget (foldl apply_cmd base (position_cmds run ps)) (key_position run s) []) ''quantity'' =
     Some (Float_Text (dget pos ''quantity'' 0))"
proof (induction ps arbitrary: base)
  case (Cons p ps)
  obtain s' pos' where p: "p = (s', pos')" by fastforce
  show ?case
  proof (cases "s' = s")
    case True
    then have "s \<notin> fst ` set ps" using Cons.prems p by (auto simp: dict_wf_def)
    from cmds_other [OF this] True Cons.prems p show ?thesis
      by (simp add: map_of_merge position_hash_def)
  next
    case False
    with Cons p show ?thesis by (simp add: dict_wf_def)
  qed
qed simp

lemma portfolio_sync_roundtrip_helper:
  assumes "dict_wf ps" and "\<forall>s \<in> fst ` set ps. colon \<notin> set s"
    and "\<forall>k \<in> fst ` set base. prefix (position_prefix run) k \<longrightarrow> k \<in> key_position run ` fst ` set ps"
    and "serves (foldl apply_cmd base (sync_portfolio_to_redis run ps eq peak rpnl upnl fees)) hgetall scan"
  shows "\<exists>d. read_portfolio_from_redis hgetall scan run [] = Inr d \<and>
    pd_current_equity d = eq \<and> pd_peak_equity d = peak \<and> pd_realized_pnl d = rpnl \<and> pd_unrealized_pnl d = upnl \<and>
    (\<forall>s. map_of (pd_positions d) s = (case map_of ps s of None \<Rightarrow> None
       | Some pos \<Rightarrow> if dget pos ''quantity'' 0 = 0 then None else Some (dget pos ''quantity'' 0)))"
proof -
  define base1 where "base1 = apply_cmd base (HSet (key_portfolio run)
    [(''current_equity'', Float_Text eq), (''peak_equity'', Float_Text peak), (''realized_pnl'', Float_Text rpnl),
     (''unrealized_pnl'', Float_Text upnl), (''total_fees'', Float_Text fees)])"
  define store where "store = foldl apply_cmd base1 (position_cmds run ps)"
  have hg: "\<And>k. hgetall k = Inr (dget store k [])"
    and sc: "\<And>p. set (concat (scan p)) = {k \<in> fst ` set store. prefix p k}"
    using assms(4) by (simp_all add: serves_def sync_portfolio_to_redis_def store_def base1_def position_cmds_def)
  define h where "h = dget base1 (key_portfolio run) []"
  have fields: "map_of h ''current_equity'' = Some (Float_Text eq)" "map_of h ''peak_equity'' = Some (Float_Text peak)"
      "map_of h ''realized_pnl'' = Some (Float_Text rpnl)" "map_of h ''unrealized_pnl'' = Some (Float_Text upnl)"
    by (simp_all add: h_def base1_def map_of_merge)
  have h: "hgetall (key_portfolio run) = Inr h" "h \<noteq> []"
    using fields by (auto simp: hg store_def cmds_portfolio h_def)
  have h': "hash_float h ''current_equity'' a = Inr eq" "hash_float h ''peak_equity'' a = Inr peak"
      "hash_float h ''realized_pnl'' a = Inr rpnl" "hash_float h ''unrealized_pnl'' a = Inr upnl" for a
    using fields by (simp_all add: hash_float_def dget_def)
  define q where "q s = map_option (\<lambda>pos. dget pos ''quantity'' 0) (map_of ps s)" for s
  define keys where "keys = map (\<lambda>k. (k, last_segment k)) (concat (scan (position_prefix run)))"
  have keys_store: "fst ` set store = insert (key_portfolio run) (fst ` set base) \<union> key_position run ` fst ` set ps"
    by (simp add: store_def cmds_keys base1_def dom_update)
  have found: "set (concat (scan (position_prefix run))) = key_position run ` fst ` set ps"
    unfolding sc keys_store using assms(3) by auto
  have keys: "\<forall>(k, s) \<in> set keys. k = key_position run s" "snd ` set keys = fst ` set ps"
    using assms(2) by (auto simp: keys_def found last_segment_position simp del: set_concat intro!: image_eqI)
  have "\<exists>h. hgetall (key_position run s) = Inr h \<and> holds h (q s)" for s
  proof (cases "map_of ps s")
    case None
    then have s: "s \<notin> fst ` set ps" by (simp add: map_of_eq_None_iff)
    then have "key_position run s \<notin> key_position run ` fst ` set ps"
      by (metis imageE key_position_inj)
    then have "key_position run s \<notin> fst ` set base" using assms(3) prefix_position [of run s] by blast
    then have "map_of base (key_position run s) = None" by (simp add: map_of_eq_None_iff)
    then have "dget base (key_position run s) [] = []" by (simp add: dget_def)
    then have "dget store (key_position run s) [] = []"
      by (simp add: store_def cmds_other [OF s] base1_def)
    with None show ?thesis by (simp add: hg holds_def q_def)
  next
    case (Some pos)
    with assms(1) show ?thesis by (simp add: hg holds_def q_def store_def cmds_position)
  qed
  from read_positions_spec [where key = "key_position run" and hgetall = hgetall and q = q and pos = "[]", OF keys(1) this] obtain pos' where
    pos': "read_positions hgetall keys [] = Inr pos'"
      "\<And>s. map_of pos' s = (case q s of Some x \<Rightarrow> if s \<in> fst ` set ps \<and> x \<noteq> 0 then Some x else map_of [] s
        | None \<Rightarrow> map_of [] s)"
    unfolding keys(2) by blast
  have "read_portfolio_from_redis hgetall scan run [] = Inr \<lparr>pd_positions = pos', pd_current_equity = eq,
      pd_peak_equity = peak, pd_realized_pnl = rpnl, pd_unrealized_pnl = upnl\<rparr>"
    using pos'(1) h h' by (simp add: read_portfolio_from_redis_def keys_def position_prefix_def)
  moreover have "s \<in> fst ` set ps" if "map_of ps s = Some pos" for s pos
    using map_of_SomeD [OF that] by force
  ultimately show ?thesis by (auto simp: pos'(2) q_def split: option.split)
qed

text \<open>
  The risk gateway reads exactly what the post-trade service wrote: on a Redis that serves the
  last synchronisation (over any earlier state of the run that holds no position the new one does
  not name), the reader returns the written equities and profits, and for every symbol the
  written quantity, a flat position being left out.
\<close>

theorem portfolio_sync_roundtrip:
  assumes "dict_wf ps" and "\<forall>s \<in> fst ` set ps. colon \<notin> set s"
    and "\<forall>k \<in> fst ` set base. prefix (position_prefix run) k \<longrightarrow> k \<in> key_position run ` fst ` set ps"
    and "serves (foldl apply_cmd base (sync_portfolio_to_redis run ps eq peak rpnl upnl fees)) hgetall scan"
  shows "\<exists>d. read_portfolio_from_redis hgetall scan run [] = Inr d \<and>
    pd_current_equity d = eq \<and> pd_peak_equity d = peak \<and> pd_realized_pnl d = rpnl \<and> pd_unrealized_pnl d = upnl \<and>
    (\<forall>s. map_of (pd_positions d) s = (case map_of ps s of None \<Rightarrow> None
       | Some pos \<Rightarrow> if dget pos ''quantity'' 0 = 0 then None else Some (dget pos ''quantity'' 0)))"
  using assms by (rule portfolio_sync_roundtrip_helper)

definition sample_positions :: "(string, (string, real) dict) dict" where
  "sample_positions = [(''BTCUSD'', [(''quantity'', 2)]), (''ETHUSD'', [(''quantity'', 0)])]"

definition sample_store :: "(string, redis_hash) dict" where
  "sample_store = foldl apply_cmd [] (sync_portfolio_to_redis ''live'' sample_positions 110 120 3 4 1)"

lemma sample_serves:
  "serves (foldl apply_cmd [] (sync_portfolio_to_redis ''live'' sample_positions 110 120 3 4 1))
     (\<lambda>k. Inr (dget sample_store k [])) (\<lambda>p. [filter (\<lambda>k. prefix p k) (map fst sample_store)])"
  by (auto simp: serves_def sample_store_def)

lemma sample_positions_ok: "dict_wf sample_positions" "\<forall>s \<in> fst ` set sample_positions. colon \<notin> set s"
  by (auto simp: sample_positions_def dict_wf_def colon_def)

lemma portfolio_sync_roundtrip_witness:
  "\<exists>d. read_portfolio_from_redis (\<lambda>k. Inr (dget sample_store k []))
      (\<lambda>p. [filter (\<lambda>k. prefix p k) (map fst sample_store)]) ''live'' [] = Inr d \<and>
    pd_current_equity d = 110 \<and> map_of (pd_positions d) ''BTCUSD'' = Some 2 \<and> map_of (pd_positions d) ''ETHUSD'' = None"
proof -
  have pos: "map_of sample_positions ''BTCUSD'' = Some [(''quantity'', 2)]"
      "map_of sample_positions ''ETHUSD'' = Some [(''quantity'', 0)]"
    by (simp_all add: sample_positions_def)
  from portfolio_sync_roundtrip [OF sample_positions_ok _ sample_serves] obtain d where
    "read_portfolio_from_redis (\<lambda>k. Inr (dget sample_store k []))
      (\<lambda>p. [filter (\<lambda>k. prefix p k) (map fst sample_store)]) ''live'' [] = Inr d"
    "pd_current_equity d = 110" "\<forall>s. map_of (pd_positions d) s = (case map_of sample_positions s of None \<Rightarrow> None
       | Some pos \<Rightarrow> if dget pos ''quantity'' 0 = 0 then None else Some (dget pos ''quantity'' 0))"
    by auto
  with pos show ?thesis by (intro exI [of _ d]) (simp add: dget_def)
qed

end
