(* ===== verification/Order_Tracker.thy ===== *)
theory Order_Tracker
  imports Models
begin

text \<open>
  \<open>services/execution/execution_svc/order_tracker.py\<close>: the order state machine. The tracker keeps
  a dictionary of order states; \<open>now_ms()\<close> is an argument for each reading. The writes of
  \<open>_persist\<close> to Redis are recorded in order in \<open>tk_writes\<close> (a failing write is swallowed by
  the code, so it has no effect on the tracker).
\<close>

record order_state =
  os_order_id :: string
  os_symbol :: string
  os_side :: string
  os_quantity :: real
  os_status :: order_status
  os_filled_quantity :: real
  os_remaining_quantity :: real
  os_avg_fill_price :: real
  os_exchange_order_id :: string
  os_created_at :: int
  os_updated_at :: int
  os_strategy_id :: string

record tracker =
  tk_redis :: bool
  tk_run_id :: string
  tk_orders :: "(string, order_state) dict"
  tk_writes :: "(string \<times> order_state) list"

definition tracker_init :: "bool \<Rightarrow> string \<Rightarrow> tracker" where
  "tracker_init redis run_id = \<lparr>tk_redis = redis, tk_run_id = run_id, tk_orders = [], tk_writes = []\<rparr>"

fun transitions :: "order_status \<Rightarrow> order_status list" where
  "transitions SUBMITTED = [ACCEPTED, REJECTED]"
| "transitions ACCEPTED = [FILLED, PARTIALLY_FILLED, CANCELLED]"
| "transitions PARTIALLY_FILLED = [FILLED, PARTIALLY_FILLED, CANCELLED]"
| "transitions _ = []"

definition persist :: "string \<Rightarrow> order_state \<Rightarrow> tracker \<Rightarrow> tracker" where
  "persist order_id st tk =
     (if \<not> tk_redis tk then tk
      else tk\<lparr>tk_writes := tk_writes tk @ [(''orders:'' @ tk_run_id tk @ '':'' @ order_id, st)]\<rparr>)"

definition register_order :: "order \<Rightarrow> int \<Rightarrow> int \<Rightarrow> tracker \<Rightarrow> tracker" where
  "register_order ord now1 now2 tk =
     (let st = \<lparr>os_order_id = or_order_id ord, os_symbol = or_symbol ord, os_side = or_side ord,
            os_quantity = or_quantity ord, os_status = SUBMITTED, os_filled_quantity = 0,
            os_remaining_quantity = or_quantity ord, os_avg_fill_price = 0,
            os_exchange_order_id = '''', os_created_at = now1, os_updated_at = now2,
            os_strategy_id = or_strategy_id ord\<rparr> in
      persist (or_order_id ord) st
        (tk\<lparr>tk_orders := AList.update (or_order_id ord) st (tk_orders tk)\<rparr>))"

definition moved :: "order_status \<Rightarrow> real \<Rightarrow> real \<Rightarrow> string \<Rightarrow> int \<Rightarrow> order_state \<Rightarrow> order_state" where
  \<comment> \<open>the assignments of a valid transition\<close>
  "moved new_status filled_quantity avg_fill_price exchange_order_id now st =
     (let st1 = st\<lparr>os_status := new_status, os_updated_at := now\<rparr>;
          st2 = (if exchange_order_id \<noteq> '''' then st1\<lparr>os_exchange_order_id := exchange_order_id\<rparr> else st1);
          st3 = (if 0 < filled_quantity
                 then st2\<lparr>os_filled_quantity := filled_quantity,
                        os_remaining_quantity := os_quantity st2 - filled_quantity\<rparr>
                 else st2) in
      if 0 < avg_fill_price then st3\<lparr>os_avg_fill_price := avg_fill_price\<rparr> else st3)"

definition transition :: "string \<Rightarrow> order_status \<Rightarrow> real \<Rightarrow> real \<Rightarrow> string \<Rightarrow> string \<Rightarrow> int \<Rightarrow> int \<Rightarrow> tracker \<Rightarrow>
    order_status_update option \<times> tracker" where
  "transition order_id new_status filled_quantity avg_fill_price exchange_order_id reason now1 now2 tk =
     (case map_of (tk_orders tk) order_id of
        None \<Rightarrow> (None, tk)
      | Some st \<Rightarrow>
          if new_status \<notin> set (transitions (os_status st)) then (None, tk)
          else let st' = moved new_status filled_quantity avg_fill_price exchange_order_id now1 st in
            (Some \<lparr>su_order_id = order_id, su_exchange_order_id = os_exchange_order_id st',
               su_status = status_str new_status, su_filled_quantity = os_filled_quantity st',
               su_remaining_quantity = os_remaining_quantity st',
               su_avg_fill_price = os_avg_fill_price st', su_timestamp = now2, su_reason = reason,
               su_backtest_id = None\<rparr>,
             persist order_id st' (tk\<lparr>tk_orders := AList.update order_id st' (tk_orders tk)\<rparr>)))"

definition get_order :: "string \<Rightarrow> tracker \<Rightarrow> order_state option" where
  "get_order order_id tk = map_of (tk_orders tk) order_id"

definition terminal :: "order_status \<Rightarrow> bool" where
  "terminal s \<longleftrightarrow> s \<in> {FILLED, REJECTED, CANCELLED}"

definition get_open_orders :: "tracker \<Rightarrow> order_state list" where
  "get_open_orders tk = filter (\<lambda>st. \<not> terminal (os_status st)) (map snd (tk_orders tk))"

section \<open>Basic facts\<close>

lemma persist_fields [simp]:
  "tk_orders (persist i st tk) = tk_orders tk" "tk_run_id (persist i st tk) = tk_run_id tk"
  "tk_redis (persist i st tk) = tk_redis tk"
  by (simp_all add: persist_def)

lemma moved_fields [simp]:
  "os_status (moved s f a e n st) = s" "os_quantity (moved s f a e n st) = os_quantity st"
  "os_order_id (moved s f a e n st) = os_order_id st" "os_updated_at (moved s f a e n st) = n"
  "os_symbol (moved s f a e n st) = os_symbol st" "os_side (moved s f a e n st) = os_side st"
  "os_strategy_id (moved s f a e n st) = os_strategy_id st"
  by (simp_all add: moved_def Let_def)

lemma moved_filled:
  "os_filled_quantity (moved s f a e n st) = (if 0 < f then f else os_filled_quantity st)"
  "os_remaining_quantity (moved s f a e n st) = (if 0 < f then os_quantity st - f else os_remaining_quantity st)"
  "os_avg_fill_price (moved s f a e n st) = (if 0 < a then a else os_avg_fill_price st)"
  by (simp_all add: moved_def Let_def)

lemma get_register [simp]:
  "i \<noteq> or_order_id r \<Longrightarrow> get_order i (register_order r n1 n2 tk) = get_order i tk"
  by (simp add: get_order_def register_order_def Let_def dict.lookup_insert)

lemma register_status:
  "\<exists>st. get_order (or_order_id r) (register_order r n1 n2 tk) = Some st \<and> os_status st = SUBMITTED \<and>
     os_filled_quantity st = 0 \<and> os_remaining_quantity st = or_quantity r \<and> os_quantity st = or_quantity r"
  by (simp add: get_order_def register_order_def Let_def dict.lookup_insert)

lemma transition_cases:
  obtains (unknown) "get_order i tk = None" "transition i s f a e rs n1 n2 tk = (None, tk)"
  | (invalid) st where "get_order i tk = Some st" "s \<notin> set (transitions (os_status st))"
      "transition i s f a e rs n1 n2 tk = (None, tk)"
  | (valid) st u where "get_order i tk = Some st" "s \<in> set (transitions (os_status st))"
      "transition i s f a e rs n1 n2 tk = (Some u, snd (transition i s f a e rs n1 n2 tk))"
      "\<And>j. get_order j (snd (transition i s f a e rs n1 n2 tk)) =
         (if j = i then Some (moved s f a e n1 st) else get_order j tk)"
      "su_order_id u = i" "su_status u = status_str s"
      "su_filled_quantity u = os_filled_quantity (moved s f a e n1 st)"
      "su_remaining_quantity u = os_remaining_quantity (moved s f a e n1 st)"
      "su_avg_fill_price u = os_avg_fill_price (moved s f a e n1 st)"
proof (cases "get_order i tk")
  case None
  then show ?thesis using unknown by (simp add: transition_def get_order_def)
next
  case (Some st)
  show ?thesis
  proof (cases "s \<in> set (transitions (os_status st))")
    case True
    with Some show ?thesis
      by (intro valid [OF Some True])
         (auto simp: transition_def get_order_def Let_def dict.lookup_insert)
  qed (use Some invalid in \<open>simp add: transition_def get_order_def\<close>)
qed

lemma transition_rejected_when_accepted:
  "get_order i tk = Some st \<Longrightarrow> os_status st = ACCEPTED \<Longrightarrow>
   transition i REJECTED f a e rs n1 n2 tk = (None, tk)"
  by (cases rule: transition_cases [of i tk REJECTED f a e rs n1 n2]) auto

section \<open>The documented lifecycle\<close>

text \<open>
  The abstract machine of one order: what the module's header draws, with the repeated partial
  fill and the cancellation of a partially filled order that the table adds.
\<close>

inductive lifecycle :: "order_status \<Rightarrow> order_status \<Rightarrow> bool" where
  accept: "lifecycle SUBMITTED ACCEPTED"
| reject: "lifecycle SUBMITTED REJECTED"
| partial: "s \<in> {ACCEPTED, PARTIALLY_FILLED} \<Longrightarrow> lifecycle s PARTIALLY_FILLED"
| complete: "s \<in> {ACCEPTED, PARTIALLY_FILLED} \<Longrightarrow> lifecycle s FILLED"
| cancel: "s \<in> {ACCEPTED, PARTIALLY_FILLED} \<Longrightarrow> lifecycle s CANCELLED"

inductive_cases lifecycle_terminal: "lifecycle s t"

inductive_simps lifecycle_iff: "lifecycle s t"

lemma transitions_lifecycle: "t \<in> set (transitions s) \<longleftrightarrow> lifecycle s t"
  by (cases s; cases t) (auto intro: lifecycle.intros elim: lifecycle_terminal)

lemma terminal_stuck: "terminal s \<Longrightarrow> \<not> lifecycle s t"
  by (auto simp: terminal_def elim: lifecycle_terminal)

datatype tracker_op =
    Register order int int
  | Transition string order_status real real string string int int

fun tracker_step :: "tracker \<Rightarrow> tracker_op \<Rightarrow> tracker" where
  "tracker_step tk (Register r n1 n2) = register_order r n1 n2 tk"
| "tracker_step tk (Transition i s f a e rs n1 n2) = snd (transition i s f a e rs n1 n2 tk)"

definition order_inv :: "string \<Rightarrow> order_state \<Rightarrow> bool" where
  "order_inv i st \<longleftrightarrow> os_order_id st = i \<and> 0 \<le> os_filled_quantity st \<and>
     os_remaining_quantity st = os_quantity st - os_filled_quantity st \<and>
     (os_status st = SUBMITTED \<longrightarrow> os_filled_quantity st = 0)"

definition tracker_inv :: "tracker \<Rightarrow> bool" where
  "tracker_inv tk \<longleftrightarrow> dict_wf (tk_orders tk) \<and> (\<forall>i st. get_order i tk = Some st \<longrightarrow> order_inv i st)"

lemma tracker_inv_init [simp]: "tracker_inv (tracker_init r i)"
  by (simp add: tracker_inv_def tracker_init_def get_order_def)

lemma tracker_wf_step: "dict_wf (tk_orders tk) \<Longrightarrow> dict_wf (tk_orders (tracker_step tk e))"
  by (cases e) (auto simp: register_order_def transition_def Let_def split: option.splits)

lemma not_to_submitted: "\<not> lifecycle s SUBMITTED"
  by (auto elim: lifecycle_terminal)

lemma order_inv_moved:
  "order_inv i st \<Longrightarrow> lifecycle (os_status st) s \<Longrightarrow> order_inv i (moved s f a e n st)"
  using not_to_submitted by (auto simp: order_inv_def moved_filled)

lemma tracker_inv_step: "tracker_inv tk \<Longrightarrow> tracker_inv (tracker_step tk e)"
proof (cases e)
  case (Register r n1 n2)
  assume "tracker_inv tk"
  with Register tracker_wf_step [of tk e] show ?thesis
    by (auto simp: tracker_inv_def register_order_def get_order_def Let_def order_inv_def
        dict.lookup_insert split: if_splits)
next
  case (Transition i s f a x rs n1 n2)
  assume inv: "tracker_inv tk"
  show ?thesis
  proof (cases rule: transition_cases [of i tk s f a x rs n1 n2])
    case (valid st u)
    with inv Transition tracker_wf_step [of tk e] show ?thesis
      by (auto simp: tracker_inv_def transitions_lifecycle intro!: order_inv_moved)
  qed (use inv Transition in simp_all)
qed

interpretation tracker: machine tracker_step "\<lambda>_. True" tracker_inv
  by unfold_locales (rule tracker_inv_step)

section \<open>Properties\<close>

text \<open>One step moves the status of an order along the lifecycle, keeps it, or registers it.\<close>

lemma step_refines_lifecycle:
  assumes "get_order i tk = Some st" and "get_order i (tracker_step tk e) = Some st'"
  shows "st' = st \<or> lifecycle (os_status st) (os_status st') \<or>
    (\<exists>r n1 n2. e = Register r n1 n2 \<and> or_order_id r = i)"
proof (cases e)
  case (Transition j s f a x rs n1 n2)
  show ?thesis
  proof (cases rule: transition_cases [of j tk s f a x rs n1 n2])
    case (valid st0 u)
    with assms Transition show ?thesis
      by (cases "i = j") (auto simp: transitions_lifecycle)
  qed (use assms Transition in simp_all)
qed (use assms in \<open>auto split: if_splits\<close>)

lemma get_order_kept: "get_order i tk = Some st \<Longrightarrow> \<exists>st'. get_order i (tracker_step tk e) = Some st'"
proof (cases e)
  case (Register r n1 n2)
  assume "get_order i tk = Some st"
  with Register register_status [of r n1 n2 tk] show ?thesis
    by (cases "i = or_order_id r") auto
next
  case (Transition j s f a x rs n1 n2)
  assume "get_order i tk = Some st"
  with Transition show ?thesis
    by (cases rule: transition_cases [of j tk s f a x rs n1 n2]) auto
qed

definition registers :: "string \<Rightarrow> tracker_op \<Rightarrow> bool" where
  "registers i e \<longleftrightarrow> (\<exists>r n1 n2. e = Register r n1 n2 \<and> or_order_id r = i)"



lemma terminal_step:
  assumes "get_order i tk = Some st" and "terminal (os_status st)" and "\<not> registers i e"
  shows "get_order i (tracker_step tk e) = Some st"
proof -
  obtain st' where "get_order i (tracker_step tk e) = Some st'"
    using get_order_kept [OF assms(1)] by blast
  with step_refines_lifecycle [OF assms(1) this] assms(2,3) show ?thesis
    by (auto simp: registers_def dest: terminal_stuck)
qed

text \<open>
  A terminal order is final: once an order is filled, rejected or cancelled, no sequence of
  operations that does not register it again changes anything of its state.
\<close>

theorem terminal_orders_are_final:
  assumes "get_order i tk = Some st" and "terminal (os_status st)"
    and "\<forall>e \<in> set ops. \<not> registers i e"
  shows "get_order i (foldl tracker_step tk ops) = Some st"
  using assms by (induction ops arbitrary: tk) (simp_all add: terminal_step)

lemma terminal_orders_are_final_witness:
  "\<exists>tk st. get_order ''o1'' tk = Some st \<and> os_status st = FILLED \<and>
     get_order ''o1'' (foldl tracker_step tk [Transition ''o1'' CANCELLED 0 0 '''' '''' 4 4]) = Some st"
proof -
  define tk where "tk = foldl tracker_step (tracker_init True ''live'')
    [Register sample_order 0 0, Transition ''o1'' ACCEPTED 0 0 '''' '''' 1 1,
     Transition ''o1'' FILLED 2 100 '''' '''' 3 3]"
  obtain st where st: "get_order ''o1'' tk = Some st" "os_status st = FILLED"
    by (simp add: tk_def tracker_init_def register_order_def sample_order_def transition_def moved_def
        persist_def get_order_def Let_def)
  have "get_order ''o1'' (foldl tracker_step tk [Transition ''o1'' CANCELLED 0 0 '''' '''' 4 4]) = Some st"
    by (rule terminal_orders_are_final) (use st in \<open>simp_all add: terminal_def registers_def\<close>)
  with st show ?thesis by blast
qed

text \<open>
  In every state the tracker can reach from its start, the book keeping of each order adds up:
  filled and remaining quantity make the order's quantity, the filled quantity is never negative
  and an order that is still submitted has nothing filled.
\<close>

theorem tracker_quantities_add_up:
  "get_order i (foldl tracker_step (tracker_init redis run_id) ops) = Some st \<longrightarrow>
   os_filled_quantity st + os_remaining_quantity st = os_quantity st \<and>
   0 \<le> os_filled_quantity st \<and> (os_status st = SUBMITTED \<longrightarrow> os_filled_quantity st = 0)"
  using tracker.inv_run [OF tracker_inv_init, of ops redis run_id]
  by (auto simp: list_all_iff tracker_inv_def order_inv_def)

lemma tracker_quantities_add_up_witness:
  "\<exists>st. get_order ''o1'' (foldl tracker_step (tracker_init False ''live'') [Register sample_order 5 6]) = Some st \<and>
     os_filled_quantity st + os_remaining_quantity st = 2"
proof -
  obtain st where st: "get_order ''o1'' (foldl tracker_step (tracker_init False ''live'') [Register sample_order 5 6]) = Some st"
      "os_quantity st = 2"
    using register_status [of sample_order 5 6 "tracker_init False ''live''"]
    by (auto simp: sample_order_def)
  with tracker_quantities_add_up [of "''o1''" False "''live''" "[Register sample_order 5 6]" st]
  show ?thesis by auto
qed

lemma open_orders_iff:
  assumes "dict_wf (tk_orders tk)"
  shows "st \<in> set (get_open_orders tk) \<longleftrightarrow> (\<exists>i. get_order i tk = Some st \<and> \<not> terminal (os_status st))"
  using assms by (force simp: get_open_orders_def get_order_def map_of_value)

section \<open>An order's way through the tracker\<close>

lemma transition_valid:
  assumes "get_order i tk = Some st" and "lifecycle (os_status st) s"
  shows "get_order i (snd (transition i s f a e rs n1 n2 tk)) = Some (moved s f a e n1 st)"
    "\<exists>u. fst (transition i s f a e rs n1 n2 tk) = Some u"
  by (cases rule: transition_cases [of i tk s f a e rs n1 n2];
      use assms in \<open>auto simp: transitions_lifecycle dest!: arg_cong [where f = fst]\<close>)+

lemma accepted_after_register:
  "\<exists>st. get_order (or_order_id r) (snd (transition (or_order_id r) ACCEPTED 0 0 e rs n1 n2 (register_order r a b tk))) = Some st \<and>
     os_status st = ACCEPTED \<and> os_quantity st = or_quantity r \<and> os_filled_quantity st = 0 \<and> os_order_id st = or_order_id r"
proof -
  obtain st where st: "get_order (or_order_id r) (register_order r a b tk) = Some st" "os_status st = SUBMITTED"
      "os_filled_quantity st = 0" "os_quantity st = or_quantity r" "os_order_id st = or_order_id r"
    by (simp add: get_order_def register_order_def Let_def dict.lookup_insert)
  have "lifecycle (os_status st) ACCEPTED" by (simp add: st lifecycle.intros)
  from transition_valid(1) [OF st(1) this] st show ?thesis by (simp add: moved_filled)
qed

end
