(* ===== verification/Strategy_Mode.thy ===== *)
theory Strategy_Mode
  imports Json_Value
begin

text \<open>
  \<open>services/execution/execution_svc/strategy_mode.py\<close>: the per-strategy trading mode registry and
  its HTTP API. The lock makes each operation of the manager one step. \<open>urlparse\<close> and \<open>parse_qs\<close>
  belong to the standard library: a request is given by its path and its query parameters
  (\<open>parse_qs\<close> drops parameters with an empty value). Dashes outside ASCII in
  messages are written \<open>-\<close>.
\<close>

record mode_manager =
  mm_default :: string
  mm_modes :: "(string, string) dict"

definition valid_modes :: "string list" where
  "valid_modes = [''paper'', ''live'']"

definition mode_manager_init :: "string \<Rightarrow> (string, string) dict \<Rightarrow> mode_manager" where
  "mode_manager_init default_mode initial_modes = \<lparr>mm_default = default_mode, mm_modes = initial_modes\<rparr>"

definition get_mode :: "string \<Rightarrow> mode_manager \<Rightarrow> string" where
  "get_mode strategy_id mm = dget (mm_modes mm) strategy_id (mm_default mm)"

definition set_mode :: "string \<Rightarrow> string \<Rightarrow> mode_manager \<Rightarrow> py_error + mode_manager" where
  "set_mode strategy_id mode mm =
     (if mode \<notin> set valid_modes
      then Inl (ValueError (''Invalid mode '' @ mode @ '' - must be paper or live''))
      else Inr (mm\<lparr>mm_modes := AList.update strategy_id mode (mm_modes mm)\<rparr>))"

definition remove_override :: "string \<Rightarrow> mode_manager \<Rightarrow> mode_manager" where
  "remove_override strategy_id mm = mm\<lparr>mm_modes := AList.delete strategy_id (mm_modes mm)\<rparr>"

definition get_all :: "mode_manager \<Rightarrow> (string, json) dict" where
  "get_all mm = [(''default_mode'', JStr (mm_default mm)),
     (''strategy_overrides'', JObj (map (\<lambda>(k, v). (k, JStr v)) (mm_modes mm)))]"

definition has_any_live :: "mode_manager \<Rightarrow> bool" where
  "has_any_live mm \<longleftrightarrow> mm_default mm = ''live'' \<or> ''live'' \<in> snd ` set (mm_modes mm)"

section \<open>The HTTP API\<close>

type_synonym params = "(string, string list) dict"

definition param0 :: "params \<Rightarrow> string \<Rightarrow> string option" where
  \<comment> \<open>\<open>params.get(name, [None])[0]\<close>: \<open>parse_qs\<close> never yields an empty list\<close>
  "param0 ps name = (case map_of ps name of Some (v # _) \<Rightarrow> Some v | _ \<Rightarrow> None)"

definition given :: "string option \<Rightarrow> bool" where
  "given x \<longleftrightarrow> x \<noteq> None \<and> x \<noteq> Some ''''"

definition do_GET :: "bool \<Rightarrow> string \<Rightarrow> mode_manager \<Rightarrow> nat \<times> (string, json) dict" where
  "do_GET live_client_ready path mm =
     (if path = ''/api/strategy-modes''
      then (200, AList.update ''live_client_ready'' (JBool live_client_ready) (get_all mm))
      else if path = ''/health''
      then (200, [(''status'', JStr ''ok''), (''service'', JStr ''execution'')])
      else (404, [(''error'', JStr ''not found'')]))"

definition post_set :: "bool \<Rightarrow> string option \<Rightarrow> string option \<Rightarrow> mode_manager \<Rightarrow>
    (nat \<times> (string, json) dict) \<times> mode_manager" where
  "post_set live_client_ready strategy_id mode mm =
     (if \<not> given strategy_id \<or> \<not> given mode
      then ((400, [(''error'', JStr ''strategy_id and mode query params required'')]), mm)
      else if the mode \<notin> set valid_modes
      then ((400, [(''error'', JStr (''mode must be paper or live, got '' @ the mode))]), mm)
      else if the mode = ''live'' \<and> \<not> live_client_ready
      then ((400, [(''error'', JStr ''Cannot set live mode - Coinbase client not initialized'')]), mm)
      else (case set_mode (the strategy_id) (the mode) mm of
          Inl e \<Rightarrow> ((500, []), mm)
        | Inr mm' \<Rightarrow>
            ((200, [(''strategy_id'', JStr (the strategy_id)), (''mode'', JStr (the mode)),
               (''message'', JStr (''Strategy '' @ the strategy_id @ '' set to '' @ the mode))]), mm')))"

definition post_reset :: "string option \<Rightarrow> mode_manager \<Rightarrow> (nat \<times> (string, json) dict) \<times> mode_manager" where
  "post_reset strategy_id mm =
     (if \<not> given strategy_id
      then ((400, [(''error'', JStr ''strategy_id query param required'')]), mm)
      else let mm' = remove_override (the strategy_id) mm in
        ((200, [(''strategy_id'', JStr (the strategy_id)),
           (''mode'', JStr (get_mode (the strategy_id) mm')),
           (''message'', JStr (''Strategy '' @ the strategy_id @ '' reverted to default''))]), mm'))"

definition do_POST :: "bool \<Rightarrow> string \<Rightarrow> params \<Rightarrow> mode_manager \<Rightarrow> (nat \<times> (string, json) dict) \<times> mode_manager" where
  "do_POST live_client_ready path params mm =
     (if path = ''/api/strategy-modes/set''
      then post_set live_client_ready (param0 params ''strategy_id'') (param0 params ''mode'') mm
      else if path = ''/api/strategy-modes/reset'' then post_reset (param0 params ''strategy_id'') mm
      else ((404, [(''error'', JStr ''not found'')]), mm))"

datatype http_request = Get string | Post string params

fun mode_step :: "bool \<Rightarrow> mode_manager \<Rightarrow> http_request \<Rightarrow> mode_manager" where
  "mode_step ready mm (Get path) = mm"
| "mode_step ready mm (Post path ps) = snd (do_POST ready path ps mm)"

section \<open>Lookups\<close>

lemma get_mode_set:
  "set_mode s m mm = Inr mm' \<Longrightarrow> get_mode t mm' = (if t = s then m else get_mode t mm)"
  by (auto simp: set_mode_def get_mode_def split: if_splits)

lemma get_mode_remove [simp]:
  "get_mode t (remove_override s mm) = (if t = s then mm_default mm else get_mode t mm)"
  by (simp add: get_mode_def remove_override_def)

lemma has_live_get: "get_mode s mm = ''live'' \<Longrightarrow> has_any_live mm"
  by (force simp: get_mode_def has_any_live_def dget_def split: option.splits dest: map_of_SomeD)

lemma live_has_get: "dict_wf (mm_modes mm) \<Longrightarrow> has_any_live mm \<Longrightarrow>
   mm_default mm = ''live'' \<or> (\<exists>s. get_mode s mm = ''live'')"
  by (force simp: get_mode_def has_any_live_def dget_def dict_wf_def map_of_eq_Some_iff split: option.splits)

lemma post_set_effect:
  "snd (post_set r s m mm) = mm \<or>
   (set_mode (the s) (the m) mm = Inr (snd (post_set r s m mm)) \<and> (the m = ''live'' \<longrightarrow> r))"
  by (simp add: post_set_def split: sum.split)

lemma post_reset_effect:
  "snd (post_reset s mm) = mm \<or> snd (post_reset s mm) = remove_override (the s) mm"
  by (simp add: post_reset_def Let_def)

section \<open>What the API can and cannot do\<close>

definition modes_ok :: "bool \<Rightarrow> mode_manager \<Rightarrow> bool" where
  "modes_ok ready mm \<longleftrightarrow> dict_wf (mm_modes mm) \<and> mm_default mm \<in> set valid_modes \<and>
     (\<forall>s. get_mode s mm \<in> set valid_modes) \<and>
     (\<not> ready \<longrightarrow> (\<forall>s. get_mode s mm \<noteq> ''live''))"

lemma modes_ok_default: "modes_ok ready mm \<Longrightarrow> \<not> ready \<Longrightarrow> mm_default mm \<noteq> ''live''"
proof
  assume ok: "modes_ok ready mm" "\<not> ready" and live: "mm_default mm = ''live''"
  obtain s where "s \<notin> fst ` set (mm_modes mm)"
    using ex_new_if_finite [of "fst ` set (mm_modes mm)"] infinite_UNIV_listI by auto
  then have "map_of (mm_modes mm) s = None"
    by (simp add: map_of_eq_None_iff)
  with live have "get_mode s mm = ''live''"
    by (simp add: get_mode_def dget_def)
  with ok show False by (simp add: modes_ok_def)
qed

lemma modes_ok_set:
  assumes "modes_ok ready mm" and set: "set_mode s m mm = Inr mm'" and "m = ''live'' \<longrightarrow> ready"
  shows "modes_ok ready mm'"
proof -
  have "m \<in> set valid_modes" and "mm_default mm' = mm_default mm" and "mm_modes mm' = AList.update s m (mm_modes mm)"
    using set by (auto simp: set_mode_def split: if_splits)
  with assms(1,3) show ?thesis by (auto simp: modes_ok_def get_mode_set [OF set])
qed

lemma modes_ok_remove: "modes_ok ready mm \<Longrightarrow> modes_ok ready (remove_override s mm)"
  using modes_ok_default [of ready mm]
  by (simp add: modes_ok_def) (simp add: remove_override_def)

lemma modes_ok_post: "modes_ok ready mm \<Longrightarrow> modes_ok ready (snd (do_POST ready path ps mm))"
proof -
  assume ok: "modes_ok ready mm"
  have "modes_ok ready (snd (post_set ready s m mm))" for s m
    using post_set_effect [of ready s m mm] modes_ok_set [OF ok] ok by metis
  moreover have "modes_ok ready (snd (post_reset s mm))" for s
    using post_reset_effect [of s mm] modes_ok_remove [OF ok] ok by metis
  ultimately show ?thesis using ok by (simp add: do_POST_def)
qed

lemma modes_ok_step: "modes_ok ready mm \<Longrightarrow> modes_ok ready (mode_step ready mm e)"
  by (cases e) (simp_all add: modes_ok_post)

interpretation mode_api: machine "mode_step ready" "\<lambda>_. True" "modes_ok ready" for ready
  by unfold_locales (rule modes_ok_step)

text \<open>
  The API cannot switch a strategy to live trading without an exchange client: started with
  valid modes and no live one, then as long as the client is not ready no sequence of requests,
  malformed ones included, makes any strategy live, and whatever is requested every strategy's mode
  stays one of the two valid ones.
\<close>

theorem api_never_live_without_client:
  assumes "dict_wf (mm_modes mm)" and "mm_default mm \<in> set valid_modes"
    and "\<forall>s. get_mode s mm \<in> set valid_modes" and "\<not> has_any_live mm"
  shows "get_mode s (foldl (mode_step False) mm reqs) \<noteq> ''live'' \<and>
    get_mode s (foldl (mode_step ready) mm reqs) \<in> set valid_modes"
proof -
  have "modes_ok r mm" for r
    using assms has_live_get by (auto simp: modes_ok_def)
  then have "modes_ok r (foldl (mode_step r) mm reqs)" for r
    by (intro mode_api.inv_run) (auto simp: list_all_iff)
  from this [of False] this [of ready] show ?thesis by (simp add: modes_ok_def)
qed

lemma api_never_live_without_client_witness:
  "get_mode ''m1'' (foldl (mode_step False) (mode_manager_init ''paper'' [])
      [Post ''/api/strategy-modes/set'' [(''strategy_id'', [''m1'']), (''mode'', [''live''])]]) \<noteq> ''live'' \<and>
   get_mode ''m1'' (foldl (mode_step True) (mode_manager_init ''paper'' [])
      [Post ''/api/strategy-modes/set'' [(''strategy_id'', [''m1'']), (''mode'', [''live''])]]) \<in> set valid_modes"
  by (rule api_never_live_without_client)
     (simp_all add: mode_manager_init_def valid_modes_def get_mode_def has_any_live_def)

text \<open>
  A set followed by a read gives the mode back, and a reset the default: after a request that
  the API accepted with status 200, the strategy has the requested mode (the default after a
  reset), the reply reports that mode, and no other strategy is affected.
\<close>

theorem mode_request_effect:
  fixes mm :: mode_manager
  assumes "s \<noteq> ''''" and "m \<in> set valid_modes" and "m = ''live'' \<longrightarrow> ready"
  defines "set_req \<equiv> do_POST ready ''/api/strategy-modes/set'' [(''strategy_id'', [s]), (''mode'', [m])] mm"
    and "reset_req \<equiv> do_POST ready ''/api/strategy-modes/reset'' [(''strategy_id'', [s])] mm"
  shows "fst (fst set_req) = 200 \<and> fst (fst reset_req) = 200 \<and>
    get_mode s (snd set_req) = m \<and> get_mode s (snd reset_req) = mm_default mm \<and>
    map_of (snd (fst reset_req)) ''mode'' = Some (JStr (mm_default mm)) \<and>
    (\<forall>t. t \<noteq> s \<longrightarrow> get_mode t (snd set_req) = get_mode t mm \<and> get_mode t (snd reset_req) = get_mode t mm)"
proof -
  have m: "m \<noteq> ''''" using assms(2) by (auto simp: valid_modes_def)
  obtain mm' where mm': "set_mode s m mm = Inr mm'" using assms(2) by (simp add: set_mode_def)
  have "set_req = ((200, [(''strategy_id'', JStr s), (''mode'', JStr m),
      (''message'', JStr (''Strategy '' @ s @ '' set to '' @ m))]), mm')"
    unfolding set_req_def do_POST_def post_set_def using assms(1-3) m mm'
    by (auto simp: param0_def given_def Let_def)
  moreover have "snd reset_req = remove_override s mm"
      "fst (fst reset_req) = 200" "map_of (snd (fst reset_req)) ''mode'' = Some (JStr (mm_default mm))"
    unfolding reset_req_def do_POST_def post_reset_def using assms(1)
    by (auto simp: param0_def given_def Let_def)
  ultimately show ?thesis by (auto simp: get_mode_set [OF mm'])
qed

lemma mode_request_effect_witness:
  "get_mode ''m1'' (snd (do_POST True ''/api/strategy-modes/set'' [(''strategy_id'', [''m1'']), (''mode'', [''live''])]
     (mode_manager_init ''paper'' []))) = ''live''"
  using mode_request_effect [of "''m1''" "''live''" True "mode_manager_init ''paper'' []"]
  by (simp add: valid_modes_def)

end
