(* ===== verification/Fill_Simulator.thy ===== *)
theory Fill_Simulator
  imports Models
begin

text \<open>
  \<open>services/execution/execution_svc/fill_simulator.py\<close>: how orders are filled in paper trading. The
  draw of \<open>random.gauss(0, 1)\<close> is the argument \<open>z\<close>, the new fill id and the time are arguments.
\<close>

section \<open>Fees\<close>

definition coinbase_fee_tiers :: "(real option \<times> real \<times> real) list" where
  \<comment> \<open>volume threshold (\<open>None\<close>: infinity), maker rate, taker rate\<close>
  "coinbase_fee_tiers =
    [(Some 1000, 60 / 10000, 120 / 10000),
     (Some 10000, 35 / 10000, 75 / 10000),
     (Some 50000, 25 / 10000, 40 / 10000),
     (Some 500000, 15 / 10000, 25 / 10000),
     (Some 1000000, 10 / 10000, 20 / 10000),
     (Some 15000000, 7 / 10000, 16 / 10000),
     (Some 50000000, 5 / 10000, 14 / 10000),
     (Some 100000000, 2 / 10000, 10 / 10000),
     (Some 250000000, 0, 8 / 10000),
     (None, 0, 5 / 10000)]"

fun fee_lookup :: "(real option \<times> real \<times> real) list \<Rightarrow> real \<Rightarrow> bool \<Rightarrow> real option" where
  "fee_lookup [] volume_30d is_maker = None"
| "fee_lookup ((threshold, maker, taker) # tiers) volume_30d is_maker =
     (if (case threshold of None \<Rightarrow> True | Some t \<Rightarrow> volume_30d < t)
      then Some (if is_maker then maker else taker)
      else fee_lookup tiers volume_30d is_maker)"

definition coinbase_fee_rate :: "real \<Rightarrow> bool \<Rightarrow> real" where
  "coinbase_fee_rate volume_30d is_maker =
     (case fee_lookup coinbase_fee_tiers volume_30d is_maker of
        Some r \<Rightarrow> r
      | None \<Rightarrow> (if is_maker then fst (snd (last coinbase_fee_tiers)) else snd (snd (last coinbase_fee_tiers))))"

definition default_fee_rate :: real where "default_fee_rate = 75 / 10000"
definition default_latency_ms :: real where "default_latency_ms = 50"

lemma fee_rate_table:
  "coinbase_fee_rate v mk =
     (if v < 1000 then if mk then 60 / 10000 else 120 / 10000
      else if v < 10000 then if mk then 35 / 10000 else 75 / 10000
      else if v < 50000 then if mk then 25 / 10000 else 40 / 10000
      else if v < 500000 then if mk then 15 / 10000 else 25 / 10000
      else if v < 1000000 then if mk then 10 / 10000 else 20 / 10000
      else if v < 15000000 then if mk then 7 / 10000 else 16 / 10000
      else if v < 50000000 then if mk then 5 / 10000 else 14 / 10000
      else if v < 100000000 then if mk then 2 / 10000 else 10 / 10000
      else if v < 250000000 then if mk then 0 else 8 / 10000
      else if mk then 0 else 5 / 10000)"
  by (simp add: coinbase_fee_rate_def coinbase_fee_tiers_def)

text \<open>
  The fee schedule rewards volume and liquidity: more trailing volume never raises a rate, a
  maker never pays more than a taker, and every rate lies between 0 and 1.2 percent.
\<close>

theorem fee_schedule_monotone:
  "(v1 \<le> v2 \<longrightarrow> coinbase_fee_rate v2 mk \<le> coinbase_fee_rate v1 mk) \<and>
   coinbase_fee_rate v1 True \<le> coinbase_fee_rate v1 False \<and>
   0 \<le> coinbase_fee_rate v1 mk \<and> coinbase_fee_rate v1 mk \<le> 12 / 1000"
  by (simp add: fee_rate_table)

lemma fee_schedule_monotone_witness:
  "coinbase_fee_rate 60000 True \<le> coinbase_fee_rate (500 :: real) True"
  using fee_schedule_monotone [of 500 60000 True] by simp

section \<open>Walking the book\<close>

fun walk :: "real \<Rightarrow> real \<Rightarrow> (real \<times> real) list \<Rightarrow> real \<times> real" where
  \<comment> \<open>the loop over the levels: what remains and what it cost\<close>
  "walk remaining total_cost [] = (remaining, total_cost)"
| "walk remaining total_cost ((price, sz) # levels) =
     (let fill_at_level = min remaining sz;
          total_cost' = total_cost + fill_at_level * price;
          remaining' = remaining - fill_at_level in
      if remaining' \<le> 0 then (remaining', total_cost') else walk remaining' total_cost' levels)"

definition walk_the_book :: "real \<Rightarrow> (real \<times> real) list \<Rightarrow> real" where
  "walk_the_book quantity book_depth =
     (if book_depth = [] then 0
      else let (remaining, total_cost) = walk quantity 0 book_depth;
               filled_qty = quantity - remaining in
        if filled_qty \<le> 0 then fst (hd book_depth) else total_cost / filled_qty)"

section \<open>Brownian bridge\<close>

definition brownian_bridge_sample :: "real \<Rightarrow> real \<Rightarrow> real \<Rightarrow> real \<Rightarrow> real \<Rightarrow> real" where
  "brownian_bridge_sample z start_price end_price volatility dt_seconds =
     (if dt_seconds \<le> 0 \<or> volatility \<le> 0 then (start_price + end_price) / 2
      else let t = dt_seconds / 2; total_time = dt_seconds;
               bridge_mean = start_price + (end_price - start_price) * (t / total_time);
               bridge_var = volatility\<^sup>2 * t * (total_time - t) / total_time;
               bridge_std = sqrt bridge_var in
        bridge_mean + z * bridge_std)"

section \<open>The simulator\<close>

record fill_simulator =
  fs_fixed_fee_rate :: "real option"
  fs_use_tiered_fees :: bool
  fs_use_brownian_bridge :: bool
  fs_latency_ms :: real
  fs_last_volatility :: real
  fs_rolling_volume_30d :: real

definition fill_simulator_init :: "real option \<Rightarrow> bool \<Rightarrow> real \<Rightarrow> bool \<Rightarrow> fill_simulator" where
  "fill_simulator_init fee_rate use_brownian_bridge latency_ms use_tiered_fees =
     \<lparr>fs_fixed_fee_rate = fee_rate, fs_use_tiered_fees = (use_tiered_fees \<and> fee_rate = None),
      fs_use_brownian_bridge = use_brownian_bridge, fs_latency_ms = latency_ms,
      fs_last_volatility = 0, fs_rolling_volume_30d = 0\<rparr>"

definition set_volatility :: "real \<Rightarrow> fill_simulator \<Rightarrow> fill_simulator" where
  "set_volatility volatility sim = sim\<lparr>fs_last_volatility := volatility\<rparr>"

definition set_rolling_volume :: "real \<Rightarrow> fill_simulator \<Rightarrow> fill_simulator" where
  "set_rolling_volume volume_30d sim = sim\<lparr>fs_rolling_volume_30d := volume_30d\<rparr>"

definition fee_rate_for_order :: "order \<Rightarrow> fill_simulator \<Rightarrow> real \<times> bool" where
  "fee_rate_for_order ord sim =
     (let is_maker = or_order_type ord = ''LIMIT'' in
      case fs_fixed_fee_rate sim of
        Some r \<Rightarrow> (r, is_maker)
      | None \<Rightarrow> if fs_use_tiered_fees sim then (coinbase_fee_rate (fs_rolling_volume_30d sim) is_maker, is_maker)
          else (default_fee_rate, is_maker))"

definition simple_fill :: "order \<Rightarrow> real \<Rightarrow> real \<Rightarrow> real" where
  "simple_fill ord mid_price spread =
     (let half_spread = spread / 2 in
      if or_side ord = ''BUY'' then mid_price + half_spread else mid_price - half_spread)"

definition brownian_bridge_fill :: "real \<Rightarrow> order \<Rightarrow> real \<Rightarrow> real \<Rightarrow> (real \<times> real) list \<Rightarrow> fill_simulator \<Rightarrow> real" where
  "brownian_bridge_fill z ord mid_price spread book_depth sim =
     (let dt_seconds = fs_latency_ms sim / 1000;
          seconds_per_year = 365 * 24 * 3600;
          vol_per_second = fs_last_volatility sim / sqrt seconds_per_year;
          half_spread = spread / 2;
          arrival_side = (if or_side ord = ''BUY'' then mid_price + half_spread else mid_price - half_spread);
          bridge_price = brownian_bridge_sample z mid_price arrival_side (vol_per_second * mid_price) dt_seconds in
      if book_depth \<noteq> []
      then (bridge_price + walk_the_book (or_quantity ord) book_depth) / 2
      else bridge_price)"

definition fill_price_of :: "real \<Rightarrow> order \<Rightarrow> real \<Rightarrow> real \<Rightarrow> (real \<times> real) list \<Rightarrow> fill_simulator \<Rightarrow> real" where
  "fill_price_of z ord mid_price spread book_depth sim =
     (case (or_order_type ord = ''LIMIT'', or_limit_price ord) of
        (True, Some p) \<Rightarrow> p
      | _ \<Rightarrow>
        if fs_use_brownian_bridge sim \<and> 0 < fs_last_volatility sim
        then brownian_bridge_fill z ord mid_price spread book_depth sim
        else if book_depth \<noteq> [] then walk_the_book (or_quantity ord) book_depth
        else simple_fill ord mid_price spread)"

definition simulate_fill :: "string \<Rightarrow> int \<Rightarrow> real \<Rightarrow> order \<Rightarrow> real \<Rightarrow> real \<Rightarrow> (real \<times> real) list \<Rightarrow>
    fill_simulator \<Rightarrow> fill \<times> fill_simulator" where
  \<comment> \<open>\<open>book_depth\<close>: \<open>[]\<close> for \<open>None\<close> as well as for an empty list; a new \<open>Fill\<close> has the default
     trading mode \<open>paper\<close>\<close>
  "simulate_fill uid now z ord mid_price spread book_depth sim =
     (let is_maker = or_order_type ord = ''LIMIT'';
          fill_price = fill_price_of z ord mid_price spread book_depth sim;
          slippage_bps = (if 0 < mid_price then \<bar>fill_price - mid_price\<bar> / mid_price * 10000 else 0);
          notional = or_quantity ord * fill_price;
          (fee_rate, _) = fee_rate_for_order ord sim;
          fee = notional * fee_rate in
      (\<lparr>fl_fill_id = uid, fl_timestamp = now, fl_order_id = or_order_id ord, fl_symbol = or_symbol ord,
         fl_side = or_side ord, fl_quantity = or_quantity ord, fl_fill_price = fill_price,
         fl_fee = fee, fl_fee_rate = fee_rate, fl_is_maker = is_maker,
         fl_slippage_bps = slippage_bps, fl_backtest_id = or_backtest_id ord,
         fl_strategy_id = or_strategy_id ord, fl_trading_mode = ''paper''\<rparr>,
       sim\<lparr>fs_rolling_volume_30d := fs_rolling_volume_30d sim + notional\<rparr>))"

section \<open>The cost of a market order\<close>

text \<open>
  The loop against its specification: \<open>sweep q\<close> fills the levels in order, as far as \<open>q\<close> and the
  sizes go, and returns the quantity filled and what it cost.
\<close>

fun sweep :: "real \<Rightarrow> (real \<times> real) list \<Rightarrow> real \<times> real" where
  "sweep q [] = (0, 0)"
| "sweep q ((p, s) # ls) =
     (if q \<le> s then (q, q * p) else let (f, c) = sweep (q - s) ls in (s + f, s * p + c))"

abbreviation swept :: "real \<Rightarrow> (real \<times> real) list \<Rightarrow> real" where "swept q ls \<equiv> fst (sweep q ls)"
abbreviation cost :: "real \<Rightarrow> (real \<times> real) list \<Rightarrow> real" where "cost q ls \<equiv> snd (sweep q ls)"

definition sizes_ok :: "(real \<times> real) list \<Rightarrow> bool" where
  "sizes_ok ls = list_all (\<lambda>(_, s). 0 \<le> s) ls"

lemma sizes_ok_simps [simp]:
  "sizes_ok []" "sizes_ok ((p, s) # ls) \<longleftrightarrow> 0 \<le> s \<and> sizes_ok ls"
  by (simp_all add: sizes_ok_def)

lemma walk_sweep: "walk q c ls = (q - swept q ls, c + cost q ls)"
  by (induction q c ls rule: walk.induct) (auto simp: Let_def min_def split: prod.splits)

lemma walk_the_book_sweep:
  "ls \<noteq> [] \<Longrightarrow> walk_the_book q ls = (if swept q ls \<le> 0 then fst (hd ls) else cost q ls / swept q ls)"
  by (simp add: walk_the_book_def walk_sweep)

lemma sizes_sum: "sizes_ok ls \<Longrightarrow> 0 \<le> sum_list (map snd ls)"
  by (induction ls) auto

lemma swept_bounds: "sizes_ok ls \<Longrightarrow> 0 \<le> q \<Longrightarrow> 0 \<le> swept q ls \<and> swept q ls = min q (sum_list (map snd ls))"
  by (induction q ls rule: sweep.induct) (auto dest: sizes_sum split: prod.splits)

lemma swept_mono: "sizes_ok ls \<Longrightarrow> 0 \<le> q \<Longrightarrow> q \<le> q' \<Longrightarrow> swept q ls \<le> swept q' ls"
  using swept_bounds [of ls q] swept_bounds [of ls q'] by auto

lemma cost_lower: "sizes_ok ls \<Longrightarrow> 0 \<le> q \<Longrightarrow> \<forall>(x, _) \<in> set ls. p \<le> x \<Longrightarrow> p * swept q ls \<le> cost q ls"
proof (induction q ls rule: sweep.induct)
  case (2 q x s ls)
  then have "q * p \<le> q * x" "s * p \<le> s * x" by (auto intro: mult_left_mono)
  with 2 show ?case by (auto simp: algebra_simps split: prod.splits)
qed simp

lemma cost_upper: "sizes_ok ls \<Longrightarrow> 0 \<le> q \<Longrightarrow> \<forall>(x, _) \<in> set ls. x \<le> p \<Longrightarrow> cost q ls \<le> p * swept q ls"
proof (induction q ls rule: sweep.induct)
  case (2 q x s ls)
  then have "q * x \<le> q * p" "s * x \<le> s * p" by (auto intro: mult_left_mono)
  with 2 show ?case by (auto simp: algebra_simps split: prod.splits)
qed simp

lemma cost_marginal:
  assumes "sizes_ok ls" "0 \<le> q" "q \<le> q'" "\<forall>(x, _) \<in> set ls. p \<le> x"
  shows "p * (swept q' ls - swept q ls) \<le> cost q' ls - cost q ls"
  using assms
proof (induction ls arbitrary: q q')
  case (Cons l ls)
  obtain x s where l [simp]: "l = (x, s)" by fastforce
  note IH = Cons.IH [of "q - s" "q' - s"]
  have px: "p \<le> x" and s: "0 \<le> s" "sizes_ok ls" "\<forall>(x, _) \<in> set ls. p \<le> x" using Cons.prems by auto
  consider (both) "q' \<le> s" | (split) "q \<le> s" "s < q'" | (none) "s < q" "s < q'" using Cons.prems by linarith
  then show ?case
  proof cases
    case both
    with Cons.prems px show ?thesis
      by (simp add: left_diff_distrib [symmetric] mult.commute [of p] mult_left_mono)
  next
    case split
    have "p * (s - q) \<le> x * (s - q)" using px split by (intro mult_right_mono) auto
    moreover have "p * swept (q' - s) ls \<le> cost (q' - s) ls"
      using s split by (intro cost_lower) auto
    ultimately show ?thesis using split by (auto simp: algebra_simps split: prod.splits)
  next
    case none
    then show ?thesis using IH s Cons.prems by (auto simp: algebra_simps split: prod.splits)
  qed
qed simp

text \<open>Average prices, cross-multiplied: a larger order pays at least the average of a smaller one.\<close>

lemma average_mono:
  assumes "sizes_ok ls" "0 \<le> q" "q \<le> q'" "sorted (map fst ls)"
  shows "cost q ls * swept q' ls \<le> cost q' ls * swept q ls"
  using assms
proof (induction ls arbitrary: q q')
  case (Cons l ls)
  obtain p s where l [simp]: "l = (p, s)" by fastforce
  note IH = Cons.IH [of "q - s" "q' - s"]
  have s: "0 \<le> s" "sizes_ok ls" "\<forall>(x, _) \<in> set ls. p \<le> x" using Cons.prems by force+
  consider (both) "q' \<le> s" | (split) "q \<le> s" "s < q'" | (none) "s < q" "s < q'" using Cons.prems by linarith
  then show ?case
  proof cases
    case both
    with Cons.prems show ?thesis by simp
  next
    case split
    have "p * swept (q' - s) ls \<le> cost (q' - s) ls" using s split by (intro cost_lower) auto
    then have "q * (p * swept (q' - s) ls) \<le> q * cost (q' - s) ls"
      using Cons.prems by (intro mult_left_mono) auto
    with split show ?thesis by (auto simp: algebra_simps split: prod.splits)
  next
    case none
    have "s * (p * (swept (q' - s) ls - swept (q - s) ls)) \<le> s * (cost (q' - s) ls - cost (q - s) ls)"
      using s none Cons.prems by (intro mult_left_mono cost_marginal) auto
    moreover have "cost (q - s) ls * swept (q' - s) ls \<le> cost (q' - s) ls * swept (q - s) ls"
      using IH s none Cons.prems by auto
    ultimately show ?thesis using none by (auto simp: algebra_simps split: prod.splits)
  qed
qed simp

text \<open>
  Market impact grows with size: on a book of asks in ascending order with non-negative sizes
  and a non-empty best level, the average price of a buy is at least the best ask, at most
  the worst ask of the book, and never falls when the order gets larger.
\<close>

theorem walk_the_book_impact:
  assumes "sizes_ok ls" and "sorted (map fst ls)" and "ls \<noteq> []" and "0 < snd (hd ls)"
    and "0 < q" and "q \<le> q'"
  shows "fst (hd ls) \<le> walk_the_book q ls \<and> walk_the_book q ls \<le> walk_the_book q' ls \<and>
    walk_the_book q' ls \<le> fst (last ls)"
proof -
  have low: "\<forall>(x, _) \<in> set ls. fst (hd ls) \<le> x"
    using assms(2,3) by (cases ls) auto
  have high: "\<forall>(x, _) \<in> set ls. x \<le> fst (last ls)"
    using assms(2,3) by (induction ls rule: rev_induct) (auto simp: sorted_append)
  have total: "0 < sum_list (map snd ls)"
    using assms(1,3,4) by (cases ls) (auto intro!: add_pos_nonneg sizes_sum)
  have f: "0 < swept q ls" and f': "0 < swept q' ls"
    using swept_bounds [OF assms(1), of q] swept_bounds [OF assms(1), of q'] total assms(5,6) by auto
  have "fst (hd ls) \<le> cost q ls / swept q ls"
    using cost_lower [OF assms(1) _ low, of q] assms(5) f by (simp add: pos_le_divide_eq)
  moreover have "cost q' ls / swept q' ls \<le> fst (last ls)"
    using cost_upper [OF assms(1) _ high, of q'] assms(5,6) f' by (simp add: pos_divide_le_eq)
  moreover have "cost q ls / swept q ls \<le> cost q' ls / swept q' ls"
    using average_mono [OF assms(1) _ assms(6,2)] assms(5) f f' by (simp add: divide_simps)
  ultimately show ?thesis using f f' by (simp add: walk_the_book_sweep [OF assms(3)])
qed

lemma walk_the_book_impact_witness:
  "100 \<le> walk_the_book 3 [(100, 2), (101, 5)] \<and>
   walk_the_book 3 [(100, 2), (101, 5)] \<le> walk_the_book 4 [(100, 2), (101, 5)] \<and>
   walk_the_book 4 [(100, 2), (101, 5)] \<le> 101"
  using walk_the_book_impact [of "[(100, 2), (101, 5)]" 3 4] by simp

text \<open>
  A paper fill is accounted for exactly: it carries the order's identity and its full
  quantity, a limit order fills at its limit as a maker, a market order without book crosses half
  the spread against the trader, the fee is the notional at the reported rate (between 0 and 1.2
  percent with tiered fees), the slippage is the distance to the mid in basis points, and
  the trailing volume grows by the notional.
\<close>

theorem simulate_fill_accounting:
  "case simulate_fill uid now z ord mid spread book sim of (f, sim') \<Rightarrow>
    fl_order_id f = or_order_id ord \<and> fl_symbol f = or_symbol ord \<and> fl_side f = or_side ord \<and>
    fl_quantity f = or_quantity ord \<and> fl_strategy_id f = or_strategy_id ord \<and>
    (fl_is_maker f \<longleftrightarrow> or_order_type ord = ''LIMIT'') \<and>
    (fl_is_maker f \<longrightarrow> (\<forall>p. or_limit_price ord = Some p \<longrightarrow> fl_fill_price f = p)) \<and>
    (\<not> fl_is_maker f \<and> book = [] \<and> \<not> fs_use_brownian_bridge sim \<longrightarrow>
       fl_fill_price f = (if or_side ord = ''BUY'' then mid + spread / 2 else mid - spread / 2)) \<and>
    fl_fee f = fl_quantity f * fl_fill_price f * fl_fee_rate f \<and>
    (fs_use_tiered_fees sim \<and> fs_fixed_fee_rate sim = None \<longrightarrow> 0 \<le> fl_fee_rate f \<and> fl_fee_rate f \<le> 12 / 1000) \<and>
    (0 < mid \<longrightarrow> fl_slippage_bps f * mid = \<bar>fl_fill_price f - mid\<bar> * 10000) \<and>
    fs_rolling_volume_30d sim' = fs_rolling_volume_30d sim + fl_quantity f * fl_fill_price f"
proof -
  have rate: "0 \<le> coinbase_fee_rate v mk \<and> coinbase_fee_rate v mk \<le> 12 / 1000" for v mk
    by (simp add: fee_rate_table)
  have rate': "coinbase_fee_rate v mk * 250 \<le> 3" for v mk
    by (simp add: fee_rate_table)
  show ?thesis
    unfolding simulate_fill_def Let_def
    by (auto simp: fill_price_of_def simple_fill_def fee_rate_for_order_def Let_def rate rate' split: option.splits)
qed

lemma simulate_fill_accounting_witness:
  "fl_fill_price (fst (simulate_fill ''f1'' 7 0 sample_order 100 1 [] (fill_simulator_init None False 50 True))) = 201 / 2"
  using simulate_fill_accounting [where uid = "''f1''" and now = 7 and z = 0 and ord = sample_order and mid = 100
      and spread = 1 and book = "[]" and sim = "fill_simulator_init None False 50 True"]
  by (auto simp: fill_simulator_init_def sample_order_def split: prod.splits)

end
