(* ===== verification/Execution_Service.thy ===== *)
theory Execution_Service
  imports Strategy_Mode Fill_Simulator Order_Tracker Circuit_Breaker Kafka_Utils Metrics_Registry
begin

text \<open>
  \<open>services/execution/execution_svc/main.py\<close>: the consume loop of the execution service, one
  iteration per step. What an iteration gets from outside is its environment: the polled message,
  Redis' answer to the breaker, the readings of the two clocks, the fresh ids, the normal draw and
  the answer of the exchange to \<open>place_order\<close>. The calls to the exchange are recorded. The
  connections, signal handlers and tasks of \<open>main\<close> and the log lines are not modelled.
\<close>

record exchange_call =
  xc_symbol :: string
  xc_side :: string
  xc_size :: real
  xc_order_type :: string

record exec_env =
  en_monotonic :: real
  en_redis :: redis_reply
  en_now_ms :: "nat \<Rightarrow> int"
  en_uid :: "nat \<Rightarrow> string"
  en_gauss :: real
  en_place_order :: "py_error + json"

record exec_svc =
  ex_modes :: mode_manager
  ex_live_client :: bool
  ex_metrics :: metrics
  ex_breaker :: breaker
  ex_tracker :: tracker
  ex_producer :: qproducer
  ex_simulator :: fill_simulator
  ex_latest_mid :: "(string, real) dict"
  ex_latest_spread :: "(string, real) dict"
  ex_fill_count :: nat
  ex_breaker_blocked :: nat
  ex_exchange_calls :: "exchange_call list"

definition execution_name :: string where "execution_name = ''execution''"

definition default_spread :: real where "default_spread = 1"

definition exec_init :: "string \<Rightarrow> (string, string) dict \<Rightarrow> bool \<Rightarrow> string \<Rightarrow> string option \<Rightarrow> exec_svc" where
  "exec_init trading_mode strategy_modes live_client run_id backtest_id =
     \<lparr>ex_modes = mode_manager_init trading_mode strategy_modes, ex_live_client = live_client,
      ex_metrics = metrics_init execution_name, ex_breaker = breaker_init run_id,
      ex_tracker = tracker_init True run_id, ex_producer = producer_init backtest_id,
      ex_simulator = fill_simulator_init None False default_latency_ms True,
      ex_latest_mid = [], ex_latest_spread = [], ex_fill_count = 0, ex_breaker_blocked = 0,
      ex_exchange_calls = []\<rparr>"

definition execution_heartbeat :: "int \<Rightarrow> exec_svc \<Rightarrow> exec_svc" where
  "execution_heartbeat now ex =
     ex\<lparr>ex_producer := publish topic_heartbeat execution_name
       (JObj [(''service'', JStr execution_name), (''timestamp'', JInt now),
          (''fills'', JInt (int (ex_fill_count ex))), (''strategy_modes'', JObj (get_all (ex_modes ex))),
          (''breaker_blocked'', JInt (int (ex_breaker_blocked ex)))]) (ex_producer ex)\<rparr>"

definition on_depth :: "stored \<Rightarrow> exec_svc \<Rightarrow> exec_svc" where
  "on_depth v ex =
     (case ebind (loads v) depth_from_json of
        Inl _ \<Rightarrow> ex
      | Inr depth \<Rightarrow>
          let symbol = upper (dp_symbol depth) in
          if dp_bids depth \<noteq> [] \<and> dp_asks depth \<noteq> []
          then let best_bid = py_max (map fst (dp_bids depth)); best_ask = py_min (map fst (dp_asks depth)) in
            ex\<lparr>ex_latest_mid := AList.update symbol ((best_bid + best_ask) / 2) (ex_latest_mid ex),
               ex_latest_spread := AList.update symbol (best_ask - best_bid) (ex_latest_spread ex)\<rparr>
          else ex)"

definition breaker_block :: "exec_env \<Rightarrow> order \<Rightarrow> exec_svc \<Rightarrow> exec_svc" where
  "breaker_block env ord ex =
     ex\<lparr>ex_breaker_blocked := ex_breaker_blocked ex + 1,
        ex_metrics := metric_set_gauge ''circuit_breaker_active'' 1 None
          (metric_inc ''orders_breaker_blocked'' 1 None (ex_metrics ex)),
        ex_producer := emit_audit execution_name ''order_blocked_breaker'' (en_now_ms env 0)
          [(''order_id'', JStr (or_order_id ord)), (''symbol'', JStr (or_symbol ord))] (ex_producer ex)\<rparr>"

definition tracked :: "string \<Rightarrow> order_status \<Rightarrow> real \<Rightarrow> real \<Rightarrow> string \<Rightarrow> int \<Rightarrow> int \<Rightarrow> order \<Rightarrow> exec_svc \<Rightarrow> exec_svc" where
  \<comment> \<open>\<open>tracker.transition\<close> and, when it yields an update, its publication\<close>
  "tracked order_id st fq ap reason now1 now2 ord ex =
     (let (u, tk) = transition order_id st fq ap '''' reason now1 now2 (ex_tracker ex);
          ex' = ex\<lparr>ex_tracker := tk\<rparr> in
      case u of None \<Rightarrow> ex'
      | Some up \<Rightarrow> ex'\<lparr>ex_producer := publish topic_order_status (or_symbol ord) (status_update_to_json up) (ex_producer ex')\<rparr>)"

definition accept_order :: "exec_env \<Rightarrow> order \<Rightarrow> exec_svc \<Rightarrow> exec_svc" where
  "accept_order env ord ex =
     tracked (or_order_id ord) ACCEPTED 0 0 '''' (en_now_ms env 2) (en_now_ms env 3) ord
       (ex\<lparr>ex_tracker := register_order ord (en_now_ms env 0) (en_now_ms env 1) (ex_tracker ex)\<rparr>)"

definition fill_order :: "exec_env \<Rightarrow> order \<Rightarrow> real \<Rightarrow> real \<Rightarrow> exec_svc \<Rightarrow> fill \<times> exec_svc" where
  "fill_order env ord mid spread ex =
     (let (f, sim) = simulate_fill (en_uid env 1) (en_now_ms env 5) (en_gauss env) ord mid spread [] (ex_simulator ex) in
      (f, ex\<lparr>ex_simulator := sim\<rparr>))"

definition call_exchange :: "exec_env \<Rightarrow> order \<Rightarrow> string \<Rightarrow> exec_svc \<Rightarrow> bool \<times> exec_svc" where
  \<comment> \<open>the call to \<open>place_order\<close> and its audit record; \<open>False\<close>: an exception\<close>
  "call_exchange env ord order_mode ex =
     (let ex1 = ex\<lparr>ex_exchange_calls := ex_exchange_calls ex @
            [\<lparr>xc_symbol = or_symbol ord, xc_side = lower (or_side ord), xc_size = or_quantity ord,
              xc_order_type = ''market''\<rparr>]\<rparr> in
      case ebind (en_place_order env) as_obj of
        Inl _ \<Rightarrow> (False, ex1)
      | Inr result \<Rightarrow>
          (True, ex1\<lparr>ex_producer := emit_audit execution_name ''order_sent_exchange'' (en_now_ms env 4)
             [(''order_id'', JStr (or_order_id ord)), (''exchange_order_id'', dget result ''id'' (JStr '''')),
              (''symbol'', JStr (or_symbol ord)), (''side'', JStr (or_side ord)),
              (''quantity'', JNum (or_quantity ord)), (''strategy_id'', JStr (or_strategy_id ord)),
              (''trading_mode'', JStr order_mode)] (ex_producer ex1)\<rparr>))"

definition reject_order :: "exec_env \<Rightarrow> order \<Rightarrow> string \<Rightarrow> exec_svc \<Rightarrow> exec_svc" where
  "reject_order env ord reason ex =
     ex\<lparr>ex_tracker := snd (transition (or_order_id ord) REJECTED 0 0 '''' reason (en_now_ms env 6) (en_now_ms env 7) (ex_tracker ex))\<rparr>"

definition execute :: "exec_env \<Rightarrow> order \<Rightarrow> string \<Rightarrow> real \<Rightarrow> real \<Rightarrow> exec_svc \<Rightarrow> fill option \<times> exec_svc" where
  \<comment> \<open>\<open>None\<close>: the handler ended with \<open>continue\<close>\<close>
  "execute env ord order_mode mid spread ex =
     (if order_mode = ''live'' \<and> ex_live_client ex then
        (case call_exchange env ord order_mode ex of
           (False, ex1) \<Rightarrow> (None, reject_order env ord ''exchange_error'' ex1)
         | (True, ex1) \<Rightarrow> let (f, ex2) = fill_order env ord mid spread ex1 in (Some f, ex2))
      else if order_mode = ''live'' \<and> \<not> ex_live_client ex then
        let ex1 = reject_order env ord ''live_client_unavailable'' ex in
        (None, ex1\<lparr>ex_producer := emit_audit execution_name ''order_rejected_no_live_client'' (en_now_ms env 8)
           [(''order_id'', JStr (or_order_id ord)), (''strategy_id'', JStr (or_strategy_id ord))] (ex_producer ex1)\<rparr>)
      else let (f, ex1) = fill_order env ord mid spread ex in (Some f, ex1))"

definition record_fill :: "exec_env \<Rightarrow> order \<Rightarrow> string \<Rightarrow> fill \<Rightarrow> exec_svc \<Rightarrow> exec_svc" where
  \<comment> \<open>metrics, publication and audit of a fill\<close>
  "record_fill env ord order_mode f ex =
     ex\<lparr>ex_fill_count := ex_fill_count ex + 1,
        ex_metrics :=
          metric_set_gauge ''latest_fill_price'' (fl_fill_price f) (Some [(''symbol'', fl_symbol f)])
          (metric_observe ''fill_fee'' (fl_fee f) (Some [(''symbol'', fl_symbol f)])
          (metric_observe ''fill_slippage_bps'' (fl_slippage_bps f) (Some [(''symbol'', fl_symbol f)])
          (metric_inc ''fills_total'' 1 (Some [(''symbol'', fl_symbol f), (''side'', fl_side f), (''mode'', order_mode)])
          (metric_set_gauge ''circuit_breaker_active'' 0 None (ex_metrics ex))))),
        ex_producer := emit_audit execution_name ''fill_generated'' (en_now_ms env 11)
          [(''fill_id'', JStr (fl_fill_id f)), (''order_id'', JStr (or_order_id ord)), (''symbol'', JStr (fl_symbol f)),
           (''side'', JStr (fl_side f)), (''quantity'', JNum (fl_quantity f)), (''fill_price'', JNum (fl_fill_price f)),
           (''fee'', JNum (fl_fee f)), (''fee_rate'', JNum (fl_fee_rate f)), (''is_maker'', JBool (fl_is_maker f)),
           (''slippage_bps'', JNum (fl_slippage_bps f)), (''strategy_id'', JStr (or_strategy_id ord)),
           (''trading_mode'', JStr order_mode)]
          (publish topic_fills (fl_symbol f) (fill_to_json f) (ex_producer ex))\<rparr>"

definition on_order :: "exec_env \<Rightarrow> order \<Rightarrow> exec_svc \<Rightarrow> exec_svc" where
  "on_order env ord ex0 =
     (let (tripped, cb) = is_tripped (en_monotonic env) (en_redis env) (ex_breaker ex0);
          ex = ex0\<lparr>ex_breaker := cb\<rparr> in
      if tripped then breaker_block env ord ex
      else let symbol = upper (or_symbol ord); spread = dget (ex_latest_spread ex) symbol default_spread in
        case map_of (ex_latest_mid ex) symbol of
          None \<Rightarrow> ex
        | Some mid \<Rightarrow>
            let order_mode = get_mode (or_strategy_id ord) (ex_modes ex) in
            case execute env ord order_mode mid spread (accept_order env ord ex) of
              (None, ex') \<Rightarrow> ex'
            | (Some f0, ex') \<Rightarrow>
                let f = f0\<lparr>fl_trading_mode := order_mode\<rparr> in
                record_fill env ord order_mode f
                  (tracked (or_order_id ord) FILLED (fl_quantity f) (fl_fill_price f) ''''
                     (en_now_ms env 9) (en_now_ms env 10) ord ex'))"

definition execution_step :: "exec_svc \<Rightarrow> exec_env \<times> kafka_message option \<Rightarrow> exec_svc" where
  "execution_step ex = (\<lambda>(env, msg).
     case msg of None \<Rightarrow> ex
     | Some m \<Rightarrow>
         if km_error m \<noteq> None then ex
         else if km_topic m = topic_raw_depth then on_depth (km_value m) ex
         else if km_topic m = topic_orders then
           (case ebind (loads (km_value m)) (order_from_json (en_uid env 0)) of
              Inl _ \<Rightarrow> ex
            | Inr ord \<Rightarrow> on_order env ord ex)
         else ex)"

section \<open>What a step leaves alone\<close>

abbreviation fills_sent :: "exec_svc \<Rightarrow> stored list" where "fills_sent ex \<equiv> sent_on topic_fills (ex_producer ex)"

lemma tracked_fields [simp]:
  "ex_fill_count (tracked i s f a r n m rd ex) = ex_fill_count ex"
  "ex_exchange_calls (tracked i s f a r n m rd ex) = ex_exchange_calls ex"
  "ex_modes (tracked i s f a r n m rd ex) = ex_modes ex"
  "ex_live_client (tracked i s f a r n m rd ex) = ex_live_client ex"
  "ex_metrics (tracked i s f a r n m rd ex) = ex_metrics ex"
  "ex_simulator (tracked i s f a r n m rd ex) = ex_simulator ex"
  "t \<noteq> topic_order_status \<Longrightarrow> sent_on t (ex_producer (tracked i s f a r n m rd ex)) = sent_on t (ex_producer ex)"
  "ex_tracker (tracked i s f a r n m rd ex) = snd (transition i s f a '''' r n m (ex_tracker ex))"
  by (simp_all add: tracked_def Let_def split: prod.splits option.splits)

lemma accept_fields [simp]:
  "ex_fill_count (accept_order env rd ex) = ex_fill_count ex"
  "ex_exchange_calls (accept_order env rd ex) = ex_exchange_calls ex"
  "ex_modes (accept_order env rd ex) = ex_modes ex"
  "ex_live_client (accept_order env rd ex) = ex_live_client ex"
  "ex_simulator (accept_order env rd ex) = ex_simulator ex"
  "t \<noteq> topic_order_status \<Longrightarrow> sent_on t (ex_producer (accept_order env rd ex)) = sent_on t (ex_producer ex)"
  by (simp_all add: accept_order_def)

lemma reject_fields [simp]:
  "ex_fill_count (reject_order env rd r ex) = ex_fill_count ex"
  "ex_exchange_calls (reject_order env rd r ex) = ex_exchange_calls ex"
  "ex_modes (reject_order env rd r ex) = ex_modes ex"
  "ex_producer (reject_order env rd r ex) = ex_producer ex"
  by (simp_all add: reject_order_def)

lemma record_fields [simp]:
  "ex_fill_count (record_fill env rd m f ex) = Suc (ex_fill_count ex)"
  "ex_exchange_calls (record_fill env rd m f ex) = ex_exchange_calls ex"
  "ex_modes (record_fill env rd m f ex) = ex_modes ex"
  "ex_tracker (record_fill env rd m f ex) = ex_tracker ex"
  "fills_sent (record_fill env rd m f ex) = fills_sent ex @ [Document (fill_to_json f)]"
  "sent_on topic_order_status (ex_producer (record_fill env rd m f ex)) = sent_on topic_order_status (ex_producer ex)"
  by (simp_all add: record_fill_def)

lemma fill_order_fields:
  assumes "fill_order env rd mid spread ex = (f, ex')"
  shows "ex_fill_count ex' = ex_fill_count ex" "ex_exchange_calls ex' = ex_exchange_calls ex"
    "ex_producer ex' = ex_producer ex" "ex_tracker ex' = ex_tracker ex" "ex_modes ex' = ex_modes ex"
    "f = fst (simulate_fill (en_uid env 1) (en_now_ms env 5) (en_gauss env) rd mid spread [] (ex_simulator ex))"
  using assms by (auto simp: fill_order_def Let_def split: prod.splits)

definition the_call :: "order \<Rightarrow> exchange_call" where
  "the_call rd = \<lparr>xc_symbol = or_symbol rd, xc_side = lower (or_side rd), xc_size = or_quantity rd,
     xc_order_type = ''market''\<rparr>"

lemma call_exchange_fields:
  assumes "call_exchange env rd m ex = (sent, ex')"
  shows "ex_fill_count ex' = ex_fill_count ex" "ex_exchange_calls ex' = ex_exchange_calls ex @ [the_call rd]"
    "t \<noteq> topic_audit \<Longrightarrow> sent_on t (ex_producer ex') = sent_on t (ex_producer ex)"
    "ex_tracker ex' = ex_tracker ex" "ex_modes ex' = ex_modes ex" "ex_simulator ex' = ex_simulator ex"

"sent \<longleftrightarrow> (\<exists>d. ebind (en_place_order env) as_obj = Inr d)"
  using assms by (auto simp: call_exchange_def the_call_def Let_def split: sum.splits)

lemma execute_fields:
  assumes "execute env rd mode mid spread ex = (r, ex')"
  shows "ex_fill_count ex' = ex_fill_count ex" "fills_sent ex' = fills_sent ex"
    "ex_exchange_calls ex' = ex_exchange_calls ex @ (if mode = ''live'' \<and> ex_live_client ex then [the_call rd] else [])"
  using assms
  by (auto simp: execute_def Let_def fill_order_fields call_exchange_fields
      split: if_splits prod.splits bool.splits)

lemma execute_Some:
  assumes "execute env rd mode mid spread ex = (Some f, ex')"
  shows "mode = ''live'' \<Longrightarrow> ex_live_client ex \<and> (\<exists>d. ebind (en_place_order env) as_obj = Inr d)"
    "f = fst (simulate_fill (en_uid env 1) (en_now_ms env 5) (en_gauss env) rd mid spread [] (ex_simulator ex))"
    "ex_tracker ex' = ex_tracker ex" "sent_on topic_order_status (ex_producer ex') = sent_on topic_order_status (ex_producer ex)"
proof -
  have "ex_tracker ex' = ex_tracker ex \<and>
      sent_on topic_order_status (ex_producer ex') = sent_on topic_order_status (ex_producer ex)"
    using assms
    by (auto simp: execute_def Let_def fill_order_fields(1-5) call_exchange_fields(1-6)
      split: if_splits prod.splits bool.splits)
  then show "ex_tracker ex' = ex_tracker ex"
    "sent_on topic_order_status (ex_producer ex') = sent_on topic_order_status (ex_producer ex)" by auto
  show "mode = ''live'' \<Longrightarrow> ex_live_client ex \<and> (\<exists>d. ebind (en_place_order env) as_obj = Inr d)"
    using assms
    by (auto simp: execute_def Let_def split: if_splits prod.splits bool.splits dest: call_exchange_fields(7))
  show "f = fst (simulate_fill (en_uid env 1) (en_now_ms env 5) (en_gauss env) rd mid spread [] (ex_simulator ex))"
    using assms unfolding execute_def Let_def
    by (fastforce split: if_splits prod.splits bool.splits dest: fill_order_fields(6) call_exchange_fields(6))
qed

lemma breaker_block_fields [simp]:
  "ex_fill_count (breaker_block env rd ex) = ex_fill_count ex"
  "ex_exchange_calls (breaker_block env rd ex) = ex_exchange_calls ex"
  "ex_tracker (breaker_block env rd ex) = ex_tracker ex"
  "ex_breaker (breaker_block env rd ex) = ex_breaker ex"
  "t \<noteq> topic_audit \<Longrightarrow> sent_on t (ex_producer (breaker_block env rd ex)) = sent_on t (ex_producer ex)"
  by (simp_all add: breaker_block_def)

lemma on_depth_fields [simp]:
  "ex_fill_count (on_depth v ex) = ex_fill_count ex" "ex_exchange_calls (on_depth v ex) = ex_exchange_calls ex"
  "ex_producer (on_depth v ex) = ex_producer ex" "ex_breaker (on_depth v ex) = ex_breaker ex"
  "ex_tracker (on_depth v ex) = ex_tracker ex" "ex_modes (on_depth v ex) = ex_modes ex"
  by (simp_all add: on_depth_def Let_def split: sum.split)

text \<open>An order is blocked, skipped for want of market data, or given to \<open>execute\<close>.\<close>

lemma on_order_cases:
  obtains (blocked) cb where "is_tripped (en_monotonic env) (en_redis env) (ex_breaker ex) = (True, cb)"
      "on_order env rd ex = breaker_block env rd (ex\<lparr>ex_breaker := cb\<rparr>)"
  | (skipped) cb where "is_tripped (en_monotonic env) (en_redis env) (ex_breaker ex) = (False, cb)"
      "map_of (ex_latest_mid ex) (upper (or_symbol rd)) = None"
      "on_order env rd ex = ex\<lparr>ex_breaker := cb\<rparr>"
  | (ended) cb mid ex' where "is_tripped (en_monotonic env) (en_redis env) (ex_breaker ex) = (False, cb)"
      "map_of (ex_latest_mid ex) (upper (or_symbol rd)) = Some mid"
      "execute env rd (get_mode (or_strategy_id rd) (ex_modes ex)) mid
         (dget (ex_latest_spread ex) (upper (or_symbol rd)) default_spread)
         (accept_order env rd (ex\<lparr>ex_breaker := cb\<rparr>)) = (None, ex')"
      "on_order env rd ex = ex'"
  | (filled) cb mid f0 f ex' where "is_tripped (en_monotonic env) (en_redis env) (ex_breaker ex) = (False, cb)"
      "map_of (ex_latest_mid ex) (upper (or_symbol rd)) = Some mid"
      "execute env rd (get_mode (or_strategy_id rd) (ex_modes ex)) mid
         (dget (ex_latest_spread ex) (upper (or_symbol rd)) default_spread)
         (accept_order env rd (ex\<lparr>ex_breaker := cb\<rparr>)) = (Some f0, ex')"
      "f = f0\<lparr>fl_trading_mode := get_mode (or_strategy_id rd) (ex_modes ex)\<rparr>"
      "on_order env rd ex = record_fill env rd (get_mode (or_strategy_id rd) (ex_modes ex)) f
         (tracked (or_order_id rd) FILLED (fl_quantity f) (fl_fill_price f) '''' (en_now_ms env 9) (en_now_ms env 10) rd ex')"
proof -
  obtain t cb where t: "is_tripped (en_monotonic env) (en_redis env) (ex_breaker ex) = (t, cb)" by fastforce
  consider (trip) t | (nodata) "\<not> t" "map_of (ex_latest_mid ex) (upper (or_symbol rd)) = None"
    | (data) mid r ex' where "\<not> t" "map_of (ex_latest_mid ex) (upper (or_symbol rd)) = Some mid"
      "execute env rd (get_mode (or_strategy_id rd) (ex_modes ex)) mid
         (dget (ex_latest_spread ex) (upper (or_symbol rd)) default_spread)
         (accept_order env rd (ex\<lparr>ex_breaker := cb\<rparr>)) = (r, ex')"
    by (metis option.exhaust prod.exhaust)
  then show ?thesis
  proof cases
    case trip
    with t show ?thesis by (intro blocked [of cb]) (simp_all add: on_order_def Let_def)
  next
    case nodata
    with t show ?thesis by (intro skipped [of cb]) (simp_all add: on_order_def Let_def)
  next
    case data
    with t show ?thesis
    proof (cases r)
      case None
      with t data show ?thesis by (intro ended [of cb mid ex']) (simp_all add: on_order_def Let_def)
    next
      case (Some f0)
      with t data show ?thesis
        by (intro filled [OF _ data(2) _ refl]) (simp_all add: on_order_def Let_def)
    qed
  qed
qed

section \<open>The service as a machine\<close>

text \<open>
  The consume loop, the mode API and the heartbeat run in their own threads; the lock of the mode
  manager and the loop's exclusive use of the other state make an execution a sequence of these
  events.
\<close>

datatype exec_event = Iteration exec_env "kafka_message option" | Api http_request | Beat int

fun exec_run_step :: "exec_svc \<Rightarrow> exec_event \<Rightarrow> exec_svc" where
  "exec_run_step ex (Iteration env msg) = execution_step ex (env, msg)"
| "exec_run_step ex (Api req) = ex\<lparr>ex_modes := mode_step (ex_live_client ex) (ex_modes ex) req\<rparr>"
| "exec_run_step ex (Beat now) = execution_heartbeat now ex"

definition is_live_fill :: "stored \<Rightarrow> bool" where
  "is_live_fill v = (case ebind (loads v) (fill_from_json []) of Inr f \<Rightarrow> fl_trading_mode f = ''live'' | Inl _ \<Rightarrow> False)"

lemma is_live_fill_doc [simp]: "is_live_fill (Document (fill_to_json f)) \<longleftrightarrow> fl_trading_mode f = ''live''"
  by (simp add: is_live_fill_def)

definition exec_inv :: "exec_svc \<Rightarrow> bool" where
  "exec_inv ex \<longleftrightarrow> ex_fill_count ex = length (fills_sent ex) \<and>
     length (filter is_live_fill (fills_sent ex)) \<le> length (ex_exchange_calls ex)"

lemma exec_inv_order: "exec_inv ex \<Longrightarrow> exec_inv (on_order env rd ex)"
proof (cases rule: on_order_cases [of env ex rd])
  case (ended cb mid ex')
  assume "exec_inv ex"
  with ended(4) execute_fields [OF ended(3)] show ?thesis by (simp add: exec_inv_def)
next
  case (filled cb mid f0 f ex')
  assume "exec_inv ex"
  with filled(4,5) execute_fields [OF filled(3)] execute_Some(1) [OF filled(3)]
  show ?thesis by (auto simp: exec_inv_def)
qed (simp_all add: exec_inv_def)

lemma heartbeat_fields [simp]:
  "ex_fill_count (execution_heartbeat n ex) = ex_fill_count ex"
  "ex_exchange_calls (execution_heartbeat n ex) = ex_exchange_calls ex"
  "ex_breaker (execution_heartbeat n ex) = ex_breaker ex"
  "t \<noteq> topic_heartbeat \<Longrightarrow> sent_on t (ex_producer (execution_heartbeat n ex)) = sent_on t (ex_producer ex)"
  by (simp_all add: execution_heartbeat_def)

lemma execution_step_cases:
  "execution_step ex (env, msg) = ex \<or> (\<exists>v. execution_step ex (env, msg) = on_depth v ex) \<or>
   (\<exists>rd. execution_step ex (env, msg) = on_order env rd ex)"
  by (auto simp: execution_step_def split: option.splits sum.splits)

lemma exec_inv_depth: "exec_inv ex \<Longrightarrow> exec_inv (on_depth v ex)"
  by (simp add: exec_inv_def)

lemma exec_inv_step: "exec_inv ex \<Longrightarrow> exec_inv (exec_run_step ex e)"
proof (cases e)
  case (Iteration env msg)
  assume "exec_inv ex"
  with Iteration execution_step_cases [of ex env msg] show ?thesis
    by (auto simp: exec_inv_order exec_inv_depth)
qed (simp_all add: exec_inv_def)

interpretation execution: machine exec_run_step "\<lambda>_. True" exec_inv
  by unfold_locales (rule exec_inv_step)

lemma exec_inv_init [simp]: "exec_inv (exec_init m ms lc r b)"
  by (simp add: exec_inv_def exec_init_def)

text \<open>
  No live fill without an exchange order: whatever messages, mode changes and exchange answers
  the service sees, the fill counter equals the number of published fills, and there are at most
  as many fills tagged \<open>live\<close> as orders were sent to the exchange.
\<close>

theorem live_fills_backed_by_exchange:
  "let ex = foldl exec_run_step (exec_init trading_mode strategy_modes live_client run_id backtest_id) evs in
   ex_fill_count ex = length (fills_sent ex) \<and>
   length (filter is_live_fill (fills_sent ex)) \<le> length (ex_exchange_calls ex)"
  using execution.inv_run [OF exec_inv_init, of evs trading_mode strategy_modes live_client run_id backtest_id]
  by (simp add: Let_def exec_inv_def list_all_iff)

section \<open>The kill switch stops trading\<close>

text \<open>The halt seen by one event: Redis has the key (or is unreachable) in every iteration after \<open>T\<close>.\<close>

fun halted_event :: "real \<Rightarrow> exec_event \<Rightarrow> bool" where
  "halted_event T (Iteration env msg) = (T + check_interval_s \<le> en_monotonic env \<and> en_redis env \<noteq> Inr None)"
| "halted_event T _ = True"

definition quiet :: "real \<Rightarrow> stored list \<Rightarrow> exchange_call list \<Rightarrow> (string, order_state) dict \<Rightarrow> exec_svc \<Rightarrow> bool" where
  "quiet T fs cs tk ex \<longleftrightarrow> halt_inv T (ex_breaker ex) \<and> fills_sent ex = fs \<and> ex_exchange_calls ex = cs \<and>
     tk_orders (ex_tracker ex) = tk"

lemma quiet_order:
  assumes "quiet T fs cs tk ex" and "halted_event T (Iteration env msg)"
  shows "quiet T fs cs tk (on_order env rd ex)"
proof -
  have tripped: "fst (is_tripped (en_monotonic env) (en_redis env) (ex_breaker ex))"
    using assms by (intro is_tripped_halted [of T]) (auto simp: quiet_def)
  have inv: "halt_inv T (snd (is_tripped (en_monotonic env) (en_redis env) (ex_breaker ex)))"
    using halt_inv_step [of T "ex_breaker ex" "Check (en_monotonic env) (en_redis env)"] assms
    by (simp add: quiet_def)
  from tripped show ?thesis
    by (cases rule: on_order_cases [of env ex rd])
       (use assms(1) inv in \<open>simp_all add: quiet_def\<close>)
qed

lemma quiet_step: "quiet T fs cs tk ex \<Longrightarrow> halted_event T e \<Longrightarrow> quiet T fs cs tk (exec_run_step ex e)"
proof (cases e)
  case (Iteration env msg)
  assume q: "quiet T fs cs tk ex" and h: "halted_event T e"
  from execution_step_cases [of ex env msg] q quiet_order [OF q, of env msg] h Iteration show ?thesis
    by (auto simp: quiet_def)
qed (simp_all add: quiet_def execution_heartbeat_def)

interpretation halted_execution: machine exec_run_step "halted_event T" "quiet T fs cs tk" for T fs cs tk
  by unfold_locales (rule quiet_step)

text \<open>
  C1. The kill switch stops the execution service: once the halt is in force (Redis holds the key
  or cannot be reached) and half a second has passed, whatever orders, market data and mode
  requests arrive, no order is sent to the exchange, no fill is published and no order changes
  its state, even if the breaker last answered from a stale cache.
\<close>

theorem halted_execution_is_quiet:
  assumes "cb_last_check (ex_breaker ex) \<le> T" and "list_all (halted_event T) evs"
  shows "fills_sent (foldl exec_run_step ex evs) = fills_sent ex \<and>
    ex_exchange_calls (foldl exec_run_step ex evs) = ex_exchange_calls ex \<and>
    tk_orders (ex_tracker (foldl exec_run_step ex evs)) = tk_orders (ex_tracker ex)"
proof -
  have "quiet T (fills_sent ex) (ex_exchange_calls ex) (tk_orders (ex_tracker ex)) ex"
    using assms(1) by (simp add: quiet_def halt_inv_def)
  from halted_execution.inv_run [OF this assms(2)] show ?thesis by (simp add: quiet_def)
qed

definition sample_env :: "real \<Rightarrow> redis_reply \<Rightarrow> exec_env" where
  "sample_env t reply = \<lparr>en_monotonic = t, en_redis = reply, en_now_ms = int, en_uid = (\<lambda>n. replicate n CHR ''u''),
     en_gauss = 0, en_place_order = Inl (ExternalError ''HTTP 500'')\<rparr>"

definition message :: "string \<Rightarrow> json \<Rightarrow> kafka_message" where
  "message topic j = \<lparr>km_error = None, km_topic = topic, km_key = None, km_value = Document j, km_headers = None\<rparr>"

lemma halted_execution_is_quiet_witness:
  "fills_sent (foldl exec_run_step (exec_init ''paper'' [] False ''live'' None)
     [Iteration (sample_env 11 (Inl (ExternalError ''down''))) (Some (message topic_orders (order_to_json sample_order)))]) =
   fills_sent (exec_init ''paper'' [] False ''live'' None)"
  using halted_execution_is_quiet [of "exec_init ''paper'' [] False ''live'' None" 10
      "[Iteration (sample_env 11 (Inl (ExternalError ''down''))) (Some (message topic_orders (order_to_json sample_order)))]"]
  by (simp add: exec_init_def breaker_init_def sample_env_def check_interval_s_def)

section \<open>What happens to an order\<close>

lemma execute_paper:
  assumes "mode \<noteq> ''live''"
  shows "\<exists>f ex'. execute env rd mode mid spread ex = (Some f, ex')"
  using assms by (simp add: execute_def split: prod.splits)

lemma execution_step_order:
  "execution_step ex (env, Some (message topic_orders (order_to_json rd))) = on_order env rd ex"
  by (simp add: execution_step_def message_def)

text \<open>
  C4. A paper order is filled completely: with the breaker clear and market data for the symbol, an
  order of positive quantity of a strategy that is not live is published as exactly one fill
  with the order's id, its full quantity and its mode, its tracked state ends \<open>FILLED\<close> with nothing
  remaining, and the exchange is not called.
\<close>

theorem paper_order_filled:
  assumes "\<not> fst (is_tripped (en_monotonic env) (en_redis env) (ex_breaker ex))"
    and "map_of (ex_latest_mid ex) (upper (or_symbol rd)) = Some mid"
    and "get_mode (or_strategy_id rd) (ex_modes ex) \<noteq> ''live''" and "0 < or_quantity rd"
  defines "ex' \<equiv> execution_step ex (env, Some (message topic_orders (order_to_json rd)))"
  shows "\<exists>f st. fills_sent ex' = fills_sent ex @ [Document (fill_to_json f)] \<and>
    fl_order_id f = or_order_id rd \<and> fl_quantity f = or_quantity rd \<and>
    fl_trading_mode f = get_mode (or_strategy_id rd) (ex_modes ex) \<and>
    get_order (or_order_id rd) (ex_tracker ex') = Some st \<and> os_status st = FILLED \<and>
    os_filled_quantity st = or_quantity rd \<and> os_remaining_quantity st = 0 \<and>
    ex_exchange_calls ex' = ex_exchange_calls ex"
proof (cases rule: on_order_cases [of env ex rd])
  case (filled cb mid f0 f ex1)
  have f0: "fl_order_id f0 = or_order_id rd" "fl_quantity f0 = or_quantity rd"
    by (simp_all add: execute_Some(2) [OF filled(3)] simulate_fill_def Let_def split: prod.split)
  obtain st where st: "get_order (or_order_id rd) (ex_tracker ex1) = Some st" "os_status st = ACCEPTED"
      "os_quantity st = or_quantity rd"
    using accepted_after_register [of rd "''''" "''''" "en_now_ms env 2" "en_now_ms env 3"
        "en_now_ms env 0" "en_now_ms env 1" "ex_tracker ex"] execute_Some(3) [OF filled(3)]
    by (auto simp: accept_order_def)
  have "lifecycle (os_status st) FILLED" by (simp add: st lifecycle.intros)
  note moved = transition_valid(1) [OF st(1) this]
  show ?thesis
    unfolding ex'_def execution_step_order filled(5)
    using assms(3,4) f0 moved st(3) execute_fields [OF filled(3)]
    by (intro exI [of _ f]) (simp add: filled(4) moved_filled)
next
  case (ended cb mid' ex1)
  with execute_paper [OF assms(3)] have False by (metis option.distinct(1) prod.inject)
  then show ?thesis ..
qed (use assms(1,2) in auto)

definition sample_market :: exec_svc where
  \<comment> \<open>a paper service that has seen one depth update of BTCUSD\<close>
  "sample_market = (exec_init ''paper'' [] False ''live'' None)
     \<lparr>ex_latest_mid := [(''BTCUSD'', 100)], ex_latest_spread := [(''BTCUSD'', 1)]\<rparr>"

lemmas sample_facts = sample_market_def sample_env_def exec_init_def breaker_init_def is_tripped_def
  check_interval_s_def sample_order_def get_mode_def mode_manager_init_def letter_case

lemma paper_order_filled_witness:
  "\<exists>f st. fills_sent (execution_step sample_market
        (sample_env 11 (Inr None), Some (message topic_orders (order_to_json sample_order)))) =
      [Document (fill_to_json f)] \<and> fl_quantity f = 2 \<and>
     get_order ''o1'' (ex_tracker (execution_step sample_market
        (sample_env 11 (Inr None), Some (message topic_orders (order_to_json sample_order))))) = Some st \<and>
     os_status st = FILLED"
proof -
  let ?env = "sample_env 11 (Inr None)"
  have pre: "\<not> fst (is_tripped (en_monotonic ?env) (en_redis ?env) (ex_breaker sample_market))"
      "map_of (ex_latest_mid sample_market) (upper (or_symbol sample_order)) = Some 100"
      "get_mode (or_strategy_id sample_order) (ex_modes sample_market) \<noteq> ''live''" "0 < or_quantity sample_order"
    by (simp_all add: sample_facts)
  have "fills_sent sample_market = []" "or_quantity sample_order = 2" "or_order_id sample_order = ''o1''"
    by (simp_all add: sample_facts)
  with paper_order_filled [OF pre] show ?thesis by (metis append_Nil)
qed

lemma accept_published:
  "\<exists>u st. sent_on topic_order_status (ex_producer (accept_order env rd ex)) =
      sent_on topic_order_status (ex_producer ex) @ [Document (status_update_to_json u)] \<and>
    su_order_id u = or_order_id rd \<and> su_status u = ''ACCEPTED'' \<and>
    get_order (or_order_id rd) (ex_tracker (accept_order env rd ex)) = Some st \<and> os_status st = ACCEPTED"
proof -
  let ?tk = "register_order rd (en_now_ms env 0) (en_now_ms env 1) (ex_tracker ex)"
  obtain st where st: "get_order (or_order_id rd) ?tk = Some st" "os_status st = SUBMITTED"
    using register_status by blast
  show ?thesis
  proof (cases rule: transition_cases [of "or_order_id rd" ?tk ACCEPTED 0 0 "''''" "''''" "en_now_ms env 2" "en_now_ms env 3"])
    case (valid st' u)
    then have "su_status u = ''ACCEPTED''" "su_order_id u = or_order_id rd" by simp_all
    with valid(3,4) show ?thesis
      by (auto simp: accept_order_def tracked_def Let_def split: prod.splits)
  qed (use st in auto)
qed

lemma reject_accepted:
  "get_order (or_order_id rd) (ex_tracker ex) = Some st \<Longrightarrow> os_status st = ACCEPTED \<Longrightarrow>
   reject_order env rd r ex = ex"
  by (simp add: reject_order_def transition_rejected_when_accepted)

text \<open>
  A live order the service cannot place is left accepted: when the strategy is live and there is
  no exchange client, or the exchange refuses the order, nothing is filled, but the tracker
  ignores the rejection (an accepted order cannot be rejected), so the order stays in state
  \<open>ACCEPTED\<close> and the only status update published for it says \<open>ACCEPTED\<close>.
\<close>

theorem unplaced_live_order_stays_open:
  assumes "\<not> fst (is_tripped (en_monotonic env) (en_redis env) (ex_breaker ex))"
    and "map_of (ex_latest_mid ex) (upper (or_symbol rd)) = Some mid"
    and "get_mode (or_strategy_id rd) (ex_modes ex) = ''live''"
    and "\<not> ex_live_client ex \<or> en_place_order env = Inl e"
  defines "ex' \<equiv> execution_step ex (env, Some (message topic_orders (order_to_json rd)))"
  shows "\<exists>st u. get_order (or_order_id rd) (ex_tracker ex') = Some st \<and> os_status st = ACCEPTED \<and>
    fills_sent ex' = fills_sent ex \<and>
    sent_on topic_order_status (ex_producer ex') =
      sent_on topic_order_status (ex_producer ex) @ [Document (status_update_to_json u)] \<and>
    su_status u = ''ACCEPTED''"
proof (cases rule: on_order_cases [of env ex rd])
  case (ended cb mid ex1)
  let ?a = "accept_order env rd (ex\<lparr>ex_breaker := cb\<rparr>)"
  obtain u st where a: "sent_on topic_order_status (ex_producer ?a) =
      sent_on topic_order_status (ex_producer ex) @ [Document (status_update_to_json u)]"
      "su_status u = ''ACCEPTED''" "get_order (or_order_id rd) (ex_tracker ?a) = Some st" "os_status st = ACCEPTED"
    using accept_published [of env rd "ex\<lparr>ex_breaker := cb\<rparr>"] by auto
  have "ex_tracker ex1 = ex_tracker ?a \<and>
      sent_on topic_order_status (ex_producer ex1) = sent_on topic_order_status (ex_producer ?a)"
    using ended(3) assms(3,4) a(3,4) unfolding execute_def Let_def
    by (auto simp: call_exchange_fields reject_accepted split: if_splits prod.splits bool.splits)
  with a ended(4) execute_fields [OF ended(3)] show ?thesis
    unfolding ex'_def execution_step_order by auto
next
  case (filled cb mid f0 f ex1)
  with execute_Some(1) [OF filled(3)] assms(3,4) show ?thesis by auto
qed (use assms(1,2) in auto)

lemma unplaced_live_order_stays_open_witness:
  "\<exists>st. get_order ''o1'' (ex_tracker (execution_step
        (sample_market\<lparr>ex_modes := mode_manager_init ''live'' []\<rparr>)
        (sample_env 11 (Inr None), Some (message topic_orders (order_to_json sample_order))))) = Some st \<and>
     os_status st = ACCEPTED"
proof -
  let ?env = "sample_env 11 (Inr None)" and ?ex = "sample_market\<lparr>ex_modes := mode_manager_init ''live'' []\<rparr>"
  have pre: "\<not> fst (is_tripped (en_monotonic ?env) (en_redis ?env) (ex_breaker ?ex))"
      "map_of (ex_latest_mid ?ex) (upper (or_symbol sample_order)) = Some 100"
      "get_mode (or_strategy_id sample_order) (ex_modes ?ex) = ''live''"
      "\<not> ex_live_client ?ex \<or> en_place_order ?env = Inl TypeError"
    by (simp_all add: sample_facts)
  have "or_order_id sample_order = ''o1''" by (simp add: sample_facts)
  with unplaced_live_order_stays_open [OF pre] show ?thesis by auto
qed

end
