(* ===== verification/Risk_Checks.thy ===== *)
theory Risk_Checks
  imports Models "HOL-Library.Multiset"
begin

text \<open>
  \<open>services/risk-gateway/risk_gateway_svc/risk_checks.py\<close>: the pre-trade checks. A failed check
  returns a message in the code; only its presence matters outside the log, so the message is the
  value of a datatype that carries the numbers it is rendered from.
\<close>

record portfolio_state =
  ps_positions :: "(string, real) dict"
  ps_unrealized_pnl :: real
  ps_realized_pnl :: real
  ps_peak_equity :: real
  ps_current_equity :: real

record risk_limits =
  rl_max_position_notional :: real
  rl_max_order_notional :: real
  rl_max_drawdown_pct :: real
  rl_max_total_exposure :: real
  rl_max_var_pct :: real

definition default_limits :: risk_limits where
  "default_limits = \<lparr>rl_max_position_notional = 10000, rl_max_order_notional = 1000,
     rl_max_drawdown_pct = 1 / 10, rl_max_total_exposure = 500000, rl_max_var_pct = 2 / 100\<rparr>"

datatype risk_failure =
    PositionNotional real real real real
  | OrderNotional real real
  | Drawdown real real
  | VarLimit real real
  | TotalExposure real real

definition check_position_notional :: "signal \<Rightarrow> portfolio_state \<Rightarrow> risk_limits \<Rightarrow> risk_failure option" where
  "check_position_notional sig st lm =
     (let current_pos = dget (ps_positions st) (sg_symbol sig) 0;
          new_pos = current_pos + sg_target_quantity sig;
          price = sg_mid_price_at_signal sig;
          new_notional = (if 0 < price then \<bar>new_pos\<bar> * price else 0) in
      if rl_max_position_notional lm < new_notional
      then Some (PositionNotional new_notional new_pos price (rl_max_position_notional lm)) else None)"

definition check_order_notional :: "signal \<Rightarrow> risk_limits \<Rightarrow> risk_failure option" where
  "check_order_notional sig lm =
     (let notional = sg_target_quantity sig * sg_mid_price_at_signal sig in
      if rl_max_order_notional lm < notional
      then Some (OrderNotional notional (rl_max_order_notional lm)) else None)"

definition check_drawdown :: "portfolio_state \<Rightarrow> risk_limits \<Rightarrow> risk_failure option" where
  "check_drawdown st lm =
     (if ps_peak_equity st \<le> 0 then None
      else let drawdown = (ps_peak_equity st - ps_current_equity st) / ps_peak_equity st in
        if rl_max_drawdown_pct lm < drawdown
        then Some (Drawdown drawdown (rl_max_drawdown_pct lm)) else None)"

definition drawdown_scale_factor :: "portfolio_state \<Rightarrow> real" where
  "drawdown_scale_factor st =
     (if ps_peak_equity st \<le> 0 then 1
      else let drawdown = (ps_peak_equity st - ps_current_equity st) / ps_peak_equity st in
        if drawdown \<le> 3 / 100 then 1
        else if drawdown \<le> 7 / 100 then 1 - (drawdown - 3 / 100) / (4 / 100) * (75 / 100)
        else 25 / 100)"

definition check_var :: "risk_limits \<Rightarrow> real option \<Rightarrow> risk_failure option" where
  "check_var lm var_pct =
     (case var_pct of None \<Rightarrow> None
      | Some v \<Rightarrow> if rl_max_var_pct lm < v then Some (VarLimit v (rl_max_var_pct lm)) else None)"

definition total_exposure :: "portfolio_state \<Rightarrow> (string, real) dict \<Rightarrow> real" where
  "total_exposure st prices =
     foldl (\<lambda>acc (sym, qty). acc + \<bar>qty * dget prices sym 0\<bar>) 0 (ps_positions st)"

definition check_total_exposure :: "signal \<Rightarrow> portfolio_state \<Rightarrow> risk_limits \<Rightarrow> (string, real) dict \<Rightarrow> risk_failure option" where
  "check_total_exposure sig st lm prices =
     (let proposed_notional = sg_target_quantity sig * sg_mid_price_at_signal sig;
          new_exposure = total_exposure st prices + proposed_notional in
      if rl_max_total_exposure lm < new_exposure
      then Some (TotalExposure new_exposure (rl_max_total_exposure lm)) else None)"

definition check_results :: "signal \<Rightarrow> portfolio_state \<Rightarrow> risk_limits \<Rightarrow> real option \<Rightarrow> (string, real) dict \<Rightarrow>
    (string \<times> risk_failure option) list" where
  "check_results sig st lm var_pct prices =
    [(''position_notional'', check_position_notional sig st lm),
     (''order_notional'', check_order_notional sig lm),
     (''drawdown'', check_drawdown st lm),
     (''var'', check_var lm var_pct),
     (''total_exposure'', check_total_exposure sig st lm prices)]"

definition run_risk_checks :: "int \<Rightarrow> signal \<Rightarrow> portfolio_state \<Rightarrow> risk_limits \<Rightarrow> real option \<Rightarrow>
    (string, real) dict \<Rightarrow> risk_decision" where
  \<comment> \<open>\<open>prices\<close>: \<open>[]\<close> for the default \<open>None\<close>\<close>
  "run_risk_checks now sig st lm var_pct prices =
     (let rs = check_results sig st lm var_pct prices;
          checks_passed = map fst (filter (\<lambda>(_, r). r = None) rs);
          checks_failed = map fst (filter (\<lambda>(_, r). r \<noteq> None) rs) in
      if checks_failed \<noteq> []
      then \<lparr>rd_signal_id = sg_signal_id sig, rd_decision = ''REJECTED'', rd_reason = join ''; '' checks_failed,
             rd_adjusted_quantity = 0, rd_timestamp = now, rd_checks_passed = checks_passed,
             rd_checks_failed = checks_failed\<rparr>
      else let scale = drawdown_scale_factor st; adjusted_qty = sg_target_quantity sig * scale in
        \<lparr>rd_signal_id = sg_signal_id sig, rd_decision = ''APPROVED'',
         rd_reason = (if 1 \<le> scale then ''all_checks_passed'' else ''scaled_by_drawdown('' @ fixed2 scale @ '')''),
         rd_adjusted_quantity = adjusted_qty, rd_timestamp = now, rd_checks_passed = checks_passed,
         rd_checks_failed = []\<rparr>)"

section \<open>Position scaling\<close>

definition graded :: "real \<Rightarrow> real" where
  \<comment> \<open>the factor as a function of the drawdown\<close>
  "graded d = (if d \<le> 3 / 100 then 1 else if d \<le> 7 / 100 then 1 - (d - 3 / 100) / (4 / 100) * (75 / 100) else 25 / 100)"

lemma graded_bounds: "1 / 4 \<le> graded d" "graded d \<le> 1"
  by (simp_all add: graded_def)

lemma graded_antimono: "d \<le> d' \<Longrightarrow> graded d' \<le> graded d"
  by (simp add: graded_def)

lemma scale_graded: "drawdown_scale_factor st =
   (if ps_peak_equity st \<le> 0 then 1 else graded ((ps_peak_equity st - ps_current_equity st) / ps_peak_equity st))"
  by (simp add: drawdown_scale_factor_def graded_def Let_def)

lemma scale_bounds: "1 / 4 \<le> drawdown_scale_factor st" "drawdown_scale_factor st \<le> 1"
  using graded_bounds [of "(ps_peak_equity st - ps_current_equity st) / ps_peak_equity st"]
  by (simp_all add: scale_graded)

text \<open>
  Graduated scaling: the factor applied to an order lies between one quarter and one, is one up
  to 3 percent drawdown and one quarter beyond 7 percent, and a portfolio with the same
  peak and more equity never gets a smaller factor.
\<close>

theorem drawdown_scaling_graduated:
  defines "dd \<equiv> \<lambda>st. (ps_peak_equity st - ps_current_equity st) / ps_peak_equity st"
  shows "1 / 4 \<le> drawdown_scale_factor st \<and> drawdown_scale_factor st \<le> 1 \<and>
    (0 < ps_peak_equity st \<longrightarrow> (dd st \<le> 3 / 100 \<longrightarrow> drawdown_scale_factor st = 1) \<and>
      (7 / 100 < dd st \<longrightarrow> drawdown_scale_factor st = 1 / 4)) \<and>
    (ps_peak_equity st = ps_peak_equity st' \<and> ps_current_equity st \<le> ps_current_equity st' \<longrightarrow>
      drawdown_scale_factor st \<le> drawdown_scale_factor st')"
proof (intro conjI impI)
  assume a: "ps_peak_equity st = ps_peak_equity st' \<and> ps_current_equity st \<le> ps_current_equity st'"
  show "drawdown_scale_factor st \<le> drawdown_scale_factor st'"
  proof (cases "0 < ps_peak_equity st")
    case True
    with a have "dd st' \<le> dd st" by (simp add: dd_def divide_right_mono)
    then have "graded (dd st) \<le> graded (dd st')" by (rule graded_antimono)
    with a True show ?thesis by (simp add: scale_graded dd_def)
  qed (use a in \<open>simp add: scale_graded\<close>)
next
  show "1 / 4 \<le> drawdown_scale_factor st" "drawdown_scale_factor st \<le> 1" by (rule scale_bounds)+
qed (simp_all add: scale_graded graded_def dd_def)

definition sample_state :: "real \<Rightarrow> (string, real) dict \<Rightarrow> portfolio_state" where
  "sample_state eq pos = \<lparr>ps_positions = pos, ps_unrealized_pnl = 0, ps_realized_pnl = 0,
     ps_peak_equity = 100000, ps_current_equity = eq\<rparr>"

lemma drawdown_scaling_graduated_witness:
  "drawdown_scale_factor (sample_state 92000 []) = 1 / 4 \<and> drawdown_scale_factor (sample_state 98000 []) = 1"
  using drawdown_scaling_graduated [of "sample_state 92000 []" "sample_state 98000 []"]
    drawdown_scaling_graduated [of "sample_state 98000 []" "sample_state 98000 []"]
  by (simp add: sample_state_def)

section \<open>The decision\<close>

text \<open>The five conditions on the numbers.\<close>

definition within_limits :: "signal \<Rightarrow> portfolio_state \<Rightarrow> risk_limits \<Rightarrow> real option \<Rightarrow> (string, real) dict \<Rightarrow> bool" where
  "within_limits sig st lm var_pct prices \<longleftrightarrow>
     (0 < sg_mid_price_at_signal sig \<longrightarrow>
        \<bar>dget (ps_positions st) (sg_symbol sig) 0 + sg_target_quantity sig\<bar> * sg_mid_price_at_signal sig
          \<le> rl_max_position_notional lm) \<and>
     (\<not> 0 < sg_mid_price_at_signal sig \<longrightarrow> 0 \<le> rl_max_position_notional lm) \<and>
     sg_target_quantity sig * sg_mid_price_at_signal sig \<le> rl_max_order_notional lm \<and>
     (0 < ps_peak_equity st \<longrightarrow>
        ps_peak_equity st - ps_current_equity st \<le> rl_max_drawdown_pct lm * ps_peak_equity st) \<and>
     (\<forall>v. var_pct = Some v \<longrightarrow> v \<le> rl_max_var_pct lm) \<and>
     total_exposure st prices + sg_target_quantity sig * sg_mid_price_at_signal sig \<le> rl_max_total_exposure lm"

lemma no_failure_iff:
  "list_all (\<lambda>(_, r). r = None) (check_results sig st lm v ps) \<longleftrightarrow> within_limits sig st lm v ps"
  by (auto simp: check_results_def within_limits_def check_position_notional_def check_order_notional_def
      check_drawdown_def check_var_def check_total_exposure_def Let_def not_less divide_le_eq less_divide_eq split: option.splits)

lemma failed_Nil_iff:
  "filter (\<lambda>(_, r). r \<noteq> None) rs = [] \<longleftrightarrow> list_all (\<lambda>(_, r). r = None) rs"
  by (induction rs) auto

lemma decision_cases:
  obtains (approved) "within_limits sig st lm v ps"
      "run_risk_checks now sig st lm v ps =
        \<lparr>rd_signal_id = sg_signal_id sig, rd_decision = ''APPROVED'',
         rd_reason = (if 1 \<le> drawdown_scale_factor st then ''all_checks_passed''
           else ''scaled_by_drawdown('' @ fixed2 (drawdown_scale_factor st) @ '')''),
         rd_adjusted_quantity = sg_target_quantity sig * drawdown_scale_factor st, rd_timestamp = now,
         rd_checks_passed = map fst (check_results sig st lm v ps), rd_checks_failed = []\<rparr>"
  | (rejected) "\<not> within_limits sig st lm v ps"
      "rd_decision (run_risk_checks now sig st lm v ps) = ''REJECTED''"
      "rd_adjusted_quantity (run_risk_checks now sig st lm v ps) = 0"
      "rd_checks_failed (run_risk_checks now sig st lm v ps) =
         map fst (filter (\<lambda>(_, r). r \<noteq> None) (check_results sig st lm v ps))"
proof (cases "within_limits sig st lm v ps")
  case True
  then have ok: "list_all (\<lambda>(_, r). r = None) (check_results sig st lm v ps)"
    by (simp add: no_failure_iff)
  then have "filter (\<lambda>(_, r). r = None) (check_results sig st lm v ps) = check_results sig st lm v ps"
      "filter (\<lambda>(_, r). r \<noteq> None) (check_results sig st lm v ps) = []"
    by (auto simp: list_all_iff filter_id_conv filter_empty_conv)
  then show ?thesis
    by (intro approved [OF True])
       (simp only: run_risk_checks_def Let_def list.map(1) if_False simp_thms)
next
  case False
  then have "filter (\<lambda>(_, r). r \<noteq> None) (check_results sig st lm v ps) \<noteq> []"
    by (simp only: failed_Nil_iff no_failure_iff not_False_eq_True)
  then show ?thesis
    by (intro rejected [OF False]) (simp_all only: run_risk_checks_def Let_def map_is_Nil_conv if_True risk_decision.simps not_False_eq_True)
qed

lemma decision_two:
  "rd_decision (run_risk_checks now sig st lm v ps) = ''APPROVED'' \<or>
   rd_decision (run_risk_checks now sig st lm v ps) = ''REJECTED''"
  by (cases rule: decision_cases [of sig st lm v ps now]) simp_all


lemma approved_order_bounds:
  assumes "rd_decision (run_risk_checks now sig st lm v ps) = ''APPROVED''"
    and "0 < sg_mid_price_at_signal sig" and "0 \<le> sg_target_quantity sig"
  defines "q \<equiv> rd_adjusted_quantity (run_risk_checks now sig st lm v ps)"
    and "pos \<equiv> dget (ps_positions st) (sg_symbol sig) 0" and "price \<equiv> sg_mid_price_at_signal sig"
  shows "0 \<le> q \<and> q \<le> sg_target_quantity sig \<and>
    \<bar>pos + q\<bar> * price \<le> max (\<bar>pos\<bar> * price) (rl_max_position_notional lm) \<and>
    q * price \<le> rl_max_order_notional lm \<and>
    total_exposure st ps + q * price \<le> rl_max_total_exposure lm \<and>
    (0 < ps_peak_equity st \<longrightarrow>
      ps_current_equity st \<ge> (1 - rl_max_drawdown_pct lm) * ps_peak_equity st)"
proof -
  define t where "t = sg_target_quantity sig"
  have within: "within_limits sig st lm v ps" and q: "q = t * drawdown_scale_factor st"
    using assms(1) by (cases rule: decision_cases [of sig st lm v ps now]; simp add: q_def t_def)+
  have t: "0 \<le> t" and price: "0 < price" using assms(2,3) by (simp_all add: t_def price_def)
  have q0: "0 \<le> q" and qt: "q \<le> t"
    using scale_bounds [of st] t by (simp_all add: q mult_left_le)
  have "\<bar>pos + q\<bar> \<le> max \<bar>pos\<bar> \<bar>pos + t\<bar>" using q0 qt by linarith
  then have "\<bar>pos + q\<bar> * price \<le> max \<bar>pos\<bar> \<bar>pos + t\<bar> * price"
    using price by (intro mult_right_mono) auto
  also have "\<dots> = max (\<bar>pos\<bar> * price) (\<bar>pos + t\<bar> * price)"
    using price by (simp add: max_def)
  finally have "\<bar>pos + q\<bar> * price \<le> max (\<bar>pos\<bar> * price) (rl_max_position_notional lm)"
    using within price by (auto simp: within_limits_def pos_def t_def price_def)
  moreover have "q * price \<le> t * price" using qt price by (intro mult_right_mono) auto
  moreover have "t * price \<le> rl_max_order_notional lm" "total_exposure st ps + t * price \<le> rl_max_total_exposure lm"
    using within by (simp_all add: within_limits_def t_def price_def)
  moreover have "0 < ps_peak_equity st \<longrightarrow> (1 - rl_max_drawdown_pct lm) * ps_peak_equity st \<le> ps_current_equity st"
    using within by (auto simp: within_limits_def left_diff_distrib)
  ultimately show ?thesis using q0 qt by (simp add: t_def)
qed

text \<open>
  An approved order keeps the portfolio within its limits: when it is executed as a purchase of
  the approved (scaled) quantity, the position's notional is within the per-symbol limit unless it
  was over it before and has not grown, the order's notional is within its limit, the drawdown is
  within the hard stop, and so is the total exposure.
\<close>

theorem approved_order_safe:
  assumes "rd_decision (run_risk_checks now sig st lm v ps) = ''APPROVED''"
    and "0 < sg_mid_price_at_signal sig" and "0 \<le> sg_target_quantity sig"
  defines "q \<equiv> rd_adjusted_quantity (run_risk_checks now sig st lm v ps)"
    and "pos \<equiv> dget (ps_positions st) (sg_symbol sig) 0" and "price \<equiv> sg_mid_price_at_signal sig"
  shows "0 \<le> q \<and> q \<le> sg_target_quantity sig \<and>
    \<bar>pos + q\<bar> * price \<le> max (\<bar>pos\<bar> * price) (rl_max_position_notional lm) \<and>
    q * price \<le> rl_max_order_notional lm \<and>
    total_exposure st ps + q * price \<le> rl_max_total_exposure lm \<and>
    (0 < ps_peak_equity st \<longrightarrow>
      ps_current_equity st \<ge> (1 - rl_max_drawdown_pct lm) * ps_peak_equity st)"
  using approved_order_bounds [OF assms(1-3)] by (simp add: q_def pos_def price_def)

definition sample_signal :: "string \<Rightarrow> real \<Rightarrow> signal" where
  "sample_signal side q = \<lparr>sg_signal_id = ''s1'', sg_timestamp = 0, sg_strategy_id = ''m'', sg_symbol = ''BTCUSD'',
     sg_side = side, sg_strength = 1, sg_target_quantity = q, sg_urgency = 1, sg_metadata = [],
     sg_mid_price_at_signal = 100, sg_spread_at_signal = 1\<rparr>"

lemma sample_within: "within_limits (sample_signal ''BUY'' 5) (sample_state 95000 []) default_limits None []"
  by (simp add: within_limits_def sample_signal_def sample_state_def default_limits_def total_exposure_def)

lemma approved_order_safe_witness:
  "rd_adjusted_quantity (run_risk_checks 0 (sample_signal ''BUY'' 5) (sample_state 95000 []) default_limits None []) * 100 \<le> 1000"
  using approved_order_safe [of 0 "sample_signal ''BUY'' 5" "sample_state 95000 []" default_limits None "[]"]
    sample_within
  by (cases rule: decision_cases [of "sample_signal ''BUY'' 5" "sample_state 95000 []" default_limits None "[]" 0])
     (simp_all add: sample_signal_def default_limits_def)

text \<open>
  The checks do not see the side of a signal: two signals that differ in nothing but their side
  get the same decision, so a sale that would reduce a long position at its limit is
  rejected like a purchase that would enlarge it.
\<close>

theorem side_is_ignored:
  "run_risk_checks now (sig\<lparr>sg_side := side\<rparr>) st lm v ps = run_risk_checks now sig st lm v ps \<and>
   rd_decision (run_risk_checks now (sample_signal ''SELL'' 5) (sample_state 100000 [(''BTCUSD'', 98)])
      default_limits None []) = ''REJECTED''"
proof
  show "run_risk_checks now (sig\<lparr>sg_side := side\<rparr>) st lm v ps = run_risk_checks now sig st lm v ps"
    by (simp add: run_risk_checks_def check_results_def check_position_notional_def check_order_notional_def
        check_total_exposure_def)
  have "\<not> within_limits (sample_signal ''SELL'' 5) (sample_state 100000 [(''BTCUSD'', 98)]) default_limits None []"
    by (simp add: within_limits_def sample_signal_def sample_state_def default_limits_def dget_def)
  then show "rd_decision (run_risk_checks now (sample_signal ''SELL'' 5) (sample_state 100000 [(''BTCUSD'', 98)])
      default_limits None []) = ''REJECTED''"
    by (cases rule: decision_cases [of "sample_signal ''SELL'' 5" "sample_state 100000 [(''BTCUSD'', 98)]"
        default_limits None "[]" now]) simp_all
qed

end
