(* ===== verification/Var_Model.thy ===== *)
theory Var_Model
  imports Py_Base
begin

text \<open>
  \<open>services/risk-gateway/risk_gateway_svc/var_model.py\<close>: parametric value at risk under geometric
  Brownian motion, over a sliding window of prices.
\<close>

record var_model =
  vm_window_size :: nat
  vm_confidence :: real
  vm_horizon_hours :: real
  vm_prices :: "real list"
  vm_timestamps :: "int list"

record var_result =
  vr_var_amount :: real
  vr_var_pct :: real
  vr_confidence :: real
  vr_horizon_hours :: real
  vr_volatility :: real
  vr_drift :: real
  vr_n_observations :: nat

definition var_init :: "nat \<Rightarrow> real \<Rightarrow> real \<Rightarrow> var_model" where
  "var_init window_size confidence horizon_hours =
     \<lparr>vm_window_size = window_size, vm_confidence = confidence, vm_horizon_hours = horizon_hours,
      vm_prices = [], vm_timestamps = []\<rparr>"

definition z_scores :: "(real, real) dict" where
  "z_scores = [(90 / 100, 12816 / 10000), (95 / 100, 16449 / 10000), (99 / 100, 23263 / 10000)]"

definition var_update :: "real \<Rightarrow> int \<Rightarrow> var_model \<Rightarrow> var_model" where
  "var_update price timestamp_ms vm =
     vm\<lparr>vm_prices := deque_append (vm_window_size vm) (vm_prices vm) price,
        vm_timestamps := deque_append (vm_window_size vm) (vm_timestamps vm) timestamp_ms\<rparr>"

fun log_returns :: "real list \<Rightarrow> real list" where
  "log_returns (p # q # ps) = (if 0 < p \<and> 0 < q then ln (q / p) # log_returns (q # ps) else log_returns (q # ps))"
| "log_returns _ = []"

definition no_estimate :: "var_model \<Rightarrow> var_result" where
  "no_estimate vm = \<lparr>vr_var_amount = 0, vr_var_pct = 0, vr_confidence = vm_confidence vm,
     vr_horizon_hours = vm_horizon_hours vm, vr_volatility = 0, vr_drift = 0,
     vr_n_observations = length (vm_prices vm)\<rparr>"

definition var_compute :: "real \<Rightarrow> var_model \<Rightarrow> py_error + var_result" where
  \<comment> \<open>\<open>math.sqrt\<close> of a negative horizon is a \<open>ValueError\<close>\<close>
  "var_compute portfolio_value vm =
     (let n = length (vm_prices vm) in
      if n < 10 then Inr (no_estimate vm)
      else let rs = log_returns (vm_prices vm) in
        if length rs < 5 then Inr (no_estimate vm)
        else let mean_return = mean rs;
                 variance = sq_dev rs / real (length rs);
                 vol_per_obs = sqrt variance;
                 total_time_ms = last (vm_timestamps vm) - hd (vm_timestamps vm) in
          if total_time_ms \<le> 0 then Inr (no_estimate vm)
          else let obs_per_hour = real (n - 1) / (of_int total_time_ms / 3600000);
                   hours_per_year = 365 * 24;
                   annual_vol = vol_per_obs * sqrt (obs_per_hour * hours_per_year);
                   annual_drift = mean_return * obs_per_hour * hours_per_year;
                   dt = vm_horizon_hours vm / hours_per_year in
            if dt < 0 then Inl (ValueError ''math domain error'')
            else let vol_horizon = annual_vol * sqrt dt;
                     drift_horizon = annual_drift * dt;
                     z = dget z_scores (vm_confidence vm) (16449 / 10000);
                     var_pct = 1 - exp (drift_horizon - z * vol_horizon);
                     var_amount = portfolio_value * var_pct in
              Inr \<lparr>vr_var_amount = max var_amount 0, vr_var_pct = max var_pct 0,
                vr_confidence = vm_confidence vm, vr_horizon_hours = vm_horizon_hours vm,
                vr_volatility = annual_vol, vr_drift = annual_drift, vr_n_observations = n\<rparr>)"

section \<open>Bounds\<close>

lemma no_estimate_simps [simp]:
  "vr_var_pct (no_estimate vm) = 0" "vr_var_amount (no_estimate vm) = 0"
  "vr_volatility (no_estimate vm) = 0"
  by (simp_all add: no_estimate_def)

text \<open>What every estimate is made of: drift and volatility over the horizon do not depend on the confidence.\<close>

lemma var_shape:
  assumes "0 \<le> vm_horizon_hours vm"
  shows "(\<forall>v c. var_compute v (vm\<lparr>vm_confidence := c\<rparr>) = Inr (no_estimate (vm\<lparr>vm_confidence := c\<rparr>))) \<or>
    (10 \<le> length (vm_prices vm) \<and> (\<exists>drift vol. 0 \<le> vol \<and> (\<forall>v c. \<exists>r. var_compute v (vm\<lparr>vm_confidence := c\<rparr>) = Inr r \<and>
      vr_var_pct r = max (1 - exp (drift - dget z_scores c (16449 / 10000) * vol)) 0 \<and>
      vr_var_amount r = max (v * (1 - exp (drift - dget z_scores c (16449 / 10000) * vol))) 0)))"
proof -
  define rs where "rs = log_returns (vm_prices vm)"
  define t where "t = last (vm_timestamps vm) - hd (vm_timestamps vm)"
  show ?thesis
  proof (cases "length (vm_prices vm) < 10 \<or> length rs < 5 \<or> t \<le> 0")
    case True
    then show ?thesis by (auto simp: var_compute_def Let_def rs_def t_def)
  next
    case False
    define per_hour where "per_hour = real (length (vm_prices vm) - 1) / (of_int t / 3600000)"
    define dt where "dt = vm_horizon_hours vm / (365 * 24)"
    define vol where "vol = sqrt (sq_dev rs / real (length rs)) * sqrt (per_hour * (365 * 24)) * sqrt dt"
    define drift where "drift = mean rs * per_hour * (365 * 24) * dt"
    have dt: "\<not> dt < 0" using assms by (simp add: dt_def)
    have "0 \<le> per_hour" using False by (simp add: per_hour_def)
    then have "0 \<le> vol" using False dt by (simp add: vol_def)
    moreover have "\<exists>r. var_compute v (vm\<lparr>vm_confidence := c\<rparr>) = Inr r \<and>
        vr_var_pct r = max (1 - exp (drift - dget z_scores c (16449 / 10000) * vol)) 0 \<and>
        vr_var_amount r = max (v * (1 - exp (drift - dget z_scores c (16449 / 10000) * vol))) 0" for v c
      using False dt
      unfolding var_compute_def Let_def drift_def vol_def per_hour_def dt_def rs_def t_def by simp
    ultimately show ?thesis using False by (metis not_less)
  qed
qed

text \<open>
  The value at risk is a meaningful loss: with a horizon that is not negative an estimate is
  always returned, its percentage is at least 0 and below 1, for a long portfolio the amount is
  that percentage of the value, with fewer than ten prices it is 0, and a higher confidence level
  never lowers it.
\<close>

theorem var_is_a_loss_fraction:
  assumes "0 \<le> vm_horizon_hours vm"
  shows "\<exists>r90 r95 r99. var_compute v (vm\<lparr>vm_confidence := 90 / 100\<rparr>) = Inr r90 \<and>
    var_compute v (vm\<lparr>vm_confidence := 95 / 100\<rparr>) = Inr r95 \<and>
    var_compute v (vm\<lparr>vm_confidence := 99 / 100\<rparr>) = Inr r99 \<and>
    0 \<le> vr_var_pct r90 \<and> vr_var_pct r90 \<le> vr_var_pct r95 \<and> vr_var_pct r95 \<le> vr_var_pct r99 \<and>
    vr_var_pct r99 < 1 \<and>
    (0 \<le> v \<longrightarrow> vr_var_amount r95 = v * vr_var_pct r95) \<and>
    (length (vm_prices vm) < 10 \<longrightarrow> vr_var_pct r99 = 0)"
  using var_shape [OF assms]
proof
  assume "\<forall>v c. var_compute v (vm\<lparr>vm_confidence := c\<rparr>) = Inr (no_estimate (vm\<lparr>vm_confidence := c\<rparr>))"
  then show ?thesis by simp
next
  assume "10 \<le> length (vm_prices vm) \<and> (\<exists>drift vol. 0 \<le> vol \<and> (\<forall>v c. \<exists>r. var_compute v (vm\<lparr>vm_confidence := c\<rparr>) = Inr r \<and>
      vr_var_pct r = max (1 - exp (drift - dget z_scores c (16449 / 10000) * vol)) 0 \<and>
      vr_var_amount r = max (v * (1 - exp (drift - dget z_scores c (16449 / 10000) * vol))) 0))"
  then obtain drift vol where n: "10 \<le> length (vm_prices vm)" and vol: "0 \<le> vol"
    and est: "\<And>c. \<exists>r. var_compute v (vm\<lparr>vm_confidence := c\<rparr>) = Inr r \<and>
      vr_var_pct r = max (1 - exp (drift - dget z_scores c (16449 / 10000) * vol)) 0 \<and>
      vr_var_amount r = max (v * (1 - exp (drift - dget z_scores c (16449 / 10000) * vol))) 0" by blast
  define pct where "pct z = 1 - exp (drift - z * vol)" for z
  have mono: "max (pct z) 0 \<le> max (pct z') 0" if "z \<le> z'" for z z'
    using vol that by (intro max.mono) (simp_all add: pct_def mult_right_mono)
  have below: "max (pct z) 0 < 1" for z by (simp add: pct_def)
  have amount: "0 \<le> v \<longrightarrow> max (v * pct z) 0 = v * max (pct z) 0" for z
    by (simp add: max_mult_distrib_left)
  have z: "dget z_scores (90 / 100) (16449 / 10000) = 12816 / 10000"
      "dget z_scores (95 / 100) (16449 / 10000) = 16449 / 10000"
      "dget z_scores (99 / 100) (16449 / 10000) = 23263 / 10000"
    by (simp_all add: z_scores_def dget_def)
  obtain r90 r95 r99 where "var_compute v (vm\<lparr>vm_confidence := 90 / 100\<rparr>) = Inr r90"
      "vr_var_pct r90 = max (pct (12816 / 10000)) 0"
      "var_compute v (vm\<lparr>vm_confidence := 95 / 100\<rparr>) = Inr r95"
      "vr_var_pct r95 = max (pct (16449 / 10000)) 0" "vr_var_amount r95 = max (v * pct (16449 / 10000)) 0"
      "var_compute v (vm\<lparr>vm_confidence := 99 / 100\<rparr>) = Inr r99"
      "vr_var_pct r99 = max (pct (23263 / 10000)) 0"
    using est [of "90 / 100"] est [of "95 / 100"] est [of "99 / 100"] unfolding z pct_def by blast
  moreover note mono [of "12816 / 10000" "16449 / 10000"] mono [of "16449 / 10000" "23263 / 10000"]
    below [of "23263 / 10000"] amount [of "16449 / 10000"] n
  ultimately show ?thesis by auto
qed

lemma var_is_a_loss_fraction_witness:
  "\<exists>r. var_compute 1000 ((var_init 100 (99 / 100) 1)\<lparr>vm_confidence := 99 / 100\<rparr>) = Inr r \<and> vr_var_pct r = 0"
  using var_is_a_loss_fraction [of "var_init 100 (99 / 100) 1" 1000] by (auto simp: var_init_def)

text \<open>The windows of prices and times stay in step and bounded.\<close>

lemma var_update_windows:
  assumes "length (vm_prices vm) = length (vm_timestamps vm)"
  shows "length (vm_prices (var_update p t vm)) = length (vm_timestamps (var_update p t vm))"
    "length (vm_prices (var_update p t vm)) \<le> vm_window_size vm"
  using assms by (simp_all add: var_update_def length_deque_append)

end
