(* ===== verification/Risk_Gateway.thy ===== *)
theory Risk_Gateway
  imports Risk_Checks Portfolio_Sync Circuit_Breaker Kafka_Utils Metrics_Registry
begin

text \<open>
  \<open>services/risk-gateway/risk_gateway_svc/main.py\<close>: the consume loop that turns signals into orders,
  and the kill switch's HTTP handlers. The environment of an event holds what comes from outside: the
  clocks, Redis' answers, fresh ids. An exception that escapes the loop's body ends the consume
  loop (it runs in an executor thread whose result nobody reads): \<open>rg_running\<close> turns false.
\<close>

record risk_env =
  ge_monotonic :: real
  ge_redis :: redis_reply
  ge_hgetall :: "string \<Rightarrow> py_error + redis_hash"
  ge_scan :: "string \<Rightarrow> string list list"
  ge_now_ms :: "nat \<Rightarrow> int"
  ge_uid :: "nat \<Rightarrow> string"

record risk_svc =
  rg_running :: bool
  rg_run_id :: string
  rg_backtest_id :: "string option"
  rg_limits :: risk_limits
  rg_metrics :: metrics
  rg_breaker :: breaker
  rg_producer :: qproducer
  rg_approved :: nat
  rg_rejected :: nat
  rg_blocked :: nat

definition gateway_name :: string where "gateway_name = ''risk-gateway''"

definition load_risk_limits :: "(string \<Rightarrow> redis_text option) \<Rightarrow> py_error + risk_limits" where
  \<comment> \<open>\<open>float(os.getenv(name, default))\<close> for each limit; the VaR limit keeps the class default\<close>
  "load_risk_limits getenv =
     (let env_float = (\<lambda>name dflt. float_of (case getenv name of None \<Rightarrow> Float_Text dflt | Some t \<Rightarrow> t)) in
      ebind (env_float ''MAX_POSITION_NOTIONAL'' 10000) (\<lambda>pn.
      ebind (env_float ''MAX_ORDER_NOTIONAL'' 1000) (\<lambda>on.
      ebind (env_float ''MAX_DRAWDOWN_PCT'' (5 / 100)) (\<lambda>dd.
      ebind (env_float ''MAX_TOTAL_EXPOSURE'' 500000) (\<lambda>te.
      Inr \<lparr>rl_max_position_notional = pn, rl_max_order_notional = on, rl_max_drawdown_pct = dd,
        rl_max_total_exposure = te, rl_max_var_pct = rl_max_var_pct default_limits\<rparr>)))))"

definition get_portfolio_state :: "risk_env \<Rightarrow> string \<Rightarrow> py_error + portfolio_state" where
  "get_portfolio_state env run_id =
     ebind (read_portfolio_from_redis (ge_hgetall env) (ge_scan env) run_id []) (\<lambda>data.
       Inr \<lparr>ps_positions = pd_positions data, ps_unrealized_pnl = pd_unrealized_pnl data,
         ps_realized_pnl = pd_realized_pnl data, ps_peak_equity = pd_peak_equity data,
         ps_current_equity = pd_current_equity data\<rparr>)"

definition gateway_init :: "string option \<Rightarrow> risk_limits \<Rightarrow> risk_svc" where
  "gateway_init backtest_id limits =
     (let run_id = (case backtest_id of None \<Rightarrow> ''live'' | Some b \<Rightarrow> if b = '''' then ''live'' else b) in
      \<lparr>rg_running = True, rg_run_id = run_id, rg_backtest_id = backtest_id, rg_limits = limits,
       rg_metrics = metrics_init gateway_name, rg_breaker = breaker_init run_id,
       rg_producer = producer_init backtest_id, rg_approved = 0, rg_rejected = 0, rg_blocked = 0\<rparr>)"

definition gateway_audit :: "string \<Rightarrow> int \<Rightarrow> (string, json) dict \<Rightarrow> qproducer \<Rightarrow> qproducer" where
  "gateway_audit event_type now detail p = emit_audit gateway_name event_type now detail p"

definition block_signal :: "risk_env \<Rightarrow> signal \<Rightarrow> risk_svc \<Rightarrow> risk_svc" where
  "block_signal env sig rg =
     rg\<lparr>rg_blocked := rg_blocked rg + 1,
        rg_metrics := metric_set_gauge ''circuit_breaker_active'' 1 None
          (metric_inc ''signals_breaker_blocked'' 1 (Some [(''symbol'', sg_symbol sig)]) (rg_metrics rg)),
        rg_producer := publish topic_risk_events (sg_symbol sig) (risk_decision_to_json
          \<lparr>rd_signal_id = sg_signal_id sig, rd_decision = ''REJECTED'', rd_reason = ''circuit_breaker_tripped'',
           rd_adjusted_quantity = 0, rd_timestamp = ge_now_ms env 0, rd_checks_passed = [],
           rd_checks_failed = [''circuit_breaker'']\<rparr>) (rg_producer rg)\<rparr>"

definition order_of_signal :: "risk_env \<Rightarrow> string option \<Rightarrow> signal \<Rightarrow> risk_decision \<Rightarrow> order" where
  "order_of_signal env backtest_id sig d =
     (let (order_type, limit_price) =
            (if 8 / 10 \<le> sg_urgency sig then (''MARKET'', None) else (''LIMIT'', Some (sg_mid_price_at_signal sig))) in
      \<lparr>or_order_id = ge_uid env 1, or_timestamp = ge_now_ms env 2, or_symbol = sg_symbol sig, or_side = sg_side sig,
       or_order_type = order_type, or_quantity = rd_adjusted_quantity d, or_limit_price = limit_price,
       or_status = ''SUBMITTED'', or_signal_id = sg_signal_id sig, or_strategy_id = sg_strategy_id sig,
       or_backtest_id = backtest_id\<rparr>)"

definition approve_signal :: "risk_env \<Rightarrow> signal \<Rightarrow> portfolio_state \<Rightarrow> risk_decision \<Rightarrow> risk_svc \<Rightarrow> risk_svc" where
  "approve_signal env sig st d rg =
     (let ord = order_of_signal env (rg_backtest_id rg) sig d in
      rg\<lparr>rg_approved := rg_approved rg + 1,
         rg_metrics := metric_set_gauge ''portfolio_drawdown''
             (if 0 < ps_peak_equity st then 1 - ps_current_equity st / ps_peak_equity st else 0) None
           (metric_set_gauge ''portfolio_equity'' (ps_current_equity st) None
           (metric_inc ''orders_approved'' 1 (Some [(''symbol'', sg_symbol sig)]) (rg_metrics rg))),
         rg_producer := gateway_audit ''order_approved'' (ge_now_ms env 3)
             [(''order_id'', JStr (or_order_id ord)), (''signal_id'', JStr (sg_signal_id sig)),
              (''symbol'', JStr (or_symbol ord)), (''side'', JStr (or_side ord)),
              (''quantity'', JNum (or_quantity ord))]
           (publish topic_orders (or_symbol ord) (order_to_json ord) (rg_producer rg))\<rparr>)"

definition reject_signal :: "risk_env \<Rightarrow> signal \<Rightarrow> risk_decision \<Rightarrow> risk_svc \<Rightarrow> risk_svc" where
  "reject_signal env sig d rg =
     rg\<lparr>rg_rejected := rg_rejected rg + 1,
        rg_metrics := metric_inc ''orders_rejected'' 1
          (Some [(''symbol'', sg_symbol sig), (''reason'', rd_reason d)]) (rg_metrics rg),
        rg_producer := gateway_audit ''order_rejected'' (ge_now_ms env 3)
          [(''signal_id'', JStr (sg_signal_id sig)), (''symbol'', JStr (sg_symbol sig)),
           (''side'', JStr (sg_side sig)), (''reason'', JStr (rd_reason d))] (rg_producer rg)\<rparr>"

definition on_signal :: "risk_env \<Rightarrow> signal \<Rightarrow> risk_svc \<Rightarrow> risk_svc" where
  "on_signal env sig rg0 =
     (let (tripped, cb) = is_tripped (ge_monotonic env) (ge_redis env) (rg_breaker rg0);
          rg = rg0\<lparr>rg_breaker := cb\<rparr> in
      if tripped then block_signal env sig rg
      else case get_portfolio_state env (rg_run_id rg) of
          Inl _ \<Rightarrow> rg\<lparr>rg_running := False\<rparr>
        | Inr st \<Rightarrow>
            let d = run_risk_checks (ge_now_ms env 1) sig st (rg_limits rg) None [];
                rg1 = rg\<lparr>rg_producer := publish topic_risk_events (sg_symbol sig) (risk_decision_to_json d) (rg_producer rg),
                   rg_metrics := metric_set_gauge ''circuit_breaker_active'' 0 None (rg_metrics rg)\<rparr> in
            if rd_decision d = ''APPROVED'' then approve_signal env sig st d rg1
            else reject_signal env sig d rg1)"

definition gateway_step :: "risk_svc \<Rightarrow> risk_env \<times> kafka_message option \<Rightarrow> risk_svc" where
  "gateway_step rg = (\<lambda>(env, msg).
     if \<not> rg_running rg then rg
     else case msg of None \<Rightarrow> rg
     | Some m \<Rightarrow>
         if km_error m \<noteq> None then rg
         else (case ebind (loads (km_value m)) (signal_from_json (ge_uid env 0)) of
             Inl _ \<Rightarrow> rg
           | Inr sig \<Rightarrow> on_signal env sig rg))"

definition trip_breaker :: "string \<Rightarrow> string \<Rightarrow> real \<Rightarrow> real \<Rightarrow> int \<Rightarrow> py_error option \<Rightarrow> risk_svc \<Rightarrow> (py_error + json) \<times> risk_svc" where
  "trip_breaker reason triggered_by wall now audit_now set_result rg =
     (case snd (trip reason triggered_by wall now set_result (rg_breaker rg)) of
        Inl e \<Rightarrow> (Inl e, rg)
      | Inr cb \<Rightarrow>
          (Inr (JObj [(''status'', JStr ''tripped''), (''reason'', JStr reason)]),
           rg\<lparr>rg_breaker := cb, rg_producer := gateway_audit ''circuit_breaker_tripped'' audit_now
             [(''reason'', JStr reason), (''triggered_by'', JStr triggered_by)] (rg_producer rg)\<rparr>))"

definition reset_breaker :: "string \<Rightarrow> real \<Rightarrow> int \<Rightarrow> py_error option \<Rightarrow> risk_svc \<Rightarrow> (py_error + json) \<times> risk_svc" where
  "reset_breaker reset_by now audit_now delete_result rg =
     (case snd (reset now delete_result (rg_breaker rg)) of
        Inl e \<Rightarrow> (Inl e, rg)
      | Inr cb \<Rightarrow>
          (Inr (JObj [(''status'', JStr ''reset'')]),
           rg\<lparr>rg_breaker := cb, rg_producer := gateway_audit ''circuit_breaker_reset'' audit_now
             [(''reset_by'', JStr reset_by)] (rg_producer rg)\<rparr>))"

definition health :: "risk_svc \<Rightarrow> json" where
  "health rg = JObj [(''status'', JStr ''ok''), (''approved'', JInt (int (rg_approved rg))),
     (''rejected'', JInt (int (rg_rejected rg))), (''breaker_blocked'', JInt (int (rg_blocked rg)))]"

definition gateway_heartbeat :: "real \<Rightarrow> redis_reply \<Rightarrow> int \<Rightarrow> risk_svc \<Rightarrow> risk_svc" where
  "gateway_heartbeat monotonic reply now rg =
     (let (tripped, cb) = is_tripped monotonic reply (rg_breaker rg) in
      rg\<lparr>rg_breaker := cb, rg_producer := publish topic_heartbeat gateway_name
        (JObj [(''service'', JStr gateway_name), (''timestamp'', JInt now),
           (''approved'', JInt (int (rg_approved rg))), (''rejected'', JInt (int (rg_rejected rg))),
           (''breaker_blocked'', JInt (int (rg_blocked rg))), (''breaker_tripped'', JBool tripped)]) (rg_producer rg)\<rparr>)"

datatype gateway_event =
    Signal_iteration risk_env "kafka_message option"
  | Trip_request string string real int "py_error option"
  | Reset_request string real int "py_error option"
  | Gateway_beat real redis_reply int

fun gateway_run_step :: "risk_svc \<Rightarrow> gateway_event \<Rightarrow> risk_svc" where
  "gateway_run_step rg (Signal_iteration env msg) = gateway_step rg (env, msg)"
| "gateway_run_step rg (Trip_request reason who now an r) = snd (trip_breaker reason who now now an r rg)"
| "gateway_run_step rg (Reset_request who now an r) = snd (reset_breaker who now an r rg)"
| "gateway_run_step rg (Gateway_beat t reply now) = gateway_heartbeat t reply now rg"

section \<open>What the handlers publish\<close>

abbreviation orders_sent :: "risk_svc \<Rightarrow> stored list" where "orders_sent rg \<equiv> sent_on topic_orders (rg_producer rg)"
abbreviation decisions_sent :: "risk_svc \<Rightarrow> stored list" where "decisions_sent rg \<equiv> sent_on topic_risk_events (rg_producer rg)"

lemma on_signal_cases:
  obtains (blocked) cb where "is_tripped (ge_monotonic env) (ge_redis env) (rg_breaker rg) = (True, cb)"
      "on_signal env sig rg = block_signal env sig (rg\<lparr>rg_breaker := cb\<rparr>)"
  | (dead) cb e where "is_tripped (ge_monotonic env) (ge_redis env) (rg_breaker rg) = (False, cb)"
      "get_portfolio_state env (rg_run_id rg) = Inl e"
      "on_signal env sig rg = rg\<lparr>rg_breaker := cb, rg_running := False\<rparr>"
  | (decided) cb st d rg1 where "is_tripped (ge_monotonic env) (ge_redis env) (rg_breaker rg) = (False, cb)"
      "get_portfolio_state env (rg_run_id rg) = Inr st"
      "d = run_risk_checks (ge_now_ms env 1) sig st (rg_limits rg) None []"
      "rg1 = rg\<lparr>rg_breaker := cb, rg_producer := publish topic_risk_events (sg_symbol sig) (risk_decision_to_json d) (rg_producer rg),
         rg_metrics := metric_set_gauge ''circuit_breaker_active'' 0 None (rg_metrics rg)\<rparr>"
      "on_signal env sig rg = (if rd_decision d = ''APPROVED'' then approve_signal env sig st d rg1
         else reject_signal env sig d rg1)"
proof -
  obtain t cb where t: "is_tripped (ge_monotonic env) (ge_redis env) (rg_breaker rg) = (t, cb)" by fastforce
  consider (trip) "t = True" | (err) e where "t = False" "get_portfolio_state env (rg_run_id rg) = Inl e"
    | (ok) st where "t = False" "get_portfolio_state env (rg_run_id rg) = Inr st"
    by (cases t; cases "get_portfolio_state env (rg_run_id rg)") auto
  then show ?thesis
  proof cases
    case trip
    with t show ?thesis by (intro blocked [of cb]) (simp_all add: on_signal_def Let_def)
  next
    case err
    with t show ?thesis by (intro dead [of cb e]) (simp_all add: on_signal_def Let_def)
  next
    case ok
    with t have f: "is_tripped (ge_monotonic env) (ge_redis env) (rg_breaker rg) = (False, cb)" by simp
    show ?thesis by (rule decided [OF f ok(2) refl refl]) (simp add: on_signal_def Let_def f ok)
  qed
qed

lemma handler_fields [simp]:
  "orders_sent (block_signal env sig rg) = orders_sent rg"
  "length (decisions_sent (block_signal env sig rg)) = Suc (length (decisions_sent rg))"
  "orders_sent (approve_signal env sig st d rg) =
     orders_sent rg @ [Document (order_to_json (order_of_signal env (rg_backtest_id rg) sig d))]"
  "decisions_sent (approve_signal env sig st d rg) = decisions_sent rg"
  "orders_sent (reject_signal env sig d rg) = orders_sent rg"
  "decisions_sent (reject_signal env sig d rg) = decisions_sent rg"
  "rg_breaker (block_signal env sig rg) = rg_breaker rg"
  "rg_approved (block_signal env sig rg) = rg_approved rg"
  "rg_rejected (block_signal env sig rg) = rg_rejected rg"
  "rg_blocked (block_signal env sig rg) = Suc (rg_blocked rg)"
  "rg_approved (approve_signal env sig st d rg) = Suc (rg_approved rg)"
  "rg_rejected (approve_signal env sig st d rg) = rg_rejected rg"
  "rg_blocked (approve_signal env sig st d rg) = rg_blocked rg"
  "rg_approved (reject_signal env sig d rg) = rg_approved rg"
  "rg_rejected (reject_signal env sig d rg) = Suc (rg_rejected rg)"
  "rg_blocked (reject_signal env sig d rg) = rg_blocked rg"
  by (simp_all add: block_signal_def approve_signal_def reject_signal_def gateway_audit_def Let_def)

lemma http_fields [simp]:
  "t \<noteq> topic_audit \<Longrightarrow> sent_on t (rg_producer (snd (trip_breaker r b w n a x rg))) = sent_on t (rg_producer rg)"
  "t \<noteq> topic_audit \<Longrightarrow> sent_on t (rg_producer (snd (reset_breaker b n a x rg))) = sent_on t (rg_producer rg)"
  "t \<noteq> topic_heartbeat \<Longrightarrow> sent_on t (rg_producer (gateway_heartbeat m rep k rg)) = sent_on t (rg_producer rg)"
  by (simp_all add: trip_breaker_def reset_breaker_def gateway_heartbeat_def gateway_audit_def
      split: sum.split prod.split)

lemma http_counters [simp]:
  "rg_approved (snd (trip_breaker r b w n a x rg)) = rg_approved rg"
  "rg_rejected (snd (trip_breaker r b w n a x rg)) = rg_rejected rg"
  "rg_blocked (snd (trip_breaker r b w n a x rg)) = rg_blocked rg"
  "rg_approved (snd (reset_breaker b n a x rg)) = rg_approved rg"
  "rg_rejected (snd (reset_breaker b n a x rg)) = rg_rejected rg"
  "rg_blocked (snd (reset_breaker b n a x rg)) = rg_blocked rg"
  "rg_approved (gateway_heartbeat m rep k rg) = rg_approved rg"
  "rg_rejected (gateway_heartbeat m rep k rg) = rg_rejected rg"
  "rg_blocked (gateway_heartbeat m rep k rg) = rg_blocked rg"
  by (simp_all add: trip_breaker_def reset_breaker_def gateway_heartbeat_def split: sum.split prod.split)

lemma http_breaker [simp]:
  "rg_breaker (snd (trip_breaker r b n n a x rg)) = breaker_step (rg_breaker rg) (Trip n x)"
  "rg_breaker (snd (reset_breaker b n a x rg)) = breaker_step (rg_breaker rg) (Reset n x)"
  "rg_breaker (gateway_heartbeat m rep k rg) = breaker_step (rg_breaker rg) (Check m rep)"
  by (simp_all add: trip_breaker_def reset_breaker_def gateway_heartbeat_def trip_def reset_def Let_def
      split: sum.split prod.split option.split)

lemma gateway_step_cases:
  "gateway_step rg (env, msg) = rg \<or> (\<exists>sig. gateway_step rg (env, msg) = on_signal env sig rg)"
  by (auto simp: gateway_step_def split: option.splits sum.splits)

section \<open>Accounting\<close>

definition gateway_inv :: "risk_svc \<Rightarrow> bool" where
  "gateway_inv rg \<longleftrightarrow> rg_approved rg = length (orders_sent rg) \<and>
     rg_approved rg + rg_rejected rg + rg_blocked rg = length (decisions_sent rg)"

lemma gateway_inv_signal: "gateway_inv rg \<Longrightarrow> gateway_inv (on_signal env sig rg)"
  by (cases rule: on_signal_cases [of env rg sig]) (simp_all add: gateway_inv_def)

lemma gateway_inv_step: "gateway_inv rg \<Longrightarrow> gateway_inv (gateway_run_step rg e)"
proof (cases e)
  case (Signal_iteration env msg)
  assume "gateway_inv rg"
  with Signal_iteration gateway_step_cases [of rg env msg] show ?thesis
    by (auto simp: gateway_inv_signal)
qed (simp_all add: gateway_inv_def)

interpretation gateway: machine gateway_run_step "\<lambda>_. True" gateway_inv
  by unfold_locales (rule gateway_inv_step)

lemma gateway_init_fields [simp]:
  "cb_last_check (rg_breaker (gateway_init b lms)) = 0" "orders_sent (gateway_init b lms) = []"
  "decisions_sent (gateway_init b lms) = []" "rg_running (gateway_init b lms)"
  "rg_limits (gateway_init b lms) = lms" "rg_run_id (gateway_init None lms) = ''live''"
  by (simp_all add: gateway_init_def breaker_init_def Let_def)

lemma gateway_inv_init [simp]: "gateway_inv (gateway_init b lms)"
  by (simp add: gateway_inv_def gateway_init_def Let_def)

text \<open>
  Every decision is accounted for and every order comes from one: whatever signals, kill switch
  requests and Redis answers the gateway sees, the number of published orders is the number of
  approvals, and the approvals, rejections and blocked signals together are the published decisions.
\<close>

theorem gateway_accounting:
  "let rg = foldl gateway_run_step (gateway_init backtest_id limits) evs in
   length (orders_sent rg) = rg_approved rg \<and>
   length (decisions_sent rg) = rg_approved rg + rg_rejected rg + rg_blocked rg"
  using gateway.inv_run [OF gateway_inv_init, of evs backtest_id limits]
  by (simp add: Let_def gateway_inv_def list_all_iff)

section \<open>The kill switch stops orders\<close>

fun halted_gateway_event :: "real \<Rightarrow> gateway_event \<Rightarrow> bool" where
  "halted_gateway_event T (Signal_iteration env msg) = (T + check_interval_s \<le> ge_monotonic env \<and> ge_redis env \<noteq> Inr None)"
| "halted_gateway_event T (Trip_request reason who now an r) = True"
| "halted_gateway_event T (Reset_request who now an r) = (now < T)"
| "halted_gateway_event T (Gateway_beat t reply now) = (T \<le> t \<longrightarrow> reply \<noteq> Inr None)"

definition quiet_gateway :: "real \<Rightarrow> stored list \<Rightarrow> risk_svc \<Rightarrow> bool" where
  "quiet_gateway T os rg \<longleftrightarrow> halt_inv T (rg_breaker rg) \<and> orders_sent rg = os"

lemma quiet_gateway_step: "quiet_gateway T os rg \<Longrightarrow> halted_gateway_event T e \<Longrightarrow> quiet_gateway T os (gateway_run_step rg e)"
proof (cases e)
  case (Signal_iteration env msg)
  assume q: "quiet_gateway T os rg" and h: "halted_gateway_event T e"
  have tripped: "fst (is_tripped (ge_monotonic env) (ge_redis env) (rg_breaker rg))"
    using q h Signal_iteration by (intro is_tripped_halted [of T]) (auto simp: quiet_gateway_def)
  have inv: "halt_inv T (snd (is_tripped (ge_monotonic env) (ge_redis env) (rg_breaker rg)))"
    using halt_inv_step [of T "rg_breaker rg" "Check (ge_monotonic env) (ge_redis env)"] q h Signal_iteration
    by (simp add: quiet_gateway_def)
  have "quiet_gateway T os (on_signal env sig rg)" for sig
    by (cases rule: on_signal_cases [of env rg sig]) (use q tripped inv in \<open>auto simp: quiet_gateway_def\<close>)
  with q Signal_iteration gateway_step_cases [of rg env msg] show ?thesis by auto
qed (auto simp: quiet_gateway_def simp del: breaker_step.simps intro!: halt_inv_step)

interpretation halted_gateway: machine gateway_run_step "halted_gateway_event T" "quiet_gateway T os" for T os
  by unfold_locales (rule quiet_gateway_step)

text \<open>
  C11. The kill switch stops the gateway: from half a second after the halt is in force (Redis holds the
  key or cannot be reached, and nobody resets the switch), whatever signals arrive and however
  the API is used to trip it again, no order leaves the gateway.
\<close>

theorem halted_gateway_sends_no_order:
  assumes "cb_last_check (rg_breaker rg) \<le> T" and "list_all (halted_gateway_event T) evs"
  shows "orders_sent (foldl gateway_run_step rg evs) = orders_sent rg"
proof -
  have "quiet_gateway T (orders_sent rg) rg"
    using assms(1) by (simp add: quiet_gateway_def halt_inv_def)
  from halted_gateway.inv_run [OF this assms(2)] show ?thesis by (simp add: quiet_gateway_def)
qed

definition sample_risk_env :: "real \<Rightarrow> redis_reply \<Rightarrow> risk_env" where
  "sample_risk_env t reply = \<lparr>ge_monotonic = t, ge_redis = reply,
     ge_hgetall = (\<lambda>k. Inr (dget sample_store k [])),
     ge_scan = (\<lambda>p. [filter (\<lambda>k. prefix p k) (map fst sample_store)]),
     ge_now_ms = int, ge_uid = (\<lambda>n. replicate n CHR ''u'')\<rparr>"

definition signal_message :: "signal \<Rightarrow> kafka_message" where
  "signal_message sig = \<lparr>km_error = None, km_topic = topic_signals, km_key = None,
     km_value = Document (signal_to_json sig), km_headers = None\<rparr>"

lemma halted_gateway_sends_no_order_witness:
  "orders_sent (foldl gateway_run_step (gateway_init None default_limits)
     [Trip_request ''manual'' ''api'' 10 0 None,
      Signal_iteration (sample_risk_env 11 (Inl (ExternalError ''down''))) (Some (signal_message (sample_signal ''BUY'' 1)))]) = []"
proof -
  have "list_all (halted_gateway_event 10) [Trip_request ''manual'' ''api'' 10 0 None,
      Signal_iteration (sample_risk_env 11 (Inl (ExternalError ''down''))) (Some (signal_message (sample_signal ''BUY'' 1)))]"
    by (simp add: sample_risk_env_def check_interval_s_def)
  from halted_gateway_sends_no_order [OF _ this] show ?thesis by simp
qed

section \<open>From the portfolio to the order\<close>



text \<open>
  The gateway's exposure check does not see the portfolio: without prices the existing positions
  count for nothing and no VaR estimate is passed, so the decision depends on the positions only
  through the one in the signal's own symbol.
\<close>

theorem gateway_ignores_other_positions:
  assumes "dget (ps_positions st) (sg_symbol sig) 0 = dget pos (sg_symbol sig) 0"
  shows "run_risk_checks now sig (st\<lparr>ps_positions := pos\<rparr>) lms None [] = run_risk_checks now sig st lms None [] \<and>
    total_exposure st [] = 0"
proof
  have "foldl (\<lambda>acc (x, qty). acc + \<bar>qty * dget [] x 0\<bar>) (0 :: real) ps = 0" for ps :: "(string \<times> real) list"
    by (induction ps rule: rev_induct) (simp_all add: case_prod_unfold)
  then have zero: "total_exposure st' [] = 0" for st' :: portfolio_state
    by (simp add: total_exposure_def)
  then show "total_exposure st [] = 0" .
  have "check_results sig (st\<lparr>ps_positions := pos\<rparr>) lms None [] = check_results sig st lms None []"
    unfolding check_results_def check_position_notional_def check_total_exposure_def zero
    by (simp add: assms check_drawdown_def)
  moreover have "drawdown_scale_factor (st\<lparr>ps_positions := pos\<rparr>) = drawdown_scale_factor st"
    by (simp add: drawdown_scale_factor_def)
  ultimately show "run_risk_checks now sig (st\<lparr>ps_positions := pos\<rparr>) lms None [] = run_risk_checks now sig st lms None []"
    by (simp only: run_risk_checks_def)
qed

lemma gateway_ignores_other_positions_witness:
  "run_risk_checks 0 (sample_signal ''BUY'' 1) ((sample_state 100000 [])\<lparr>ps_positions := [(''ETHUSD'', 1000000)]\<rparr>) default_limits None [] =
   run_risk_checks 0 (sample_signal ''BUY'' 1) (sample_state 100000 []) default_limits None []"
  using gateway_ignores_other_positions [of "sample_state 100000 []" "sample_signal ''BUY'' 1" "[(''ETHUSD'', 1000000)]"]
  by (simp add: sample_signal_def sample_state_def dget_def)

end
