(* ===== verification/Pnl.thy ===== *)
theory Pnl
  imports Py_Base
begin

text \<open>
  \<open>services/post-trade/post_trade_svc/pnl.py\<close>: positions with average cost accounting, and the
  portfolio of positions. A position is mutated in place by the code; here the operation returns
  it updated.
\<close>

record position =
  pn_symbol :: string
  pn_quantity :: real
  pn_avg_entry_price :: real
  pn_realized_pnl :: real
  pn_total_fees :: real

definition new_position :: "string \<Rightarrow> position" where
  "new_position symbol = \<lparr>pn_symbol = symbol, pn_quantity = 0, pn_avg_entry_price = 0, pn_realized_pnl = 0,
     pn_total_fees = 0\<rparr>"

definition signed_qty :: "string \<Rightarrow> real \<Rightarrow> real" where
  "signed_qty side quantity = (if side = ''BUY'' then quantity else - quantity)"

definition apply_fill :: "real \<Rightarrow> real \<Rightarrow> real \<Rightarrow> string \<Rightarrow> position \<Rightarrow> real \<times> position" where
  "apply_fill quantity price fee side pos0 =
     (let s = signed_qty side quantity;
          pos = pos0\<lparr>pn_total_fees := pn_total_fees pos0 + fee\<rparr>;
          q = pn_quantity pos in
      if q = 0 \<or> (0 < q \<and> 0 < s) \<or> (q < 0 \<and> s < 0)
      then let total_cost = pn_avg_entry_price pos * \<bar>q\<bar> + price * \<bar>s\<bar>;
               pos1 = pos\<lparr>pn_quantity := q + s\<rparr> in
        (0, if pn_quantity pos1 \<noteq> 0 then pos1\<lparr>pn_avg_entry_price := total_cost / \<bar>pn_quantity pos1\<bar>\<rparr> else pos1)
      else let close_qty = min \<bar>s\<bar> \<bar>q\<bar>;
               realized = (if 0 < q then close_qty * (price - pn_avg_entry_price pos)
                           else close_qty * (pn_avg_entry_price pos - price));
               pos1 = pos\<lparr>pn_realized_pnl := pn_realized_pnl pos + realized, pn_quantity := q + s\<rparr>;
               q' = pn_quantity pos1 in
        (realized, if (0 < q' \<and> 0 < s) \<or> (q' < 0 \<and> s < 0) then pos1\<lparr>pn_avg_entry_price := price\<rparr> else pos1))"

definition unrealized_pnl :: "real \<Rightarrow> position \<Rightarrow> real" where
  "unrealized_pnl current_price pos =
     (if pn_quantity pos = 0 then 0
      else if 0 < pn_quantity pos then pn_quantity pos * (current_price - pn_avg_entry_price pos)
      else \<bar>pn_quantity pos\<bar> * (pn_avg_entry_price pos - current_price))"

section \<open>Portfolio\<close>

type_synonym portfolio = "(string, position) dict"

definition get_or_create :: "string \<Rightarrow> portfolio \<Rightarrow> position \<times> portfolio" where
  "get_or_create symbol pf =
     (case map_of pf symbol of
        Some pos \<Rightarrow> (pos, pf)
      | None \<Rightarrow> (new_position symbol, AList.update symbol (new_position symbol) pf))"

definition total_realized_pnl :: "portfolio \<Rightarrow> real" where
  "total_realized_pnl pf = sum_list (map (\<lambda>(_, p). pn_realized_pnl p) pf)"

definition total_fees :: "portfolio \<Rightarrow> real" where
  "total_fees pf = sum_list (map (\<lambda>(_, p). pn_total_fees p) pf)"

definition total_unrealized_pnl :: "(string, real) dict \<Rightarrow> portfolio \<Rightarrow> real" where
  "total_unrealized_pnl prices pf =
     sum_list (map (\<lambda>(_, p). unrealized_pnl (dget prices (pn_symbol p) (pn_avg_entry_price p)) p) pf)"

section \<open>Accounting of a position\<close>

lemma unrealized_linear: "unrealized_pnl p pos = pn_quantity pos * (p - pn_avg_entry_price pos)"
  by (simp add: unrealized_pnl_def algebra_simps)

lemma apply_fill_quantity: "pn_quantity (snd (apply_fill q p fee side pos)) = pn_quantity pos + signed_qty side q"
  by (simp add: apply_fill_def Let_def)

lemma apply_fill_fees: "pn_total_fees (snd (apply_fill q p fee side pos)) = pn_total_fees pos + fee"
  by (simp add: apply_fill_def Let_def)

lemma apply_fill_symbol: "pn_symbol (snd (apply_fill q p fee side pos)) = pn_symbol pos"
  by (simp add: apply_fill_def Let_def)

lemma apply_fill_realized:
  "pn_realized_pnl (snd (apply_fill q p fee side pos)) = pn_realized_pnl pos + fst (apply_fill q p fee side pos)"
  by (simp add: apply_fill_def Let_def)

text \<open>The cash a position has cost so far, net of what it has earned: kept by the cost basis.\<close>

definition book_value :: "position \<Rightarrow> real" where
  "book_value pos = pn_quantity pos * pn_avg_entry_price pos - pn_realized_pnl pos"

lemma book_value_fill:
  "book_value (snd (apply_fill q p fee side pos)) = book_value pos + signed_qty side q * p"
proof -
  define s where "s = signed_qty side q"
  define Q where "Q = pn_quantity pos"
  consider (more) "Q = 0 \<or> (0 < Q \<and> 0 < s) \<or> (Q < 0 \<and> s < 0)"
    | (reduce) "\<not> (Q = 0 \<or> (0 < Q \<and> 0 < s) \<or> (Q < 0 \<and> s < 0))" "\<bar>s\<bar> \<le> \<bar>Q\<bar>"
    | (cross) "\<not> (Q = 0 \<or> (0 < Q \<and> 0 < s) \<or> (Q < 0 \<and> s < 0))" "\<bar>Q\<bar> < \<bar>s\<bar>"
    by linarith
  then show ?thesis
  proof cases
    case more
    then show ?thesis
      by (auto simp: apply_fill_def Let_def book_value_def simp flip: s_def Q_def)
         (auto simp: field_simps abs_if split: if_splits)
  next
    case reduce
    then show ?thesis
      by (auto simp: apply_fill_def Let_def book_value_def simp flip: s_def Q_def)
         (auto simp: field_simps abs_if min_def split: if_splits)
  next
    case cross
    then show ?thesis
      by (auto simp: apply_fill_def Let_def book_value_def simp flip: s_def Q_def)
         (auto simp: field_simps abs_if min_def split: if_splits)
  qed
qed

section \<open>A sequence of fills\<close>

record trade_fill =
  tf_quantity :: real
  tf_price :: real
  tf_fee :: real
  tf_side :: string

definition apply_one :: "position \<Rightarrow> trade_fill \<Rightarrow> position" where
  "apply_one pos f = snd (apply_fill (tf_quantity f) (tf_price f) (tf_fee f) (tf_side f) pos)"

definition net_quantity :: "trade_fill list \<Rightarrow> real" where
  "net_quantity fs = sum_list (map (\<lambda>f. signed_qty (tf_side f) (tf_quantity f)) fs)"

definition net_cost :: "trade_fill list \<Rightarrow> real" where
  \<comment> \<open>what the fills cost: purchases minus sales\<close>
  "net_cost fs = sum_list (map (\<lambda>f. signed_qty (tf_side f) (tf_quantity f) * tf_price f) fs)"

lemma apply_all_quantity: "pn_quantity (foldl apply_one pos fs) = pn_quantity pos + net_quantity fs"
  by (induction fs arbitrary: pos) (simp_all add: apply_one_def apply_fill_quantity net_quantity_def)

lemma apply_all_fees: "pn_total_fees (foldl apply_one pos fs) = pn_total_fees pos + sum_list (map tf_fee fs)"
  by (induction fs arbitrary: pos) (simp_all add: apply_one_def apply_fill_fees)

lemma apply_all_book: "book_value (foldl apply_one pos fs) = book_value pos + net_cost fs"
  by (induction fs arbitrary: pos) (simp_all add: apply_one_def book_value_fill net_cost_def)

lemma pnl_of_book: "pn_realized_pnl pos + unrealized_pnl p pos = pn_quantity pos * p - book_value pos"
  by (simp add: unrealized_linear book_value_def algebra_simps)

text \<open>
  C9. Profit is never created or lost: after any sequence of fills, purchases and sales in any order,
  partial closes and flips included, the position is the net quantity bought, and realised plus
  unrealised profit at any price is the position's value at that price minus what the fills cost;
  a flat position has realised exactly its sales minus its purchases.
\<close>

theorem pnl_conservation:
  "let pos = foldl apply_one (new_position symbol) fs in
   pn_quantity pos = net_quantity fs \<and>
   (\<forall>p. pn_realized_pnl pos + unrealized_pnl p pos = net_quantity fs * p - net_cost fs) \<and>
   (net_quantity fs = 0 \<longrightarrow> pn_realized_pnl pos = - net_cost fs) \<and>
   pn_total_fees pos = sum_list (map tf_fee fs)"
proof -
  define pos where "pos = foldl apply_one (new_position symbol) fs"
  have q: "pn_quantity pos = net_quantity fs"
    by (simp add: pos_def apply_all_quantity new_position_def)
  have pnl: "pn_realized_pnl pos + unrealized_pnl p pos = net_quantity fs * p - net_cost fs" for p
    unfolding pnl_of_book q by (simp add: pos_def apply_all_book) (simp add: book_value_def new_position_def)
  from pnl [of 0] q have "net_quantity fs = 0 \<longrightarrow> pn_realized_pnl pos = - net_cost fs"
    by (auto simp: unrealized_linear)
  with q pnl show ?thesis
    unfolding Let_def pos_def [symmetric] by (simp add: pos_def apply_all_fees) (simp add: new_position_def)
qed

lemma pnl_conservation_witness:
  "pn_realized_pnl (foldl apply_one (new_position ''BTCUSD'')
     [\<lparr>tf_quantity = 2, tf_price = 100, tf_fee = 1, tf_side = ''BUY''\<rparr>,
      \<lparr>tf_quantity = 2, tf_price = 110, tf_fee = 1, tf_side = ''SELL''\<rparr>]) = 20"
  using pnl_conservation [of "''BTCUSD''" "[\<lparr>tf_quantity = 2, tf_price = 100, tf_fee = 1, tf_side = ''BUY''\<rparr>,
      \<lparr>tf_quantity = 2, tf_price = 110, tf_fee = 1, tf_side = ''SELL''\<rparr>]"]
  by (simp add: Let_def net_quantity_def net_cost_def signed_qty_def)

section \<open>The entry price\<close>

definition entry_between :: "real \<Rightarrow> real \<Rightarrow> position \<Rightarrow> bool" where
  "entry_between lo hi pos \<longleftrightarrow> (pn_quantity pos \<noteq> 0 \<longrightarrow> lo \<le> pn_avg_entry_price pos \<and> pn_avg_entry_price pos \<le> hi)"

lemma weighted_between:
  fixes a b w v :: real
  assumes "0 \<le> w" "0 < v" "w \<noteq> 0 \<longrightarrow> lo \<le> a \<and> a \<le> hi" "lo \<le> b" "b \<le> hi"
  shows "lo \<le> (a * w + b * v) / (w + v) \<and> (a * w + b * v) / (w + v) \<le> hi"
proof -
  have "lo * w \<le> a * w \<and> a * w \<le> hi * w" using assms(1,3) by (cases "w = 0") (auto intro: mult_right_mono)
  moreover have "lo * v \<le> b * v \<and> b * v \<le> hi * v" using assms by (auto intro: mult_right_mono)
  ultimately have "lo * (w + v) \<le> a * w + b * v \<and> a * w + b * v \<le> hi * (w + v)" by (auto simp: distrib_left)
  with assms(1,2) show ?thesis by (simp add: pos_le_divide_eq pos_divide_le_eq)
qed

lemma entry_between_fill:
  assumes "entry_between lo hi pos" and "lo \<le> p" and "p \<le> hi"
  shows "entry_between lo hi (snd (apply_fill q p fee side pos))"
proof -
  define s where "s = signed_qty side q"
  define Q where "Q = pn_quantity pos"
  show ?thesis
  proof (cases "Q = 0 \<or> (0 < Q \<and> 0 < s) \<or> (Q < 0 \<and> s < 0)")
    case True
    have new: "snd (apply_fill q p fee side pos) =
        (if Q + s \<noteq> 0 then pos\<lparr>pn_total_fees := pn_total_fees pos + fee, pn_quantity := Q + s,
            pn_avg_entry_price := (pn_avg_entry_price pos * \<bar>Q\<bar> + p * \<bar>s\<bar>) / \<bar>Q + s\<bar>\<rparr>
         else pos\<lparr>pn_total_fees := pn_total_fees pos + fee, pn_quantity := Q + s\<rparr>)"
      using True by (simp add: apply_fill_def Let_def flip: s_def Q_def)
    have "\<bar>Q + s\<bar> = \<bar>Q\<bar> + \<bar>s\<bar>" using True by auto
    moreover have "Q + s \<noteq> 0 \<longrightarrow> 0 < \<bar>s\<bar>" using True by auto
    ultimately show ?thesis
      using weighted_between [of "\<bar>Q\<bar>" "\<bar>s\<bar>" lo "pn_avg_entry_price pos" hi p] assms
      by (auto simp: new entry_between_def simp flip: Q_def)
  next
    case False
    with assms show ?thesis
      by (auto simp: apply_fill_def Let_def entry_between_def simp flip: s_def Q_def)
  qed
qed

text \<open>
  The average entry price is a price of the position: if every fill price so far lies between two
  bounds, the entry price of a position that is not flat lies between them too.
\<close>

theorem entry_price_between_fills:
  assumes "\<forall>f \<in> set fs. lo \<le> tf_price f \<and> tf_price f \<le> hi"
    and "pn_quantity (foldl apply_one (new_position symbol) fs) \<noteq> 0"
  shows "lo \<le> pn_avg_entry_price (foldl apply_one (new_position symbol) fs) \<and>
    pn_avg_entry_price (foldl apply_one (new_position symbol) fs) \<le> hi"
proof -
  have "entry_between lo hi pos \<Longrightarrow> entry_between lo hi (foldl apply_one pos fs)" for pos
    using assms(1) by (induction fs arbitrary: pos) (simp_all add: apply_one_def entry_between_fill)
  from this [of "new_position symbol"] assms(2) show ?thesis by (simp add: entry_between_def new_position_def)
qed

lemma entry_price_between_fills_witness:
  "100 \<le> pn_avg_entry_price (foldl apply_one (new_position ''BTCUSD'')
     [\<lparr>tf_quantity = 1, tf_price = 100, tf_fee = 1, tf_side = ''BUY''\<rparr>,
      \<lparr>tf_quantity = 3, tf_price = 110, tf_fee = 1, tf_side = ''SELL''\<rparr>])"
proof -
  let ?fs = "[\<lparr>tf_quantity = 1, tf_price = 100, tf_fee = 1, tf_side = ''BUY''\<rparr>,
      \<lparr>tf_quantity = 3, tf_price = 110, tf_fee = 1, tf_side = ''SELL''\<rparr>]"
  have "pn_quantity (foldl apply_one (new_position ''BTCUSD'') ?fs) \<noteq> 0"
    by (simp add: apply_all_quantity net_quantity_def signed_qty_def new_position_def del: foldl.simps)
  with entry_price_between_fills [of ?fs 100 110 "''BTCUSD''"] show ?thesis by simp
qed

end
