(* ===== verification/Perf_Metrics.thy ===== *)
theory Perf_Metrics
  imports Py_Base
begin

text \<open>
  \<open>services/post-trade/post_trade_svc/metrics.py\<close>: risk-adjusted performance figures. \<open>float('inf')\<close>,
  which the Sortino ratio returns without a losing period, is a constructor of its own.
\<close>

datatype py_float = Fin real | Inf

definition annual_factor :: real where "annual_factor = 365"

definition std :: "real list \<Rightarrow> real" where
  "std values = (if length values < 2 then 0 else sqrt (sq_dev values / real (length values)))"

definition compute_sharpe :: "real list \<Rightarrow> real \<Rightarrow> real" where
  "compute_sharpe returns risk_free_daily =
     (if length returns < 2 then 0
      else let m = mean returns - risk_free_daily; sd = std returns in
        if sd = 0 then 0 else m / sd * sqrt annual_factor)"

definition compute_sortino :: "real list \<Rightarrow> real \<Rightarrow> py_float" where
  "compute_sortino returns risk_free_daily =
     (if length returns < 2 then Fin 0
      else let m = mean returns - risk_free_daily; downside = filter (\<lambda>r. r < 0) returns in
        if downside = [] then (if 0 < m then Inf else Fin 0)
        else let downside_std = std downside in
          if downside_std = 0 then Fin 0 else Fin (m / downside_std * sqrt annual_factor))"

fun dd_loop :: "real \<Rightarrow> real \<Rightarrow> nat \<Rightarrow> nat \<Rightarrow> real list \<Rightarrow> py_error + (real \<times> nat)" where
  "dd_loop peak max_dd max_duration current_duration [] = Inr (max_dd, max_duration)"
| "dd_loop peak max_dd max_duration current_duration (v # vs) =
     (if peak \<le> v then dd_loop v max_dd max_duration 0 vs
      else ebind (py_div (peak - v) peak) (\<lambda>dd.
        let current' = current_duration + 1 in
        dd_loop peak (max max_dd dd) (max max_duration current') current' vs))"

definition compute_max_drawdown :: "real list \<Rightarrow> py_error + (real \<times> nat)" where
  "compute_max_drawdown equity_curve =
     (if equity_curve = [] then Inr (0, 0) else dd_loop (hd equity_curve) 0 0 0 equity_curve)"

definition compute_calmar :: "real \<Rightarrow> real \<Rightarrow> real" where
  "compute_calmar annualized_return max_drawdown =
     (if max_drawdown = 0 then 0 else annualized_return / max_drawdown)"

section \<open>Maximum drawdown\<close>

text \<open>The loss from an earlier to a later point of the curve, as a fraction of the earlier one.\<close>

definition loss_from :: "real list \<Rightarrow> nat \<Rightarrow> nat \<Rightarrow> real" where
  "loss_from c i j = (c ! i - c ! j) / c ! i"

lemma dd_loop_spec:
  assumes "0 < peak" "\<forall>v \<in> set vs. 0 < v" "\<forall>v \<in> set pre. 0 < v \<and> v \<le> peak" "peak \<in> set pre"
    and "\<forall>i j. i \<le> j \<and> j < length pre \<longrightarrow> loss_from pre i j \<le> m"
    and "0 \<le> m" "m < 1" "m \<noteq> 0 \<longrightarrow> (\<exists>i j. i \<le> j \<and> j < length pre \<and> m = loss_from pre i j)"
  shows "\<exists>dd dur. dd_loop peak m d k vs = Inr (dd, dur) \<and> 0 \<le> dd \<and> dd < 1 \<and>
    (\<forall>i j. i \<le> j \<and> j < length (pre @ vs) \<longrightarrow> loss_from (pre @ vs) i j \<le> dd) \<and>
    (dd \<noteq> 0 \<longrightarrow> (\<exists>i j. i \<le> j \<and> j < length (pre @ vs) \<and> dd = loss_from (pre @ vs) i j))"
  using assms
proof (induction vs arbitrary: peak m d k pre)
  case (Cons v vs)
  define p' where "p' = max peak v"
  define m' where "m' = max m ((p' - v) / p')"
  have v: "0 < v" and vs: "\<forall>v \<in> set vs. 0 < v" using Cons.prems by auto
  have p': "0 < p'" using Cons.prems(1) by (simp add: p'_def)
  have nth: "loss_from (pre @ [v]) i j = (if j < length pre then loss_from pre i j
      else ((pre @ [v]) ! i - v) / (pre @ [v]) ! i)" if "i \<le> j" "j < length (pre @ [v])" for i j
    using that by (auto simp: loss_from_def nth_append)
  have last_loss: "((pre @ [v]) ! i - v) / (pre @ [v]) ! i \<le> (p' - v) / p'" if "i < length (pre @ [v])" for i
  proof -
    let ?x = "(pre @ [v]) ! i"
    have "?x \<in> set (pre @ [v])" using that by (rule nth_mem)
    then have "0 < ?x" "?x \<le> p'" using Cons.prems(3) v by (auto simp: p'_def)
    then show ?thesis using v p' by (simp add: diff_divide_distrib frac_le)
  qed
  have bound: "\<forall>i j. i \<le> j \<and> j < length (pre @ [v]) \<longrightarrow> loss_from (pre @ [v]) i j \<le> m'"
    using Cons.prems(5) last_loss unfolding m'_def by (auto simp: nth intro: max.coboundedI1 max.coboundedI2)
  have attained: "m' \<noteq> 0 \<longrightarrow> (\<exists>i j. i \<le> j \<and> j < length (pre @ [v]) \<and> m' = loss_from (pre @ [v]) i j)"
  proof
    assume "m' \<noteq> 0"
    show "\<exists>i j. i \<le> j \<and> j < length (pre @ [v]) \<and> m' = loss_from (pre @ [v]) i j"
    proof (cases "m' = m")
      case True
      with \<open>m' \<noteq> 0\<close> Cons.prems(8) obtain i j where "i \<le> j" "j < length pre" "m = loss_from pre i j" by auto
      with True show ?thesis by (intro exI [of _ i] exI [of _ j]) (simp add: nth)
    next
      case False
      then have m': "m' = (p' - v) / p'" by (auto simp: m'_def max_def split: if_splits)
      have "p' \<in> set (pre @ [v])" using Cons.prems(4) by (auto simp: p'_def max_def)
      then obtain i where "i < length (pre @ [v])" "(pre @ [v]) ! i = p'" by (metis in_set_conv_nth)
      with m' show ?thesis by (intro exI [of _ i] exI [of _ "length pre"]) (simp add: nth)
    qed
  qed
  have m': "0 \<le> m'" "m' < 1" using Cons.prems(6,7) p' v by (auto simp: m'_def pos_divide_less_eq)
  have set': "\<forall>x \<in> set (pre @ [v]). 0 < x \<and> x \<le> p'" "p' \<in> set (pre @ [v])"
    using Cons.prems(3,4) v by (auto simp: p'_def max_def)
  obtain d' k' where step: "dd_loop peak m d k (v # vs) = dd_loop p' m' d' k' vs"
  proof (cases "peak \<le> v")
    case True
    then have "p' = v" "m' = m" using Cons.prems(6) by (simp_all add: p'_def m'_def)
    with True show ?thesis by (intro that [of d 0]) simp
  next
    case False
    then have "p' = peak" "m' = max m ((peak - v) / peak)" by (simp_all add: p'_def m'_def)
    with False Cons.prems(1) show ?thesis by (intro that [of "max d (k + 1)" "k + 1"]) (simp add: Let_def)
  qed
  show ?case
    unfolding step using Cons.IH [OF p' vs set' bound m' attained, of d' k'] by simp
qed auto

text \<open>
  The maximum drawdown is what its name says: on a curve of positive equities the loop never
  raises, its result is at least the relative loss between any two points in time and is the loss
  between some two of them (or 0), so it lies in the interval from 0 to below 1.
\<close>

theorem max_drawdown_correct:
  assumes "c \<noteq> []" and "\<forall>v \<in> set c. 0 < v"
  shows "\<exists>dd dur. compute_max_drawdown c = Inr (dd, dur) \<and> 0 \<le> dd \<and> dd < 1 \<and>
    (\<forall>i j. i \<le> j \<and> j < length c \<longrightarrow> (c ! i - c ! j) / c ! i \<le> dd) \<and>
    (dd \<noteq> 0 \<longrightarrow> (\<exists>i j. i \<le> j \<and> j < length c \<and> dd = (c ! i - c ! j) / c ! i))"
proof -
  obtain x xs where c: "c = x # xs" using assms(1) by (cases c) auto
  have "compute_max_drawdown c = dd_loop x 0 0 0 xs" by (simp add: compute_max_drawdown_def c)
  moreover have "\<exists>dd dur. dd_loop x 0 0 0 xs = Inr (dd, dur) \<and> 0 \<le> dd \<and> dd < 1 \<and>
    (\<forall>i j. i \<le> j \<and> j < length ([x] @ xs) \<longrightarrow> loss_from ([x] @ xs) i j \<le> dd) \<and>
    (dd \<noteq> 0 \<longrightarrow> (\<exists>i j. i \<le> j \<and> j < length ([x] @ xs) \<and> dd = loss_from ([x] @ xs) i j))"
    using assms(2) by (intro dd_loop_spec) (auto simp: c loss_from_def)
  ultimately show ?thesis by (simp add: c loss_from_def)
qed

lemma max_drawdown_correct_witness:
  "\<exists>dd dur. compute_max_drawdown [100, 120, 90, 130] = Inr (dd, dur) \<and> 1 / 4 \<le> dd"
proof -
  obtain dd dur where r: "compute_max_drawdown [100, 120, 90, 130] = Inr (dd, dur)"
      "\<And>i j. i \<le> j \<and> j < length [100, 120, 90, 130 :: real] \<Longrightarrow>
        ([100, 120, 90, 130] ! i - [100, 120, 90, 130] ! j) / [100, 120, 90, 130] ! i \<le> dd"
    using max_drawdown_correct [of "[100, 120, 90, 130]"] by auto
  from r(2) [of 1 2] have "1 / 4 \<le> dd" by simp
  with r(1) show ?thesis by blast
qed

section \<open>Ratios\<close>

lemma mean_scale: "mean (map ((*) c) xs) = c * mean xs"
  by (simp add: mean_def sum_list_const_mult)

lemma sq_dev_scale: "sq_dev (map ((*) c) xs) = c\<^sup>2 * sq_dev xs"
proof -
  have "sq_dev (map ((*) c) xs) = sum_list (map (\<lambda>x. c\<^sup>2 * (x - mean xs)\<^sup>2) xs)"
    unfolding sq_dev_def mean_scale by (simp add: o_def flip: right_diff_distrib power_mult_distrib)
  then show ?thesis by (simp add: sq_dev_def sum_list_const_mult o_def)
qed

lemma std_scale: "0 \<le> c \<Longrightarrow> std (map ((*) c) xs) = c * std xs"
  by (simp add: std_def sq_dev_scale real_sqrt_mult flip: times_divide_eq_right)

text \<open>
  The Sharpe ratio does not depend on the leverage: scaling all returns by a positive factor leaves
  it unchanged, constant returns have ratio 0, and without a risk-free rate it has the sign
  of the total return.
\<close>

theorem sharpe_scale_invariant:
  assumes "0 < c"
  shows "compute_sharpe (map ((*) c) rs) 0 = compute_sharpe rs 0 \<and>
    compute_sharpe (replicate n r) rf = 0 \<and>
    (0 \<le> sum_list rs \<longrightarrow> 0 \<le> compute_sharpe rs 0) \<and> (sum_list rs \<le> 0 \<longrightarrow> compute_sharpe rs 0 \<le> 0)"
proof -
  have pos: "0 \<le> std rs" by (simp add: std_def)
  have "mean (replicate n r) = r \<or> n = 0" by (simp add: mean_def sum_list_replicate)
  then have "std (replicate n r) = 0" by (auto simp: std_def sq_dev_def sum_list_replicate)
  moreover have "compute_sharpe (map ((*) c) rs) 0 = compute_sharpe rs 0"
    using assms by (simp add: compute_sharpe_def Let_def std_scale mean_scale)
  ultimately show ?thesis using pos
    by (auto simp: compute_sharpe_def Let_def annual_factor_def mean_def
        divide_nonpos_nonneg mult_nonpos_nonneg)
qed

lemma sharpe_scale_invariant_witness:
  "compute_sharpe (map ((*) 3) [1, 2, 4]) 0 = compute_sharpe [1, 2, 4] 0"
  using sharpe_scale_invariant [of 3 "[1, 2, 4]"] by simp

end
