(* ===== verification/Tca.thy ===== *)
theory Tca
  imports Py_Base
begin

text \<open>
  \<open>services/post-trade/post_trade_svc/tca.py\<close>: the decomposition of a fill's cost. The divisions by
  the decision and the arrival price are not guarded in the code, so a zero price raises.
\<close>

record tca_result =
  tc_fill_id :: string
  tc_symbol :: string
  tc_side :: string
  tc_decision_price :: real
  tc_arrival_price :: real
  tc_fill_price :: real
  tc_spread_cost_bps :: real
  tc_slippage_bps :: real
  tc_market_impact_bps :: real
  tc_fee_bps :: real
  tc_total_cost_bps :: real

definition analyze_fill :: "string \<Rightarrow> string \<Rightarrow> string \<Rightarrow> real \<Rightarrow> real \<Rightarrow> real \<Rightarrow> real \<Rightarrow> real \<Rightarrow> py_error + tca_result" where
  "analyze_fill fill_id symbol side decision_price arrival_price fill_price fee quantity =
     (let notional = quantity * fill_price;
          fee_bps = (if 0 < notional then fee / notional * 10000 else 0);
          (impact_num, slip_num) =
            (if side = ''BUY'' then (arrival_price - decision_price, fill_price - arrival_price)
             else (decision_price - arrival_price, arrival_price - fill_price)) in
      ebind (py_div impact_num decision_price) (\<lambda>impact.
      ebind (py_div slip_num arrival_price) (\<lambda>slip.
        let market_impact_bps = impact * 10000;
            slippage_bps = slip * 10000;
            spread_cost_bps = (if 0 < arrival_price then \<bar>fill_price - arrival_price\<bar> / arrival_price * 10000 else 0) in
        Inr \<lparr>tc_fill_id = fill_id, tc_symbol = symbol, tc_side = side, tc_decision_price = decision_price,
          tc_arrival_price = arrival_price, tc_fill_price = fill_price, tc_spread_cost_bps = spread_cost_bps,
          tc_slippage_bps = slippage_bps, tc_market_impact_bps = market_impact_bps, tc_fee_bps = fee_bps,
          tc_total_cost_bps = \<bar>market_impact_bps\<bar> + \<bar>slippage_bps\<bar> + fee_bps\<rparr>)))"

lemma analyze_fill_error:
  "(\<exists>e. analyze_fill i s side d a p fee q = Inl e) \<longleftrightarrow> d = 0 \<or> a = 0"
  by (auto simp: analyze_fill_def Let_def py_div_def split: if_splits)

text \<open>
  The cost decomposition loses nothing: with positive prices the analysis returns, market impact on
  the decision price plus slippage on the arrival price is exactly what the fill was worse than the
  decision (for either side), the spread cost is the size of the slippage, the fee part pays
  the fee, and the total covers each part; a zero decision or arrival price raises.
\<close>

theorem tca_decomposition:
  "(0 < d \<and> 0 < a \<longrightarrow> (\<exists>r. analyze_fill i s side d a p fee q = Inr r \<and>
      tc_market_impact_bps r * d + tc_slippage_bps r * a = (if side = ''BUY'' then p - d else d - p) * 10000 \<and>
      tc_spread_cost_bps r = \<bar>tc_slippage_bps r\<bar> \<and>
      (0 < q * p \<longrightarrow> tc_fee_bps r * (q * p) = fee * 10000) \<and>
      (0 \<le> fee \<longrightarrow> 0 \<le> tc_total_cost_bps r \<and> \<bar>tc_market_impact_bps r + tc_slippage_bps r\<bar> \<le> tc_total_cost_bps r))) \<and>
   (d = 0 \<or> a = 0 \<longrightarrow> analyze_fill i s side d a p fee q = Inl ZeroDivisionError)"
proof (intro conjI impI)
  assume pos: "0 < d \<and> 0 < a"
  define sgn :: real where "sgn = (if side = ''BUY'' then 1 else - 1)"
  define impact where "impact = sgn * (a - d) / d * 10000"
  define slip where "slip = sgn * (p - a) / a * 10000"
  define fee_bps where "fee_bps = (if 0 < q * p then fee / (q * p) * 10000 else 0)"
  have r: "analyze_fill i s side d a p fee q = Inr \<lparr>tc_fill_id = i, tc_symbol = s, tc_side = side,
      tc_decision_price = d, tc_arrival_price = a, tc_fill_price = p, tc_spread_cost_bps = \<bar>p - a\<bar> / a * 10000,
      tc_slippage_bps = slip, tc_market_impact_bps = impact, tc_fee_bps = fee_bps,
      tc_total_cost_bps = \<bar>impact\<bar> + \<bar>slip\<bar> + fee_bps\<rparr>"
    using pos by (simp add: analyze_fill_def Let_def impact_def slip_def sgn_def fee_bps_def)
  have "impact * d + slip * a = sgn * (p - d) * 10000"
    using pos by (simp add: impact_def slip_def field_simps)
  moreover have "\<bar>slip\<bar> = \<bar>p - a\<bar> / a * 10000"
    using pos by (simp add: slip_def sgn_def abs_mult abs_minus_commute)
  moreover have "0 < q * p \<longrightarrow> fee_bps * (q * p) = fee * 10000" by (simp add: fee_bps_def)
  moreover have "0 \<le> fee \<longrightarrow> 0 \<le> fee_bps" by (simp add: fee_bps_def)
  ultimately show "\<exists>r. analyze_fill i s side d a p fee q = Inr r \<and>
      tc_market_impact_bps r * d + tc_slippage_bps r * a = (if side = ''BUY'' then p - d else d - p) * 10000 \<and>
      tc_spread_cost_bps r = \<bar>tc_slippage_bps r\<bar> \<and>
      (0 < q * p \<longrightarrow> tc_fee_bps r * (q * p) = fee * 10000) \<and>
      (0 \<le> fee \<longrightarrow> 0 \<le> tc_total_cost_bps r \<and> \<bar>tc_market_impact_bps r + tc_slippage_bps r\<bar> \<le> tc_total_cost_bps r)"
    unfolding r by (auto simp: sgn_def)
qed (auto simp: analyze_fill_def Let_def py_div_def)

lemma tca_decomposition_witness:
  "\<exists>r. analyze_fill ''f1'' ''BTCUSD'' ''SELL'' 100 99 98 1 2 = Inr r \<and>
     tc_market_impact_bps r * 100 + tc_slippage_bps r * 99 = 20000"
  using tca_decomposition [of 100 99 "''f1''" "''BTCUSD''" "''SELL''" 98 1 2] by auto

end
