(* ===== verification/Alpha_Decay.thy ===== *)
theory Alpha_Decay
  imports Py_Base
begin

text \<open>
  \<open>services/post-trade/post_trade_svc/alpha_decay.py\<close>: how well signals predict returns at several
  horizons. The tracker keeps a bounded queue of signals; each has a dictionary from horizon to the
  return realised there, filled in by the first trade after the horizon.
\<close>

definition format_horizon :: "int \<Rightarrow> string" where
  "format_horizon ms =
     (let seconds = ms div 1000 in
      if seconds < 60 then show_nat (nat seconds) @ ''s''
      else let minutes = seconds div 60 in
        if minutes < 60 then show_nat (nat minutes) @ ''m''
        else show_nat (nat (minutes div 60)) @ ''h'')"

record tracked_signal =
  ts_signal_id :: string
  ts_timestamp_ms :: int
  ts_strategy_id :: string
  ts_symbol :: string
  ts_predicted_direction :: real
  ts_mid_price :: real
  ts_horizon_returns :: "(int, real option) dict"

definition fully_filled :: "tracked_signal \<Rightarrow> bool" where
  "fully_filled sig = list_all (\<lambda>(_, v). v \<noteq> None) (ts_horizon_returns sig)"

definition pearson_correlation :: "real list \<Rightarrow> real list \<Rightarrow> real option" where
  "pearson_correlation xs ys =
     (let n = real (length xs) in
      if length xs < 5 then None
      else let cov = co_dev xs ys / n; var_x = sq_dev xs / n; var_y = sq_dev ys / n;
               denom = sqrt (var_x * var_y) in
        if denom < 1 / 10 ^ 15 then None else Some (cov / denom))"

record decay_tracker =
  dt_horizons_ms :: "int list"
  dt_max_signals :: nat
  dt_signals :: "tracked_signal list"

definition default_horizons_ms :: "int list" where
  "default_horizons_ms = [60000, 300000, 900000, 1800000, 3600000]"

definition decay_init :: "int list \<Rightarrow> nat \<Rightarrow> decay_tracker" where
  \<comment> \<open>\<open>[]\<close> for the default \<open>None\<close> too\<close>
  "decay_init horizons_ms max_signals =
     \<lparr>dt_horizons_ms = sort (if horizons_ms = [] then default_horizons_ms else horizons_ms),
      dt_max_signals = max_signals, dt_signals = []\<rparr>"

definition no_returns :: "int list \<Rightarrow> (int, real option) dict" where
  \<comment> \<open>\<open>{h: None for h in horizons}\<close>\<close>
  "no_returns hs = foldl (\<lambda>d h. AList.update h None d) [] hs"

definition record_signal :: "string \<Rightarrow> int \<Rightarrow> string \<Rightarrow> string \<Rightarrow> string \<Rightarrow> real \<Rightarrow> real \<Rightarrow> decay_tracker \<Rightarrow> decay_tracker" where
  "record_signal signal_id timestamp_ms strategy_id symbol side strength mid_price dt =
     (let direction = (if upper side = ''BUY'' then strength else - strength);
          sig = \<lparr>ts_signal_id = signal_id, ts_timestamp_ms = timestamp_ms, ts_strategy_id = strategy_id,
            ts_symbol = symbol, ts_predicted_direction = direction, ts_mid_price = mid_price,
            ts_horizon_returns = no_returns (dt_horizons_ms dt)\<rparr> in
      dt\<lparr>dt_signals := deque_append (dt_max_signals dt) (dt_signals dt) sig\<rparr>)"

definition fill_horizon :: "int \<Rightarrow> real \<Rightarrow> tracked_signal \<Rightarrow> int \<Rightarrow> tracked_signal" where
  \<comment> \<open>one turn of the loop over the horizons; every horizon is a key of the dictionary\<close>
  "fill_horizon timestamp_ms price sig h_ms =
     (if dget (ts_horizon_returns sig) h_ms None \<noteq> None then sig
      else if ts_timestamp_ms sig + h_ms \<le> timestamp_ms
      then let actual_return = (price - ts_mid_price sig) / ts_mid_price sig in
        sig\<lparr>ts_horizon_returns := AList.update h_ms (Some actual_return) (ts_horizon_returns sig)\<rparr>
      else sig)"

definition trade_on_signal :: "int list \<Rightarrow> string \<Rightarrow> int \<Rightarrow> real \<Rightarrow> tracked_signal \<Rightarrow> tracked_signal" where
  "trade_on_signal horizons symbol timestamp_ms price sig =
     (if fully_filled sig \<or> ts_symbol sig \<noteq> symbol \<or> ts_mid_price sig = 0 then sig
      else foldl (fill_horizon timestamp_ms price) sig horizons)"

definition on_trade :: "string \<Rightarrow> int \<Rightarrow> real \<Rightarrow> decay_tracker \<Rightarrow> decay_tracker" where
  "on_trade symbol timestamp_ms price dt =
     dt\<lparr>dt_signals := map (trade_on_signal (dt_horizons_ms dt) symbol timestamp_ms price) (dt_signals dt)\<rparr>"

definition compute_ic_for_signals :: "tracked_signal list \<Rightarrow> int \<Rightarrow> real option \<times> nat" where
  "compute_ic_for_signals signals horizon_ms =
     (let pairs = concat (map (\<lambda>sig. case dget (ts_horizon_returns sig) horizon_ms None of
            None \<Rightarrow> [] | Some ret \<Rightarrow> [(ts_predicted_direction sig, ret)]) signals);
          predictions = map fst pairs; returns = map snd pairs in
      (pearson_correlation predictions returns, length predictions))"

record horizon_stat =
  hs_horizon_ms :: int
  hs_horizon_label :: string
  hs_ic :: "real option"
  hs_filled_count :: nat

record decay_data =
  dd_horizons :: "horizon_stat list"
  dd_total_signals :: nat
  dd_strategies :: "(string, nat \<times> horizon_stat list) dict"

definition horizon_stats :: "int list \<Rightarrow> tracked_signal list \<Rightarrow> horizon_stat list" where
  "horizon_stats horizons signals = map (\<lambda>h_ms. let (ic, filled) = compute_ic_for_signals signals h_ms in
     \<lparr>hs_horizon_ms = h_ms, hs_horizon_label = format_horizon h_ms,
      hs_ic = map_option (\<lambda>x. py_round x 4) ic, hs_filled_count = filled\<rparr>) horizons"

definition by_strategy :: "tracked_signal list \<Rightarrow> (string, tracked_signal list) dict" where
  "by_strategy signals = foldl (\<lambda>d sig. AList.update (ts_strategy_id sig) (dget d (ts_strategy_id sig) [] @ [sig]) d) [] signals"

definition get_alpha_decay_data :: "string option \<Rightarrow> decay_tracker \<Rightarrow> decay_data" where
  "get_alpha_decay_data symbol dt =
     (let all_signals = (case symbol of None \<Rightarrow> dt_signals dt
            | Some s \<Rightarrow> if s = '''' then dt_signals dt else filter (\<lambda>sig. ts_symbol sig = upper s) (dt_signals dt)) in
      \<lparr>dd_horizons = horizon_stats (dt_horizons_ms dt) all_signals,
       dd_total_signals = length all_signals,
       dd_strategies = map (\<lambda>(strat, sigs). (strat, (length sigs, horizon_stats (dt_horizons_ms dt) sigs)))
         (by_strategy all_signals)\<rparr>)"

section \<open>Correlations\<close>

lemma pearson_bound:
  assumes "length xs = length ys" and "pearson_correlation xs ys = Some r"
  shows "\<bar>r\<bar> \<le> 1"
proof -
  define n where "n = real (length xs)"
  define denom where "denom = sqrt ((sq_dev xs / n) * (sq_dev ys / n))"
  have n: "0 < n" and denom: "1 / 10 ^ 15 \<le> denom" and r: "r = co_dev xs ys / n / denom"
    using assms(2) by (auto simp: pearson_correlation_def Let_def n_def denom_def split: if_splits)
  have "0 < denom" using denom by (rule less_le_trans [rotated]) simp
  moreover have "\<bar>co_dev xs ys / n\<bar> \<le> denom"
    unfolding denom_def by (rule correlation_bound [OF assms(1) n])
  ultimately show ?thesis
    unfolding r abs_divide [of _ denom] by (simp add: divide_le_eq_1 del: abs_divide)
qed

lemma round_within: "\<bar>y\<bar> \<le> of_int k \<Longrightarrow> \<bar>round_half_even y\<bar> \<le> k"
  unfolding round_half_even_def Let_def by (simp add: abs_le_iff) (linarith)

lemma py_round_within_1: "\<bar>x\<bar> \<le> 1 \<Longrightarrow> \<bar>py_round x n\<bar> \<le> 1"
proof -
  assume "\<bar>x\<bar> \<le> 1"
  then have "\<bar>x * 10 ^ n\<bar> \<le> of_int (10 ^ n)" by (simp add: abs_mult)
  from round_within [OF this] have "\<bar>of_int (round_half_even (x * 10 ^ n)) :: real\<bar> \<le> of_int (10 ^ n)"
    by (metis of_int_abs of_int_le_iff)
  then show ?thesis by (simp add: py_round_def)
qed

definition ic_in_range :: "horizon_stat \<Rightarrow> bool" where
  "ic_in_range s = (case hs_ic s of None \<Rightarrow> True | Some r \<Rightarrow> - 1 \<le> r \<and> r \<le> 1)"

text \<open>
  Information coefficients are correlations: every coefficient the dashboard reports, for all
  signals or a strategy, at any horizon, rounding included, lies between -1 and 1.
\<close>

theorem reported_ic_bounded:
  "let data = get_alpha_decay_data symbol dt in
   list_all ic_in_range (dd_horizons data) \<and>
   list_all (\<lambda>(strategy, n, stats). list_all ic_in_range stats) (dd_strategies data)"
proof -
  have ic: "case hs_ic s of None \<Rightarrow> True | Some r \<Rightarrow> - 1 \<le> r \<and> r \<le> 1" if "s \<in> set (horizon_stats hs sigs)" for s hs sigs
  proof -
    from that obtain h where "hs_ic s = map_option (\<lambda>x. py_round x 4) (fst (compute_ic_for_signals sigs h))"
      by (auto simp: horizon_stats_def case_prod_unfold Let_def)
    moreover obtain xs ys where "length xs = length ys" "fst (compute_ic_for_signals sigs h) = pearson_correlation xs ys"
      unfolding compute_ic_for_signals_def Let_def fst_conv by (metis length_map)
    ultimately show ?thesis
      using pearson_bound [of xs ys] py_round_within_1 [of _ 4]
      by (cases "pearson_correlation xs ys") (simp_all add: abs_le_iff)
  qed
  then have "list_all ic_in_range (horizon_stats hs sigs)" for hs sigs
    by (simp add: list_all_iff ic_in_range_def)
  then show ?thesis
    by (auto simp: get_alpha_decay_data_def Let_def list_all_iff)
qed

section \<open>Horizon returns\<close>

lemma fill_horizon_fields [simp]:
  "ts_timestamp_ms (fill_horizon t p sig h) = ts_timestamp_ms sig"
  "ts_mid_price (fill_horizon t p sig h) = ts_mid_price sig"
  "ts_symbol (fill_horizon t p sig h) = ts_symbol sig"
  by (simp_all add: fill_horizon_def Let_def)

lemma fill_horizon_value:
  "dget (ts_horizon_returns (fill_horizon t p sig h')) h None =
     (if h = h' \<and> dget (ts_horizon_returns sig) h None = None \<and> ts_timestamp_ms sig + h \<le> t
      then Some ((p - ts_mid_price sig) / ts_mid_price sig)
      else dget (ts_horizon_returns sig) h None)"
  by (auto simp: fill_horizon_def Let_def)

lemma fill_horizon_keys:
  "fst ` set (ts_horizon_returns sig) \<subseteq> fst ` set (ts_horizon_returns (fill_horizon t p sig h))"
  by (auto simp: fill_horizon_def Let_def dom_update)

lemma fold_horizons_fields:
  "ts_timestamp_ms (foldl (fill_horizon t p) sig hs) = ts_timestamp_ms sig"
  "ts_mid_price (foldl (fill_horizon t p) sig hs) = ts_mid_price sig"
  "ts_symbol (foldl (fill_horizon t p) sig hs) = ts_symbol sig"
  by (induction hs arbitrary: sig) simp_all

lemma fold_horizons_keys:
  "fst ` set (ts_horizon_returns sig) \<subseteq> fst ` set (ts_horizon_returns (foldl (fill_horizon t p) sig hs))"
proof (induction hs arbitrary: sig)
  case (Cons h hs)
  have "foldl (fill_horizon t p) sig (h # hs) = foldl (fill_horizon t p) (fill_horizon t p sig h) hs" by simp
  with fill_horizon_keys [of sig t p h] Cons.IH [of "fill_horizon t p sig h"] show ?case by (simp only:)
qed simp

lemma fold_horizons_value:
  "dget (ts_horizon_returns (foldl (fill_horizon t p) sig hs)) h None =
     (if h \<in> set hs \<and> dget (ts_horizon_returns sig) h None = None \<and> ts_timestamp_ms sig + h \<le> t
      then Some ((p - ts_mid_price sig) / ts_mid_price sig)
      else dget (ts_horizon_returns sig) h None)"
  by (induction hs arbitrary: sig) (auto simp: fill_horizon_value)

lemma fully_filled_value:
  "fully_filled sig \<Longrightarrow> h \<in> fst ` set (ts_horizon_returns sig) \<Longrightarrow> dget (ts_horizon_returns sig) h None \<noteq> None"
  by (force simp: fully_filled_def list_all_iff dget_def map_of_eq_None_iff dest: map_of_SomeD split: option.split)

lemma trade_on_signal_fields [simp]:
  "ts_timestamp_ms (trade_on_signal hs s t p sig) = ts_timestamp_ms sig"
  "ts_mid_price (trade_on_signal hs s t p sig) = ts_mid_price sig"
  "ts_symbol (trade_on_signal hs s t p sig) = ts_symbol sig"
  by (simp_all add: trade_on_signal_def fold_horizons_fields)

lemma trade_on_signal_keys:
  "fst ` set (ts_horizon_returns sig) \<subseteq> fst ` set (ts_horizon_returns (trade_on_signal hs s t p sig))"
  using fold_horizons_keys unfolding trade_on_signal_def by (cases "fully_filled sig \<or> ts_symbol sig \<noteq> s \<or> ts_mid_price sig = 0") simp_all

lemma trade_on_signal_value:
  assumes "h \<in> set hs" and "h \<in> fst ` set (ts_horizon_returns sig)" and "ts_mid_price sig \<noteq> 0"
  shows "dget (ts_horizon_returns (trade_on_signal hs s t p sig)) h None =
     (if s = ts_symbol sig \<and> dget (ts_horizon_returns sig) h None = None \<and> ts_timestamp_ms sig + h \<le> t
      then Some ((p - ts_mid_price sig) / ts_mid_price sig)
      else dget (ts_horizon_returns sig) h None)"
  using assms fully_filled_value [of sig h] by (auto simp: trade_on_signal_def fold_horizons_value)

type_synonym tick = "string \<times> int \<times> real"

definition reaches :: "string \<Rightarrow> int \<Rightarrow> tick \<Rightarrow> bool" where
  "reaches symbol t = (\<lambda>(s, t', _). s = symbol \<and> t \<le> t')"

lemma trades_value:
  assumes "h \<in> set hs" and "h \<in> fst ` set (ts_horizon_returns sig)" and "ts_mid_price sig \<noteq> 0"
  shows "dget (ts_horizon_returns (foldl (\<lambda>sig (s, t, p). trade_on_signal hs s t p sig) sig trades)) h None =
     (case dget (ts_horizon_returns sig) h None of Some v \<Rightarrow> Some v
      | None \<Rightarrow> (case find (reaches (ts_symbol sig) (ts_timestamp_ms sig + h)) trades of None \<Rightarrow> None
          | Some (_, _, p) \<Rightarrow> Some ((p - ts_mid_price sig) / ts_mid_price sig)))"
  using assms
proof (induction trades arbitrary: sig)
  case (Cons tr trades)
  obtain s t p where tr: "tr = (s, t, p)" by (cases tr)
  have "h \<in> fst ` set (ts_horizon_returns (trade_on_signal hs s t p sig))"
    using Cons.prems(2) trade_on_signal_keys by blast
  with Cons.IH [of "trade_on_signal hs s t p sig"] Cons.prems show ?case
    by (simp add: tr trade_on_signal_value reaches_def split: option.split)
qed (simp split: option.split)

lemma on_trades_signals:
  "dt_signals (foldl (\<lambda>d (s, t, p). on_trade s t p d) dt trades) =
     map (\<lambda>sig. foldl (\<lambda>sig (s, t, p). trade_on_signal (dt_horizons_ms dt) s t p sig) sig trades) (dt_signals dt)"
  by (induction trades arbitrary: dt) (auto simp: on_trade_def)

lemma no_returns_keys:
  "fst ` set (foldl (\<lambda>d h. AList.update h None d) d hs) = set hs \<union> fst ` set d"
  by (induction hs arbitrary: d) (simp_all add: dom_update)

lemma no_returns_value:
  "dget d h None = None \<Longrightarrow> dget (foldl (\<lambda>d h. AList.update h None d) d hs) h (None :: real option) = None"
  by (induction hs arbitrary: d) simp_all

text \<open>
  A horizon's return is the first one that could be observed, and it is written once: whatever trades
  arrive after a signal was recorded, at any symbols, times and order, the return kept for a horizon is
  that of the first trade of the signal's symbol at or after signal time plus horizon, and
  none before there is such a trade.
\<close>

theorem horizon_return_is_first_after:
  fixes dt :: decay_tracker and trades :: "tick list" and strength mid :: real and ts0 :: int
    and sid strat symbol side :: string
  assumes "h \<in> set (dt_horizons_ms dt)" and "mid \<noteq> 0" and "0 < dt_max_signals dt"
  defines "dt' \<equiv> foldl (\<lambda>d (s, t, p). on_trade s t p d)
    (record_signal sid ts0 strat symbol side strength mid dt) trades"
  shows "dget (ts_horizon_returns (last (dt_signals dt'))) h None =
    (case find (reaches symbol (ts0 + h)) trades of None \<Rightarrow> None | Some (_, _, p) \<Rightarrow> Some ((p - mid) / mid))"
proof -
  define sig where "sig = \<lparr>ts_signal_id = sid, ts_timestamp_ms = ts0, ts_strategy_id = strat,
    ts_symbol = symbol, ts_predicted_direction = (if upper side = ''BUY'' then strength else - strength),
    ts_mid_price = mid, ts_horizon_returns = no_returns (dt_horizons_ms dt)\<rparr>"
  have rec: "record_signal sid ts0 strat symbol side strength mid dt =
      dt\<lparr>dt_signals := deque_append (dt_max_signals dt) (dt_signals dt) sig\<rparr>"
    by (simp add: record_signal_def sig_def)
  have last: "deque_append (dt_max_signals dt) (dt_signals dt) sig \<noteq> []"
      "last (deque_append (dt_max_signals dt) (dt_signals dt) sig) = sig"
    using assms(3) by (auto simp: deque_append_def Let_def last_drop)
  have none: "dget (ts_horizon_returns sig) h None = None"
    by (simp add: sig_def no_returns_def no_returns_value)
  have key: "h \<in> fst ` set (ts_horizon_returns sig)"
    unfolding sig_def no_returns_def tracked_signal.simps no_returns_keys using assms(1) by simp
  have fields: "ts_mid_price sig = mid" "ts_symbol sig = symbol" "ts_timestamp_ms sig = ts0"
    by (simp_all add: sig_def)
  have "last (dt_signals dt') =
      foldl (\<lambda>sig (s, t, p). trade_on_signal (dt_horizons_ms dt) s t p sig) sig trades"
    unfolding dt'_def rec on_trades_signals by (simp add: last_map last)
  then show ?thesis
    using trades_value [OF assms(1) key, unfolded fields none, OF assms(2)] by simp
qed

lemma horizon_return_is_first_after_witness:
  "dget (ts_horizon_returns (last (dt_signals (foldl (\<lambda>d (s, t, p). on_trade s t p d)
      (record_signal ''s1'' 0 ''m'' ''BTCUSD'' ''BUY'' 1 100 (decay_init [60000] 10))
      [(''BTCUSD'', 59999, 90), (''ETHUSD'', 60000, 7), (''BTCUSD'', 60001, 110), (''BTCUSD'', 70000, 120)])))) 60000 None =
   Some (1 / 10)"
  using horizon_return_is_first_after [of 60000 "decay_init [60000] 10" 100 "''s1''" 0 "''m''" "''BTCUSD''" "''BUY''" 1
      "[(''BTCUSD'', 59999, 90), (''ETHUSD'', 60000, 7), (''BTCUSD'', 60001, 110), (''BTCUSD'', 70000, 120)]"]
  by (simp add: decay_init_def reaches_def)

end
