(* ===== verification/Post_Trade_State.thy ===== *)
theory Post_Trade_State
  imports Pnl Perf_Metrics Tca Alpha_Decay Json_Value Portfolio_Sync
begin

text \<open>
  \<open>services/post-trade/post_trade_svc/state.py\<close>: the store behind the post-trade service. Its lock
  makes each method one step. An exception inside \<open>process_fill\<close> leaves the updates made before
  it in place, so the method returns the exception, if any, beside the state. The dashboard
  methods return JSON trees, the profit summary a record since the service reads its fields.
\<close>

record fill_record =
  fr_fill_id :: string
  fr_timestamp :: int
  fr_symbol :: string
  fr_side :: string
  fr_quantity :: real
  fr_fill_price :: real
  fr_fee :: real
  fr_slippage_bps :: real
  fr_strategy_id :: string
  fr_decision_price :: real
  fr_trading_mode :: string

record equity_snapshot =
  eq_timestamp :: int
  eq_equity :: real
  eq_realized_pnl :: real
  eq_unrealized_pnl :: real

record post_trade_state =
  st_initial_equity :: real
  st_portfolio :: portfolio
  st_fills :: "fill_record list"
  st_tca_results :: "tca_result list"
  st_equity_curve :: "equity_snapshot list"
  st_daily_returns :: "real list"
  st_latest_prices :: "(string, real) dict"
  st_total_fills :: nat
  st_winning_fills :: nat
  st_gross_profit :: real
  st_gross_loss :: real
  st_peak_equity :: real
  st_alpha_decay :: decay_tracker

definition state_init :: "real \<Rightarrow> post_trade_state" where
  "state_init equity = \<lparr>st_initial_equity = equity, st_portfolio = [], st_fills = [], st_tca_results = [],
     st_equity_curve = [], st_daily_returns = [], st_latest_prices = [], st_total_fills = 0, st_winning_fills = 0,
     st_gross_profit = 0, st_gross_loss = 0, st_peak_equity = equity, st_alpha_decay = decay_init [] 1000\<rparr>"

definition compute_equity :: "post_trade_state \<Rightarrow> real" where
  "compute_equity st = st_initial_equity st + total_realized_pnl (st_portfolio st) +
     total_unrealized_pnl (st_latest_prices st) (st_portfolio st) - total_fees (st_portfolio st)"

definition book_fill :: "fill_record \<Rightarrow> post_trade_state \<Rightarrow> post_trade_state" where
  \<comment> \<open>the first part of \<open>process_fill\<close>: position, profit, win and loss counters\<close>
  "book_fill f st =
     (let (pos, pf) = get_or_create (fr_symbol f) (st_portfolio st);
          (realized, pos') = apply_fill (fr_quantity f) (fr_fill_price f) (fr_fee f) (fr_side f) pos;
          st1 = st\<lparr>st_portfolio := AList.update (fr_symbol f) pos' pf, st_total_fills := st_total_fills st + 1\<rparr> in
      if 0 < realized
      then st1\<lparr>st_winning_fills := st_winning_fills st1 + 1, st_gross_profit := st_gross_profit st1 + realized\<rparr>
      else if realized < 0 then st1\<lparr>st_gross_loss := st_gross_loss st1 + \<bar>realized\<bar>\<rparr>
      else st1)"

definition snapshot_equity :: "fill_record \<Rightarrow> post_trade_state \<Rightarrow> post_trade_state" where
  \<comment> \<open>the last part: equity curve, peak and return\<close>
  "snapshot_equity f st =
     (let equity = compute_equity st;
          curve = st_equity_curve st @ [\<lparr>eq_timestamp = fr_timestamp f, eq_equity = equity,
            eq_realized_pnl = total_realized_pnl (st_portfolio st),
            eq_unrealized_pnl = total_unrealized_pnl (st_latest_prices st) (st_portfolio st)\<rparr>];
          st1 = st\<lparr>st_equity_curve := curve,
            st_peak_equity := (if st_peak_equity st < equity then equity else st_peak_equity st)\<rparr> in
      if 2 \<le> length curve
      then let prev = eq_equity (curve ! (length curve - 2)) in
        if 0 < prev then st1\<lparr>st_daily_returns := st_daily_returns st1 @ [(equity - prev) / prev]\<rparr> else st1
      else st1)"

definition process_fill :: "fill_record \<Rightarrow> post_trade_state \<Rightarrow> py_error option \<times> post_trade_state" where
  "process_fill f st =
     (let st1 = book_fill f st;
          arrival_price = dget (st_latest_prices st1) (fr_symbol f) (fr_fill_price f);
          decision_price = (if fr_decision_price f \<noteq> 0 then fr_decision_price f else arrival_price) in
      case analyze_fill (fr_fill_id f) (fr_symbol f) (fr_side f) decision_price arrival_price (fr_fill_price f)
             (fr_fee f) (fr_quantity f) of
        Inl e \<Rightarrow> (Some e, st1)
      | Inr tca \<Rightarrow> (None, snapshot_equity f
          (st1\<lparr>st_tca_results := st_tca_results st1 @ [tca], st_fills := st_fills st1 @ [f]\<rparr>)))"

definition state_record_signal :: "string \<Rightarrow> int \<Rightarrow> string \<Rightarrow> string \<Rightarrow> string \<Rightarrow> real \<Rightarrow> real \<Rightarrow>
    post_trade_state \<Rightarrow> post_trade_state" where
  "state_record_signal sid ts strat symbol side strength mid st =
     st\<lparr>st_alpha_decay := record_signal sid ts strat symbol side strength mid (st_alpha_decay st)\<rparr>"

definition update_price :: "string \<Rightarrow> real \<Rightarrow> int \<Rightarrow> post_trade_state \<Rightarrow> post_trade_state" where
  "update_price symbol price timestamp_ms st =
     (let st1 = st\<lparr>st_latest_prices := AList.update symbol price (st_latest_prices st)\<rparr> in
      if 0 < timestamp_ms then st1\<lparr>st_alpha_decay := on_trade symbol timestamp_ms price (st_alpha_decay st1)\<rparr>
      else st1)"

section \<open>Dashboard data\<close>

definition wanted :: "string option \<Rightarrow> string \<Rightarrow> bool" where
  \<comment> \<open>the filter by an optional symbol\<close>
  "wanted symbol name = (case symbol of None \<Rightarrow> True | Some s \<Rightarrow> s = '''' \<or> name = upper s)"

definition get_active_symbols :: "post_trade_state \<Rightarrow> json" where
  "get_active_symbols st = JObj [(''symbols'', JList (map JStr
     (sort (remdups (map fst (st_portfolio st) @ map fr_symbol (st_fills st))))))]"

record position_view =
  pv_quantity :: real
  pv_avg_entry_price :: real
  pv_realized_pnl :: real
  pv_unrealized_pnl :: real
  pv_total_fees :: real
  pv_current_price :: real

record pnl_summary =
  sm_initial_equity :: real
  sm_current_equity :: real
  sm_total_realized_pnl :: real
  sm_total_unrealized_pnl :: real
  sm_total_fees :: real
  sm_total_return_pct :: real
  sm_positions :: "(string, position_view) dict"
  sm_num_fills :: nat

definition view_position :: "(string, real) dict \<Rightarrow> string \<Rightarrow> position \<Rightarrow> position_view" where
  "view_position prices name pos =
     (let current_price = dget prices name (pn_avg_entry_price pos) in
      \<lparr>pv_quantity = pn_quantity pos, pv_avg_entry_price = py_round (pn_avg_entry_price pos) 2,
       pv_realized_pnl = py_round (pn_realized_pnl pos) 2,
       pv_unrealized_pnl = py_round (unrealized_pnl current_price pos) 2,
       pv_total_fees = py_round (pn_total_fees pos) 4, pv_current_price = py_round current_price 2\<rparr>)"

definition get_pnl_summary :: "string option \<Rightarrow> post_trade_state \<Rightarrow> py_error + pnl_summary" where
  "get_pnl_summary symbol st =
     (let equity = compute_equity st;
          positions = map (\<lambda>(sym, pos). (sym, view_position (st_latest_prices st) sym pos))
            (filter (\<lambda>(sym, _). wanted symbol sym) (st_portfolio st)) in
      ebind (py_div (equity - st_initial_equity st) (st_initial_equity st)) (\<lambda>r.
      Inr \<lparr>sm_initial_equity = st_initial_equity st, sm_current_equity = py_round equity 2,
        sm_total_realized_pnl = py_round (total_realized_pnl (st_portfolio st)) 2,
        sm_total_unrealized_pnl = py_round (total_unrealized_pnl (st_latest_prices st) (st_portfolio st)) 2,
        sm_total_fees = py_round (total_fees (st_portfolio st)) 4, sm_total_return_pct = py_round (r * 100) 4,
        sm_positions = positions, sm_num_fills = st_total_fills st\<rparr>))"

definition get_tca_summary :: "string option \<Rightarrow> post_trade_state \<Rightarrow> json" where
  "get_tca_summary symbol st =
     (let results = filter (\<lambda>t. wanted symbol (tc_symbol t)) (st_tca_results st) in
      if results = [] then JObj [(''fills'', JList []), (''averages'', JObj [])]
      else JObj
        [(''fills'', JList (map (\<lambda>t. JObj
            [(''fill_id'', JStr (tc_fill_id t)), (''symbol'', JStr (tc_symbol t)), (''side'', JStr (tc_side t)),
             (''spread_cost_bps'', JNum (py_round (tc_spread_cost_bps t) 2)),
             (''slippage_bps'', JNum (py_round (tc_slippage_bps t) 2)),
             (''market_impact_bps'', JNum (py_round (tc_market_impact_bps t) 2)),
             (''fee_bps'', JNum (py_round (tc_fee_bps t) 2)),
             (''total_cost_bps'', JNum (py_round (tc_total_cost_bps t) 2))]) (last_n 100 results))),
         (''averages'', JObj
            [(''spread_cost_bps'', JNum (py_round (mean (map tc_spread_cost_bps results)) 2)),
             (''slippage_bps'', JNum (py_round (mean (map tc_slippage_bps results)) 2)),
             (''market_impact_bps'', JNum (py_round (mean (map tc_market_impact_bps results)) 2)),
             (''fee_bps'', JNum (py_round (mean (map tc_fee_bps results)) 2)),
             (''total_cost_bps'', JNum (py_round (mean (map tc_total_cost_bps results)) 2))]),
         (''num_fills'', JInt (int (length results)))])"

record risk_metrics =
  rm_sharpe :: real
  rm_sortino :: py_float
  rm_calmar :: real
  rm_max_drawdown_pct :: real
  rm_max_drawdown_duration :: nat
  rm_total_return_pct :: real
  rm_annualized_return_pct :: real
  rm_win_rate_pct :: real
  rm_profit_factor :: real
  rm_num_trades :: nat
  rm_current_equity :: real
  rm_peak_equity :: real

definition get_risk_metrics :: "post_trade_state \<Rightarrow> py_error + risk_metrics" where
  "get_risk_metrics st =
     (let equity = compute_equity st;
          returns = last_n 365 (st_daily_returns st);
          sharpe = compute_sharpe returns 0;
          sortino = compute_sortino returns 0 in
      ebind (compute_max_drawdown (map eq_equity (st_equity_curve st))) (\<lambda>(max_dd, max_dd_dur).
      ebind (py_div (equity - st_initial_equity st) (st_initial_equity st)) (\<lambda>total_return.
      let n_periods = (if returns \<noteq> [] then length returns else 1);
          annualized = total_return * (365 / real (max n_periods 1));
          calmar = compute_calmar annualized max_dd;
          win_rate = (if 0 < st_total_fills st then real (st_winning_fills st) / real (st_total_fills st) else 0);
          profit_factor = (if 0 < st_gross_loss st then st_gross_profit st / st_gross_loss st else 0) in
      Inr \<lparr>rm_sharpe = py_round sharpe 4,
        rm_sortino = (case sortino of Fin x \<Rightarrow> Fin (py_round x 4) | Inf \<Rightarrow> Inf),
        rm_calmar = py_round calmar 4, rm_max_drawdown_pct = py_round (max_dd * 100) 4,
        rm_max_drawdown_duration = max_dd_dur, rm_total_return_pct = py_round (total_return * 100) 4,
        rm_annualized_return_pct = py_round (annualized * 100) 4, rm_win_rate_pct = py_round (win_rate * 100) 2,
        rm_profit_factor = py_round profit_factor 4, rm_num_trades = st_total_fills st,
        rm_current_equity = py_round equity 2, rm_peak_equity = py_round (st_peak_equity st) 2\<rparr>)))"

fun drawdown_curve :: "real \<Rightarrow> equity_snapshot list \<Rightarrow> json list" where
  "drawdown_curve peak [] = []"
| "drawdown_curve peak (s # ss) =
     (let peak' = (if peak < eq_equity s then eq_equity s else peak);
          dd = (if 0 < peak' then (peak' - eq_equity s) / peak' else 0) in
      JObj [(''timestamp'', JInt (eq_timestamp s)), (''drawdown_pct'', JNum (py_round (dd * 100) 4))] #
      drawdown_curve peak' ss)"

definition get_drawdown_data :: "post_trade_state \<Rightarrow> json" where
  "get_drawdown_data st =
     (if st_equity_curve st = []
      then JObj [(''equity_curve'', JList []), (''drawdown_curve'', JList []), (''current_drawdown_pct'', JNum 0)]
      else let recent = last_n 500 (st_equity_curve st);
               current_dd = (if 0 < st_peak_equity st then (st_peak_equity st - compute_equity st) / st_peak_equity st else 0) in
        JObj [(''equity_curve'', JList (map (\<lambda>s. JObj [(''timestamp'', JInt (eq_timestamp s)),
                 (''equity'', JNum (py_round (eq_equity s) 2))]) recent)),
              (''drawdown_curve'', JList (drawdown_curve (st_initial_equity st) recent)),
              (''current_drawdown_pct'', JNum (py_round (current_dd * 100) 4)),
              (''peak_equity'', JNum (py_round (st_peak_equity st) 2))])"

definition get_alpha_decay :: "string option \<Rightarrow> post_trade_state \<Rightarrow> decay_data" where
  "get_alpha_decay symbol st = get_alpha_decay_data symbol (st_alpha_decay st)"

definition get_fill_analysis :: "string option \<Rightarrow> post_trade_state \<Rightarrow> json" where
  "get_fill_analysis symbol st =
     (let filtered = filter (\<lambda>f. wanted symbol (fr_symbol f)) (st_fills st) in
      if filtered = [] then JObj [(''fills'', JList []), (''summary'', JObj [])]
      else JObj
        [(''fills'', JList (map (\<lambda>f. JObj
            [(''fill_id'', JStr (fr_fill_id f)), (''timestamp'', JInt (fr_timestamp f)), (''symbol'', JStr (fr_symbol f)),
             (''side'', JStr (fr_side f)), (''quantity'', JNum (fr_quantity f)),
             (''fill_price'', JNum (py_round (fr_fill_price f) 2)), (''fee'', JNum (py_round (fr_fee f) 4)),
             (''slippage_bps'', JNum (py_round (fr_slippage_bps f) 2)), (''strategy_id'', JStr (fr_strategy_id f)),
             (''trading_mode'', JStr (fr_trading_mode f))]) (last_n 100 filtered))),
         (''summary'', JObj
            [(''total_fills'', JInt (int (length filtered))),
             (''buy_fills'', JInt (int (length (filter (\<lambda>f. fr_side f = ''BUY'') filtered)))),
             (''sell_fills'', JInt (int (length (filter (\<lambda>f. fr_side f = ''SELL'') filtered)))),
             (''avg_slippage_bps'', JNum (py_round (mean (map fr_slippage_bps filtered)) 2)),
             (''total_fees'', JNum (py_round (total_fees (st_portfolio st)) 4))])])"

section \<open>The portfolio as a table of positions\<close>

definition fill_of :: "fill_record \<Rightarrow> trade_fill" where
  "fill_of f = \<lparr>tf_quantity = fr_quantity f, tf_price = fr_fill_price f, tf_fee = fr_fee f, tf_side = fr_side f\<rparr>"

definition position_of :: "portfolio \<Rightarrow> string \<Rightarrow> position" where
  "position_of pf s = (case map_of pf s of None \<Rightarrow> new_position s | Some p \<Rightarrow> p)"

lemma created:
  "get_or_create s pf = (position_of pf s, if map_of pf s = None then AList.update s (new_position s) pf else pf)"
  by (simp add: get_or_create_def position_of_def split: option.split)

lemma book_fill_portfolio:
  "st_portfolio (book_fill f st) =
     AList.update (fr_symbol f) (apply_one (position_of (st_portfolio st) (fr_symbol f)) (fill_of f)) (st_portfolio st)"
proof -
  obtain r p where "apply_fill (fr_quantity f) (fr_fill_price f) (fr_fee f) (fr_side f)
      (position_of (st_portfolio st) (fr_symbol f)) = (r, p)" by fastforce
  then show ?thesis by (simp add: book_fill_def created apply_one_def fill_of_def Let_def)
qed

lemma snapshot_fields [simp]:
  "st_portfolio (snapshot_equity f st) = st_portfolio st"
  "st_latest_prices (snapshot_equity f st) = st_latest_prices st"
  "st_initial_equity (snapshot_equity f st) = st_initial_equity st"
  "st_total_fills (snapshot_equity f st) = st_total_fills st"
  "st_winning_fills (snapshot_equity f st) = st_winning_fills st"
  "st_gross_profit (snapshot_equity f st) = st_gross_profit st"
  "st_gross_loss (snapshot_equity f st) = st_gross_loss st"
  "st_fills (snapshot_equity f st) = st_fills st"
  "st_tca_results (snapshot_equity f st) = st_tca_results st"
  by (simp_all add: snapshot_equity_def Let_def)

lemma book_fields [simp]:
  "st_latest_prices (book_fill f st) = st_latest_prices st"
  "st_initial_equity (book_fill f st) = st_initial_equity st"
  "st_total_fills (book_fill f st) = Suc (st_total_fills st)"
  "st_equity_curve (book_fill f st) = st_equity_curve st"
  "st_peak_equity (book_fill f st) = st_peak_equity st"
  "st_fills (book_fill f st) = st_fills st"
  "st_tca_results (book_fill f st) = st_tca_results st"
  by (simp_all add: book_fill_def Let_def split: prod.split)

lemma process_fields [simp]:
  "st_portfolio (snd (process_fill f st)) = st_portfolio (book_fill f st)"
  "st_latest_prices (snd (process_fill f st)) = st_latest_prices st"
  "st_initial_equity (snd (process_fill f st)) = st_initial_equity st"
  "st_total_fills (snd (process_fill f st)) = Suc (st_total_fills st)"
  "st_winning_fills (snd (process_fill f st)) = st_winning_fills (book_fill f st)"
  "st_gross_profit (snd (process_fill f st)) = st_gross_profit (book_fill f st)"
  "st_gross_loss (snd (process_fill f st)) = st_gross_loss (book_fill f st)"
  by (simp_all add: process_fill_def Let_def split: sum.split)

lemma price_fields [simp]:
  "st_portfolio (update_price s p t st) = st_portfolio st"
  "st_initial_equity (update_price s p t st) = st_initial_equity st"
  "st_total_fills (update_price s p t st) = st_total_fills st"
  "st_winning_fills (update_price s p t st) = st_winning_fills st"
  "st_gross_profit (update_price s p t st) = st_gross_profit st"
  "st_gross_loss (update_price s p t st) = st_gross_loss st"
  "st_equity_curve (update_price s p t st) = st_equity_curve st"
  "st_peak_equity (update_price s p t st) = st_peak_equity st"
  by (simp_all add: update_price_def Let_def)

datatype state_event =
    Fill_event fill_record
  | Price_event string real int
  | Signal_event string int string string string real real

fun state_step :: "post_trade_state \<Rightarrow> state_event \<Rightarrow> post_trade_state" where
  "state_step st (Fill_event f) = snd (process_fill f st)"
| "state_step st (Price_event s p t) = update_price s p t st"
| "state_step st (Signal_event i t strat s side str mid) = state_record_signal i t strat s side str mid st"

fun fills_of :: "state_event list \<Rightarrow> fill_record list" where
  "fills_of [] = []"
| "fills_of (Fill_event f # es) = f # fills_of es"
| "fills_of (_ # es) = fills_of es"

lemma fills_of_append [simp]: "fills_of (es @ es') = fills_of es @ fills_of es'"
  by (induction es rule: fills_of.induct) simp_all

lemma position_of_update [simp]:
  "position_of (AList.update k v pf) s = (if s = k then v else position_of pf s)"
  by (simp add: position_of_def update_conv')

lemma portfolio_fold:
  "map_of (st_portfolio (foldl state_step (state_init e) evs)) s =
     (if filter (\<lambda>f. fr_symbol f = s) (fills_of evs) = [] then None
      else Some (foldl apply_one (new_position s) (map fill_of (filter (\<lambda>f. fr_symbol f = s) (fills_of evs)))))"
proof (induction evs rule: rev_induct)
  case (snoc ev evs)
  then show ?case
    by (cases ev) (auto simp: book_fill_portfolio position_of_def update_conv' state_record_signal_def)
qed (simp add: state_init_def)

text \<open>
  The portfolio is the per-symbol fold of the fills: in every state the store can reach, from any
  interleaving of fills, price updates and signals (fills whose cost analysis raises included),
  the position of a symbol is what the average cost accounting makes of exactly that symbol's
  fills in their order; symbols without a fill have no position.
\<close>

theorem portfolio_is_fold_of_fills:
  "let st = foldl state_step (state_init e) evs; fs = filter (\<lambda>f. fr_symbol f = s) (fills_of evs) in
   map_of (st_portfolio st) s =
     (if fs = [] then None else Some (foldl apply_one (new_position s) (map fill_of fs)))"
  by (simp add: Let_def portfolio_fold)

section \<open>Equity\<close>

lemma sum_update:
  fixes g :: "'v \<Rightarrow> real"
  assumes "dict_wf d"
  shows "sum_list (map (\<lambda>(_, p). g p) (AList.update k v d)) =
    sum_list (map (\<lambda>(_, p). g p) d) - (case map_of d k of None \<Rightarrow> 0 | Some w \<Rightarrow> g w) + g v"
  using assms
proof (induction d)
  case (Cons x d)
  show ?case
  proof (cases "fst x = k")
    case True
    then have "k \<notin> fst ` set d" using Cons.prems by (auto simp: dict_wf_def)
    with True show ?thesis by (cases x) simp
  next
    case False
    with Cons show ?thesis by (cases x) (simp add: dict_wf_def)
  qed
qed simp

lemma sum_book:
  fixes g :: "position \<Rightarrow> real"
  assumes "dict_wf (st_portfolio st)" and "\<And>s. g (new_position s) = 0"
  shows "sum_list (map (\<lambda>(_, p). g p) (st_portfolio (book_fill f st))) =
    sum_list (map (\<lambda>(_, p). g p) (st_portfolio st)) +
    (g (apply_one (position_of (st_portfolio st) (fr_symbol f)) (fill_of f)) - g (position_of (st_portfolio st) (fr_symbol f)))"
  using assms by (simp add: book_fill_portfolio sum_update position_of_def split: option.split)

definition booked_value :: "portfolio \<Rightarrow> real" where
  "booked_value pf = sum_list (map (\<lambda>(_, p). book_value p) pf)"

definition market_value :: "(string, real) dict \<Rightarrow> portfolio \<Rightarrow> real" where
  \<comment> \<open>the inventory at the latest prices, at the entry price where there is none\<close>
  "market_value prices pf =
     sum_list (map (\<lambda>(_, p). pn_quantity p * dget prices (pn_symbol p) (pn_avg_entry_price p)) pf)"

lemma pnl_split:
  "total_realized_pnl pf + total_unrealized_pnl prices pf = market_value prices pf - booked_value pf"
  by (induction pf)
     (auto simp: total_realized_pnl_def total_unrealized_pnl_def market_value_def booked_value_def
      unrealized_linear book_value_def algebra_simps)

definition equity_inv :: "real \<Rightarrow> fill_record list \<Rightarrow> post_trade_state \<Rightarrow> bool" where
  "equity_inv e fs st \<longleftrightarrow> dict_wf (st_portfolio st) \<and> st_initial_equity st = e \<and>
     booked_value (st_portfolio st) = net_cost (map fill_of fs) \<and>
     total_fees (st_portfolio st) = sum_list (map fr_fee fs) \<and>
     total_realized_pnl (st_portfolio st) = st_gross_profit st - st_gross_loss st \<and>
     0 \<le> st_gross_profit st \<and> 0 \<le> st_gross_loss st \<and>
     st_winning_fills st \<le> st_total_fills st \<and> st_total_fills st = length fs"

lemma book_fill_gains:
  defines "r \<equiv> \<lambda>f st. pn_realized_pnl (apply_one (position_of (st_portfolio st) (fr_symbol f)) (fill_of f)) -
    pn_realized_pnl (position_of (st_portfolio st) (fr_symbol f))"
  shows "st_gross_profit (book_fill f st) = st_gross_profit st + max (r f st) 0"
    "st_gross_loss (book_fill f st) = st_gross_loss st + max (- r f st) 0"
    "st_winning_fills (book_fill f st) = st_winning_fills st + (if 0 < r f st then 1 else 0)"
proof -
  obtain x p where a: "apply_fill (fr_quantity f) (fr_fill_price f) (fr_fee f) (fr_side f)
      (position_of (st_portfolio st) (fr_symbol f)) = (x, p)" by fastforce
  then have "r f st = x"
    using apply_fill_realized [of "fr_quantity f" "fr_fill_price f" "fr_fee f" "fr_side f"
        "position_of (st_portfolio st) (fr_symbol f)"]
    by (simp add: r_def apply_one_def fill_of_def)
  with a show "st_gross_profit (book_fill f st) = st_gross_profit st + max (r f st) 0"
    "st_gross_loss (book_fill f st) = st_gross_loss st + max (- r f st) 0"
    "st_winning_fills (book_fill f st) = st_winning_fills st + (if 0 < r f st then 1 else 0)"
    by (simp_all add: book_fill_def created Let_def)
qed

lemma equity_inv_book:
  assumes "equity_inv e fs st"
  shows "equity_inv e (fs @ [f]) (book_fill f st)"
proof -
  have wf: "dict_wf (st_portfolio st)" using assms by (simp add: equity_inv_def)
  note sums = sum_book [OF wf, where f = f]
  have "booked_value (st_portfolio (book_fill f st)) = booked_value (st_portfolio st) +
      signed_qty (fr_side f) (fr_quantity f) * fr_fill_price f"
    using sums [of book_value]
    by (simp add: booked_value_def book_value_def new_position_def)
       (simp add: apply_one_def book_value_fill [unfolded book_value_def] fill_of_def)
  moreover have "total_fees (st_portfolio (book_fill f st)) = total_fees (st_portfolio st) + fr_fee f"
    using sums [of pn_total_fees]
    by (simp add: total_fees_def new_position_def apply_one_def apply_fill_fees fill_of_def)
  moreover have "total_realized_pnl (st_portfolio (book_fill f st)) =
      st_gross_profit (book_fill f st) - st_gross_loss (book_fill f st)"
    using sums [of pn_realized_pnl] assms
    by (simp add: total_realized_pnl_def new_position_def equity_inv_def book_fill_gains max_def)
  moreover have "dict_wf (st_portfolio (book_fill f st))" using wf by (simp add: book_fill_portfolio)
  ultimately show ?thesis
    using assms by (auto simp: equity_inv_def net_cost_def fill_of_def book_fill_gains)
qed

lemma equity_inv_init: "equity_inv e [] (state_init e)"
  by (simp add: equity_inv_def state_init_def booked_value_def net_cost_def total_fees_def total_realized_pnl_def)

lemma equity_inv_events: "equity_inv e (fills_of evs) (foldl state_step (state_init e) evs)"
proof (induction evs rule: rev_induct)
  case (snoc ev evs)
  show ?case
  proof (cases ev)
    case (Fill_event f)
    from equity_inv_book [OF snoc.IH, of f] Fill_event show ?thesis by (simp add: equity_inv_def)
  qed (use snoc.IH in \<open>simp_all add: equity_inv_def state_record_signal_def\<close>)
qed (simp add: equity_inv_init)

text \<open>
  C10. Equity is cash plus inventory: after any sequence of events the equity the store computes from
  realised and unrealised profit is the initial equity minus what the fills cost, minus their fees,
  plus the inventory at the latest prices (at the entry price for a symbol without one).
\<close>

theorem equity_is_cash_plus_inventory:
  "let st = foldl state_step (state_init e) evs; fs = fills_of evs in
   compute_equity st = (e - net_cost (map fill_of fs) - sum_list (map fr_fee fs)) +
     market_value (st_latest_prices st) (st_portfolio st)"
proof -
  define st where "st = foldl state_step (state_init e) evs"
  have "equity_inv e (fills_of evs) st" unfolding st_def by (rule equity_inv_events)
  then show ?thesis
    unfolding Let_def st_def [symmetric]
    using pnl_split [of "st_portfolio st" "st_latest_prices st"] by (simp add: compute_equity_def equity_inv_def)
qed

section \<open>Counters and peak\<close>

definition peak_inv :: "post_trade_state \<Rightarrow> bool" where
  "peak_inv st \<longleftrightarrow> st_initial_equity st \<le> st_peak_equity st \<and>
     (\<forall>s \<in> set (st_equity_curve st). eq_equity s \<le> st_peak_equity st) \<and>
     (st_peak_equity st = st_initial_equity st \<or> st_peak_equity st \<in> eq_equity ` set (st_equity_curve st)) \<and>
     length (st_fills st) = length (st_tca_results st) \<and> length (st_equity_curve st) = length (st_fills st) \<and>
     length (st_fills st) \<le> st_total_fills st"

lemma snapshot_curve:
  "st_equity_curve (snapshot_equity f st) = st_equity_curve st @ [\<lparr>eq_timestamp = fr_timestamp f,
     eq_equity = compute_equity st, eq_realized_pnl = total_realized_pnl (st_portfolio st),
     eq_unrealized_pnl = total_unrealized_pnl (st_latest_prices st) (st_portfolio st)\<rparr>]"
  "st_peak_equity (snapshot_equity f st) = max (st_peak_equity st) (compute_equity st)"
  by (simp_all add: snapshot_equity_def Let_def)

lemma peak_inv_step: "peak_inv st \<Longrightarrow> peak_inv (state_step st ev)"
proof (cases ev)
  case (Fill_event f)
  assume inv: "peak_inv st"
  have book: "peak_inv (book_fill f st)" using inv by (auto simp: peak_inv_def)
  show ?thesis
  proof (cases "snd (process_fill f st) = book_fill f st")
    case False
    then obtain tca where "snd (process_fill f st) = snapshot_equity f ((book_fill f st)
        \<lparr>st_tca_results := st_tca_results (book_fill f st) @ [tca], st_fills := st_fills (book_fill f st) @ [f]\<rparr>)"
      by (auto simp: process_fill_def Let_def split: sum.splits)
    with inv Fill_event show ?thesis
      by (auto simp: peak_inv_def snapshot_curve max_def)
  qed (use book Fill_event in simp)
qed (auto simp: peak_inv_def state_record_signal_def update_price_def Let_def)

interpretation post_trade: machine state_step "\<lambda>_. True" peak_inv
  by unfold_locales (rule peak_inv_step)

text \<open>
  The store's counters are sound in every reachable state: gross profit minus gross loss is the total
  realised profit and neither is negative, there are no more winning fills than fills and as many
  fills as were processed, the peak equity is the highest of the initial equity and the
  equity curve, and fills, cost analyses and curve have one entry each per successful fill.
\<close>

theorem post_trade_counters:
  "let st = foldl state_step (state_init e) evs in
   st_gross_profit st - st_gross_loss st = total_realized_pnl (st_portfolio st) \<and>
   0 \<le> st_gross_profit st \<and> 0 \<le> st_gross_loss st \<and>
   st_winning_fills st \<le> st_total_fills st \<and> st_total_fills st = length (fills_of evs) \<and>
   st_peak_equity st = Max (insert e (eq_equity ` set (st_equity_curve st))) \<and>
   length (st_tca_results st) = length (st_fills st) \<and> length (st_equity_curve st) = length (st_fills st)"
proof -
  define st where "st = foldl state_step (state_init e) evs"
  have inv: "equity_inv e (fills_of evs) st" unfolding st_def by (rule equity_inv_events)
  have "peak_inv (state_init e)" by (simp add: peak_inv_def state_init_def)
  then have peak: "peak_inv st" unfolding st_def by (rule post_trade.inv_run) (simp add: list_all_iff)
  have "Max (insert e (eq_equity ` set (st_equity_curve st))) = st_peak_equity st"
    using inv peak by (intro Max_eqI) (auto simp: equity_inv_def peak_inv_def)
  then show ?thesis
    unfolding Let_def st_def [symmetric] using inv peak by (simp add: equity_inv_def peak_inv_def)
qed

end
