(* ===== verification/Post_Trade_Service.thy ===== *)
theory Post_Trade_Service
  imports Post_Trade_State Models Kafka_Utils Metrics_Registry
begin

text \<open>
  \<open>services/post-trade/post_trade_svc/main.py\<close>: the consume loop that feeds the store and writes the
  portfolio to Redis. An exception that escapes the body of the loop (\<open>process_fill\<close> is called outside
  any \<open>try\<close>) ends the loop: \<open>pt_running\<close> turns false. The pipelines executed on Redis are
  recorded; the environment of an iteration says whether the pipeline raises.
\<close>

record post_trade_svc =
  pt_running :: bool
  pt_run_id :: string
  pt_state :: post_trade_state
  pt_metrics :: metrics
  pt_producer :: qproducer
  pt_redis_cmds :: "redis_cmd list"
  pt_fill_count :: nat
  pt_trade_count :: nat
  pt_signal_count :: nat

record post_trade_env =
  pe_uid :: string
  pe_redis_error :: "py_error option"

definition post_trade_name :: string where "post_trade_name = ''post-trade''"

definition post_trade_init :: "string option \<Rightarrow> post_trade_svc" where
  "post_trade_init backtest_id =
     \<lparr>pt_running = True,
      pt_run_id = (case backtest_id of None \<Rightarrow> ''live'' | Some b \<Rightarrow> if b = '''' then ''live'' else b),
      pt_state = state_init initial_equity, pt_metrics = metrics_init post_trade_name,
      pt_producer = producer_init backtest_id, pt_redis_cmds = [], pt_fill_count = 0, pt_trade_count = 0,
      pt_signal_count = 0\<rparr>"

definition post_trade_heartbeat :: "int \<Rightarrow> post_trade_svc \<Rightarrow> post_trade_svc" where
  "post_trade_heartbeat now svc = svc\<lparr>pt_producer := publish topic_heartbeat post_trade_name
     (JObj [(''service'', JStr post_trade_name), (''timestamp'', JInt now)]) (pt_producer svc)\<rparr>"

definition record_of_fill :: "fill \<Rightarrow> fill_record" where
  "record_of_fill f = \<lparr>fr_fill_id = fl_fill_id f, fr_timestamp = fl_timestamp f, fr_symbol = fl_symbol f,
     fr_side = fl_side f, fr_quantity = fl_quantity f, fr_fill_price = fl_fill_price f, fr_fee = fl_fee f,
     fr_slippage_bps = fl_slippage_bps f, fr_strategy_id = fl_strategy_id f, fr_decision_price = 0,
     fr_trading_mode = fl_trading_mode f\<rparr>"

definition positions_for_redis :: "pnl_summary \<Rightarrow> (string, (string, real) dict) dict" where
  "positions_for_redis d = map (\<lambda>(name, v). (name,
     [(''quantity'', pv_quantity v), (''avg_entry_price'', pv_avg_entry_price v),
      (''realized_pnl'', pv_realized_pnl v), (''unrealized_pnl'', pv_unrealized_pnl v)])) (sm_positions d)"

definition portfolio_gauges :: "pnl_summary \<Rightarrow> real \<Rightarrow> metrics \<Rightarrow> metrics" where
  "portfolio_gauges d peak m =
     metric_set_gauge ''portfolio_drawdown_pct'' (if 0 < peak then 1 - sm_current_equity d / peak else 0) None
     (metric_set_gauge ''portfolio_total_fees'' (sm_total_fees d) None
     (metric_set_gauge ''portfolio_unrealized_pnl'' (sm_total_unrealized_pnl d) None
     (metric_set_gauge ''portfolio_realized_pnl'' (sm_total_realized_pnl d) None
     (metric_set_gauge ''portfolio_peak_equity'' peak None
     (metric_set_gauge ''portfolio_equity'' (sm_current_equity d) None m)))))"

definition sync_state :: "post_trade_env \<Rightarrow> post_trade_svc \<Rightarrow> post_trade_svc" where
  \<comment> \<open>the \<open>try\<close> block after a fill: any exception in it is logged and dropped\<close>
  "sync_state env svc =
     (case get_pnl_summary None (pt_state svc) of
        Inl _ \<Rightarrow> svc
      | Inr d \<Rightarrow>
          let peak = st_peak_equity (pt_state svc);
              cmds = sync_portfolio_to_redis (pt_run_id svc) (positions_for_redis d) (sm_current_equity d) peak
                (sm_total_realized_pnl d) (sm_total_unrealized_pnl d) (sm_total_fees d) in
          if pe_redis_error env \<noteq> None then svc
          else svc\<lparr>pt_redis_cmds := pt_redis_cmds svc @ cmds, pt_metrics := portfolio_gauges d peak (pt_metrics svc)\<rparr>)"

definition on_fill :: "post_trade_env \<Rightarrow> fill \<Rightarrow> post_trade_svc \<Rightarrow> post_trade_svc" where
  "on_fill env f svc =
     (case process_fill (record_of_fill f) (pt_state svc) of
        (Some _, st) \<Rightarrow> svc\<lparr>pt_state := st, pt_running := False\<rparr>
      | (None, st) \<Rightarrow>
          sync_state env (svc\<lparr>pt_state := st, pt_fill_count := pt_fill_count svc + 1,
            pt_metrics := metric_set_gauge ''portfolio_equity'' (st_peak_equity st) None
              (metric_inc ''fills_processed'' 1 (Some [(''symbol'', fl_symbol f)]) (pt_metrics svc))\<rparr>))"

definition on_signal_message :: "signal \<Rightarrow> post_trade_svc \<Rightarrow> post_trade_svc" where
  "on_signal_message sig svc = svc
     \<lparr>pt_state := state_record_signal (sg_signal_id sig) (sg_timestamp sig) (sg_strategy_id sig) (sg_symbol sig)
        (sg_side sig) (sg_strength sig) (sg_mid_price_at_signal sig) (pt_state svc),
      pt_signal_count := pt_signal_count svc + 1\<rparr>"

definition trade_timestamp :: "trade \<Rightarrow> py_error + int" where
  \<comment> \<open>the attribute \<open>timestamp\<close>, which \<open>Trade\<close> does not have\<close>
  "trade_timestamp t = Inl (AttributeError ''timestamp'')"

definition on_trade_message :: "trade \<Rightarrow> post_trade_svc \<Rightarrow> post_trade_svc" where
  \<comment> \<open>the arguments are evaluated before the call; \<open>except Exception: pass\<close>\<close>
  "on_trade_message t svc =
     (case trade_timestamp t of
        Inl _ \<Rightarrow> svc
      | Inr ts \<Rightarrow> svc\<lparr>pt_state := update_price (tr_symbol t) (tr_price t) ts (pt_state svc),
          pt_trade_count := pt_trade_count svc + 1,
          pt_metrics := metric_inc ''trades_processed'' 1 (Some [(''symbol'', tr_symbol t)]) (pt_metrics svc)\<rparr>)"

definition post_trade_step :: "post_trade_svc \<Rightarrow> post_trade_env \<times> kafka_message option \<Rightarrow> post_trade_svc" where
  "post_trade_step svc = (\<lambda>(env, msg).
     if \<not> pt_running svc then svc
     else case msg of None \<Rightarrow> svc
     | Some m \<Rightarrow>
         if km_error m \<noteq> None then svc
         else if km_topic m = topic_fills then
           (case ebind (loads (km_value m)) (fill_from_json (pe_uid env)) of
              Inl _ \<Rightarrow> svc | Inr f \<Rightarrow> on_fill env f svc)
         else if km_topic m = topic_signals then
           (case ebind (loads (km_value m)) (signal_from_json (pe_uid env)) of
              Inl _ \<Rightarrow> svc | Inr sig \<Rightarrow> on_signal_message sig svc)
         else if km_topic m = topic_raw_trades then
           (case ebind (loads (km_value m)) trade_from_json of
              Inl _ \<Rightarrow> svc | Inr t \<Rightarrow> on_trade_message t svc)
         else svc)"

section \<open>Which events reach the store\<close>

lemma sync_state_fields [simp]:
  "pt_state (sync_state env svc) = pt_state svc" "pt_running (sync_state env svc) = pt_running svc"
  "pt_run_id (sync_state env svc) = pt_run_id svc" "pt_fill_count (sync_state env svc) = pt_fill_count svc"
  by (simp_all add: sync_state_def Let_def split: sum.split)

lemma on_fill_state [simp]:
  "pt_state (on_fill env f svc) = state_step (pt_state svc) (Fill_event (record_of_fill f))"
  by (simp add: on_fill_def split: prod.split option.split)

lemma on_trade_nothing [simp]: "on_trade_message t svc = svc"
  by (simp add: on_trade_message_def trade_timestamp_def)

text \<open>The store of the service only ever sees fills and signals.\<close>

fun no_price :: "state_event \<Rightarrow> bool" where
  "no_price (Price_event s p t) = False"
| "no_price _ = True"

lemma post_trade_step_state:
  "pt_state (post_trade_step svc (env, msg)) = pt_state svc \<or>
   (\<exists>ev. no_price ev \<and> pt_state (post_trade_step svc (env, msg)) = state_step (pt_state svc) ev)"
proof -
  have "post_trade_step svc (env, msg) = svc \<or> (\<exists>f. post_trade_step svc (env, msg) = on_fill env f svc) \<or>
      (\<exists>sig. post_trade_step svc (env, msg) = on_signal_message sig svc)"
    by (auto simp: post_trade_step_def split: option.splits sum.splits)
  then consider "post_trade_step svc (env, msg) = svc" | (f) f where "post_trade_step svc (env, msg) = on_fill env f svc"
    | (s) sig where "post_trade_step svc (env, msg) = on_signal_message sig svc"
    by blast
  then show ?thesis
  proof cases
    case f
    then show ?thesis by (intro disjI2 exI [of _ "Fill_event (record_of_fill f)"]) simp
  next
    case s
    then show ?thesis
      by (intro disjI2 exI [of _ "Signal_event (sg_signal_id sig) (sg_timestamp sig) (sg_strategy_id sig) (sg_symbol sig)
        (sg_side sig) (sg_strength sig) (sg_mid_price_at_signal sig)"]) (simp add: on_signal_message_def)
  qed simp
qed

definition store_reached :: "post_trade_svc \<Rightarrow> bool" where
  "store_reached svc \<longleftrightarrow> (\<exists>evs. list_all no_price evs \<and> pt_state svc = foldl state_step (state_init initial_equity) evs)"

lemma store_reached_step: "store_reached svc \<Longrightarrow> store_reached (post_trade_step svc e)"
proof -
  assume "store_reached svc"
  then obtain evs where evs: "list_all no_price evs" "pt_state svc = foldl state_step (state_init initial_equity) evs"
    by (auto simp: store_reached_def)
  obtain env msg where e: "e = (env, msg)" by fastforce
  consider "pt_state (post_trade_step svc e) = pt_state svc"
    | (ev) ev where "no_price ev" "pt_state (post_trade_step svc e) = state_step (pt_state svc) ev"
    using post_trade_step_state [of svc env msg] unfolding e by blast
  then show ?thesis
  proof cases
    case ev
    with evs show ?thesis unfolding store_reached_def by (intro exI [of _ "evs @ [ev]"]) simp
  qed (use evs in \<open>auto simp: store_reached_def\<close>)
qed

interpretation post_trade_svc: machine post_trade_step "\<lambda>_. True" store_reached
  by unfold_locales (rule store_reached_step)

lemma store_reached_init: "store_reached (post_trade_init b)"
  unfolding store_reached_def post_trade_init_def by (rule exI [of _ "[]"]) simp

lemma no_price_latest: "list_all no_price evs \<Longrightarrow> st_latest_prices (foldl state_step (state_init e) evs) = []"
proof (induction evs rule: rev_induct)
  case (snoc ev evs)
  then show ?case by (cases ev) (simp_all add: state_record_signal_def)
qed (simp add: state_init_def)

text \<open>
  C19. Trades never reach the store: the service reads an attribute of the trade that does not exist and
  drops the exception, so whatever messages it gets no price is ever recorded,
  the unrealised profit it reports is always 0 and the equity it works with is the
  initial equity plus realised profit minus fees.
\<close>

theorem trades_never_update_prices:
  "let st = pt_state (foldl post_trade_step (post_trade_init backtest_id) msgs) in
   st_latest_prices st = [] \<and> total_unrealized_pnl (st_latest_prices st) (st_portfolio st) = 0 \<and>
   compute_equity st = st_initial_equity st + total_realized_pnl (st_portfolio st) - total_fees (st_portfolio st)"
proof -
  define svc where "svc = foldl post_trade_step (post_trade_init backtest_id) msgs"
  have "store_reached svc"
    unfolding svc_def by (rule post_trade_svc.inv_run [OF store_reached_init]) (simp add: list_all_iff)
  then have none: "st_latest_prices (pt_state svc) = []" by (auto simp: store_reached_def no_price_latest)
  have "total_unrealized_pnl [] pf = 0" for pf :: portfolio
    by (induction pf) (auto simp: total_unrealized_pnl_def unrealized_linear)
  with none show ?thesis unfolding Let_def svc_def [symmetric] by (simp add: compute_equity_def)
qed

text \<open>
  One bad fill stops the service: a fill at price 0 of a symbol without a known price raises in the
  cost analysis; the position and the counters have already changed, the exception ends the
  consume loop, and no later message has any effect.
\<close>

theorem zero_price_fill_stops_service:
  fixes env :: post_trade_env and svc :: post_trade_svc
  assumes "pt_running svc" and "fl_fill_price f = 0" and "map_of (st_latest_prices (pt_state svc)) (fl_symbol f) = None"
  defines "svc' \<equiv> on_fill env f svc"
  shows "\<not> pt_running svc' \<and> st_total_fills (pt_state svc') = Suc (st_total_fills (pt_state svc)) \<and>
    pt_redis_cmds svc' = pt_redis_cmds svc \<and> foldl post_trade_step svc' msgs = svc'"
proof -
  have stopped: "\<not> pt_running svc'" and cmds: "pt_redis_cmds svc' = pt_redis_cmds svc"
    using assms(2,3)
    by (simp_all add: svc'_def on_fill_def process_fill_def Let_def record_of_fill_def dget_def analyze_fill_def
        split: prod.split)
  have "post_trade_step svc' m = svc'" for m using stopped by (simp add: post_trade_step_def split: prod.split)
  then have "foldl post_trade_step svc' msgs = svc'" by (induction msgs) simp_all
  moreover have "st_total_fills (pt_state svc') = Suc (st_total_fills (pt_state svc))" by (simp add: svc'_def)
  ultimately show ?thesis using stopped cmds by simp
qed

definition sample_fill :: "real \<Rightarrow> fill" where
  "sample_fill price = \<lparr>fl_fill_id = ''f1'', fl_timestamp = 1, fl_order_id = ''o1'', fl_symbol = ''BTCUSD'',
     fl_side = ''BUY'', fl_quantity = 2, fl_fill_price = price, fl_fee = 1, fl_fee_rate = 0, fl_is_maker = False,
     fl_slippage_bps = 0, fl_backtest_id = None, fl_strategy_id = ''m'', fl_trading_mode = ''paper''\<rparr>"

lemma zero_price_fill_stops_service_witness:
  "\<not> pt_running (on_fill \<lparr>pe_uid = ''u'', pe_redis_error = None\<rparr> (sample_fill 0) (post_trade_init None))"
  using zero_price_fill_stops_service [of "post_trade_init None" "sample_fill 0"]
  by (simp add: post_trade_init_def sample_fill_def state_init_def)

section \<open>What is written to Redis\<close>

lemma positions_keys: "map fst (positions_for_redis d) = map fst (sm_positions d)"
  by (simp add: positions_for_redis_def o_def case_prod_unfold)

lemma map_of_positions:
  "map_of (positions_for_redis d) s = map_option (\<lambda>v.
     [(''quantity'', pv_quantity v), (''avg_entry_price'', pv_avg_entry_price v),
      (''realized_pnl'', pv_realized_pnl v), (''unrealized_pnl'', pv_unrealized_pnl v)]) (map_of (sm_positions d) s)"
  by (simp add: positions_for_redis_def map_of_map_pair)

lemma summary_positions:
  assumes "get_pnl_summary None st = Inr d"
  shows "map fst (sm_positions d) = map fst (st_portfolio st)"
    "map_of (sm_positions d) s = map_option (view_position (st_latest_prices st) s) (map_of (st_portfolio st) s)"
    "sm_current_equity d = py_round (compute_equity st) 2"
proof -
  have d: "sm_positions d = map (\<lambda>(name, pos). (name, view_position (st_latest_prices st) name pos)) (st_portfolio st)"
      "sm_current_equity d = py_round (compute_equity st) 2"
    using assms by (auto simp: get_pnl_summary_def Let_def wanted_def ebind_eq_Inr)
  then show "map fst (sm_positions d) = map fst (st_portfolio st)" "sm_current_equity d = py_round (compute_equity st) 2"
    by (simp_all add: o_def case_prod_unfold)
  show "map_of (sm_positions d) s = map_option (view_position (st_latest_prices st) s) (map_of (st_portfolio st) s)"
    by (simp add: d(1) map_of_map_pair)
qed

end
