(* ===== verification/Order_Book.thy ===== *)
theory Order_Book
  imports Py_Base Models
begin

text \<open>
  \<open>services/alpha-engine/alpha_engine_svc/order_book.py\<close>: an order book kept from incremental depth
  updates, a dictionary from price to quantity for each side.
\<close>

record order_book =
  ob_symbol :: string
  ob_bids :: "(real, real) dict"
  ob_asks :: "(real, real) dict"

definition book_init :: "string \<Rightarrow> order_book" where
  "book_init symbol = \<lparr>ob_symbol = symbol, ob_bids = [], ob_asks = []\<rparr>"

definition set_level :: "(real, real) dict \<Rightarrow> real \<times> real \<Rightarrow> (real, real) dict" where
  "set_level side = (\<lambda>(price, qty). if qty = 0 then AList.delete price side else AList.update price qty side)"

definition apply_delta :: "depth_update \<Rightarrow> order_book \<Rightarrow> order_book" where
  "apply_delta u book = book\<lparr>ob_bids := foldl set_level (ob_bids book) (dp_bids u),
     ob_asks := foldl set_level (ob_asks book) (dp_asks u)\<rparr>"

definition best_bid :: "order_book \<Rightarrow> (real \<times> real) option" where
  "best_bid book = (if ob_bids book = [] then None
     else let price = py_max (map fst (ob_bids book)) in Some (price, dget (ob_bids book) price 0))"

definition best_ask :: "order_book \<Rightarrow> (real \<times> real) option" where
  "best_ask book = (if ob_asks book = [] then None
     else let price = py_min (map fst (ob_asks book)) in Some (price, dget (ob_asks book) price 0))"

definition mid_price :: "order_book \<Rightarrow> real option" where
  "mid_price book = (case (best_bid book, best_ask book) of
     (Some bid, Some ask) \<Rightarrow> Some ((fst bid + fst ask) / 2) | _ \<Rightarrow> None)"

definition spread :: "order_book \<Rightarrow> real option" where
  "spread book = (case (best_bid book, best_ask book) of
     (Some bid, Some ask) \<Rightarrow> Some (fst ask - fst bid) | _ \<Rightarrow> None)"

definition bid_prices :: "nat \<Rightarrow> order_book \<Rightarrow> real list" where
  \<comment> \<open>\<open>sorted(self._bids.keys(), reverse=True)[:levels]\<close>\<close>
  "bid_prices levels book = take levels (rev (sort (map fst (ob_bids book))))"

definition ask_prices :: "nat \<Rightarrow> order_book \<Rightarrow> real list" where
  "ask_prices levels book = take levels (sort (map fst (ob_asks book)))"

definition imbalance :: "nat \<Rightarrow> order_book \<Rightarrow> real" where
  "imbalance levels book =
     (let bid_volume = sum_list (map (\<lambda>p. dget (ob_bids book) p 0) (bid_prices levels book));
          ask_volume = sum_list (map (\<lambda>p. dget (ob_asks book) p 0) (ask_prices levels book));
          total = bid_volume + ask_volume in
      if total = 0 then 0 else (bid_volume - ask_volume) / total)"

definition top_bids :: "nat \<Rightarrow> order_book \<Rightarrow> (real \<times> real) list" where
  "top_bids levels book = map (\<lambda>p. (p, dget (ob_bids book) p 0)) (bid_prices levels book)"

definition top_asks :: "nat \<Rightarrow> order_book \<Rightarrow> (real \<times> real) list" where
  "top_asks levels book = map (\<lambda>p. (p, dget (ob_asks book) p 0)) (ask_prices levels book)"

section \<open>A side of the book\<close>

text \<open>The quantity a side shows at a price: that of the last update of the price, if not 0.\<close>

definition last_level :: "real \<Rightarrow> (real \<times> real) list \<Rightarrow> real option" where
  "last_level p levels = (case map_of (rev levels) p of None \<Rightarrow> None | Some q \<Rightarrow> if q = 0 then None else Some q)"

lemma map_of_set_level:
  "map_of (set_level side (price, qty)) p = (if p = price then (if qty = 0 then None else Some qty) else map_of side p)"
  by (simp add: set_level_def dict.lookup_insert dict.lookup_remove)

lemma wf_set_level: "dict_wf side \<Longrightarrow> dict_wf (set_level side l)"
  by (simp add: set_level_def split: prod.split)

lemma side_after: "map_of (foldl set_level [] levels) p = last_level p levels" "dict_wf (foldl set_level [] levels)"
proof (induction levels rule: rev_induct)
  case (snoc l levels)
  { case 1 show ?case using snoc by (cases l) (simp add: map_of_set_level last_level_def)
  next case 2 show ?case using snoc by (simp add: wf_set_level) }
qed (simp_all add: last_level_def)

lemma book_after:
  "ob_bids (foldl (\<lambda>b u. apply_delta u b) book us) = foldl set_level (ob_bids book) (concat (map dp_bids us))"
  "ob_asks (foldl (\<lambda>b u. apply_delta u b) book us) = foldl set_level (ob_asks book) (concat (map dp_asks us))"
  by (induction us arbitrary: book) (simp_all add: apply_delta_def)

lemma best_bid_spec:
  "case best_bid book of None \<Rightarrow> (\<forall>p. map_of (ob_bids book) p = None)
   | Some (p, q) \<Rightarrow> map_of (ob_bids book) p = Some q \<and> (\<forall>p' q'. map_of (ob_bids book) p' = Some q' \<longrightarrow> p' \<le> p)"
proof (cases "ob_bids book = []")
  case False
  define p where "p = py_max (map fst (ob_bids book))"
  have "p \<in> set (map fst (ob_bids book))" unfolding p_def using False by (intro py_max_in) simp
  then obtain q where "map_of (ob_bids book) p = Some q"
    by (metis list.set_map map_of_eq_None_iff option.exhaust)
  moreover have "map_of (ob_bids book) p' = Some q' \<Longrightarrow> p' \<le> p" for p' q'
    unfolding p_def by (rule py_max_ge) (force dest: map_of_SomeD)
  ultimately show ?thesis using False by (auto simp: best_bid_def Let_def dget_def simp flip: p_def)
qed (simp add: best_bid_def)

lemma best_ask_spec:
  "case best_ask book of None \<Rightarrow> (\<forall>p. map_of (ob_asks book) p = None)
   | Some (p, q) \<Rightarrow> map_of (ob_asks book) p = Some q \<and> (\<forall>p' q'. map_of (ob_asks book) p' = Some q' \<longrightarrow> p \<le> p')"
proof (cases "ob_asks book = []")
  case False
  define p where "p = py_min (map fst (ob_asks book))"
  have "p \<in> set (map fst (ob_asks book))" unfolding p_def using False by (intro py_min_in) simp
  then obtain q where "map_of (ob_asks book) p = Some q"
    by (metis list.set_map map_of_eq_None_iff option.exhaust)
  moreover have "map_of (ob_asks book) p' = Some q' \<Longrightarrow> p \<le> p'" for p' q'
    unfolding p_def by (rule py_min_le) (force dest: map_of_SomeD)
  ultimately show ?thesis using False by (auto simp: best_ask_def Let_def dget_def simp flip: p_def)
qed (simp add: best_ask_def)

text \<open>
  C17. The book is what the exchange sent: after any depth updates each side shows, at every price, the
  quantity of the last update of that price, or nothing when that quantity was 0 or the price
  never came; best bid and best ask are the highest and lowest price shown, with its quantity.
\<close>

theorem order_book_reflects_updates:
  "let book = foldl (\<lambda>b u. apply_delta u b) (book_init symbol) us;
       bids = (\<lambda>p. last_level p (concat (map dp_bids us))); asks = (\<lambda>p. last_level p (concat (map dp_asks us))) in
   map_of (ob_bids book) = bids \<and> map_of (ob_asks book) = asks \<and>
   (case best_bid book of None \<Rightarrow> dom bids = {}
    | Some (p, q) \<Rightarrow> bids p = Some q \<and> q \<noteq> 0 \<and> (\<forall>p' \<in> dom bids. p' \<le> p)) \<and>
   (case best_ask book of None \<Rightarrow> dom asks = {}
    | Some (p, q) \<Rightarrow> asks p = Some q \<and> q \<noteq> 0 \<and> (\<forall>p' \<in> dom asks. p \<le> p'))"
proof -
  define book where "book = foldl (\<lambda>b u. apply_delta u b) (book_init symbol) us"
  have sides: "map_of (ob_bids book) = (\<lambda>p. last_level p (concat (map dp_bids us)))"
      "map_of (ob_asks book) = (\<lambda>p. last_level p (concat (map dp_asks us)))"
    by (simp_all add: book_def book_after book_init_def side_after fun_eq_iff)
  have nz: "last_level p levels = Some q \<Longrightarrow> q \<noteq> 0" for p levels q
    by (auto simp: last_level_def split: option.splits if_splits)
  show ?thesis
    using best_bid_spec [of book] best_ask_spec [of book]
    unfolding Let_def book_def [symmetric] sides by (auto simp: dom_def split: option.splits dest: nz)
qed

definition sample_updates :: "depth_update list" where
  "sample_updates = [depth_default\<lparr>dp_bids := [(100, 2), (101, 1)]\<rparr>, depth_default\<lparr>dp_bids := [(101, 0)]\<rparr>]"

lemma sample_levels:
  "last_level p (concat (map dp_bids sample_updates)) = (if p = 100 then Some 2 else None)"
  by (simp add: sample_updates_def last_level_def)

lemma order_book_reflects_updates_witness:
  "best_bid (foldl (\<lambda>b u. apply_delta u b) (book_init ''BTCUSD'') sample_updates) = Some (100, 2)"
proof -
  define book where "book = foldl (\<lambda>b u. apply_delta u b) (book_init ''BTCUSD'') sample_updates"
  have "case best_bid book of None \<Rightarrow> dom (\<lambda>p::real. if p = 100 then Some (2::real) else None) = {}
      | Some (p, q) \<Rightarrow> (if p = 100 then Some 2 else None) = Some q \<and> q \<noteq> 0 \<and>
          (\<forall>p' \<in> dom (\<lambda>p::real. if p = 100 then Some (2::real) else None). p' \<le> p)"
    using order_book_reflects_updates [of "''BTCUSD''" sample_updates]
    unfolding Let_def book_def [symmetric] sample_levels by (elim conjE)
  moreover have "100 \<in> dom (\<lambda>p::real. if p = 100 then Some (2::real) else None)" by (rule domI [of _ _ 2]) simp
  ultimately show ?thesis
    unfolding book_def [symmetric] by (cases "best_bid book") (auto split: if_splits)
qed

section \<open>Imbalance\<close>

lemma volume_nonneg:
  fixes side :: "(real, real) dict"
  shows "\<forall>(p, q) \<in> set side. 0 \<le> q \<Longrightarrow> 0 \<le> sum_list (map (\<lambda>p. dget side p 0) ps)"
  by (rule sum_list_nonneg) (auto simp: dget_def split: option.split dest!: map_of_SomeD)

lemma imbalance_bounded:
  assumes "\<forall>(p, q) \<in> set (ob_bids book). 0 \<le> q" and "\<forall>(p, q) \<in> set (ob_asks book). 0 \<le> q"
  shows "\<bar>imbalance levels book\<bar> \<le> 1"
proof -
  have "\<bar>(a - b) / (a + b)\<bar> \<le> 1" if "0 \<le> a" "0 \<le> b" for a b :: real using that by (rule share_bounded)
  then show ?thesis using assms by (simp add: imbalance_def Let_def volume_nonneg)
qed

end
