(* ===== verification/Feature_Engine.thy ===== *)
theory Feature_Engine
  imports Py_Base
begin

text \<open>
  \<open>services/alpha-engine/alpha_engine_svc/feature_engine.py\<close>: rolling features of the tick stream. The
  engine keeps the last \<open>window_size\<close> prices, quantities, sides and times in four queues, and the
  sums behind the volume weighted average price incrementally.
\<close>

record features =
  ft_timestamp :: int
  ft_symbol :: string
  ft_vwap :: real
  ft_trade_imbalance :: real
  ft_volatility :: real
  ft_trade_rate :: real
  ft_mid_price :: "real option"
  ft_spread :: "real option"
  ft_book_imbalance :: real

definition no_features :: "string \<Rightarrow> features" where
  "no_features symbol = \<lparr>ft_timestamp = 0, ft_symbol = symbol, ft_vwap = 0, ft_trade_imbalance = 0, ft_volatility = 0,
     ft_trade_rate = 0, ft_mid_price = None, ft_spread = None, ft_book_imbalance = 0\<rparr>"

record feature_engine =
  fe_symbol :: string
  fe_window_size :: nat
  fe_prices :: "real list"
  fe_quantities :: "real list"
  fe_sides :: "bool list"
  fe_timestamps :: "int list"
  fe_pv_sum :: real
  fe_v_sum :: real
  fe_mid_price :: "real option"
  fe_spread :: "real option"
  fe_book_imbalance :: real

definition feature_init :: "string \<Rightarrow> nat \<Rightarrow> feature_engine" where
  "feature_init symbol window_size = \<lparr>fe_symbol = symbol, fe_window_size = window_size, fe_prices = [],
     fe_quantities = [], fe_sides = [], fe_timestamps = [], fe_pv_sum = 0, fe_v_sum = 0,
     fe_mid_price = None, fe_spread = None, fe_book_imbalance = 0\<rparr>"

definition feature_on_trade :: "real \<Rightarrow> real \<Rightarrow> bool \<Rightarrow> int \<Rightarrow> feature_engine \<Rightarrow> py_error + feature_engine" where
  \<comment> \<open>with a window of size 0 the empty queue is full and has no oldest element: \<open>IndexError\<close>\<close>
  "feature_on_trade price quantity is_buyer_maker timestamp_ms fe =
     (if length (fe_prices fe) = fe_window_size fe \<and> (fe_prices fe = [] \<or> fe_quantities fe = []) then Inl IndexError
      else
        let full = length (fe_prices fe) = fe_window_size fe;
            old_p = hd (fe_prices fe); old_q = hd (fe_quantities fe);
            pv_sum = (if full then fe_pv_sum fe - old_p * old_q else fe_pv_sum fe);
            v_sum = (if full then fe_v_sum fe - old_q else fe_v_sum fe); n = fe_window_size fe in
        Inr (fe\<lparr>fe_prices := deque_append n (fe_prices fe) price,
          fe_quantities := deque_append n (fe_quantities fe) quantity,
          fe_sides := deque_append n (fe_sides fe) is_buyer_maker,
          fe_timestamps := deque_append n (fe_timestamps fe) timestamp_ms,
          fe_pv_sum := pv_sum + price * quantity, fe_v_sum := v_sum + quantity\<rparr>))"

definition on_book_snapshot :: "real option \<Rightarrow> real option \<Rightarrow> real \<Rightarrow> feature_engine \<Rightarrow> feature_engine" where
  "on_book_snapshot mid_price spread imbalance fe =
     fe\<lparr>fe_mid_price := mid_price, fe_spread := spread, fe_book_imbalance := imbalance\<rparr>"

fun simple_returns :: "real list \<Rightarrow> real list" where
  \<comment> \<open>the relative changes between neighbours whose first price is positive\<close>
  "simple_returns (p # q # ps) = (if 0 < p then [q / p - 1] else []) @ simple_returns (q # ps)"
| "simple_returns _ = []"

definition window_volatility :: "real list \<Rightarrow> real" where
  "window_volatility prices =
     (let returns = simple_returns prices in
      if 2 \<le> length prices \<and> 2 \<le> length returns
      then sqrt (sq_dev returns / (real (length returns) - 1)) else 0)"

definition window_vwap :: "feature_engine \<Rightarrow> real" where
  "window_vwap fe = (if 0 < fe_v_sum fe then fe_pv_sum fe / fe_v_sum fe else 0)"

definition window_imbalance :: "feature_engine \<Rightarrow> real" where
  "window_imbalance fe =
     (let marked = zip (fe_quantities fe) (fe_sides fe);
          buy_vol = sum_list (map fst (filter snd marked));
          sell_vol = sum_list (map fst (filter (\<lambda>x. \<not> snd x) marked));
          total_vol = buy_vol + sell_vol in
      if 0 < total_vol then (buy_vol - sell_vol) / total_vol else 0)"

definition window_rate :: "int list \<Rightarrow> real" where
  "window_rate timestamps =
     (let n = length timestamps; time_span_s = of_int (last timestamps - hd timestamps) / 1000 in
      if 2 \<le> n \<and> 0 < time_span_s then real n / time_span_s else 0)"

definition compute :: "feature_engine \<Rightarrow> features" where
  "compute fe =
     (if fe_prices fe = [] then no_features (fe_symbol fe)
      else \<lparr>ft_timestamp = (if fe_timestamps fe = [] then 0 else last (fe_timestamps fe)),
        ft_symbol = fe_symbol fe, ft_vwap = window_vwap fe, ft_trade_imbalance = window_imbalance fe,
        ft_volatility = window_volatility (fe_prices fe), ft_trade_rate = window_rate (fe_timestamps fe),
        ft_mid_price = fe_mid_price fe, ft_spread = fe_spread fe, ft_book_imbalance = fe_book_imbalance fe\<rparr>)"

section \<open>The queues hold the last trades\<close>

text \<open>
  The specification: the engine has seen a list of ticks, each of a price, quantity, side and
  time, and represents the last \<open>window_size\<close> of them.
\<close>

type_synonym tick_data = "real \<times> real \<times> bool \<times> int"

definition tick_price :: "tick_data \<Rightarrow> real" where "tick_price = fst"
definition tick_qty :: "tick_data \<Rightarrow> real" where "tick_qty t = fst (snd t)"
definition tick_side :: "tick_data \<Rightarrow> bool" where "tick_side t = fst (snd (snd t))"
definition tick_time :: "tick_data \<Rightarrow> int" where "tick_time t = snd (snd (snd t))"

definition represents :: "feature_engine \<Rightarrow> tick_data list \<Rightarrow> bool" where
  "represents fe w \<longleftrightarrow> length w \<le> fe_window_size fe \<and> fe_prices fe = map tick_price w \<and>
     fe_quantities fe = map tick_qty w \<and> fe_sides fe = map tick_side w \<and> fe_timestamps fe = map tick_time w \<and>
     fe_pv_sum fe = sum_list (map (\<lambda>t. tick_price t * tick_qty t) w) \<and> fe_v_sum fe = sum_list (map tick_qty w)"

lemma last_n_snoc: "last_n n (ts @ [t]) = deque_append n (last_n n ts) t"
proof (cases "length ts < n")
  case False
  then have "Suc (length ts) - n = Suc (length ts - n)" by simp
  with False show ?thesis by (simp add: last_n_def deque_append_def Let_def)
qed (simp add: last_n_def deque_append_def Let_def)

lemma length_last_n [simp]: "length (last_n n ts) = min n (length ts)"
  by (simp add: last_n_def)

lemma deque_map: "deque_append n (map f xs) (f x) = map f (deque_append n xs x)"
  unfolding deque_append_def Let_def by (simp flip: drop_map)

lemma represents_trade:
  assumes "represents fe w" and "0 < fe_window_size fe"
  obtains fe' where "feature_on_trade p q s t fe = Inr fe'" "fe_window_size fe' = fe_window_size fe"
    "fe_symbol fe' = fe_symbol fe" "represents fe' (deque_append (fe_window_size fe) w (p, q, s, t))"
proof -
  obtain m where m: "fe_window_size fe = Suc m" using assms(2) by (cases "fe_window_size fe") auto
  have w: "length w \<le> Suc m" "fe_prices fe = map tick_price w" "fe_quantities fe = map tick_qty w"
      "fe_sides fe = map tick_side w" "fe_timestamps fe = map tick_time w"
      "fe_pv_sum fe = sum_list (map (\<lambda>t. tick_price t * tick_qty t) w)" "fe_v_sum fe = sum_list (map tick_qty w)"
    using assms(1) by (simp_all add: represents_def m)
  define x where "x = (p, q, s, t)"
  have x: "p = tick_price x" "q = tick_qty x" "s = tick_side x" "t = tick_time x"
    by (simp_all add: x_def tick_price_def tick_qty_def tick_side_def tick_time_def)
  have hds: "length w = Suc m \<Longrightarrow> hd (map f w) = f (hd w)" for f :: "tick_data \<Rightarrow> real" by (cases w) auto
  have sums: "sum_list (map f (deque_append (Suc m) w x)) =
      (if length w = Suc m then sum_list (map f w) - f (hd w) else sum_list (map f w)) + f x" for f :: "tick_data \<Rightarrow> real"
    by (rule deque1.running_sum [OF w(1) refl])
  have some: "\<not> (length (fe_prices fe) = Suc m \<and> (fe_prices fe = [] \<or> fe_quantities fe = []))"
    by (auto simp: w)
  let ?r = "feature_on_trade p q s t fe"
  obtain fe' where fe': "?r = Inr fe'" using some by (auto simp: feature_on_trade_def m Let_def)
  have "fe_window_size fe' = fe_window_size fe" "fe_symbol fe' = fe_symbol fe"
    using fe' some by (auto simp: feature_on_trade_def m Let_def)
  moreover have "represents fe' (deque_append (fe_window_size fe) w (p, q, s, t))"
    using fe' some unfolding x_def [symmetric] feature_on_trade_def m Let_def
    by (auto simp: represents_def w x deque_map sums hds m length_deque_append)
  ultimately show thesis using fe' that by blast
qed

definition feed :: "tick_data list \<Rightarrow> feature_engine \<Rightarrow> py_error + feature_engine" where
  "feed ts fe = foldl (\<lambda>r t. ebind r (feature_on_trade (tick_price t) (tick_qty t) (tick_side t) (tick_time t))) (Inr fe) ts"

lemma feed_represents:
  assumes "0 < n"
  obtains fe where "feed ts (feature_init symbol n) = Inr fe" "fe_window_size fe = n" "fe_symbol fe = symbol"
    "represents fe (last_n n ts)"
proof -
  have "\<exists>fe. feed ts (feature_init symbol n) = Inr fe \<and> fe_window_size fe = n \<and> fe_symbol fe = symbol \<and>
      represents fe (last_n n ts)"
  proof (induction ts rule: rev_induct)
    case (snoc t ts)
    then obtain fe where fe: "feed ts (feature_init symbol n) = Inr fe" "fe_window_size fe = n" "fe_symbol fe = symbol"
        "represents fe (last_n n ts)" by blast
    obtain fe' where "feature_on_trade (tick_price t) (tick_qty t) (tick_side t) (tick_time t) fe = Inr fe'"
        "fe_window_size fe' = n" "fe_symbol fe' = symbol"
        "represents fe' (deque_append n (last_n n ts) (tick_price t, tick_qty t, tick_side t, tick_time t))"
      by (rule represents_trade [OF fe(4), of "tick_price t" "tick_qty t" "tick_side t" "tick_time t"])
        (use assms in \<open>auto simp: fe(2,3)\<close>)
    moreover have "(tick_price t, tick_qty t, tick_side t, tick_time t) = t"
      by (simp add: tick_price_def tick_qty_def tick_side_def tick_time_def)
    ultimately show ?case using fe(1) by (simp add: feed_def last_n_snoc)
  qed (simp add: feed_def feature_init_def represents_def last_n_def)
  then show thesis using that by blast
qed

lemma window_imbalance_bounded:
  assumes "\<forall>q \<in> set (fe_quantities fe). 0 \<le> q"
  shows "\<bar>window_imbalance fe\<bar> \<le> 1"
proof -
  have "0 \<le> sum_list (map fst (filter P (zip (fe_quantities fe) (fe_sides fe))))" for P
    using assms by (intro sum_list_nonneg) (auto dest!: set_zip_leftD)
  from share_bounded [OF this this, of snd "\<lambda>x. \<not> snd x"] show ?thesis
    by (simp add: window_imbalance_def Let_def del: abs_divide)
qed

lemma window_volatility_nonneg: "0 \<le> window_volatility prices"
  by (simp add: window_volatility_def Let_def)



end
