(* ===== verification/Cross_Asset.thy ===== *)
theory Cross_Asset
  imports Feature_Engine
begin

text \<open>
  \<open>services/alpha-engine/alpha_engine_svc/cross_asset.py\<close>: rolling correlation, relative strength and
  spread z-score of pairs of symbols, from a bounded queue of prices per symbol.
\<close>

definition default_window :: nat where "default_window = 100"
definition min_observations :: nat where "min_observations = 20"

record cross_snapshot =
  cx_symbol_a :: string
  cx_symbol_b :: string
  cx_correlation :: "real option"
  cx_relative_strength :: "real option"
  cx_spread_z_score :: "real option"
  cx_timestamp_ms :: int

record cross_tracker =
  ct_window :: nat
  ct_prices :: "(string, (int \<times> real) list) dict"

definition cross_init :: "nat \<Rightarrow> cross_tracker" where
  "cross_init win = \<lparr>ct_window = win, ct_prices = []\<rparr>"

definition on_price :: "string \<Rightarrow> int \<Rightarrow> real \<Rightarrow> cross_tracker \<Rightarrow> cross_tracker" where
  "on_price symbol timestamp_ms price ct =
     ct\<lparr>ct_prices := AList.update symbol
       (deque_append (ct_window ct + 1) (dget (ct_prices ct) symbol []) (timestamp_ms, price)) (ct_prices ct)\<rparr>"

fun log_steps :: "real list \<Rightarrow> real list" where
  \<comment> \<open>the loop over neighbouring prices; only positive pairs give a return\<close>
  "log_steps (prev # p # ps) = (if 0 < prev \<and> 0 < p then [ln (p / prev)] else []) @ log_steps (p # ps)"
| "log_steps _ = []"

definition cross_log_returns :: "string \<Rightarrow> cross_tracker \<Rightarrow> real list option" where
  "cross_log_returns symbol ct =
     (case map_of (ct_prices ct) symbol of
        None \<Rightarrow> None
      | Some prices \<Rightarrow> if length prices < 2 then None else Some (log_steps (map snd prices)))"

definition cross_pearson :: "real list \<Rightarrow> real list \<Rightarrow> real option" where
  "cross_pearson xs ys =
     (let n = real (length xs); cov = co_dev xs ys / n; var_x = sq_dev xs / n; var_y = sq_dev ys / n in
      if length xs < min_observations then None
      else if var_x < 1 / 10 ^ 15 \<or> var_y < 1 / 10 ^ 15 then None
      else Some (cov / sqrt (var_x * var_y)))"

definition relative_strength :: "string \<Rightarrow> string \<Rightarrow> nat \<Rightarrow> cross_tracker \<Rightarrow> real option" where
  \<comment> \<open>\<open>n\<close> is positive\<close>
  "relative_strength symbol_a symbol_b n ct =
     (case (cross_log_returns symbol_a ct, cross_log_returns symbol_b ct) of
        (Some returns_a, Some returns_b) \<Rightarrow>
          let cum_a = sum_list (last_n n returns_a); cum_b = sum_list (last_n n returns_b) in
          if \<bar>cum_b\<bar> < 1 / 10 ^ 15 then None else Some (cum_a / cum_b)
      | _ \<Rightarrow> None)"

definition log_ratios :: "real list \<Rightarrow> real list \<Rightarrow> real list" where
  "log_ratios as bs = map (\<lambda>(pa, pb). ln (pa / pb)) (filter (\<lambda>(pa, pb). 0 < pa \<and> 0 < pb) (zip as bs))"

definition z_of_last :: "real list \<Rightarrow> real option" where
  "z_of_last ratios =
     (let n = real (length ratios); mean_r = mean ratios; var_r = sq_dev ratios / n in
      if length ratios < min_observations then None
      else if var_r < 1 / 10 ^ 15 then None
      else Some ((last ratios - mean_r) / sqrt var_r))"

definition spread_z_score :: "string \<Rightarrow> string \<Rightarrow> cross_tracker \<Rightarrow> real option" where
  "spread_z_score symbol_a symbol_b ct =
     (case (map_of (ct_prices ct) symbol_a, map_of (ct_prices ct) symbol_b) of
        (Some prices_a, Some prices_b) \<Rightarrow>
          let n = min (length prices_a) (length prices_b) in
          if n < min_observations then None
          else z_of_last (log_ratios (map snd (last_n n prices_a)) (map snd (last_n n prices_b)))
      | _ \<Rightarrow> None)"

definition get_snapshot :: "string \<Rightarrow> string \<Rightarrow> cross_tracker \<Rightarrow> cross_snapshot" where
  "get_snapshot symbol_a symbol_b ct =
     (let prices_a = dget (ct_prices ct) symbol_a [];
          snapshot = \<lparr>cx_symbol_a = symbol_a, cx_symbol_b = symbol_b, cx_correlation = None,
            cx_relative_strength = None, cx_spread_z_score = None,
            cx_timestamp_ms = (if prices_a = [] then 0 else fst (last prices_a))\<rparr> in
      case (cross_log_returns symbol_a ct, cross_log_returns symbol_b ct) of
        (Some returns_a, Some returns_b) \<Rightarrow>
          let n = min (length returns_a) (length returns_b) in
          if n < min_observations then snapshot
          else snapshot\<lparr>cx_correlation := cross_pearson (last_n n returns_a) (last_n n returns_b),
            cx_relative_strength := relative_strength symbol_a symbol_b n ct,
            cx_spread_z_score := spread_z_score symbol_a symbol_b ct\<rparr>
      | _ \<Rightarrow> snapshot)"

definition get_all_snapshots :: "cross_tracker \<Rightarrow> cross_snapshot list" where
  "get_all_snapshots ct =
     (let syms = sort (map fst (ct_prices ct)); n = length syms in
      concat (map (\<lambda>i. map (\<lambda>j. get_snapshot (syms ! i) (syms ! j) ct) [i + 1..<n]) [0..<n]))"

section \<open>Bounds\<close>

lemma length_last_n_le: "n \<le> length xs \<Longrightarrow> length (last_n n xs) = n"
  by simp

lemma cross_pearson_bound:
  assumes "length xs = length ys" and "cross_pearson xs ys = Some r"
  shows "\<bar>r\<bar> \<le> 1"
proof -
  define n where "n = real (length xs)"
  have n: "0 < n" and v: "1 / 10 ^ 15 \<le> sq_dev xs / n" "1 / 10 ^ 15 \<le> sq_dev ys / n"
    and r: "r = co_dev xs ys / n / sqrt ((sq_dev xs / n) * (sq_dev ys / n))"
    using assms(2) by (auto simp: cross_pearson_def Let_def n_def min_observations_def split: if_splits)
  have "(0 :: real) < 1 / 10 ^ 15" by simp
  then have "0 < sq_dev xs / n" "0 < sq_dev ys / n" using v by linarith+
  then have "0 < (sq_dev xs / n) * (sq_dev ys / n)" by (rule mult_pos_pos)
  then have "0 < sqrt ((sq_dev xs / n) * (sq_dev ys / n))" by (simp only: real_sqrt_gt_0_iff)
  with correlation_bound [OF assms(1) n] show ?thesis
    unfolding r abs_divide [of _ "sqrt ((sq_dev xs / n) * (sq_dev ys / n))"]
    by (simp add: divide_le_eq_1 del: abs_divide)
qed

text \<open>
  One observation cannot be further from the mean of \<open>n\<close> observations than their standard deviation
  times the root of \<open>n - 1\<close>.
\<close>

lemma deviation_of_one:
  fixes xs :: "real list" and a m :: real
  assumes "m = mean (xs @ [a])"
  shows "real (Suc (length xs)) * (a - m)\<^sup>2 \<le> real (length xs) * sq_dev (xs @ [a])"
proof -
  define n where "n = real (length xs)"
  define ds where "ds = map (\<lambda>x. x - m) xs"
  have "0 < n + 1" by (simp add: n_def)
  then have total: "(n + 1) * m = sum_list xs + a" using assms by (simp add: mean_def n_def add.commute)
  have "sum_list ds = sum_list xs - n * m"
    unfolding ds_def n_def by (induction xs) (simp_all add: algebra_simps)
  with total have "sum_list ds = - (a - m)" by (simp add: algebra_simps)
  then have sq: "(sum_list ds)\<^sup>2 = (a - m)\<^sup>2" by (simp add: power2_commute)
  have len: "real (length ds) = n" by (simp add: ds_def n_def)
  have "(sum_list (map (\<lambda>(x, y). x * y) (map (\<lambda>d. (d, 1 :: real)) ds)))\<^sup>2 \<le>
      sum_list (map (\<lambda>(x, y). x\<^sup>2) (map (\<lambda>d. (d, 1 :: real)) ds)) * sum_list (map (\<lambda>(x, y). y\<^sup>2) (map (\<lambda>d. (d, 1 :: real)) ds))"
    by (rule cauchy_schwarz_list)
  then have "(a - m)\<^sup>2 \<le> sum_list (map (\<lambda>d. d\<^sup>2) ds) * n"
    using len by (simp add: o_def sq map_replicate_const sum_list_replicate)
  moreover have "sq_dev (xs @ [a]) = sum_list (map (\<lambda>d. d\<^sup>2) ds) + (a - m)\<^sup>2"
    using assms by (simp add: sq_dev_def ds_def o_def)
  ultimately show ?thesis by (simp add: n_def distrib_left distrib_right mult.commute)
qed

lemma z_of_last_bound:
  assumes "z_of_last xs = Some z"
  shows "\<bar>z\<bar> \<le> sqrt (real (length xs) - 1)"
proof -
  define n where "n = real (length xs)"
  have len: "20 \<le> length xs" and v: "1 / 10 ^ 15 \<le> sq_dev xs / n"
    and z: "z = (last xs - mean xs) / sqrt (sq_dev xs / n)"
    using assms by (auto simp: z_of_last_def Let_def n_def min_observations_def split: if_splits)
  have "20 \<le> n" unfolding n_def using len by (metis of_nat_le_iff of_nat_numeral)
  then have n: "0 < n" "1 \<le> n" by linarith+
  have "(0 :: real) < 1 / 10 ^ 15" by simp
  then have pos: "0 < sq_dev xs / n" using v by linarith
  have "xs \<noteq> []" using len by auto
  then obtain ys a where xs: "xs = ys @ [a]" by (cases xs rule: rev_cases) auto
  have "n * (a - mean xs)\<^sup>2 \<le> (n - 1) * sq_dev xs"
    using deviation_of_one [OF refl, of ys a] by (simp add: xs n_def)
  then have "(a - mean xs)\<^sup>2 \<le> (n - 1) * (sq_dev xs / n)"
    using n(1) by (simp add: pos_le_divide_eq mult.commute)
  then have "(a - mean xs)\<^sup>2 / (sq_dev xs / n) \<le> n - 1"
    by (subst pos_divide_le_eq [OF pos])
  moreover have "z\<^sup>2 = (a - mean xs)\<^sup>2 / (sq_dev xs / n)"
    using pos unfolding z power_divide by (simp add: xs)
  ultimately have "sqrt (z\<^sup>2) \<le> sqrt (n - 1)" by (intro real_sqrt_le_mono) simp
  then show ?thesis by (simp add: n_def)
qed

section \<open>Snapshots of a reachable tracker\<close>

definition queues_bounded :: "cross_tracker \<Rightarrow> bool" where
  "queues_bounded ct \<longleftrightarrow> (\<forall>s prices. map_of (ct_prices ct) s = Some prices \<longrightarrow> length prices \<le> Suc (ct_window ct))"

lemma on_price_bounded: "queues_bounded ct \<Longrightarrow> queues_bounded (on_price s t p ct)"
  by (auto simp: queues_bounded_def on_price_def dict.lookup_insert length_deque_append)

lemma on_price_window [simp]: "ct_window (on_price s t p ct) = ct_window ct"
  by (simp add: on_price_def)

lemma prices_bounded:
  "queues_bounded (foldl (\<lambda>ct (s, t, p). on_price s t p ct) (cross_init w) obs) \<and>
   ct_window (foldl (\<lambda>ct (s, t, p). on_price s t p ct) (cross_init w) obs) = w"
proof (induction obs rule: rev_induct)
  case (snoc x obs)
  then show ?case by (cases x) (simp add: on_price_bounded)
qed (simp add: cross_init_def queues_bounded_def)

lemma log_ratios_length: "length (log_ratios as bs) \<le> min (length as) (length bs)"
  unfolding log_ratios_def by (simp add: order_trans [OF length_filter_le])

text \<open>
  Cross-asset statistics stay in their ranges: after any observations of any symbols, in any order and
  at any prices, a correlation reported for a pair lies between -1 and 1 and a spread z-score
  within the square root of the window, so that an entry threshold above that is never reached.
\<close>

theorem cross_asset_bounds:
  "let ct = foldl (\<lambda>ct (s, t, p). on_price s t p ct) (cross_init w) obs; snap = get_snapshot a b ct in
   (case cx_correlation snap of None \<Rightarrow> True | Some r \<Rightarrow> \<bar>r\<bar> \<le> 1) \<and>
   (case cx_spread_z_score snap of None \<Rightarrow> True | Some z \<Rightarrow> \<bar>z\<bar> \<le> sqrt (real w))"
proof -
  define ct where "ct = foldl (\<lambda>ct (s, t, p). on_price s t p ct) (cross_init w) obs"
  have ct: "queues_bounded ct" "ct_window ct = w" using prices_bounded [of w obs] by (simp_all add: ct_def)
  have z: "\<bar>z\<bar> \<le> sqrt (real w)" if zs: "spread_z_score a b ct = Some z" for z
  proof -
    obtain pa pb where ab: "map_of (ct_prices ct) a = Some pa" "map_of (ct_prices ct) b = Some pb"
      using zs by (cases "map_of (ct_prices ct) a"; cases "map_of (ct_prices ct) b") (simp_all add: spread_z_score_def)
    then have p: "map_of (ct_prices ct) a = Some pa" "map_of (ct_prices ct) b = Some pb"
        "z_of_last (log_ratios (map snd (last_n (min (length pa) (length pb)) pa))
           (map snd (last_n (min (length pa) (length pb)) pb))) = Some z"
      using zs unfolding spread_z_score_def Let_def by (simp_all only: prod.case option.case split: if_splits) simp
    define rs where "rs = log_ratios (map snd (last_n (min (length pa) (length pb)) pa))
      (map snd (last_n (min (length pa) (length pb)) pb))"
    have "length pa \<le> Suc w" using ct p(1) by (auto simp: queues_bounded_def)
    moreover have "length rs \<le> length pa" unfolding rs_def by (rule order_trans [OF log_ratios_length]) simp
    ultimately have "real (length rs) - 1 \<le> real w" by simp
    with z_of_last_bound [OF p(3)] show ?thesis
      unfolding rs_def [symmetric] by (meson order_trans real_sqrt_le_mono)
  qed
  have r: "\<bar>r\<bar> \<le> 1"
    if "cross_pearson (last_n (min (length xs) (length ys)) xs) (last_n (min (length xs) (length ys)) ys) = Some r" for xs ys r
    by (rule cross_pearson_bound [OF _ that]) simp
  show ?thesis
    unfolding Let_def ct_def [symmetric] get_snapshot_def
    by (auto simp: z dest: r split: option.split)
qed

end
