(* ===== verification/Ols.thy ===== *)
theory Ols
  imports Py_Base
begin

text \<open>
  The least squares fit of \<open>services/alpha-engine/alpha_engine_svc/strategies/linear_regression.py\<close>
  (\<open>_ols_fit\<close>, \<open>_solve_linear_system\<close>, \<open>_predict\<close>): normal equations solved by Gaussian
  elimination with partial pivoting on lists of lists. Loops over \<open>range\<close> are folds over the
  index list, assignments to an entry are list updates. The lemmas show that a solution returned
  solves the system and that the fit minimises the sum of squared residuals.
\<close>

type_synonym matrix = "real list list"

definition pivot_row :: "matrix \<Rightarrow> nat \<Rightarrow> nat \<Rightarrow> nat" where
  "pivot_row aug n col = foldl (\<lambda>m row. if \<bar>aug ! m ! col\<bar> < \<bar>aug ! row ! col\<bar> then row else m) col [Suc col..<n]"

definition swap_rows :: "nat \<Rightarrow> nat \<Rightarrow> matrix \<Rightarrow> matrix" where
  "swap_rows i j aug = aug[i := aug ! j, j := aug ! i]"

definition eliminate_row :: "nat \<Rightarrow> nat \<Rightarrow> matrix \<Rightarrow> nat \<Rightarrow> matrix" where
  "eliminate_row n col aug row =
     (let factor = aug ! row ! col / aug ! col ! col in
      aug[row := foldl (\<lambda>r j. r[j := r ! j - factor * aug ! col ! j]) (aug ! row) [col..<Suc n]])"

fun forward :: "nat \<Rightarrow> nat list \<Rightarrow> matrix \<Rightarrow> matrix option" where
  "forward n [] aug = Some aug"
| "forward n (col # cols) aug =
     (let aug1 = swap_rows col (pivot_row aug n col) aug in
      if \<bar>aug1 ! col ! col\<bar> < 1 / 10 ^ 4 then None
      else forward n cols (foldl (eliminate_row n col) aug1 [Suc col..<n]))"

definition back_substitute :: "nat \<Rightarrow> matrix \<Rightarrow> real list" where
  "back_substitute n aug =
     foldl (\<lambda>x i. x[i := foldl (\<lambda>s j. s - aug ! i ! j * x ! j) (aug ! i ! n) [Suc i..<n] / aug ! i ! i])
       (replicate n 0) (rev [0..<n])"

definition solve_linear_system :: "matrix \<Rightarrow> real list \<Rightarrow> real list option" where
  "solve_linear_system a_mat b =
     (let n = length b; aug = map (\<lambda>i. a_mat ! i @ [b ! i]) [0..<n] in
      map_option (back_substitute n) (forward n [0..<n] aug))"

definition gram :: "matrix \<Rightarrow> nat \<Rightarrow> matrix" where
  \<comment> \<open>the loops that accumulate \<open>X^T X\<close>\<close>
  "gram x_aug cols = map (\<lambda>i. map (\<lambda>j. sum_list (map (\<lambda>row. row ! i * row ! j) x_aug)) [0..<cols]) [0..<cols]"

definition gram_rhs :: "matrix \<Rightarrow> real list \<Rightarrow> nat \<Rightarrow> real list" where
  \<comment> \<open>the loops that accumulate \<open>X^T y\<close>\<close>
  "gram_rhs x_aug y cols = map (\<lambda>j. sum_list (map (\<lambda>(row, v). row ! j * v) (zip x_aug y))) [0..<cols]"

definition ols_fit :: "matrix \<Rightarrow> real list \<Rightarrow> real list \<times> real" where
  "ols_fit x_mat y =
     (if y = [] then ([], 0)
      else let k = (case x_mat of [] \<Rightarrow> 0 | row # _ \<Rightarrow> length row);
               x_aug = map (\<lambda>row. row @ [1]) x_mat in
        case solve_linear_system (gram x_aug (k + 1)) (gram_rhs x_aug y (k + 1)) of
          None \<Rightarrow> ([], 0)
        | Some beta \<Rightarrow> (take k beta, beta ! k))"

definition predict :: "real list \<Rightarrow> real list \<Rightarrow> real \<Rightarrow> real" where
  "predict x_row beta intercept = sum_list (map (\<lambda>(x, b). x * b) (zip x_row beta)) + intercept"

section \<open>Gaussian elimination\<close>

definition solves :: "nat \<Rightarrow> matrix \<Rightarrow> real list \<Rightarrow> bool" where
  "solves n aug x \<longleftrightarrow> (\<forall>i<n. (\<Sum>j<n. aug ! i ! j * x ! j) = aug ! i ! n)"

definition square_aug :: "nat \<Rightarrow> matrix \<Rightarrow> bool" where
  "square_aug n aug \<longleftrightarrow> length aug = n \<and> (\<forall>i<n. length (aug ! i) = Suc n)"

definition cleared :: "nat \<Rightarrow> nat \<Rightarrow> matrix \<Rightarrow> bool" where
  "cleared n col aug \<longleftrightarrow> (\<forall>j<col. aug ! j ! j \<noteq> 0 \<and> (\<forall>i<n. j < i \<longrightarrow> aug ! i ! j = 0))"

lemma pivot_row_range: "col < n \<Longrightarrow> col \<le> pivot_row aug n col \<and> pivot_row aug n col < n"
proof -
  assume "col < n"
  have "foldl (\<lambda>m row. if \<bar>aug ! m ! col\<bar> < \<bar>aug ! row ! col\<bar> then row else m) m rows \<in> insert m (set rows)" for m rows
  proof (induction rows arbitrary: m)
    case (Cons r rows)
    show ?case using Cons.IH [of r] Cons.IH [of m] by auto
  qed simp
  from this [of col "[Suc col..<n]"] \<open>col < n\<close> show ?thesis by (auto simp: pivot_row_def)
qed

lemma swap_rows_nth:
  "i < length aug \<Longrightarrow> j < length aug \<Longrightarrow> k < length aug \<Longrightarrow>
     swap_rows i j aug ! k = aug ! (if k = j then i else if k = i then j else k)"
  by (auto simp: swap_rows_def nth_list_update)

lemma swap_rows_square: "square_aug n aug \<Longrightarrow> i < n \<Longrightarrow> j < n \<Longrightarrow> square_aug n (swap_rows i j aug)"
  by (auto simp: square_aug_def swap_rows_nth) (simp add: swap_rows_def)

lemma swap_rows_solves:
  assumes "square_aug n aug" "i < n" "j < n" "solves n (swap_rows i j aug) x"
  shows "solves n aug x"
proof -
  have "(\<Sum>l<n. aug ! k ! l * x ! l) = aug ! k ! n" if "k < n" for k
  proof -
    define k' where "k' = (if k = j then i else if k = i then j else k)"
    have "k' < n" "swap_rows i j aug ! k' = aug ! k"
      using assms(1-3) that by (auto simp: k'_def swap_rows_nth square_aug_def)
    with assms(4) show ?thesis by (auto simp: solves_def)
  qed
  then show ?thesis by (simp add: solves_def)
qed

lemma swap_rows_cleared:
  assumes "square_aug n aug" "cleared n col aug" "col \<le> i" "i < n" "col \<le> j" "j < n"
  shows "cleared n col (swap_rows i j aug)"
  using assms by (auto simp: cleared_def swap_rows_nth square_aug_def)

text \<open>One row minus a multiple of the pivot row.\<close>

lemma fold_row:
  fixes r p :: "real list"
  shows "length (foldl (\<lambda>r j. r[j := r ! j - f * p ! j]) r js) = length r"
    and "distinct js \<Longrightarrow> set js \<subseteq> {..<length r} \<Longrightarrow> k < length r \<Longrightarrow>
      foldl (\<lambda>r j. r[j := r ! j - f * p ! j]) r js ! k = (if k \<in> set js then r ! k - f * p ! k else r ! k)"
proof (induction js arbitrary: r)
  case (Cons j js)
  { case 1 show ?case using Cons.IH(1) [of "r[j := r ! j - f * p ! j]"] by simp
  next case 2 then show ?case using Cons.IH(2) [of "r[j := r ! j - f * p ! j]"] by (auto simp: nth_list_update) }
qed simp_all

lemma eliminate_row_nth:
  assumes "square_aug n aug" "row < n" "col < n"
  shows "square_aug n (eliminate_row n col aug row)"
    and "k \<noteq> row \<Longrightarrow> eliminate_row n col aug row ! k = aug ! k"
    and "l \<le> n \<Longrightarrow> eliminate_row n col aug row ! row ! l =
      (if col \<le> l then aug ! row ! l - aug ! row ! col / aug ! col ! col * aug ! col ! l else aug ! row ! l)"
proof -
  have len: "length (aug ! row) = Suc n" "length aug = n" using assms by (auto simp: square_aug_def)
  have sub: "set [col..<Suc n] \<subseteq> {..<length (aug ! row)}" by (auto simp: len)
  define f where "f = aug ! row ! col / aug ! col ! col"
  have e: "eliminate_row n col aug row = aug[row := foldl (\<lambda>r j. r[j := r ! j - f * aug ! col ! j]) (aug ! row) [col..<Suc n]]"
    by (simp add: eliminate_row_def Let_def f_def)
  show "square_aug n (eliminate_row n col aug row)"
    using assms(1,2) len unfolding e square_aug_def by (auto simp: nth_list_update fold_row(1) simp del: upt_Suc)
  show "k \<noteq> row \<Longrightarrow> eliminate_row n col aug row ! k = aug ! k"
    by (simp add: e)
  show "l \<le> n \<Longrightarrow> eliminate_row n col aug row ! row ! l =
      (if col \<le> l then aug ! row ! l - aug ! row ! col / aug ! col ! col * aug ! col ! l else aug ! row ! l)"
    using assms(2) len fold_row(2) [OF _ sub, of l f "aug ! col"] unfolding e f_def [symmetric]
    by (auto simp del: upt_Suc)
qed

text \<open>
  Clearing a column: with a pivot that is not 0 each row below loses its entry in the column, the
  entries cleared before stay 0, and every solution of the new system solves the old one.
\<close>

lemma eliminate_row_solves:
  assumes "square_aug n aug" "cleared n col aug" "col < row" "row < n" "solves n (eliminate_row n col aug row) x"
  shows "solves n aug x"
proof -
  let ?e = "eliminate_row n col aug row"
  define f where "f = aug ! row ! col / aug ! col ! col"
  have lt: "col < n" using assms(3,4) by simp
  have zero: "aug ! col ! l = 0" if "l < col" for l using assms(2) that lt by (auto simp: cleared_def)
  have row: "?e ! row ! l = aug ! row ! l - f * aug ! col ! l" if "l \<le> n" for l
    using eliminate_row_nth(3) [OF assms(1,4) lt that] zero [of l] by (simp add: f_def)
  have other: "?e ! k = aug ! k" if "k \<noteq> row" for k
    by (rule eliminate_row_nth(2) [OF assms(1,4) lt that])
  have piv: "(\<Sum>l<n. aug ! col ! l * x ! l) = aug ! col ! n"
    using assms(3,5) lt other [of col] by (auto simp: solves_def)
  have "(\<Sum>l<n. ?e ! row ! l * x ! l) = (\<Sum>l<n. aug ! row ! l * x ! l) - f * (\<Sum>l<n. aug ! col ! l * x ! l)"
    by (simp add: row left_diff_distrib sum_subtractf sum_distrib_left mult.assoc)
  moreover have "(\<Sum>l<n. ?e ! row ! l * x ! l) = ?e ! row ! n" using assms(4,5) by (simp add: solves_def)
  ultimately have "(\<Sum>l<n. aug ! row ! l * x ! l) = aug ! row ! n" by (simp add: piv row)
  moreover have "(\<Sum>l<n. aug ! k ! l * x ! l) = aug ! k ! n" if "k < n" "k \<noteq> row" for k
    using assms(5) that other [OF that(2)] by (auto simp: solves_def)
  ultimately show ?thesis unfolding solves_def by metis
qed

lemma eliminate_row_cleared:
  assumes "square_aug n aug" "cleared n col aug" "col < row" "row < n"
  shows "cleared n col (eliminate_row n col aug row)"
proof -
  have lt: "col < n" using assms(3,4) by simp
  have "eliminate_row n col aug row ! i ! j = aug ! i ! j" if "i < n" "j < col" for i j
    using eliminate_row_nth(2,3) [OF assms(1,4) lt] that lt by (cases "i = row") simp_all
  with assms(2) lt show ?thesis by (simp add: cleared_def)
qed

lemma eliminate_rows:
  assumes "square_aug n aug" "cleared n col aug" "aug ! col ! col \<noteq> 0" "distinct rows" "set rows \<subseteq> {col<..<n}"
  defines "aug' \<equiv> foldl (eliminate_row n col) aug rows"
  shows "square_aug n aug' \<and> cleared n col aug' \<and> aug' ! col = aug ! col \<and>
    (\<forall>k. k \<notin> set rows \<longrightarrow> aug' ! k = aug ! k) \<and> (\<forall>k \<in> set rows. aug' ! k ! col = 0) \<and>
    (\<forall>x. solves n aug' x \<longrightarrow> solves n aug x)"
  using assms(1-5) unfolding aug'_def
proof (induction rows arbitrary: aug)
  case (Cons row rows)
  let ?e = "eliminate_row n col aug row"
  have lt: "col < row" "row < n" "col < n" using Cons.prems(5) by auto
  have e: "square_aug n ?e" "cleared n col ?e" "\<And>k. k \<noteq> row \<Longrightarrow> ?e ! k = aug ! k" "?e ! row ! col = 0"
    using eliminate_row_nth [OF Cons.prems(1) lt(2,3)] eliminate_row_cleared [OF Cons.prems(1,2) lt(1,2)]
      Cons.prems(3) lt(3) by simp_all
  define aug' where "aug' = foldl (eliminate_row n col) ?e rows"
  have IH: "square_aug n aug' \<and> cleared n col aug' \<and> aug' ! col = ?e ! col \<and>
      (\<forall>k. k \<notin> set rows \<longrightarrow> aug' ! k = ?e ! k) \<and> (\<forall>k \<in> set rows. aug' ! k ! col = 0) \<and>
      (\<forall>x. solves n aug' x \<longrightarrow> solves n ?e x)"
    unfolding aug'_def
    by (rule Cons.IH [OF e(1,2)]) (use e(3) [of col] lt(1) Cons.prems(3,4,5) in simp_all)
  have "aug' ! row = ?e ! row" using IH Cons.prems(4) by simp
  then have "\<forall>k \<in> set (row # rows). aug' ! k ! col = 0" using IH e(4) by simp
  moreover have "\<forall>k. k \<notin> set (row # rows) \<longrightarrow> aug' ! k = aug ! k" using IH e(3) by simp
  moreover have "\<forall>x. solves n aug' x \<longrightarrow> solves n aug x"
    using IH eliminate_row_solves [OF Cons.prems(1,2) lt(1,2)] by blast
  moreover have "aug' ! col = aug ! col" using IH e(3) lt(1) by simp
  ultimately show ?case using IH unfolding foldl.simps aug'_def [symmetric] by blast
qed simp

lemma forward_solves:
  assumes "forward n [col..<n] aug = Some aug'" "square_aug n aug" "cleared n col aug" "col \<le> n"
  shows "square_aug n aug' \<and> cleared n n aug' \<and> (\<forall>x. solves n aug' x \<longrightarrow> solves n aug x)"
  using assms
proof (induction "n - col" arbitrary: col aug)
  case (Suc d)
  then have lt: "col < n" by simp
  define p where "p = pivot_row aug n col"
  define aug1 where "aug1 = swap_rows col p aug"
  define aug2 where "aug2 = foldl (eliminate_row n col) aug1 [Suc col..<n]"
  have p: "col \<le> p" "p < n" using pivot_row_range [OF lt] by (simp_all add: p_def)
  have aug1: "square_aug n aug1" "cleared n col aug1" "\<And>x. solves n aug1 x \<Longrightarrow> solves n aug x"
    unfolding aug1_def
    by (rule swap_rows_square [OF Suc.prems(2) lt p(2)] swap_rows_cleared [OF Suc.prems(2,3) order_refl lt p]
        swap_rows_solves [OF Suc.prems(2) lt p(2)]; assumption)+
  have fw: "forward n [Suc col..<n] aug2 = Some aug'" "1 / 10 ^ 4 \<le> \<bar>aug1 ! col ! col\<bar>"
    using Suc.prems(1) lt by (auto simp: upt_conv_Cons Let_def aug1_def aug2_def p_def split: if_splits)
  then have nz: "aug1 ! col ! col \<noteq> 0" by auto
  have aug2: "square_aug n aug2 \<and> cleared n col aug2 \<and> aug2 ! col = aug1 ! col \<and>
      (\<forall>k. k \<notin> set [Suc col..<n] \<longrightarrow> aug2 ! k = aug1 ! k) \<and> (\<forall>k \<in> set [Suc col..<n]. aug2 ! k ! col = 0) \<and>
      (\<forall>x. solves n aug2 x \<longrightarrow> solves n aug1 x)"
    unfolding aug2_def by (rule eliminate_rows [OF aug1(1,2) nz]) auto
  have "cleared n (Suc col) aug2"
    using aug2 nz unfolding cleared_def by (auto simp: less_Suc_eq)
  moreover have "d = n - Suc col" using Suc.hyps(2) by simp
  ultimately have "square_aug n aug' \<and> cleared n n aug' \<and> (\<forall>x. solves n aug' x \<longrightarrow> solves n aug2 x)"
    using Suc.hyps(1) [of "Suc col" aug2] fw(1) aug2 lt by simp
  with aug1(3) aug2 show ?case by blast
qed simp

section \<open>Back substitution\<close>

lemma fold_minus: "foldl (\<lambda>s j. s - f j) (c :: real) js = c - sum_list (map f js)"
  by (induction js arbitrary: c) simp_all

definition solves_from :: "nat \<Rightarrow> nat \<Rightarrow> matrix \<Rightarrow> real list \<Rightarrow> bool" where
  "solves_from n m aug x \<longleftrightarrow> length x = n \<and>
     (\<forall>i<n. m \<le> i \<longrightarrow> aug ! i ! i * x ! i + (\<Sum>j=Suc i..<n. aug ! i ! j * x ! j) = aug ! i ! n)"

lemma back_step:
  assumes "solves_from n (Suc m) aug x" "m < n" "aug ! m ! m \<noteq> 0"
  shows "solves_from n m aug (x[m := foldl (\<lambda>s j. s - aug ! m ! j * x ! j) (aug ! m ! n) [Suc m..<n] / aug ! m ! m])"
proof -
  define v where "v = foldl (\<lambda>s j. s - aug ! m ! j * x ! j) (aug ! m ! n) [Suc m..<n] / aug ! m ! m"
  have len: "length x = n" using assms(1) by (simp add: solves_from_def)
  have same: "(\<Sum>j=Suc i..<n. aug ! i ! j * x[m := v] ! j) = (\<Sum>j=Suc i..<n. aug ! i ! j * x ! j)" if "m \<le> i" for i
    using that by (intro sum.cong) auto
  have "aug ! m ! m * v = aug ! m ! n - (\<Sum>j=Suc m..<n. aug ! m ! j * x ! j)"
    using assms(3) by (simp add: v_def fold_minus sum_list_distinct_conv_sum_set)
  then have "aug ! i ! i * x[m := v] ! i + (\<Sum>j=Suc i..<n. aug ! i ! j * x[m := v] ! j) = aug ! i ! n"
    if "i < n" "m \<le> i" for i
    using assms(1,2) that len same [OF that(2)] by (cases "i = m") (auto simp: solves_from_def)
  with len show ?thesis by (simp add: solves_from_def v_def)
qed

lemma back_fold:
  assumes "\<forall>i<n. aug ! i ! i \<noteq> 0" "m \<le> n" "solves_from n m aug x"
  shows "solves_from n 0 aug (foldl (\<lambda>x i. x[i := foldl (\<lambda>s j. s - aug ! i ! j * x ! j) (aug ! i ! n) [Suc i..<n] / aug ! i ! i])
    x (rev [0..<m]))"
  using assms(2,3)
proof (induction m arbitrary: x)
  case (Suc m)
  then show ?case using back_step [of n m aug x] assms(1) by simp
qed simp

lemma back_substitute_solves:
  assumes "cleared n n aug"
  shows "solves n aug (back_substitute n aug)" "length (back_substitute n aug) = n"
proof -
  define x where "x = back_substitute n aug"
  have "solves_from n n aug (replicate n 0)" by (simp add: solves_from_def)
  then have s: "solves_from n 0 aug x"
    unfolding x_def back_substitute_def by (rule back_fold [rotated -1]) (use assms in \<open>auto simp: cleared_def\<close>)
  then show "length (back_substitute n aug) = n" by (simp add: solves_from_def x_def)
  have "(\<Sum>j<n. aug ! i ! j * x ! j) = aug ! i ! n" if "i < n" for i
  proof -
    have "(\<Sum>j<n. aug ! i ! j * x ! j) =
        (\<Sum>j<i. aug ! i ! j * x ! j) + (aug ! i ! i * x ! i + (\<Sum>j=Suc i..<n. aug ! i ! j * x ! j))"
      using sum.atLeast_Suc_lessThan [OF that, of "\<lambda>j. aug ! i ! j * x ! j"]
        sum.atLeastLessThan_concat [of 0 i n "\<lambda>j. aug ! i ! j * x ! j"] that
      unfolding lessThan_atLeast0 by simp
    moreover have "(\<Sum>j<i. aug ! i ! j * x ! j) = 0"
      using assms that by (intro sum.neutral) (simp add: cleared_def)
    ultimately show ?thesis using s that by (simp add: solves_from_def)
  qed
  then show "solves n aug (back_substitute n aug)" by (simp add: solves_def x_def)
qed

lemma solve_correct:
  assumes "solve_linear_system a b = Some x" "length a = length b" "\<forall>row \<in> set a. length row = length b"
  shows "length x = length b \<and> (\<forall>i<length b. (\<Sum>j<length b. a ! i ! j * x ! j) = b ! i)"
proof -
  define n where "n = length b"
  define aug where "aug = map (\<lambda>i. a ! i @ [b ! i]) [0..<n]"
  have rows: "length (a ! i) = n" if "i < n" for i using assms(2,3) that by (simp add: n_def)
  obtain aug' where aug': "forward n [0..<n] aug = Some aug'" "x = back_substitute n aug'"
    using assms(1) by (auto simp: solve_linear_system_def Let_def n_def aug_def)
  have "square_aug n aug" by (simp add: square_aug_def aug_def rows)
  then have f: "cleared n n aug'" "solves n aug' x \<Longrightarrow> solves n aug x"
    using forward_solves [OF aug'(1)] by (auto simp: cleared_def)
  then have "solves n aug x" using back_substitute_solves(1) [OF f(1)] by (simp add: aug'(2))
  moreover have "length x = n" using back_substitute_solves(2) [OF f(1)] by (simp add: aug'(2))
  ultimately show ?thesis by (simp add: solves_def aug_def rows nth_append n_def [symmetric])
qed

text \<open>
  The linear solver is right whenever it answers: if Gaussian elimination with partial pivoting
  returns a vector for a square system, the vector satisfies every equation.
\<close>

theorem solver_sound:
  assumes "solve_linear_system a b = Some x" "length a = length b" "\<forall>row \<in> set a. length row = length b"
  shows "length x = length b \<and> (\<forall>i<length b. (\<Sum>j<length b. a ! i ! j * x ! j) = b ! i)"
  using assms by (rule solve_correct)

lemma solver_sound_witness:
  "\<exists>x. solve_linear_system [[0, 2], [1, 1]] [4, 5] = Some x \<and> 2 * x ! 1 = 4 \<and> x ! 0 + x ! 1 = 5"
proof -
  have "\<exists>x. solve_linear_system [[0, 2], [1, 1]] [4, 5] = Some x"
    by (simp add: solve_linear_system_def Let_def upt_rec swap_rows_def pivot_row_def eliminate_row_def)
  then obtain x where x: "solve_linear_system [[0, 2], [1, 1]] [4, 5] = Some x" ..
  have eqs: "\<forall>i<2. (\<Sum>j<2. [[0, 2], [1, 1]] ! i ! j * x ! j) = [4, 5] ! i"
    using solver_sound [OF x] by (simp add: numeral_2_eq_2)
  have "x ! 0 + x ! 1 = 5 \<and> 2 * x ! 1 = 4"
    using eqs [rule_format, of 0] eqs [rule_format, of 1] by (simp add: numeral_2_eq_2 lessThan_Suc)
  with x show ?thesis by blast
qed


section \<open>The fit is the least squares fit\<close>

definition squared_error :: "matrix \<Rightarrow> real list \<Rightarrow> real list \<Rightarrow> real \<Rightarrow> real" where
  "squared_error xs ys beta c = (\<Sum>k<length ys. (ys ! k - predict (xs ! k) beta c)\<^sup>2)"

lemma predict_sum:
  "length row = k \<Longrightarrow> length beta = k \<Longrightarrow>
     predict row beta c = (\<Sum>j<Suc k. (row @ [1]) ! j * (beta @ [c]) ! j)"
  by (simp add: predict_def sum_list_sum_nth nth_append lessThan_atLeast0)

lemma sum_list_rows: "sum_list (map f xs) = (\<Sum>k<length xs. f (xs ! k) :: real)"
  by (simp add: sum_list_sum_nth lessThan_atLeast0)

text \<open>Residuals orthogonal to every column make any other coefficients worse.\<close>

lemma orthogonal_is_least:
  fixes X :: "nat \<Rightarrow> nat \<Rightarrow> real" and y b b' :: "nat \<Rightarrow> real"
  assumes "\<And>i. i < m \<Longrightarrow> (\<Sum>k<n. X k i * (y k - (\<Sum>j<m. X k j * b j))) = 0"
  shows "(\<Sum>k<n. (y k - (\<Sum>j<m. X k j * b j))\<^sup>2) \<le> (\<Sum>k<n. (y k - (\<Sum>j<m. X k j * b' j))\<^sup>2)"
proof -
  define r where "r k = y k - (\<Sum>j<m. X k j * b j)" for k
  define d where "d k = (\<Sum>j<m. X k j * (b' j - b j))" for k
  have split: "y k - (\<Sum>j<m. X k j * b' j) = r k - d k" for k
    by (simp add: r_def d_def right_diff_distrib sum_subtractf)
  have "(\<Sum>k<n. r k * d k) = (\<Sum>j<m. (b' j - b j) * (\<Sum>k<n. X k j * r k))"
    unfolding d_def sum_distrib_left by (subst sum.swap) (simp add: ac_simps)
  also have "\<dots> = 0" using assms by (simp add: r_def)
  finally have cross: "(\<Sum>k<n. r k * d k) = 0" .
  have "(\<Sum>k<n. (r k - d k)\<^sup>2) = (\<Sum>k<n. (r k)\<^sup>2) - 2 * (\<Sum>k<n. r k * d k) + (\<Sum>k<n. (d k)\<^sup>2)"
    by (simp add: power2_diff sum.distrib sum_subtractf sum_distrib_left ac_simps)
  with cross have "(\<Sum>k<n. (r k - d k)\<^sup>2) = (\<Sum>k<n. (r k)\<^sup>2) + (\<Sum>k<n. (d k)\<^sup>2)" by simp
  moreover have "0 \<le> (\<Sum>k<n. (d k)\<^sup>2)" by (rule sum_nonneg) simp
  ultimately show ?thesis unfolding split r_def [symmetric] by linarith
qed

lemma ols_normal_equations:
  assumes "ols_fit xs ys = (beta, c)" "beta \<noteq> []" "length xs = length ys" "\<forall>row \<in> set xs. length row = k"
  shows "length beta = k"
    and "i < Suc k \<Longrightarrow> (\<Sum>t<length ys. (xs ! t @ [1]) ! i * (ys ! t - (\<Sum>j<Suc k. (xs ! t @ [1]) ! j * (beta @ [c]) ! j))) = 0"
proof -
  define xa where "xa = map (\<lambda>row. row @ [1 :: real]) xs"
  have ne: "ys \<noteq> []" using assms(1,2) by (auto simp: ols_fit_def)
  then obtain row rest where xs: "xs = row # rest" using assms(3) by (cases xs) auto
  then have k: "(case xs of [] \<Rightarrow> 0 | row # _ \<Rightarrow> length row) = k" using assms(4) by simp
  obtain v where v: "solve_linear_system (gram xa (k + 1)) (gram_rhs xa ys (k + 1)) = Some v" "beta = take k v" "c = v ! k"
    using assms(1,2) ne unfolding ols_fit_def k Let_def xa_def by (auto split: option.splits)
  have sol: "length v = k + 1 \<and> (\<forall>i<k + 1. (\<Sum>j<k + 1. gram xa (k + 1) ! i ! j * v ! j) = gram_rhs xa ys (k + 1) ! i)"
    using solve_correct [OF v(1)] by (auto simp: gram_def gram_rhs_def simp del: upt_Suc)
  then show "length beta = k" by (simp add: v(2))
  have bc: "beta @ [c] = v" using sol unfolding v(2,3) by (metis add.commute plus_1_eq_Suc take_Suc_conv_app_nth lessI take_all order_refl)
  have xa: "length xa = length ys" "\<And>t. t < length ys \<Longrightarrow> xa ! t = xs ! t @ [1]" by (simp_all add: xa_def assms(3))
  show "(\<Sum>t<length ys. (xs ! t @ [1]) ! i * (ys ! t - (\<Sum>j<Suc k. (xs ! t @ [1]) ! j * (beta @ [c]) ! j))) = 0"
    if i: "i < Suc k"
  proof -
    have "(\<Sum>j<Suc k. (\<Sum>t<length ys. xa ! t ! i * xa ! t ! j) * v ! j) = (\<Sum>t<length ys. xa ! t ! i * ys ! t)"
      using sol i xa(1) by (simp add: gram_def gram_rhs_def sum_list_rows case_prod_unfold del: upt_Suc sum.lessThan_Suc)
    also have "(\<Sum>j<Suc k. (\<Sum>t<length ys. xa ! t ! i * xa ! t ! j) * v ! j) =
        (\<Sum>t<length ys. xa ! t ! i * (\<Sum>j<Suc k. xa ! t ! j * v ! j))"
      unfolding sum_distrib_right sum_distrib_left by (subst sum.swap) (simp add: ac_simps)
    finally show ?thesis
      unfolding bc by (simp add: right_diff_distrib sum_subtractf xa(2) del: sum.lessThan_Suc)
  qed
qed

lemma ols_least:
  assumes "ols_fit xs ys = (beta, c)" "beta \<noteq> []" "length xs = length ys" "\<forall>row \<in> set xs. length row = k"
    and "length beta' = k"
  shows "squared_error xs ys beta c \<le> squared_error xs ys beta' c' \<and>
    (\<Sum>t<length ys. ys ! t - predict (xs ! t) beta c) = 0"
proof -
  note normal = ols_normal_equations [OF assms(1-4)]
  have rows: "length (xs ! t) = k" if "t < length ys" for t using assms(3,4) that by simp
  have p: "predict (xs ! t) b e = (\<Sum>j<Suc k. (xs ! t @ [1]) ! j * (b @ [e]) ! j)" if "t < length ys" "length b = k" for t b e
    by (rule predict_sum [OF rows [OF that(1)] that(2)])
  have "squared_error xs ys b e = (\<Sum>t<length ys. (ys ! t - (\<Sum>j<Suc k. (xs ! t @ [1]) ! j * (b @ [e]) ! j))\<^sup>2)"
    if "length b = k" for b e
    unfolding squared_error_def by (intro sum.cong refl) (simp add: p that del: sum.lessThan_Suc)
  with normal(1) assms(5) orthogonal_is_least [where m = "Suc k" and n = "length ys" and X = "\<lambda>t i. (xs ! t @ [1]) ! i"
      and y = "\<lambda>t. ys ! t" and b = "\<lambda>j. (beta @ [c]) ! j" and b' = "\<lambda>j. (beta' @ [c']) ! j", OF normal(2)]
  have "squared_error xs ys beta c \<le> squared_error xs ys beta' c'" by (simp del: sum.lessThan_Suc)
  moreover have "(\<Sum>t<length ys. ys ! t - predict (xs ! t) beta c) = 0"
    using normal(2) [of k] by (simp add: p normal(1) rows nth_append del: sum.lessThan_Suc)
  ultimately show ?thesis by simp
qed

text \<open>
  C13. The regression is the least squares regression: whenever the fit returns coefficients, no other
  coefficients and intercept have a smaller sum of squared residuals over the same data, and
  the residuals of the fit sum to 0.
\<close>

theorem ols_fit_least_squares:
  assumes "ols_fit xs ys = (beta, c)" "beta \<noteq> []" "length xs = length ys" "\<forall>row \<in> set xs. length row = k"
    and "length beta' = k"
  shows "squared_error xs ys beta c \<le> squared_error xs ys beta' c' \<and>
    (\<Sum>t<length ys. ys ! t - predict (xs ! t) beta c) = 0"
  using assms by (rule ols_least)

lemma sample_system:
  "gram [[1, 1], [2, 1]] (Suc (Suc 0)) = [[5, 3], [3, 2]]" "gram_rhs [[1, 1], [2, 1]] [3, 5] (Suc (Suc 0)) = [13, 8]"
  by (simp_all add: gram_def gram_rhs_def)

lemma sample_solution: "solve_linear_system [[5, 3], [3, 2]] [13, 8] = Some [2, 1]"
proof -
  have "forward (Suc (Suc 0)) [0..<Suc (Suc 0)] [[5, 3, 13], [3, 2, 8]] = Some [[5, 3, 13], [0, 1 / 5, 1 / 5]]"
    by (simp add: Let_def swap_rows_def pivot_row_def eliminate_row_def)
  moreover have "back_substitute (Suc (Suc 0)) [[5, 3, 13], [0, 1 / 5, 1 / 5]] = [2, 1]"
    by (simp add: back_substitute_def)
  ultimately show ?thesis by (simp add: solve_linear_system_def Let_def)
qed

lemma sample_fit: "ols_fit [[1], [2]] [3, 5] = ([2], 1)"
  by (simp add: ols_fit_def sample_system sample_solution)

lemma ols_fit_least_squares_witness:
  "squared_error [[1], [2]] [3, 5] [2] 1 \<le> squared_error [[1], [2]] [3, 5] [0] 4"
  using ols_fit_least_squares [OF sample_fit, of 1 "[0]" 4] by simp

end
