(* ===== verification/Signal_Strategy.thy ===== *)
theory Signal_Strategy
  imports Py_Base Models
begin

text \<open>
  \<open>services/alpha-engine/alpha_engine_svc/strategy.py\<close>: the interface of a strategy, as a contract. A
  strategy is fed trades and book updates; on a trade it may emit a signal or raise. The
  environment of an event holds what the code takes from outside: the clock and fresh
  identifiers (the second pair is for the second leg of a pair trade).
\<close>

record strategy_env =
  se_now :: int
  se_uid :: string
  se_now2 :: int
  se_uid2 :: string

datatype market_event =
    Trade_tick strategy_env trade
  | Book_tick depth_update

fun is_trade_tick :: "market_event \<Rightarrow> bool" where
  "is_trade_tick (Trade_tick env t) = True"
| "is_trade_tick (Book_tick u) = False"

definition emitted :: "py_error + signal option \<Rightarrow> signal list" where
  "emitted r = (case r of Inr (Some sig) \<Rightarrow> [sig] | _ \<Rightarrow> [])"

lemma emitted_simps [simp]: "emitted (Inl e) = []" "emitted (Inr None) = []" "emitted (Inr (Some sig)) = [sig]"
  by (simp_all add: emitted_def)

text \<open>The signals a strategy emits over a sequence of events.\<close>

fun signals_of :: "('s \<Rightarrow> market_event \<Rightarrow> (py_error + signal option) \<times> 's) \<Rightarrow> 's \<Rightarrow> market_event list \<Rightarrow> signal list" where
  "signals_of step s [] = []"
| "signals_of step s (e # es) = emitted (fst (step s e)) @ signals_of step (snd (step s e)) es"

text \<open>
  The contract: in admissible states and for admissible events nothing is raised; a signal only comes
  from a trade, is the strategy's own, does not repeat the side of the signal before, comes at
  least the cooldown after it and is remembered; events without a signal keep the
  remembered side and count trades.
\<close>

locale signal_strategy =
  fixes step :: "'s \<Rightarrow> market_event \<Rightarrow> (py_error + signal option) \<times> 's"
    and inv :: "'s \<Rightarrow> bool" and ok :: "market_event \<Rightarrow> bool"
    and ident :: "'s \<Rightarrow> string \<times> string" and last_side :: "'s \<Rightarrow> string option"
    and since :: "'s \<Rightarrow> int" and cooldown :: "'s \<Rightarrow> int"
  assumes inv_step: "inv s \<Longrightarrow> ok e \<Longrightarrow> inv (snd (step s e))"
    and no_error: "inv s \<Longrightarrow> ok e \<Longrightarrow> fst (step s e) \<noteq> Inl x"
    and fixed: "inv s \<Longrightarrow> ok e \<Longrightarrow> ident (snd (step s e)) = ident s \<and> cooldown (snd (step s e)) = cooldown s"
    and on_signal: "inv s \<Longrightarrow> ok e \<Longrightarrow> fst (step s e) = Inr (Some sig) \<Longrightarrow>
      is_trade_tick e \<and> (sg_strategy_id sig, sg_symbol sig) = ident s \<and> sg_side sig \<in> {''BUY'', ''SELL''} \<and>
      last_side s \<noteq> Some (sg_side sig) \<and> last_side (snd (step s e)) = Some (sg_side sig) \<and>
      cooldown s \<le> since s + 1 \<and> since (snd (step s e)) = 0"
    and on_quiet: "inv s \<Longrightarrow> ok e \<Longrightarrow> fst (step s e) = Inr None \<Longrightarrow>
      last_side (snd (step s e)) = last_side s \<and>
      since (snd (step s e)) = since s + (if is_trade_tick e then 1 else 0)"
begin

lemma step_cases:
  assumes "inv s" "ok e"
  obtains (signal) sig where "fst (step s e) = Inr (Some sig)" | (quiet) "fst (step s e) = Inr None"
  using no_error [OF assms] by (metis old.sum.exhaust option.exhaust)

lemma inv_run: "inv s \<Longrightarrow> list_all ok es \<Longrightarrow> inv (foldl (\<lambda>s e. snd (step s e)) s es)"
  by (induction es arbitrary: s) (simp_all add: inv_step)

lemma signals_own:
  "inv s \<Longrightarrow> list_all ok es \<Longrightarrow> list_all (\<lambda>sig. (sg_strategy_id sig, sg_symbol sig) = ident s \<and>
     sg_side sig \<in> {''BUY'', ''SELL''}) (signals_of step s es)"
proof (induction es arbitrary: s)
  case (Cons e es)
  have ok: "inv s" "ok e" using Cons.prems by simp_all
  have IH: "list_all (\<lambda>sig. (sg_strategy_id sig, sg_symbol sig) = ident s \<and> sg_side sig \<in> {''BUY'', ''SELL''})
      (signals_of step (snd (step s e)) es)"
    using Cons.IH [of "snd (step s e)"] Cons.prems by (simp add: inv_step fixed)
  from ok show ?case
  proof (cases rule: step_cases)
    case (signal sig)
    with on_signal [OF ok signal] IH show ?thesis by simp
  qed (use IH in simp)
qed simp

lemma signals_alternate:
  "inv s \<Longrightarrow> list_all ok es \<Longrightarrow> successively (\<lambda>a b. sg_side a \<noteq> sg_side b) (signals_of step s es) \<and>
     (signals_of step s es \<noteq> [] \<longrightarrow> last_side s \<noteq> Some (sg_side (hd (signals_of step s es))))"
proof (induction es arbitrary: s)
  case (Cons e es)
  let ?s = "snd (step s e)"
  have IH: "successively (\<lambda>a b. sg_side a \<noteq> sg_side b) (signals_of step ?s es)"
      "signals_of step ?s es \<noteq> [] \<Longrightarrow> last_side ?s \<noteq> Some (sg_side (hd (signals_of step ?s es)))"
    using Cons.IH [of ?s] Cons.prems by (auto simp: inv_step)
  have ok: "inv s" "ok e" using Cons.prems by simp_all
  then show ?case
  proof (cases rule: step_cases)
    case (signal sig)
    with on_signal [OF ok signal] IH show ?thesis by (cases "signals_of step ?s es") auto
  next
    case quiet
    with on_quiet [OF ok quiet] IH show ?thesis by simp
  qed
qed simp

text \<open>Every signal consumes a cooldown of trades.\<close>

lemma signals_spaced:
  "inv s \<Longrightarrow> list_all ok es \<Longrightarrow>
     cooldown s * int (length (signals_of step s es)) \<le> since s + int (length (filter is_trade_tick es)) \<or> signals_of step s es = []"
proof (induction es arbitrary: s)
  case (Cons e es)
  let ?s = "snd (step s e)"
  have ok: "inv s" "ok e" using Cons.prems by simp_all
  have IH: "cooldown s * int (length (signals_of step ?s es)) \<le> since ?s + int (length (filter is_trade_tick es)) \<or> signals_of step ?s es = []"
    using Cons.IH [of ?s] Cons.prems by (simp add: inv_step fixed)
  from ok show ?case
  proof (cases rule: step_cases)
    case (signal sig)
    with on_signal [OF ok signal] IH show ?thesis by (auto simp: distrib_left algebra_simps)
  next
    case quiet
    with on_quiet [OF ok quiet] IH show ?thesis by auto
  qed
qed simp

end

end
