(* ===== verification/Vwap_Strategies.thy ===== *)
theory Vwap_Strategies
  imports Feature_Engine Signal_Strategy
begin

text \<open>
  \<open>services/alpha-engine/alpha_engine_svc/strategies/mean_reversion.py\<close> and \<open>momentum.py\<close>: two strategies
  that compare a trade with the volume weighted average price of a window. The code of the two
  classes is the same up to the direction of the signal, so one definition has the direction as
  a parameter. A method that may raise after it has changed the strategy returns the exception
  or the signal beside the strategy.
\<close>

record vwap_params =
  vp_window_size :: nat
  vp_threshold_std :: real
  vp_warmup_trades :: int
  vp_cooldown_trades :: int
  vp_target_risk_usd :: real
  vp_max_notional_usd :: real
  vp_min_notional_usd :: real
  vp_holding_period_trades :: real

definition default_params :: vwap_params where
  "default_params = \<lparr>vp_window_size = 200, vp_threshold_std = 25 / 10, vp_warmup_trades = 100, vp_cooldown_trades = 30,
     vp_target_risk_usd = 15, vp_max_notional_usd = 500, vp_min_notional_usd = 10, vp_holding_period_trades = 30\<rparr>"

record vwap_strategy =
  vs_strategy_id :: string
  vs_symbol :: string
  vs_params :: vwap_params
  vs_feature_engine :: feature_engine
  vs_trade_count :: int
  vs_trades_since_last_signal :: int
  vs_last_signal_side :: "string option"
  vs_mid_price :: "real option"
  vs_spread :: "real option"

definition vwap_init :: "string \<Rightarrow> string \<Rightarrow> vwap_params \<Rightarrow> vwap_strategy" where
  \<comment> \<open>\<open>merged\<close>: the parameters given over the defaults\<close>
  "vwap_init strategy_id symbol merged = \<lparr>vs_strategy_id = strategy_id, vs_symbol = symbol, vs_params = merged,
     vs_feature_engine = feature_init symbol (vp_window_size merged), vs_trade_count = 0,
     vs_trades_since_last_signal = 0, vs_last_signal_side = None, vs_mid_price = None, vs_spread = None\<rparr>"

definition is_warmed_up :: "vwap_strategy \<Rightarrow> bool" where
  "is_warmed_up st = (vp_warmup_trades (vs_params st) \<le> vs_trade_count st)"

definition cooldown_elapsed :: "vwap_strategy \<Rightarrow> bool" where
  "cooldown_elapsed st = (vp_cooldown_trades (vs_params st) \<le> vs_trades_since_last_signal st)"

definition py_or :: "real option \<Rightarrow> real \<Rightarrow> real" where
  \<comment> \<open>\<open>x or y\<close>: a missing or zero value is replaced\<close>
  "py_or x y = (case x of None \<Rightarrow> y | Some v \<Rightarrow> if v = 0 then y else v)"

definition py_sqrt :: "real \<Rightarrow> py_error + real" where
  "py_sqrt x = (if x < 0 then Inl (ValueError ''math domain error'') else Inr (sqrt x))"

definition z_score_of :: "real \<Rightarrow> features \<Rightarrow> real" where
  "z_score_of price f =
     (let abs_volatility = ft_volatility f * ft_vwap f in
      if 0 < abs_volatility then (price - ft_vwap f) / abs_volatility else 0)"

definition position_size :: "vwap_params \<Rightarrow> real \<Rightarrow> real \<Rightarrow> real option" where
  \<comment> \<open>the volatility-scaled size, held between the notional bounds; nothing at a price that is not positive\<close>
  "position_size p price holding_vol =
     (if 0 < holding_vol \<and> 0 < price
      then let quantity = vp_target_risk_usd p / (price * holding_vol); notional = quantity * price in
        Some (if vp_max_notional_usd p < notional then vp_max_notional_usd p / price
              else if notional < vp_min_notional_usd p then vp_min_notional_usd p / price
              else quantity)
      else if 0 < price then Some (vp_min_notional_usd p / price) else None)"

definition revert_side :: "real \<Rightarrow> real \<Rightarrow> string option" where
  "revert_side z threshold = (if z < - threshold then Some ''BUY'' else if threshold < z then Some ''SELL'' else None)"

definition breakout_side :: "real \<Rightarrow> real \<Rightarrow> string option" where
  "breakout_side z threshold = (if threshold < z then Some ''BUY'' else if z < - threshold then Some ''SELL'' else None)"

definition vwap_signal :: "strategy_env \<Rightarrow> string \<Rightarrow> real \<Rightarrow> real \<Rightarrow> features \<Rightarrow> trade \<Rightarrow> vwap_strategy \<Rightarrow>
    py_error + signal option" where
  \<comment> \<open>sizing, urgency and the message, once side, strength and z-score are known\<close>
  "vwap_signal env side strength z f t st =
     (let p = vs_params st; price = py_or (vs_mid_price st) (tr_price t) in
      ebind (py_sqrt (vp_holding_period_trades p)) (\<lambda>root.
      case position_size p price (ft_volatility f * root) of
        None \<Rightarrow> Inr None
      | Some quantity \<Rightarrow>
          ebind (py_div (\<bar>z\<bar> - vp_threshold_std p) (vp_threshold_std p)) (\<lambda>excess.
          Inr (Some \<lparr>sg_signal_id = se_uid env, sg_timestamp = se_now env, sg_strategy_id = vs_strategy_id st,
            sg_symbol = vs_symbol st, sg_side = side, sg_strength = strength, sg_target_quantity = py_round quantity 8,
            sg_urgency = min excess 1,
            sg_metadata = [(''z_score'', JNum (py_round z 4)), (''vwap'', JNum (py_round (ft_vwap f) 2)),
              (''volatility'', JNum (py_round (ft_volatility f) 8)), (''trade_rate'', JNum (py_round (ft_trade_rate f) 2)),
              (''notional_usd'', JNum (py_round (quantity * price) 2))],
            sg_mid_price_at_signal = price, sg_spread_at_signal = py_or (vs_spread st) 0\<rparr>))))"

definition decide :: "(real \<Rightarrow> real \<Rightarrow> string option) \<Rightarrow> strategy_env \<Rightarrow> trade \<Rightarrow> vwap_strategy \<Rightarrow>
    (py_error + signal option) \<times> vwap_strategy" where
  \<comment> \<open>\<open>on_trade\<close> after warm-up and cooldown\<close>
  "decide pick env t st =
     (let f = compute (vs_feature_engine st); threshold = vp_threshold_std (vs_params st); z = z_score_of (tr_price t) f in
      if ft_vwap f = 0 \<or> ft_volatility f = 0 then (Inr None, st)
      else case pick z threshold of
        None \<Rightarrow> (Inr None, st)
      | Some side \<Rightarrow>
          (case py_div \<bar>z\<bar> (threshold * 2) of
             Inl e \<Rightarrow> (Inl e, st)
           | Inr s \<Rightarrow>
               if Some side = vs_last_signal_side st then (Inr None, st)
               else let st' = st\<lparr>vs_last_signal_side := Some side, vs_trades_since_last_signal := 0\<rparr> in
                 (vwap_signal env side (min s 1) z f t st', st')))"

definition vwap_on_trade :: "(real \<Rightarrow> real \<Rightarrow> string option) \<Rightarrow> strategy_env \<Rightarrow> trade \<Rightarrow> vwap_strategy \<Rightarrow>
    (py_error + signal option) \<times> vwap_strategy" where
  "vwap_on_trade pick env t st =
     (let st1 = st\<lparr>vs_trade_count := vs_trade_count st + 1,
            vs_trades_since_last_signal := vs_trades_since_last_signal st + 1\<rparr> in
      case feature_on_trade (tr_price t) (tr_quantity t) (tr_is_buyer_maker t) (tr_timestamp_exchange t)
             (vs_feature_engine st1) of
        Inl e \<Rightarrow> (Inl e, st1)
      | Inr fe \<Rightarrow>
          let st2 = st1\<lparr>vs_feature_engine := fe\<rparr> in
          if \<not> is_warmed_up st2 \<or> \<not> cooldown_elapsed st2 then (Inr None, st2) else decide pick env t st2)"

definition vwap_on_book_update :: "depth_update \<Rightarrow> vwap_strategy \<Rightarrow> vwap_strategy" where
  \<comment> \<open>never a signal\<close>
  "vwap_on_book_update u st =
     (let best_bid = py_max (map fst (dp_bids u)); best_ask = py_min (map fst (dp_asks u));
          st1 = (if dp_bids u \<noteq> [] \<and> dp_asks u \<noteq> [] \<and> best_bid \<noteq> 0 \<and> best_ask \<noteq> 0
            then st\<lparr>vs_mid_price := Some ((best_bid + best_ask) / 2), vs_spread := Some (best_ask - best_bid)\<rparr>
            else st) in
      st1\<lparr>vs_feature_engine := on_book_snapshot (vs_mid_price st1) (vs_spread st1) 0 (vs_feature_engine st1)\<rparr>)"

definition mean_reversion_on_trade :: "strategy_env \<Rightarrow> trade \<Rightarrow> vwap_strategy \<Rightarrow> (py_error + signal option) \<times> vwap_strategy" where
  "mean_reversion_on_trade = vwap_on_trade revert_side"

definition momentum_on_trade :: "strategy_env \<Rightarrow> trade \<Rightarrow> vwap_strategy \<Rightarrow> (py_error + signal option) \<times> vwap_strategy" where
  "momentum_on_trade = vwap_on_trade breakout_side"

fun vwap_step :: "(real \<Rightarrow> real \<Rightarrow> string option) \<Rightarrow> vwap_strategy \<Rightarrow> market_event \<Rightarrow> (py_error + signal option) \<times> vwap_strategy" where
  "vwap_step pick st (Trade_tick env t) = vwap_on_trade pick env t st"
| "vwap_step pick st (Book_tick u) = (Inr None, vwap_on_book_update u st)"

section \<open>Admissible strategies and events\<close>

definition params_ok :: "vwap_params \<Rightarrow> bool" where
  "params_ok p \<longleftrightarrow> 0 < vp_window_size p \<and> 0 < vp_threshold_std p \<and> 0 \<le> vp_holding_period_trades p"

definition vwap_inv :: "vwap_strategy \<Rightarrow> bool" where
  "vwap_inv st \<longleftrightarrow> params_ok (vs_params st) \<and> fe_window_size (vs_feature_engine st) = vp_window_size (vs_params st) \<and>
     (\<exists>w. represents (vs_feature_engine st) w) \<and> (case vs_mid_price st of None \<Rightarrow> True | Some m \<Rightarrow> 0 < m)"

fun positive_prices :: "market_event \<Rightarrow> bool" where
  "positive_prices (Trade_tick env t) = (0 < tr_price t)"
| "positive_prices (Book_tick u) = (list_all (\<lambda>(p, q). 0 < p) (dp_bids u) \<and> list_all (\<lambda>(p, q). 0 < p) (dp_asks u))"

definition sane_pick :: "(real \<Rightarrow> real \<Rightarrow> string option) \<Rightarrow> bool" where
  "sane_pick pick \<longleftrightarrow> (\<forall>z thr side. 0 < thr \<and> pick z thr = Some side \<longrightarrow> side \<in> {''BUY'', ''SELL''} \<and> thr < \<bar>z\<bar>)"

lemma sane_picks: "sane_pick revert_side" "sane_pick breakout_side"
  by (auto simp: sane_pick_def revert_side_def breakout_side_def split: if_splits)

lemma default_params_ok [simp]: "params_ok default_params"
  by (simp add: params_ok_def default_params_def)

lemma vwap_inv_init: "params_ok p \<Longrightarrow> vwap_inv (vwap_init sid symbol p)"
  by (auto simp: vwap_inv_def vwap_init_def feature_init_def represents_def intro: exI [of _ "[]"])

lemma price_positive: "vwap_inv st \<Longrightarrow> 0 < p \<Longrightarrow> 0 < py_or (vs_mid_price st) p"
  by (auto simp: vwap_inv_def py_or_def split: option.splits)

lemma position_size_bounds:
  assumes "position_size p price hv = Some q" and "0 < price" and "vp_min_notional_usd p \<le> vp_max_notional_usd p"
  shows "vp_min_notional_usd p \<le> q * price \<and> q * price \<le> vp_max_notional_usd p"
  using assms by (auto simp: position_size_def Let_def split: if_splits)

lemma position_size_some: "0 < price \<Longrightarrow> \<exists>q. position_size p price hv = Some q"
  by (simp add: position_size_def Let_def)

text \<open>A decision either changes nothing or emits the signal it remembers.\<close>

lemma decide_cases:
  assumes "vwap_inv st" and "0 < tr_price t" and "sane_pick pick"
  defines "z \<equiv> z_score_of (tr_price t) (compute (vs_feature_engine st))"
  obtains (quiet) "decide pick env t st = (Inr None, st)"
  | (signal) side sig q where "pick z (vp_threshold_std (vs_params st)) = Some side" "vs_last_signal_side st \<noteq> Some side"
      "decide pick env t st = (Inr (Some sig), st\<lparr>vs_last_signal_side := Some side, vs_trades_since_last_signal := 0\<rparr>)"
      "sg_strategy_id sig = vs_strategy_id st" "sg_symbol sig = vs_symbol st" "sg_side sig = side"
      "sg_strength sig = min (\<bar>z\<bar> / (vp_threshold_std (vs_params st) * 2)) 1"
      "sg_urgency sig = min ((\<bar>z\<bar> - vp_threshold_std (vs_params st)) / vp_threshold_std (vs_params st)) 1"
      "sg_mid_price_at_signal sig = py_or (vs_mid_price st) (tr_price t)" "sg_target_quantity sig = py_round q 8"
      "position_size (vs_params st) (py_or (vs_mid_price st) (tr_price t))
         (ft_volatility (compute (vs_feature_engine st)) * sqrt (vp_holding_period_trades (vs_params st))) = Some q"
proof -
  define thr where "thr = vp_threshold_std (vs_params st)"
  have thr: "0 < thr" and hold: "0 \<le> vp_holding_period_trades (vs_params st)"
    using assms(1) by (simp_all add: vwap_inv_def params_ok_def thr_def)
  define f where "f = compute (vs_feature_engine st)"
  have z_score_f: "z_score_of (tr_price t) f = z" by (simp add: z_def f_def)
  show thesis
  proof (cases "ft_vwap f = 0 \<or> ft_volatility f = 0 \<or> pick z thr = None \<or> pick z thr = vs_last_signal_side st")
    case True
    then have "decide pick env t st = (Inr None, st)"
      using thr by (auto simp: decide_def Let_def z_def thr_def f_def py_div_def split: option.split)
    then show thesis by (rule quiet)
  next
    case False
    then obtain side where side: "pick z thr = Some side" "vs_last_signal_side st \<noteq> Some side" by auto
    obtain q where q: "position_size (vs_params st) (py_or (vs_mid_price st) (tr_price t))
        (ft_volatility f * sqrt (vp_holding_period_trades (vs_params st))) = Some q"
      using position_size_some [OF price_positive [OF assms(1,2)]] by blast
    define st' where "st' = st\<lparr>vs_last_signal_side := Some side, vs_trades_since_last_signal := 0\<rparr>"
    have "\<exists>sig. vwap_signal env side (min (\<bar>z\<bar> / (thr * 2)) 1) z f t st' = Inr (Some sig) \<and>
        sg_strategy_id sig = vs_strategy_id st \<and> sg_symbol sig = vs_symbol st \<and> sg_side sig = side \<and>
        sg_strength sig = min (\<bar>z\<bar> / (thr * 2)) 1 \<and> sg_urgency sig = min ((\<bar>z\<bar> - thr) / thr) 1 \<and>
        sg_mid_price_at_signal sig = py_or (vs_mid_price st) (tr_price t) \<and> sg_target_quantity sig = py_round q 8"
      using q thr hold by (simp add: vwap_signal_def py_sqrt_def Let_def st'_def thr_def)
    moreover have "decide pick env t st = (vwap_signal env side (min (\<bar>z\<bar> / (thr * 2)) 1) z f t st', st')"
      using False side thr not_sym [OF side(2)]
      by (simp add: decide_def Let_def z_score_f st'_def flip: f_def thr_def)
    ultimately show thesis
      using signal [OF side [unfolded thr_def]] q unfolding st'_def f_def thr_def by auto
  qed
qed

lemma decide_inv:
  assumes "vwap_inv st" and "0 < tr_price t" and "sane_pick pick"
  shows "vwap_inv (snd (decide pick env t st))"
  by (cases rule: decide_cases [OF assms, of env]) (use assms(1) in \<open>simp_all add: vwap_inv_def\<close>)

lemma on_trade_cases:
  assumes "vwap_inv st" and "0 < tr_price t" and "sane_pick pick"
  obtains st2 where "vwap_inv st2" "vs_strategy_id st2 = vs_strategy_id st" "vs_symbol st2 = vs_symbol st"
    "vs_params st2 = vs_params st" "vs_last_signal_side st2 = vs_last_signal_side st"
    "vs_mid_price st2 = vs_mid_price st" "vs_trade_count st2 = vs_trade_count st + 1"
    "vs_trades_since_last_signal st2 = vs_trades_since_last_signal st + 1"
    "feature_on_trade (tr_price t) (tr_quantity t) (tr_is_buyer_maker t) (tr_timestamp_exchange t)
       (vs_feature_engine st) = Inr (vs_feature_engine st2)"
    "vwap_on_trade pick env t st =
       (if is_warmed_up st2 \<and> cooldown_elapsed st2 then decide pick env t st2 else (Inr None, st2))"
proof -
  obtain w where w: "represents (vs_feature_engine st) w" "0 < fe_window_size (vs_feature_engine st)"
    using assms(1) by (auto simp: vwap_inv_def params_ok_def)
  obtain fe where fe: "feature_on_trade (tr_price t) (tr_quantity t) (tr_is_buyer_maker t) (tr_timestamp_exchange t)
        (vs_feature_engine st) = Inr fe" "fe_window_size fe = fe_window_size (vs_feature_engine st)" "\<exists>w. represents fe w"
    by (rule represents_trade [OF w]) blast
  show thesis
    by (rule that [of "st\<lparr>vs_trade_count := vs_trade_count st + 1,
          vs_trades_since_last_signal := vs_trades_since_last_signal st + 1, vs_feature_engine := fe\<rparr>"])
      (use assms(1) fe in \<open>auto simp: vwap_inv_def vwap_on_trade_def Let_def\<close>)
qed

lemma book_update_fields [simp]:
  "vs_strategy_id (vwap_on_book_update u st) = vs_strategy_id st" "vs_symbol (vwap_on_book_update u st) = vs_symbol st"
  "vs_params (vwap_on_book_update u st) = vs_params st"
  "vs_last_signal_side (vwap_on_book_update u st) = vs_last_signal_side st"
  "vs_trades_since_last_signal (vwap_on_book_update u st) = vs_trades_since_last_signal st"
  by (simp_all add: vwap_on_book_update_def Let_def)

lemma book_update_inv:
  assumes "vwap_inv st" and "positive_prices (Book_tick u)"
  shows "vwap_inv (vwap_on_book_update u st)"
proof -
  have "dp_bids u \<noteq> [] \<Longrightarrow> 0 < py_max (map fst (dp_bids u))" "dp_asks u \<noteq> [] \<Longrightarrow> 0 < py_min (map fst (dp_asks u))"
    using assms(2) py_max_in [of "map fst (dp_bids u)"] py_min_in [of "map fst (dp_asks u)"]
    by (auto simp: list_all_iff)
  with assms(1) show ?thesis
    by (auto simp: vwap_inv_def vwap_on_book_update_def Let_def on_book_snapshot_def represents_def)
qed

lemma vwap_step_cases:
  assumes inv: "vwap_inv st" and ok: "positive_prices e" and pick: "sane_pick pick"
  obtains (quiet) st' where "vwap_step pick st e = (Inr None, st')" "vwap_inv st'"
      "vs_strategy_id st' = vs_strategy_id st" "vs_symbol st' = vs_symbol st" "vs_params st' = vs_params st"
      "vs_last_signal_side st' = vs_last_signal_side st"
      "vs_trades_since_last_signal st' = vs_trades_since_last_signal st + (if is_trade_tick e then 1 else 0)"
  | (signal) st' sig where "vwap_step pick st e = (Inr (Some sig), st')" "vwap_inv st'"
      "vs_strategy_id st' = vs_strategy_id st" "vs_symbol st' = vs_symbol st" "vs_params st' = vs_params st"
      "is_trade_tick e" "sg_strategy_id sig = vs_strategy_id st" "sg_symbol sig = vs_symbol st"
      "sg_side sig \<in> {''BUY'', ''SELL''}" "vs_last_signal_side st \<noteq> Some (sg_side sig)"
      "vs_last_signal_side st' = Some (sg_side sig)" "vs_trades_since_last_signal st' = 0"
      "vp_cooldown_trades (vs_params st) \<le> vs_trades_since_last_signal st + 1"
proof (cases e)
  case (Trade_tick env t)
  with ok have t: "0 < tr_price t" by simp
  have thr: "0 < vp_threshold_std (vs_params st)" using inv by (simp add: vwap_inv_def params_ok_def)
  show thesis
  proof (cases rule: on_trade_cases [OF inv t pick, of env])
    case (1 st2)
    show thesis
    proof (cases "is_warmed_up st2 \<and> cooldown_elapsed st2")
      case True
      show thesis
      proof (cases rule: decide_cases [OF 1(1) t pick, of env])
        case no_signal: 1
        show thesis by (rule that(1) [of st2]) (use 1 True no_signal Trade_tick in simp_all)
      next
        case signal: (2 side sig q)
        have inv2: "vwap_inv (snd (decide pick env t st2))" by (rule decide_inv [OF 1(1) t pick])
        show thesis
          by (rule that(2) [of sig "st2\<lparr>vs_last_signal_side := Some side, vs_trades_since_last_signal := 0\<rparr>"])
            (use inv2 signal 1 True Trade_tick pick thr in \<open>auto simp: sane_pick_def cooldown_elapsed_def\<close>)
      qed
    next
      case False
      show thesis by (rule that(1) [of st2]) (use 1 False Trade_tick in simp_all)
    qed
  qed
next
  case (Book_tick u)
  show thesis
    by (rule that(1) [of "vwap_on_book_update u st"]) (use Book_tick inv ok book_update_inv in simp_all)
qed

lemma params_run:
  "vwap_inv s \<Longrightarrow> list_all positive_prices es \<Longrightarrow> sane_pick pick \<Longrightarrow>
     vs_params (foldl (\<lambda>s e. snd (vwap_step pick s e)) s es) = vs_params s"
proof (induction es arbitrary: s)
  case (Cons e es)
  have "vwap_inv s" "positive_prices e" using Cons.prems by simp_all
  then have "vwap_inv (snd (vwap_step pick s e)) \<and> vs_params (snd (vwap_step pick s e)) = vs_params s"
    by (rule vwap_step_cases [OF _ _ Cons.prems(3)]) simp_all
  with Cons show ?case by simp
qed simp

lemma vwap_contract:
  assumes "sane_pick pick"
  shows "signal_strategy (vwap_step pick) vwap_inv positive_prices (\<lambda>st. (vs_strategy_id st, vs_symbol st))
     vs_last_signal_side vs_trades_since_last_signal (\<lambda>st. vp_cooldown_trades (vs_params st))"
  by unfold_locales (erule (1) vwap_step_cases [OF _ _ assms]; simp)+

interpretation mean_reversion: signal_strategy "vwap_step revert_side" vwap_inv positive_prices
    "\<lambda>st. (vs_strategy_id st, vs_symbol st)" vs_last_signal_side vs_trades_since_last_signal
    "\<lambda>st. vp_cooldown_trades (vs_params st)"
  by (rule vwap_contract [OF sane_picks(1)])

interpretation momentum: signal_strategy "vwap_step breakout_side" vwap_inv positive_prices
    "\<lambda>st. (vs_strategy_id st, vs_symbol st)" vs_last_signal_side vs_trades_since_last_signal
    "\<lambda>st. vp_cooldown_trades (vs_params st)"
  by (rule vwap_contract [OF sane_picks(2)])


section \<open>Properties of the strategies\<close>

text \<open>
  The discipline of the mean reversion strategy: whatever market with positive prices it sees, it
  never raises, its signals are its own, alternate between BUY and SELL, and there are never more
  of them than one per cooldown of trades.
\<close>

theorem mean_reversion_discipline:
  assumes "params_ok p" and "list_all positive_prices es"
  shows "let sigs = signals_of (vwap_step revert_side) (vwap_init sid symbol p) es in
    list_all (\<lambda>sig. sg_strategy_id sig = sid \<and> sg_symbol sig = symbol \<and> sg_side sig \<in> {''BUY'', ''SELL''}) sigs \<and>
    successively (\<lambda>a b. sg_side a \<noteq> sg_side b) sigs \<and>
    vp_cooldown_trades p * int (length sigs) \<le> int (length (filter is_trade_tick es))"
proof -
  let ?st = "vwap_init sid symbol p"
  have inv: "vwap_inv ?st" using assms(1) by (rule vwap_inv_init)
  have st: "vs_strategy_id ?st = sid" "vs_symbol ?st = symbol" "vs_trades_since_last_signal ?st = 0" "vs_params ?st = p"
    by (simp_all add: vwap_init_def)
  show ?thesis
    using mean_reversion.signals_own [OF inv assms(2)] mean_reversion.signals_alternate [OF inv assms(2)]
      mean_reversion.signals_spaced [OF inv assms(2)]
    by (auto simp: Let_def st)
qed

lemma mean_reversion_discipline_witness:
  "successively (\<lambda>a b. sg_side a \<noteq> sg_side b)
     (signals_of (vwap_step revert_side) (vwap_init ''m'' ''BTCUSD'' default_params)
       [Trade_tick \<lparr>se_now = 0, se_uid = ''u'', se_now2 = 0, se_uid2 = ''v''\<rparr> (trade_default\<lparr>tr_price := 100\<rparr>)])"
  using mean_reversion_discipline [of default_params
    "[Trade_tick \<lparr>se_now = 0, se_uid = ''u'', se_now2 = 0, se_uid2 = ''v''\<rparr> (trade_default\<lparr>tr_price := 100\<rparr>)]"
    "''m''" "''BTCUSD''"]
  unfolding Let_def by simp

definition opposite :: "string \<Rightarrow> string" where
  "opposite side = (if side = ''BUY'' then ''SELL'' else ''BUY'')"

definition mirror :: "string \<Rightarrow> vwap_strategy \<Rightarrow> vwap_strategy" where
  "mirror sid st = st\<lparr>vs_strategy_id := sid, vs_last_signal_side := map_option opposite (vs_last_signal_side st)\<rparr>"

definition mirror_signal :: "string \<Rightarrow> signal \<Rightarrow> signal" where
  "mirror_signal sid sig = sig\<lparr>sg_strategy_id := sid, sg_side := opposite (sg_side sig)\<rparr>"

definition mirror_result :: "string \<Rightarrow> py_error + signal option \<Rightarrow> py_error + signal option" where
  "mirror_result sid = map_sum id (map_option (mirror_signal sid))"

lemma mirror_signal_step:
  "vwap_signal env (opposite side) s z f t (mirror sid st) = mirror_result sid (vwap_signal env side s z f t st)"
  by (simp add: vwap_signal_def Let_def mirror_def mirror_result_def mirror_signal_def py_sqrt_def py_div_def
      split: option.split)

definition side_known :: "vwap_strategy \<Rightarrow> bool" where
  "side_known st \<longleftrightarrow> vs_last_signal_side st \<in> {None, Some ''BUY'', Some ''SELL''} \<and> 0 < vp_threshold_std (vs_params st)"

lemma breakout_opposite: "0 < thr \<Longrightarrow> breakout_side z thr = map_option opposite (revert_side z thr)"
  by (simp add: breakout_side_def revert_side_def opposite_def)

lemma revert_known: "revert_side z thr = Some side \<Longrightarrow> side = ''BUY'' \<or> side = ''SELL''"
  by (auto simp: revert_side_def split: if_splits)

lemma mirror_fields [simp]:
  "vs_feature_engine (mirror sid st) = vs_feature_engine st" "vs_params (mirror sid st) = vs_params st"
  "vs_trade_count (mirror sid st) = vs_trade_count st" "vs_mid_price (mirror sid st) = vs_mid_price st"
  "vs_trades_since_last_signal (mirror sid st) = vs_trades_since_last_signal st"
  "vs_spread (mirror sid st) = vs_spread st"
  "vs_last_signal_side (mirror sid st) = map_option opposite (vs_last_signal_side st)"
  "is_warmed_up (mirror sid st) = is_warmed_up st" "cooldown_elapsed (mirror sid st) = cooldown_elapsed st"
  by (simp_all add: mirror_def is_warmed_up_def cooldown_elapsed_def)

lemma mirror_decide:
  assumes "side_known st"
  shows "decide breakout_side env t (mirror sid st) = map_prod (mirror_result sid) (mirror sid) (decide revert_side env t st) \<and>
    side_known (snd (decide revert_side env t st))"
proof -
  define f where "f = compute (vs_feature_engine st)"
  define thr where "thr = vp_threshold_std (vs_params st)"
  define z where "z = z_score_of (tr_price t) f"
  have thr: "0 < thr" using assms by (simp add: side_known_def thr_def)
  have flip: "breakout_side z thr = map_option opposite (revert_side z thr)" by (rule breakout_opposite [OF thr])
  show ?thesis
  proof (cases "ft_vwap f = 0 \<or> ft_volatility f = 0 \<or> revert_side z thr = None")
    case True
    with assms flip show ?thesis
      by (auto simp: decide_def Let_def mirror_result_def simp flip: f_def thr_def z_def)
  next
    case False
    then obtain side where side: "revert_side z thr = Some side" "side = ''BUY'' \<or> side = ''SELL''"
      using revert_known by blast
    define st' where "st' = st\<lparr>vs_last_signal_side := Some side, vs_trades_since_last_signal := 0\<rparr>"
    have m: "mirror sid st\<lparr>vs_last_signal_side := Some (opposite side), vs_trades_since_last_signal := 0\<rparr> = mirror sid st'"
      by (simp add: mirror_def st'_def)
    have same: "Some (opposite side) = map_option opposite (vs_last_signal_side st) \<longleftrightarrow> Some side = vs_last_signal_side st"
      using assms side(2) by (cases "vs_last_signal_side st") (auto simp: side_known_def opposite_def)
    show ?thesis
      unfolding decide_def Let_def mirror_fields f_def [symmetric] thr_def [symmetric] z_def [symmetric] flip side(1)
        option.case option.map m same st'_def [symmetric] mirror_signal_step
      using False thr assms side(2) by (simp add: mirror_result_def side_known_def st'_def)
  qed
qed

lemma mirror_step:
  assumes "side_known st"
  shows "vwap_step breakout_side (mirror sid st) e = map_prod (mirror_result sid) (mirror sid) (vwap_step revert_side st e) \<and>
    side_known (snd (vwap_step revert_side st e))"
proof (cases e)
  case (Trade_tick env t)
  define st1 where "st1 = st\<lparr>vs_trade_count := vs_trade_count st + 1,
    vs_trades_since_last_signal := vs_trades_since_last_signal st + 1\<rparr>"
  have st1: "(mirror sid st)\<lparr>vs_trade_count := vs_trade_count st + 1,
      vs_trades_since_last_signal := vs_trades_since_last_signal st + 1\<rparr> = mirror sid st1"
    by (simp add: mirror_def st1_def)
  have fe: "(mirror sid st1)\<lparr>vs_feature_engine := fe\<rparr> = mirror sid (st1\<lparr>vs_feature_engine := fe\<rparr>)" for fe
    by (simp add: mirror_def)
  have known: "side_known st1" "side_known (st1\<lparr>vs_feature_engine := fe\<rparr>)" for fe
    using assms by (simp_all add: side_known_def st1_def)
  show ?thesis
    unfolding Trade_tick vwap_step.simps vwap_on_trade_def mirror_fields Let_def st1 st1_def [symmetric]
    using mirror_decide [OF known(2)] known
    by (cases "feature_on_trade (tr_price t) (tr_quantity t) (tr_is_buyer_maker t) (tr_timestamp_exchange t)
        (vs_feature_engine st1)") (simp_all add: fe mirror_result_def)
next
  case (Book_tick u)
  with assms show ?thesis
    by (simp add: mirror_result_def side_known_def vwap_on_book_update_def Let_def) (simp add: mirror_def)
qed

lemma mirror_signals:
  "side_known st \<Longrightarrow> signals_of (vwap_step breakout_side) (mirror sid st) es =
     map (mirror_signal sid) (signals_of (vwap_step revert_side) st es)"
proof (induction es arbitrary: st)
  case (Cons e es)
  obtain r st' where r: "vwap_step revert_side st e = (r, st')" by fastforce
  have "emitted (mirror_result sid r) = map (mirror_signal sid) (emitted r)"
    by (auto simp: emitted_def mirror_result_def split: sum.split option.split)
  with mirror_step [OF Cons.prems, of sid e] Cons.IH [of st'] r show ?case by simp
qed simp

text \<open>
  Momentum is the exact mirror image of mean reversion: over any market data, whatever the prices, with
  equal parameters and a positive threshold the momentum strategy emits a signal exactly when the
  mean reversion strategy does, with the opposite side and otherwise the same quantity,
  strength, urgency, prices and metadata.
\<close>

theorem momentum_mirrors_mean_reversion:
  assumes "0 < vp_threshold_std p"
  shows "signals_of (vwap_step breakout_side) (vwap_init sid' symbol p) es =
    map (mirror_signal sid') (signals_of (vwap_step revert_side) (vwap_init sid symbol p) es)"
proof -
  have "vwap_init sid' symbol p = mirror sid' (vwap_init sid symbol p)" by (simp add: mirror_def vwap_init_def)
  moreover have "side_known (vwap_init sid symbol p)" using assms by (simp add: side_known_def vwap_init_def)
  ultimately show ?thesis by (simp add: mirror_signals)
qed

lemma momentum_mirrors_mean_reversion_witness:
  "signals_of (vwap_step breakout_side) (vwap_init ''momentum_btcusd'' ''BTCUSD'' default_params) [Book_tick depth_default] =
    map (mirror_signal ''momentum_btcusd'')
      (signals_of (vwap_step revert_side) (vwap_init ''mean_reversion_btcusd'' ''BTCUSD'' default_params) [Book_tick depth_default])"
  by (rule momentum_mirrors_mean_reversion) (simp add: default_params_def)

lemma signal_size:
  assumes "position_size p price hv = Some q" and "0 < price" and "vp_min_notional_usd p \<le> vp_max_notional_usd p"
  shows "vp_min_notional_usd p - price / (2 * 10 ^ 8) \<le> py_round q 8 * price \<and>
    py_round q 8 * price \<le> vp_max_notional_usd p + price / (2 * 10 ^ 8)"
proof -
  define d where "d = price / (2 * 10 ^ 8)"
  have "\<bar>py_round q 8 - q\<bar> * price \<le> 1 / (2 * 10 ^ 8) * price"
    by (rule mult_right_mono [OF py_round_error]) (use assms(2) in simp)
  then have "\<bar>py_round q 8 * price - q * price\<bar> \<le> d"
    using assms(2) by (simp add: d_def abs_mult left_diff_distrib [symmetric])
  with position_size_bounds [OF assms] show ?thesis unfolding d_def [symmetric] by (simp only: abs_le_iff) linarith
qed

text \<open>
  What a mean reversion signal says: in any reachable state, when a trade makes the strategy emit a
  signal, the strategy has warmed up, a BUY is emitted at a price more than the threshold of
  standard deviations below the window's average price and a SELL at one that far above it,
  the strength is above one half and at most 1, the urgency above 0 and at most 1, and the
  quantity is worth between the minimal and the maximal notional, up to its rounding.
\<close>

theorem mean_reversion_signal_sound:
  fixes es :: "market_event list" and sid symbol :: string
  assumes "params_ok p" and "vp_min_notional_usd p \<le> vp_max_notional_usd p"
    and "list_all positive_prices es" and "0 < tr_price t"
  defines "st \<equiv> foldl (\<lambda>s e. snd (vwap_step revert_side s e)) (vwap_init sid symbol p) es"
  assumes "vwap_step revert_side st (Trade_tick env t) = (Inr (Some sig), st')"
  shows "let f = compute (vs_feature_engine st'); band = vp_threshold_std p * (ft_volatility f * ft_vwap f);
      price = sg_mid_price_at_signal sig in
    vp_warmup_trades p \<le> vs_trade_count st' \<and>
    (if sg_side sig = ''BUY'' then tr_price t < ft_vwap f - band else ft_vwap f + band < tr_price t) \<and>
    1 / 2 < sg_strength sig \<and> sg_strength sig \<le> 1 \<and> 0 < sg_urgency sig \<and> sg_urgency sig \<le> 1 \<and>
    vp_min_notional_usd p - price / (2 * 10 ^ 8) \<le> sg_target_quantity sig * price \<and>
    sg_target_quantity sig * price \<le> vp_max_notional_usd p + price / (2 * 10 ^ 8)"
proof -
  have inv: "vwap_inv st"
    unfolding st_def by (rule mean_reversion.inv_run [OF vwap_inv_init [OF assms(1)] assms(3)])
  have p: "vs_params st = p"
    using params_run [OF vwap_inv_init [OF assms(1)] assms(3) sane_picks(1)] by (simp add: st_def vwap_init_def)
  have thr: "0 < vp_threshold_std p" using assms(1) by (simp add: params_ok_def)
  show ?thesis
  proof (cases rule: on_trade_cases [OF inv assms(4) sane_picks(1), of env])
    case (1 st2)
    define f where "f = compute (vs_feature_engine st2)"
    define z where "z = z_score_of (tr_price t) f"
    have warm: "is_warmed_up st2" and dec: "decide revert_side env t st2 = (Inr (Some sig), st')"
      using 1 assms(6) by (auto split: if_splits)
    show ?thesis
    proof (cases rule: decide_cases [OF 1(1) assms(4) sane_picks(1), of env])
      case signal: (2 side sig' q)
      have st': "vs_feature_engine st' = vs_feature_engine st2" "vs_trade_count st' = vs_trade_count st2" "sig' = sig"
        using dec signal(3) by auto
      have price: "0 < sg_mid_price_at_signal sig"
        using price_positive [OF 1(1) assms(4)] signal(9) st' by simp
      have side: "sg_side sig = side" "revert_side z (vp_threshold_std p) = Some side"
        using signal(1,6) 1(4) p st' by (simp_all add: z_def f_def)
      then have z: "vp_threshold_std p < \<bar>z\<bar>" using sane_picks(1) thr by (auto simp: sane_pick_def)
      then have vol: "0 < ft_volatility f * ft_vwap f" and zv: "z = (tr_price t - ft_vwap f) / (ft_volatility f * ft_vwap f)"
        using thr by (auto simp: z_def z_score_of_def Let_def split: if_splits)
      have "if sg_side sig = ''BUY'' then tr_price t < ft_vwap f - vp_threshold_std p * (ft_volatility f * ft_vwap f)
          else ft_vwap f + vp_threshold_std p * (ft_volatility f * ft_vwap f) < tr_price t"
        using side vol by (auto simp: revert_side_def zv pos_divide_less_eq pos_less_divide_eq algebra_simps split: if_splits)
      moreover have "1 / 2 < sg_strength sig \<and> sg_strength sig \<le> 1 \<and> 0 < sg_urgency sig \<and> sg_urgency sig \<le> 1"
        using signal(7,8) st' z thr 1(4) p by (simp add: z_def f_def pos_less_divide_eq)
      moreover have "vp_min_notional_usd p - sg_mid_price_at_signal sig / (2 * 10 ^ 8) \<le> sg_target_quantity sig * sg_mid_price_at_signal sig \<and>
          sg_target_quantity sig * sg_mid_price_at_signal sig \<le> vp_max_notional_usd p + sg_mid_price_at_signal sig / (2 * 10 ^ 8)"
        using signal_size [OF signal(11)] price assms(2) signal(9,10) st' 1(4) p by simp
      moreover have "vp_warmup_trades p \<le> vs_trade_count st'" using warm 1(4) p st' by (simp add: is_warmed_up_def)
      ultimately show ?thesis unfolding Let_def st' f_def by blast
    qed (use dec in simp)
  qed
qed


definition quick_params :: vwap_params where
  "quick_params = default_params\<lparr>vp_window_size := 4, vp_threshold_std := 1 / 2, vp_warmup_trades := 4,
     vp_cooldown_trades := 1, vp_holding_period_trades := 1\<rparr>"

definition tick_at :: "real \<Rightarrow> market_event" where
  "tick_at price = Trade_tick \<lparr>se_now = 0, se_uid = ''u'', se_now2 = 0, se_uid2 = ''v''\<rparr>
     (trade_default\<lparr>tr_price := price, tr_quantity := 1\<rparr>)"

lemma quick_step:
  "\<exists>sig st'. vwap_step revert_side (foldl (\<lambda>s e. snd (vwap_step revert_side s e)) (vwap_init ''m'' ''BTCUSD'' quick_params)
     [tick_at 100, tick_at 100, tick_at 150]) (tick_at 75) = (Inr (Some sig), st') \<and> sg_side sig = ''BUY''"
  by (simp add: tick_at_def vwap_on_trade_def vwap_init_def quick_params_def default_params_def feature_on_trade_def
      feature_init_def Let_def deque_append_def is_warmed_up_def cooldown_elapsed_def decide_def compute_def
      window_vwap_def window_volatility_def sq_dev_def mean_def z_score_of_def revert_side_def vwap_signal_def
      position_size_def py_or_def py_sqrt_def)


lemma mean_reversion_signal_sound_witness:
  "\<exists>sig st'. vwap_step revert_side (foldl (\<lambda>s e. snd (vwap_step revert_side s e)) (vwap_init ''m'' ''BTCUSD'' quick_params)
     [tick_at 100, tick_at 100, tick_at 150]) (tick_at 75) = (Inr (Some sig), st') \<and>
     sg_side sig = ''BUY'' \<and> 1 / 2 < sg_strength sig \<and> 75 < ft_vwap (compute (vs_feature_engine st'))
       - vp_threshold_std quick_params * (ft_volatility (compute (vs_feature_engine st')) * ft_vwap (compute (vs_feature_engine st')))"
proof -
  obtain sig st' where s: "vwap_step revert_side (foldl (\<lambda>s e. snd (vwap_step revert_side s e))
      (vwap_init ''m'' ''BTCUSD'' quick_params) [tick_at 100, tick_at 100, tick_at 150]) (tick_at 75) = (Inr (Some sig), st')"
      "sg_side sig = ''BUY''"
    using quick_step by blast
  show ?thesis
    using mean_reversion_signal_sound [OF _ _ _ _ s(1) [unfolded tick_at_def [of 75]]] s
    by (simp add: params_ok_def quick_params_def default_params_def tick_at_def Let_def)
qed

end
