(* ===== verification/Linear_Regression.thy ===== *)
theory Linear_Regression
  imports Ols Vwap_Strategies
begin

text \<open>
  \<open>services/alpha-engine/alpha_engine_svc/strategies/linear_regression.py\<close>: a strategy that trades the
  residual of a rolling least squares model of the price. The fit itself is in theory \<open>Ols\<close>.
\<close>

record lr_params =
  lp_window_size :: nat
  lp_refit_interval :: int
  lp_threshold_std :: real
  lp_warmup_trades :: int
  lp_base_quantity :: real
  lp_cooldown_trades :: int

definition lr_default_params :: lr_params where
  "lr_default_params = \<lparr>lp_window_size = 200, lp_refit_interval = 50, lp_threshold_std = 15 / 10,
     lp_warmup_trades = 100, lp_base_quantity = 1 / 1000, lp_cooldown_trades = 20\<rparr>"

record lr_strategy =
  lr_strategy_id :: string
  lr_symbol :: string
  lr_params_of :: lr_params
  lr_feature_engine :: feature_engine
  lr_trade_count :: int
  lr_trades_since_last_signal :: int
  lr_trades_since_last_fit :: int
  lr_last_signal_side :: "string option"
  lr_feature_history :: "real list list"
  lr_price_history :: "real list"
  lr_beta :: "real list"
  lr_intercept :: real
  lr_residual_std :: real
  lr_model_fitted :: bool
  lr_mid_price :: "real option"
  lr_spread :: "real option"
  lr_book_imbalance :: real

definition lr_init :: "string \<Rightarrow> string \<Rightarrow> lr_params \<Rightarrow> lr_strategy" where
  "lr_init strategy_id symbol merged = \<lparr>lr_strategy_id = strategy_id, lr_symbol = symbol, lr_params_of = merged,
     lr_feature_engine = feature_init symbol (lp_window_size merged), lr_trade_count = 0,
     lr_trades_since_last_signal = 0, lr_trades_since_last_fit = 0, lr_last_signal_side = None,
     lr_feature_history = [], lr_price_history = [], lr_beta = [], lr_intercept = 0, lr_residual_std = 0,
     lr_model_fitted = False, lr_mid_price = None, lr_spread = None, lr_book_imbalance = 0\<rparr>"

definition build_feature_row :: "lr_strategy \<Rightarrow> real list" where
  "build_feature_row st =
     (let f = compute (lr_feature_engine st) in
      [ft_vwap f, ft_trade_imbalance f, ft_volatility f * 10000, lr_book_imbalance st])"

definition residuals :: "matrix \<Rightarrow> real list \<Rightarrow> real list \<Rightarrow> real \<Rightarrow> real list" where
  "residuals x_mat y beta intercept = map (\<lambda>(x_i, yi). yi - predict x_i beta intercept) (zip x_mat y)"

definition population_std :: "real list \<Rightarrow> real" where
  "population_std rs = sqrt (sq_dev rs / real (length rs))"

definition fit_model :: "lr_strategy \<Rightarrow> lr_strategy" where
  "fit_model st =
     (if length (lr_price_history st) < 20 then st
      else let x_mat = lr_feature_history st; y = lr_price_history st; (beta, intercept) = ols_fit x_mat y in
        if beta = [] then st
        else let rs = residuals x_mat y beta intercept in
          if length rs < 2 then st
          else let std_r = population_std rs in
            if 0 < std_r
            then st\<lparr>lr_beta := beta, lr_intercept := intercept, lr_residual_std := std_r, lr_model_fitted := True,
              lr_trades_since_last_fit := 0\<rparr>
            else st)"

definition lr_signal :: "strategy_env \<Rightarrow> string \<Rightarrow> real \<Rightarrow> real \<Rightarrow> real \<Rightarrow> trade \<Rightarrow> lr_strategy \<Rightarrow> signal" where
  "lr_signal env side strength z fair_value t st =
     \<lparr>sg_signal_id = se_uid env, sg_timestamp = se_now env, sg_strategy_id = lr_strategy_id st, sg_symbol = lr_symbol st,
      sg_side = side, sg_strength = strength, sg_target_quantity = lp_base_quantity (lr_params_of st),
      sg_urgency = min strength 1,
      sg_metadata = [(''z_score'', JNum (py_round z 4)), (''fair_value'', JNum (py_round fair_value 2)),
        (''residual'', JNum (py_round (tr_price t - fair_value) 4)),
        (''residual_std'', JNum (py_round (lr_residual_std st) 6)), (''n_features'', JInt (int (length (lr_beta st))))],
      sg_mid_price_at_signal = py_or (lr_mid_price st) (tr_price t), sg_spread_at_signal = py_or (lr_spread st) 0\<rparr>"

definition lr_decide :: "strategy_env \<Rightarrow> trade \<Rightarrow> real list \<Rightarrow> lr_strategy \<Rightarrow> (py_error + signal option) \<times> lr_strategy" where
  \<comment> \<open>\<open>on_trade\<close> from the prediction on\<close>
  "lr_decide env t feature_row st =
     (let fair_value = predict feature_row (lr_beta st) (lr_intercept st); residual = tr_price t - fair_value;
          z = residual / lr_residual_std st; threshold = lp_threshold_std (lr_params_of st) in
      if lr_residual_std st = 0 then (Inr None, st)
      else case revert_side z threshold of
        None \<Rightarrow> (Inr None, st)
      | Some side \<Rightarrow>
          (case py_div \<bar>z\<bar> (threshold * 2) of
             Inl e \<Rightarrow> (Inl e, st)
           | Inr s \<Rightarrow>
               if Some side = lr_last_signal_side st then (Inr None, st)
               else let st' = st\<lparr>lr_last_signal_side := Some side, lr_trades_since_last_signal := 0\<rparr> in
                 (Inr (Some (lr_signal env side (min s 1) z fair_value t st')), st')))"

definition lr_remember :: "trade \<Rightarrow> lr_strategy \<Rightarrow> lr_strategy" where
  \<comment> \<open>store the feature row and the price, then the periodic refit\<close>
  "lr_remember t st =
     (let n = lp_window_size (lr_params_of st);
          st1 = st\<lparr>lr_feature_history := deque_append n (lr_feature_history st) (build_feature_row st),
            lr_price_history := deque_append n (lr_price_history st) (tr_price t)\<rparr> in
      if lp_refit_interval (lr_params_of st) \<le> lr_trades_since_last_fit st1 then fit_model st1 else st1)"

definition lr_on_trade :: "strategy_env \<Rightarrow> trade \<Rightarrow> lr_strategy \<Rightarrow> (py_error + signal option) \<times> lr_strategy" where
  "lr_on_trade env t st =
     (let st1 = st\<lparr>lr_trade_count := lr_trade_count st + 1,
            lr_trades_since_last_signal := lr_trades_since_last_signal st + 1,
            lr_trades_since_last_fit := lr_trades_since_last_fit st + 1\<rparr> in
      case feature_on_trade (tr_price t) (tr_quantity t) (tr_is_buyer_maker t) (tr_timestamp_exchange t)
             (lr_feature_engine st1) of
        Inl e \<Rightarrow> (Inl e, st1)
      | Inr fe \<Rightarrow>
          let st2 = st1\<lparr>lr_feature_engine := fe\<rparr>; row = build_feature_row st2; st3 = lr_remember t st2 in
          if \<not> (lp_warmup_trades (lr_params_of st3) \<le> lr_trade_count st3) \<or> \<not> lr_model_fitted st3 then (Inr None, st3)
          else if \<not> (lp_cooldown_trades (lr_params_of st3) \<le> lr_trades_since_last_signal st3) then (Inr None, st3)
          else lr_decide env t row st3)"

definition lr_on_book_update :: "depth_update \<Rightarrow> lr_strategy \<Rightarrow> lr_strategy" where
  "lr_on_book_update u st =
     (let best_bid = py_max (map fst (dp_bids u)); best_ask = py_min (map fst (dp_asks u));
          bid_vol = sum_list (map snd (dp_bids u)); ask_vol = sum_list (map snd (dp_asks u)); total = bid_vol + ask_vol;
          st1 = (if dp_bids u \<noteq> [] \<and> dp_asks u \<noteq> [] \<and> best_bid \<noteq> 0 \<and> best_ask \<noteq> 0
            then st\<lparr>lr_mid_price := Some ((best_bid + best_ask) / 2), lr_spread := Some (best_ask - best_bid),
              lr_book_imbalance := (if 0 < total then (bid_vol - ask_vol) / total else 0)\<rparr>
            else st) in
      st1\<lparr>lr_feature_engine :=
        on_book_snapshot (lr_mid_price st1) (lr_spread st1) (lr_book_imbalance st1) (lr_feature_engine st1)\<rparr>)"

fun lr_step :: "lr_strategy \<Rightarrow> market_event \<Rightarrow> (py_error + signal option) \<times> lr_strategy" where
  "lr_step st (Trade_tick env t) = lr_on_trade env t st"
| "lr_step st (Book_tick u) = (Inr None, lr_on_book_update u st)"

section \<open>The model in use is a least squares fit\<close>

text \<open>The invariant: histories of equal length with rows of four features, and a fitted model comes from a window.\<close>

definition model_from :: "lr_strategy \<Rightarrow> matrix \<Rightarrow> real list \<Rightarrow> bool" where
  "model_from st xs ys \<longleftrightarrow> length xs = length ys \<and> 20 \<le> length ys \<and> length ys \<le> lp_window_size (lr_params_of st) \<and>
     (\<forall>row \<in> set xs. length row = 4) \<and> ols_fit xs ys = (lr_beta st, lr_intercept st) \<and> lr_beta st \<noteq> [] \<and>
     lr_residual_std st = population_std (residuals xs ys (lr_beta st) (lr_intercept st)) \<and> 0 < lr_residual_std st"

definition lr_inv :: "lr_strategy \<Rightarrow> bool" where
  "lr_inv st \<longleftrightarrow> 0 < lp_window_size (lr_params_of st) \<and> 0 < lp_threshold_std (lr_params_of st) \<and>
     fe_window_size (lr_feature_engine st) = lp_window_size (lr_params_of st) \<and>
     (\<exists>w. represents (lr_feature_engine st) w) \<and> length (lr_feature_history st) = length (lr_price_history st) \<and>
     length (lr_price_history st) \<le> lp_window_size (lr_params_of st) \<and>
     (\<forall>row \<in> set (lr_feature_history st). length row = 4) \<and>
     (lr_model_fitted st \<longrightarrow> (\<exists>xs ys. model_from st xs ys))"

lemma lr_inv_init:
  "0 < lp_window_size p \<Longrightarrow> 0 < lp_threshold_std p \<Longrightarrow> lr_inv (lr_init sid symbol p)"
  by (auto simp: lr_inv_def lr_init_def feature_init_def represents_def intro: exI [of _ "[]"])

lemma fit_model_fields [simp]:
  "lr_strategy_id (fit_model st) = lr_strategy_id st" "lr_symbol (fit_model st) = lr_symbol st"
  "lr_params_of (fit_model st) = lr_params_of st" "lr_last_signal_side (fit_model st) = lr_last_signal_side st"
  "lr_trades_since_last_signal (fit_model st) = lr_trades_since_last_signal st"
  "lr_feature_engine (fit_model st) = lr_feature_engine st" "lr_feature_history (fit_model st) = lr_feature_history st"
  "lr_price_history (fit_model st) = lr_price_history st" "lr_trade_count (fit_model st) = lr_trade_count st"
  by (simp_all add: fit_model_def Let_def split: prod.split)

lemma fit_model_inv:
  assumes "lr_inv st"
  shows "lr_inv (fit_model st)"
proof -
  obtain beta c where fit: "ols_fit (lr_feature_history st) (lr_price_history st) = (beta, c)" by fastforce
  have "model_from (fit_model st) (lr_feature_history st) (lr_price_history st) \<or> fit_model st = st"
    using assms by (auto simp: fit_model_def Let_def fit model_from_def lr_inv_def)
  then show ?thesis
  proof
    assume "model_from (fit_model st) (lr_feature_history st) (lr_price_history st)"
    with assms show ?thesis by (auto simp: lr_inv_def)
  qed (use assms in simp)
qed

lemma set_deque_append: "set (deque_append n xs x) \<subseteq> insert x (set xs)"
  unfolding deque_append_def Let_def by (rule subset_trans [OF set_drop_subset]) simp

lemma lr_remember_inv:
  assumes "lr_inv st"
  shows "lr_inv (lr_remember t st)"
proof -
  define n where "n = lp_window_size (lr_params_of st)"
  define st1 where "st1 = st\<lparr>lr_feature_history := deque_append n (lr_feature_history st) (build_feature_row st),
    lr_price_history := deque_append n (lr_price_history st) (tr_price t)\<rparr>"
  have "length (build_feature_row st) = 4" by (simp add: build_feature_row_def Let_def)
  then have "lr_inv st1"
    using assms set_deque_append [of n "lr_feature_history st" "build_feature_row st"]
    by (auto simp: lr_inv_def st1_def length_deque_append n_def model_from_def)
  then show ?thesis
    using fit_model_inv by (simp add: lr_remember_def Let_def flip: n_def st1_def)
qed

lemma lr_remember_fields [simp]:
  "lr_strategy_id (lr_remember t st) = lr_strategy_id st" "lr_symbol (lr_remember t st) = lr_symbol st"
  "lr_params_of (lr_remember t st) = lr_params_of st" "lr_last_signal_side (lr_remember t st) = lr_last_signal_side st"
  "lr_trades_since_last_signal (lr_remember t st) = lr_trades_since_last_signal st"
  by (simp_all add: lr_remember_def Let_def)


lemma lr_remember_last:
  assumes "lr_inv st"
  shows "last (lr_feature_history (lr_remember t st)) = build_feature_row st"
proof -
  obtain m where m: "lp_window_size (lr_params_of st) = Suc m"
    using assms by (cases "lp_window_size (lr_params_of st)") (auto simp: lr_inv_def)
  have "length (lr_feature_history st) \<le> Suc m" using assms by (simp add: lr_inv_def m)
  from deque1.last_push [OF this] show ?thesis by (simp add: lr_remember_def Let_def m)
qed

lemma lr_decide_cases:
  fixes row :: "real list"
  assumes "lr_inv st"
  defines "fair \<equiv> predict row (lr_beta st) (lr_intercept st)"
  obtains (quiet) "lr_decide env t row st = (Inr None, st)"
  | (signal) side sig where "revert_side ((tr_price t - fair) / lr_residual_std st) (lp_threshold_std (lr_params_of st)) = Some side"
      "lr_residual_std st \<noteq> 0" "lr_last_signal_side st \<noteq> Some side"
      "lr_decide env t row st = (Inr (Some sig), st\<lparr>lr_last_signal_side := Some side, lr_trades_since_last_signal := 0\<rparr>)"
      "sg_strategy_id sig = lr_strategy_id st" "sg_symbol sig = lr_symbol st" "sg_side sig = side"
proof -
  define thr where "thr = lp_threshold_std (lr_params_of st)"
  define z where "z = (tr_price t - fair) / lr_residual_std st"
  have thr: "0 < thr" using assms(1) by (simp add: lr_inv_def thr_def)
  show thesis
  proof (cases "lr_residual_std st = 0 \<or> revert_side z thr = None \<or> revert_side z thr = lr_last_signal_side st")
    case True
    then have "lr_decide env t row st = (Inr None, st)"
      using thr by (auto simp: lr_decide_def Let_def z_def thr_def fair_def py_div_def split: option.split)
    then show thesis by (rule quiet)
  next
    case False
    then obtain side where side: "revert_side z thr = Some side" "lr_last_signal_side st \<noteq> Some side" by auto
    then have "lr_decide env t row st =
        (Inr (Some (lr_signal env side (min (\<bar>z\<bar> / (thr * 2)) 1) z fair t
          (st\<lparr>lr_last_signal_side := Some side, lr_trades_since_last_signal := 0\<rparr>))),
         st\<lparr>lr_last_signal_side := Some side, lr_trades_since_last_signal := 0\<rparr>)"
      using False thr not_sym [OF side(2)] by (simp add: lr_decide_def Let_def fair_def z_def thr_def)
    with side False show thesis
      by (intro signal [of side "lr_signal env side (min (\<bar>z\<bar> / (thr * 2)) 1) z fair t
          (st\<lparr>lr_last_signal_side := Some side, lr_trades_since_last_signal := 0\<rparr>)"])
        (simp_all add: z_def thr_def lr_signal_def)
  qed
qed

lemma lr_step_cases:
  assumes inv: "lr_inv st"
  obtains (quiet) st' where "lr_step st e = (Inr None, st')" "lr_inv st'" "lr_strategy_id st' = lr_strategy_id st"
      "lr_symbol st' = lr_symbol st" "lr_params_of st' = lr_params_of st" "lr_last_signal_side st' = lr_last_signal_side st"
      "lr_trades_since_last_signal st' = lr_trades_since_last_signal st + (if is_trade_tick e then 1 else 0)"
  | (signal) st3 sig side env t row where "e = Trade_tick env t" "lr_step st e = (Inr (Some sig), snd (lr_decide env t row st3))"
      "lr_inv st3" "lr_model_fitted st3" "lr_strategy_id st3 = lr_strategy_id st" "lr_symbol st3 = lr_symbol st"
      "lr_params_of st3 = lr_params_of st" "lr_last_signal_side st3 = lr_last_signal_side st"
      "revert_side ((tr_price t - predict row (lr_beta st3) (lr_intercept st3)) / lr_residual_std st3)
         (lp_threshold_std (lr_params_of st3)) = Some side" "lr_last_signal_side st3 \<noteq> Some side"
      "snd (lr_decide env t row st3) = st3\<lparr>lr_last_signal_side := Some side, lr_trades_since_last_signal := 0\<rparr>"
      "sg_strategy_id sig = lr_strategy_id st" "sg_symbol sig = lr_symbol st" "sg_side sig = side"
      "lp_cooldown_trades (lr_params_of st) \<le> lr_trades_since_last_signal st + 1"
      "last (lr_feature_history st3) = row" "lp_warmup_trades (lr_params_of st) \<le> lr_trade_count st3"
proof (cases e)
  case (Trade_tick env t)
  obtain w where w: "represents (lr_feature_engine st) w" "0 < fe_window_size (lr_feature_engine st)"
    using inv by (auto simp: lr_inv_def)
  obtain fe where fe: "feature_on_trade (tr_price t) (tr_quantity t) (tr_is_buyer_maker t) (tr_timestamp_exchange t)
        (lr_feature_engine st) = Inr fe" "fe_window_size fe = fe_window_size (lr_feature_engine st)" "\<exists>w. represents fe w"
    by (rule represents_trade [OF w]) blast
  define st2 where "st2 = st\<lparr>lr_trade_count := lr_trade_count st + 1,
    lr_trades_since_last_signal := lr_trades_since_last_signal st + 1,
    lr_trades_since_last_fit := lr_trades_since_last_fit st + 1, lr_feature_engine := fe\<rparr>"
  define st3 where "st3 = lr_remember t st2"
  define row where "row = build_feature_row st2"
  define ready where "ready \<longleftrightarrow> lp_warmup_trades (lr_params_of st3) \<le> lr_trade_count st3 \<and> lr_model_fitted st3 \<and>
    lp_cooldown_trades (lr_params_of st3) \<le> lr_trades_since_last_signal st3"
  have "lr_inv st2" using inv fe by (auto simp: lr_inv_def st2_def model_from_def)
  then have inv3: "lr_inv st3" unfolding st3_def by (rule lr_remember_inv)
  have last: "last (lr_feature_history st3) = row"
    unfolding st3_def row_def by (rule lr_remember_last [OF \<open>lr_inv st2\<close>])
  have f3: "lr_strategy_id st3 = lr_strategy_id st" "lr_symbol st3 = lr_symbol st" "lr_params_of st3 = lr_params_of st"
      "lr_last_signal_side st3 = lr_last_signal_side st"
      "lr_trades_since_last_signal st3 = lr_trades_since_last_signal st + 1"
    by (simp_all add: st3_def st2_def)
  have step: "lr_step st e = (if ready then lr_decide env t row st3 else (Inr None, st3))"
    unfolding Trade_tick lr_step.simps lr_on_trade_def Let_def
    by (simp add: fe(1) ready_def row_def flip: st2_def st3_def)
  show thesis
  proof (cases "ready \<and> lr_decide env t row st3 \<noteq> (Inr None, st3)")
    case False
    show thesis by (rule quiet [of st3]) (use False step inv3 f3 Trade_tick in auto)
  next
    case True
    then have ready: "ready" ..
    show thesis
    proof (cases rule: lr_decide_cases [OF inv3, of env t row])
      case 1
      with True show thesis by simp
    next
      case (2 side sig)
      show thesis
        by (rule signal [of env t sig row st3 side]) (use 2 ready step Trade_tick inv3 f3 last in \<open>auto simp: ready_def\<close>)
    qed
  qed
next
  case (Book_tick u)
  have "lr_inv (lr_on_book_update u st)"
    using inv by (auto simp: lr_inv_def lr_on_book_update_def Let_def on_book_snapshot_def represents_def model_from_def)
  then show thesis
    by (intro quiet [of "lr_on_book_update u st"]) (simp_all add: Book_tick lr_on_book_update_def Let_def)
qed

lemma lr_signal_inv:
  "lr_inv st \<Longrightarrow> lr_inv (st\<lparr>lr_last_signal_side := s, lr_trades_since_last_signal := k\<rparr>)"
  by (auto simp: lr_inv_def model_from_def)

interpretation linear_regression: signal_strategy lr_step lr_inv "\<lambda>_. True" "\<lambda>st. (lr_strategy_id st, lr_symbol st)"
    lr_last_signal_side lr_trades_since_last_signal "\<lambda>st. lp_cooldown_trades (lr_params_of st)"
proof
  fix st e
  assume inv: "lr_inv st" and "True"
  show "lr_inv (snd (lr_step st e))"
    by (cases rule: lr_step_cases [OF inv, of e]) (simp_all add: lr_signal_inv)
  show "fst (lr_step st e) \<noteq> Inl x" for x
    by (cases rule: lr_step_cases [OF inv, of e]) simp_all
  show "(lr_strategy_id (snd (lr_step st e)), lr_symbol (snd (lr_step st e))) = (lr_strategy_id st, lr_symbol st) \<and>
      lp_cooldown_trades (lr_params_of (snd (lr_step st e))) = lp_cooldown_trades (lr_params_of st)"
    by (cases rule: lr_step_cases [OF inv, of e]) simp_all
  show "is_trade_tick e \<and> (sg_strategy_id sig, sg_symbol sig) = (lr_strategy_id st, lr_symbol st) \<and>
      sg_side sig \<in> {''BUY'', ''SELL''} \<and> lr_last_signal_side st \<noteq> Some (sg_side sig) \<and>
      lr_last_signal_side (snd (lr_step st e)) = Some (sg_side sig) \<and>
      lp_cooldown_trades (lr_params_of st) \<le> lr_trades_since_last_signal st + 1 \<and>
      lr_trades_since_last_signal (snd (lr_step st e)) = 0"
    if "fst (lr_step st e) = Inr (Some sig)" for sig
    by (cases rule: lr_step_cases [OF inv, of e]) (use that revert_known in auto)
  show "lr_last_signal_side (snd (lr_step st e)) = lr_last_signal_side st \<and>
      lr_trades_since_last_signal (snd (lr_step st e)) = lr_trades_since_last_signal st + (if is_trade_tick e then 1 else 0)"
    if "fst (lr_step st e) = Inr None"
    by (cases rule: lr_step_cases [OF inv, of e]) (use that in simp_all)
qed

lemma lr_params_run: "lr_inv s \<Longrightarrow> lr_params_of (foldl (\<lambda>s e. snd (lr_step s e)) s es) = lr_params_of s"
proof (induction es arbitrary: s)
  case (Cons e es)
  have "lr_inv (snd (lr_step s e)) \<and> lr_params_of (snd (lr_step s e)) = lr_params_of s"
    by (cases rule: lr_step_cases [OF Cons.prems, of e]) (simp_all add: lr_signal_inv)
  with Cons.IH [of "snd (lr_step s e)"] show ?case by simp
qed simp

text \<open>What a signal of the regression strategy rests on.\<close>

definition rests_on_least_squares :: "lr_params \<Rightarrow> trade \<Rightarrow> signal \<Rightarrow> lr_strategy \<Rightarrow> bool" where
  "rests_on_least_squares p t sig st' \<longleftrightarrow> (\<exists>xs ys. length xs = length ys \<and> 20 \<le> length ys \<and> length ys \<le> lp_window_size p \<and>
    (\<forall>beta' c'. length beta' = 4 \<longrightarrow>
      squared_error xs ys (lr_beta st') (lr_intercept st') \<le> squared_error xs ys beta' c') \<and>
    (let sigma = population_std (residuals xs ys (lr_beta st') (lr_intercept st'));
         fair = predict (last (lr_feature_history st')) (lr_beta st') (lr_intercept st') in
     0 < sigma \<and> (if sg_side sig = ''BUY'' then tr_price t < fair - lp_threshold_std p * sigma
       else fair + lp_threshold_std p * sigma < tr_price t)))"

lemma signal_rests_on_least_squares:
  fixes es :: "market_event list" and sid symbol :: string
  assumes "0 < lp_window_size p" and "0 < lp_threshold_std p"
  defines "st \<equiv> foldl (\<lambda>s e. snd (lr_step s e)) (lr_init sid symbol p) es"
  assumes "lr_step st (Trade_tick env t) = (Inr (Some sig), st')"
  shows "rests_on_least_squares p t sig st'"
proof -
  have init: "lr_inv (lr_init sid symbol p)" using assms(1,2) by (rule lr_inv_init)
  have inv: "lr_inv st" unfolding st_def by (rule linear_regression.inv_run [OF init]) (simp add: list_all_iff)
  have p: "lr_params_of st = p" using lr_params_run [OF init] by (simp add: st_def lr_init_def)
  show ?thesis
  proof (cases rule: lr_step_cases [OF inv, of "Trade_tick env t"])
    case (2 st3 sig' side env' t' row)
    have "t' = t" "sig' = sig" "st' = snd (lr_decide env' t' row st3)" using 2(1,2) assms(4) by auto
    then have same: "t' = t" "sig' = sig" "lr_beta st' = lr_beta st3" "lr_intercept st' = lr_intercept st3"
        "lr_feature_history st' = lr_feature_history st3"
      unfolding 2(11) by simp_all
    obtain xs ys where m: "model_from st3 xs ys" using 2 by (auto simp: lr_inv_def)
    define sigma where "sigma = population_std (residuals xs ys (lr_beta st3) (lr_intercept st3))"
    define fair where "fair = predict row (lr_beta st3) (lr_intercept st3)"
    have sigma: "0 < sigma" "lr_residual_std st3 = sigma" using m by (simp_all add: model_from_def sigma_def)
    have "if side = ''BUY'' then tr_price t < fair - lp_threshold_std p * sigma
        else fair + lp_threshold_std p * sigma < tr_price t"
      using 2(9) sigma same(1) 2(7) p
      by (auto simp: revert_side_def fair_def pos_divide_less_eq pos_less_divide_eq algebra_simps split: if_splits)
    moreover have "squared_error xs ys (lr_beta st3) (lr_intercept st3) \<le> squared_error xs ys beta' c'"
      if "length beta' = 4" for beta' c'
      using ols_least [of xs ys _ _ 4 beta'] m that by (simp add: model_from_def)
    moreover have "length xs = length ys \<and> 20 \<le> length ys \<and> length ys \<le> lp_window_size p"
      using m 2(7) p by (simp add: model_from_def)
    moreover have "sg_side sig = side" "last (lr_feature_history st') = row" using 2(14,16) same by simp_all
    ultimately show ?thesis
      using sigma(1) unfolding rests_on_least_squares_def Let_def same(3,4) sigma_def fair_def
      by (intro exI [of _ xs] exI [of _ ys]) simp
  qed (use assms(4) in simp)
qed


text \<open>
  A regression signal trades the residual of a least squares model: in any reachable state a trade
  never raises, and when it makes the strategy emit a signal, the coefficients are the least
  squares fit of a window of at least 20 and at most \<open>window_size\<close> observations, the unit is the
  standard deviation of that fit's residuals, and it buys only at a price more than the
  threshold of these below the model's prediction from the newest feature row, and sells only
  that far above it; without a signal the remembered side stays.
\<close>

theorem regression_signal_sound:
  fixes es :: "market_event list" and sid symbol :: string
  assumes "0 < lp_window_size p" and "0 < lp_threshold_std p"
  defines "st \<equiv> foldl (\<lambda>s e. snd (lr_step s e)) (lr_init sid symbol p) es"
  shows "case lr_step st (Trade_tick env t) of
      (Inr (Some sig), st') \<Rightarrow> rests_on_least_squares p t sig st' \<and> lr_last_signal_side st \<noteq> Some (sg_side sig)
    | (Inr None, st') \<Rightarrow> lr_last_signal_side st' = lr_last_signal_side st
    | (Inl e, st') \<Rightarrow> False"
proof -
  have inv: "lr_inv st"
    unfolding st_def by (rule linear_regression.inv_run [OF lr_inv_init [OF assms(1,2)]]) (simp add: list_all_iff)
  obtain r st' where step: "lr_step st (Trade_tick env t) = (r, st')" by fastforce
  from linear_regression.step_cases [OF inv] consider (signal) sig where "r = Inr (Some sig)" | (quiet) "r = Inr None"
    unfolding step [symmetric] by (metis TrueI fst_conv step)
  then show ?thesis
  proof cases
    case signal
    then show ?thesis
      using signal_rests_on_least_squares [OF assms(1,2) step [unfolded st_def signal]]
        linear_regression.on_signal [OF inv, of "Trade_tick env t" sig] by (simp add: step del: lr_step.simps)
  next
    case quiet
    then show ?thesis
      using linear_regression.on_quiet [OF inv, of "Trade_tick env t"] by (simp add: step del: lr_step.simps)
  qed
qed

lemma regression_signal_sound_witness:
  "case lr_step (lr_init ''lr'' ''BTCUSD'' lr_default_params)
      (Trade_tick \<lparr>se_now = 0, se_uid = ''u'', se_now2 = 0, se_uid2 = ''v''\<rparr> (trade_default\<lparr>tr_price := 100\<rparr>)) of
    (Inr None, st') \<Rightarrow> lr_last_signal_side st' = None | _ \<Rightarrow> True"
  using regression_signal_sound [where p = lr_default_params and env = "\<lparr>se_now = 0, se_uid = ''u'', se_now2 = 0, se_uid2 = ''v''\<rparr>"
    and t = "trade_default\<lparr>tr_price := 100\<rparr>" and sid = "''lr''" and symbol = "''BTCUSD''" and es = "[]"]
  by (simp add: lr_default_params_def lr_init_def split: prod.splits sum.splits option.splits)

end
