(* ===== verification/Pairs_Trading.thy ===== *)
theory Pairs_Trading
  imports Cross_Asset Vwap_Strategies
begin

text \<open>
  \<open>services/alpha-engine/alpha_engine_svc/strategies/pairs_trading.py\<close>: mean reversion of the spread of
  two symbols. The tracker is an object the strategy shares with the engine, so its operations
  take it and return it beside the strategy.
\<close>

record pairs_params =
  pp_entry_threshold :: real
  pp_min_correlation :: real
  pp_base_quantity :: real
  pp_cooldown_trades :: int
  pp_warmup_trades :: int

definition pairs_default_params :: pairs_params where
  "pairs_default_params = \<lparr>pp_entry_threshold = 2, pp_min_correlation = 1 / 2, pp_base_quantity = 1 / 1000,
     pp_cooldown_trades = 20, pp_warmup_trades = 30\<rparr>"

record pairs_strategy =
  ps_strategy_id :: string
  ps_symbol :: string
  ps_symbol_b :: string
  ps_params :: pairs_params
  ps_trade_count :: int
  ps_trades_since_last_signal :: int
  ps_last_signal_side :: "string option"
  ps_pending_counterpart :: "signal option"

definition pairs_init :: "string \<Rightarrow> string \<Rightarrow> string \<Rightarrow> pairs_params \<Rightarrow> pairs_strategy" where
  "pairs_init strategy_id symbol symbol_b merged = \<lparr>ps_strategy_id = strategy_id, ps_symbol = symbol,
     ps_symbol_b = symbol_b, ps_params = merged, ps_trade_count = 0, ps_trades_since_last_signal = 0,
     ps_last_signal_side = None, ps_pending_counterpart = None\<rparr>"

definition pairs_leg :: "string \<Rightarrow> int \<Rightarrow> string \<Rightarrow> string \<Rightarrow> real \<Rightarrow> real \<Rightarrow> string \<Rightarrow> real \<Rightarrow> real \<Rightarrow> cross_snapshot \<Rightarrow>
    pairs_strategy \<Rightarrow> signal" where
  "pairs_leg uid now symbol side strength mid leg z correlation snap st =
     \<lparr>sg_signal_id = uid, sg_timestamp = now, sg_strategy_id = ps_strategy_id st, sg_symbol = symbol, sg_side = side,
      sg_strength = strength, sg_target_quantity = pp_base_quantity (ps_params st), sg_urgency = strength,
      sg_metadata = [(''pair'', JStr (ps_symbol st @ ''/'' @ ps_symbol_b st)), (''z_score'', JNum (py_round z 4)),
        (''correlation'', JNum (py_round correlation 4)),
        (''relative_strength'', case cx_relative_strength snap of None \<Rightarrow> JNull
          | Some r \<Rightarrow> if r = 0 then JNull else JNum (py_round r 4)),
        (''leg'', JStr leg)],
      sg_mid_price_at_signal = mid, sg_spread_at_signal = 0\<rparr>"

definition pairs_decide :: "strategy_env \<Rightarrow> trade \<Rightarrow> cross_tracker \<Rightarrow> pairs_strategy \<Rightarrow>
    (py_error + signal option) \<times> pairs_strategy" where
  \<comment> \<open>\<open>on_trade\<close> after warm-up and cooldown\<close>
  "pairs_decide env t ct st =
     (let snap = get_snapshot (ps_symbol st) (ps_symbol_b st) ct; threshold = pp_entry_threshold (ps_params st) in
      case (cx_correlation snap, cx_spread_z_score snap) of
        (Some correlation, Some z) \<Rightarrow>
          if \<bar>correlation\<bar> < pp_min_correlation (ps_params st) then (Inr None, st)
          else (case revert_side z threshold of
            None \<Rightarrow> (Inr None, st)
          | Some side_a \<Rightarrow>
              if Some side_a = ps_last_signal_side st then (Inr None, st)
              else let st1 = st\<lparr>ps_last_signal_side := Some side_a, ps_trades_since_last_signal := 0\<rparr> in
                case py_div \<bar>z\<bar> (threshold * 2) of
                  Inl e \<Rightarrow> (Inl e, st1)
                | Inr s \<Rightarrow>
                    let strength = min s 1; side_b = (if side_a = ''BUY'' then ''SELL'' else ''BUY'') in
                    (Inr (Some (pairs_leg (se_uid env) (se_now env) (ps_symbol st) side_a strength (tr_price t) ''A'' z
                        correlation snap st1)),
                     st1\<lparr>ps_pending_counterpart := Some (pairs_leg (se_uid2 env) (se_now2 env) (ps_symbol_b st) side_b
                        strength 0 ''B'' z correlation snap st1)\<rparr>))
      | _ \<Rightarrow> (Inr None, st))"

definition pairs_on_trade :: "strategy_env \<Rightarrow> trade \<Rightarrow> cross_tracker \<times> pairs_strategy \<Rightarrow>
    (py_error + signal option) \<times> cross_tracker \<times> pairs_strategy" where
  "pairs_on_trade env t = (\<lambda>(ct, st).
     let st1 = st\<lparr>ps_trade_count := ps_trade_count st + 1,
            ps_trades_since_last_signal := ps_trades_since_last_signal st + 1\<rparr>;
         ct1 = on_price (upper (tr_symbol t)) (tr_timestamp_exchange t) (tr_price t) ct in
     if \<not> (pp_warmup_trades (ps_params st1) \<le> ps_trade_count st1) \<or>
        \<not> (pp_cooldown_trades (ps_params st1) \<le> ps_trades_since_last_signal st1) then (Inr None, ct1, st1)
     else let (r, st2) = pairs_decide env t ct1 st1 in (r, ct1, st2))"

definition get_counterpart_signal :: "pairs_strategy \<Rightarrow> signal option \<times> pairs_strategy" where
  "get_counterpart_signal st = (ps_pending_counterpart st, st\<lparr>ps_pending_counterpart := None\<rparr>)"

fun pairs_step :: "cross_tracker \<times> pairs_strategy \<Rightarrow> market_event \<Rightarrow>
    (py_error + signal option) \<times> cross_tracker \<times> pairs_strategy" where
  "pairs_step s (Trade_tick env t) = pairs_on_trade env t s"
| "pairs_step s (Book_tick u) = (Inr None, s)"

section \<open>The two legs\<close>

definition pairs_inv :: "cross_tracker \<times> pairs_strategy \<Rightarrow> bool" where
  "pairs_inv = (\<lambda>(ct, st). 0 < pp_entry_threshold (ps_params st))"

definition hedged :: "pairs_strategy \<Rightarrow> signal \<Rightarrow> signal \<Rightarrow> bool" where
  \<comment> \<open>the second leg takes the other side of the other symbol in the same size\<close>
  "hedged st a b \<longleftrightarrow> sg_symbol a = ps_symbol st \<and> sg_symbol b = ps_symbol_b st \<and> {sg_side a, sg_side b} = {''BUY'', ''SELL''} \<and>
     sg_target_quantity a = sg_target_quantity b \<and> sg_strength a = sg_strength b \<and> sg_urgency a = sg_urgency b \<and>
     sg_strategy_id a = ps_strategy_id st \<and> sg_strategy_id b = ps_strategy_id st"

lemma pairs_decide_cases:
  assumes "0 < pp_entry_threshold (ps_params st)"
  obtains (quiet) "pairs_decide env t ct st = (Inr None, st)"
  | (signal) r z side a b where
      "cx_correlation (get_snapshot (ps_symbol st) (ps_symbol_b st) ct) = Some r" "pp_min_correlation (ps_params st) \<le> \<bar>r\<bar>"
      "cx_spread_z_score (get_snapshot (ps_symbol st) (ps_symbol_b st) ct) = Some z"
      "revert_side z (pp_entry_threshold (ps_params st)) = Some side" "ps_last_signal_side st \<noteq> Some side"
      "pairs_decide env t ct st = (Inr (Some a), st\<lparr>ps_last_signal_side := Some side, ps_trades_since_last_signal := 0,
         ps_pending_counterpart := Some b\<rparr>)"
      "sg_side a = side" "hedged st a b"
proof -
  define snap where "snap = get_snapshot (ps_symbol st) (ps_symbol_b st) ct"
  define thr where "thr = pp_entry_threshold (ps_params st)"
  have d: "pairs_decide env t ct st = (Inr None, st)"
    if "\<And>r z side. cx_correlation snap = Some r \<Longrightarrow> cx_spread_z_score snap = Some z \<Longrightarrow>
      pp_min_correlation (ps_params st) \<le> \<bar>r\<bar> \<Longrightarrow> revert_side z thr = Some side \<Longrightarrow> ps_last_signal_side st = Some side"
    using that by (fastforce simp: pairs_decide_def Let_def simp flip: snap_def thr_def split: option.split)
  show thesis
  proof (cases "pairs_decide env t ct st = (Inr None, st)")
    case False
    with d obtain r z side where s: "cx_correlation snap = Some r" "cx_spread_z_score snap = Some z"
        "pp_min_correlation (ps_params st) \<le> \<bar>r\<bar>" "revert_side z thr = Some side" "ps_last_signal_side st \<noteq> Some side"
      by blast
    define st1 where "st1 = st\<lparr>ps_last_signal_side := Some side, ps_trades_since_last_signal := 0\<rparr>"
    define a where "a = pairs_leg (se_uid env) (se_now env) (ps_symbol st) side (min (\<bar>z\<bar> / (thr * 2)) 1) (tr_price t) ''A'' z r snap st1"
    define b where "b = pairs_leg (se_uid2 env) (se_now2 env) (ps_symbol_b st) (if side = ''BUY'' then ''SELL'' else ''BUY'')
      (min (\<bar>z\<bar> / (thr * 2)) 1) 0 ''B'' z r snap st1"
    have "hedged st a b"
      using revert_known [OF s(4)] by (auto simp: hedged_def a_def b_def pairs_leg_def st1_def)
    moreover have "pairs_decide env t ct st = (Inr (Some a), st1\<lparr>ps_pending_counterpart := Some b\<rparr>)"
      using s not_sym [OF s(5)] assms
      by (simp add: pairs_decide_def Let_def a_def b_def flip: snap_def thr_def st1_def)
    moreover have "sg_side a = side" by (simp add: a_def pairs_leg_def)
    ultimately show thesis
      using s unfolding snap_def thr_def by (intro signal [of r z side a b]) (simp_all add: st1_def)
  qed (rule quiet)
qed

lemma pairs_step_cases:
  assumes inv: "pairs_inv (ct, st)"
  obtains (quiet) ct' st' where "pairs_step (ct, st) e = (Inr None, ct', st')" "ps_strategy_id st' = ps_strategy_id st"
      "ps_symbol st' = ps_symbol st" "ps_symbol_b st' = ps_symbol_b st" "ps_params st' = ps_params st"
      "ps_last_signal_side st' = ps_last_signal_side st"
      "ps_trades_since_last_signal st' = ps_trades_since_last_signal st + (if is_trade_tick e then 1 else 0)"
  | (signal) ct' st' a b r z where "pairs_step (ct, st) e = (Inr (Some a), ct', st')" "is_trade_tick e"
      "ps_strategy_id st' = ps_strategy_id st" "ps_symbol st' = ps_symbol st" "ps_symbol_b st' = ps_symbol_b st"
      "ps_params st' = ps_params st" "ps_pending_counterpart st' = Some b" "hedged st a b"
      "ps_last_signal_side st \<noteq> Some (sg_side a)" "ps_last_signal_side st' = Some (sg_side a)"
      "ps_trades_since_last_signal st' = 0" "pp_cooldown_trades (ps_params st) \<le> ps_trades_since_last_signal st + 1"
      "cx_correlation (get_snapshot (ps_symbol st) (ps_symbol_b st) ct') = Some r" "pp_min_correlation (ps_params st) \<le> \<bar>r\<bar>"
      "cx_spread_z_score (get_snapshot (ps_symbol st) (ps_symbol_b st) ct') = Some z"
      "revert_side z (pp_entry_threshold (ps_params st)) = Some (sg_side a)"
proof (cases e)
  case (Trade_tick env t)
  define st1 where "st1 = st\<lparr>ps_trade_count := ps_trade_count st + 1,
    ps_trades_since_last_signal := ps_trades_since_last_signal st + 1\<rparr>"
  define ct1 where "ct1 = on_price (upper (tr_symbol t)) (tr_timestamp_exchange t) (tr_price t) ct"
  define ready where "ready \<longleftrightarrow> pp_warmup_trades (ps_params st1) \<le> ps_trade_count st1 \<and>
    pp_cooldown_trades (ps_params st1) \<le> ps_trades_since_last_signal st1"
  have thr: "0 < pp_entry_threshold (ps_params st1)" using inv by (simp add: pairs_inv_def st1_def)
  have step: "pairs_step (ct, st) e = (if ready then let (r, st2) = pairs_decide env t ct1 st1 in (r, ct1, st2) else (Inr None, ct1, st1))"
    unfolding Trade_tick pairs_step.simps pairs_on_trade_def Let_def prod.case
    by (simp add: ready_def flip: st1_def ct1_def)
  show thesis
  proof (cases ready)
    case False
    show thesis by (rule quiet [of ct1 st1]) (use False step Trade_tick in \<open>simp_all add: st1_def\<close>)
  next
    case True
    show thesis
    proof (cases rule: pairs_decide_cases [OF thr, of env t ct1])
      case 1
      show thesis by (rule quiet [of ct1 st1]) (use 1 True step Trade_tick in \<open>simp_all add: st1_def\<close>)
    next
      case (2 r z side a b)
      show thesis
        by (rule signal [of a ct1 "st1\<lparr>ps_last_signal_side := Some side, ps_trades_since_last_signal := 0,
            ps_pending_counterpart := Some b\<rparr>" b r z])
          (use 2 True step Trade_tick in \<open>simp_all add: st1_def ready_def hedged_def\<close>)
    qed
  qed
qed (use quiet [of ct st] in simp)

interpretation pairs: signal_strategy pairs_step pairs_inv "\<lambda>_. True"
    "\<lambda>(ct, st). (ps_strategy_id st, ps_symbol st)" "\<lambda>(ct, st). ps_last_signal_side st"
    "\<lambda>(ct, st). ps_trades_since_last_signal st" "\<lambda>(ct, st). pp_cooldown_trades (ps_params st)"
proof (unfold_locales, goal_cases)
  case (1 s e)
  then show ?case by (cases s) (cases rule: pairs_step_cases [of "fst s" "snd s" e]; simp add: pairs_inv_def)
next
  case (2 s e x)
  then show ?case by (cases s) (cases rule: pairs_step_cases [of "fst s" "snd s" e]; simp)
next
  case (3 s e)
  then show ?case by (cases s) (cases rule: pairs_step_cases [of "fst s" "snd s" e]; simp)
next
  case (4 s e sig)
  then show ?case
    by (cases s) (cases rule: pairs_step_cases [of "fst s" "snd s" e]; auto simp: hedged_def doubleton_eq_iff)
next
  case (5 s e)
  then show ?case by (cases s) (cases rule: pairs_step_cases [of "fst s" "snd s" e]; simp)
qed

lemma pairs_run:
  "pairs_inv s \<Longrightarrow> ps_params (snd (foldl (\<lambda>s e. snd (pairs_step s e)) s es)) = ps_params (snd s) \<and>
     ps_symbol (snd (foldl (\<lambda>s e. snd (pairs_step s e)) s es)) = ps_symbol (snd s) \<and>
     ps_symbol_b (snd (foldl (\<lambda>s e. snd (pairs_step s e)) s es)) = ps_symbol_b (snd s)"
proof (induction es arbitrary: s)
  case (Cons e es)
  have "pairs_inv (snd (pairs_step s e)) \<and> ps_params (snd (snd (pairs_step s e))) = ps_params (snd s) \<and>
      ps_symbol (snd (snd (pairs_step s e))) = ps_symbol (snd s) \<and> ps_symbol_b (snd (snd (pairs_step s e))) = ps_symbol_b (snd s)"
    using Cons.prems by (cases s) (cases rule: pairs_step_cases [of "fst s" "snd s" e]; simp add: pairs_inv_def)
  with Cons.IH [of "snd (pairs_step s e)"] show ?case by simp
qed simp

text \<open>
  A pair trade has two legs: in any reachable state a trade never raises, and a signal comes with a
  pending counterpart that takes the opposite side of the other symbol in the same quantity,
  strength and urgency; the pair is correlated at least as required, the spread is beyond the
  entry threshold on the side the signal bets against, and fetching the counterpart clears it.
\<close>

theorem pair_trade_is_hedged:
  fixes es :: "market_event list" and sid a b :: string and ct :: cross_tracker
  assumes "0 < pp_entry_threshold p"
  defines "s \<equiv> foldl (\<lambda>s e. snd (pairs_step s e)) (ct, pairs_init sid a b p) es"
  shows "case pairs_step s (Trade_tick env t) of
      (Inr (Some sig), ct', st') \<Rightarrow>
        (\<exists>sig' st''. get_counterpart_signal st' = (Some sig', st'') \<and> fst (get_counterpart_signal st'') = None \<and>
          hedged st' sig sig') \<and>
        (\<exists>r z. cx_correlation (get_snapshot a b ct') = Some r \<and> pp_min_correlation p \<le> \<bar>r\<bar> \<and>
          cx_spread_z_score (get_snapshot a b ct') = Some z \<and>
          (if sg_side sig = ''BUY'' then z < - pp_entry_threshold p else pp_entry_threshold p < z))
    | (Inr None, _) \<Rightarrow> True
    | (Inl e, _) \<Rightarrow> False"
proof -
  have init: "pairs_inv (ct, pairs_init sid a b p)" using assms(1) by (simp add: pairs_inv_def pairs_init_def)
  have inv: "pairs_inv s" unfolding s_def by (rule pairs.inv_run [OF init]) (simp add: list_all_iff)
  have p: "ps_params (snd s) = p" "ps_symbol (snd s) = a" "ps_symbol_b (snd s) = b"
    using pairs_run [OF init, of es] by (simp_all add: s_def pairs_init_def)
  obtain ct0 st0 where s: "s = (ct0, st0)" by fastforce
  show ?thesis
  proof (cases rule: pairs_step_cases [OF inv [unfolded s], of "Trade_tick env t"])
    case (2 ct' st' sig sig' r z)
    have "if sg_side sig = ''BUY'' then z < - pp_entry_threshold p else pp_entry_threshold p < z"
      using 2(16) p by (auto simp: s revert_side_def split: if_splits)
    with 2 p show ?thesis by (simp add: s get_counterpart_signal_def hedged_def del: pairs_step.simps)
  qed (simp add: s del: pairs_step.simps)
qed

lemma pair_trade_is_hedged_witness:
  "case pairs_step (cross_init 200, pairs_init ''p'' ''BTCUSD'' ''ETHUSD'' pairs_default_params)
      (Trade_tick \<lparr>se_now = 0, se_uid = ''u'', se_now2 = 0, se_uid2 = ''v''\<rparr> trade_default) of
    (Inr r, _) \<Rightarrow> True | (Inl e, _) \<Rightarrow> False"
  using pair_trade_is_hedged [where p = pairs_default_params and ct = "cross_init 200" and sid = "''p''" and a = "''BTCUSD''"
    and b = "''ETHUSD''" and es = "[]" and t = trade_default
    and env = "\<lparr>se_now = 0, se_uid = ''u'', se_now2 = 0, se_uid2 = ''v''\<rparr>"]
  by (simp add: pairs_default_params_def del: pairs_step.simps split: prod.splits sum.splits option.splits)

end
