(* ===== verification/Alpha_Engine.thy ===== *)
theory Alpha_Engine
  imports Order_Book Pairs_Trading Circuit_Breaker Kafka_Utils Metrics_Registry
begin

text \<open>
  \<open>services/alpha-engine/alpha_engine_svc/main.py\<close> and the registry of \<open>strategy.py\<close>: the consume loop
  that feeds order books, cross-asset tracker and strategies and publishes their signals. The
  environment of an iteration is Redis' answer to the breaker, the monotonic clock and, for each
  strategy called, the clock and fresh ids. An exception in the body of the loop ends it:
  \<open>ae_running\<close> turns false.
\<close>

section \<open>The registry\<close>

datatype strategy =
    Mean_reversion vwap_strategy
  | Momentum vwap_strategy
  | Pairs pairs_strategy

fun strategy_id :: "strategy \<Rightarrow> string" where
  "strategy_id (Mean_reversion st) = vs_strategy_id st"
| "strategy_id (Momentum st) = vs_strategy_id st"
| "strategy_id (Pairs st) = ps_strategy_id st"

fun strategy_symbol :: "strategy \<Rightarrow> string" where
  "strategy_symbol (Mean_reversion st) = vs_symbol st"
| "strategy_symbol (Momentum st) = vs_symbol st"
| "strategy_symbol (Pairs st) = ps_symbol st"

fun strategy_on_trade :: "strategy_env \<Rightarrow> trade \<Rightarrow> cross_tracker \<Rightarrow> strategy \<Rightarrow>
    (py_error + signal option) \<times> cross_tracker \<times> strategy" where
  "strategy_on_trade env t ct (Mean_reversion st) =
     (let (r, st') = mean_reversion_on_trade env t st in (r, ct, Mean_reversion st'))"
| "strategy_on_trade env t ct (Momentum st) =
     (let (r, st') = momentum_on_trade env t st in (r, ct, Momentum st'))"
| "strategy_on_trade env t ct (Pairs st) =
     (let (r, ct', st') = pairs_on_trade env t (ct, st) in (r, ct', Pairs st'))"

fun strategy_on_book :: "depth_update \<Rightarrow> strategy \<Rightarrow> strategy" where
  "strategy_on_book u (Mean_reversion st) = Mean_reversion (vwap_on_book_update u st)"
| "strategy_on_book u (Momentum st) = Momentum (vwap_on_book_update u st)"
| "strategy_on_book u (Pairs st) = Pairs st"

type_synonym registry = "(string, strategy) dict"

definition register :: "strategy \<Rightarrow> registry \<Rightarrow> registry" where
  "register strat reg = AList.update (strategy_id strat) strat reg"

definition unregister :: "string \<Rightarrow> registry \<Rightarrow> registry" where
  "unregister sid reg = AList.delete sid reg"

definition registry_get :: "string \<Rightarrow> registry \<Rightarrow> strategy option" where
  "registry_get sid reg = map_of reg sid"

definition registry_all :: "registry \<Rightarrow> strategy list" where
  "registry_all reg = map snd reg"

definition strategies_for_symbol :: "string \<Rightarrow> registry \<Rightarrow> string list" where
  \<comment> \<open>the strategies are objects held by the registry; the list names them by their ids\<close>
  "strategies_for_symbol symbol reg = map fst (filter (\<lambda>(sid, strat). strategy_symbol strat = symbol) reg)"

section \<open>The consume loop\<close>

record alpha_svc =
  ae_running :: bool
  ae_books :: "(string, order_book) dict"
  ae_cross :: cross_tracker
  ae_registry :: registry
  ae_producer :: qproducer
  ae_metrics :: metrics
  ae_breaker :: breaker
  ae_trade_count :: nat
  ae_signal_count :: nat

record alpha_env =
  av_monotonic :: real
  av_redis :: redis_reply
  av_strategy :: "nat \<Rightarrow> strategy_env"

definition alpha_name :: string where "alpha_name = ''alpha-engine''"

definition registered_strategies :: "string list \<Rightarrow> registry" where
  "registered_strategies symbols_upper = foldl (\<lambda>reg sym.
     register (Momentum (vwap_init (''momentum_'' @ lower sym) sym default_params))
     (register (Mean_reversion (vwap_init (''mean_reversion_'' @ lower sym) sym default_params)) reg)) [] symbols_upper"

definition alpha_init :: "string list \<Rightarrow> string option \<Rightarrow> alpha_svc" where
  "alpha_init symbols backtest_id =
     (let run_id = (case backtest_id of None \<Rightarrow> ''live'' | Some b \<Rightarrow> if b = '''' then ''live'' else b) in
      \<lparr>ae_running = True,
       ae_books = foldl (\<lambda>d sym. AList.update (upper sym) (book_init (upper sym)) d) [] symbols,
       ae_cross = cross_init 200, ae_registry = registered_strategies (map upper symbols),
       ae_producer = producer_init backtest_id, ae_metrics = metrics_init alpha_name, ae_breaker = breaker_init run_id,
       ae_trade_count = 0, ae_signal_count = 0\<rparr>)"

definition alpha_heartbeat :: "int \<Rightarrow> alpha_svc \<Rightarrow> alpha_svc" where
  "alpha_heartbeat now svc = svc\<lparr>ae_producer := publish topic_heartbeat alpha_name
     (JObj [(''service'', JStr alpha_name), (''timestamp'', JInt now), (''trades'', JInt (int (ae_trade_count svc))),
        (''signals'', JInt (int (ae_signal_count svc)))]) (ae_producer svc)\<rparr>"

definition emit_signal :: "signal \<Rightarrow> alpha_svc \<Rightarrow> alpha_svc" where
  "emit_signal sig svc = svc
     \<lparr>ae_producer := publish topic_signals (sg_symbol sig) (signal_to_json sig) (ae_producer svc),
      ae_signal_count := ae_signal_count svc + 1,
      ae_metrics := metric_inc ''signals_emitted'' 1
        (Some [(''symbol'', sg_symbol sig), (''strategy'', sg_strategy_id sig)]) (ae_metrics svc)\<rparr>"

definition emit_counterpart :: "string \<Rightarrow> alpha_svc \<Rightarrow> alpha_svc" where
  \<comment> \<open>the second leg of a pair trade, if the strategy is one\<close>
  "emit_counterpart sid svc =
     (case map_of (ae_registry svc) sid of
        Some (Pairs st) \<Rightarrow>
          (let (leg, st') = get_counterpart_signal st; svc' = svc\<lparr>ae_registry := AList.update sid (Pairs st') (ae_registry svc)\<rparr> in
           case leg of None \<Rightarrow> svc'
           | Some sig \<Rightarrow> svc'\<lparr>ae_producer := publish topic_signals (sg_symbol sig) (signal_to_json sig) (ae_producer svc'),
               ae_signal_count := ae_signal_count svc' + 1\<rparr>)
      | _ \<Rightarrow> svc)"

fun run_strategies :: "(nat \<Rightarrow> strategy_env) \<Rightarrow> nat \<Rightarrow> trade \<Rightarrow> string list \<Rightarrow> alpha_svc \<Rightarrow> alpha_svc" where
  "run_strategies envs k t [] svc = svc"
| "run_strategies envs k t (sid # sids) svc =
     (case map_of (ae_registry svc) sid of
        None \<Rightarrow> run_strategies envs (k + 1) t sids svc
      | Some strat \<Rightarrow>
          (let (r, ct, strat') = strategy_on_trade (envs k) t (ae_cross svc) strat;
               svc1 = svc\<lparr>ae_cross := ct, ae_registry := AList.update sid strat' (ae_registry svc)\<rparr> in
           case r of
             Inl e \<Rightarrow> svc1\<lparr>ae_running := False\<rparr>
           | Inr None \<Rightarrow> run_strategies envs (k + 1) t sids svc1
           | Inr (Some sig) \<Rightarrow> run_strategies envs (k + 1) t sids (emit_counterpart sid (emit_signal sig svc1))))"

definition on_trade_tick :: "alpha_env \<Rightarrow> trade \<Rightarrow> alpha_svc \<Rightarrow> alpha_svc" where
  "on_trade_tick env t svc =
     (let symbol = upper (tr_symbol t);
          svc1 = svc\<lparr>ae_trade_count := ae_trade_count svc + 1,
            ae_metrics := metric_inc ''trades_processed'' 1 (Some [(''symbol'', symbol)]) (ae_metrics svc),
            ae_cross := on_price symbol (tr_timestamp_exchange t) (tr_price t) (ae_cross svc)\<rparr>;
          (tripped, cb) = is_tripped (av_monotonic env) (av_redis env) (ae_breaker svc1);
          svc2 = svc1\<lparr>ae_breaker := cb,
            ae_metrics := metric_set_gauge ''circuit_breaker_active'' (if tripped then 1 else 0) None (ae_metrics svc1)\<rparr> in
      if tripped then svc2
      else run_strategies (av_strategy env) 0 t (strategies_for_symbol symbol (ae_registry svc2)) svc2)"

definition on_depth_update :: "depth_update \<Rightarrow> alpha_svc \<Rightarrow> alpha_svc" where
  "on_depth_update depth svc =
     (let symbol = upper (dp_symbol depth) in
      svc\<lparr>ae_books := (case map_of (ae_books svc) symbol of None \<Rightarrow> ae_books svc
          | Some book \<Rightarrow> AList.update symbol (apply_delta depth book) (ae_books svc)),
        ae_registry := map (\<lambda>(sid, strat). (sid, if strategy_symbol strat = symbol then strategy_on_book depth strat else strat))
          (ae_registry svc)\<rparr>)"

definition alpha_step :: "alpha_svc \<Rightarrow> alpha_env \<times> kafka_message option \<Rightarrow> alpha_svc" where
  "alpha_step svc = (\<lambda>(env, msg).
     if \<not> ae_running svc then svc
     else case msg of None \<Rightarrow> svc
     | Some m \<Rightarrow>
         if km_error m \<noteq> None then svc
         else if km_topic m = topic_raw_trades then
           (case ebind (loads (km_value m)) trade_from_json of
              Inl _ \<Rightarrow> svc\<lparr>ae_running := False\<rparr> | Inr t \<Rightarrow> on_trade_tick env t svc)
         else if km_topic m = topic_raw_depth then
           (case ebind (loads (km_value m)) depth_from_json of
              Inl _ \<Rightarrow> svc\<lparr>ae_running := False\<rparr> | Inr depth \<Rightarrow> on_depth_update depth svc)
         else svc)"

section \<open>The kill switch\<close>

abbreviation signals_sent :: "alpha_svc \<Rightarrow> stored list" where
  "signals_sent svc \<equiv> sent_on topic_signals (ae_producer svc)"

text \<open>From time \<open>T\<close> on Redis holds the key or cannot be reached; iterations come half a second later.\<close>

fun halted_iteration :: "real \<Rightarrow> alpha_env \<times> kafka_message option \<Rightarrow> bool" where
  "halted_iteration T (env, msg) \<longleftrightarrow> av_redis env \<noteq> Inr None \<and> T + check_interval_s \<le> av_monotonic env"

fun trades_seen :: "strategy \<Rightarrow> int" where
  "trades_seen (Mean_reversion st) = vs_trade_count st"
| "trades_seen (Momentum st) = vs_trade_count st"
| "trades_seen (Pairs st) = ps_trade_count st"

definition all_trades_seen :: "registry \<Rightarrow> (string \<times> int) list" where
  "all_trades_seen reg = map (\<lambda>(sid, strat). (sid, trades_seen strat)) reg"

definition silent :: "real \<Rightarrow> stored list \<Rightarrow> (string \<times> int) list \<Rightarrow> alpha_svc \<Rightarrow> bool" where
  "silent T sent seen svc \<longleftrightarrow> halt_inv T (ae_breaker svc) \<and> signals_sent svc = sent \<and> all_trades_seen (ae_registry svc) = seen"

lemma alpha_depth_fields [simp]:
  "ae_producer (on_depth_update d svc) = ae_producer svc" "ae_breaker (on_depth_update d svc) = ae_breaker svc"
  "ae_running (on_depth_update d svc) = ae_running svc" "ae_trade_count (on_depth_update d svc) = ae_trade_count svc"
  "ae_signal_count (on_depth_update d svc) = ae_signal_count svc"
  by (simp_all add: on_depth_update_def Let_def)

lemma trades_seen_book [simp]: "trades_seen (strategy_on_book u strat) = trades_seen strat"
  by (cases strat) (simp_all add: vwap_on_book_update_def Let_def)

lemma on_depth_seen [simp]: "all_trades_seen (ae_registry (on_depth_update d svc)) = all_trades_seen (ae_registry svc)"
  by (auto simp: on_depth_update_def Let_def all_trades_seen_def)

lemma halted_trade:
  assumes "halt_inv T (ae_breaker svc)" and "halted_iteration T (env, msg)"
  shows "signals_sent (on_trade_tick env t svc) = signals_sent svc" "halt_inv T (ae_breaker (on_trade_tick env t svc))"
    "ae_registry (on_trade_tick env t svc) = ae_registry svc"
proof -
  obtain trip cb where cb: "is_tripped (av_monotonic env) (av_redis env) (ae_breaker svc) = (trip, cb)" by fastforce
  have "trip" using is_tripped_halted [OF assms(1), of "av_redis env" "av_monotonic env"] assms(2) cb by simp
  moreover have "halt_inv T cb"
    using halt_inv_step [OF assms(1), of "Check (av_monotonic env) (av_redis env)"] assms(2) cb by simp
  ultimately show "signals_sent (on_trade_tick env t svc) = signals_sent svc" "halt_inv T (ae_breaker (on_trade_tick env t svc))"
    "ae_registry (on_trade_tick env t svc) = ae_registry svc"
    using cb by (simp_all add: on_trade_tick_def Let_def)
qed

lemma alpha_step_cases:
  obtains (same) "alpha_step svc (env, msg) = svc"
  | (stopped) "ae_running svc" "alpha_step svc (env, msg) = svc\<lparr>ae_running := False\<rparr>"
  | (trade) t m where "ae_running svc" "msg = Some m" "km_error m = None" "km_topic m = topic_raw_trades"
      "ebind (loads (km_value m)) trade_from_json = Inr t" "alpha_step svc (env, msg) = on_trade_tick env t svc"
  | (depth) d m where "ae_running svc" "msg = Some m" "km_error m = None" "km_topic m = topic_raw_depth"
      "ebind (loads (km_value m)) depth_from_json = Inr d" "alpha_step svc (env, msg) = on_depth_update d svc"
proof -
  have "alpha_step svc (env, msg) = svc \<or> (ae_running svc \<and> alpha_step svc (env, msg) = svc\<lparr>ae_running := False\<rparr>) \<or>
      (\<exists>t m. ae_running svc \<and> msg = Some m \<and> km_error m = None \<and> km_topic m = topic_raw_trades \<and>
        ebind (loads (km_value m)) trade_from_json = Inr t \<and> alpha_step svc (env, msg) = on_trade_tick env t svc) \<or>
      (\<exists>d m. ae_running svc \<and> msg = Some m \<and> km_error m = None \<and> km_topic m = topic_raw_depth \<and>
        ebind (loads (km_value m)) depth_from_json = Inr d \<and> alpha_step svc (env, msg) = on_depth_update d svc)"
    by (auto simp: alpha_step_def split: option.splits sum.splits)
  then show ?thesis using that by blast
qed

lemma silent_step: "silent T sent seen svc \<Longrightarrow> halted_iteration T e \<Longrightarrow> silent T sent seen (alpha_step svc e)"
proof -
  assume s: "silent T sent seen svc" and h: "halted_iteration T e"
  obtain env msg where e: "e = (env, msg)" by fastforce
  show ?thesis
  proof (cases rule: alpha_step_cases [of svc env msg])
    case (trade t m)
    with s h halted_trade [of T svc env msg t] show ?thesis by (simp add: silent_def e)
  qed (use s in \<open>simp_all add: silent_def e\<close>)
qed

interpretation halted_alpha: machine alpha_step "halted_iteration T" "silent T sent seen" for T sent seen
  by unfold_locales (rule silent_step)

text \<open>
  The kill switch silences the alpha engine: from half a second after the halt is in force no signal
  is published, whatever trades and book updates arrive; and while halted no strategy sees a
  trade, so the strategies' windows and counters do not follow the market.
\<close>

theorem halted_alpha_is_silent:
  assumes "cb_last_check (ae_breaker svc) \<le> T" and "list_all (halted_iteration T) evs"
  shows "signals_sent (foldl alpha_step svc evs) = signals_sent svc \<and>
    all_trades_seen (ae_registry (foldl alpha_step svc evs)) = all_trades_seen (ae_registry svc)"
proof -
  have "silent T (signals_sent svc) (all_trades_seen (ae_registry svc)) svc"
    using assms(1) by (simp add: silent_def halt_inv_def)
  from halted_alpha.inv_run [OF this assms(2)] show ?thesis by (simp add: silent_def)
qed

definition trade_message :: "trade \<Rightarrow> kafka_message" where
  "trade_message t = \<lparr>km_error = None, km_topic = topic_raw_trades, km_key = None,
     km_value = Document (trade_to_json t), km_headers = None\<rparr>"

definition quiet_env :: "nat \<Rightarrow> strategy_env" where
  "quiet_env k = \<lparr>se_now = 0, se_uid = ''u'', se_now2 = 0, se_uid2 = ''v''\<rparr>"

lemma halted_alpha_is_silent_witness:
  "signals_sent (foldl alpha_step (alpha_init [''btcusd''] None)
     [(\<lparr>av_monotonic = 11, av_redis = Inl (ExternalError ''down''), av_strategy = quiet_env\<rparr>,
       Some (trade_message (trade_default\<lparr>tr_symbol := ''BTCUSD'', tr_price := 100\<rparr>)))]) = []"
  using halted_alpha_is_silent [of "alpha_init [''btcusd''] None" 10
    "[(\<lparr>av_monotonic = 11, av_redis = Inl (ExternalError ''down''), av_strategy = quiet_env\<rparr>,
       Some (trade_message (trade_default\<lparr>tr_symbol := ''BTCUSD'', tr_price := 100\<rparr>)))]"]
  by (simp add: alpha_init_def breaker_init_def check_interval_s_def Let_def)

text \<open>
  A message that cannot be decoded ends the loop: the decoding of trades and depth updates is outside
  the handler that skips bad values, so one malformed record on either topic stops the engine.
\<close>

theorem malformed_message_stops_alpha:
  assumes "ae_running svc" and "km_error m = None" and "km_topic m = topic_raw_trades"
    and "ebind (loads (km_value m)) trade_from_json = Inl e"
  shows "foldl alpha_step svc ((env, Some m) # evs) = svc\<lparr>ae_running := False\<rparr>"
proof -
  have "alpha_step svc (env, Some m) = svc\<lparr>ae_running := False\<rparr>" using assms by (simp add: alpha_step_def)
  moreover have "alpha_step (svc\<lparr>ae_running := False\<rparr>) ev = svc\<lparr>ae_running := False\<rparr>" for ev
    by (simp add: alpha_step_def split: prod.split)
  then have "foldl alpha_step (svc\<lparr>ae_running := False\<rparr>) evs = svc\<lparr>ae_running := False\<rparr>" by (induction evs) simp_all
  ultimately show ?thesis by simp
qed

lemma malformed_message_stops_alpha_witness:
  "\<not> ae_running (foldl alpha_step (alpha_init [''btcusd''] None)
     [(\<lparr>av_monotonic = 11, av_redis = Inr None, av_strategy = quiet_env\<rparr>,
       Some ((trade_message trade_default)\<lparr>km_value := Unparsable ''{''\<rparr>))])"
  using malformed_message_stops_alpha [of "alpha_init [''btcusd''] None"
    "(trade_message trade_default)\<lparr>km_value := Unparsable ''{''\<rparr>" "ValueError ''JSONDecodeError''"
    "\<lparr>av_monotonic = 11, av_redis = Inr None, av_strategy = quiet_env\<rparr>" "[]"]
  by (simp add: alpha_init_def trade_message_def Let_def)

section \<open>Strategies in the engine run as they run alone\<close>

fun isolated_step :: "strategy \<Rightarrow> market_event \<Rightarrow> (py_error + signal option) \<times> strategy" where
  "isolated_step (Mean_reversion st) e = (let (r, st') = vwap_step revert_side st e in (r, Mean_reversion st'))"
| "isolated_step (Momentum st) e = (let (r, st') = vwap_step breakout_side st e in (r, Momentum st'))"
| "isolated_step (Pairs st) e = (Inr None, Pairs st)"

fun strategy_inv :: "strategy \<Rightarrow> bool" where
  "strategy_inv (Mean_reversion st) = vwap_inv st"
| "strategy_inv (Momentum st) = vwap_inv st"
| "strategy_inv (Pairs st) = False"

definition registry_ok :: "registry \<Rightarrow> bool" where
  "registry_ok reg \<longleftrightarrow> dict_wf reg \<and>
     (\<forall>sid strat. map_of reg sid = Some strat \<longrightarrow> strategy_id strat = sid \<and> strategy_inv strat)"

definition published_by :: "string \<Rightarrow> stored \<Rightarrow> bool" where
  "published_by sid v = (case v of Document (JObj d) \<Rightarrow> map_of d ''strategy_id'' = Some (JStr sid) | _ \<Rightarrow> False)"

definition signals_by :: "string \<Rightarrow> alpha_svc \<Rightarrow> stored list" where
  "signals_by sid svc = filter (published_by sid) (signals_sent svc)"

definition doc :: "signal \<Rightarrow> stored" where "doc sig = Document (signal_to_json sig)"

lemma published_by_doc [simp]: "published_by sid (doc sig) \<longleftrightarrow> sg_strategy_id sig = sid"
  by (simp add: published_by_def doc_def signal_to_json_def)

lemma strategy_on_trade_isolated:
  "strategy_inv strat \<Longrightarrow> strategy_on_trade env t ct strat =
     (fst (isolated_step strat (Trade_tick env t)), ct, snd (isolated_step strat (Trade_tick env t)))"
  by (cases strat) (simp_all add: mean_reversion_on_trade_def momentum_on_trade_def split: prod.split)

lemma strategy_on_book_isolated:
  "strategy_inv strat \<Longrightarrow> isolated_step strat (Book_tick u) = (Inr None, strategy_on_book u strat)"
  by (cases strat) simp_all

lemma isolated_contract:
  assumes "strategy_inv strat" and "positive_prices e"
  shows "strategy_inv (snd (isolated_step strat e))" "strategy_id (snd (isolated_step strat e)) = strategy_id strat"
    "strategy_symbol (snd (isolated_step strat e)) = strategy_symbol strat" "fst (isolated_step strat e) \<noteq> Inl x"
    "fst (isolated_step strat e) = Inr (Some sig) \<Longrightarrow> sg_strategy_id sig = strategy_id strat"
proof -
  have "strategy_inv (snd (isolated_step strat e)) \<and> strategy_id (snd (isolated_step strat e)) = strategy_id strat \<and>
    strategy_symbol (snd (isolated_step strat e)) = strategy_symbol strat \<and> fst (isolated_step strat e) \<noteq> Inl x \<and>
    (fst (isolated_step strat e) = Inr (Some sig) \<longrightarrow> sg_strategy_id sig = strategy_id strat)"
  proof (cases strat)
    case (Mean_reversion st)
    with assms have inv: "vwap_inv st" by simp
    show ?thesis
      using Mean_reversion by (cases rule: vwap_step_cases [OF inv assms(2) sane_picks(1)]) (auto simp del: vwap_step.simps)
  next
    case (Momentum st)
    with assms have inv: "vwap_inv st" by simp
    show ?thesis
      using Momentum by (cases rule: vwap_step_cases [OF inv assms(2) sane_picks(2)]) (auto simp del: vwap_step.simps)
  qed (use assms in simp)
  then show "strategy_inv (snd (isolated_step strat e))" "strategy_id (snd (isolated_step strat e)) = strategy_id strat"
    "strategy_symbol (snd (isolated_step strat e)) = strategy_symbol strat" "fst (isolated_step strat e) \<noteq> Inl x"
    "fst (isolated_step strat e) = Inr (Some sig) \<Longrightarrow> sg_strategy_id sig = strategy_id strat" by simp_all
qed

lemma emit_counterpart_vwap:
  "map_of (ae_registry svc) sid = Some strat \<Longrightarrow> strategy_inv strat \<Longrightarrow> emit_counterpart sid svc = svc"
  by (cases strat) (simp_all add: emit_counterpart_def)

lemma registry_ok_update:
  "registry_ok reg \<Longrightarrow> strategy_inv strat \<Longrightarrow> strategy_id strat = sid \<Longrightarrow> registry_ok (AList.update sid strat reg)"
  by (auto simp: registry_ok_def dict.lookup_insert split: if_splits)

text \<open>One strategy of the loop: it takes its isolated step and its signal, if any, is published.\<close>

lemma run_one:
  assumes "registry_ok (ae_registry svc)" and "map_of (ae_registry svc) sid = Some strat" and "0 < tr_price t"
  obtains svc1 where "run_strategies envs k t (sid # sids) svc = run_strategies envs (k + 1) t sids svc1"
    "ae_registry svc1 = AList.update sid (snd (isolated_step strat (Trade_tick (envs k) t))) (ae_registry svc)"
    "registry_ok (ae_registry svc1)" "ae_trade_count svc1 = ae_trade_count svc"
    "signals_sent svc1 = signals_sent svc @ map doc (emitted (fst (isolated_step strat (Trade_tick (envs k) t))))"
proof -
  have ok: "strategy_inv strat" "strategy_id strat = sid" "positive_prices (Trade_tick (envs k) t)"
    using assms by (auto simp: registry_ok_def)
  note c = isolated_contract [OF ok(1,3)]
  obtain r strat' where r: "isolated_step strat (Trade_tick (envs k) t) = (r, strat')" by fastforce
  define svc1 where "svc1 = svc\<lparr>ae_cross := ae_cross svc, ae_registry := AList.update sid strat' (ae_registry svc)\<rparr>"
  have reg: "registry_ok (AList.update sid strat' (ae_registry svc))"
    using registry_ok_update [OF assms(1)] c(1,2) ok(2) by (simp add: r)
  consider (none) "r = Inr None" | (some) sig where "r = Inr (Some sig)"
    using c(4) by (metis r fst_conv old.sum.exhaust option.exhaust)
  then show thesis
  proof cases
    case none
    with assms(2) ok(1) r reg show thesis
      by (intro that [of svc1]) (simp_all add: strategy_on_trade_isolated svc1_def)
  next
    case some
    have "emit_counterpart sid (emit_signal sig svc1) = emit_signal sig svc1"
      using c(1) by (intro emit_counterpart_vwap [of _ _ strat']) (simp_all add: emit_signal_def svc1_def r dict.lookup_insert)
    with assms(2) ok(1) r reg some show thesis
      by (intro that [of "emit_signal sig svc1"])
        (simp_all add: strategy_on_trade_isolated svc1_def emit_signal_def doc_def)
  qed
qed

lemma run_strategies_isolated:
  fixes k :: nat and envs :: "nat \<Rightarrow> strategy_env"
  assumes "registry_ok (ae_registry svc)" and "0 < tr_price t" and "distinct ids"
    and "set ids \<subseteq> fst ` set (ae_registry svc)"
  defines "svc' \<equiv> run_strategies envs k t ids svc"
  shows "registry_ok (ae_registry svc') \<and> ae_trade_count svc' = ae_trade_count svc \<and>
    (sid \<notin> set ids \<longrightarrow> map_of (ae_registry svc') sid = map_of (ae_registry svc) sid \<and> signals_by sid svc' = signals_by sid svc) \<and>
    (\<forall>strat. sid \<in> set ids \<and> map_of (ae_registry svc) sid = Some strat \<longrightarrow>
      (\<exists>env. map_of (ae_registry svc') sid = Some (snd (isolated_step strat (Trade_tick env t))) \<and>
        signals_by sid svc' = signals_by sid svc @ map doc (emitted (fst (isolated_step strat (Trade_tick env t))))))"
  using assms(1-4) unfolding svc'_def
proof (induction ids arbitrary: svc k)
  case (Cons i ids)
  obtain strat where strat: "map_of (ae_registry svc) i = Some strat"
    using Cons.prems(4) by (cases "map_of (ae_registry svc) i") (auto simp: map_of_eq_None_iff)
  have own: "strategy_id strat = i" "strategy_inv strat" using Cons.prems(1) strat by (auto simp: registry_ok_def)
  obtain svc1 where s: "run_strategies envs k t (i # ids) svc = run_strategies envs (k + 1) t ids svc1"
    "ae_registry svc1 = AList.update i (snd (isolated_step strat (Trade_tick (envs k) t))) (ae_registry svc)"
    "registry_ok (ae_registry svc1)" "ae_trade_count svc1 = ae_trade_count svc"
    "signals_sent svc1 = signals_sent svc @ map doc (emitted (fst (isolated_step strat (Trade_tick (envs k) t))))"
    by (rule run_one [OF Cons.prems(1) strat Cons.prems(2)])
  have e: "list_all (\<lambda>sig. sg_strategy_id sig = i) (emitted (fst (isolated_step strat (Trade_tick (envs k) t))))"
    using isolated_contract(5) [of strat "Trade_tick (envs k) t"] own Cons.prems(2)
    by (auto simp: emitted_def split: sum.split option.split)
  have by_sid: "signals_by sid svc1 = signals_by sid svc @
      (if sid = i then map doc (emitted (fst (isolated_step strat (Trade_tick (envs k) t)))) else [])"
    using e by (auto simp: signals_by_def s(5) filter_empty_conv list_all_iff filter_map o_def)
  have "set ids \<subseteq> fst ` set (ae_registry svc1)" using Cons.prems(4) by (auto simp: s(2) dom_update)
  with Cons.IH [of svc1 "k + 1"] Cons.prems(2,3) s(3) have IH:
    "registry_ok (ae_registry (run_strategies envs (k + 1) t ids svc1)) \<and>
     ae_trade_count (run_strategies envs (k + 1) t ids svc1) = ae_trade_count svc1 \<and>
     (sid \<notin> set ids \<longrightarrow> map_of (ae_registry (run_strategies envs (k + 1) t ids svc1)) sid = map_of (ae_registry svc1) sid \<and>
        signals_by sid (run_strategies envs (k + 1) t ids svc1) = signals_by sid svc1) \<and>
     (\<forall>strat. sid \<in> set ids \<and> map_of (ae_registry svc1) sid = Some strat \<longrightarrow>
      (\<exists>env. map_of (ae_registry (run_strategies envs (k + 1) t ids svc1)) sid = Some (snd (isolated_step strat (Trade_tick env t))) \<and>
        signals_by sid (run_strategies envs (k + 1) t ids svc1) =
          signals_by sid svc1 @ map doc (emitted (fst (isolated_step strat (Trade_tick env t))))))"
    by simp
  show ?case
  proof (cases "sid = i")
    case True
    with IH Cons.prems(3) strat by_sid show ?thesis
      unfolding s(1) by (auto simp: s(2,4) dict.lookup_insert)
  next
    case False
    with IH by_sid show ?thesis unfolding s(1) by (simp add: s(2,4) dict.lookup_insert)
  qed
qed simp

section \<open>The engine's signals are those of the strategies\<close>

text \<open>
  The engine tracks a strategy that started as \<open>strat0\<close>: its present state and everything the engine
  published for it are those of a run of the strategy alone over some market events, no more
  trades than the engine counted.
\<close>

definition tracks :: "string \<Rightarrow> strategy \<Rightarrow> alpha_svc \<Rightarrow> market_event list \<Rightarrow> bool" where
  "tracks sid strat0 svc es \<longleftrightarrow> list_all positive_prices es \<and>
     map_of (ae_registry svc) sid = Some (foldl (\<lambda>s e. snd (isolated_step s e)) strat0 es) \<and>
     signals_by sid svc = map doc (signals_of isolated_step strat0 es) \<and>
     length (filter is_trade_tick es) \<le> ae_trade_count svc"

definition engine_inv :: "string \<Rightarrow> strategy \<Rightarrow> alpha_svc \<Rightarrow> bool" where
  "engine_inv sid strat0 svc \<longleftrightarrow> registry_ok (ae_registry svc) \<and> (\<exists>es. tracks sid strat0 svc es)"

fun positive_message :: "alpha_env \<times> kafka_message option \<Rightarrow> bool" where
  "positive_message (env, None) = True"
| "positive_message (env, Some m) =
     ((case ebind (loads (km_value m)) trade_from_json of
         Inr t \<Rightarrow> km_topic m = topic_raw_trades \<longrightarrow> 0 < tr_price t | Inl _ \<Rightarrow> True) \<and>
      (case ebind (loads (km_value m)) depth_from_json of
         Inr d \<Rightarrow> km_topic m = topic_raw_depth \<longrightarrow> positive_prices (Book_tick d) | Inl _ \<Rightarrow> True))"

lemma signals_of_snoc:
  "signals_of step s (es @ [e]) = signals_of step s es @ emitted (fst (step (foldl (\<lambda>s e. snd (step s e)) s es) e))"
  by (induction es arbitrary: s) simp_all

lemma registry_ok_book:
  fixes symbol :: string
  assumes "registry_ok reg" and "positive_prices (Book_tick d)"
  defines "reg' \<equiv> map (\<lambda>(sid, strat). (sid, if strategy_symbol strat = symbol then strategy_on_book d strat else strat)) reg"
  shows "registry_ok reg'" "map_of reg' sid = map_option (\<lambda>strat. if strategy_symbol strat = symbol
      then strategy_on_book d strat else strat) (map_of reg sid)"
proof -
  have m: "map_of reg' sid = map_option (\<lambda>strat. if strategy_symbol strat = symbol
      then strategy_on_book d strat else strat) (map_of reg sid)" for sid
    unfolding reg'_def by (rule map_of_map_pair)
  then show "map_of reg' sid = map_option (\<lambda>strat. if strategy_symbol strat = symbol
      then strategy_on_book d strat else strat) (map_of reg sid)" .
  have "strategy_inv (strategy_on_book d strat)" "strategy_id (strategy_on_book d strat) = strategy_id strat"
    if "strategy_inv strat" for strat
    using isolated_contract(1,2) [OF that assms(2)] strategy_on_book_isolated [OF that, of d] by simp_all
  moreover have "map fst reg' = map fst reg" by (auto simp: reg'_def)
  ultimately show "registry_ok reg'" using assms(1) by (auto simp: registry_ok_def m dict_wf_def)
qed

lemma engine_inv_trade:
  assumes inv: "engine_inv sid strat0 svc" and t: "0 < tr_price t"
  shows "engine_inv sid strat0 (on_trade_tick env t svc)"
proof -
  obtain es where es: "tracks sid strat0 svc es" and reg: "registry_ok (ae_registry svc)"
    using inv by (auto simp: engine_inv_def)
  obtain trip cb where cb: "is_tripped (av_monotonic env) (av_redis env) (ae_breaker svc) = (trip, cb)" by fastforce
  define svc2 where "svc2 = svc\<lparr>ae_trade_count := ae_trade_count svc + 1,
    ae_cross := on_price (upper (tr_symbol t)) (tr_timestamp_exchange t) (tr_price t) (ae_cross svc), ae_breaker := cb,
    ae_metrics := metric_set_gauge ''circuit_breaker_active'' (if trip then 1 else 0) None
      (metric_inc ''trades_processed'' 1 (Some [(''symbol'', upper (tr_symbol t))]) (ae_metrics svc))\<rparr>"
  define ids where "ids = strategies_for_symbol (upper (tr_symbol t)) (ae_registry svc)"
  have step: "on_trade_tick env t svc = (if trip then svc2 else run_strategies (av_strategy env) 0 t ids svc2)"
    by (cases trip) (simp_all add: on_trade_tick_def Let_def cb svc2_def ids_def)
  have svc2: "ae_registry svc2 = ae_registry svc" "signals_by sid svc2 = signals_by sid svc"
      "ae_trade_count svc2 = Suc (ae_trade_count svc)"
    by (simp_all add: svc2_def signals_by_def)
  show ?thesis
  proof (cases trip)
    case True
    with es svc2 have "tracks sid strat0 (on_trade_tick env t svc) es" by (simp add: step tracks_def)
    with True reg svc2 show ?thesis by (auto simp: engine_inv_def step)
  next
    case False
    have ids: "distinct ids" "set ids \<subseteq> fst ` set (ae_registry svc2)"
      using reg by (auto simp: ids_def strategies_for_symbol_def registry_ok_def dict_wf_def svc2
        intro: distinct_map_filter)
    have reg2: "registry_ok (ae_registry svc2)" using reg by (simp add: svc2)
    note run = run_strategies_isolated [OF reg2 t ids, of "av_strategy env" 0 sid]
    define strat where "strat = foldl (\<lambda>s e. snd (isolated_step s e)) strat0 es"
    have strat: "map_of (ae_registry svc2) sid = Some strat" using es by (simp add: tracks_def strat_def svc2)
    show ?thesis
    proof (cases "sid \<in> set ids")
      case True
      then obtain env' where e: "map_of (ae_registry (run_strategies (av_strategy env) 0 t ids svc2)) sid =
            Some (snd (isolated_step strat (Trade_tick env' t)))"
          "signals_by sid (run_strategies (av_strategy env) 0 t ids svc2) =
            signals_by sid svc2 @ map doc (emitted (fst (isolated_step strat (Trade_tick env' t))))"
        using run strat by blast
      with es run t \<open>\<not> trip\<close> have "tracks sid strat0 (on_trade_tick env t svc) (es @ [Trade_tick env' t])"
        by (simp add: tracks_def step signals_of_snoc svc2 strat_def)
      with run \<open>\<not> trip\<close> show ?thesis by (auto simp: engine_inv_def step)
    next
      case outside: False
      with es run \<open>\<not> trip\<close> strat have "tracks sid strat0 (on_trade_tick env t svc) es"
        by (simp add: tracks_def step svc2 strat_def)
      with run \<open>\<not> trip\<close> show ?thesis by (auto simp: engine_inv_def step)
    qed
  qed
qed

lemma engine_inv_depth:
  assumes inv: "engine_inv sid strat0 svc" and d: "positive_prices (Book_tick d)"
  shows "engine_inv sid strat0 (on_depth_update d svc)"
proof -
  obtain es where es: "tracks sid strat0 svc es" and reg: "registry_ok (ae_registry svc)"
    using inv by (auto simp: engine_inv_def)
  define strat where "strat = foldl (\<lambda>s e. snd (isolated_step s e)) strat0 es"
  have strat: "map_of (ae_registry svc) sid = Some strat" using es by (simp add: tracks_def strat_def)
  then have iso: "isolated_step strat (Book_tick d) = (Inr None, strategy_on_book d strat)"
    using reg by (intro strategy_on_book_isolated) (auto simp: registry_ok_def)
  note book = registry_ok_book [OF reg d, of "upper (dp_symbol d)"]
  have same: "signals_by sid (on_depth_update d svc) = signals_by sid svc" by (simp add: signals_by_def)
  have "tracks sid strat0 (on_depth_update d svc)
      (if strategy_symbol strat = upper (dp_symbol d) then es @ [Book_tick d] else es)"
    using es d book(2) [of sid] strat iso same
    by (simp add: tracks_def on_depth_update_def Let_def signals_of_snoc strat_def [symmetric] del: isolated_step.simps)
  with book(1) show ?thesis by (auto simp: engine_inv_def on_depth_update_def Let_def)
qed

lemma engine_inv_step:
  assumes inv: "engine_inv sid strat0 svc" and ok: "positive_message e"
  shows "engine_inv sid strat0 (alpha_step svc e)"
proof -
  obtain env msg where e: "e = (env, msg)" by fastforce
  show ?thesis
  proof (cases rule: alpha_step_cases [of svc env msg])
    case stopped
    with inv show ?thesis by (simp add: e engine_inv_def tracks_def signals_by_def)
  next
    case (trade t m)
    with ok have "0 < tr_price t" by (simp add: e)
    with engine_inv_trade [OF inv] trade show ?thesis by (simp add: e)
  next
    case (depth d m)
    with ok have "positive_prices (Book_tick d)" by (simp add: e)
    with engine_inv_depth [OF inv] depth show ?thesis by (simp add: e)
  qed (use inv in \<open>simp add: e\<close>)
qed

interpretation alpha_engine: machine alpha_step positive_message "engine_inv sid strat0" for sid strat0
  by unfold_locales (rule engine_inv_step)

lemma isolated_signals: "signals_of isolated_step (Mean_reversion st) es = signals_of (vwap_step revert_side) st es"
  by (induction es arbitrary: st) (simp_all add: Let_def split: prod.split)

definition fresh_strategy :: "string \<Rightarrow> strategy \<Rightarrow> bool" where
  "fresh_strategy sid strat \<longleftrightarrow> strategy_inv strat \<and> strategy_id strat = sid"

lemma registered_ok: "registry_ok (registered_strategies syms)"
proof (induction syms rule: rev_induct)
  case (snoc s syms)
  have "registry_ok (register strat reg)" if "registry_ok reg" "strategy_inv strat" for reg strat
    using that registry_ok_update [of reg strat "strategy_id strat"] by (simp add: register_def)
  moreover have "strategy_inv (Mean_reversion (vwap_init i s default_params))"
      "strategy_inv (Momentum (vwap_init i s default_params))" for i
    by (simp_all add: vwap_inv_init)
  ultimately show ?case using snoc by (simp add: registered_strategies_def)
qed (simp add: registered_strategies_def registry_ok_def)

lemma upper_lower_char: "upper_char (lower_char (upper_char c)) = upper_char c"
proof (cases "65 \<le> (of_char (upper_char c) :: nat) \<and> (of_char (upper_char c) :: nat) \<le> 90")
  case True
  then have "(of_char (lower_char (upper_char c)) :: nat) = of_char (upper_char c) + 32"
    by (auto simp: lower_char_def Let_def)
  with True show ?thesis by (subst upper_char_def) (auto simp: Let_def)
qed (auto simp: lower_char_def Let_def)

lemma upper_lower_upper: "upper (lower (upper s)) = upper s"
  by (simp add: upper_def lower_def upper_lower_char)

lemma registered_mean_reversion:
  "list_all (\<lambda>s. upper s = s) syms \<Longrightarrow> s \<in> set syms \<Longrightarrow>
     map_of (registered_strategies syms) (''mean_reversion_'' @ lower s) =
       Some (Mean_reversion (vwap_init (''mean_reversion_'' @ lower s) s default_params))"
proof (induction syms rule: rev_induct)
  case (snoc x syms)
  have ids: "strategy_id (Mean_reversion (vwap_init i y default_params)) = i"
      "strategy_id (Momentum (vwap_init i y default_params)) = i" for i y
    by (simp_all add: vwap_init_def)
  have step: "registered_strategies (syms @ [x]) =
      register (Momentum (vwap_init (''momentum_'' @ lower x) x default_params))
        (register (Mean_reversion (vwap_init (''mean_reversion_'' @ lower x) x default_params)) (registered_strategies syms))"
    by (simp add: registered_strategies_def)
  have same: "lower s = lower x \<Longrightarrow> s = x"
  proof -
    assume "lower s = lower x"
    moreover have "upper s = s" "upper x = x" using snoc.prems by (auto simp: list_all_iff)
    ultimately show "s = x" using upper_lower_upper [of s] upper_lower_upper [of x] by simp
  qed
  show ?case
  proof (cases "lower s = lower x")
    case True
    with same show ?thesis unfolding step register_def ids by (simp add: dict.lookup_insert)
  next
    case False
    then have "s \<in> set syms" using snoc.prems(2) by auto
    with snoc False show ?thesis unfolding step register_def ids by (simp add: dict.lookup_insert)
  qed
qed simp


definition one_trade :: "(alpha_env \<times> kafka_message option) list" where
  "one_trade = [(\<lparr>av_monotonic = 11, av_redis = Inr None, av_strategy = quiet_env\<rparr>,
     Some (trade_message (trade_default\<lparr>tr_symbol := ''BTCUSD'', tr_price := 100\<rparr>)))]"


end
