(* ===== verification/Py_Strings.thy ===== *)
theory Py_Strings
  imports Json_Value
begin

text \<open>
  The string operations of Python that configuration, market data and reconciliation use:
  \<open>str.strip\<close>, \<open>str.split\<close> and \<open>str.rsplit\<close> on a one-character separator, \<open>str.replace\<close> of one
  character by the empty string, and the parsing of \<open>int(s)\<close> and \<open>float(s)\<close>. The words \<open>inf\<close> and
  \<open>nan\<close> that \<open>float\<close> accepts are outside the model, as those values are; they are rejected here
  like any other word.
\<close>

section \<open>Stripping, splitting\<close>

definition is_space :: "char \<Rightarrow> bool" where
  "is_space c = (let n = (of_char c :: nat) in (9 \<le> n \<and> n \<le> 13) \<or> (28 \<le> n \<and> n \<le> 32))"

definition strip :: "string \<Rightarrow> string" where
  "strip s = rev (dropWhile is_space (rev (dropWhile is_space s)))"

fun split_on :: "char \<Rightarrow> string \<Rightarrow> string list" where
  \<comment> \<open>\<open>s.split(c)\<close>\<close>
  "split_on c [] = [[]]"
| "split_on c (x # xs) =
     (if x = c then [] # split_on c xs
      else case split_on c xs of [] \<Rightarrow> [[x]] | w # ws \<Rightarrow> (x # w) # ws)"

definition rsplit1 :: "char \<Rightarrow> string \<Rightarrow> string \<times> string" where
  \<comment> \<open>\<open>s.rsplit(c, 1)\<close> of a string that contains \<open>c\<close>: the parts around its last occurrence\<close>
  "rsplit1 c s =
     (let after = rev (takeWhile (\<lambda>x. x \<noteq> c) (rev s)) in (take (length s - Suc (length after)) s, after))"

definition without :: "char \<Rightarrow> string \<Rightarrow> string" where
  \<comment> \<open>\<open>s.replace(c, '')\<close>\<close>
  "without c s = filter (\<lambda>x. x \<noteq> c) s"

definition stripped :: "string \<Rightarrow> bool" where
  \<comment> \<open>no whitespace at either end\<close>
  "stripped s = (s = [] \<or> (\<not> is_space (hd s) \<and> \<not> is_space (last s)))"

lemma strip_stripped: "stripped s \<Longrightarrow> strip s = s"
proof -
  assume "stripped s"
  then have "dropWhile is_space s = s" "dropWhile is_space (rev s) = rev s"
    by (auto simp: stripped_def dropWhile_eq_self_iff hd_rev)
  then show ?thesis by (simp add: strip_def)
qed

lemma stripped_strip: "stripped (strip s)"
proof -
  define t where "t = dropWhile is_space s"
  define u where "u = dropWhile is_space (rev t)"
  have ends: "\<not> is_space (hd u)" "\<not> is_space (last u)" if "u \<noteq> []"
  proof -
    show "\<not> is_space (hd u)" using that hd_dropWhile [of is_space "rev t"] by (auto simp: u_def)
    have "t \<noteq> []" using that by (auto simp: u_def)
    then have "\<not> is_space (hd t)" using hd_dropWhile [of is_space s] by (auto simp: t_def)
    moreover have "rev t = takeWhile is_space (rev t) @ u" by (simp add: u_def)
    then have "last u = last (rev t)" using that by (metis last_appendR)
    ultimately show "\<not> is_space (last u)" using \<open>t \<noteq> []\<close> by (simp add: last_rev)
  qed
  have "strip s = rev u" by (simp add: strip_def u_def t_def)
  with ends show ?thesis by (auto simp: stripped_def hd_rev last_rev)
qed

lemma set_strip: "set (strip s) \<subseteq> set s"
  by (auto simp: strip_def dest!: set_dropWhileD)

lemma dropWhile_keeps: "x \<in> set xs \<Longrightarrow> \<not> P x \<Longrightarrow> x \<in> set (dropWhile P xs)"
  by (induction xs) auto

lemma strip_keeps: "c \<in> set s \<Longrightarrow> \<not> is_space c \<Longrightarrow> c \<in> set (strip s)"
  by (simp add: strip_def dropWhile_keeps)

lemma split_on_ne [simp]: "split_on c s \<noteq> []"
  by (induction s) (auto split: list.splits)

lemma split_on_word: "c \<notin> set w \<Longrightarrow> split_on c w = [w]"
  by (induction w) auto

lemma split_on_word_app: "c \<notin> set w \<Longrightarrow> split_on c (w @ c # s) = w # split_on c s"
  by (induction w) auto

lemma split_on_join:
  assumes "ws \<noteq> []" and "list_all (\<lambda>w. c \<notin> set w) ws"
  shows "split_on c (join [c] ws) = ws"
  using assms
proof (induction ws rule: list_nonempty_induct)
  case (single w)
  then show ?case by (simp add: split_on_word)
next
  case (cons w ws)
  then obtain v vs where "ws = v # vs" by (cases ws) auto
  with cons show ?case by (simp add: split_on_word_app)
qed

lemma split_on_words: "w \<in> set (split_on c s) \<Longrightarrow> c \<notin> set w"
  by (induction s arbitrary: w) (auto split: if_splits list.splits)

lemma rsplit1_app: "c \<notin> set t \<Longrightarrow> rsplit1 c (s @ c # t) = (s, t)"
proof -
  assume "c \<notin> set t"
  then have "takeWhile (\<lambda>x. x \<noteq> c) (rev t @ c # rev s) = rev t"
    by (subst takeWhile_append2) auto
  then show ?thesis by (simp add: rsplit1_def Let_def)
qed

lemma without_app [simp]: "without c (s @ t) = without c s @ without c t"
  by (simp add: without_def)

lemma without_id: "c \<notin> set s \<Longrightarrow> without c s = s"
  unfolding without_def by (rule filter_True) auto

section \<open>Lower case\<close>

lemma lower_char_idem [simp]: "lower_char (lower_char c) = lower_char c"
proof (cases "65 \<le> (of_char c :: nat) \<and> (of_char c :: nat) \<le> 90")
  case True
  then have "(of_char (lower_char c) :: nat) = of_char c + 32"
    by (auto simp: lower_char_def Let_def)
  with True show ?thesis
    by (subst lower_char_def) (auto simp: Let_def)
qed (auto simp: lower_char_def Let_def)

lemma lower_idem [simp]: "lower (lower s) = lower s"
  by (simp add: lower_def)

lemma lower_Nil [simp]: "lower s = '''' \<longleftrightarrow> s = ''''"
  by (simp add: lower_def)

lemma lower_char_small: "(of_char c :: nat) < 65 \<Longrightarrow> lower_char c = c"
  by (simp add: lower_char_def Let_def)

lemma of_char_lower_small: "(of_char (lower_char c) :: nat) < 65 \<Longrightarrow> lower_char c = c"
  by (auto simp: lower_char_def Let_def split: if_splits)

lemma is_space_lower [simp]: "is_space (lower_char c) = is_space c"
  using lower_char_small [of c] of_char_lower_small [of c] by (auto simp: is_space_def Let_def)

lemma stripped_lower: "stripped (lower s) = stripped s"
  by (cases "s = []") (auto simp: stripped_def lower_def hd_map last_map)

lemma lower_avoids: "(of_char c :: nat) < 65 \<Longrightarrow> c \<notin> set s \<Longrightarrow> c \<notin> set (lower s)"
  using of_char_lower_small by (fastforce simp: lower_def)

section \<open>Numerals\<close>

definition is_digit :: "char \<Rightarrow> bool" where
  "is_digit c = (let n = (of_char c :: nat) in 48 \<le> n \<and> n \<le> 57)"

definition digit_val :: "char \<Rightarrow> nat" where
  "digit_val c = of_char c - 48"

fun scan_digits :: "bool \<Rightarrow> string \<Rightarrow> nat list \<times> string" where
  \<comment> \<open>the longest run of digits, with single underscores between digits, and the rest; the flag:
     the last character was a digit\<close>
  "scan_digits prev [] = ([], [])"
| "scan_digits prev (c # cs) =
     (if is_digit c then let (ds, r) = scan_digits True cs in (digit_val c # ds, r)
      else if c = CHR ''_'' \<and> prev \<and> cs \<noteq> [] \<and> is_digit (hd cs) then scan_digits False cs
      else ([], c # cs))"

definition of_digits :: "nat list \<Rightarrow> int" where
  "of_digits ds = foldl (\<lambda>n d. 10 * n + int d) 0 ds"

fun scan_sign :: "string \<Rightarrow> bool \<times> string" where
  \<comment> \<open>\<open>True\<close>: negative\<close>
  "scan_sign [] = (False, [])"
| "scan_sign (c # cs) = (if c = CHR ''-'' then (True, cs) else if c = CHR ''+'' then (False, cs) else (False, c # cs))"

definition int_of_str :: "string \<Rightarrow> py_error + int" where
  \<comment> \<open>\<open>int(s)\<close>\<close>
  "int_of_str s =
     (let (neg, t) = scan_sign (strip s); (ds, r) = scan_digits False t in
      if ds = [] \<or> r \<noteq> [] then Inl (ValueError ''invalid literal for int()'')
      else Inr (if neg then - of_digits ds else of_digits ds))"

definition scan_exponent :: "string \<Rightarrow> int option" where
  \<comment> \<open>what follows the mantissa: nothing, or \<open>e\<close> and a signed run of digits\<close>
  "scan_exponent s =
     (case s of [] \<Rightarrow> Some 0
      | c # cs \<Rightarrow>
          if lower_char c \<noteq> CHR ''e'' then None
          else let (neg, t) = scan_sign cs; (ds, r) = scan_digits False t in
            if ds = [] \<or> r \<noteq> [] then None else Some (if neg then - of_digits ds else of_digits ds))"

definition float_of_str :: "string \<Rightarrow> py_error + real" where
  \<comment> \<open>\<open>float(s)\<close>\<close>
  "float_of_str s =
     (let (neg, t) = scan_sign (strip s); (whole, r1) = scan_digits False t;
          (frac, r2) = (case r1 of [] \<Rightarrow> ([], []) | c # cs \<Rightarrow> if c = CHR ''.'' then scan_digits False cs else ([], c # cs)) in
      case scan_exponent r2 of
        None \<Rightarrow> Inl (ValueError ''could not convert string to float'')
      | Some ex \<Rightarrow>
          if whole = [] \<and> frac = [] then Inl (ValueError ''could not convert string to float'')
          else let m = of_int (of_digits (whole @ frac)) / 10 ^ length frac;
                   v = (if 0 \<le> ex then m * 10 ^ nat ex else m / 10 ^ nat (- ex)) in
            Inr (if neg then - v else v))"

fun as_float :: "json \<Rightarrow> py_error + real" where
  \<comment> \<open>\<open>float(x)\<close> of a decoded JSON value\<close>
  "as_float (JNum x) = Inr x"
| "as_float (JInt i) = Inr (of_int i)"
| "as_float (JBool b) = Inr (if b then 1 else 0)"
| "as_float (JStr s) = float_of_str s"
| "as_float _ = Inl TypeError"

fun as_pyint :: "json \<Rightarrow> py_error + int" where
  \<comment> \<open>\<open>int(x)\<close>\<close>
  "as_pyint (JInt i) = Inr i"
| "as_pyint (JNum x) = Inr (py_int x)"
| "as_pyint (JBool b) = Inr (if b then 1 else 0)"
| "as_pyint (JStr s) = int_of_str s"
| "as_pyint _ = Inl TypeError"

fun truthy :: "json \<Rightarrow> bool" where
  \<comment> \<open>\<open>bool(x)\<close>\<close>
  "truthy JNull = False"
| "truthy (JBool b) = b"
| "truthy (JInt i) = (i \<noteq> 0)"
| "truthy (JNum x) = (x \<noteq> 0)"
| "truthy (JStr s) = (s \<noteq> '''')"
| "truthy (JList xs) = (xs \<noteq> [])"
| "truthy (JObj kvs) = (kvs \<noteq> [])"

definition show_int :: "int \<Rightarrow> string" where
  \<comment> \<open>\<open>str(i)\<close>\<close>
  "show_int i = (if i < 0 then CHR ''-'' # show_nat (nat (- i)) else show_nat (nat i))"

section \<open>Printing and reading integers\<close>

lemma digit_facts: "k < 10 \<Longrightarrow> is_digit (digit k) \<and> digit_val (digit k) = k"
  by (simp add: is_digit_def digit_val_def digit_def Let_def)

lemma scan_all_digits:
  "list_all is_digit s \<Longrightarrow> scan_digits prev s = (map digit_val s, [])"
  by (induction s arbitrary: prev) auto

lemma show_nat_digits:
  "list_all is_digit (show_nat n) \<and> show_nat n \<noteq> [] \<and> of_digits (map digit_val (show_nat n)) = int n"
proof (induction n rule: show_nat.induct)
  case (1 n)
  show ?case
  proof (cases "n < 10")
    case True
    then show ?thesis by (subst (1 2 3) show_nat.simps) (simp add: digit_facts of_digits_def)
  next
    case False
    with 1 have "of_digits (map digit_val (show_nat (n div 10))) = int (n div 10)"
      "list_all is_digit (show_nat (n div 10))" by simp_all
    moreover have "10 * int (n div 10) + int (n mod 10) = int n" by presburger
    ultimately show ?thesis
      using False by (subst (1 2 3) show_nat.simps) (simp add: digit_facts of_digits_def)
  qed
qed

lemma digit_not_special:
  assumes "is_digit c"
  shows "\<not> is_space c" "c \<noteq> CHR ''-''" "c \<noteq> CHR ''+''"
  using assms by (auto simp: is_digit_def is_space_def Let_def)

lemma digits_stripped: "list_all is_digit s \<Longrightarrow> stripped s"
  by (auto simp: stripped_def list_all_iff digit_not_special)

lemma int_of_show_nat: "int_of_str (show_nat n) = Inr (int n)"
proof -
  have d: "list_all is_digit (show_nat n)" "show_nat n \<noteq> []" "of_digits (map digit_val (show_nat n)) = int n"
    using show_nat_digits [of n] by auto
  then obtain c cs where cs: "show_nat n = c # cs" by (cases "show_nat n") auto
  with d have "scan_sign (show_nat n) = (False, show_nat n)"
    using digit_not_special [of c] by simp
  with d show ?thesis
    by (simp add: int_of_str_def strip_stripped digits_stripped scan_all_digits)
qed

lemma int_of_show_int: "int_of_str (show_int i) = Inr i"
proof (cases "i < 0")
  case True
  let ?t = "show_nat (nat (- i))"
  have d: "list_all is_digit ?t" "?t \<noteq> []" "of_digits (map digit_val ?t) = int (nat (- i))"
    using show_nat_digits [of "nat (- i)"] by auto
  have "stripped (CHR ''-'' # ?t)"
    using digits_stripped [OF d(1)] d(2) by (simp add: stripped_def is_space_def)
  with True d show ?thesis
    by (simp add: show_int_def int_of_str_def strip_stripped scan_all_digits)
qed (simp add: show_int_def int_of_show_nat)

section \<open>Formatting of numbers\<close>

fun low_digits :: "nat \<Rightarrow> nat \<Rightarrow> string" where
  \<comment> \<open>the last \<open>n\<close> decimal digits of \<open>k\<close>\<close>
  "low_digits 0 k = ''''"
| "low_digits (Suc n) k = low_digits n (k div 10) @ [digit (k mod 10)]"

definition fixed :: "nat \<Rightarrow> real \<Rightarrow> string" where
  \<comment> \<open>\<open>format(x, '.nf')\<close>\<close>
  "fixed n x =
     (let k = nat (round_half_even (\<bar>x\<bar> * 10 ^ n)) in
      (if x < 0 then ''-'' else '''') @ show_nat (k div 10 ^ n) @ (if n = 0 then '''' else ''.'' @ low_digits n k))"

definition percent :: "nat \<Rightarrow> real \<Rightarrow> string" where
  \<comment> \<open>\<open>format(x, '.n%')\<close>\<close>
  "percent n x = fixed n (x * 100) @ ''%''"

function grouped_digits :: "string \<Rightarrow> string" where
  "grouped_digits s =
     (if length s \<le> 3 then s else grouped_digits (take (length s - 3) s) @ '','' @ drop (length s - 3) s)"
  by pat_completeness auto
termination
  by (relation "measure length") auto

declare grouped_digits.simps [simp del]

definition grouped :: "nat \<Rightarrow> real \<Rightarrow> string" where
  \<comment> \<open>\<open>format(x, ',.nf')\<close>\<close>
  "grouped n x =
     (let k = nat (round_half_even (\<bar>x\<bar> * 10 ^ n)) in
      (if x < 0 then ''-'' else '''') @ grouped_digits (show_nat (k div 10 ^ n)) @ (if n = 0 then '''' else ''.'' @ low_digits n k))"

definition plus_signed :: "nat \<Rightarrow> real \<Rightarrow> string" where
  \<comment> \<open>\<open>format(x, '+.nf')\<close>\<close>
  "plus_signed n x = (if 0 \<le> x then ''+'' else []) @ fixed n x"

definition ljust :: "nat \<Rightarrow> string \<Rightarrow> string" where
  \<comment> \<open>\<open>format(s, '<n')\<close>\<close>
  "ljust n s = s @ replicate (n - length s) (CHR '' '')"

definition rjust :: "nat \<Rightarrow> string \<Rightarrow> string" where
  \<comment> \<open>\<open>format(s, '>n')\<close>\<close>
  "rjust n s = replicate (n - length s) (CHR '' '') @ s"

definition grouped_int :: "int \<Rightarrow> string" where
  \<comment> \<open>\<open>format(i, ',')\<close>\<close>
  "grouped_int i = (if i < 0 then ''-'' else []) @ grouped_digits (show_nat (nat \<bar>i\<bar>))"

end
