(* ===== verification/Py_Lists.thy ===== *)
theory Py_Lists
  imports Py_Base "HOL-Library.Multiset"
begin

text \<open>
  Selections over lists that the backtest tools share: \<open>max\<close> and \<open>min\<close> with a key (the first extremal
  element), \<open>sorted\<close> with a key and \<open>reverse=True\<close> (stable: equal elements keep their order),
  grouping with \<open>setdefault(k, []).append(v)\<close>, and \<open>itertools.product\<close> (\<open>product_lists\<close> of the
  library has its order: the last position varies fastest).
\<close>

definition max_by :: "('a \<Rightarrow> real) \<Rightarrow> 'a list \<Rightarrow> 'a" where
  "max_by key xs = foldl (\<lambda>b x. if key b < key x then x else b) (hd xs) (tl xs)"

definition min_by :: "('a \<Rightarrow> real) \<Rightarrow> 'a list \<Rightarrow> 'a" where
  "min_by key xs = foldl (\<lambda>b x. if key x < key b then x else b) (hd xs) (tl xs)"

definition sort_desc :: "('a \<Rightarrow> real) \<Rightarrow> 'a list \<Rightarrow> 'a list" where
  "sort_desc key xs = sort_key (\<lambda>x. - key x) xs"

definition sort_rev :: "('a \<Rightarrow> 'k :: linorder) \<Rightarrow> 'a list \<Rightarrow> 'a list" where
  \<comment> \<open>\<open>sorted(xs, key=key, reverse=True)\<close> for any ordered keys: the stable sort between two reversals\<close>
  "sort_rev key xs = rev (sort_key key (rev xs))"

fun emap :: "('a \<Rightarrow> 'e + 'b) \<Rightarrow> 'a list \<Rightarrow> 'e + 'b list" where
  \<comment> \<open>a comprehension whose element expression may raise\<close>
  "emap f [] = Inr []"
| "emap f (x # xs) = ebind (f x) (\<lambda>y. ebind (emap f xs) (\<lambda>ys. Inr (y # ys)))"

lemma emap_length: "emap f xs = Inr ys \<Longrightarrow> length ys = length xs"
  by (induction xs arbitrary: ys) (auto simp: ebind_eq_Inr)

lemma emap_Inr: "list_all (\<lambda>x. f x = Inr (g x)) xs \<Longrightarrow> emap f xs = Inr (map g xs)"
  by (induction xs) auto

lemma sort_rev_props: "mset (sort_rev key xs) = mset xs" "set (sort_rev key xs) = set xs"
  "sorted_wrt (\<lambda>a b. key b \<le> key a) (sort_rev key xs)"
proof -
  have "sorted (map key (sort_key key (rev xs)))" by simp
  then show "sorted_wrt (\<lambda>a b. key b \<le> key a) (sort_rev key xs)" by (simp add: sort_rev_def sorted_wrt_rev sorted_map)
qed (simp_all add: sort_rev_def)

definition group_add :: "('k, 'v list) dict \<Rightarrow> 'k \<times> 'v \<Rightarrow> ('k, 'v list) dict" where
  "group_add d = (\<lambda>(k, v). AList.update k (dget d k [] @ [v]) d)"

definition group_by :: "('k \<times> 'v) list \<Rightarrow> ('k, 'v list) dict" where
  "group_by kvs = foldl group_add [] kvs"

lemma fold_max: "foldl (\<lambda>b x. if key b < key x then x else b) b xs \<in> set (b # xs) \<and>
   list_all (\<lambda>x. key x \<le> key (foldl (\<lambda>b x. if key b < key x then x else b) b xs)) (b # xs)"
  for key :: "'a \<Rightarrow> real"
proof (induction xs arbitrary: b)
  case (Cons x xs)
  show ?case
  proof (cases "key b < key x")
    case True
    with Cons.IH [of x] show ?thesis by auto
  next
    case False
    with Cons.IH [of b] show ?thesis by auto
  qed
qed simp

lemma max_by_spec: "xs \<noteq> [] \<Longrightarrow> max_by key xs \<in> set xs \<and> list_all (\<lambda>x. key x \<le> key (max_by key xs)) xs"
  using fold_max [of key "hd xs" "tl xs"] by (simp add: max_by_def)

lemma min_by_max: "min_by key xs = max_by (\<lambda>x. - key x) xs"
  by (simp add: min_by_def max_by_def)

lemma min_by_spec: "xs \<noteq> [] \<Longrightarrow> min_by key xs \<in> set xs \<and> list_all (\<lambda>x. key (min_by key xs) \<le> key x) xs"
  using max_by_spec [of xs "\<lambda>x. - key x"] by (simp add: min_by_max)

lemma sort_desc_props:
  "mset (sort_desc key xs) = mset xs" "set (sort_desc key xs) = set xs" "length (sort_desc key xs) = length xs"
  by (simp_all add: sort_desc_def)

lemma sort_desc_sorted: "sorted_wrt (\<lambda>a b. key b \<le> key a) (sort_desc key xs)"
proof -
  have "sorted (map (\<lambda>x. - key x) (sort_desc key xs))" by (simp add: sort_desc_def)
  then show ?thesis by (simp add: sorted_map)
qed

lemma sort_desc_hd: "x \<in> set xs \<Longrightarrow> key x \<le> key (hd (sort_desc key xs))"
proof -
  assume x: "x \<in> set xs"
  then obtain y ys where "sort_desc key xs = y # ys"
    by (metis sort_desc_props(2) list.exhaust list.set(1) empty_iff)
  moreover have "x \<in> set (sort_desc key xs)" using x by (simp add: sort_desc_props)
  ultimately show ?thesis using sort_desc_sorted [of key xs] by auto
qed

lemma sort_desc_constant: "list_all (\<lambda>x. key x = c) xs \<Longrightarrow> sort_desc key xs = xs"
proof (unfold sort_desc_def, induction xs)
  case (Cons x xs)
  then show ?case by (cases xs) auto
qed simp

lemma group_add_wf: "dict_wf d \<Longrightarrow> dict_wf (group_add d kv)"
  by (cases kv) (simp add: group_add_def)

lemma group_fold: "dict_wf d \<Longrightarrow> dict_wf (foldl group_add d kvs) \<and>
   dget (foldl group_add d kvs) k [] = dget d k [] @ map snd (filter (\<lambda>(k', _). k' = k) kvs) \<and>
   fst ` set (foldl group_add d kvs) = fst ` set d \<union> fst ` set kvs"
proof (induction kvs arbitrary: d)
  case (Cons kv kvs)
  obtain k' v where "kv = (k', v)" by (cases kv)
  then have "fst ` set (group_add d kv) = insert k' (fst ` set d)"
    by (simp add: group_add_def dom_update)
  with Cons.IH [of "group_add d kv"] Cons.prems group_add_wf [of d kv] show ?case
    by (auto simp: \<open>kv = (k', v)\<close> group_add_def)
qed simp

lemma group_by_spec:
  "dict_wf (group_by kvs)" "dget (group_by kvs) k [] = map snd (filter (\<lambda>(k', _). k' = k) kvs)"
  "fst ` set (group_by kvs) = fst ` set kvs"
  using group_fold [of "[]" kvs k] by (simp_all add: group_by_def)

lemma length_product_lists_replicate: "length (product_lists xss) = prod_list (map length xss)"
  by (induction xss) (simp_all add: length_concat o_def sum_list_triv)

lemma group_add_sum:
  fixes f :: "'v \<Rightarrow> 'c :: comm_monoid_add"
  shows "sum_list (map (\<lambda>(k, vs). sum_list (map f vs)) (group_add d (k, v))) = sum_list (map (\<lambda>(k, vs). sum_list (map f vs)) d) + f v"
proof (induction d)
  case (Cons kv d)
  then show ?case by (cases "fst kv = k") (auto simp: group_add_def dget_def split_beta add_ac)
qed (simp add: group_add_def)

text \<open>Grouping loses and repeats nothing: a sum over all groups is the sum over the elements.\<close>

lemma group_by_sum:
  fixes f :: "'v \<Rightarrow> 'c :: comm_monoid_add"
  shows "sum_list (map (\<lambda>(k, vs). sum_list (map f vs)) (group_by kvs)) = sum_list (map (f \<circ> snd) kvs)"
proof -
  have "sum_list (map (\<lambda>(k, vs). sum_list (map f vs)) (foldl group_add d kvs)) =
      sum_list (map (\<lambda>(k, vs). sum_list (map f vs)) d) + sum_list (map (f \<circ> snd) kvs)" for d
  proof (induction kvs arbitrary: d)
    case (Cons kv kvs)
    from Cons.IH [of "group_add d kv"] show ?case
      using group_add_sum [of f d "fst kv" "snd kv"] by (simp add: add_ac)
  qed simp
  from this [of "[]"] show ?thesis by (simp add: group_by_def)
qed

end
