(* ===== verification/Reconciliation.thy ===== *)
theory Reconciliation
  imports Py_Strings
begin

text \<open>
  \<open>lib/quant_core/reconciliation.py\<close>: the comparison of the internal positions with the balances
  the exchange reports. The clock is the argument \<open>now\<close>; the answer of \<open>get_accounts\<close> is the
  argument of \<open>fetch_exchange_balances\<close>.
\<close>

section \<open>The comparison\<close>

record discrepancy =
  pd_symbol :: string
  pd_internal_quantity :: real
  pd_exchange_quantity :: real
  pd_difference :: real
  pd_difference_pct :: real
  pd_severity :: string

record recon_report =
  rr_timestamp :: int
  rr_symbols_checked :: nat
  rr_discrepancies :: "discrepancy list"
  rr_exchange_balances :: "(string, real) dict"
  rr_internal_positions :: "(string, real) dict"
  rr_status :: string
  rr_error :: "string option"

definition all_symbols :: "(string, real) dict \<Rightarrow> (string, real) dict \<Rightarrow> string list" where
  \<comment> \<open>the sorted union of the keys\<close>
  "all_symbols internal exchange = sort (remdups (map fst internal @ map fst exchange))"

definition diff_ratio :: "real \<Rightarrow> real \<Rightarrow> real" where
  "diff_ratio internal exchange = \<bar>internal - exchange\<bar> / max (max \<bar>internal\<bar> \<bar>exchange\<bar>) (1 / 10000)"

definition severity_of :: "real \<Rightarrow> real \<Rightarrow> string" where
  "severity_of tolerance_pct diff_pct =
     (if diff_pct \<le> tolerance_pct then ''info'' else if diff_pct \<le> tolerance_pct * 10 then ''warning'' else ''critical'')"

definition check_symbol :: "real \<Rightarrow> (string, real) dict \<Rightarrow> (string, real) dict \<Rightarrow> discrepancy list \<times> string \<Rightarrow> string \<Rightarrow>
    discrepancy list \<times> string" where
  \<comment> \<open>the body of the loop over the symbols\<close>
  "check_symbol tolerance_pct internal_positions exchange_balances = (\<lambda>(discrepancies, worst) symbol.
     let internal = dget internal_positions symbol 0; exchange = dget exchange_balances symbol 0;
         diff = \<bar>internal - exchange\<bar> in
     if diff = 0 then (discrepancies, worst)
     else let diff_pct = diff_ratio internal exchange; severity = severity_of tolerance_pct diff_pct;
              worst' = (if severity = ''info'' then worst
                else if severity = ''warning'' then (if worst = ''ok'' then ''warning'' else worst)
                else ''critical'') in
       (discrepancies @ [\<lparr>pd_symbol = symbol, pd_internal_quantity = internal, pd_exchange_quantity = exchange,
           pd_difference = internal - exchange, pd_difference_pct = diff_pct * 100, pd_severity = severity\<rparr>], worst'))"

definition reconcile_positions :: "int \<Rightarrow> (string, real) dict \<Rightarrow> (string, real) dict \<Rightarrow> real \<Rightarrow> recon_report" where
  "reconcile_positions now internal_positions exchange_balances tolerance_pct =
     (let symbols = all_symbols internal_positions exchange_balances;
          (discrepancies, worst_severity) =
            foldl (check_symbol tolerance_pct internal_positions exchange_balances) ([], ''ok'') symbols in
      \<lparr>rr_timestamp = now, rr_symbols_checked = length symbols, rr_discrepancies = discrepancies,
       rr_exchange_balances = exchange_balances, rr_internal_positions = internal_positions,
       rr_status = worst_severity, rr_error = None\<rparr>)"

section \<open>Reading the exchange's balances\<close>

definition account_balance :: "json \<Rightarrow> (string, real) dict \<Rightarrow> py_error + (string, real) dict" where
  \<comment> \<open>the body of the loop over the accounts\<close>
  "account_balance account balances =
     ebind (as_obj account) (\<lambda>a.
     ebind (as_obj (dget a ''available_balance'' (JObj []))) (\<lambda>b.
     ebind (as_float (dget b ''value'' (JNum 0))) (\<lambda>available.
     if available = 0 then Inr balances
     else ebind (as_str (dget a ''currency'' (JStr ''''))) (\<lambda>currency.
       if currency = ''USD'' then Inr balances
       else Inr (AList.update (currency @ ''USD'') available balances)))))"

fun account_balances :: "json list \<Rightarrow> (string, real) dict \<Rightarrow> py_error + (string, real) dict" where
  "account_balances [] balances = Inr balances"
| "account_balances (a # as) balances = ebind (account_balance a balances) (account_balances as)"

definition accounts_of :: "json \<Rightarrow> py_error + json list" where
  "accounts_of accounts = ebind (as_obj accounts) (\<lambda>d.
     case dget d ''accounts'' (JList []) of JList xs \<Rightarrow> Inr xs | JObj [] \<Rightarrow> Inr [] | _ \<Rightarrow> Inl TypeError)"

definition fetch_exchange_balances :: "py_error + json \<Rightarrow> (string, real) dict" where
  \<comment> \<open>any exception is logged and answered by an empty dictionary\<close>
  "fetch_exchange_balances get_accounts =
     (case ebind get_accounts (\<lambda>accounts. ebind (accounts_of accounts) (\<lambda>xs. account_balances xs [])) of
        Inl _ \<Rightarrow> [] | Inr balances \<Rightarrow> balances)"

section \<open>The verdict\<close>

definition close_enough :: "(string, real) dict \<Rightarrow> (string, real) dict \<Rightarrow> real \<Rightarrow> string \<Rightarrow> bool" where
  "close_enough internal exchange tol s \<longleftrightarrow> diff_ratio (dget internal s 0) (dget exchange s 0) \<le> tol"

definition differs :: "(string, real) dict \<Rightarrow> (string, real) dict \<Rightarrow> string \<Rightarrow> bool" where
  "differs internal exchange s \<longleftrightarrow> dget internal s 0 \<noteq> dget exchange s 0"

lemma diff_ratio_eq: "diff_ratio x x = 0"
  by (simp add: diff_ratio_def)

lemma diff_ratio_sym: "diff_ratio x y = diff_ratio y x"
  by (simp add: diff_ratio_def abs_minus_commute max.commute)

lemma diff_ratio_zero: "1 / 10000 \<le> \<bar>q\<bar> \<Longrightarrow> diff_ratio q 0 = 1"
  by (simp add: diff_ratio_def max_def)

definition verdict :: "(string, real) dict \<Rightarrow> (string, real) dict \<Rightarrow> real \<Rightarrow> string list \<Rightarrow> string" where
  "verdict internal exchange tol symbols =
     (if list_all (close_enough internal exchange tol) symbols then ''ok''
      else if list_all (close_enough internal exchange (tol * 10)) symbols then ''warning'' else ''critical'')"

definition expected :: "(string, real) dict \<Rightarrow> (string, real) dict \<Rightarrow> real \<Rightarrow> string \<Rightarrow> discrepancy" where
  "expected internal exchange tol s =
     (let i = dget internal s 0; e = dget exchange s 0 in
      \<lparr>pd_symbol = s, pd_internal_quantity = i, pd_exchange_quantity = e, pd_difference = i - e,
       pd_difference_pct = diff_ratio i e * 100, pd_severity = severity_of tol (diff_ratio i e)\<rparr>)"

lemma close_enough_same: "0 \<le> tol \<Longrightarrow> \<not> differs i e s \<Longrightarrow> close_enough i e tol s"
  by (simp add: close_enough_def differs_def diff_ratio_eq)

lemma check_symbol_verdict:
  assumes "0 \<le> tol"
  shows "check_symbol tol i e (ds, verdict i e tol ss) s =
    ((if differs i e s then ds @ [expected i e tol s] else ds), verdict i e tol (ss @ [s]))"
proof (cases "differs i e s")
  case True
  have wider: "close_enough i e (tol * 10) t" if "close_enough i e tol t" for t
    using that assms by (simp add: close_enough_def)
  then have "list_all (close_enough i e (tol * 10)) ss" if "list_all (close_enough i e tol) ss"
    using that by (auto simp: list_all_iff)
  then show ?thesis
    using True wider [of s]
    by (cases "list_all (close_enough i e tol) ss"; cases "list_all (close_enough i e (tol * 10)) ss")
       (simp_all add: check_symbol_def Let_def verdict_def severity_of_def differs_def expected_def close_enough_def)
next
  case False
  with close_enough_same [OF assms False] close_enough_same [of "tol * 10" i e s] assms
  show ?thesis by (simp add: check_symbol_def Let_def verdict_def differs_def)
qed

lemma check_symbols_verdict:
  assumes "0 \<le> tol"
  shows "foldl (check_symbol tol i e) ([], ''ok'') ss = (map (expected i e tol) (filter (differs i e) ss), verdict i e tol ss)"
proof (induction ss rule: rev_induct)
  case Nil
  then show ?case by (simp add: verdict_def)
next
  case (snoc s ss)
  then show ?case by (simp add: check_symbol_verdict [OF assms])
qed

lemma reconcile_spec:
  assumes "0 \<le> tol"
  shows "reconcile_positions now i e tol =
    \<lparr>rr_timestamp = now, rr_symbols_checked = length (all_symbols i e),
     rr_discrepancies = map (expected i e tol) (filter (differs i e) (all_symbols i e)),
     rr_exchange_balances = e, rr_internal_positions = i, rr_status = verdict i e tol (all_symbols i e),
     rr_error = None\<rparr>"
  by (simp add: reconcile_positions_def Let_def check_symbols_verdict [OF assms])

lemma all_symbols_set: "set (all_symbols i e) = fst ` set i \<union> fst ` set e"
  by (simp add: all_symbols_def)

lemma differs_listed: "differs i e s \<Longrightarrow> s \<in> set (all_symbols i e)"
  by (auto simp: all_symbols_set differs_def dget_def split: option.splits dest: map_of_SomeD)
     (force dest: map_of_SomeD)+

text \<open>
  C25. A report is complete and its status is the worst severity: it lists the symbols whose two
  quantities differ, each once, in alphabetical order, with both quantities; the status is \<open>ok\<close> when
  every deviation is within the tolerance, \<open>warning\<close> when every one is within ten times the
  tolerance, \<open>critical\<close> otherwise.
\<close>

theorem reconciliation_complete:
  assumes "0 \<le> tol"
  shows "(case reconcile_positions now i e tol of r \<Rightarrow>
     (s \<in> set (map pd_symbol (rr_discrepancies r)) \<longleftrightarrow> differs i e s) \<and>
     sorted (map pd_symbol (rr_discrepancies r)) \<and> distinct (map pd_symbol (rr_discrepancies r)) \<and>
     list_all (\<lambda>d. d = expected i e tol (pd_symbol d)) (rr_discrepancies r) \<and>
     rr_status r = verdict i e tol (all_symbols i e))"
proof -
  have map: "map pd_symbol (map (expected i e tol) ss) = ss" for ss
    by (simp add: expected_def Let_def o_def)
  have "list_all (\<lambda>d. d = expected i e tol (pd_symbol d)) (map (expected i e tol) ss)" for ss
    by (simp add: list_all_iff expected_def Let_def)
  moreover have "sorted (filter P (all_symbols i e))" "distinct (filter P (all_symbols i e))" for P
    unfolding all_symbols_def by (simp_all add: sorted_filter [of "\<lambda>x. x", simplified])
  ultimately show ?thesis
    using differs_listed [of i e s] by (auto simp: reconcile_spec [OF assms] map simp del: map_map)
qed

theorem reconciliation_complete_witness:
  "rr_status (reconcile_positions 0 [(''BTCUSD'', 1), (''ETHUSD'', 2)] [(''BTCUSD'', 1), (''ETHUSD'', 1)] (1 / 100)) =
     verdict [(''BTCUSD'', 1), (''ETHUSD'', 2)] [(''BTCUSD'', 1), (''ETHUSD'', 1)] (1 / 100) [''BTCUSD'', ''ETHUSD''] \<and>
   verdict [(''BTCUSD'', 1), (''ETHUSD'', 2)] [(''BTCUSD'', 1), (''ETHUSD'', 1)] (1 / 100) [''BTCUSD'', ''ETHUSD''] = ''critical''"
proof -
  have "all_symbols [(''BTCUSD'', 1), (''ETHUSD'', 2)] [(''BTCUSD'', 1), (''ETHUSD'', 1)] = [''BTCUSD'', ''ETHUSD'']"
    by code_simp
  moreover have "verdict [(''BTCUSD'', 1), (''ETHUSD'', 2)] [(''BTCUSD'', 1), (''ETHUSD'', 1)] (1 / 100) [''BTCUSD'', ''ETHUSD''] = ''critical''"
    by (simp add: verdict_def close_enough_def diff_ratio_def dget_def)
  ultimately show ?thesis
    using reconciliation_complete [where tol = "1 / 100" and now = 0 and s = "''BTCUSD''"
        and i = "[(''BTCUSD'', 1), (''ETHUSD'', 2)]" and e = "[(''BTCUSD'', 1), (''ETHUSD'', 1)]"]
    by simp
qed

text \<open>
  A failed request to the exchange is reported as an empty account: every position worth checking
  is then a critical discrepancy, and the report's \<open>error\<close> field stays empty.
\<close>

theorem failed_fetch_is_critical:
  assumes "map_of positions s = Some q" and "1 / 10000 \<le> \<bar>q\<bar>" and "0 \<le> tol" and "tol < 1 / 10"
  shows "(case reconcile_positions now positions (fetch_exchange_balances (Inl err)) tol of r \<Rightarrow>
    rr_status r = ''critical'' \<and> rr_error r = None)"
proof -
  have "differs positions [] s" "diff_ratio q 0 = 1"
    using assms(1,2) diff_ratio_zero by (auto simp: differs_def dget_def)
  then have "s \<in> set (all_symbols positions [])" "\<not> close_enough positions [] (tol * 10) s" "\<not> close_enough positions [] tol s"
    using assms(1,3,4) by (auto simp: close_enough_def dget_def dest: differs_listed)
  then show ?thesis
    by (auto simp: reconcile_spec [OF assms(3)] fetch_exchange_balances_def verdict_def list_all_iff)
qed

theorem failed_fetch_is_critical_witness:
  "(case reconcile_positions 0 [(''BTCUSD'', 1)] (fetch_exchange_balances (Inl TypeError)) (1 / 100) of r \<Rightarrow>
    rr_status r = ''critical'' \<and> rr_error r = None)"
  by (rule failed_fetch_is_critical [where s = "''BTCUSD''" and q = 1]) simp_all

end
