(* ===== verification/Coinbase_Client.thy ===== *)
theory Coinbase_Client
  imports Py_Strings Rate_Limiter
begin

text \<open>
  \<open>lib/quant_core/coinbase_rest.py\<close>: the authenticated REST client with its rate limiter and retry
  policy. httpx is outside the repository: the reply to the \<open>k\<close>-th attempt of a request is
  \<open>ce_reply env k\<close>, and the requests handed to it are recorded in \<open>cc_calls\<close>, the pauses in
  \<open>cc_sleeps\<close>. The clock readings of the \<open>k\<close>-th attempt are \<open>ce_clock env k\<close>; the text that
  \<open>json.dumps\<close> gives, the HMAC and a fresh UUID are parts of the environment too.
\<close>

section \<open>The client\<close>

datatype http_reply =
    Response (status_code: int) (body_doc: stored) (json_content: bool)
  | HTTPError string

record client_env =
  ce_dumps :: "json \<Rightarrow> string"
  ce_hmac :: "string \<Rightarrow> string \<Rightarrow> string"
  ce_time :: "nat \<Rightarrow> nat"
  ce_clock :: "nat \<Rightarrow> nat \<Rightarrow> real"
  ce_reply :: "nat \<Rightarrow> http_reply"
  ce_uuid :: string

record http_call =
  hc_method :: string
  hc_url :: string
  hc_headers :: "(string, string) dict"
  hc_content :: string

datatype client_error = CoinbaseAPIError int "json option" | Raised py_error

record rest_client =
  cc_api_key :: string
  cc_api_secret :: string
  cc_base_url :: string
  cc_limiter :: limiter
  cc_retry :: retry_policy
  cc_calls :: "http_call list"
  cc_sleeps :: "real list"

definition rstrip_slash :: "string \<Rightarrow> string" where
  "rstrip_slash s = rev (dropWhile (\<lambda>c. c = CHR ''/'') (rev s))"

definition base_url :: string where "base_url = ''https://api.coinbase.com''"

definition client_init :: "string \<Rightarrow> string \<Rightarrow> string \<Rightarrow> real \<Rightarrow> real \<Rightarrow> string + rest_client" where
  \<comment> \<open>\<open>Inl\<close>: \<open>CoinbaseAuthError\<close>\<close>
  "client_init api_key api_secret url rate_limit now =
     (if api_key = '''' \<or> api_secret = '''' then Inl ''Coinbase API key and secret are required''
      else Inr \<lparr>cc_api_key = api_key, cc_api_secret = api_secret, cc_base_url = rstrip_slash url,
        cc_limiter = limiter_init rate_limit None now,
        cc_retry = retry_default\<lparr>rp_max_retries := 3, rp_base_delay := 1 / 2\<rparr>,
        cc_calls = [], cc_sleeps = []\<rparr>)"

definition client_from_env :: "(string, string) dict \<Rightarrow> real \<Rightarrow> string + rest_client" where
  "client_from_env env now =
     (let api_key = dget env ''COINBASE_API_KEY'' ''''; api_secret = dget env ''COINBASE_API_SECRET'' '''' in
      if api_key = '''' \<or> api_secret = '''' then Inl ''COINBASE_API_KEY and COINBASE_API_SECRET environment variables are required''
      else client_init api_key api_secret base_url 10 now)"

definition sign :: "client_env \<Rightarrow> string \<Rightarrow> string \<Rightarrow> string \<Rightarrow> string \<Rightarrow> rest_client \<Rightarrow> string" where
  "sign env timestamp http_method path body c =
     ce_hmac env (cc_api_secret c) (timestamp @ upper http_method @ path @ body)"

definition headers :: "client_env \<Rightarrow> nat \<Rightarrow> string \<Rightarrow> string \<Rightarrow> string \<Rightarrow> rest_client \<Rightarrow> (string, string) dict" where
  "headers env attempt http_method path body c =
     (let timestamp = show_nat (ce_time env attempt) in
      [(''CB-ACCESS-KEY'', cc_api_key c), (''CB-ACCESS-SIGN'', sign env timestamp http_method path body c),
       (''CB-ACCESS-TIMESTAMP'', timestamp), (''Content-Type'', ''application/json'')])"

definition send :: "client_env \<Rightarrow> nat \<Rightarrow> string \<Rightarrow> string \<Rightarrow> string \<Rightarrow> rest_client \<Rightarrow> rest_client" where
  \<comment> \<open>the call of httpx; GET and DELETE carry no content\<close>
  "send env attempt http_method path body c =
     c\<lparr>cc_calls := cc_calls c @ [\<lparr>hc_method = http_method, hc_url = cc_base_url c @ path,
        hc_headers = headers env attempt http_method path body c,
        hc_content = (if http_method = ''POST'' then body else '''')\<rparr>]\<rparr>"

definition pause :: "nat \<Rightarrow> rest_client \<Rightarrow> rest_client" where
  "pause attempt c = c\<lparr>cc_sleeps := cc_sleeps c @ [delay_for_attempt (cc_retry c) attempt]\<rparr>"

definition failure :: "int \<Rightarrow> stored \<Rightarrow> bool \<Rightarrow> client_error" where
  \<comment> \<open>the exception for a status that is not retried; its \<open>response\<close> is decoded if it is declared as JSON\<close>
  "failure status doc is_json =
     (if is_json then (case loads doc of Inl e \<Rightarrow> Raised e | Inr j \<Rightarrow> CoinbaseAPIError status (Some j))
      else CoinbaseAPIError status None)"

definition decode :: "stored \<Rightarrow> client_error + json" where
  \<comment> \<open>\<open>response.json()\<close> of a successful reply\<close>
  "decode doc = (case loads doc of Inl e \<Rightarrow> Inl (Raised e) | Inr j \<Rightarrow> Inr j)"

fun attempts :: "client_env \<Rightarrow> string \<Rightarrow> string \<Rightarrow> string \<Rightarrow> nat list \<Rightarrow> rest_client \<Rightarrow>
    ((client_error + json) \<times> rest_client) option" where
  \<comment> \<open>the loop over the attempts; the rate limiter's answer is not looked at\<close>
  "attempts env http_method path body [] c = Some (Inl (CoinbaseAPIError 0 None), c)"
| "attempts env http_method path body (k # ks) c =
     (case acquire 2 (ce_clock env k) 30 (cc_limiter c) of
        None \<Rightarrow> None
      | Some (Inl e) \<Rightarrow> Some (Inl (Raised e), c)
      | Some (Inr (_, l)) \<Rightarrow>
          let c1 = c\<lparr>cc_limiter := l\<rparr> in
          if http_method \<notin> {''GET'', ''POST'', ''DELETE''}
          then Some (Inl (Raised (ValueError ''Unsupported method'')), c1)
          else let c2 = send env k http_method path body c1 in
            (case ce_reply env k of
               Response status doc is_json \<Rightarrow>
                 if status = 200 then Some (decode doc, c2)
                 else if should_retry (cc_retry c2) k (Some status)
                 then attempts env http_method path body ks (pause k c2)
                 else Some (Inl (failure status doc is_json), c2)
             | HTTPError _ \<Rightarrow>
                 if should_retry (cc_retry c2) k None
                 then attempts env http_method path body ks (pause k c2)
                 else Some (Inl (CoinbaseAPIError 0 None), c2)))"

definition request :: "client_env \<Rightarrow> string \<Rightarrow> string \<Rightarrow> json option \<Rightarrow> rest_client \<Rightarrow>
    ((client_error + json) \<times> rest_client) option" where
  \<comment> \<open>\<open>_request\<close>; an empty body counts as none\<close>
  "request env http_method path body c =
     (let body_str = (case body of None \<Rightarrow> '''' | Some b \<Rightarrow> if b = JObj [] then '''' else ce_dumps env b) in
      attempts env http_method path body_str [0..<Suc (rp_max_retries (cc_retry c))] c)"

section \<open>The public methods\<close>

definition get_accounts :: "client_env \<Rightarrow> rest_client \<Rightarrow> ((client_error + json) \<times> rest_client) option" where
  "get_accounts env = request env ''GET'' ''/api/v3/brokerage/accounts'' None"

definition get_account :: "client_env \<Rightarrow> string \<Rightarrow> rest_client \<Rightarrow> ((client_error + json) \<times> rest_client) option" where
  "get_account env account_id = request env ''GET'' (''/api/v3/brokerage/accounts/'' @ account_id) None"

definition dashed :: "string \<Rightarrow> string" where
  \<comment> \<open>\<open>BTCUSD\<close> to \<open>BTC-USD\<close>\<close>
  "dashed symbol =
     (if CHR ''-'' \<in> set symbol then symbol
      else take (length symbol - 3) symbol @ ''-'' @ last_n 3 symbol)"

definition order_body :: "string \<Rightarrow> string \<Rightarrow> string \<Rightarrow> string \<Rightarrow> string \<Rightarrow> string option \<Rightarrow> py_error + json" where
  "order_body client_order_id symbol side sz order_type limit_price =
     (let body = [(''client_order_id'', JStr client_order_id), (''product_id'', JStr (dashed symbol)),
            (''side'', JStr (upper side))] in
      if order_type = ''market''
      then Inr (JObj (body @ [(''order_configuration'', JObj [(''market_market_ioc'', JObj [(''base_size'', JStr sz)])])]))
      else if order_type = ''limit''
      then (case limit_price of
          None \<Rightarrow> Inl (ValueError ''limit_price required for limit orders'')
        | Some lp \<Rightarrow> if lp = '''' then Inl (ValueError ''limit_price required for limit orders'')
            else Inr (JObj (body @ [(''order_configuration'',
              JObj [(''limit_limit_gtc'', JObj [(''base_size'', JStr sz), (''limit_price'', JStr lp)])])])))
      else Inr (JObj body))"

definition place_order :: "client_env \<Rightarrow> string \<Rightarrow> string \<Rightarrow> string \<Rightarrow> string \<Rightarrow> string option \<Rightarrow> string option \<Rightarrow>
    rest_client \<Rightarrow> ((client_error + json) \<times> rest_client) option" where
  "place_order env symbol side sz order_type limit_price client_order_id c =
     (let oid = (case client_order_id of None \<Rightarrow> ce_uuid env | Some i \<Rightarrow> if i = '''' then ce_uuid env else i) in
      case order_body oid symbol side sz order_type limit_price of
        Inl e \<Rightarrow> Some (Inl (Raised e), c)
      | Inr body \<Rightarrow> request env ''POST'' ''/api/v3/brokerage/orders'' (Some body) c)"

definition cancel_order :: "client_env \<Rightarrow> string \<Rightarrow> rest_client \<Rightarrow> ((client_error + json) \<times> rest_client) option" where
  "cancel_order env order_id =
     request env ''POST'' ''/api/v3/brokerage/orders/batch_cancel'' (Some (JObj [(''order_ids'', JList [JStr order_id])]))"

definition get_exchange_order :: "client_env \<Rightarrow> string \<Rightarrow> rest_client \<Rightarrow> ((client_error + json) \<times> rest_client) option" where
  "get_exchange_order env order_id = request env ''GET'' (''/api/v3/brokerage/orders/historical/'' @ order_id) None"

definition list_orders_path :: "string option \<Rightarrow> string option \<Rightarrow> string" where
  "list_orders_path product_id status =
     (let opt = (\<lambda>name x. case x of None \<Rightarrow> [] | Some v \<Rightarrow> if v = '''' then [] else [name @ v]);
          params = opt ''product_id='' product_id @ opt ''order_status='' status;
          path = ''/api/v3/brokerage/orders/historical/batch'' in
      if params \<noteq> [] then path @ ''?'' @ join ''&'' params else path)"

definition list_orders :: "client_env \<Rightarrow> string option \<Rightarrow> string option \<Rightarrow> rest_client \<Rightarrow>
    ((client_error + json) \<times> rest_client) option" where
  "list_orders env product_id status = request env ''GET'' (list_orders_path product_id status) None"

definition get_product :: "client_env \<Rightarrow> string \<Rightarrow> rest_client \<Rightarrow> ((client_error + json) \<times> rest_client) option" where
  "get_product env product_id = request env ''GET'' (''/api/v3/brokerage/products/'' @ product_id) None"

section \<open>The clock across the attempts\<close>

text \<open>
  The readings of one attempt never decrease and a pause lasts at least as long as asked (the
  clock of \<open>acquire\<close>), and an attempt starts after the one before it.
\<close>

definition clocks_ok :: "client_env \<Rightarrow> real \<Rightarrow> bool" where
  "clocks_ok env rate \<longleftrightarrow>
     (\<forall>k i. ce_clock env k i \<le> ce_clock env k (i + 1)) \<and> (\<forall>k i. ce_clock env k i \<le> ce_clock env (Suc k) 0) \<and>
     (\<forall>k i. ce_clock env k (2 * i + 3) \<ge>
        ce_clock env k (2 * i + 2) + min (1 / rate) (ce_clock env k 0 + 30 - ce_clock env k (2 * i + 2)))"

definition ready_at :: "client_env \<Rightarrow> real \<Rightarrow> nat \<Rightarrow> limiter \<Rightarrow> bool" where
  "ready_at env rate k l \<longleftrightarrow> limiter_inv l \<and> rl_rate l = rate \<and> rl_last_refill l \<le> ce_clock env k 0"

lemma acquire_loop_limiter:
  assumes "acquire_loop fuel clk i deadline l = Some (Inr (ok, l'))" and "limiter_inv l"
    and "rl_last_refill l \<le> clk i" and mono: "\<And>j. clk j \<le> clk (j + 1)"
  shows "limiter_inv l' \<and> rl_rate l' = rl_rate l \<and> (\<exists>j. rl_last_refill l' = clk j)"
  using assms(1-3)
proof (induction fuel arbitrary: i l)
  case (Suc fuel)
  obtain ok1 l1 where t: "try_take (clk i) l = (ok1, l1)" by fastforce
  have l1: "limiter_inv l1" "rl_rate l1 = rl_rate l" "rl_last_refill l1 = clk i"
    using try_take_inv [OF Suc.prems(2,3)] try_take_fields [of "clk i" l] t by auto
  show ?case
  proof (cases "ok1 \<or> rl_rate l1 = 0 \<or> min (1 / rl_rate l1) (deadline - clk (i + 1)) \<le> 0")
    case True
    then show ?thesis using Suc.prems(1) t l1 by (auto split: bool.splits if_splits)
  next
    case False
    let ?l1 = "l1\<lparr>rl_total_waits := rl_total_waits l1 + 1\<rparr>"
    have "acquire_loop fuel clk (i + 2) deadline ?l1 = Some (Inr (ok, l'))"
      using False Suc.prems(1) t by simp
    moreover have "limiter_inv ?l1" using l1 by (simp add: limiter_inv_def)
    moreover have "rl_last_refill ?l1 \<le> clk (i + 2)"
      using mono [of i] mono [of "i + 1"] l1(3) by simp
    ultimately show ?thesis using Suc.IH [of "i + 2" ?l1] l1 by simp
  qed
qed simp

lemma acquire_ready:
  assumes clocks: "clocks_ok env rate" and ready: "ready_at env rate k l"
  obtains ok l' where "acquire 2 (ce_clock env k) 30 l = Some (Inr (ok, l'))" "ready_at env rate (Suc k) l'"
proof -
  have mono: "ce_clock env k j \<le> ce_clock env k (j + 1)" for j using clocks by (simp add: clocks_ok_def)
  have "clock_ok (ce_clock env k) 30 l" using clocks ready by (simp add: clock_ok_def clocks_ok_def ready_at_def)
  moreover have "limiter_inv l" using ready by (simp add: ready_at_def)
  ultimately obtain ok l' where acq: "acquire 2 (ce_clock env k) 30 l = Some (Inr (ok, l'))"
    using acquire_within_fuel by blast
  have "rl_last_refill l \<le> ce_clock env k 1" using ready mono [of 0] by (simp add: ready_at_def)
  then have "limiter_inv l' \<and> rl_rate l' = rl_rate l \<and> (\<exists>j. rl_last_refill l' = ce_clock env k j)"
    using acquire_loop_limiter [OF acq [unfolded acquire_def] \<open>limiter_inv l\<close>] mono by simp
  then have "ready_at env rate (Suc k) l'"
    using clocks ready by (auto simp: ready_at_def clocks_ok_def)
  with acq show ?thesis by (rule that)
qed

section \<open>What a request does\<close>

definition settled :: "client_env \<Rightarrow> retry_policy \<Rightarrow> nat \<Rightarrow> bool" where
  \<comment> \<open>the reply to attempt \<open>k\<close> ends the request\<close>
  "settled env p k =
     (case ce_reply env k of Response s _ _ \<Rightarrow> s = 200 \<or> \<not> should_retry p k (Some s) | HTTPError _ \<Rightarrow> \<not> should_retry p k None)"

definition outcome :: "http_reply \<Rightarrow> client_error + json" where
  "outcome r = (case r of Response s doc is_json \<Rightarrow> if s = 200 then decode doc else Inl (failure s doc is_json)
     | HTTPError _ \<Rightarrow> Inl (CoinbaseAPIError 0 None))"

definition call_of :: "client_env \<Rightarrow> string \<Rightarrow> string \<Rightarrow> string \<Rightarrow> rest_client \<Rightarrow> nat \<Rightarrow> http_call" where
  "call_of env http_method path body c k =
     \<lparr>hc_method = http_method, hc_url = cc_base_url c @ path, hc_headers = headers env k http_method path body c,
      hc_content = (if http_method = ''POST'' then body else '''')\<rparr>"

definition methods :: "string set" where "methods = {''GET'', ''POST'', ''DELETE''}"

lemma call_of_fields [simp]:
  "call_of env m p b (c\<lparr>cc_limiter := l\<rparr>) k = call_of env m p b c k"
  "call_of env m p b (c\<lparr>cc_calls := cs\<rparr>) k = call_of env m p b c k"
  "call_of env m p b (c\<lparr>cc_sleeps := ss\<rparr>) k = call_of env m p b c k"
  by (simp_all add: call_of_def headers_def sign_def Let_def)

lemma send_calls: "send env k m p b c = c\<lparr>cc_calls := cc_calls c @ [call_of env m p b c k]\<rparr>"
  by (simp add: send_def call_of_def)

lemma settled_last: "settled env p (rp_max_retries p)"
  by (simp add: settled_def should_retry_def split: http_reply.split)

lemma attempt_step:
  assumes "acquire 2 (ce_clock env k) 30 (cc_limiter c) = Some (Inr (ok, l))" and "m \<in> methods"
  shows "attempts env m p b (k # ks) c =
    (let c' = c\<lparr>cc_limiter := l, cc_calls := cc_calls c @ [call_of env m p b c k]\<rparr> in
     if settled env (cc_retry c) k then Some (outcome (ce_reply env k), c')
     else attempts env m p b ks (pause k c'))"
  using assms
  by (auto simp: Let_def send_calls settled_def outcome_def methods_def split: http_reply.split)

lemma attempts_spec:
  assumes "clocks_ok env rate" and "m \<in> methods" and "k \<le> rp_max_retries (cc_retry c)"
    and "ready_at env rate k (cc_limiter c)"
  obtains n l where "k \<le> n" "n \<le> rp_max_retries (cc_retry c)" "settled env (cc_retry c) n"
    "\<forall>i. k \<le> i \<and> i < n \<longrightarrow> \<not> settled env (cc_retry c) i"
    "attempts env m p b [k..<Suc (rp_max_retries (cc_retry c))] c = Some (outcome (ce_reply env n),
       c\<lparr>cc_limiter := l, cc_calls := cc_calls c @ map (call_of env m p b c) [k..<Suc n],
         cc_sleeps := cc_sleeps c @ map (delay_for_attempt (cc_retry c)) [k..<n]\<rparr>)"
  using assms(3,4)
proof (induction "rp_max_retries (cc_retry c) - k" arbitrary: k c thesis)
  case hyp: (0 k c)
  then have k: "k = rp_max_retries (cc_retry c)" by simp
  obtain ok l where acq: "acquire 2 (ce_clock env k) 30 (cc_limiter c) = Some (Inr (ok, l))"
    using acquire_ready [OF assms(1) hyp(4)] by blast
  show ?case
    by (rule hyp(2) [of k l]) (use k settled_last [of env "cc_retry c"] attempt_step [OF acq assms(2)] in
        \<open>auto simp: Let_def simp del: attempts.simps\<close>)
next
  case hyp: (Suc d k c)
  then have k: "k < rp_max_retries (cc_retry c)" by simp
  then have upt: "[k..<Suc (rp_max_retries (cc_retry c))] = k # [Suc k..<Suc (rp_max_retries (cc_retry c))]"
    by (simp add: upt_conv_Cons del: upt_Suc)
  obtain ok l where acq: "acquire 2 (ce_clock env k) 30 (cc_limiter c) = Some (Inr (ok, l))"
    and ready: "ready_at env rate (Suc k) l"
    using acquire_ready [OF assms(1) hyp(5)] by blast
  let ?c = "pause k (c\<lparr>cc_limiter := l, cc_calls := cc_calls c @ [call_of env m p b c k]\<rparr>)"
  note step = attempt_step [OF acq assms(2), of p b "[Suc k..<Suc (rp_max_retries (cc_retry c))]", folded upt]
  show ?case
  proof (cases "settled env (cc_retry c) k")
    case True
    have "[k..<Suc k] = [k]" by simp
    with True show ?thesis using k step by (intro hyp(3) [of k l]) (auto simp: Let_def simp del: upt_Suc)
  next
    case False
    have retry: "cc_retry ?c = cc_retry c" by (simp add: pause_def)
    obtain n l' where n: "Suc k \<le> n" "n \<le> rp_max_retries (cc_retry c)" "settled env (cc_retry c) n"
      "\<forall>i. Suc k \<le> i \<and> i < n \<longrightarrow> \<not> settled env (cc_retry c) i"
      and run: "attempts env m p b [Suc k..<Suc (rp_max_retries (cc_retry c))] ?c = Some (outcome (ce_reply env n),
         ?c\<lparr>cc_limiter := l', cc_calls := cc_calls ?c @ map (call_of env m p b ?c) [Suc k..<Suc n],
           cc_sleeps := cc_sleeps ?c @ map (delay_for_attempt (cc_retry c)) [Suc k..<n]\<rparr>)"
    proof (rule hyp(1) [of ?c "Suc k"])
      show "d = rp_max_retries (cc_retry ?c) - Suc k" "Suc k \<le> rp_max_retries (cc_retry ?c)"
        using hyp(2) k by (simp_all add: retry)
      show "ready_at env rate (Suc k) (cc_limiter ?c)" using ready by (simp add: pause_def)
    qed (simp add: retry del: upt_Suc)
    have "[k..<Suc n] = k # [Suc k..<Suc n]" "[k..<n] = k # [Suc k..<n]"
      using n(1) by (simp_all add: upt_conv_Cons del: upt_Suc)
    moreover have "\<forall>i. k \<le> i \<and> i < n \<longrightarrow> \<not> settled env (cc_retry c) i"
      using n(4) False by (metis le_eq_less_or_eq Suc_leI)
    ultimately show ?thesis
      using n step run False by (intro hyp(3) [of n l']) (simp_all add: Let_def pause_def del: upt_Suc)
  qed
qed

lemma request_settles:
  assumes "clocks_ok env rate" and "m \<in> methods" and "ready_at env rate 0 (cc_limiter c)"
  shows "\<exists>n l. n \<le> rp_max_retries (cc_retry c) \<and> settled env (cc_retry c) n \<and>
    list_all (\<lambda>i. \<not> settled env (cc_retry c) i) [0..<n] \<and>
    request env m path body c = Some (outcome (ce_reply env n),
      c\<lparr>cc_limiter := l,
        cc_calls := cc_calls c @ map (call_of env m path
          (case body of None \<Rightarrow> '''' | Some b \<Rightarrow> if b = JObj [] then '''' else ce_dumps env b) c) [0..<Suc n],
        cc_sleeps := cc_sleeps c @ map (delay_for_attempt (cc_retry c)) [0..<n]\<rparr>)"
  unfolding request_def Let_def
  by (rule attempts_spec [OF assms(1,2) le0 assms(3)]) (auto simp: list_all_iff simp del: upt_Suc)

text \<open>
  C22. Placing an order always ends, after at most \<open>max_retries + 1\<close> attempts. Exactly the attempts up to
  the first reply that settles the request were sent, all with the same content, so an order that
  is sent again carries the client order id of the first attempt and the exchange can recognise
  the repetition; the pauses between them grow exponentially, and the result is that of the
  settling reply.
\<close>

theorem place_order_settles:
  assumes "clocks_ok env rate" and "ready_at env rate 0 (cc_limiter c)"
    and "order_body (case client_order_id of None \<Rightarrow> ce_uuid env | Some i \<Rightarrow> if i = '''' then ce_uuid env else i)
           symbol side sz order_type limit_price = Inr body"
  shows "\<exists>n c'. n \<le> rp_max_retries (cc_retry c) \<and>
    place_order env symbol side sz order_type limit_price client_order_id c = Some (outcome (ce_reply env n), c') \<and>
    settled env (cc_retry c) n \<and> list_all (\<lambda>i. \<not> settled env (cc_retry c) i) [0..<n] \<and>
    cc_calls c' = cc_calls c @ map (call_of env ''POST'' ''/api/v3/brokerage/orders'' (ce_dumps env body) c) [0..<Suc n] \<and>
    map hc_content (cc_calls c') = map hc_content (cc_calls c) @ replicate (Suc n) (ce_dumps env body) \<and>
    cc_sleeps c' = cc_sleeps c @ map (delay_for_attempt (cc_retry c)) [0..<n]"
proof -
  have "body \<noteq> JObj []" using assms(3) by (auto simp: order_body_def Let_def split: if_splits option.splits)
  moreover have "map (hc_content \<circ> call_of env ''POST'' p b c) [0..<Suc n] = replicate (Suc n) b" for p b n
    by (rule nth_equalityI) (simp_all add: call_of_def del: upt_Suc replicate_Suc)
  ultimately show ?thesis
    using request_settles [OF assms(1) _ assms(2), of "''POST''" "''/api/v3/brokerage/orders''" "Some body"] assms(3)
    by (auto simp: place_order_def Let_def methods_def simp del: upt_Suc replicate_Suc)
qed

text \<open>
  Only 200 counts as success: any other status below 400 makes the client send the request again.
\<close>

theorem other_success_is_retried:
  assumes "k < rp_max_retries p" and "ce_reply env k = Response s doc is_json" and "200 < s" and "s < 400"
  shows "\<not> settled env p k"
  using assms by (simp add: settled_def should_retry_def)

definition sample_client_env :: "http_reply \<Rightarrow> client_env" where
  "sample_client_env r = \<lparr>ce_dumps = (\<lambda>_. ''{}''), ce_hmac = (\<lambda>k t. ''h''), ce_time = (\<lambda>k. k),
     ce_clock = (\<lambda>k i. of_nat (1000 * k + min i 1000)),
     ce_reply = (\<lambda>k. if k = 0 then Response 503 (Unparsable ''busy'') False else r), ce_uuid = ''u''\<rparr>"

definition sample_client :: rest_client where
  "sample_client = \<lparr>cc_api_key = ''k'', cc_api_secret = ''s'', cc_base_url = base_url,
     cc_limiter = limiter_init 10 None 0, cc_retry = retry_default, cc_calls = [], cc_sleeps = []\<rparr>"

lemma sample_clocks: "clocks_ok (sample_client_env r) 10" "ready_at (sample_client_env r) 10 0 (cc_limiter sample_client)"
  by (auto simp: clocks_ok_def ready_at_def sample_client_env_def sample_client_def limiter_init_def limiter_inv_def
      Let_def py_int_def min_def)

theorem place_order_settles_witness:
  "\<exists>n c'. n \<le> 3 \<and> place_order (sample_client_env (Response 200 (Document (JObj [])) True)) ''BTCUSD'' ''buy'' ''0.5''
      ''market'' None None sample_client = Some (outcome (ce_reply (sample_client_env (Response 200 (Document (JObj [])) True)) n), c')"
proof -
  have "order_body ''u'' ''BTCUSD'' ''buy'' ''0.5'' ''market'' None =
    Inr (JObj [(''client_order_id'', JStr ''u''), (''product_id'', JStr ''BTC-USD''), (''side'', JStr ''BUY''),
      (''order_configuration'', JObj [(''market_market_ioc'', JObj [(''base_size'', JStr ''0.5'')])])])"
    by code_simp
  then have "order_body (case None of None \<Rightarrow> ce_uuid (sample_client_env r) | Some i \<Rightarrow> if i = '''' then ce_uuid (sample_client_env r) else i)
      ''BTCUSD'' ''buy'' ''0.5'' ''market'' None =
    Inr (JObj [(''client_order_id'', JStr ''u''), (''product_id'', JStr ''BTC-USD''), (''side'', JStr ''BUY''),
      (''order_configuration'', JObj [(''market_market_ioc'', JObj [(''base_size'', JStr ''0.5'')])])])" for r
    by (simp add: sample_client_env_def)
  from place_order_settles [OF sample_clocks this, of "Response 200 (Document (JObj [])) True"]
  show ?thesis by (auto simp: sample_client_def retry_default_def)
qed

end
