(* ===== verification/Market_Data.thy ===== *)
theory Market_Data
  imports Py_Strings Models Kafka_Utils Metrics_Registry Config
begin

text \<open>
  \<open>services/market-data\<close>: the constructors of the canonical events from exchange messages
  (\<open>from_binance\<close>, \<open>from_coinbase\<close> of \<open>lib/quant_core/models.py\<close>), the normalizer, the publisher, the
  message handler of \<open>main.py\<close>, and the connection loop of \<open>exchange_ws.py\<close>. A raw message is the
  dictionary its JSON text decodes to. \<open>datetime.fromisoformat\<close> and the conversion to
  milliseconds are the argument \<open>ptime\<close> (\<open>None\<close>: it raises \<open>ValueError\<close>); the clock is \<open>now\<close>.
\<close>

section \<open>Events from exchange messages\<close>

type_synonym raw_message = "(string, json) dict"

fun as_float_pair :: "json \<Rightarrow> py_error + (real \<times> real)" where
  \<comment> \<open>\<open>[float(p), float(q)] for p, q in ...\<close>\<close>
  "as_float_pair (JList [a, b]) = ebind (as_float a) (\<lambda>p. ebind (as_float b) (\<lambda>q. Inr (p, q)))"
| "as_float_pair (JList _) = Inl (ValueError ''unpack'')"
| "as_float_pair _ = Inl TypeError"

definition trade_from_binance :: "raw_message \<Rightarrow> int \<Rightarrow> py_error + trade" where
  "trade_from_binance msg ingested_at =
     ebind (ebind (subscript msg ''s'') as_str) (\<lambda>s.
     ebind (ebind (subscript msg ''t'') as_int) (\<lambda>t.
     ebind (ebind (subscript msg ''p'') as_float) (\<lambda>p.
     ebind (ebind (subscript msg ''q'') as_float) (\<lambda>q.
     ebind (ebind (subscript msg ''T'') as_int) (\<lambda>te.
     ebind (ebind (subscript msg ''m'') as_bool) (\<lambda>m.
     Inr (trade_default\<lparr>tr_exchange := ''binance'', tr_symbol := upper s, tr_trade_id := t, tr_price := p,
       tr_quantity := q, tr_timestamp_exchange := te, tr_timestamp_ingested := ingested_at,
       tr_is_buyer_maker := m\<rparr>)))))))"

definition iso_ms :: "(string \<Rightarrow> int option) \<Rightarrow> raw_message \<Rightarrow> int \<Rightarrow> int" where
  \<comment> \<open>the time of a Coinbase message; text that does not parse, or no text, gives the time of ingestion\<close>
  "iso_ms ptime msg ingested_at =
     (case dget msg ''time'' (JStr '''') of
        JStr time_str \<Rightarrow> (case ptime time_str of None \<Rightarrow> ingested_at | Some ms \<Rightarrow> ms)
      | _ \<Rightarrow> ingested_at)"

definition trade_from_coinbase :: "(string \<Rightarrow> int option) \<Rightarrow> raw_message \<Rightarrow> int \<Rightarrow> py_error + trade" where
  "trade_from_coinbase ptime msg ingested_at =
     ebind (as_str (dget msg ''side'' (JStr ''''))) (\<lambda>side.
     ebind (as_str (dget msg ''product_id'' (JStr ''''))) (\<lambda>product_id.
     ebind (as_int (dget msg ''trade_id'' (JInt 0))) (\<lambda>tid.
     ebind (as_float (dget msg ''price'' (JInt 0))) (\<lambda>p.
     ebind (as_float (dget msg ''size'' (JInt 0))) (\<lambda>q.
     Inr (trade_default\<lparr>tr_exchange := ''coinbase'', tr_symbol := without CHR ''-'' product_id, tr_trade_id := tid,
       tr_price := p, tr_quantity := q, tr_timestamp_exchange := iso_ms ptime msg ingested_at,
       tr_timestamp_ingested := ingested_at, tr_is_buyer_maker := (lower side = ''sell'')\<rparr>))))))"

definition depth_from_binance :: "raw_message \<Rightarrow> int \<Rightarrow> py_error + depth_update" where
  "depth_from_binance msg ingested_at =
     ebind (as_str (dget msg ''s'' (JStr ''''))) (\<lambda>s.
     ebind (as_int (dget msg ''U'' (JInt 0))) (\<lambda>fi.
     ebind (as_int (dget msg ''u'' (JInt 0))) (\<lambda>la.
     ebind (as_list as_float_pair (dget msg ''b'' (JList []))) (\<lambda>bids.
     ebind (as_list as_float_pair (dget msg ''a'' (JList []))) (\<lambda>asks.
     ebind (as_int (dget msg ''E'' (JInt 0))) (\<lambda>te.
     Inr (depth_default\<lparr>dp_exchange := ''binance'', dp_symbol := upper s, dp_first_update_id := fi,
       dp_final_update_id := la, dp_bids := bids, dp_asks := asks, dp_timestamp_exchange := te,
       dp_timestamp_ingested := ingested_at\<rparr>)))))))"

fun change_of :: "json \<Rightarrow> py_error + (json \<times> real \<times> real)" where
  \<comment> \<open>\<open>change[0], float(change[1]), float(change[2])\<close>\<close>
  "change_of (JList (side # price # sz # _)) = ebind (as_float price) (\<lambda>p. ebind (as_float sz) (\<lambda>q. Inr (side, p, q)))"
| "change_of (JList _) = Inl IndexError"
| "change_of _ = Inl TypeError"

definition add_change :: "(real \<times> real) list \<times> (real \<times> real) list \<Rightarrow> json \<times> real \<times> real \<Rightarrow>
    (real \<times> real) list \<times> (real \<times> real) list" where
  "add_change = (\<lambda>(bids, asks) (side, price, sz).
     if side = JStr ''buy'' then (bids @ [(price, sz)], asks) else (bids, asks @ [(price, sz)]))"

definition depth_from_coinbase :: "(string \<Rightarrow> int option) \<Rightarrow> raw_message \<Rightarrow> int \<Rightarrow> py_error + depth_update" where
  "depth_from_coinbase ptime msg ingested_at =
     ebind (as_str (dget msg ''product_id'' (JStr ''''))) (\<lambda>product_id.
     ebind (as_list change_of (dget msg ''changes'' (JList []))) (\<lambda>changes.
     let (bids, asks) = foldl add_change ([], []) changes in
     Inr (depth_default\<lparr>dp_exchange := ''coinbase'', dp_symbol := without CHR ''-'' product_id,
       dp_first_update_id := 0, dp_final_update_id := 0, dp_bids := bids, dp_asks := asks,
       dp_timestamp_exchange := iso_ms ptime msg ingested_at, dp_timestamp_ingested := ingested_at\<rparr>)))"

section \<open>The normalizer\<close>

datatype market_event = Trade_Event trade | Depth_Event depth_update

definition as_event :: "('a \<Rightarrow> 'b) \<Rightarrow> 'e + 'a \<Rightarrow> 'e + 'b option" where
  "as_event f r = (case r of Inl e \<Rightarrow> Inl e | Inr x \<Rightarrow> Inr (Some (f x)))"

definition normalize_message :: "(string \<Rightarrow> int option) \<Rightarrow> int \<Rightarrow> raw_message \<Rightarrow> py_error + market_event option" where
  "normalize_message ptime ingested_at raw =
     (let msg_type = dget raw ''type'' (JStr ''''); event_type = dget raw ''e'' (JStr '''') in
      if msg_type \<in> {JStr ''match'', JStr ''last_match''}
      then as_event Trade_Event (trade_from_coinbase ptime raw ingested_at)
      else if msg_type = JStr ''l2update'' then as_event Depth_Event (depth_from_coinbase ptime raw ingested_at)
      else if event_type = JStr ''trade'' then as_event Trade_Event (trade_from_binance raw ingested_at)
      else if event_type = JStr ''depthUpdate'' then as_event Depth_Event (depth_from_binance raw ingested_at)
      else Inr None)"

section \<open>The publisher and the message handler\<close>

record market_svc =
  md_producer :: qproducer
  md_trade_count :: nat
  md_depth_count :: nat
  md_metrics :: metrics

definition market_init :: "string option \<Rightarrow> market_svc" where
  "market_init backtest_id = \<lparr>md_producer = producer_init backtest_id, md_trade_count = 0, md_depth_count = 0,
     md_metrics = metrics_init ''market-data''\<rparr>"

fun publish_event :: "market_event \<Rightarrow> market_svc \<Rightarrow> market_svc" where
  "publish_event (Trade_Event t) md =
     md\<lparr>md_producer := publish topic_raw_trades (tr_symbol t) (trade_to_json t) (md_producer md),
        md_trade_count := md_trade_count md + 1\<rparr>"
| "publish_event (Depth_Event d) md =
     md\<lparr>md_producer := publish topic_raw_depth (dp_symbol d) (depth_to_json d) (md_producer md),
        md_depth_count := md_depth_count md + 1\<rparr>"

definition type_label :: "raw_message \<Rightarrow> string" where
  \<comment> \<open>\<open>raw.get('type', 'unknown')\<close>; the connection passes on only messages whose type is a text\<close>
  "type_label raw = (case map_of raw ''type'' of Some (JStr s) \<Rightarrow> s | _ \<Rightarrow> ''unknown'')"

definition on_message :: "(string \<Rightarrow> int option) \<Rightarrow> int \<Rightarrow> raw_message \<Rightarrow> market_svc \<Rightarrow> py_error + market_svc" where
  "on_message ptime now raw md =
     (case normalize_message ptime now raw of
        Inl e \<Rightarrow> Inl e
      | Inr None \<Rightarrow> Inr md
      | Inr (Some event) \<Rightarrow>
          let md' = publish_event event md in
          Inr (md'\<lparr>md_metrics := metric_inc ''messages_published'' 1 (Some [(''type'', type_label raw)]) (md_metrics md')\<rparr>))"

definition market_heartbeat :: "int \<Rightarrow> market_svc \<Rightarrow> market_svc" where
  "market_heartbeat now md = md\<lparr>md_producer := publish topic_heartbeat ''market-data''
     (JObj [(''service'', JStr ''market-data''), (''timestamp'', JInt now)]) (md_producer md)\<rparr>"

section \<open>The connection\<close>

definition symbol_map :: "(string, string) dict" where
  "symbol_map = [(''btcusdt'', ''BTC-USD''), (''ethusdt'', ''ETH-USD''), (''solusdt'', ''SOL-USD''),
     (''btcusd'', ''BTC-USD''), (''ethusd'', ''ETH-USD''), (''solusd'', ''SOL-USD'')]"

definition to_coinbase_product_id :: "string \<Rightarrow> py_error + string" where
  "to_coinbase_product_id symbol =
     (let s = strip (lower symbol) in
      case map_of symbol_map s of Some p \<Rightarrow> Inr p
      | None \<Rightarrow> if CHR ''-'' \<in> set symbol then Inr (upper symbol) else Inl (ValueError ''Unknown symbol mapping''))"

fun product_ids :: "string list \<Rightarrow> py_error + string list" where
  "product_ids [] = Inr []"
| "product_ids (s # ss) = ebind (to_coinbase_product_id (lower s)) (\<lambda>p. ebind (product_ids ss) (\<lambda>ps. Inr (p # ps)))"

definition subscribe_message :: "string list \<Rightarrow> json" where
  "subscribe_message ids = JObj [(''type'', JStr ''subscribe''), (''product_ids'', JList (map JStr ids)),
     (''channels'', JList [JStr ''matches'', JStr ''level2_batch''])]"

definition initial_backoff :: real where "initial_backoff = 1"
definition max_backoff :: real where "max_backoff = 60"
definition backoff_multiplier :: real where "backoff_multiplier = 2"

record exchange_ws =
  ws_product_ids :: "string list"
  ws_running :: bool
  ws_backoff :: real
  ws_message_count :: nat
  ws_subscriptions :: "json list"
  ws_sleeps :: "real list"
  ws_service :: market_svc

definition ws_init :: "string list \<Rightarrow> market_svc \<Rightarrow> py_error + exchange_ws" where
  \<comment> \<open>the constructor, and the two assignments at the beginning of \<open>start\<close>\<close>
  "ws_init symbols md = ebind (product_ids symbols) (\<lambda>ids.
     Inr \<lparr>ws_product_ids = ids, ws_running = True, ws_backoff = initial_backoff, ws_message_count = 0,
       ws_subscriptions = [], ws_sleeps = [], ws_service = md\<rparr>)"

definition consume_one :: "(string \<Rightarrow> int option) \<Rightarrow> exchange_ws \<Rightarrow> int \<times> stored \<Rightarrow> exchange_ws" where
  \<comment> \<open>one message of \<open>_consume\<close>: every exception of the body is logged and dropped\<close>
  "consume_one ptime ws = (\<lambda>(now, raw_msg).
     (case ebind (loads raw_msg) as_obj of
        Inl _ \<Rightarrow> ws
      | Inr data \<Rightarrow>
          let msg_type = dget data ''type'' (JStr '''') in
          if msg_type \<in> {JStr ''subscriptions'', JStr ''heartbeat''} then ws
          else if msg_type \<in> {JStr ''match'', JStr ''last_match'', JStr ''l2update''} then
            (case on_message ptime now data (ws_service ws) of
               Inl _ \<Rightarrow> ws
             | Inr md \<Rightarrow> ws\<lparr>ws_service := md, ws_message_count := ws_message_count ws + 1\<rparr>)
          else ws))"

text \<open>
  What happens to the loop of \<open>start\<close>: an attempt to connect that fails, a session that delivers
  messages until the connection ends (in whatever way), or a call of \<open>stop\<close>.
\<close>

datatype ws_event = Refused | Session "(int \<times> stored) list" | Stop_Call

definition reconnect_pause :: "exchange_ws \<Rightarrow> exchange_ws" where
  "reconnect_pause ws = ws\<lparr>ws_sleeps := ws_sleeps ws @ [ws_backoff ws],
     ws_backoff := min (ws_backoff ws * backoff_multiplier) max_backoff\<rparr>"

fun ws_step :: "(string \<Rightarrow> int option) \<Rightarrow> exchange_ws \<Rightarrow> ws_event \<Rightarrow> exchange_ws" where
  "ws_step ptime ws Stop_Call = ws\<lparr>ws_running := False\<rparr>"
| "ws_step ptime ws Refused = (if ws_running ws then reconnect_pause ws else ws)"
| "ws_step ptime ws (Session msgs) =
     (if \<not> ws_running ws then ws
      else reconnect_pause (foldl (consume_one ptime)
        (ws\<lparr>ws_backoff := initial_backoff, ws_subscriptions := ws_subscriptions ws @ [subscribe_message (ws_product_ids ws)]\<rparr>) msgs))"

section \<open>What is published\<close>

definition data_types :: "json set" where
  "data_types = {JStr ''match'', JStr ''last_match'', JStr ''l2update''}"

definition event_of :: "(string \<Rightarrow> int option) \<Rightarrow> int \<times> stored \<Rightarrow> market_event option" where
  \<comment> \<open>the event a message from the connection stands for, if it is a well-formed data message\<close>
  "event_of ptime = (\<lambda>(now, raw_msg).
     (case ebind (loads raw_msg) as_obj of
        Inl _ \<Rightarrow> None
      | Inr data \<Rightarrow>
          if dget data ''type'' (JStr '''') \<in> data_types
          then (case normalize_message ptime now data of Inr ev \<Rightarrow> ev | Inl _ \<Rightarrow> None) else None))"

fun event_record :: "string option \<Rightarrow> market_event \<Rightarrow> kafka_record" where
  "event_record b (Trade_Event t) = \<lparr>kr_topic = topic_raw_trades, kr_value = Document (trade_to_json t),
     kr_key = Some (tr_symbol t), kr_headers = (if msg_headers b [] = [] then None else Some (msg_headers b []))\<rparr>"
| "event_record b (Depth_Event d) = \<lparr>kr_topic = topic_raw_depth, kr_value = Document (depth_to_json d),
     kr_key = Some (dp_symbol d), kr_headers = (if msg_headers b [] = [] then None else Some (msg_headers b []))\<rparr>"

lemma publish_event_sent:
  "qp_sent (md_producer (publish_event ev md)) = qp_sent (md_producer md) @ [event_record (qp_backtest_id (md_producer md)) ev]"
  "qp_backtest_id (md_producer (publish_event ev md)) = qp_backtest_id (md_producer md)"
  by (cases ev; simp add: qp_sent_produce)+

lemma data_message_normalized:
  assumes "dget data ''type'' (JStr '''') \<in> data_types" and "normalize_message ptime now data = Inr r"
  obtains ev where "r = Some ev"
  using assms by (auto simp: normalize_message_def data_types_def Let_def as_event_def split: sum.splits if_splits)

lemma consume_one_effect:
  "ws_service (consume_one ptime ws m) = (case event_of ptime m of None \<Rightarrow> ws_service ws
     | Some ev \<Rightarrow> (publish_event ev (ws_service ws))\<lparr>md_metrics := md_metrics (ws_service (consume_one ptime ws m))\<rparr>) \<and>
   ws_message_count (consume_one ptime ws m) = ws_message_count ws + (if event_of ptime m = None then 0 else 1) \<and>
   ws_running (consume_one ptime ws m) = ws_running ws \<and> ws_backoff (consume_one ptime ws m) = ws_backoff ws \<and>
   ws_sleeps (consume_one ptime ws m) = ws_sleeps ws"
proof -
  obtain now raw_msg where m: "m = (now, raw_msg)" by (cases m)
  show ?thesis
  proof (cases "ebind (loads raw_msg) as_obj")
    case (Inr data)
    show ?thesis
    proof (cases "dget data ''type'' (JStr '''') \<in> data_types \<and> (\<exists>r. normalize_message ptime now data = Inr r)")
      case True
      then obtain ev where "normalize_message ptime now data = Inr (Some ev)"
        using data_message_normalized by metis
      with True Inr m show ?thesis
        by (auto simp: consume_one_def event_of_def on_message_def data_types_def Let_def)
    next
      case False
      then show ?thesis
        using Inr m by (auto simp: consume_one_def event_of_def on_message_def data_types_def Let_def split: sum.splits)
    qed
  qed (simp add: m consume_one_def event_of_def)
qed

lemma consume_run:
  "qp_sent (md_producer (ws_service (foldl (consume_one ptime) ws msgs))) =
     qp_sent (md_producer (ws_service ws)) @
     map (event_record (qp_backtest_id (md_producer (ws_service ws)))) (List.map_filter (event_of ptime) msgs) \<and>
   qp_backtest_id (md_producer (ws_service (foldl (consume_one ptime) ws msgs))) = qp_backtest_id (md_producer (ws_service ws))"
proof (induction msgs arbitrary: ws)
  case (Cons m msgs)
  have "qp_sent (md_producer (ws_service (consume_one ptime ws m))) = qp_sent (md_producer (ws_service ws)) @
      map (event_record (qp_backtest_id (md_producer (ws_service ws)))) (List.map_filter (event_of ptime) [m])"
    "qp_backtest_id (md_producer (ws_service (consume_one ptime ws m))) = qp_backtest_id (md_producer (ws_service ws))"
    by (subst (1) consume_one_effect; simp add: publish_event_sent List.map_filter_simps split: option.split)+
  with Cons.IH [of "consume_one ptime ws m"] show ?case
    by (simp add: List.map_filter_simps split: option.split)
qed (simp add: List.map_filter_simps)

section \<open>Runs of the connection\<close>

fun delivered :: "ws_event list \<Rightarrow> (int \<times> stored) list" where
  \<comment> \<open>the messages that reach the service: those of the sessions before the first \<open>stop\<close>\<close>
  "delivered [] = []"
| "delivered (Stop_Call # es) = []"
| "delivered (Refused # es) = delivered es"
| "delivered (Session msgs # es) = msgs @ delivered es"

lemma reconnect_fields [simp]:
  "ws_service (reconnect_pause ws) = ws_service ws" "ws_running (reconnect_pause ws) = ws_running ws"
  "ws_message_count (reconnect_pause ws) = ws_message_count ws"
  by (simp_all add: reconnect_pause_def)

lemma consume_run_fields [simp]:
  "ws_running (foldl (consume_one ptime) ws msgs) = ws_running ws"
  "ws_backoff (foldl (consume_one ptime) ws msgs) = ws_backoff ws"
  "ws_sleeps (foldl (consume_one ptime) ws msgs) = ws_sleeps ws"
  by (induction msgs arbitrary: ws; simp add: consume_one_effect)+

lemma stopped_run: "\<not> ws_running ws \<Longrightarrow> ws_service (foldl (ws_step ptime) ws es) = ws_service ws"
proof (induction es arbitrary: ws)
  case (Cons e es)
  then show ?case by (cases e) auto
qed simp

lemma ws_run_sent:
  assumes "ws_running ws"
  shows "qp_sent (md_producer (ws_service (foldl (ws_step ptime) ws es))) =
    qp_sent (md_producer (ws_service ws)) @
    map (event_record (qp_backtest_id (md_producer (ws_service ws)))) (List.map_filter (event_of ptime) (delivered es))"
  using assms
proof (induction es arbitrary: ws)
  case (Cons e es)
  show ?case
  proof (cases e)
    case (Session msgs)
    let ?w = "ws\<lparr>ws_backoff := initial_backoff, ws_subscriptions := ws_subscriptions ws @ [subscribe_message (ws_product_ids ws)]\<rparr>"
    show ?thesis
      using Cons consume_run [of ptime ?w msgs] by (simp add: Session List.map_filter_def)
  qed (use Cons in \<open>simp_all add: stopped_run List.map_filter_simps\<close>)
qed (simp add: List.map_filter_simps)

text \<open>
  C20. From the exchange to Kafka, nothing is lost, repeated or reordered: whatever sequence of failed
  connections, sessions and stop calls the service goes through, it has sent exactly one record
  per well-formed data message that was delivered, in the order of delivery, each on the topic
  and under the key of its event. A malformed message costs only itself.
\<close>

theorem market_data_in_order:
  assumes "ws_init symbols (market_init b) = Inr ws"
  shows "qp_sent (md_producer (ws_service (foldl (ws_step ptime) ws es))) =
    map (event_record b) (List.map_filter (event_of ptime) (delivered es))"
proof -
  have "ws_running ws" "ws_service ws = market_init b"
    using assms by (auto simp: ws_init_def ebind_eq_Inr)
  then show ?thesis using ws_run_sent [of ws ptime es] by (simp add: market_init_def producer_init_def)
qed

definition sample_match :: stored where
  "sample_match = Document (JObj [(''type'', JStr ''match''), (''trade_id'', JInt 7), (''product_id'', JStr ''BTC-USD''),
     (''price'', JStr ''42000.50''), (''size'', JStr ''0.001''), (''side'', JStr ''buy'')])"

lemma sample_event:
  "event_of (\<lambda>_. None) (5, sample_match) = Some (Trade_Event \<lparr>tr_type = ''trade'', tr_exchange = ''coinbase'',
     tr_symbol = ''BTCUSD'', tr_trade_id = 7, tr_price = 4200050 / 10 ^ 2, tr_quantity = 1 / 10 ^ 3,
     tr_timestamp_exchange = 5, tr_timestamp_ingested = 5, tr_is_buyer_maker = False\<rparr>)"
  by code_simp

theorem market_data_in_order_witness:
  "case ws_init [''btcusd''] (market_init None) of Inl _ \<Rightarrow> False
   | Inr ws \<Rightarrow> length (qp_sent (md_producer (ws_service
        (foldl (ws_step (\<lambda>_. None)) ws [Refused, Session [(1, Unparsable ''x''), (5, sample_match)], Stop_Call])))) = 1"
proof -
  obtain ws where ws: "ws_init [''btcusd''] (market_init None) = Inr ws"
    by (simp add: ws_init_def to_coinbase_product_id_def symbol_map_def strip_def is_space_def letter_case)
  have "event_of (\<lambda>_. None) (1, Unparsable ''x'') = None" by (simp add: event_of_def)
  then show ?thesis
    using market_data_in_order [OF ws, of "\<lambda>_. None" "[Refused, Session [(1, Unparsable ''x''), (5, sample_match)], Stop_Call]"]
    by (simp add: ws List.map_filter_simps sample_event)
qed

section \<open>Counters and pauses\<close>

definition market_inv :: "exchange_ws \<Rightarrow> bool" where
  "market_inv ws \<longleftrightarrow>
     md_trade_count (ws_service ws) = length (sent_on topic_raw_trades (md_producer (ws_service ws))) \<and>
     md_depth_count (ws_service ws) = length (sent_on topic_raw_depth (md_producer (ws_service ws))) \<and>
     ws_message_count ws = md_trade_count (ws_service ws) + md_depth_count (ws_service ws) \<and>
     initial_backoff \<le> ws_backoff ws \<and> ws_backoff ws \<le> max_backoff \<and>
     list_all (\<lambda>p. initial_backoff \<le> p \<and> p \<le> max_backoff) (ws_sleeps ws)"

lemma consume_one_inv: "market_inv ws \<Longrightarrow> market_inv (consume_one ptime ws m)"
proof -
  assume inv: "market_inv ws"
  note eff = consume_one_effect [of ptime ws m]
  show ?thesis
  proof (cases "event_of ptime m")
    case None
    then show ?thesis using inv eff by (simp add: market_inv_def)
  next
    case (Some ev)
    then have "md_producer (ws_service (consume_one ptime ws m)) = md_producer (publish_event ev (ws_service ws))"
      "md_trade_count (ws_service (consume_one ptime ws m)) = md_trade_count (publish_event ev (ws_service ws))"
      "md_depth_count (ws_service (consume_one ptime ws m)) = md_depth_count (publish_event ev (ws_service ws))"
      using eff by (metis market_svc.select_convs(1-3) market_svc.surjective market_svc.update_convs(4) option.simps(5))+
    with Some inv eff show ?thesis by (cases ev) (simp_all add: market_inv_def)
  qed
qed

lemma reconnect_inv: "market_inv ws \<Longrightarrow> market_inv (reconnect_pause ws)"
  by (auto simp: market_inv_def reconnect_pause_def initial_backoff_def max_backoff_def backoff_multiplier_def)

lemma consume_run_inv: "market_inv ws \<Longrightarrow> market_inv (foldl (consume_one ptime) ws msgs)"
  by (induction msgs arbitrary: ws) (auto intro: consume_one_inv)

lemma market_inv_step: "market_inv ws \<Longrightarrow> market_inv (ws_step ptime ws e)"
proof (cases e)
  case (Session msgs)
  assume "market_inv ws"
  then have "market_inv (ws\<lparr>ws_backoff := initial_backoff, ws_subscriptions := s\<rparr>)" for s
    by (simp add: market_inv_def initial_backoff_def max_backoff_def)
  with \<open>market_inv ws\<close> show ?thesis by (simp add: Session reconnect_inv consume_run_inv)
qed (auto simp: reconnect_inv, simp add: market_inv_def)

interpretation exchange_feed: machine "ws_step ptime" "\<lambda>_. True" market_inv for ptime
  by unfold_locales (rule market_inv_step)

lemma market_inv_init:
  assumes "ws_init symbols (market_init b) = Inr ws"
  shows "market_inv ws"
  using assms
  by (auto simp: ws_init_def ebind_eq_Inr market_inv_def market_init_def initial_backoff_def max_backoff_def)

text \<open>
  After any history of the connection the service's counters count what was published on each of
  the two topics, the connection's counter counts both together, and every pause before a new
  attempt to connect lasted between one second and a minute.
\<close>

theorem market_data_accounting:
  "case ws_init symbols (market_init b) of Inl _ \<Rightarrow> True | Inr ws \<Rightarrow> market_inv (foldl (ws_step ptime) ws es)"
  using market_inv_init [of symbols b] exchange_feed.inv_run [of _ es ptime]
  by (auto simp: list_all_iff split: sum.split)

lemma refused_run:
  assumes "ws_running ws" and "ws_backoff ws = min (2 ^ m) 60"
  shows "ws_sleeps (foldl (ws_step ptime) ws (replicate n Refused)) = ws_sleeps ws @ map (\<lambda>i. min (2 ^ i) 60) [m..<m + n]"
  using assms
proof (induction n arbitrary: ws m)
  case (Suc n)
  have "min (min (2 ^ m) 60 * 2) 60 = min (2 ^ Suc m) (60 :: real)" by (simp add: min_def)
  then have "ws_backoff (reconnect_pause ws) = min (2 ^ Suc m) 60"
    using Suc.prems by (simp add: reconnect_pause_def max_backoff_def backoff_multiplier_def)
  moreover have "ws_sleeps (reconnect_pause ws) = ws_sleeps ws @ [min (2 ^ m) 60]"
    using Suc.prems by (simp add: reconnect_pause_def)
  moreover have "[m..<m + Suc n] = m # [Suc m..<Suc m + n]" by (simp add: upt_conv_Cons)
  ultimately show ?case using Suc.IH [of "reconnect_pause ws" "Suc m"] Suc.prems(1) by simp
qed simp

section \<open>Symbols\<close>

lemma without_upper_dash: "CHR ''-'' \<in> set s \<Longrightarrow> without CHR ''-'' (upper s) \<noteq> upper s"
proof
  assume "CHR ''-'' \<in> set s" "without CHR ''-'' (upper s) = upper s"
  moreover have "CHR ''-'' \<notin> set (without CHR ''-'' (upper s))" by (simp add: without_def)
  ultimately have "CHR ''-'' \<notin> set (upper s)" by simp
  moreover have "upper_char CHR ''-'' = CHR ''-''" by code_simp
  ultimately show False using \<open>CHR ''-'' \<in> set s\<close> by (force simp: upper_def)
qed

text \<open>
  The symbol that a trade of a subscribed product carries (the product id without its dash), against
  the symbol in the configuration: for a symbol as the configuration gives it, they agree, up to
  case, exactly for the three dollar pairs. The \<open>usdt\<close> names, among them the built-in
  default, are subscribed under one symbol and published under another.
\<close>

theorem published_symbol_matches:
  assumes "symbol_ok s" and "to_coinbase_product_id s = Inr p"
  shows "without CHR ''-'' p = upper s \<longleftrightarrow> s \<in> {''btcusd'', ''ethusd'', ''solusd''}"
proof (cases "map_of symbol_map s")
  case None
  have "strip (lower s) = s" using assms(1) by (simp add: symbol_ok_def strip_stripped)
  with None assms(2) have "CHR ''-'' \<in> set s" "p = upper s"
    by (auto simp: to_coinbase_product_id_def Let_def split: if_splits)
  moreover from None have "s \<notin> {''btcusd'', ''ethusd'', ''solusd''}" by (auto simp: symbol_map_def)
  ultimately show ?thesis using without_upper_dash by simp
next
  case (Some q)
  have "strip (lower s) = s" using assms(1) by (simp add: symbol_ok_def strip_stripped)
  with Some assms(2) have "p = q" by (simp add: to_coinbase_product_id_def)
  have eq: "without CHR ''-'' ''BTC-USD'' = ''BTCUSD''" "without CHR ''-'' ''ETH-USD'' = ''ETHUSD''"
    "without CHR ''-'' ''SOL-USD'' = ''SOLUSD''" "upper ''btcusdt'' = ''BTCUSDT''" "upper ''ethusdt'' = ''ETHUSDT''"
    "upper ''solusdt'' = ''SOLUSDT''" "upper ''btcusd'' = ''BTCUSD''" "upper ''ethusd'' = ''ETHUSD''"
    "upper ''solusd'' = ''SOLUSD''"
    by code_simp+
  have "(s, q) \<in> set symbol_map" using Some by (rule map_of_SomeD)
  with \<open>p = q\<close> show ?thesis by (auto simp: symbol_map_def eq)
qed

theorem published_symbol_matches_witness:
  "without CHR ''-'' ''BTC-USD'' \<noteq> upper ''btcusdt''"
proof -
  have "symbol_ok ''btcusdt''" "to_coinbase_product_id ''btcusdt'' = Inr ''BTC-USD''" by code_simp+
  from published_symbol_matches [OF this] show ?thesis by simp
qed

end
