(* ===== verification/Storage_Service.thy ===== *)
theory Storage_Service
  imports Models Kafka_Utils
begin

text \<open>
  \<open>services/storage\<close>: the batch writer (\<open>batch_writer.py\<close>), the consumer (\<open>consumer.py\<close>) and the loop
  of \<open>main.py\<close>. The database is modelled by the rows it accepted: \<open>copy_records_to_table\<close> inserts
  all its records or raises, as the argument \<open>db\<close> says. A \<open>datetime\<close> is given by its milliseconds.
\<close>

section \<open>The batch writer\<close>

record pending_trade =
  pt_time :: int
  pt_symbol :: string
  pt_trade_id :: int
  pt_price :: real
  pt_quantity :: real
  pt_is_buyer_maker :: bool
  pt_ingestion_latency_us :: "int option"
  pt_backtest_id :: "string option"

record pending_book =
  pb_time :: int
  pb_symbol :: string
  pb_bid_prices :: "real list"
  pb_bid_sizes :: "real list"
  pb_ask_prices :: "real list"
  pb_ask_sizes :: "real list"
  pb_spread :: real
  pb_mid_price :: real
  pb_backtest_id :: "string option"

record batch_writer =
  bw_batch_size :: int
  bw_batch_timeout_s :: real
  bw_trade_buffer :: "pending_trade list"
  bw_book_buffer :: "pending_book list"
  bw_last_flush :: real
  bw_total_trades :: nat
  bw_total_books :: nat
  bw_db_trades :: "pending_trade list"
  bw_db_books :: "pending_book list"

definition writer_init :: "int \<Rightarrow> int \<Rightarrow> real \<Rightarrow> batch_writer" where
  "writer_init batch_size batch_timeout_ms now =
     \<lparr>bw_batch_size = batch_size, bw_batch_timeout_s = of_int batch_timeout_ms / 1000, bw_trade_buffer = [],
      bw_book_buffer = [], bw_last_flush = now, bw_total_trades = 0, bw_total_books = 0,
      bw_db_trades = [], bw_db_books = []\<rparr>"

definition add_trade :: "pending_trade \<Rightarrow> batch_writer \<Rightarrow> batch_writer" where
  "add_trade t w = w\<lparr>bw_trade_buffer := bw_trade_buffer w @ [t]\<rparr>"

definition add_book_snapshot :: "pending_book \<Rightarrow> batch_writer \<Rightarrow> batch_writer" where
  "add_book_snapshot b w = w\<lparr>bw_book_buffer := bw_book_buffer w @ [b]\<rparr>"

definition should_flush :: "real \<Rightarrow> batch_writer \<Rightarrow> bool" where
  "should_flush now w \<longleftrightarrow>
     (bw_batch_size w \<le> int (length (bw_trade_buffer w)) \<or> bw_batch_size w \<le> int (length (bw_book_buffer w))) \<or>
     (bw_batch_timeout_s w \<le> now - bw_last_flush w \<and> (bw_trade_buffer w \<noteq> [] \<or> bw_book_buffer w \<noteq> []))"

record db_answers =
  db_acquire :: "py_error option"
  db_copy_trades :: "py_error option"
  db_copy_books :: "py_error option"

definition db_ok :: db_answers where
  "db_ok = \<lparr>db_acquire = None, db_copy_trades = None, db_copy_books = None\<rparr>"

definition write_trades :: "py_error option \<Rightarrow> pending_trade list \<Rightarrow> batch_writer \<Rightarrow> py_error option \<times> batch_writer" where
  \<comment> \<open>the call of \<open>_write_trades\<close> and the count, when there is something to write\<close>
  "write_trades err trades w =
     (if trades = [] then (None, w)
      else case err of Some e \<Rightarrow> (Some e, w)
      | None \<Rightarrow> (None, w\<lparr>bw_total_trades := bw_total_trades w + length trades, bw_db_trades := bw_db_trades w @ trades\<rparr>))"

definition write_books :: "py_error option \<Rightarrow> pending_book list \<Rightarrow> batch_writer \<Rightarrow> py_error option \<times> batch_writer" where
  "write_books err books w =
     (if books = [] then (None, w)
      else case err of Some e \<Rightarrow> (Some e, w)
      | None \<Rightarrow> (None, w\<lparr>bw_total_books := bw_total_books w + length books, bw_db_books := bw_db_books w @ books\<rparr>))"

definition flush :: "real \<Rightarrow> db_answers \<Rightarrow> batch_writer \<Rightarrow> py_error option \<times> batch_writer" where
  "flush now db w =
     (let trades = bw_trade_buffer w; books = bw_book_buffer w;
          w1 = w\<lparr>bw_trade_buffer := [], bw_book_buffer := [], bw_last_flush := now\<rparr> in
      if trades = [] \<and> books = [] then (None, w1)
      else case db_acquire db of
        Some e \<Rightarrow> (Some e, w1)
      | None \<Rightarrow>
          (case write_trades (db_copy_trades db) trades w1 of
             (Some e, w2) \<Rightarrow> (Some e, w2)
           | (None, w2) \<Rightarrow> write_books (db_copy_books db) books w2))"

section \<open>The consumer\<close>

definition book_snapshot_depth :: nat where "book_snapshot_depth = 20"
definition book_snapshot_interval :: nat where "book_snapshot_interval = 10"

record storage_svc =
  ss_writer :: batch_writer
  ss_book_counter :: "(string, nat) dict"
  ss_committed :: nat
  ss_running :: bool

definition storage_init :: "int \<Rightarrow> int \<Rightarrow> real \<Rightarrow> storage_svc" where
  "storage_init batch_size batch_timeout now = \<lparr>ss_writer = writer_init batch_size batch_timeout now,
     ss_book_counter = [], ss_committed = 0, ss_running = True\<rparr>"

definition utc_time :: "int \<Rightarrow> py_error + int" where
  \<comment> \<open>\<open>datetime.fromtimestamp(ms / 1000.0, tz=UTC)\<close>: years 1 to 9999\<close>
  "utc_time ms = (if - 62135596800000 \<le> ms \<and> ms < 253402300800000 then Inr ms else Inl (ValueError ''year is out of range''))"

definition trade_row :: "stored \<Rightarrow> string option \<Rightarrow> py_error + pending_trade" where
  \<comment> \<open>the row that \<open>_handle_trade\<close> builds\<close>
  "trade_row raw backtest_id =
     ebind (ebind (loads raw) trade_from_json) (\<lambda>t.
     ebind (utc_time (tr_timestamp_exchange t)) (\<lambda>ts.
     Inr \<lparr>pt_time = ts, pt_symbol = tr_symbol t, pt_trade_id = tr_trade_id t, pt_price = tr_price t,
       pt_quantity = tr_quantity t, pt_is_buyer_maker = tr_is_buyer_maker t,
       pt_ingestion_latency_us =
         (if tr_timestamp_ingested t \<noteq> 0 \<and> tr_timestamp_exchange t \<noteq> 0
          then Some ((tr_timestamp_ingested t - tr_timestamp_exchange t) * 1000) else None),
       pt_backtest_id = backtest_id\<rparr>))"

definition handle_trade :: "stored \<Rightarrow> string option \<Rightarrow> storage_svc \<Rightarrow> storage_svc" where
  \<comment> \<open>an exception is logged by \<open>process_batch\<close> and dropped\<close>
  "handle_trade raw backtest_id sv =
     (case trade_row raw backtest_id of Inl _ \<Rightarrow> sv | Inr row \<Rightarrow> sv\<lparr>ss_writer := add_trade row (ss_writer sv)\<rparr>)"

definition book_row :: "depth_update \<Rightarrow> string option \<Rightarrow> pending_book option" where
  \<comment> \<open>the snapshot of the top levels of an update, if it has levels on both sides and a valid time\<close>
  "book_row d backtest_id =
     (let bids = take book_snapshot_depth (dp_bids d); asks = take book_snapshot_depth (dp_asks d) in
      if bids = [] \<or> asks = [] then None
      else let best_bid = fst (hd bids); best_ask = fst (hd asks) in
        (case utc_time (dp_timestamp_exchange d) of
           Inl _ \<Rightarrow> None
         | Inr ts \<Rightarrow> Some \<lparr>pb_time = ts, pb_symbol = dp_symbol d, pb_bid_prices = map fst bids,
             pb_bid_sizes = map snd bids, pb_ask_prices = map fst asks, pb_ask_sizes = map snd asks,
             pb_spread = best_ask - best_bid, pb_mid_price = (best_ask + best_bid) / 2, pb_backtest_id = backtest_id\<rparr>))"

definition handle_depth :: "stored \<Rightarrow> string option \<Rightarrow> storage_svc \<Rightarrow> storage_svc" where
  "handle_depth raw backtest_id sv =
     (case ebind (loads raw) depth_from_json of
        Inl _ \<Rightarrow> sv
      | Inr d \<Rightarrow>
          let count = dget (ss_book_counter sv) (dp_symbol d) 0 + 1;
              sv' = sv\<lparr>ss_book_counter := AList.update (dp_symbol d) count (ss_book_counter sv)\<rparr> in
          if count mod book_snapshot_interval \<noteq> 0 then sv'
          else (case book_row d backtest_id of None \<Rightarrow> sv'
            | Some row \<Rightarrow> sv'\<lparr>ss_writer := add_book_snapshot row (ss_writer sv')\<rparr>))"

definition handle_message :: "storage_svc \<Rightarrow> unpacked \<Rightarrow> storage_svc" where
  "handle_message sv = (\<lambda>(topic, _, value, hdrs).
     let backtest_id = map_of hdrs ''backtest_id'' in
     if topic = topic_raw_trades then handle_trade value backtest_id sv
     else if topic = topic_raw_depth then handle_depth value backtest_id sv
     else sv)"

definition process_batch :: "replies \<Rightarrow> storage_svc \<Rightarrow> (py_error + nat) \<times> storage_svc \<times> replies" where
  \<comment> \<open>the offsets of the batch are committed when all its messages have been handled\<close>
  "process_batch rs sv =
     (case poll_messages 500 rs of
        (Inl e, rs') \<Rightarrow> (Inl e, sv, rs')
      | (Inr messages, rs') \<Rightarrow>
          if messages = [] then (Inr 0, sv, rs')
          else let sv' = foldl handle_message sv messages in
            (Inr (length messages), sv'\<lparr>ss_committed := ss_committed sv' + length messages\<rparr>, rs'))"

section \<open>The service\<close>

definition shut_down :: "real \<Rightarrow> db_answers \<Rightarrow> storage_svc \<Rightarrow> storage_svc" where
  \<comment> \<open>the \<open>finally\<close> block: a last flush\<close>
  "shut_down now db sv = sv\<lparr>ss_writer := snd (flush now db (ss_writer sv)), ss_running := False\<rparr>"

record storage_round =
  sr_replies :: replies
  sr_now :: real
  sr_db :: db_answers
  sr_final_db :: db_answers

definition storage_step :: "storage_svc \<Rightarrow> storage_round \<Rightarrow> storage_svc" where
  \<comment> \<open>one round of the loop; an exception leaves the loop through the \<open>finally\<close> block\<close>
  "storage_step sv r =
     (if \<not> ss_running sv then sv
      else case process_batch (sr_replies r) sv of
        (Inl e, sv1, _) \<Rightarrow> shut_down (sr_now r) (sr_final_db r) sv1
      | (Inr count, sv1, _) \<Rightarrow>
          if should_flush (sr_now r) (ss_writer sv1)
          then (case flush (sr_now r) (sr_db r) (ss_writer sv1) of
              (None, w) \<Rightarrow> sv1\<lparr>ss_writer := w\<rparr>
            | (Some e, w) \<Rightarrow> shut_down (sr_now r) (sr_final_db r) (sv1\<lparr>ss_writer := w\<rparr>))
          else sv1)"

section \<open>What should be stored\<close>

definition trade_row_of :: "unpacked \<Rightarrow> pending_trade option" where
  "trade_row_of = (\<lambda>(topic, _, value, hdrs).
     if topic = topic_raw_trades
     then (case trade_row value (map_of hdrs ''backtest_id'') of Inl _ \<Rightarrow> None | Inr row \<Rightarrow> Some row) else None)"

definition depth_of :: "unpacked \<Rightarrow> (depth_update \<times> string option) option" where
  "depth_of = (\<lambda>(topic, _, value, hdrs).
     if topic = topic_raw_depth
     then (case ebind (loads value) depth_from_json of Inl _ \<Rightarrow> None | Inr d \<Rightarrow> Some (d, map_of hdrs ''backtest_id'')) else None)"

definition updates_of :: "string \<Rightarrow> (depth_update \<times> string option) list \<Rightarrow> nat" where
  "updates_of s ds = length (filter (\<lambda>(d, _). dp_symbol d = s) ds)"

definition snapshot_at :: "(depth_update \<times> string option) list \<Rightarrow> nat \<Rightarrow> pending_book option" where
  \<comment> \<open>the snapshot taken at the \<open>i\<close>-th update: when it is the tenth, twentieth, ... of its symbol\<close>
  "snapshot_at ds i =
     (let (d, b) = ds ! i in if updates_of (dp_symbol d) (take (Suc i) ds) mod 10 = 0 then book_row d b else None)"

definition snapshots :: "(depth_update \<times> string option) list \<Rightarrow> pending_book list" where
  "snapshots ds = List.map_filter (snapshot_at ds) [0..<length ds]"

lemma map_filter_append: "List.map_filter f (xs @ ys) = List.map_filter f xs @ List.map_filter f ys"
  by (simp add: List.map_filter_def)

lemma map_filter_cong: "(\<And>x. x \<in> set xs \<Longrightarrow> f x = g x) \<Longrightarrow> List.map_filter f xs = List.map_filter g xs"
  by (induction xs) (simp_all add: List.map_filter_simps split: option.split)

lemma snapshots_snoc:
  "snapshots (ds @ [(d, b)]) = snapshots ds @
     (if updates_of (dp_symbol d) (ds @ [(d, b)]) mod 10 = 0 then (case book_row d b of None \<Rightarrow> [] | Some row \<Rightarrow> [row]) else [])"
proof -
  have "List.map_filter (snapshot_at (ds @ [(d, b)])) [0..<length ds] = snapshots ds"
    unfolding snapshots_def by (rule map_filter_cong) (simp add: snapshot_at_def nth_append)
  moreover have "snapshot_at (ds @ [(d, b)]) (length ds) =
      (if updates_of (dp_symbol d) (ds @ [(d, b)]) mod 10 = 0 then book_row d b else None)"
    by (simp add: snapshot_at_def)
  ultimately show ?thesis
    by (simp add: snapshots_def map_filter_append List.map_filter_simps split: option.split)
qed

section \<open>Nothing is lost\<close>

definition trades_kept :: "batch_writer \<Rightarrow> pending_trade list" where
  "trades_kept w = bw_db_trades w @ bw_trade_buffer w"

definition books_kept :: "batch_writer \<Rightarrow> pending_book list" where
  "books_kept w = bw_db_books w @ bw_book_buffer w"

definition storage_inv :: "unpacked list \<Rightarrow> storage_svc \<Rightarrow> bool" where
  "storage_inv msgs sv \<longleftrightarrow>
     (let ds = List.map_filter depth_of msgs in
      trades_kept (ss_writer sv) = List.map_filter trade_row_of msgs \<and>
      books_kept (ss_writer sv) = snapshots ds \<and>
      (\<forall>s. dget (ss_book_counter sv) s 0 = updates_of s ds) \<and>
      bw_total_trades (ss_writer sv) = length (bw_db_trades (ss_writer sv)) \<and>
      bw_total_books (ss_writer sv) = length (bw_db_books (ss_writer sv)))"

lemma topics_neq [simp]: "topic_raw_depth = topic_raw_trades \<longleftrightarrow> False"
  by simp

lemma handle_message_inv:
  assumes "storage_inv msgs sv"
  shows "storage_inv (msgs @ [m]) (handle_message sv m) \<and> ss_running (handle_message sv m) = ss_running sv"
proof -
  obtain topic k v hdrs where m: "m = (topic, k, v, hdrs)" by (cases m)
  let ?b = "map_of hdrs ''backtest_id''"
  show ?thesis
  proof (cases "topic = topic_raw_depth")
    case False
    then have "depth_of m = None" by (simp add: depth_of_def m)
    then show ?thesis
      using assms False
      by (auto simp: m storage_inv_def handle_message_def handle_trade_def trade_row_of_def map_filter_append
          List.map_filter_simps Let_def trades_kept_def books_kept_def add_trade_def split: sum.split)
  next
    case True
    then have no_trade: "trade_row_of m = None" by (simp add: trade_row_of_def m)
    show ?thesis
    proof (cases "ebind (loads v) depth_from_json")
      case (Inl e)
      then show ?thesis
        using assms True no_trade
        by (simp add: m storage_inv_def handle_message_def handle_depth_def depth_of_def map_filter_append
            List.map_filter_simps Let_def)
    next
      case (Inr d)
      let ?ds = "List.map_filter depth_of msgs"
      have dm: "depth_of m = Some (d, ?b)" using Inr True by (simp add: depth_of_def m)
      have cnt: "dget (ss_book_counter sv) (dp_symbol d) 0 + 1 = updates_of (dp_symbol d) (?ds @ [(d, ?b)])"
        using assms by (simp add: storage_inv_def Let_def updates_of_def)
      have "updates_of s (?ds @ [(d, ?b)]) = updates_of s ?ds + (if dp_symbol d = s then 1 else 0)" for s
        by (simp add: updates_of_def)
      then show ?thesis
        using assms True no_trade Inr dm cnt
        by (auto simp: m storage_inv_def handle_message_def handle_depth_def map_filter_append List.map_filter_simps
            Let_def snapshots_snoc trades_kept_def books_kept_def add_book_snapshot_def book_snapshot_interval_def
            split: option.split)
    qed
  qed
qed

lemma handle_messages_inv:
  "storage_inv msgs sv \<Longrightarrow> storage_inv (msgs @ ms) (foldl handle_message sv ms) \<and>
     ss_running (foldl handle_message sv ms) = ss_running sv"
proof (induction ms arbitrary: msgs sv)
  case (Cons m ms)
  from handle_message_inv [OF Cons.prems, of m] Cons.IH [of "msgs @ [m]" "handle_message sv m"] show ?case by simp
qed simp

lemma flush_ok:
  assumes "flush now db_ok w = (err, w')"
  shows "err = None \<and> trades_kept w' = trades_kept w \<and> books_kept w' = books_kept w \<and>
    bw_trade_buffer w' = [] \<and> bw_book_buffer w' = [] \<and>
    (bw_total_trades w = length (bw_db_trades w) \<longrightarrow> bw_total_trades w' = length (bw_db_trades w')) \<and>
    (bw_total_books w = length (bw_db_books w) \<longrightarrow> bw_total_books w' = length (bw_db_books w'))"
  using assms
  by (auto simp: flush_def db_ok_def write_trades_def write_books_def trades_kept_def books_kept_def Let_def split: if_splits)

lemma flush_inv:
  "storage_inv msgs sv \<Longrightarrow> flush now db_ok (ss_writer sv) = (err, w') \<Longrightarrow> storage_inv msgs (sv\<lparr>ss_writer := w'\<rparr>)"
  using flush_ok [of now "ss_writer sv" err w'] by (auto simp: storage_inv_def Let_def)

lemma storage_inv_fields [simp]:
  "storage_inv msgs (sv\<lparr>ss_committed := n\<rparr>) = storage_inv msgs sv"
  "storage_inv msgs (sv\<lparr>ss_running := b\<rparr>) = storage_inv msgs sv"
  by (simp_all add: storage_inv_def)

fun polled :: "storage_round list \<Rightarrow> unpacked list" where
  \<comment> \<open>the messages that the rounds handle: up to the first round whose poll raises\<close>
  "polled [] = []"
| "polled (r # rs) = (case poll_messages 500 (sr_replies r) of (Inl _, _) \<Rightarrow> [] | (Inr ms, _) \<Rightarrow> ms @ polled rs)"

definition storage_good :: "unpacked list \<Rightarrow> storage_svc \<Rightarrow> bool" where
  "storage_good msgs sv \<longleftrightarrow> storage_inv msgs sv \<and>
     (ss_running sv \<or> bw_trade_buffer (ss_writer sv) = [] \<and> bw_book_buffer (ss_writer sv) = [])"

lemma stopped_rounds: "\<not> ss_running sv \<Longrightarrow> foldl storage_step sv rs = sv"
  by (induction rs) (simp_all add: storage_step_def)

lemma shut_down_good: "storage_inv msgs sv \<Longrightarrow> storage_good msgs (shut_down now db_ok sv) \<and> \<not> ss_running (shut_down now db_ok sv)"
  using flush_inv [of msgs sv now "fst (flush now db_ok (ss_writer sv))" "snd (flush now db_ok (ss_writer sv))"]
    flush_ok [of now "ss_writer sv" "fst (flush now db_ok (ss_writer sv))" "snd (flush now db_ok (ss_writer sv))"]
  by (simp add: shut_down_def storage_good_def)

lemma batch_handled:
  assumes "poll_messages 500 rs = (Inr ms, rs')" and "storage_inv msgs sv"
  obtains sv' where "process_batch rs sv = (Inr (length ms), sv', rs')" "storage_inv (msgs @ ms) sv'"
    "ss_running sv' = ss_running sv"
  using handle_messages_inv [OF assms(2), of ms] assms that
  by (cases "ms = []") (auto simp: process_batch_def Let_def)

lemma storage_rounds:
  assumes "storage_inv msgs sv" and "ss_running sv"
    and "list_all (\<lambda>r. sr_db r = db_ok \<and> sr_final_db r = db_ok) rs"
  shows "storage_good (msgs @ polled rs) (foldl storage_step sv rs)"
  using assms
proof (induction rs arbitrary: msgs sv)
  case Nil
  then show ?case by (simp add: storage_good_def)
next
  case (Cons r rs)
  then have ok: "sr_db r = db_ok" "sr_final_db r = db_ok" by simp_all
  show ?case
  proof (cases "poll_messages 500 (sr_replies r)")
    case (Pair res rest)
    show ?thesis
    proof (cases res)
      case (Inl e)
      then have "storage_step sv r = shut_down (sr_now r) db_ok sv"
        using Pair Cons.prems(2) ok by (simp add: storage_step_def process_batch_def)
      with shut_down_good [OF Cons.prems(1)] Inl Pair show ?thesis by (simp add: stopped_rounds)
    next
      case (Inr ms)
      obtain sv' where b: "process_batch (sr_replies r) sv = (Inr (length ms), sv', rest)"
        "storage_inv (msgs @ ms) sv'" "ss_running sv'"
        using batch_handled [OF Pair [unfolded Inr] Cons.prems(1)] Cons.prems(2) by metis
      obtain err w where fl: "flush (sr_now r) db_ok (ss_writer sv') = (err, w)" by fastforce
      then have "err = None" using flush_ok by blast
      then have "storage_inv (msgs @ ms) (storage_step sv r) \<and> ss_running (storage_step sv r)"
        using b fl flush_inv [OF b(2) fl] Cons.prems(2) ok by (simp add: storage_step_def)
      then show ?thesis using Cons.IH [of "msgs @ ms" "storage_step sv r"] Cons.prems(3) Inr Pair by simp
    qed
  qed
qed


definition sample_rounds :: "storage_round list" where
  "sample_rounds =
     [\<lparr>sr_replies = [Some \<lparr>km_error = None, km_topic = topic_raw_trades, km_key = Some ''BTCUSD'',
          km_value = Document (trade_to_json (trade_default\<lparr>tr_symbol := ''BTCUSD'', tr_price := 100\<rparr>)), km_headers = None\<rparr>],
       sr_now = 0, sr_db = db_ok, sr_final_db = db_ok\<rparr>,
      \<lparr>sr_replies = [], sr_now = 2, sr_db = db_ok, sr_final_db = db_ok\<rparr>]"


text \<open>
  When the database refuses a batch, its rows are gone: \<open>flush\<close> has emptied the buffers before it
  writes, so the flush of the \<open>finally\<close> block finds nothing, while the offsets of those messages
  had been committed when they were buffered.
\<close>

theorem refused_batch_is_lost:
  assumes "ss_running sv" and "bw_trade_buffer (ss_writer sv) \<noteq> []" and "should_flush (sr_now r) (ss_writer sv)"
    and "sr_replies r = []" and "sr_db r = db_ok\<lparr>db_copy_trades := Some e\<rparr>"
  shows "\<not> ss_running (storage_step sv r) \<and> bw_trade_buffer (ss_writer (storage_step sv r)) = [] \<and>
    bw_db_trades (ss_writer (storage_step sv r)) = bw_db_trades (ss_writer sv) \<and>
    ss_committed (storage_step sv r) = ss_committed sv"
  using assms
  by (simp add: storage_step_def process_batch_def poll_messages_def flush_def db_ok_def write_trades_def
      shut_down_def Let_def)

theorem refused_batch_is_lost_witness:
  "let row = \<lparr>pt_time = 0, pt_symbol = ''BTCUSD'', pt_trade_id = 1, pt_price = 100, pt_quantity = 1,
        pt_is_buyer_maker = False, pt_ingestion_latency_us = None, pt_backtest_id = None\<rparr>;
       sv = (storage_init 1 1000 0)\<lparr>ss_writer := add_trade row (writer_init 1 1000 0)\<rparr>;
       r = \<lparr>sr_replies = [], sr_now = 0, sr_db = db_ok\<lparr>db_copy_trades := Some TypeError\<rparr>, sr_final_db = db_ok\<rparr> in
   bw_trade_buffer (ss_writer (storage_step sv r)) = [] \<and> bw_db_trades (ss_writer (storage_step sv r)) = []"
proof -
  define row :: pending_trade where "row = \<lparr>pt_time = 0, pt_symbol = ''BTCUSD'', pt_trade_id = 1, pt_price = 100, pt_quantity = 1,
        pt_is_buyer_maker = False, pt_ingestion_latency_us = None, pt_backtest_id = None\<rparr>"
  define sv where "sv = (storage_init 1 1000 0)\<lparr>ss_writer := add_trade row (writer_init 1 1000 0)\<rparr>"
  define r where "r = \<lparr>sr_replies = [], sr_now = 0, sr_db = db_ok\<lparr>db_copy_trades := Some TypeError\<rparr>, sr_final_db = db_ok\<rparr>"
  have "bw_trade_buffer (ss_writer (storage_step sv r)) = [] \<and>
      bw_db_trades (ss_writer (storage_step sv r)) = bw_db_trades (ss_writer sv)"
    using refused_batch_is_lost [of sv r TypeError]
    by (simp add: sv_def r_def storage_init_def writer_init_def add_trade_def should_flush_def)
  moreover have "bw_db_trades (ss_writer sv) = []" by (simp add: sv_def add_trade_def writer_init_def)
  ultimately show ?thesis by (simp add: Let_def sv_def r_def row_def)
qed

end
