(* ===== verification/Backtest_Metrics.thy ===== *)
theory Backtest_Metrics
  imports Models Pnl
begin

text \<open>
  The accounting of backtests: \<open>_compute_metrics_from_fills\<close> of
  \<open>services/backtest/backtest_svc/evaluator.py\<close>, whose bookkeeping of position, average entry price
  and realised profit is repeated in \<open>_compute_symbol_metrics\<close> of \<open>backtest_analysis.py\<close>. The
  bookkeeping is compared with the one of live trading in \<open>pnl.py\<close>.
\<close>

section \<open>Bookkeeping\<close>

record bt_book =
  bb_position :: real
  bb_avg_entry :: real
  bb_realized_pnl :: real

definition bt_start :: bt_book where
  "bt_start = \<lparr>bb_position = 0, bb_avg_entry = 0, bb_realized_pnl = 0\<rparr>"

definition reduces :: "real \<Rightarrow> bt_book \<Rightarrow> bool" where
  \<comment> \<open>the fill goes against the position\<close>
  "reduces s b \<longleftrightarrow> bb_position b \<noteq> 0 \<and> ((0 < bb_position b \<and> s < 0) \<or> (bb_position b < 0 \<and> 0 < s))"

definition close_pnl :: "real \<Rightarrow> real \<Rightarrow> bt_book \<Rightarrow> real" where
  "close_pnl s price b =
     (let close_qty = min \<bar>s\<bar> \<bar>bb_position b\<bar> in
      close_qty * (price - bb_avg_entry b) * (if 0 < bb_position b then 1 else - 1))"

definition bt_fill :: "real \<Rightarrow> real \<Rightarrow> real \<Rightarrow> bt_book \<Rightarrow> bt_book" where
  \<comment> \<open>a fill of signed quantity \<open>s\<close>; \<open>cost\<close>: what is taken off the profit (fee, and slippage where it counts)\<close>
  "bt_fill s price cost b =
     (let realized = (if reduces s b then bb_realized_pnl b + (close_pnl s price b - cost) else bb_realized_pnl b - cost);
          pos = bb_position b; new_position = pos + s;
          avg = (if \<bar>pos\<bar> < \<bar>new_position\<bar>
             then (if pos = 0 then price
                   else let total_cost = bb_avg_entry b * \<bar>pos\<bar> + price * \<bar>s\<bar> in total_cost / (\<bar>pos\<bar> + \<bar>s\<bar>))
             else if new_position = 0 then 0 else bb_avg_entry b) in
      \<lparr>bb_position = new_position, bb_avg_entry = avg, bb_realized_pnl = realized\<rparr>)"

section \<open>Metrics of a backtest\<close>

definition hour_ms :: int where "hour_ms = 3600000"
definition minute_ms :: int where "minute_ms = 60000"
definition ms_per_year :: real where "ms_per_year = 365 * 24 * 60 * 60 * 1000"

definition pick_bucket_ms :: "int \<Rightarrow> int" where
  "pick_bucket_ms span_ms =
     (if 48 * hour_ms \<le> span_ms then hour_ms else if 2 * hour_ms \<le> span_ms then 5 * minute_ms else minute_ms)"

record bt_metrics =
  bm_sharpe :: real
  bm_total_return :: real
  bm_max_drawdown :: real
  bm_num_trades :: nat
  bm_num_signals :: nat
  bm_total_costs :: real
  bm_bucket_ms :: int
  bm_equity_series :: "real list"
  bm_bucket_returns :: "real list"
  bm_parts :: "(real \<times> real \<times> real) option"  \<comment> \<open>total fees, total slippage cost, realised profit\<close>

record bt_acc =
  ba_book :: bt_book
  ba_total_fees :: real
  ba_total_slippage :: real
  ba_equity :: real
  ba_peak :: real
  ba_max_dd :: real
  ba_buckets :: "(int, real) dict"

definition slip_cost :: "fill \<Rightarrow> real" where
  "slip_cost f = fl_quantity f * fl_fill_price f * fl_slippage_bps f / 10000"

definition track_drawdown :: "real \<Rightarrow> real \<Rightarrow> real \<Rightarrow> real \<times> real" where
  \<comment> \<open>the new peak and the new maximum drawdown\<close>
  "track_drawdown equity peak max_dd =
     (let peak' = (if peak < equity then equity else peak) in
      (peak', if 0 < peak' then max max_dd ((peak' - equity) / peak') else max_dd))"

definition metrics_fill :: "int \<Rightarrow> real \<Rightarrow> bt_acc \<Rightarrow> fill \<Rightarrow> bt_acc" where
  \<comment> \<open>the body of the loop over the fills\<close>
  "metrics_fill bucket_ms initial_equity a f =
     (let book = bt_fill (signed_qty (fl_side f) (fl_quantity f)) (fl_fill_price f) (fl_fee f + slip_cost f) (ba_book a);
          equity = initial_equity + bb_realized_pnl book;
          (peak, max_dd) = track_drawdown equity (ba_peak a) (ba_max_dd a);
          bucket = (if 0 < fl_timestamp f then fl_timestamp f div bucket_ms else 0) in
      \<lparr>ba_book = book, ba_total_fees = ba_total_fees a + fl_fee f, ba_total_slippage = ba_total_slippage a + slip_cost f,
       ba_equity = equity, ba_peak = peak, ba_max_dd = max_dd, ba_buckets = AList.update bucket equity (ba_buckets a)\<rparr>)"

fun bucket_returns :: "real \<Rightarrow> real list \<Rightarrow> real list" where
  "bucket_returns prev [] = []"
| "bucket_returns prev (e # es) = (if 0 < prev then [(e - prev) / prev] else []) @ bucket_returns e es"

definition annual_sharpe :: "int \<Rightarrow> real list \<Rightarrow> real" where
  "annual_sharpe bucket_ms rs =
     (if length rs < 2 then 0
      else let std_r = sqrt (sq_dev rs / real (length rs - 1)) in
        if 0 < std_r then mean rs / std_r * sqrt (ms_per_year / of_int bucket_ms) else 0)"

definition empty_metrics :: "nat \<Rightarrow> bt_metrics" where
  "empty_metrics signals_emitted = \<lparr>bm_sharpe = 0, bm_total_return = 0, bm_max_drawdown = 0, bm_num_trades = 0,
     bm_num_signals = signals_emitted, bm_total_costs = 0, bm_bucket_ms = hour_ms, bm_equity_series = [],
     bm_bucket_returns = [], bm_parts = None\<rparr>"

definition acc_start :: "real \<Rightarrow> bt_acc" where
  "acc_start initial_equity = \<lparr>ba_book = bt_start, ba_total_fees = 0, ba_total_slippage = 0, ba_equity = initial_equity,
     ba_peak = initial_equity, ba_max_dd = 0, ba_buckets = []\<rparr>"

definition bt_report :: "int \<Rightarrow> fill list \<Rightarrow> real \<Rightarrow> nat \<Rightarrow> bt_metrics" where
  \<comment> \<open>the loop and what follows it, for a bucket size\<close>
  "bt_report bucket_ms fills initial_equity signals_emitted =
     (let a = foldl (metrics_fill bucket_ms initial_equity) (acc_start initial_equity) fills;
          series = (if 2 \<le> length (ba_buckets a)
            then map (\<lambda>b. dget (ba_buckets a) b 0) (sort (map fst (ba_buckets a))) else []);
          rs = bucket_returns initial_equity series in
      \<lparr>bm_sharpe = annual_sharpe bucket_ms rs,
       bm_total_return = (if 0 < initial_equity then (ba_equity a - initial_equity) / initial_equity else 0),
       bm_max_drawdown = ba_max_dd a, bm_num_trades = length fills, bm_num_signals = signals_emitted,
       bm_total_costs = ba_total_fees a + ba_total_slippage a, bm_bucket_ms = bucket_ms,
       bm_equity_series = series, bm_bucket_returns = rs,
       bm_parts = Some (ba_total_fees a, ba_total_slippage a, bb_realized_pnl (ba_book a))\<rparr>)"

definition compute_metrics_from_fills :: "fill list \<Rightarrow> real \<Rightarrow> nat \<Rightarrow> py_error + bt_metrics" where
  "compute_metrics_from_fills fills initial_equity signals_emitted =
     (if fills = [] then Inr (empty_metrics signals_emitted)
      else let stamps = filter (\<lambda>t. 0 < t) (map fl_timestamp fills) in
        if stamps = [] then Inl (ValueError ''min() iterable argument is empty'')
        else let span_ms = max 1 (Max (set stamps) - Min (set stamps)) in
          Inr (bt_report (pick_bucket_ms span_ms) fills initial_equity signals_emitted))"

section \<open>Against the bookkeeping of live trading\<close>

definition live_fill :: "fill \<Rightarrow> trade_fill" where
  "live_fill f = \<lparr>tf_quantity = fl_quantity f, tf_price = fl_fill_price f, tf_fee = fl_fee f, tf_side = fl_side f\<rparr>"

definition signed :: "fill \<Rightarrow> real" where
  "signed f = signed_qty (fl_side f) (fl_quantity f)"

fun no_flips :: "real \<Rightarrow> fill list \<Rightarrow> bool" where
  \<comment> \<open>no fill is larger than the opposite position it meets\<close>
  "no_flips q [] \<longleftrightarrow> True"
| "no_flips q (f # fs) \<longleftrightarrow> (q * signed f < 0 \<longrightarrow> \<bar>signed f\<bar> \<le> \<bar>q\<bar>) \<and> no_flips (q + signed f) fs"

definition same_books :: "real \<Rightarrow> bt_book \<Rightarrow> position \<Rightarrow> bool" where
  "same_books costs b pos \<longleftrightarrow> bb_position b = pn_quantity pos \<and>
     (pn_quantity pos \<noteq> 0 \<longrightarrow> bb_avg_entry b = pn_avg_entry_price pos) \<and>
     bb_realized_pnl b = pn_realized_pnl pos - costs"

lemma same_books_fill:
  assumes "same_books costs b pos" and "pn_quantity pos * signed_qty side q < 0 \<longrightarrow> \<bar>signed_qty side q\<bar> \<le> \<bar>pn_quantity pos\<bar>"
  shows "same_books (costs + cost) (bt_fill (signed_qty side q) p cost b) (snd (apply_fill q p fee side pos))"
proof -
  define s where "s = signed_qty side q"
  define Q where "Q = pn_quantity pos"
  have b: "bb_position b = Q" "Q \<noteq> 0 \<Longrightarrow> bb_avg_entry b = pn_avg_entry_price pos"
    "bb_realized_pnl b = pn_realized_pnl pos - costs"
    using assms(1) by (auto simp: same_books_def Q_def)
  consider (flat) "Q = 0" | (add) "0 < Q \<and> 0 < s \<or> Q < 0 \<and> s < 0" | (none) "Q \<noteq> 0" "s = 0"
    | (long) "0 < Q" "s < 0" "\<bar>s\<bar> \<le> \<bar>Q\<bar>" | (short) "Q < 0" "0 < s" "\<bar>s\<bar> \<le> \<bar>Q\<bar>"
    using assms(2) unfolding s_def [symmetric] Q_def [symmetric]
    by (smt (verit) mult_neg_pos mult_pos_neg)
  then show ?thesis
  proof cases
    case flat
    then show ?thesis
      using b by (auto simp: same_books_def bt_fill_def apply_fill_def reduces_def Let_def simp flip: s_def Q_def)
  next
    case add
    then have "\<bar>Q\<bar> < \<bar>Q + s\<bar>" "\<bar>Q + s\<bar> = \<bar>Q\<bar> + \<bar>s\<bar>" "Q \<noteq> 0" "Q + s \<noteq> 0" by auto
    with add show ?thesis
      using b by (auto simp: same_books_def bt_fill_def apply_fill_def reduces_def Let_def simp flip: s_def Q_def)
  next
    case none
    then show ?thesis
      using b by (auto simp: same_books_def bt_fill_def apply_fill_def reduces_def Let_def simp flip: s_def Q_def)
  next
    case long
    then have "\<not> \<bar>Q\<bar> < \<bar>Q + s\<bar>" "0 \<le> Q + s" "min \<bar>s\<bar> \<bar>Q\<bar> = \<bar>s\<bar>" by auto
    with long show ?thesis
      using b by (auto simp: same_books_def bt_fill_def apply_fill_def reduces_def close_pnl_def Let_def simp flip: s_def Q_def)
  next
    case short
    then have "\<not> \<bar>Q\<bar> < \<bar>Q + s\<bar>" "Q + s \<le> 0" "min \<bar>s\<bar> \<bar>Q\<bar> = \<bar>s\<bar>" by auto
    with short show ?thesis
      using b by (auto simp: same_books_def bt_fill_def apply_fill_def reduces_def close_pnl_def Let_def algebra_simps
          simp flip: s_def Q_def)
  qed
qed

definition run_acc :: "int \<Rightarrow> real \<Rightarrow> bt_acc \<Rightarrow> fill list \<Rightarrow> bt_acc" where
  "run_acc bucket_ms e a fs = foldl (metrics_fill bucket_ms e) a fs"

lemma metrics_fill_fields:
  "ba_book (metrics_fill k e a f) = bt_fill (signed f) (fl_fill_price f) (fl_fee f + slip_cost f) (ba_book a)"
  "ba_total_fees (metrics_fill k e a f) = ba_total_fees a + fl_fee f"
  "ba_total_slippage (metrics_fill k e a f) = ba_total_slippage a + slip_cost f"
  "ba_equity (metrics_fill k e a f) = e + bb_realized_pnl (ba_book (metrics_fill k e a f))"
  by (simp_all add: metrics_fill_def signed_def Let_def split: prod.split)

lemma run_same_books:
  assumes "same_books costs (ba_book a) pos" and "no_flips (pn_quantity pos) fs"
  shows "same_books (costs + sum_list (map (\<lambda>f. fl_fee f + slip_cost f) fs)) (ba_book (foldl (metrics_fill k e) a fs))
    (foldl apply_one pos (map live_fill fs))"
  using assms
proof (induction fs arbitrary: a pos costs)
  case (Cons f fs)
  let ?pos = "apply_one pos (live_fill f)"
  have "same_books (costs + (fl_fee f + slip_cost f)) (ba_book (metrics_fill k e a f)) ?pos"
    using same_books_fill [OF Cons.prems(1), of "fl_side f" "fl_quantity f"] Cons.prems(2)
    by (simp add: metrics_fill_fields apply_one_def live_fill_def signed_def)
  moreover have "no_flips (pn_quantity ?pos) fs"
    using Cons.prems(2) by (simp add: apply_one_def live_fill_def apply_fill_quantity signed_def)
  ultimately have "same_books (costs + (fl_fee f + slip_cost f) + sum_list (map (\<lambda>f. fl_fee f + slip_cost f) fs))
      (ba_book (foldl (metrics_fill k e) (metrics_fill k e a f) fs)) (foldl apply_one ?pos (map live_fill fs))"
    by (rule Cons.IH)
  then show ?case by (simp add: add.assoc)
qed simp

lemma run_totals:
  "ba_total_fees (foldl (metrics_fill k e) a fs) = ba_total_fees a + sum_list (map fl_fee fs)"
  "ba_total_slippage (foldl (metrics_fill k e) a fs) = ba_total_slippage a + sum_list (map slip_cost fs)"
  "fs \<noteq> [] \<Longrightarrow> ba_equity (foldl (metrics_fill k e) a fs) = e + bb_realized_pnl (ba_book (foldl (metrics_fill k e) a fs))"
proof -
  show "ba_total_fees (foldl (metrics_fill k e) a fs) = ba_total_fees a + sum_list (map fl_fee fs)"
    "ba_total_slippage (foldl (metrics_fill k e) a fs) = ba_total_slippage a + sum_list (map slip_cost fs)"
    by (induction fs arbitrary: a) (simp_all add: metrics_fill_fields)
  show "fs \<noteq> [] \<Longrightarrow> ba_equity (foldl (metrics_fill k e) a fs) = e + bb_realized_pnl (ba_book (foldl (metrics_fill k e) a fs))"
    by (cases fs rule: rev_cases) (simp_all add: metrics_fill_fields)
qed


definition bt_sample_fill :: "string \<Rightarrow> real \<Rightarrow> real \<Rightarrow> int \<Rightarrow> fill" where
  "bt_sample_fill side q p t = \<lparr>fl_fill_id = ''f'', fl_timestamp = t, fl_order_id = ''o'', fl_symbol = ''BTCUSD'', fl_side = side,
     fl_quantity = q, fl_fill_price = p, fl_fee = 0, fl_fee_rate = 0, fl_is_maker = False, fl_slippage_bps = 0,
     fl_backtest_id = None, fl_strategy_id = '''', fl_trading_mode = ''paper''\<rparr>"

lemma sample_metrics_ok:
  "fs \<noteq> [] \<Longrightarrow> list_all (\<lambda>f. 0 < fl_timestamp f) fs \<Longrightarrow> \<exists>m. compute_metrics_from_fills fs e n = Inr m"
  by (cases fs) (auto simp: compute_metrics_from_fills_def Let_def)


text \<open>
  A fill that turns a long position into a short one keeps the old entry price in a backtest, so
  the profit of the short side is measured from the wrong price: after buying 1 at \<open>p0\<close>, selling 2
  at \<open>p1\<close> and buying 1 at \<open>p2\<close>, the backtest is off from the live result by \<open>p1 - p0\<close>.
\<close>

theorem flipped_position_misvalued:
  "bb_realized_pnl (foldl (\<lambda>b (s, p). bt_fill s p 0 b) bt_start [(1, p0), (- 2, p1), (1, p2)]) = p0 - p2 + (p1 - p0) \<and>
   pn_realized_pnl (foldl apply_one (new_position symbol)
     [\<lparr>tf_quantity = 1, tf_price = p0, tf_fee = 0, tf_side = ''BUY''\<rparr>,
      \<lparr>tf_quantity = 2, tf_price = p1, tf_fee = 0, tf_side = ''SELL''\<rparr>,
      \<lparr>tf_quantity = 1, tf_price = p2, tf_fee = 0, tf_side = ''BUY''\<rparr>]) = (p1 - p0) + (p1 - p2)"
  by (simp add: bt_fill_def bt_start_def reduces_def close_pnl_def apply_one_def apply_fill_def new_position_def
      signed_qty_def Let_def)

end
