(* ===== verification/Evaluator.thy ===== *)
theory Evaluator
  imports Py_Strings Backtest_Metrics Fill_Simulator Pairs_Trading
begin

text \<open>
  \<open>services/backtest/backtest_svc/evaluator.py\<close>: the evaluator that runs the strategies of the alpha
  engine and the fill simulator over historical trades. The clock, the identifiers and the
  Gaussian draw of each trade are its environment. Strategy parameters arrive merged over the
  defaults, as in the constructors of the strategies.
\<close>

section \<open>Historical trades\<close>

type_synonym hist_trade = "(string, json) dict"

definition dict_to_trade :: "hist_trade \<Rightarrow> string \<Rightarrow> py_error + trade" where
  "dict_to_trade t default_symbol =
     ebind (as_str (dget t ''symbol'' (JStr default_symbol))) (\<lambda>sym.
     ebind (as_float (dget t ''price'' (JNum 0))) (\<lambda>p.
     ebind (as_float (dget t ''quantity'' (JNum 0))) (\<lambda>q.
     ebind (as_pyint (dget t ''timestamp_exchange'' (JInt 0))) (\<lambda>te.
     ebind (as_pyint (dget t ''timestamp_ingested'' (JInt 0))) (\<lambda>ti.
     Inr (trade_default\<lparr>tr_symbol := sym, tr_price := p, tr_quantity := q, tr_timestamp_exchange := te,
       tr_timestamp_ingested := ti, tr_is_buyer_maker := truthy (dget t ''is_buyer_maker'' (JBool False))\<rparr>))))))"

definition signal_to_order :: "string \<Rightarrow> signal \<Rightarrow> order" where
  "signal_to_order uid sig =
     (let (order_type, limit_price) =
            (if 8 / 10 \<le> sg_urgency sig then (''MARKET'', None) else (''LIMIT'', Some (sg_mid_price_at_signal sig))) in
      \<lparr>or_order_id = uid, or_timestamp = sg_timestamp sig, or_symbol = sg_symbol sig, or_side = sg_side sig,
       or_order_type = order_type, or_quantity = sg_target_quantity sig, or_limit_price = limit_price,
       or_status = ''SUBMITTED'', or_signal_id = sg_signal_id sig, or_strategy_id = sg_strategy_id sig,
       or_backtest_id = None\<rparr>)"

section \<open>One strategy on one symbol\<close>

record eval_env =
  ee_strategy :: strategy_env
  ee_uid :: "nat \<Rightarrow> string"
  ee_now :: int
  ee_gauss :: "nat \<Rightarrow> real"

record eval_state =
  es_simulator :: fill_simulator
  es_signals :: "signal list"
  es_fills :: "fill list"

definition eval_start :: "real option \<Rightarrow> eval_state" where
  "eval_start fee_rate = \<lparr>es_simulator = fill_simulator_init fee_rate False default_latency_ms True,
     es_signals = [], es_fills = []\<rparr>"

definition synthetic_book :: "string \<Rightarrow> real \<Rightarrow> depth_update" where
  \<comment> \<open>a book of one level on each side, one basis point wide\<close>
  "synthetic_book symbol price =
     (let half_spread = price * (5 / 100000) in
      depth_default\<lparr>dp_symbol := symbol, dp_bids := [(price - half_spread, 1)], dp_asks := [(price + half_spread, 1)]\<rparr>)"

definition extra_slippage :: "real \<Rightarrow> order \<Rightarrow> fill \<Rightarrow> fill" where
  "extra_slippage slippage_bps ord f =
     (if 0 < slippage_bps
      then let extra_slip = fl_fill_price f * slippage_bps / 10000 in
        f\<lparr>fl_fill_price := (if or_side ord = ''BUY'' then fl_fill_price f + extra_slip else fl_fill_price f - extra_slip),
          fl_slippage_bps := fl_slippage_bps f + slippage_bps\<rparr>
      else f)"

definition execute_signal :: "nat \<Rightarrow> eval_env \<Rightarrow> int \<Rightarrow> real \<Rightarrow> real \<Rightarrow> real \<Rightarrow> signal \<Rightarrow> eval_state \<Rightarrow> eval_state" where
  \<comment> \<open>the signal is stamped, turned into an order and filled; \<open>i\<close> tells apart the two legs of a pair\<close>
  "execute_signal i env ts mid spread slippage_bps sig0 es =
     (let sig = sig0\<lparr>sg_timestamp := ts\<rparr>; ord = signal_to_order (ee_uid env (2 * i)) sig;
          (f0, sim) = simulate_fill (ee_uid env (2 * i + 1)) (ee_now env) (ee_gauss env i) ord mid spread [] (es_simulator es);
          f = extra_slippage slippage_bps ord (f0\<lparr>fl_timestamp := ts\<rparr>) in
      \<lparr>es_simulator = sim, es_signals = es_signals es @ [sig], es_fills = es_fills es @ [f]\<rparr>)"

definition eval_trade :: "(real \<Rightarrow> real \<Rightarrow> string option) \<Rightarrow> string \<Rightarrow> real \<Rightarrow> eval_env \<times> hist_trade \<Rightarrow>
    vwap_strategy \<times> eval_state \<Rightarrow> py_error + vwap_strategy \<times> eval_state" where
  \<comment> \<open>the body of the loop over the trades\<close>
  "eval_trade pick symbol slippage_bps = (\<lambda>(env, t) (st, es).
     ebind (as_float (dget t ''price'' (JNum 0))) (\<lambda>price.
     if price \<le> 0 then Inr (st, es)
     else let st1 = vwap_on_book_update (synthetic_book symbol price) st in
       ebind (dict_to_trade t symbol) (\<lambda>tr.
       case vwap_on_trade pick (ee_strategy env) tr st1 of
         (Inl e, st2) \<Rightarrow> Inl e
       | (Inr None, st2) \<Rightarrow> Inr (st2, es)
       | (Inr (Some sig), st2) \<Rightarrow>
           Inr (st2, execute_signal 0 env (tr_timestamp_exchange tr) (sg_mid_price_at_signal sig)
             (sg_spread_at_signal sig) slippage_bps sig es))))"

fun eval_trades :: "(real \<Rightarrow> real \<Rightarrow> string option) \<Rightarrow> string \<Rightarrow> real \<Rightarrow> (eval_env \<times> hist_trade) list \<Rightarrow>
    vwap_strategy \<times> eval_state \<Rightarrow> py_error + vwap_strategy \<times> eval_state" where
  "eval_trades pick symbol slippage_bps [] s = Inr s"
| "eval_trades pick symbol slippage_bps (t # ts) s =
     ebind (eval_trade pick symbol slippage_bps t s) (eval_trades pick symbol slippage_bps ts)"

definition run_single_symbol :: "(real \<Rightarrow> real \<Rightarrow> string option) \<Rightarrow> string \<Rightarrow> string \<Rightarrow> vwap_params \<Rightarrow> real option \<Rightarrow> real \<Rightarrow>
    (eval_env \<times> hist_trade) list \<Rightarrow> py_error + signal list \<times> fill list" where
  \<comment> \<open>\<open>strategy_name\<close>: the lower-case class name without \<open>Strategy\<close>\<close>
  "run_single_symbol pick strategy_name symbol params fee_rate slippage_bps trades =
     ebind (eval_trades pick symbol slippage_bps trades
       (vwap_init (strategy_name @ ''_'' @ lower symbol) symbol params, eval_start fee_rate))
       (\<lambda>(_, es). Inr (es_signals es, es_fills es))"

section \<open>Pairs trading\<close>

record pairs_eval =
  pe_tracker :: cross_tracker
  pe_strategy :: pairs_strategy
  pe_state :: eval_state
  pe_latest_price :: "(string, real) dict"

definition eval_counterpart :: "eval_env \<Rightarrow> string \<Rightarrow> int \<Rightarrow> pairs_eval \<Rightarrow> pairs_eval" where
  \<comment> \<open>the second leg, priced at the latest trade of the other symbol\<close>
  "eval_counterpart env symbol_b ts pe =
     (let (counterpart, st) = get_counterpart_signal (pe_strategy pe); pe1 = pe\<lparr>pe_strategy := st\<rparr>;
          price_b = dget (pe_latest_price pe) symbol_b 0 in
      case counterpart of
        None \<Rightarrow> pe1
      | Some c \<Rightarrow>
          if 0 < price_b
          then pe1\<lparr>pe_state := execute_signal 1 env ts price_b (price_b * (1 / 10000)) 0
            (c\<lparr>sg_mid_price_at_signal := price_b\<rparr>) (pe_state pe1)\<rparr>
          else pe1)"

definition eval_pair_trade :: "string \<Rightarrow> string \<Rightarrow> eval_env \<times> hist_trade \<Rightarrow> pairs_eval \<Rightarrow> py_error + pairs_eval" where
  "eval_pair_trade symbol_a symbol_b = (\<lambda>(env, t) pe.
     ebind (as_str (dget t ''symbol'' (JStr ''''))) (\<lambda>sym.
     ebind (as_float (dget t ''price'' (JNum 0))) (\<lambda>price.
     if price \<le> 0 \<or> (sym \<noteq> symbol_a \<and> sym \<noteq> symbol_b) then Inr pe
     else let pe1 = pe\<lparr>pe_latest_price := AList.update sym price (pe_latest_price pe)\<rparr> in
       if sym = symbol_a
       then ebind (dict_to_trade t sym) (\<lambda>tr.
         case pairs_on_trade (ee_strategy env) tr (pe_tracker pe1, pe_strategy pe1) of
           (Inl e, _) \<Rightarrow> Inl e
         | (Inr r, ct, st) \<Rightarrow>
             let pe2 = pe1\<lparr>pe_tracker := ct, pe_strategy := st\<rparr> in
             (case r of None \<Rightarrow> Inr pe2
              | Some sig \<Rightarrow>
                  let ts = tr_timestamp_exchange tr in
                  Inr (eval_counterpart env symbol_b ts
                    (pe2\<lparr>pe_state := execute_signal 0 env ts (sg_mid_price_at_signal sig) (sg_spread_at_signal sig) 0 sig
                       (pe_state pe2)\<rparr>))))
       else ebind (as_pyint (dget t ''timestamp_exchange'' (JInt 0))) (\<lambda>te.
         Inr (pe1\<lparr>pe_tracker := on_price sym te price (pe_tracker pe1)\<rparr>)))))"

fun eval_pair_trades :: "string \<Rightarrow> string \<Rightarrow> (eval_env \<times> hist_trade) list \<Rightarrow> pairs_eval \<Rightarrow> py_error + pairs_eval" where
  "eval_pair_trades a b [] pe = Inr pe"
| "eval_pair_trades a b (t # ts) pe = ebind (eval_pair_trade a b t pe) (eval_pair_trades a b ts)"

definition run_pairs_trading :: "string \<Rightarrow> string \<Rightarrow> pairs_params \<Rightarrow> nat \<Rightarrow> real option \<Rightarrow> real \<Rightarrow>
    (eval_env \<times> hist_trade) list \<Rightarrow> py_error + signal list \<times> fill list" where
  \<comment> \<open>the parameter \<open>slippage_bps\<close> is not used\<close>
  "run_pairs_trading symbol_a symbol_b params win fee_rate slippage_bps trades =
     ebind (eval_pair_trades symbol_a symbol_b trades
       \<lparr>pe_tracker = cross_init win,
        pe_strategy = pairs_init (''pairs_'' @ lower symbol_a @ ''_'' @ lower symbol_b) symbol_a symbol_b params,
        pe_state = eval_start fee_rate, pe_latest_price = []\<rparr>)
       (\<lambda>pe. Inr (es_signals (pe_state pe), es_fills (pe_state pe)))"

section \<open>The evaluator\<close>

datatype strategy_type = Mean_Reversion_Type | Momentum_Type | Pairs_Type | Other_Type string

record evaluator_config =
  ec_fee_rate :: "real option"
  ec_slippage_bps :: real
  ec_initial_equity :: real
  ec_strategy_type :: strategy_type
  ec_symbol :: string
  ec_symbol_b :: string

record eval_params =
  ep_fee_rate :: "real option option"  \<comment> \<open>outer \<open>None\<close>: the key is absent\<close>
  ep_slippage_bps :: "real option"
  ep_vwap :: vwap_params
  ep_pairs :: pairs_params
  ep_window :: nat

definition run_strategy :: "evaluator_config \<Rightarrow> (eval_env \<times> hist_trade) list \<Rightarrow> eval_params \<Rightarrow> real option \<Rightarrow> real \<Rightarrow>
    py_error + signal list \<times> fill list" where
  "run_strategy cfg trades params fee_rate slippage_bps =
     (case ec_strategy_type cfg of
        Mean_Reversion_Type \<Rightarrow> run_single_symbol revert_side ''meanreversion'' (ec_symbol cfg) (ep_vwap params) fee_rate slippage_bps trades
      | Momentum_Type \<Rightarrow> run_single_symbol breakout_side ''momentum'' (ec_symbol cfg) (ep_vwap params) fee_rate slippage_bps trades
      | Pairs_Type \<Rightarrow> run_pairs_trading (ec_symbol cfg) (ec_symbol_b cfg) (ep_pairs params) (ep_window params) fee_rate slippage_bps trades
      | Other_Type _ \<Rightarrow> Inr ([], []))"

definition evaluate :: "evaluator_config \<Rightarrow> (eval_env \<times> hist_trade) list \<Rightarrow> eval_params \<Rightarrow> py_error + bt_metrics" where
  "evaluate cfg trades params =
     (let fee_rate = (case ep_fee_rate params of None \<Rightarrow> ec_fee_rate cfg | Some r \<Rightarrow> r);
          slippage_bps = (case ep_slippage_bps params of None \<Rightarrow> ec_slippage_bps cfg | Some s \<Rightarrow> s) in
      ebind (run_strategy cfg trades params fee_rate slippage_bps) (\<lambda>(signals, fills).
      compute_metrics_from_fills fills (ec_initial_equity cfg) (length signals)))"

section \<open>The evaluator runs the live strategies\<close>

definition events_of :: "string \<Rightarrow> eval_env \<times> hist_trade \<Rightarrow> market_event list" where
  \<comment> \<open>what a strategy sees of a historical trade\<close>
  "events_of symbol = (\<lambda>(env, t).
     (case as_float (dget t ''price'' (JNum 0)) of
        Inl _ \<Rightarrow> []
      | Inr p \<Rightarrow> if p \<le> 0 then []
          else (case dict_to_trade t symbol of Inl _ \<Rightarrow> []
            | Inr tr \<Rightarrow> [Book_tick (synthetic_book symbol p), Trade_tick (ee_strategy env) tr])))"

definition unstamped :: "signal \<Rightarrow> signal" where
  "unstamped sig = sig\<lparr>sg_timestamp := 0\<rparr>"

definition filled_as :: "signal \<Rightarrow> fill \<Rightarrow> bool" where
  \<comment> \<open>the fill executes the signal: same symbol, side, full quantity, strategy and time\<close>
  "filled_as sig f \<longleftrightarrow> fl_symbol f = sg_symbol sig \<and> fl_side f = sg_side sig \<and> fl_quantity f = sg_target_quantity sig \<and>
     fl_strategy_id f = sg_strategy_id sig \<and> fl_timestamp f = sg_timestamp sig"

definition eval_ok :: "eval_state \<Rightarrow> bool" where
  "eval_ok es \<longleftrightarrow> list_all2 filled_as (es_signals es) (es_fills es)"

lemma execute_signal_effect:
  "map unstamped (es_signals (execute_signal i env ts mid spread slip sig es)) = map unstamped (es_signals es) @ [unstamped sig]"
  "eval_ok es \<Longrightarrow> eval_ok (execute_signal i env ts mid spread slip sig es)"
  by (auto simp: execute_signal_def Let_def unstamped_def eval_ok_def filled_as_def simulate_fill_def signal_to_order_def
      extra_slippage_def intro!: list_all2_appendI split: prod.split)

lemma eval_trade_effect:
  assumes "eval_trade pick symbol slip t (st, es) = Inr (st', es')"
  shows "\<exists>sigs. signals_of (vwap_step pick) st (events_of symbol t @ rest) = sigs @ signals_of (vwap_step pick) st' rest \<and>
    map unstamped (es_signals es') = map unstamped (es_signals es) @ map unstamped sigs \<and> (eval_ok es \<longrightarrow> eval_ok es')"
proof -
  obtain env h where t: "t = (env, h)" by (cases t)
  obtain price where price: "as_float (dget h ''price'' (JNum 0)) = Inr price"
    using assms by (auto simp: eval_trade_def t ebind_eq_Inr)
  show ?thesis
  proof (cases "price \<le> 0")
    case True
    then show ?thesis using assms price by (auto simp: eval_trade_def t events_of_def)
  next
    case False
    then obtain tr where tr: "dict_to_trade h symbol = Inr tr"
      using assms price by (auto simp: eval_trade_def t ebind_eq_Inr Let_def)
    let ?st1 = "vwap_on_book_update (synthetic_book symbol price) st"
    have ev: "events_of symbol t = [Book_tick (synthetic_book symbol price), Trade_tick (ee_strategy env) tr]"
      using price False tr by (simp add: events_of_def t)
    obtain r st2 where step: "vwap_on_trade pick (ee_strategy env) tr ?st1 = (r, st2)" by fastforce
    show ?thesis
    proof (cases r)
      case (Inl e)
      then show ?thesis using assms price False tr step by (simp add: eval_trade_def t Let_def)
    next
      case (Inr o1)
      show ?thesis
        using assms price False tr step Inr ev
        by (cases o1) (auto simp: eval_trade_def t Let_def execute_signal_effect)
    qed
  qed
qed

lemma eval_trades_effect:
  "eval_trades pick symbol slip ts (st, es) = Inr (st', es') \<Longrightarrow>
   map unstamped (es_signals es') = map unstamped (es_signals es) @
     map unstamped (signals_of (vwap_step pick) st (concat (map (events_of symbol) ts))) \<and> (eval_ok es \<longrightarrow> eval_ok es')"
proof (induction ts arbitrary: st es)
  case (Cons t ts)
  then obtain st1 es1 where t: "eval_trade pick symbol slip t (st, es) = Inr (st1, es1)"
    and ts: "eval_trades pick symbol slip ts (st1, es1) = Inr (st', es')"
    by (auto simp: ebind_eq_Inr)
  from eval_trade_effect [OF t, of "concat (map (events_of symbol) ts)"] Cons.IH [OF ts] show ?case by auto
qed simp

text \<open>
  C27. A backtest runs the strategy itself: the signals that the evaluator of a single-symbol strategy
  collects are, apart from their time stamps, exactly those that the live strategy emits on the
  same trades and books, and every signal is executed by exactly one fill of its full quantity,
  in order.
\<close>

theorem evaluator_runs_live_strategy:
  assumes "run_single_symbol pick strategy_name symbol params fee_rate slippage_bps trades = Inr (signals, fills)"
  shows "map unstamped signals = map unstamped (signals_of (vwap_step pick)
      (vwap_init (strategy_name @ ''_'' @ lower symbol) symbol params) (concat (map (events_of symbol) trades))) \<and>
    list_all2 filled_as signals fills"
proof -
  obtain st es where "eval_trades pick symbol slippage_bps trades
      (vwap_init (strategy_name @ ''_'' @ lower symbol) symbol params, eval_start fee_rate) = Inr (st, es)"
    and "signals = es_signals es" "fills = es_fills es"
    using assms by (auto simp: run_single_symbol_def ebind_eq_Inr)
  moreover have "eval_ok (eval_start fee_rate)" "es_signals (eval_start fee_rate) = []"
    by (simp_all add: eval_start_def eval_ok_def)
  ultimately show ?thesis using eval_trades_effect by (fastforce simp: eval_ok_def)
qed

definition sample_eval_env :: eval_env where
  "sample_eval_env = \<lparr>ee_strategy = \<lparr>se_now = 0, se_uid = ''u'', se_now2 = 0, se_uid2 = ''v''\<rparr>, ee_uid = (\<lambda>_. ''i''), ee_now = 0,
     ee_gauss = (\<lambda>_. 0)\<rparr>"

definition sample_trades :: "(eval_env \<times> hist_trade) list" where
  "sample_trades = map (\<lambda>p. (sample_eval_env, [(''price'', JNum p), (''quantity'', JNum 1)])) [100, 100, 150, 75]"

lemma sample_conversions:
  "dict_to_trade [(''price'', JNum p), (''quantity'', JNum 1)] s = Inr (trade_default\<lparr>tr_symbol := s, tr_price := p, tr_quantity := 1\<rparr>)"
  by (simp add: dict_to_trade_def dget_def trade_default_def)

lemma sample_book:
  "0 < p \<Longrightarrow> vwap_on_book_update (synthetic_book s p) st = st\<lparr>vs_mid_price := Some p, vs_spread := Some (p / 10000),
     vs_feature_engine := on_book_snapshot (Some p) (Some (p / 10000)) 0 (vs_feature_engine st)\<rparr>"
  by (simp add: vwap_on_book_update_def synthetic_book_def Let_def)

lemma sample_eval:
  "\<exists>s f. run_single_symbol revert_side ''meanreversion'' ''BTCUSD'' quick_params None 0 sample_trades = Inr ([s], [f])"
  by (simp add: run_single_symbol_def sample_trades_def eval_trade_def sample_conversions sample_book dget_def
      vwap_on_trade_def vwap_init_def quick_params_def default_params_def feature_on_trade_def on_book_snapshot_def
      feature_init_def Let_def deque_append_def is_warmed_up_def cooldown_elapsed_def decide_def compute_def
      window_vwap_def window_volatility_def sq_dev_def mean_def z_score_of_def revert_side_def vwap_signal_def
      position_size_def py_or_def py_sqrt_def eval_start_def execute_signal_def split_def trade_default_def)

theorem evaluator_runs_live_strategy_witness:
  "\<exists>s f. run_single_symbol revert_side ''meanreversion'' ''BTCUSD'' quick_params None 0 sample_trades = Inr ([s], [f]) \<and>
     filled_as s f"
proof -
  obtain s f where run: "run_single_symbol revert_side ''meanreversion'' ''BTCUSD'' quick_params None 0 sample_trades = Inr ([s], [f])"
    using sample_eval by blast
  from evaluator_runs_live_strategy [OF run] show ?thesis using run by auto
qed

end
