(* ===== verification/Walk_Forward.thy ===== *)
theory Walk_Forward
  imports Py_Base
begin

text \<open>
  \<open>services/backtest/backtest_svc/walk_forward.py\<close>: walk-forward optimisation. The evaluator is the
  protocol \<open>StrategyEvaluator\<close>, an argument: a function from trades and parameters to metrics, which
  may raise. \<open>- math.inf\<close>, the initial best Sharpe ratio, is \<open>None\<close>.
\<close>

section \<open>Folds\<close>

datatype window_type = ROLLING | EXPANDING

record wf_config =
  wc_n_splits :: int
  wc_train_pct :: real
  wc_window_type :: window_type
  wc_min_train_size :: int
  wc_min_test_size :: int

definition wf_default :: wf_config where
  "wf_default = \<lparr>wc_n_splits = 5, wc_train_pct = 7 / 10, wc_window_type = ROLLING, wc_min_train_size = 50,
     wc_min_test_size = 20\<rparr>"

type_synonym fold = "int \<times> int \<times> int \<times> int"  \<comment> \<open>train start and end, test start and end\<close>

fun rolling_folds :: "int \<Rightarrow> real \<Rightarrow> int \<Rightarrow> int \<Rightarrow> nat list \<Rightarrow> fold list" where
  \<comment> \<open>the loop over the splits; \<open>break\<close> ends it\<close>
  "rolling_folds n_trades step train_size test_size [] = []"
| "rolling_folds n_trades step train_size test_size (i # is) =
     (let start = py_int (real i * step); train_end = start + train_size;
          test_end = min (train_end + test_size) n_trades in
      if test_end \<le> train_end then []
      else (start, train_end, train_end, test_end) # rolling_folds n_trades step train_size test_size is)"

fun expanding_folds :: "int \<Rightarrow> int \<Rightarrow> int \<Rightarrow> nat list \<Rightarrow> fold list" where
  "expanding_folds n_trades initial_train test_size [] = []"
| "expanding_folds n_trades initial_train test_size (i # is) =
     (let test_start = initial_train + int i * test_size; test_end = min (test_start + test_size) n_trades in
      if n_trades \<le> test_start \<or> test_end \<le> test_start then []
      else (0, test_start, test_start, test_end) # expanding_folds n_trades initial_train test_size is)"

definition rolling_sizes :: "int \<Rightarrow> int \<Rightarrow> real \<Rightarrow> py_error + (int \<times> int)" where
  \<comment> \<open>training and test size for a number of splits\<close>
  "rolling_sizes n_trades n_splits train_pct =
     ebind (py_div (of_int n_trades) (of_int n_splits)) (\<lambda>fold_size.
     Inr (py_int (fold_size * train_pct), py_int (fold_size * (1 - train_pct))))"

definition rolling_plan :: "int \<Rightarrow> wf_config \<Rightarrow> py_error + (int \<times> int \<times> int)" where
  \<comment> \<open>the number of splits and the sizes, after falling back to fewer splits\<close>
  "rolling_plan n_trades config =
     ebind (rolling_sizes n_trades (wc_n_splits config) (wc_train_pct config)) (\<lambda>(train_size, test_size).
     if train_size < wc_min_train_size config \<or> test_size < wc_min_test_size config
     then (if wc_min_train_size config + wc_min_test_size config = 0 then Inl ZeroDivisionError
       else let n_splits = max 1 (n_trades div (wc_min_train_size config + wc_min_test_size config)) in
         ebind (rolling_sizes n_trades n_splits (wc_train_pct config)) (\<lambda>(train_size, test_size).
         Inr (n_splits, train_size, test_size)))
     else Inr (wc_n_splits config, train_size, test_size))"

definition generate_folds :: "int \<Rightarrow> wf_config \<Rightarrow> py_error + fold list" where
  "generate_folds n_trades config =
     (if n_trades = 0 then Inr []
      else case wc_window_type config of
        ROLLING \<Rightarrow>
          ebind (rolling_plan n_trades config) (\<lambda>(n_splits, train_size, test_size).
          let step = of_int (n_trades - train_size - test_size) / of_int (max (n_splits - 1) 1) in
          Inr (rolling_folds n_trades step train_size test_size [0..<nat n_splits]))
      | EXPANDING \<Rightarrow>
          let n_splits = wc_n_splits config in
          if n_splits = - 1 then Inl ZeroDivisionError
          else let test_size = max (wc_min_test_size config) (n_trades div (n_splits + 1));
                   initial_train = max (wc_min_train_size config) (n_trades - n_splits * test_size) in
            Inr (expanding_folds n_trades initial_train test_size [0..<nat n_splits]))"

section \<open>Optimisation\<close>

type_synonym metrics_dict = "(string, real) dict"
type_synonym ('t, 'p) evaluator = "'t list \<Rightarrow> 'p \<Rightarrow> py_error + metrics_dict"

definition sharpe_of :: "metrics_dict \<Rightarrow> real" where
  "sharpe_of m = dget m ''sharpe'' 0"

fun optimize :: "('t, 'p) evaluator \<Rightarrow> 't list \<Rightarrow> 'p list \<Rightarrow> 'p \<times> real option \<times> metrics_dict \<Rightarrow> py_error + 'p \<times> real option \<times> metrics_dict" where
  \<comment> \<open>the loop over the grid: best parameters, their Sharpe ratio, their metrics\<close>
  "optimize eval data [] best = Inr best"
| "optimize eval data (p # ps) best =
     ebind (eval data p) (\<lambda>m.
     optimize eval data ps
       (case fst (snd best) of
          None \<Rightarrow> (p, Some (sharpe_of m), m)
        | Some b \<Rightarrow> if b < sharpe_of m then (p, Some (sharpe_of m), m) else best))"

record 'p fold_result =
  fo_fold_index :: nat
  fo_bounds :: fold
  fo_best_params :: 'p
  fo_train_sharpe :: real
  fo_test_sharpe :: real
  fo_train_return :: real
  fo_test_return :: real
  fo_train_max_drawdown :: real
  fo_test_max_drawdown :: real
  fo_num_train_trades :: nat
  fo_num_test_trades :: nat

definition slice :: "'t list \<Rightarrow> int \<Rightarrow> int \<Rightarrow> 't list" where
  \<comment> \<open>\<open>xs[a:b]\<close> for bounds that are not negative\<close>
  "slice xs a b = take (nat b - nat a) (drop (nat a) xs)"

definition run_fold :: "('t, 'p) evaluator \<Rightarrow> 'p \<Rightarrow> 'p list \<Rightarrow> 't list \<Rightarrow> nat \<Rightarrow> fold \<Rightarrow> py_error + 'p fold_result" where
  \<comment> \<open>\<open>no_params\<close>: the empty dictionary that stands for the best parameters of an empty grid\<close>
  "run_fold eval no_params grid trades i = (\<lambda>(train_start, train_end, test_start, test_end).
     let train_data = slice trades train_start train_end; test_data = slice trades test_start test_end in
     ebind (optimize eval train_data grid (no_params, None, [])) (\<lambda>(best_params, _, tm).
     ebind (eval test_data best_params) (\<lambda>m.
     Inr \<lparr>fo_fold_index = i, fo_bounds = (train_start, train_end, test_start, test_end),
       fo_best_params = best_params, fo_train_sharpe = sharpe_of tm, fo_test_sharpe = sharpe_of m,
       fo_train_return = dget tm ''total_return'' 0, fo_test_return = dget m ''total_return'' 0,
       fo_train_max_drawdown = dget tm ''max_drawdown'' 0, fo_test_max_drawdown = dget m ''max_drawdown'' 0,
       fo_num_train_trades = length train_data, fo_num_test_trades = length test_data\<rparr>)))"

fun run_folds :: "('t, 'p) evaluator \<Rightarrow> 'p \<Rightarrow> 'p list \<Rightarrow> 't list \<Rightarrow> nat \<Rightarrow> fold list \<Rightarrow> py_error + 'p fold_result list" where
  "run_folds eval no_params grid trades i [] = Inr []"
| "run_folds eval no_params grid trades i (f # fs) =
     ebind (run_fold eval no_params grid trades i f) (\<lambda>r.
     ebind (run_folds eval no_params grid trades (Suc i) fs) (\<lambda>rs. Inr (r # rs)))"

record 'p wf_result =
  wf_folds :: "'p fold_result list"
  wf_mean_test_sharpe :: real
  wf_std_test_sharpe :: real
  wf_mean_test_return :: real
  wf_mean_test_drawdown :: real
  wf_overfitting_ratio :: real
  wf_degradation_pct :: real

definition empty_wf_result :: "'p wf_result" where
  "empty_wf_result = \<lparr>wf_folds = [], wf_mean_test_sharpe = 0, wf_std_test_sharpe = 0, wf_mean_test_return = 0,
     wf_mean_test_drawdown = 0, wf_overfitting_ratio = 0, wf_degradation_pct = 0\<rparr>"

definition aggregate :: "'p fold_result list \<Rightarrow> 'p wf_result" where
  "aggregate fs =
     (if fs = [] then empty_wf_result
      else let test = map fo_test_sharpe fs; mean_test = mean test; mean_train = mean (map fo_train_sharpe fs) in
        \<lparr>wf_folds = fs, wf_mean_test_sharpe = mean_test,
         wf_std_test_sharpe = (if 1 < length test then sqrt (sq_dev test / real (length test)) else 0),
         wf_mean_test_return = mean (map fo_test_return fs), wf_mean_test_drawdown = mean (map fo_test_max_drawdown fs),
         wf_overfitting_ratio = (if mean_test \<noteq> 0 then mean_train / mean_test else 0),
         wf_degradation_pct = (if mean_train \<noteq> 0 then (mean_train - mean_test) / \<bar>mean_train\<bar> * 100 else 0)\<rparr>)"

definition run_walk_forward :: "('t, 'p) evaluator \<Rightarrow> 'p \<Rightarrow> 'p list \<Rightarrow> wf_config \<Rightarrow> 't list \<Rightarrow> py_error + 'p wf_result" where
  "run_walk_forward eval no_params grid config trades =
     ebind (generate_folds (int (length trades)) config) (\<lambda>folds.
     if folds = [] then Inr empty_wf_result
     else ebind (run_folds eval no_params grid trades 0 folds) (\<lambda>fs. Inr (aggregate fs)))"

section \<open>No fold looks ahead\<close>

definition config_ok :: "wf_config \<Rightarrow> bool" where
  "config_ok c \<longleftrightarrow> 0 < wc_n_splits c \<and> 0 \<le> wc_train_pct c \<and> wc_train_pct c \<le> 1 \<and>
     0 \<le> wc_min_train_size c \<and> 0 \<le> wc_min_test_size c"

definition fold_ok :: "int \<Rightarrow> fold \<Rightarrow> bool" where
  \<comment> \<open>the test data follow the training data directly, are not empty, and both lie in the data\<close>
  "fold_ok n = (\<lambda>(a, b, c, d). 0 \<le> a \<and> a \<le> b \<and> b = c \<and> c < d \<and> d \<le> n)"

lemma py_int_nonneg: "0 \<le> x \<Longrightarrow> 0 \<le> py_int x \<and> of_int (py_int x) \<le> x"
  by (simp add: py_int_def)

lemma rolling_sizes_ok:
  assumes "rolling_sizes n k pct = Inr (train, test)" and "0 \<le> n" "0 < k" "0 \<le> pct" "pct \<le> 1"
  shows "0 \<le> train \<and> 0 \<le> test \<and> train + test \<le> n"
proof -
  let ?s = "of_int n / of_int k :: real"
  have s: "0 \<le> ?s" "?s \<le> of_int n" using assms(2,3) by (simp_all add: divide_le_eq mult_le_cancel_left1)
  have eq: "train = py_int (?s * pct)" "test = py_int (?s * (1 - pct))"
    using assms(1,3) by (auto simp: rolling_sizes_def py_div_def)
  have "0 \<le> ?s * pct" "0 \<le> ?s * (1 - pct)" using s(1) assms(4,5) by (auto intro!: mult_nonneg_nonneg simp del: divide_eq_eq times_divide_eq_left)
  with eq have "0 \<le> train" "0 \<le> test" "of_int train \<le> ?s * pct" "of_int test \<le> ?s * (1 - pct)"
    using py_int_nonneg by blast+
  moreover have "x * pct + x * (1 - pct) = x" for x :: real by (simp add: right_diff_distrib)
  then have "?s * pct + ?s * (1 - pct) = ?s" .
  ultimately have "of_int train + of_int test \<le> (of_int n :: real)" using s by linarith
  then have "train + test \<le> n" by (metis of_int_add of_int_le_iff)
  with \<open>0 \<le> train\<close> \<open>0 \<le> test\<close> show ?thesis by simp
qed

lemma rolling_folds_ok:
  assumes "0 \<le> train" "0 \<le> step" and "list_all (\<lambda>i. 0 \<le> real i * step) is"
  shows "list_all (fold_ok n) (rolling_folds n step train test is)"
  using assms(3)
proof (induction "is")
  case (Cons i "is")
  then have "0 \<le> py_int (real i * step)" using py_int_nonneg by simp
  with Cons assms(1) show ?case by (auto simp: fold_ok_def Let_def)
qed simp

lemma expanding_folds_ok:
  assumes "0 \<le> initial" "0 \<le> test"
  shows "list_all (fold_ok n) (expanding_folds n initial test is)"
  using assms by (induction "is") (auto simp: fold_ok_def Let_def)

lemma folds_ok:
  assumes "generate_folds n config = Inr fs" and "config_ok config" and "0 \<le> n"
  shows "list_all (fold_ok n) fs"
proof (cases "n = 0 \<or> wc_window_type config = EXPANDING")
  case True
  have "list_all (fold_ok n) (expanding_folds n (max (wc_min_train_size config) x) (max (wc_min_test_size config) y) is)" for x y "is"
    using assms(2) by (intro expanding_folds_ok) (auto simp: config_ok_def)
  with True assms show ?thesis by (auto simp: generate_folds_def Let_def split: if_splits)
next
  case False
  then obtain k train test where plan: "rolling_plan n config = Inr (k, train, test)"
    and fs: "fs = rolling_folds n (of_int (n - train - test) / of_int (max (k - 1) 1)) train test [0..<nat k]"
    using assms(1) by (cases "wc_window_type config") (auto simp: generate_folds_def ebind_eq_Inr Let_def)
  have "0 \<le> train \<and> 0 \<le> test \<and> train + test \<le> n"
    using plan assms(2,3) rolling_sizes_ok
    by (fastforce simp: rolling_plan_def ebind_eq_Inr config_ok_def Let_def split: if_splits)
  then show ?thesis unfolding fs by (intro rolling_folds_ok) (auto simp: list_all_iff)
qed

section \<open>The best parameters are the best\<close>

lemma optimize_best:
  assumes "optimize eval data ps best = Inr (p, s, m)" and "fst (snd best) = Some b"
  shows "\<exists>b'. s = Some b' \<and> b \<le> b' \<and> list_all (\<lambda>q. \<exists>mq. eval data q = Inr mq \<and> sharpe_of mq \<le> b') ps \<and>
    ((p, s, m) = best \<or> p \<in> set ps \<and> eval data p = Inr m \<and> sharpe_of m = b')"
  using assms
proof (induction ps arbitrary: best b)
  case (Cons q ps)
  obtain mq where mq: "eval data q = Inr mq" using Cons.prems(1) by (auto simp: ebind_eq_Inr)
  show ?case
  proof (cases "b < sharpe_of mq")
    case True
    with Cons.prems mq have "optimize eval data ps (q, Some (sharpe_of mq), mq) = Inr (p, s, m)" by simp
    from Cons.IH [OF this] True mq show ?thesis by fastforce
  next
    case False
    with Cons.prems mq have "optimize eval data ps best = Inr (p, s, m)" by simp
    from Cons.IH [OF this Cons.prems(2)] False mq show ?thesis by fastforce
  qed
qed (cases best; simp)

definition best_on :: "('t, 'p) evaluator \<Rightarrow> 't list \<Rightarrow> 'p list \<Rightarrow> 'p \<Rightarrow> real \<Rightarrow> bool" where
  \<comment> \<open>the parameters are in the grid and no others have a greater Sharpe ratio on the data\<close>
  "best_on eval data grid p s \<longleftrightarrow> p \<in> set grid \<and> (\<exists>m. eval data p = Inr m \<and> sharpe_of m = s) \<and>
     list_all (\<lambda>q. \<exists>m. eval data q = Inr m \<and> sharpe_of m \<le> s) grid"

lemma optimize_best_on:
  assumes "optimize eval data grid (p0, None, m0) = Inr (p, s, m)" and "grid \<noteq> []"
  shows "best_on eval data grid p (sharpe_of m)"
proof -
  obtain q qs where grid: "grid = q # qs" using assms(2) by (cases grid) auto
  obtain mq where mq: "eval data q = Inr mq" using assms(1) grid by (auto simp: ebind_eq_Inr)
  with assms(1) grid have "optimize eval data qs (q, Some (sharpe_of mq), mq) = Inr (p, s, m)" by simp
  from optimize_best [OF this] mq show ?thesis by (auto simp: best_on_def grid)
qed

definition fold_sound :: "('t, 'p) evaluator \<Rightarrow> 'p list \<Rightarrow> 't list \<Rightarrow> 'p fold_result \<Rightarrow> bool" where
  "fold_sound eval grid trades r = (case fo_bounds r of (a, b, c, d) \<Rightarrow>
     fold_ok (int (length trades)) (a, b, c, d) \<and>
     best_on eval (slice trades a b) grid (fo_best_params r) (fo_train_sharpe r) \<and>
     (\<exists>m. eval (slice trades c d) (fo_best_params r) = Inr m \<and> fo_test_sharpe r = sharpe_of m))"

lemma run_fold_sound:
  assumes "run_fold eval p0 grid trades i f = Inr r" and "grid \<noteq> []" and "fold_ok (int (length trades)) f"
  shows "fold_sound eval grid trades r"
proof -
  obtain a b c d where f: "f = (a, b, c, d)" by (cases f)
  obtain p s tm m where "optimize eval (slice trades a b) grid (p0, None, []) = Inr (p, s, tm)"
      "eval (slice trades c d) p = Inr m" "fo_bounds r = f" "fo_best_params r = p" "fo_train_sharpe r = sharpe_of tm"
      "fo_test_sharpe r = sharpe_of m"
    using assms(1) by (auto simp: run_fold_def f ebind_eq_Inr Let_def)
  with optimize_best_on assms(2,3) f show ?thesis by (fastforce simp: fold_sound_def)
qed

lemma run_folds_sound:
  "run_folds eval p0 grid trades i fs = Inr rs \<Longrightarrow> grid \<noteq> [] \<Longrightarrow> list_all (fold_ok (int (length trades))) fs \<Longrightarrow>
   list_all (fold_sound eval grid trades) rs"
proof (induction fs arbitrary: i rs)
  case (Cons f fs)
  then obtain r rs' where "run_fold eval p0 grid trades i f = Inr r" "run_folds eval p0 grid trades (Suc i) fs = Inr rs'"
    "rs = r # rs'"
    by (auto simp: ebind_eq_Inr)
  moreover from this(1) have "fold_sound eval grid trades r" by (rule run_fold_sound) (use Cons.prems in simp_all)
  ultimately show ?case using Cons by simp
qed simp

text \<open>
  C29. Walk-forward results are out of sample: in every fold the parameters are chosen on the training
  data alone, where none of the grid has a greater Sharpe ratio, and the test figure is that of
  exactly these parameters on data that begin where the training data end.
\<close>

theorem walk_forward_out_of_sample:
  assumes "run_walk_forward eval no_params grid config trades = Inr res" and "config_ok config" and "grid \<noteq> []"
  shows "list_all (fold_sound eval grid trades) (wf_folds res)"
proof -
  obtain folds where folds: "generate_folds (int (length trades)) config = Inr folds"
    using assms(1) by (auto simp: run_walk_forward_def ebind_eq_Inr)
  show ?thesis
  proof (cases "folds = []")
    case True
    then show ?thesis using assms(1) folds by (auto simp: run_walk_forward_def empty_wf_result_def)
  next
    case False
    then obtain fs where fs: "run_folds eval no_params grid trades 0 folds = Inr fs" "res = aggregate fs"
      using assms(1) folds by (auto simp: run_walk_forward_def ebind_eq_Inr)
    have "list_all (fold_ok (int (length trades))) folds" using folds_ok [OF folds assms(2)] by simp
    from run_folds_sound [OF fs(1) assms(3) this] fs(2) show ?thesis
      by (simp add: aggregate_def empty_wf_result_def Let_def)
  qed
qed

definition sample_evaluator :: "(int, real) evaluator" where
  "sample_evaluator data p = Inr [(''sharpe'', p * real (length data)), (''total_return'', 1 / 10)]"

lemma sample_folds: "generate_folds 100 wf_default = Inr [(0, 70, 70, 100)]"
  by (simp add: generate_folds_def wf_default_def rolling_plan_def rolling_sizes_def py_int_def Let_def)

theorem walk_forward_out_of_sample_witness:
  "\<exists>res. run_walk_forward sample_evaluator 0 [1, 3, 2] wf_default [1..100] = Inr res \<and> length (wf_folds res) = 1 \<and>
     list_all (fold_sound sample_evaluator [1, 3, 2] [1..100]) (wf_folds res)"
proof -
  have "\<exists>fs. run_folds sample_evaluator 0 [1, 3, 2] [1..100] 0 [(0, 70, 70, 100)] = Inr fs \<and> length fs = 1"
    by (simp add: run_fold_def sample_evaluator_def slice_def sharpe_of_def dget_def Let_def split: prod.split)
  then obtain fs where "run_folds sample_evaluator 0 [1, 3, 2] [1..100] 0 [(0, 70, 70, 100)] = Inr fs" "length fs = 1"
    by blast
  then have run: "run_walk_forward sample_evaluator 0 [1, 3, 2] wf_default [1..100] = Inr (aggregate fs)"
      "length (wf_folds (aggregate fs)) = 1"
    by (auto simp: run_walk_forward_def sample_folds aggregate_def Let_def)
  from walk_forward_out_of_sample [OF run(1)] run show ?thesis
    by (simp add: config_ok_def wf_default_def)
qed

text \<open>
  The documented minimum of trades in a training set is not kept: falling back to a single split,
  30 trades are cut into 21 and 9, although at least 50 and 20 are asked for.
\<close>

theorem short_data_below_minimum:
  "generate_folds 30 wf_default = Inr [(0, 21, 21, 30)] \<and> wc_min_train_size wf_default = 50 \<and> wc_min_test_size wf_default = 20"
  by (simp add: generate_folds_def wf_default_def rolling_plan_def rolling_sizes_def py_int_def Let_def)

end
