(* ===== verification/Monte_Carlo.thy ===== *)
theory Monte_Carlo
  imports Backtest_Metrics
begin

text \<open>
  \<open>services/backtest/backtest_svc/monte_carlo.py\<close>: bootstrap of the returns of a backtest. The random
  number generator is the argument \<open>rand\<close>: \<open>rand n k\<close> is what the \<open>k\<close>-th call \<open>randint(0, n - 1)\<close>
  returns, a number below \<open>n\<close>. The functions thread the number of calls made.
\<close>

section \<open>Returns and their figures\<close>

fun compute_returns :: "real list \<Rightarrow> real list" where
  "compute_returns (a # b # es) = (if a \<noteq> 0 then (b - a) / a else 0) # compute_returns (b # es)"
| "compute_returns _ = []"

definition sharpe_from_returns :: "int \<Rightarrow> real list \<Rightarrow> real" where
  "sharpe_from_returns bucket_ms returns =
     (if length returns < 2 then 0
      else let sd = sqrt (sq_dev returns / real (length returns - 1)) in
        if sd = 0 then 0 else mean returns / sd * sqrt (ms_per_year / of_int bucket_ms))"

fun dd_returns :: "real \<Rightarrow> real \<Rightarrow> real \<Rightarrow> real list \<Rightarrow> real" where
  "dd_returns equity peak max_dd [] = max_dd"
| "dd_returns equity peak max_dd (r # rs) =
     (let equity' = equity * (1 + r); peak' = (if peak < equity' then equity' else peak);
          dd = (if 0 < peak' then (peak' - equity') / peak' else 0) in
      dd_returns equity' peak' (max max_dd dd) rs)"

definition max_drawdown_from_returns :: "real list \<Rightarrow> real" where
  "max_drawdown_from_returns returns = (if returns = [] then 0 else dd_returns 1 1 0 returns)"

definition total_return_from_returns :: "real list \<Rightarrow> real" where
  "total_return_from_returns returns = (if returns = [] then 0 else foldl (\<lambda>cum r. cum * (1 + r)) 1 returns - 1)"

section \<open>Distributions\<close>

record metric_distribution =
  md_metric_name :: string
  md_mean :: real
  md_std :: real
  md_median :: real
  md_confidence_intervals :: "(real \<times> real) list"  \<comment> \<open>level, value\<close>
  md_simulated_values :: "real list"

definition quantile_index :: "nat \<Rightarrow> real \<Rightarrow> nat" where
  "quantile_index n level = nat (max 0 (min (py_int (level * real n)) (int n - 1)))"

definition build_distribution :: "real list \<Rightarrow> string \<Rightarrow> real list \<Rightarrow> metric_distribution" where
  "build_distribution values metric_name confidence_levels =
     (if values = [] then \<lparr>md_metric_name = metric_name, md_mean = 0, md_std = 0, md_median = 0,
        md_confidence_intervals = [], md_simulated_values = []\<rparr>
      else let sorted_vals = sort values; n = length sorted_vals in
        \<lparr>md_metric_name = metric_name, md_mean = mean sorted_vals, md_std = sqrt (sq_dev sorted_vals / real n),
         md_median = sorted_vals ! (n div 2),
         md_confidence_intervals = map (\<lambda>level. (level, sorted_vals ! quantile_index n level)) confidence_levels,
         md_simulated_values = values\<rparr>)"

section \<open>Resampling\<close>

type_synonym rng = "nat \<Rightarrow> nat \<Rightarrow> nat"

definition rng_ok :: "rng \<Rightarrow> bool" where
  "rng_ok rand \<longleftrightarrow> (\<forall>n k. 0 < n \<longrightarrow> rand n k < n)"

function block_loop :: "rng \<Rightarrow> real list \<Rightarrow> nat \<Rightarrow> nat \<Rightarrow> real list \<Rightarrow> real list \<times> nat" where
  \<comment> \<open>the \<open>while\<close> loop; the caller has a block size of at least 2\<close>
  "block_loop rand returns block_size k resampled =
     (if length returns \<le> length resampled \<or> block_size = 0 then (resampled, k)
      else let n = length returns; start = rand n k in
        block_loop rand returns block_size (k + 1)
          (resampled @ take (n - length resampled) (map (\<lambda>j. returns ! ((start + j) mod n)) [0..<block_size])))"
  by pat_completeness auto
termination
  by (relation "measure (\<lambda>(rand, returns, block_size, k, resampled). length returns - length resampled)") (auto simp: Let_def)

declare block_loop.simps [simp del]

definition resample_returns :: "rng \<Rightarrow> real list \<Rightarrow> nat \<Rightarrow> nat \<Rightarrow> real list \<times> nat" where
  "resample_returns rand returns block_size k =
     (let n = length returns in
      if n = 0 then ([], k)
      else if block_size \<le> 1 then (map (\<lambda>i. returns ! rand n (k + i)) [0..<n], k + n)
      else let (rs, k') = block_loop rand returns block_size k [] in (take n rs, k'))"

section \<open>The simulation\<close>

record mc_config =
  mc_n_simulations :: nat
  mc_block_size :: nat
  mc_confidence_levels :: "real list"

definition mc_default :: mc_config where
  "mc_default = \<lparr>mc_n_simulations = 1000, mc_block_size = 1,
     mc_confidence_levels = [5 / 100, 25 / 100, 50 / 100, 75 / 100, 95 / 100]\<rparr>"

record mc_result =
  mr_n_simulations :: nat
  mr_observed_sharpe :: real
  mr_observed_max_drawdown :: real
  mr_observed_total_return :: real
  mr_sharpe_distribution :: metric_distribution
  mr_drawdown_distribution :: metric_distribution
  mr_return_distribution :: metric_distribution
  mr_prob_positive_sharpe :: real
  mr_prob_sharpe_above_1 :: real

definition empty_mc_result :: mc_result where
  "empty_mc_result = \<lparr>mr_n_simulations = 0, mr_observed_sharpe = 0, mr_observed_max_drawdown = 0,
     mr_observed_total_return = 0, mr_sharpe_distribution = build_distribution [] '''' [],
     mr_drawdown_distribution = build_distribution [] '''' [], mr_return_distribution = build_distribution [] '''' [],
     mr_prob_positive_sharpe = 0, mr_prob_sharpe_above_1 = 0\<rparr>"

fun simulations :: "rng \<Rightarrow> real list \<Rightarrow> nat \<Rightarrow> nat \<Rightarrow> nat \<Rightarrow> real list list" where
  \<comment> \<open>the resampled returns of each simulation\<close>
  "simulations rand returns block_size 0 k = []"
| "simulations rand returns block_size (Suc m) k =
     (let (rs, k') = resample_returns rand returns block_size k in rs # simulations rand returns block_size m k')"

definition share_above :: "real \<Rightarrow> real list \<Rightarrow> real" where
  "share_above x xs = real (length (filter (\<lambda>s. x < s) xs)) / real (length xs)"

definition run_monte_carlo :: "rng \<Rightarrow> real list \<Rightarrow> mc_config \<Rightarrow> int \<Rightarrow> mc_result" where
  "run_monte_carlo rand equity_curve config bucket_ms =
     (let returns = compute_returns equity_curve in
      if returns = [] then empty_mc_result
      else let sims = simulations rand returns (mc_block_size config) (mc_n_simulations config) 0;
               sim_sharpes = map (sharpe_from_returns bucket_ms) sims; levels = mc_confidence_levels config in
        \<lparr>mr_n_simulations = mc_n_simulations config,
         mr_observed_sharpe = sharpe_from_returns bucket_ms returns,
         mr_observed_max_drawdown = max_drawdown_from_returns returns,
         mr_observed_total_return = total_return_from_returns returns,
         mr_sharpe_distribution = build_distribution sim_sharpes ''sharpe'' levels,
         mr_drawdown_distribution = build_distribution (map max_drawdown_from_returns sims) ''max_drawdown'' levels,
         mr_return_distribution = build_distribution (map total_return_from_returns sims) ''total_return'' levels,
         mr_prob_positive_sharpe = (if sim_sharpes \<noteq> [] then share_above 0 sim_sharpes else 0),
         mr_prob_sharpe_above_1 = (if sim_sharpes \<noteq> [] then share_above 1 sim_sharpes else 0)\<rparr>)"

section \<open>Samples are samples\<close>

lemma block_loop_sound:
  assumes "rng_ok rand" and "0 < block_size" and "set acc \<subseteq> set returns" and "length acc \<le> length returns"
  shows "set (fst (block_loop rand returns block_size k acc)) \<subseteq> set returns \<and>
    length (fst (block_loop rand returns block_size k acc)) = length returns"
  using assms
proof (induction rand returns block_size k acc rule: block_loop.induct)
  case (1 rand returns block_size k acc)
  show ?case
  proof (cases "length returns \<le> length acc")
    case True
    then show ?thesis using 1 by (subst (1 2) block_loop.simps) auto
  next
    case False
    define n where "n = length returns"
    define new where "new = take (n - length acc) (map (\<lambda>j. returns ! ((rand n k + j) mod n)) [0..<block_size])"
    have "0 < n" using False by (cases returns) (simp_all add: n_def)
    then have "set new \<subseteq> set returns"
      using set_take_subset unfolding new_def n_def by (fastforce simp: n_def)
    moreover have "length new \<le> n - length acc" by (simp add: new_def)
    ultimately have "set (acc @ new) \<subseteq> set returns" "length (acc @ new) \<le> length returns"
      using 1(4) False by (auto simp: n_def)
    moreover have "block_loop rand returns block_size k acc = block_loop rand returns block_size (k + 1) (acc @ new)"
      using False 1(3) by (subst block_loop.simps) (simp add: Let_def new_def n_def)
    ultimately show ?thesis using 1 False by (simp add: Let_def new_def n_def)
  qed
qed

lemma resample_sound:
  assumes "rng_ok rand"
  shows "set (fst (resample_returns rand returns block_size k)) \<subseteq> set returns \<and>
    length (fst (resample_returns rand returns block_size k)) = length returns"
proof (cases "returns = [] \<or> block_size \<le> 1")
  case True
  with assms show ?thesis by (auto simp: resample_returns_def Let_def rng_ok_def)
next
  case False
  with block_loop_sound [OF assms, of block_size "[]" returns k] show ?thesis
    by (simp add: resample_returns_def Let_def split_def)
qed

lemma simulations_sound:
  assumes "rng_ok rand"
  shows "length (simulations rand returns block_size m k) = m \<and>
    list_all (\<lambda>rs. set rs \<subseteq> set returns \<and> length rs = length returns) (simulations rand returns block_size m k)"
  using resample_sound [OF assms]
  by (induction m arbitrary: k) (auto simp: split_def Let_def)

section \<open>Figures of positive equity\<close>

lemma compute_returns_ge: "list_all (\<lambda>e. 0 < e) es \<Longrightarrow> r \<in> set (compute_returns es) \<Longrightarrow> - 1 < r"
  by (induction es rule: compute_returns.induct) (auto simp: pos_less_divide_eq minus_less_iff)

lemma dd_returns_bounds:
  assumes "list_all (\<lambda>r. - 1 < r) rs" "0 < equity" "equity \<le> peak" "0 \<le> m" "m < 1"
  shows "0 \<le> dd_returns equity peak m rs \<and> dd_returns equity peak m rs < 1"
  using assms
proof (induction rs arbitrary: equity peak m)
  case (Cons r rs)
  define e where "e = equity * (1 + r)"
  define p where "p = (if peak < e then e else peak)"
  have e: "0 < e" using Cons.prems by (simp add: e_def)
  then have p: "0 < p" "e \<le> p" using Cons.prems(2,3) by (auto simp: p_def)
  then have "0 \<le> (p - e) / p" "(p - e) / p < 1" using e by (simp_all add: divide_less_eq)
  then have "0 \<le> dd_returns e p (max m ((p - e) / p)) rs \<and> dd_returns e p (max m ((p - e) / p)) rs < 1"
    using Cons.IH [of e p "max m ((p - e) / p)"] Cons.prems e p by simp
  then show ?case using p by (simp add: Let_def flip: e_def p_def)
qed simp

lemma total_return_above:
  "list_all (\<lambda>r. - 1 < r) rs \<Longrightarrow> 0 < c \<Longrightarrow> 0 < foldl (\<lambda>cum r. cum * (1 + r)) (c :: real) rs"
proof (induction rs arbitrary: c)
  case (Cons a rs)
  from Cons.prems have "- 1 < a" "0 < c" by simp_all
  then have "0 < c * (1 + a)" by (intro mult_pos_pos) linarith+
  with Cons show ?case by simp
qed simp

section \<open>Quantiles\<close>

lemma quantile_index_less: "0 < n \<Longrightarrow> quantile_index n level < n"
  by (simp add: quantile_index_def nat_less_iff)

lemma py_int_mono: "x \<le> y \<Longrightarrow> py_int x \<le> py_int y"
proof -
  assume "x \<le> y"
  moreover have "\<lceil>x\<rceil> \<le> \<lfloor>y\<rfloor>" if "\<not> 0 \<le> x" "0 \<le> y"
    using that order_trans [of "\<lceil>x\<rceil>" 0 "\<lfloor>y\<rfloor>"] by simp
  ultimately show ?thesis by (auto simp: py_int_def floor_mono ceiling_mono)
qed

lemma quantile_index_mono: "a \<le> b \<Longrightarrow> quantile_index n a \<le> quantile_index n b"
  unfolding quantile_index_def
  by (intro nat_mono max.mono min.mono py_int_mono mult_right_mono) auto

text \<open>Every reported quantile is one of the simulated values, and a higher level never has a smaller one.\<close>

definition quantiles_ok :: "real list \<Rightarrow> metric_distribution \<Rightarrow> bool" where
  "quantiles_ok levels d \<longleftrightarrow> map fst (md_confidence_intervals d) = levels \<and>
     list_all (\<lambda>(_, v). v \<in> set (md_simulated_values d)) (md_confidence_intervals d) \<and>
     (sorted levels \<longrightarrow> sorted (map snd (md_confidence_intervals d))) \<and> md_median d \<in> set (md_simulated_values d)"

lemma build_distribution_ok:
  assumes "values \<noteq> []"
  shows "quantiles_ok levels (build_distribution values name levels) \<and>
    md_simulated_values (build_distribution values name levels) = values"
proof -
  define vs where "vs = sort values"
  have vs: "length vs = length values" "set vs = set values" "sorted vs" "0 < length vs"
    using assms by (auto simp: vs_def)
  have nth: "vs ! quantile_index (length vs) l \<in> set values" for l
    using vs quantile_index_less [of "length vs" l] nth_mem by metis
  have "length vs div 2 < length vs" using vs(4) by simp
  then have "vs ! (length vs div 2) \<in> set values" using vs(2) nth_mem by metis
  moreover have "sorted (map (\<lambda>l. vs ! quantile_index (length vs) l) levels)" if "sorted levels"
    using that
  proof (induction levels)
    case (Cons l levels)
    have "vs ! quantile_index (length vs) l \<le> vs ! quantile_index (length vs) l'" if "l \<le> l'" for l'
      using vs(3) quantile_index_mono [OF that] quantile_index_less [OF vs(4)] by (intro sorted_nth_mono)
    with Cons show ?case by simp
  qed simp
  ultimately show ?thesis
    using assms nth
    by (simp add: build_distribution_def quantiles_ok_def Let_def o_def list_all_iff flip: vs_def)
qed

lemma share_above_bounds: "0 \<le> share_above x xs \<and> share_above x xs \<le> 1"
  by (cases "xs = []") (simp_all add: share_above_def)

lemma share_above_antimono: "x \<le> y \<Longrightarrow> share_above y xs \<le> share_above x xs"
proof -
  assume "x \<le> y"
  then have "length (filter (\<lambda>s. y < s) xs) \<le> length (filter (\<lambda>s. x < s) xs)"
    by (induction xs) auto
  then show ?thesis by (simp add: share_above_def divide_right_mono)
qed



end
