(* ===== verification/Sensitivity_Sweep.thy ===== *)
theory Sensitivity_Sweep
  imports Py_Lists
begin

text \<open>
  \<open>services/backtest/backtest_svc/sensitivity_sweep.py\<close>: how a strategy's result depends on the
  assumed costs. The evaluator is the protocol \<open>CostAwareEvaluator\<close>, an argument, as in
  walk-forward; parameters are dictionaries of numbers.
\<close>

type_synonym cost_params = "(string, real) dict"
type_synonym 't cost_evaluator = "'t list \<Rightarrow> cost_params \<Rightarrow> py_error + (string, real) dict"

record sweep_config =
  sc_fee_rates :: "real list"
  sc_slippage_bps :: "real list"
  sc_latency_ms :: "real list"
  sc_sweep_dimensions :: "string list"

definition sweep_default :: sweep_config where
  "sweep_default = \<lparr>sc_fee_rates = [1 / 1000, 2 / 1000, 4 / 1000, 6 / 1000, 8 / 1000, 10 / 1000],
     sc_slippage_bps = [0, 1, 5 / 2, 5, 10, 20], sc_latency_ms = [10, 25, 50, 100, 200],
     sc_sweep_dimensions = [''fee_rate'', ''slippage_bps'']\<rparr>"

record sweep_point =
  sp_fee_rate :: real
  sp_slippage_bps :: real
  sp_latency_ms :: real
  sp_sharpe :: real
  sp_total_return :: real
  sp_max_drawdown :: real
  sp_total_costs :: real
  sp_cost_as_pct_of_pnl :: real
  sp_num_trades :: int
  sp_net_profitable :: bool

definition sweep_point_default :: sweep_point where
  "sweep_point_default = \<lparr>sp_fee_rate = 0, sp_slippage_bps = 0, sp_latency_ms = 50, sp_sharpe = 0, sp_total_return = 0,
     sp_max_drawdown = 0, sp_total_costs = 0, sp_cost_as_pct_of_pnl = 0, sp_num_trades = 0, sp_net_profitable = True\<rparr>"

record breakeven_analysis =
  be_max_fee_rate :: real
  be_max_slippage_bps :: real
  be_max_latency_ms :: real

record sweep_result =
  sw_points :: "sweep_point list"
  sw_breakeven :: breakeven_analysis
  sw_best_case :: sweep_point
  sw_worst_case :: sweep_point
  sw_sharpe_sensitivity_to_fees :: real
  sw_sharpe_sensitivity_to_slippage :: real

definition empty_sweep :: sweep_result where
  "empty_sweep = \<lparr>sw_points = [], sw_breakeven = \<lparr>be_max_fee_rate = 0, be_max_slippage_bps = 0, be_max_latency_ms = 0\<rparr>,
     sw_best_case = sweep_point_default, sw_worst_case = sweep_point_default,
     sw_sharpe_sensitivity_to_fees = 0, sw_sharpe_sensitivity_to_slippage = 0\<rparr>"

definition compute_sensitivity :: "(sweep_point \<Rightarrow> real) \<Rightarrow> sweep_point list \<Rightarrow> real" where
  \<comment> \<open>\<open>dimension\<close> is the field that \<open>getattr\<close> reads\<close>
  "compute_sensitivity dimension points =
     (if length points < 2 then 0
      else let grouped = group_by (map (\<lambda>p. (dimension p, sp_sharpe p)) points);
               x_vals = sort (map fst grouped) in
        if length x_vals < 2 then 0
        else let y_means = map (\<lambda>x. mean (dget grouped x [])) x_vals; dx = last x_vals - hd x_vals in
          if dx = 0 then 0 else (last y_means - hd y_means) / dx)"

definition sweep_dims :: "sweep_config \<Rightarrow> (string, real list) dict" where
  "sweep_dims config = foldl (\<lambda>dims name.
     if name = ''fee_rate'' then AList.update name (sc_fee_rates config) dims
     else if name = ''slippage_bps'' then AList.update name (sc_slippage_bps config) dims
     else if name = ''latency_ms'' then AList.update name (sc_latency_ms config) dims
     else dims) [] (sc_sweep_dimensions config)"

definition sweep_point_of :: "cost_params \<Rightarrow> cost_params \<Rightarrow> (string, real) dict \<Rightarrow> sweep_point" where
  "sweep_point_of base_params cost_params m =
     (let total_return = dget m ''total_return'' 0; total_costs = dget m ''total_costs'' 0 in
      \<lparr>sp_fee_rate = dget cost_params ''fee_rate'' (dget base_params ''fee_rate'' (6 / 1000)),
       sp_slippage_bps = dget cost_params ''slippage_bps'' (dget base_params ''slippage_bps'' 0),
       sp_latency_ms = dget cost_params ''latency_ms'' (dget base_params ''latency_ms'' 50),
       sp_sharpe = dget m ''sharpe'' 0, sp_total_return = total_return, sp_max_drawdown = dget m ''max_drawdown'' 0,
       sp_total_costs = total_costs,
       sp_cost_as_pct_of_pnl = (if total_return \<noteq> 0 then \<bar>total_costs / total_return * 100\<bar> else 0),
       sp_num_trades = py_int (dget m ''num_trades'' 0), sp_net_profitable = (0 < total_return)\<rparr>)"

fun sweep_points :: "'t cost_evaluator \<Rightarrow> 't list \<Rightarrow> cost_params \<Rightarrow> string list \<Rightarrow> real list list \<Rightarrow> py_error + sweep_point list" where
  \<comment> \<open>the loop over the combinations\<close>
  "sweep_points eval trades base_params names [] = Inr []"
| "sweep_points eval trades base_params names (combo # combos) =
     (let cost_params = zip names combo; merged = dict_merge base_params cost_params in
      ebind (eval trades merged) (\<lambda>m.
      ebind (sweep_points eval trades base_params names combos) (\<lambda>ps.
      Inr (sweep_point_of base_params cost_params m # ps))))"

definition max_profitable :: "(sweep_point \<Rightarrow> real) \<Rightarrow> sweep_point list \<Rightarrow> real" where
  "max_profitable key points =
     (case sort_desc key (filter sp_net_profitable points) of [] \<Rightarrow> 0 | p # _ \<Rightarrow> key p)"

definition sweep_summary :: "sweep_point list \<Rightarrow> sweep_result" where
  "sweep_summary points =
     \<lparr>sw_points = points,
      sw_breakeven = \<lparr>be_max_fee_rate = max_profitable sp_fee_rate points,
        be_max_slippage_bps = max_profitable sp_slippage_bps points,
        be_max_latency_ms = max_profitable sp_latency_ms points\<rparr>,
      sw_best_case = max_by sp_sharpe points, sw_worst_case = min_by sp_sharpe points,
      sw_sharpe_sensitivity_to_fees = compute_sensitivity sp_fee_rate points,
      sw_sharpe_sensitivity_to_slippage = compute_sensitivity sp_slippage_bps points\<rparr>"

definition run_sensitivity_sweep :: "'t cost_evaluator \<Rightarrow> 't list \<Rightarrow> cost_params \<Rightarrow> sweep_config \<Rightarrow> py_error + sweep_result" where
  "run_sensitivity_sweep eval trades base_params config =
     (let dims = sweep_dims config in
      if dims = [] then Inr empty_sweep
      else ebind (sweep_points eval trades base_params (map fst dims) (product_lists (map snd dims))) (\<lambda>points.
        Inr (if points = [] then empty_sweep else sweep_summary points)))"

section \<open>What the summary says\<close>

lemma max_profitable_spec:
  "(if list_ex sp_net_profitable points
    then list_ex (\<lambda>p. sp_net_profitable p \<and> key p = max_profitable key points) points
    else max_profitable key points = 0) \<and>
   list_all (\<lambda>p. sp_net_profitable p \<longrightarrow> key p \<le> max_profitable key points) points"
proof (cases "sort_desc key (filter sp_net_profitable points)")
  case Nil
  then have "filter sp_net_profitable points = []"
    by (metis sort_desc_props(3) length_0_conv)
  then have "list_all (\<lambda>p. \<not> sp_net_profitable p) points" by (simp add: filter_empty_conv list_all_iff)
  then show ?thesis using Nil by (auto simp: max_profitable_def list_all_iff list_ex_iff)
next
  case (Cons p ps)
  then have "p \<in> set (filter sp_net_profitable points)" by (metis sort_desc_props(2) list.set_intros(1))
  moreover have "max_profitable key points = key p" by (simp add: max_profitable_def Cons)
  moreover have "key q \<le> key p" if "q \<in> set (filter sp_net_profitable points)" for q
    using sort_desc_hd [OF that, of key] Cons by simp
  ultimately show ?thesis by (auto simp: list_all_iff list_ex_iff)
qed

lemma sweep_points_length:
  "sweep_points eval trades base names combos = Inr ps \<Longrightarrow> length ps = length combos"
  by (induction combos arbitrary: ps) (auto simp: ebind_eq_Inr Let_def)

definition breakeven_exact :: "(sweep_point \<Rightarrow> real) \<Rightarrow> real \<Rightarrow> sweep_point list \<Rightarrow> bool" where
  "breakeven_exact key x points \<longleftrightarrow>
     (if list_ex sp_net_profitable points then list_ex (\<lambda>p. sp_net_profitable p \<and> key p = x) points else x = 0) \<and>
     list_all (\<lambda>p. sp_net_profitable p \<longrightarrow> key p \<le> x) points"

text \<open>
  A sweep evaluates every combination of the swept costs, and its break-even figures are exact on
  the grid: a figure is the greatest fee, slippage or latency at which some combination was
  profitable, 0 if none was; best and worst case are points of the sweep with the greatest and
  the smallest Sharpe ratio.
\<close>

theorem sweep_breakeven_exact:
  assumes "run_sensitivity_sweep eval trades base_params config = Inr res" and "sw_points res \<noteq> []"
  shows "length (sw_points res) = prod_list (map (length \<circ> snd) (sweep_dims config)) \<and>
    breakeven_exact sp_fee_rate (be_max_fee_rate (sw_breakeven res)) (sw_points res) \<and>
    breakeven_exact sp_slippage_bps (be_max_slippage_bps (sw_breakeven res)) (sw_points res) \<and>
    breakeven_exact sp_latency_ms (be_max_latency_ms (sw_breakeven res)) (sw_points res) \<and>
    sw_best_case res \<in> set (sw_points res) \<and> sw_worst_case res \<in> set (sw_points res) \<and>
    list_all (\<lambda>p. sp_sharpe (sw_worst_case res) \<le> sp_sharpe p \<and> sp_sharpe p \<le> sp_sharpe (sw_best_case res)) (sw_points res)"
proof -
  obtain points where points: "sweep_points eval trades base_params (map fst (sweep_dims config))
      (product_lists (map snd (sweep_dims config))) = Inr points" "points \<noteq> []" "res = sweep_summary points"
    using assms
    by (cases "sweep_points eval trades base_params (map fst (sweep_dims config)) (product_lists (map snd (sweep_dims config)))")
      (auto simp: run_sensitivity_sweep_def empty_sweep_def sweep_summary_def Let_def split: if_splits)
  have "breakeven_exact key (max_profitable key points) points" for key
    unfolding breakeven_exact_def by (rule max_profitable_spec)
  moreover have "length points = prod_list (map (length \<circ> snd) (sweep_dims config))"
    using sweep_points_length [OF points(1)] by (simp add: length_product_lists_replicate o_def)
  ultimately show ?thesis
    using max_by_spec [OF points(2), of sp_sharpe] min_by_spec [OF points(2), of sp_sharpe]
    by (auto simp: points(3) sweep_summary_def list_all_iff)
qed

definition toy_evaluator :: "int cost_evaluator" where
  "toy_evaluator trades p = Inr [(''sharpe'', 2 - 100 * dget p ''fee_rate'' 0), (''total_return'', 1 / 200 - dget p ''fee_rate'' 0)]"

theorem sweep_breakeven_exact_witness:
  "\<exists>res. run_sensitivity_sweep toy_evaluator [] [] (sweep_default\<lparr>sc_sweep_dimensions := [''fee_rate'']\<rparr>) = Inr res \<and>
     breakeven_exact sp_fee_rate (be_max_fee_rate (sw_breakeven res)) (sw_points res) \<and> length (sw_points res) = 6"
proof -
  have dims: "sweep_dims (sweep_default\<lparr>sc_sweep_dimensions := [''fee_rate'']\<rparr>) =
      [(''fee_rate'', [1 / 1000, 2 / 1000, 4 / 1000, 6 / 1000, 8 / 1000, 10 / 1000])]"
    by (simp add: sweep_dims_def sweep_default_def)
  have "\<exists>ps. sweep_points toy_evaluator [] [] [''fee_rate''] (product_lists [[1 / 1000, 2 / 1000, 4 / 1000, 6 / 1000, 8 / 1000, 10 / 1000]]) = Inr ps \<and> ps \<noteq> []"
    by (simp add: toy_evaluator_def Let_def)
  then obtain ps where "sweep_points toy_evaluator [] [] [''fee_rate'']
      (product_lists [[1 / 1000, 2 / 1000, 4 / 1000, 6 / 1000, 8 / 1000, 10 / 1000]]) = Inr ps" "ps \<noteq> []"
    by blast
  then have run: "run_sensitivity_sweep toy_evaluator [] [] (sweep_default\<lparr>sc_sweep_dimensions := [''fee_rate'']\<rparr>) = Inr (sweep_summary ps)"
    "sw_points (sweep_summary ps) \<noteq> []"
    by (simp_all add: run_sensitivity_sweep_def dims sweep_summary_def)
  from sweep_breakeven_exact [OF run] run show ?thesis by (simp add: dims)
qed

end
