(* ===== verification/Param_Sensitivity.thy ===== *)
theory Param_Sensitivity
  imports Walk_Forward Py_Lists Py_Strings
begin

text \<open>
  Parameter search, \<open>backtest_svc/param_sensitivity.py\<close>: the full grid or random samples of
  the parameters are evaluated, and the impact of every parameter on the Sharpe ratio is
  summarised. The pseudo random generator is a source of draws: \<open>choose k n\<close> is the index its
  \<open>k\<close>-th draw picks below \<open>n\<close>, \<open>rand k\<close> the number in \<open>[0, 1)\<close> it yields. Parameter values are
  numbers (Python's \<open>1\<close>, \<open>1.0\<close> and \<open>True\<close> are one key) or strings.
\<close>

datatype pvalue = PNone | PNum real | PStr string

type_synonym pdict = "(string, pvalue) dict"

datatype search_method = GRID | RANDOM

record param_range =
  pr_name :: string
  pr_values :: "pvalue list"
  pr_low :: real
  pr_high :: real
  pr_log_scale :: bool
  pr_dtype :: string

record sens_point =
  sn_params :: pdict
  sn_sharpe :: real
  sn_total_return :: real
  sn_max_drawdown :: real
  sn_num_trades :: int
  sn_metrics :: metrics_dict

record param_impact =
  pi_param_name :: string
  pi_correlation_with_sharpe :: real
  pi_best_value :: pvalue
  pi_worst_value :: pvalue
  pi_sharpe_range :: real

record sens_result =
  sr_points :: "sens_point list"
  sr_best_params :: pdict
  sr_best_sharpe :: "real option"  \<comment> \<open>None: minus infinity\<close>
  sr_param_impacts :: "param_impact list"
  sr_search_method :: search_method
  sr_num_evaluations :: nat

section \<open>Search spaces\<close>

definition build_grid :: "param_range list \<Rightarrow> pdict list" where
  "build_grid param_ranges =
     (if param_ranges = [] then [[]]
      else let names = map pr_name param_ranges in
        map (\<lambda>combo. dict_merge [] (zip names combo)) (product_lists (map pr_values param_ranges)))"

record draws =
  dr_choose :: "nat \<Rightarrow> nat \<Rightarrow> nat"
  dr_rand :: "nat \<Rightarrow> real"

definition uniform :: "draws \<Rightarrow> nat \<Rightarrow> real \<Rightarrow> real \<Rightarrow> real" where
  "uniform rng k a b = a + (b - a) * dr_rand rng k"

definition typed :: "param_range \<Rightarrow> real \<Rightarrow> pvalue" where
  "typed p v = PNum (if pr_dtype p = ''int'' then of_int (round_half_even v) else v)"

definition sample_value :: "draws \<Rightarrow> nat \<Rightarrow> param_range \<Rightarrow> pvalue" where
  "sample_value rng k p =
     (if pr_values p \<noteq> [] then pr_values p ! dr_choose rng k (length (pr_values p))
      else if pr_log_scale p then
        let log_low = ln (max (pr_low p) (1 / 10 ^ 10)); log_high = ln (max (pr_high p) (1 / 10 ^ 10)) in
        typed p (exp (uniform rng k log_low log_high))
      else typed p (uniform rng k (pr_low p) (pr_high p)))"

fun sample_combo :: "draws \<Rightarrow> nat \<Rightarrow> param_range list \<Rightarrow> pdict \<Rightarrow> pdict" where
  "sample_combo rng k [] combo = combo"
| "sample_combo rng k (p # ps) combo = sample_combo rng (Suc k) ps (AList.update (pr_name p) (sample_value rng k p) combo)"

definition build_random_samples :: "draws \<Rightarrow> param_range list \<Rightarrow> nat \<Rightarrow> pdict list" where
  "build_random_samples rng param_ranges n_samples =
     map (\<lambda>i. sample_combo rng (i * length param_ranges) param_ranges []) [0..<n_samples]"

section \<open>Impact of a parameter\<close>

definition pearson :: "real list \<Rightarrow> real list \<Rightarrow> real" where
  "pearson x y =
     (let n = real (length x) in
      if length x < 2 then 0
      else let cov = co_dev x y / n; sx = sqrt (sq_dev x / n); sy = sqrt (sq_dev y / n) in
        if sx = 0 \<or> sy = 0 then 0 else cov / (sx * sy))"

fun pvalue_float :: "pvalue \<Rightarrow> py_error + real" where
  \<comment> \<open>\<open>float(v)\<close>\<close>
  "pvalue_float PNone = Inl TypeError"
| "pvalue_float (PNum x) = Inr x"
| "pvalue_float (PStr s) = float_of_str s"

definition sharpes_by_value :: "string \<Rightarrow> sens_point list \<Rightarrow> (pvalue, real list) dict" where
  "sharpes_by_value name points = group_by
     (map (\<lambda>pt. (dget (sn_params pt) name PNone, sn_sharpe pt)) (filter (\<lambda>pt. dget (sn_params pt) name PNone \<noteq> PNone) points))"

definition mean_sharpes :: "string \<Rightarrow> sens_point list \<Rightarrow> (pvalue, real) dict" where
  "mean_sharpes name points = map (\<lambda>(v, s). (v, mean s)) (sharpes_by_value name points)"

definition param_impact_of :: "string \<Rightarrow> (pvalue, real) dict \<Rightarrow> param_impact" where
  "param_impact_of name means =
     (let sharpes = map snd means in
      \<lparr>pi_param_name = name,
       pi_correlation_with_sharpe = (case emap pvalue_float (map fst means) of Inl _ \<Rightarrow> 0 | Inr xs \<Rightarrow> pearson xs sharpes),
       pi_best_value = fst (max_by snd means), pi_worst_value = fst (min_by snd means),
       pi_sharpe_range = py_max sharpes - py_min sharpes\<rparr>)"

definition compute_param_impacts :: "sens_point list \<Rightarrow> string list \<Rightarrow> param_impact list" where
  "compute_param_impacts points param_names = sort_desc pi_sharpe_range
     (map (\<lambda>name. param_impact_of name (mean_sharpes name points))
       (filter (\<lambda>name. sharpes_by_value name points \<noteq> []) param_names))"

section \<open>The analysis\<close>

definition sens_point_of :: "pdict \<Rightarrow> metrics_dict \<Rightarrow> sens_point" where
  "sens_point_of p m = \<lparr>sn_params = p, sn_sharpe = sharpe_of m, sn_total_return = dget m ''total_return'' 0,
     sn_max_drawdown = dget m ''max_drawdown'' 0, sn_num_trades = py_int (dget m ''num_trades'' 0), sn_metrics = m\<rparr>"

fun evaluate_combos :: "('t, pdict) evaluator \<Rightarrow> 't list \<Rightarrow> pdict list \<Rightarrow>
    sens_point list \<times> pdict \<times> real option \<Rightarrow> py_error + sens_point list \<times> pdict \<times> real option" where
  "evaluate_combos eval trades [] acc = Inr acc"
| "evaluate_combos eval trades (p # ps) (points, best_params, best) =
     ebind (eval trades p) (\<lambda>m.
     evaluate_combos eval trades ps
       (points @ [sens_point_of p m],
        if best = None \<or> the best < sharpe_of m then (p, Some (sharpe_of m)) else (best_params, best)))"

definition run_sensitivity :: "('t, pdict) evaluator \<Rightarrow> draws \<Rightarrow> 't list \<Rightarrow> param_range list \<Rightarrow> search_method \<Rightarrow> nat \<Rightarrow> py_error + sens_result" where
  "run_sensitivity eval rng trades param_ranges method n_random_samples =
     ebind (evaluate_combos eval trades
       (if method = GRID then build_grid param_ranges else build_random_samples rng param_ranges n_random_samples)
       ([], [], None)) (\<lambda>(points, best_params, best_sharpe).
     Inr \<lparr>sr_points = points, sr_best_params = best_params, sr_best_sharpe = best_sharpe,
       sr_param_impacts = compute_param_impacts points (map pr_name param_ranges),
       sr_search_method = method, sr_num_evaluations = length points\<rparr>)"

section \<open>Random samples stay in their ranges\<close>

definition draws_ok :: "draws \<Rightarrow> bool" where
  "draws_ok rng \<longleftrightarrow> (\<forall>k n. 0 < n \<longrightarrow> dr_choose rng k n < n) \<and> (\<forall>k. 0 \<le> dr_rand rng k \<and> dr_rand rng k < 1)"

definition lowest :: "param_range \<Rightarrow> real" where
  "lowest p = (if pr_log_scale p then max (pr_low p) (1 / 10 ^ 10) else pr_low p)"

definition highest :: "param_range \<Rightarrow> real" where
  "highest p = (if pr_log_scale p then max (pr_high p) (1 / 10 ^ 10) else pr_high p)"

fun in_range :: "param_range \<Rightarrow> pvalue \<Rightarrow> bool" where
  "in_range p (PNum x) \<longleftrightarrow>
     (if pr_values p \<noteq> [] then PNum x \<in> set (pr_values p)
      else if pr_dtype p = ''int'' then x = of_int \<lfloor>x\<rfloor> \<and> lowest p - 1 / 2 \<le> x \<and> x \<le> highest p + 1 / 2
      else lowest p \<le> x \<and> x \<le> highest p)"
| "in_range p v \<longleftrightarrow> v \<in> set (pr_values p)"

lemma in_range_values: "v \<in> set (pr_values p) \<Longrightarrow> in_range p v"
  by (cases v) auto

lemma uniform_between: "draws_ok rng \<Longrightarrow> a \<le> b \<Longrightarrow> a \<le> uniform rng k a b \<and> uniform rng k a b \<le> b"
  using mult_left_mono [of "dr_rand rng k" 1 "b - a"] mult_nonneg_nonneg [of "b - a" "dr_rand rng k"]
  by (simp add: uniform_def draws_ok_def less_imp_le)

lemma typed_in_range:
  "pr_values p = [] \<Longrightarrow> lowest p \<le> v \<Longrightarrow> v \<le> highest p \<Longrightarrow> in_range p (typed p v)"
  using round_half_even_error [of v] unfolding typed_def by (simp, linarith)

lemma log_between:
  fixes lo hi :: real
  assumes "draws_ok rng" and "0 < lo" and "lo \<le> hi"
  shows "lo \<le> exp (uniform rng k (ln lo) (ln hi)) \<and> exp (uniform rng k (ln lo) (ln hi)) \<le> hi"
proof -
  have "ln lo \<le> ln hi" using assms by simp
  from uniform_between [OF assms(1) this, of k]
  have "exp (ln lo) \<le> exp (uniform rng k (ln lo) (ln hi)) \<and> exp (uniform rng k (ln lo) (ln hi)) \<le> exp (ln hi)"
    by simp
  then show ?thesis using assms by simp
qed

lemma sample_value_in_range:
  assumes "draws_ok rng" and "pr_low p \<le> pr_high p"
  shows "in_range p (sample_value rng k p)"
proof (cases "pr_values p = []")
  case False
  then have "sample_value rng k p \<in> set (pr_values p)"
    using assms(1) by (simp add: sample_value_def draws_ok_def)
  then show ?thesis by (rule in_range_values)
next
  case True
  show ?thesis
  proof (cases "pr_log_scale p")
    case log: True
    have "lowest p \<le> highest p" "0 < lowest p" using assms(2) log by (auto simp: lowest_def highest_def)
    from log_between [OF assms(1) this(2) this(1), of k] typed_in_range [OF True] True log show ?thesis
      by (simp add: sample_value_def lowest_def highest_def)
  next
    case False
    with uniform_between [OF assms, of k] typed_in_range [OF True] True show ?thesis
      by (simp add: sample_value_def lowest_def highest_def)
  qed
qed

lemma sample_combo_spec:
  assumes "draws_ok rng" "list_all (\<lambda>p. pr_low p \<le> pr_high p) ps" "distinct (map pr_name ps)"
  shows "fst ` set (sample_combo rng k ps combo) = fst ` set combo \<union> set (map pr_name ps) \<and>
    (\<forall>name. name \<notin> set (map pr_name ps) \<longrightarrow> map_of (sample_combo rng k ps combo) name = map_of combo name) \<and>
    list_all (\<lambda>p. in_range p (dget (sample_combo rng k ps combo) (pr_name p) PNone)) ps"
  using assms
proof (induction ps arbitrary: k combo)
  case (Cons p ps)
  let ?c = "AList.update (pr_name p) (sample_value rng k p) combo"
  have "in_range p (sample_value rng k p)" using Cons.prems by (simp add: sample_value_in_range)
  moreover have "map_of (sample_combo rng (Suc k) ps ?c) (pr_name p) = Some (sample_value rng k p)"
    using Cons.IH [of "Suc k" ?c] Cons.prems by (simp add: update_conv')
  ultimately show ?case
    using Cons.IH [of "Suc k" ?c] Cons.prems by (auto simp: dom_update dget_def update_conv')
qed simp

text \<open>
  The random search draws the asked number of samples, and every sample gives each parameter,
  and no other, a value of its range: one of its listed values, or a number between its bounds
  (in log space, bounds below 1e-10 count as 1e-10), rounded to an integer for integer parameters.
\<close>

theorem random_samples_in_range:
  assumes "draws_ok rng" and "list_all (\<lambda>p. pr_low p \<le> pr_high p) param_ranges" and "distinct (map pr_name param_ranges)"
  shows "length (build_random_samples rng param_ranges n) = n \<and>
    list_all (\<lambda>sample. fst ` set sample = set (map pr_name param_ranges) \<and>
      list_all (\<lambda>p. in_range p (dget sample (pr_name p) PNone)) param_ranges) (build_random_samples rng param_ranges n)"
  using sample_combo_spec [OF assms, of _ "[]"] by (simp add: build_random_samples_def list_all_iff)

definition sample_draws :: draws where
  "sample_draws = \<lparr>dr_choose = (\<lambda>k n. k mod n), dr_rand = (\<lambda>k. 1 / real (k + 2))\<rparr>"

definition sample_ranges :: "param_range list" where
  "sample_ranges = [\<lparr>pr_name = ''window'', pr_values = [], pr_low = 10, pr_high = 50, pr_log_scale = False, pr_dtype = ''int''\<rparr>,
     \<lparr>pr_name = ''side'', pr_values = [PStr ''BUY'', PStr ''SELL''], pr_low = 0, pr_high = 1, pr_log_scale = False, pr_dtype = ''float''\<rparr>]"

theorem random_samples_in_range_witness:
  "build_random_samples sample_draws sample_ranges 1 = [[(''window'', PNum 30), (''side'', PStr ''SELL'')]] \<and>
   length (build_random_samples sample_draws sample_ranges 7) = 7"
proof -
  have "draws_ok sample_draws" by (simp add: draws_ok_def sample_draws_def)
  then have "length (build_random_samples sample_draws sample_ranges 7) = 7"
    using random_samples_in_range [of sample_draws sample_ranges 7] by (simp add: sample_ranges_def)
  then show ?thesis
    by (simp add: build_random_samples_def sample_ranges_def sample_value_def sample_draws_def typed_def uniform_def round_half_even_def)
qed

section \<open>What the analysis reports\<close>

lemma pearson_le_1:
  assumes "length x = length y"
  shows "\<bar>pearson x y\<bar> \<le> 1"
proof (cases "length x < 2 \<or> sqrt (sq_dev x / real (length x)) = 0 \<or> sqrt (sq_dev y / real (length x)) = 0")
  case True
  then show ?thesis by (auto simp: pearson_def Let_def)
next
  case False
  let ?s = "sqrt (sq_dev x / real (length x)) * sqrt (sq_dev y / real (length x))"
  have "\<bar>co_dev x y / real (length x)\<bar> \<le> ?s"
    using correlation_bound [OF assms, of "real (length x)"] False by (simp only: real_sqrt_mult) auto
  moreover have "0 < ?s" using False by (simp add: less_le)
  ultimately have "\<bar>co_dev x y / real (length x)\<bar> / ?s \<le> 1" by (simp only: divide_le_eq_1_pos)
  moreover have "pearson x y = (co_dev x y / real (length x)) / ?s"
    using False unfolding pearson_def Let_def by simp
  moreover have "\<bar>(co_dev x y / real (length x)) / ?s\<bar> = \<bar>co_dev x y / real (length x)\<bar> / ?s"
    using \<open>0 < ?s\<close> unfolding abs_divide by (simp only: abs_of_pos)
  ultimately show ?thesis by (simp only:)
qed

definition impact_ok :: "sens_point list \<Rightarrow> param_impact \<Rightarrow> bool" where
  \<comment> \<open>no other value of the parameter had a better, or a worse, mean Sharpe ratio\<close>
  "impact_ok points im \<longleftrightarrow>
     (let means = mean_sharpes (pi_param_name im) points; value_mean = (\<lambda>v. dget means v 0) in
      \<bar>pi_correlation_with_sharpe im\<bar> \<le> 1 \<and>
      pi_best_value im \<in> fst ` set means \<and> pi_worst_value im \<in> fst ` set means \<and>
      list_all (\<lambda>(v, m). value_mean (pi_worst_value im) \<le> m \<and> m \<le> value_mean (pi_best_value im)) means \<and>
      pi_sharpe_range im = value_mean (pi_best_value im) - value_mean (pi_worst_value im))"

lemma mean_sharpes_wf: "dict_wf (mean_sharpes name points)"
  using group_by_spec(1) unfolding mean_sharpes_def sharpes_by_value_def
  by (simp add: dict_wf_def o_def case_prod_unfold)

lemma max_by_snd:
  fixes means :: "('k, real) dict"
  assumes "dict_wf means" "means \<noteq> []"
  shows "dget means (fst (max_by snd means)) 0 = py_max (map snd means) \<and> fst (max_by snd means) \<in> fst ` set means"
    "dget means (fst (min_by snd means)) 0 = py_min (map snd means) \<and> fst (min_by snd means) \<in> fst ` set means"
proof -
  let ?b = "max_by snd means"
  have b: "?b \<in> set means" "list_all (\<lambda>x. snd x \<le> snd ?b) means" using max_by_spec [OF assms(2), of snd] by auto
  then have "map_of means (fst ?b) = Some (snd ?b)" using assms(1) by (simp add: dict_wf_def map_of_eq_Some_iff)
  moreover have "snd ?b \<le> py_max (map snd means)" using b by (intro py_max_ge) simp
  moreover have "py_max (map snd means) \<in> set (map snd means)" using assms(2) by (intro py_max_in) simp
  ultimately show "dget means (fst ?b) 0 = py_max (map snd means) \<and> fst ?b \<in> fst ` set means"
    using b by (fastforce simp: dget_def list_all_iff)
  let ?w = "min_by snd means"
  have w: "?w \<in> set means" "list_all (\<lambda>x. snd ?w \<le> snd x) means" using min_by_spec [OF assms(2), of snd] by auto
  then have "map_of means (fst ?w) = Some (snd ?w)" using assms(1) by (simp add: dict_wf_def map_of_eq_Some_iff)
  moreover have "py_min (map snd means) \<le> snd ?w" using w by (intro py_min_le) simp
  moreover have "py_min (map snd means) \<in> set (map snd means)" using assms(2) by (intro py_min_in) simp
  ultimately show "dget means (fst ?w) 0 = py_min (map snd means) \<and> fst ?w \<in> fst ` set means"
    using w by (fastforce simp: dget_def list_all_iff)
qed

lemma param_impact_ok:
  assumes "mean_sharpes name points \<noteq> []"
  shows "impact_ok points (param_impact_of name (mean_sharpes name points))"
proof -
  let ?m = "mean_sharpes name points"
  have "\<bar>case emap pvalue_float (map fst ?m) of Inl _ \<Rightarrow> 0 | Inr xs \<Rightarrow> pearson xs (map snd ?m)\<bar> \<le> 1"
    using pearson_le_1 emap_length [of pvalue_float "map fst ?m"] by (auto split: sum.splits)
  moreover have "list_all (\<lambda>(v, m). py_min (map snd ?m) \<le> m \<and> m \<le> py_max (map snd ?m)) ?m"
    by (force simp: list_all_iff intro!: py_max_ge py_min_le)
  ultimately show ?thesis
    using max_by_snd [OF mean_sharpes_wf assms]
    by (simp add: impact_ok_def param_impact_of_def Let_def)
qed

lemma impacts_ok: "list_all (impact_ok points) (compute_param_impacts points names)"
  using param_impact_ok [of _ points]
  by (auto simp: compute_param_impacts_def list_all_iff sort_desc_props mean_sharpes_def)

definition best_so_far :: "sens_point list \<times> pdict \<times> real option \<Rightarrow> bool" where
  "best_so_far = (\<lambda>(points, best_params, best).
     case best of None \<Rightarrow> points = []
     | Some b \<Rightarrow> list_ex (\<lambda>pt. sn_params pt = best_params \<and> sn_sharpe pt = b) points \<and> list_all (\<lambda>pt. sn_sharpe pt \<le> b) points)"

lemma evaluate_combos_spec:
  assumes "evaluate_combos eval trades combos acc = Inr acc'" "best_so_far acc"
  shows "best_so_far acc' \<and> map sn_params (fst acc') = map sn_params (fst acc) @ combos"
  using assms
proof (induction combos arbitrary: acc)
  case (Cons p ps)
  obtain points bp best where acc: "acc = (points, bp, best)" by (cases acc)
  with Cons.prems obtain m where m: "eval trades p = Inr m" by (auto simp: ebind_eq_Inr)
  let ?acc = "(points @ [sens_point_of p m],
        if best = None \<or> the best < sharpe_of m then (p, Some (sharpe_of m)) else (bp, best))"
  have "best_so_far ?acc"
    using Cons.prems(2)
    by (cases best) (auto simp: acc best_so_far_def sens_point_of_def list_all_iff list_ex_iff)
  with Cons.IH [of ?acc] Cons.prems(1) m show ?case
    by (simp add: acc sens_point_of_def)
qed auto

text \<open>
  An analysis evaluates every combination of the search once, in order, and reports the first
  best one: no combination reached a higher Sharpe ratio. The correlation of each parameter lies
  between -1 and 1, its best and worst value are those with the greatest and smallest mean Sharpe
  ratio, and the impacts are listed from the greatest range to the smallest.
\<close>

theorem sensitivity_finds_best:
  assumes "run_sensitivity eval rng trades param_ranges method n = Inr res" and "sr_points res \<noteq> []"
  shows "map sn_params (sr_points res) = (if method = GRID then build_grid param_ranges else build_random_samples rng param_ranges n) \<and>
    sr_num_evaluations res = length (sr_points res) \<and>
    list_ex (\<lambda>pt. sn_params pt = sr_best_params res \<and> Some (sn_sharpe pt) = sr_best_sharpe res) (sr_points res) \<and>
    list_all (\<lambda>pt. sn_sharpe pt \<le> the (sr_best_sharpe res)) (sr_points res) \<and>
    list_all (impact_ok (sr_points res)) (sr_param_impacts res) \<and>
    sorted_wrt (\<lambda>a b. pi_sharpe_range b \<le> pi_sharpe_range a) (sr_param_impacts res)"
proof -
  let ?combos = "if method = GRID then build_grid param_ranges else build_random_samples rng param_ranges n"
  obtain points bp best where run: "evaluate_combos eval trades ?combos ([], [], None) = Inr (points, bp, best)"
    and res: "res = \<lparr>sr_points = points, sr_best_params = bp, sr_best_sharpe = best,
       sr_param_impacts = compute_param_impacts points (map pr_name param_ranges),
       sr_search_method = method, sr_num_evaluations = length points\<rparr>"
    using assms(1) unfolding run_sensitivity_def ebind_eq_Inr by auto
  from evaluate_combos_spec [OF run] have "best_so_far (points, bp, best)" "map sn_params points = ?combos"
    by (simp_all add: best_so_far_def)
  then show ?thesis
    using assms(2) impacts_ok sort_desc_sorted [of pi_sharpe_range]
    by (auto simp: res best_so_far_def compute_param_impacts_def split: option.splits)
qed

theorem sensitivity_finds_best_witness:
  "\<exists>res. run_sensitivity (\<lambda>trades p. Inr [(''sharpe'', if dget p ''side'' PNone = PStr ''SELL'' then 2 else 1)])
       sample_draws ([] :: nat list) [sample_ranges ! 1] GRID 0 = Inr res \<and>
     sr_best_params res = [(''side'', PStr ''SELL'')] \<and> list_all (impact_ok (sr_points res)) (sr_param_impacts res)"
proof -
  let ?eval = "\<lambda>trades p. Inr [(''sharpe'', if dget p ''side'' PNone = PStr ''SELL'' then 2 else 1)] :: py_error + metrics_dict"
  obtain res where res: "run_sensitivity ?eval sample_draws ([] :: nat list) [sample_ranges ! 1] GRID 0 = Inr res"
    "sr_best_params res = [(''side'', PStr ''SELL'')]" "sr_points res \<noteq> []"
    by (simp add: run_sensitivity_def build_grid_def sample_ranges_def sharpe_of_def dict_merge_def dget_def)
  from sensitivity_finds_best [OF res(1,3)] res show ?thesis by blast
qed

end
