(* ===== verification/Replay.thy ===== *)
theory Replay
  imports Kafka_Utils Models Py_Strings
begin

text \<open>
  The replay engine, \<open>backtest_svc/replay.py\<close>: rows of the database are published on the topics
  of the live market data, paced by their timestamps. The two queries (the rows in order of
  time, or the exception of the driver) and the time elapsed are the environment; the engine
  keeps the producer, its statistics and the pauses it slept.
\<close>

datatype replay_speed = AS_FAST_AS_POSSIBLE | REAL_TIME | SCALED

fun speed_str :: "replay_speed \<Rightarrow> string" where
  "speed_str AS_FAST_AS_POSSIBLE = ''as_fast_as_possible''"
| "speed_str REAL_TIME = ''real_time''"
| "speed_str SCALED = ''scaled''"

record backtest_config =
  bc_backtest_id :: string
  bc_symbol :: string
  bc_start_time :: string
  bc_end_time :: string
  bc_replay_speed :: replay_speed
  bc_speed_multiplier :: real
  bc_include_depth :: bool

definition post_init :: "string \<Rightarrow> backtest_config \<Rightarrow> backtest_config" where
  \<comment> \<open>\<open>__post_init__\<close>: \<open>uuid_hex\<close> are the first twelve digits of a fresh identifier\<close>
  "post_init uuid_hex config =
     (if bc_backtest_id config = '''' then config\<lparr>bc_backtest_id := ''bt-'' @ uuid_hex\<rparr> else config)"

record replay_stats =
  rs_backtest_id :: string
  rs_trades_replayed :: nat
  rs_depth_updates_replayed :: nat
  rs_duration_seconds :: real
  rs_data_span_seconds :: real
  rs_messages_per_second :: real

type_synonym db_row = "(string, json) dict"

record replay_engine =
  re_producer :: qproducer
  re_stats :: replay_stats
  re_slept :: "real list"

definition engine_init :: "qproducer \<Rightarrow> backtest_config \<Rightarrow> replay_engine" where
  "engine_init p config = \<lparr>re_producer = p,
     re_stats = \<lparr>rs_backtest_id = bc_backtest_id config, rs_trades_replayed = 0, rs_depth_updates_replayed = 0,
       rs_duration_seconds = 0, rs_data_span_seconds = 0, rs_messages_per_second = 0\<rparr>, re_slept = []\<rparr>"

section \<open>Payloads\<close>

definition trade_row_to_json :: "db_row \<Rightarrow> py_error + json" where
  "trade_row_to_json row =
     ebind (subscript row ''symbol'') (\<lambda>sym.
     ebind (subscript row ''price'') (\<lambda>price.
     ebind (subscript row ''quantity'') (\<lambda>quantity.
     ebind (ebind (subscript row ''timestamp_exchange'') as_pyint) (\<lambda>ts.
     Inr (JObj [(''type'', JStr ''trade''), (''exchange'', JStr ''coinbase''), (''symbol'', sym),
       (''trade_id'', dget row ''trade_id'' (JInt 0)), (''price'', price), (''quantity'', quantity),
       (''timestamp_exchange'', JInt ts), (''timestamp_ingested'', JInt ts),
       (''is_buyer_maker'', dget row ''is_buyer_maker'' (JBool False))])))))"

definition row_levels :: "db_row \<Rightarrow> string \<Rightarrow> string \<Rightarrow> py_error + json" where
  "row_levels row prices sizes =
     ebind (items_of (dget row prices (JList []))) (\<lambda>ps.
     ebind (items_of (dget row sizes (JList []))) (\<lambda>ss.
     ebind (zip_strict ps ss) (\<lambda>levels. Inr (JList (map (\<lambda>(p, s). JList [p, s]) levels)))))"

definition depth_row_to_json :: "db_row \<Rightarrow> py_error + json" where
  "depth_row_to_json row =
     ebind (row_levels row ''bid_prices'' ''bid_sizes'') (\<lambda>bids.
     ebind (row_levels row ''ask_prices'' ''ask_sizes'') (\<lambda>asks.
     ebind (subscript row ''symbol'') (\<lambda>sym.
     ebind (ebind (subscript row ''timestamp_exchange'') as_pyint) (\<lambda>ts.
     Inr (JObj [(''type'', JStr ''depth_update''), (''exchange'', JStr ''coinbase''), (''symbol'', sym),
       (''first_update_id'', JInt 0), (''final_update_id'', JInt 0), (''bids'', bids), (''asks'', asks),
       (''timestamp_exchange'', JInt ts), (''timestamp_ingested'', JInt ts)])))))"

section \<open>The replay\<close>

definition timestamp_of :: "db_row \<Rightarrow> py_error + real" where
  "timestamp_of row = as_float (dget row ''timestamp_exchange'' (JInt 0))"

definition sleep_for :: "real \<Rightarrow> replay_engine \<Rightarrow> py_error + replay_engine" where
  \<comment> \<open>\<open>time.sleep\<close> refuses a negative time\<close>
  "sleep_for t eng = (if t < 0 then Inl (ValueError ''sleep length must be non-negative'') else Inr (eng\<lparr>re_slept := re_slept eng @ [t]\<rparr>))"

definition keep_pace :: "backtest_config \<Rightarrow> real \<Rightarrow> db_row \<Rightarrow> replay_engine \<Rightarrow> py_error + real \<times> replay_engine" where
  "keep_pace config prev_ts msg eng =
     (if bc_replay_speed config = AS_FAST_AS_POSSIBLE then Inr (prev_ts, eng)
      else ebind (timestamp_of msg) (\<lambda>ts.
        let delta_ms = ts - prev_ts in
        if 0 < delta_ms then
          ebind (case bc_replay_speed config of
              SCALED \<Rightarrow> ebind (py_div (delta_ms / 1000) (bc_speed_multiplier config)) (\<lambda>t. sleep_for t eng)
            | _ \<Rightarrow> sleep_for (delta_ms / 1000) eng)
            (\<lambda>eng'. Inr (ts, eng'))
        else Inr (ts, eng)))"

definition payload_of :: "string \<Rightarrow> db_row \<Rightarrow> py_error + json" where
  "payload_of topic msg = (if topic = ''raw.trades'' then trade_row_to_json msg else depth_row_to_json msg)"

fun replay_loop :: "backtest_config \<Rightarrow> string \<Rightarrow> real \<Rightarrow> db_row list \<Rightarrow> replay_engine \<Rightarrow> py_error option \<times> replay_engine" where
  "replay_loop config topic prev_ts [] eng = (None, eng)"
| "replay_loop config topic prev_ts (msg # msgs) eng =
     (case keep_pace config prev_ts msg eng of
        Inl e \<Rightarrow> (Some e, eng)
      | Inr (prev_ts', eng1) \<Rightarrow>
          (case ebind (payload_of topic msg) (\<lambda>j. ebind (as_str (dget msg ''symbol'' (JStr (bc_symbol config)))) (\<lambda>k. Inr (j, k))) of
             Inl e \<Rightarrow> (Some e, eng1)
           | Inr (j, k) \<Rightarrow>
               replay_loop config topic prev_ts' msgs (eng1\<lparr>re_producer := publish topic k j (re_producer eng1)\<rparr>)))"

definition replay_messages :: "backtest_config \<Rightarrow> db_row list \<Rightarrow> string \<Rightarrow> replay_engine \<Rightarrow> py_error option \<times> replay_engine" where
  "replay_messages config messages topic eng =
     (case messages of
        [] \<Rightarrow> (None, eng)
      | m # _ \<Rightarrow> (case timestamp_of m of Inl e \<Rightarrow> (Some e, eng) | Inr prev_ts \<Rightarrow> replay_loop config topic prev_ts messages eng))"

definition replay_pass :: "backtest_config \<Rightarrow> py_error + db_row list \<Rightarrow> string \<Rightarrow> replay_engine \<Rightarrow> (py_error + nat) \<times> replay_engine" where
  \<comment> \<open>one query and its replay; the number of messages\<close>
  "replay_pass config fetched topic eng =
     (case fetched of
        Inl e \<Rightarrow> (Inl e, eng)
      | Inr rows \<Rightarrow> (case replay_messages config rows topic eng of
            (Some e, eng') \<Rightarrow> (Inl e, eng')
          | (None, eng') \<Rightarrow> (Inr (length rows), eng')))"

definition data_span :: "db_row list \<Rightarrow> py_error + real" where
  "data_span trades =
     (if trades = [] then Inr 0
      else ebind (ebind (subscript (hd trades) ''timestamp_exchange'') as_float) (\<lambda>first_ts.
        ebind (ebind (subscript (last trades) ''timestamp_exchange'') as_float) (\<lambda>last_ts.
        Inr ((last_ts - first_ts) / 1000))))"

definition finish_replay :: "real \<Rightarrow> db_row list \<Rightarrow> replay_engine \<Rightarrow> py_error option \<times> replay_engine" where
  "finish_replay elapsed trades eng =
     (let st = re_stats eng;
          total_msgs = rs_trades_replayed st + rs_depth_updates_replayed st;
          st1 = st\<lparr>rs_duration_seconds := elapsed,
            rs_messages_per_second := if 0 < elapsed then real total_msgs / elapsed else 0\<rparr> in
      case data_span trades of
        Inl e \<Rightarrow> (Some e, eng\<lparr>re_stats := st1\<rparr>)
      | Inr secs \<Rightarrow> (None, eng\<lparr>re_stats := if trades = [] then st1 else st1\<lparr>rs_data_span_seconds := secs\<rparr>\<rparr>))"

definition replay_run :: "backtest_config \<Rightarrow> py_error + db_row list \<Rightarrow> py_error + db_row list \<Rightarrow> real \<Rightarrow> replay_engine \<Rightarrow> py_error option \<times> replay_engine" where
  "replay_run config trade_rows depth_rows elapsed eng =
     (case replay_pass config trade_rows ''raw.trades'' eng of
        (Inl e, eng1) \<Rightarrow> (Some e, eng1)
      | (Inr n, eng1) \<Rightarrow>
          let eng2 = eng1\<lparr>re_stats := (re_stats eng1)\<lparr>rs_trades_replayed := n\<rparr>\<rparr>;
              trades = (case trade_rows of Inl _ \<Rightarrow> [] | Inr rows \<Rightarrow> rows) in
          if bc_include_depth config then
            (case replay_pass config depth_rows ''raw.depth'' eng2 of
               (Inl e, eng3) \<Rightarrow> (Some e, eng3)
             | (Inr d, eng3) \<Rightarrow> finish_replay elapsed trades
                 (eng3\<lparr>re_stats := (re_stats eng3)\<lparr>rs_depth_updates_replayed := d\<rparr>\<rparr>))
          else finish_replay elapsed trades eng2)"

section \<open>What the consumers get\<close>

definition db_trade_row :: "trade \<Rightarrow> db_row" where
  \<comment> \<open>the columns of the query for a stored trade\<close>
  "db_trade_row t = [(''timestamp_exchange'', JNum (of_int (tr_timestamp_exchange t))), (''symbol'', JStr (tr_symbol t)),
     (''trade_id'', JInt (tr_trade_id t)), (''price'', JNum (tr_price t)), (''quantity'', JNum (tr_quantity t)),
     (''is_buyer_maker'', JBool (tr_is_buyer_maker t))]"

definition db_depth_row :: "depth_update \<Rightarrow> db_row" where
  "db_depth_row d = [(''timestamp_exchange'', JNum (of_int (dp_timestamp_exchange d))), (''symbol'', JStr (dp_symbol d)),
     (''bid_prices'', JList (map (JNum \<circ> fst) (dp_bids d))), (''bid_sizes'', JList (map (JNum \<circ> snd) (dp_bids d))),
     (''ask_prices'', JList (map (JNum \<circ> fst) (dp_asks d))), (''ask_sizes'', JList (map (JNum \<circ> snd) (dp_asks d)))]"

definition replayed_trade :: "trade \<Rightarrow> trade" where
  "replayed_trade t = t\<lparr>tr_type := ''trade'', tr_exchange := ''coinbase'', tr_timestamp_ingested := tr_timestamp_exchange t\<rparr>"

definition replayed_depth :: "depth_update \<Rightarrow> depth_update" where
  "replayed_depth d = d\<lparr>dp_type := ''depth_update'', dp_exchange := ''coinbase'', dp_first_update_id := 0,
     dp_final_update_id := 0, dp_timestamp_ingested := dp_timestamp_exchange d\<rparr>"

lemma py_int_of_int [simp]: "py_int (of_int i) = i"
  by (simp add: py_int_def)

lemma trade_payload: "trade_row_to_json (db_trade_row t) = Inr (trade_to_json (replayed_trade t))"
  by (simp add: trade_row_to_json_def db_trade_row_def lookups trade_to_json_def replayed_trade_def)

lemma row_levels_map:
  "dget row a (JList []) = JList (map (JNum \<circ> fst) ls) \<Longrightarrow> dget row b (JList []) = JList (map (JNum \<circ> snd) ls) \<Longrightarrow>
   row_levels row a b = Inr (JList (map of_level ls))"
  by (simp add: row_levels_def zip_strict_def zip_map_map zip_same_conv_map o_def of_level_def case_prod_unfold)

lemma depth_payload: "depth_row_to_json (db_depth_row d) = Inr (depth_to_json (replayed_depth d))"
proof -
  have "row_levels (db_depth_row d) ''bid_prices'' ''bid_sizes'' = Inr (JList (map of_level (dp_bids d)))"
    "row_levels (db_depth_row d) ''ask_prices'' ''ask_sizes'' = Inr (JList (map of_level (dp_asks d)))"
    by (rule row_levels_map; simp add: db_depth_row_def dget_def)+
  moreover have "subscript (db_depth_row d) ''symbol'' = Inr (JStr (dp_symbol d))"
    "subscript (db_depth_row d) ''timestamp_exchange'' = Inr (JNum (of_int (dp_timestamp_exchange d)))"
    by (simp_all add: db_depth_row_def subscript_def)
  ultimately show ?thesis
    by (simp add: depth_row_to_json_def depth_to_json_def replayed_depth_def)
qed

text \<open>
  The pace of a replay: seconds of waiting per millisecond of data, or none at all when the
  replay runs as fast as possible.
\<close>

definition pace :: "backtest_config \<Rightarrow> real" where
  "pace config = (case bc_replay_speed config of AS_FAST_AS_POSSIBLE \<Rightarrow> 0 | REAL_TIME \<Rightarrow> 1 / 1000
     | SCALED \<Rightarrow> 1 / 1000 / bc_speed_multiplier config)"

definition speed_ok :: "backtest_config \<Rightarrow> bool" where
  "speed_ok config \<longleftrightarrow> bc_replay_speed config = SCALED \<longrightarrow> 0 < bc_speed_multiplier config"

lemma keep_pace_spec:
  assumes "speed_ok config" and "timestamp_of msg = Inr ts" and "prev \<le> ts"
  shows "\<exists>pauses. keep_pace config (if bc_replay_speed config = AS_FAST_AS_POSSIBLE then c else prev) msg eng =
      Inr (if bc_replay_speed config = AS_FAST_AS_POSSIBLE then c else ts, eng\<lparr>re_slept := re_slept eng @ pauses\<rparr>) \<and>
    sum_list pauses = pace config * (ts - prev)"
proof (cases "bc_replay_speed config = AS_FAST_AS_POSSIBLE")
  case True
  then show ?thesis by (intro exI [of _ "[]"]) (simp add: keep_pace_def pace_def)
next
  case False
  show ?thesis
  proof (cases "prev = ts")
    case True
    with False assms show ?thesis by (intro exI [of _ "[]"]) (simp add: keep_pace_def)
  next
    case moved: False
    with False assms show ?thesis
      by (intro exI [of _ "[pace config * (ts - prev)]"])
        (cases "bc_replay_speed config"; auto simp: keep_pace_def pace_def speed_ok_def sleep_for_def Let_def not_less)
  qed
qed

text \<open>
  A stream of rows: how a row is stored, what its payload decodes to, its timestamp, its symbol.
\<close>

locale replayed_stream =
  fixes topic :: string and row :: "'m \<Rightarrow> db_row" and decode :: "json \<Rightarrow> py_error + 'm" and replayed :: "'m \<Rightarrow> 'm"
    and time :: "'m \<Rightarrow> int" and symbol :: "'m \<Rightarrow> string"
  assumes payload: "\<exists>j. payload_of topic (row m) = Inr j \<and> decode j = Inr (replayed m)"
    and timestamp: "timestamp_of (row m) = Inr (of_int (time m))"
    and row_symbol: "dget (row m) ''symbol'' d = JStr (symbol m)"
begin

definition record_of :: "qproducer \<Rightarrow> 'm \<Rightarrow> kafka_record \<Rightarrow> bool" where
  "record_of p m r \<longleftrightarrow> kr_topic r = topic \<and> kr_key r = Some (symbol m) \<and>
     ebind (loads (kr_value r)) decode = Inr (replayed m) \<and>
     kr_headers r = (case qp_backtest_id p of Some b \<Rightarrow> if b = '''' then None else Some [(''backtest_id'', b)] | None \<Rightarrow> None)"

lemma one_record:
  assumes "payload_of topic (row m) = Inr j" and "decode j = Inr (replayed m)"
  shows "\<exists>r. qp_sent (publish topic (symbol m) j p) = qp_sent p @ [r] \<and> record_of p m r"
  using assms by (auto simp: qp_sent_produce record_of_def msg_headers_def split: option.splits)

lemma loop_spec:
  assumes "speed_ok config" and "sorted (t # map time ms)"
  shows "\<exists>eng' recs pauses.
    replay_loop config topic (if bc_replay_speed config = AS_FAST_AS_POSSIBLE then c else of_int t) (map row ms) eng = (None, eng') \<and>
    re_stats eng' = re_stats eng \<and> re_slept eng' = re_slept eng @ pauses \<and>
    sum_list pauses = pace config * of_int (last (t # map time ms) - t) \<and>
    qp_sent (re_producer eng') = qp_sent (re_producer eng) @ recs \<and>
    qp_backtest_id (re_producer eng') = qp_backtest_id (re_producer eng) \<and>
    list_all2 (record_of (re_producer eng)) ms recs"
  using assms(2)
proof (induction ms arbitrary: t eng)
  case (Cons m ms)
  obtain j where j: "payload_of topic (row m) = Inr j" "decode j = Inr (replayed m)" using payload by blast
  have "(of_int t :: real) \<le> of_int (time m)" using Cons.prems by simp
  from keep_pace_spec [OF assms(1) timestamp this, of c eng] obtain ps
    where ps: "keep_pace config (if bc_replay_speed config = AS_FAST_AS_POSSIBLE then c else of_int t) (row m) eng =
        Inr (if bc_replay_speed config = AS_FAST_AS_POSSIBLE then c else of_int (time m), eng\<lparr>re_slept := re_slept eng @ ps\<rparr>)"
      "sum_list ps = pace config * (of_int (time m) - of_int t)" by blast
  obtain r where r: "qp_sent (publish topic (symbol m) j (re_producer eng)) = qp_sent (re_producer eng) @ [r]"
    "record_of (re_producer eng) m r" using one_record [OF j] by blast
  let ?eng = "eng\<lparr>re_slept := re_slept eng @ ps, re_producer := publish topic (symbol m) j (re_producer eng)\<rparr>"
  have "sorted (time m # map time ms)" using Cons.prems by simp
  from Cons.IH [OF this, of ?eng] obtain eng' recs pauses where IH:
    "replay_loop config topic (if bc_replay_speed config = AS_FAST_AS_POSSIBLE then c else of_int (time m)) (map row ms) ?eng = (None, eng')"
    "re_stats eng' = re_stats eng" "re_slept eng' = re_slept eng @ ps @ pauses"
    "sum_list pauses = pace config * of_int (last (time m # map time ms) - time m)"
    "qp_sent (re_producer eng') = qp_sent (re_producer eng) @ r # recs"
    "qp_backtest_id (re_producer eng') = qp_backtest_id (re_producer eng)"
    "list_all2 (record_of (re_producer ?eng)) ms recs"
    by (auto simp: r(1))
  have "record_of (re_producer ?eng) = record_of (re_producer eng)" by (intro ext) (simp add: record_of_def)
  moreover have "sum_list (ps @ pauses) = pace config * of_int (last (time m # map time ms) - t)"
    using ps(2) IH(4) by (simp add: algebra_simps)
  ultimately show ?case
    using ps(1) j(1) r(2) IH
    by (intro exI [of _ eng'] exI [of _ "r # recs"] exI [of _ "ps @ pauses"]) (simp add: row_symbol)
qed (simp add: pace_def)

lemma records_decoded:
  "list_all2 (record_of p) ms recs \<Longrightarrow>
   map (\<lambda>r. (kr_topic r, kr_key r, ebind (loads (kr_value r)) decode)) recs = map (\<lambda>m. (topic, Some (symbol m), Inr (replayed m))) ms"
  by (induction rule: list_all2_induct) (simp_all add: record_of_def)

lemma records_tagged:
  "list_all2 (record_of p) ms recs \<Longrightarrow> qp_backtest_id p = Some b \<Longrightarrow> b \<noteq> '''' \<Longrightarrow>
   list_all (\<lambda>r. kr_headers r = Some [(''backtest_id'', b)]) recs"
  by (induction rule: list_all2_induct) (simp_all add: record_of_def)

definition span_of :: "'m list \<Rightarrow> int" where
  "span_of ms = (if ms = [] then 0 else time (last ms) - time (hd ms))"

lemma pass_spec:
  assumes "speed_ok config" and "sorted (map time ms)"
  shows "\<exists>eng' recs pauses. replay_pass config (Inr (map row ms)) topic eng = (Inr (length ms), eng') \<and>
    re_stats eng' = re_stats eng \<and> re_slept eng' = re_slept eng @ pauses \<and>
    sum_list pauses = pace config * of_int (span_of ms) \<and>
    qp_sent (re_producer eng') = qp_sent (re_producer eng) @ recs \<and>
    qp_backtest_id (re_producer eng') = qp_backtest_id (re_producer eng) \<and>
    list_all2 (record_of (re_producer eng)) ms recs"
proof (cases ms)
  case Nil
  then show ?thesis by (simp add: replay_pass_def replay_messages_def span_of_def)
next
  case (Cons m ms')
  then have "sorted (time m # map time ms)" using assms(2) by simp
  from loop_spec [OF assms(1) this, of "of_int (time m)" eng] obtain eng' recs pauses
    where "replay_loop config topic (of_int (time m)) (map row ms) eng = (None, eng')"
      "re_stats eng' = re_stats eng" "re_slept eng' = re_slept eng @ pauses"
      "sum_list pauses = pace config * of_int (last (time m # map time ms) - time m)"
      "qp_sent (re_producer eng') = qp_sent (re_producer eng) @ recs"
      "qp_backtest_id (re_producer eng') = qp_backtest_id (re_producer eng)"
      "list_all2 (record_of (re_producer eng)) ms recs" by auto
  then show ?thesis
    using Cons by (intro exI [of _ eng'] exI [of _ recs] exI [of _ pauses])
      (simp add: replay_pass_def replay_messages_def timestamp span_of_def last_map)
qed

end

interpretation trades: replayed_stream "''raw.trades''" db_trade_row trade_from_json replayed_trade tr_timestamp_exchange tr_symbol
proof
  show "\<exists>j. payload_of ''raw.trades'' (db_trade_row m) = Inr j \<and> trade_from_json j = Inr (replayed_trade m)" for m
    using trade_payload [of m] by (simp add: payload_of_def)
qed (simp_all add: timestamp_of_def db_trade_row_def dget_def)

interpretation depths: replayed_stream "''raw.depth''" db_depth_row depth_from_json replayed_depth dp_timestamp_exchange dp_symbol
proof
  show "\<exists>j. payload_of ''raw.depth'' (db_depth_row m) = Inr j \<and> depth_from_json j = Inr (replayed_depth m)" for m
    using depth_payload [of m] by (simp add: payload_of_def)
qed (simp_all add: timestamp_of_def db_depth_row_def dget_def)

lemma finish_replay_spec:
  assumes "data_span rows = Inr secs" and "rs_data_span_seconds (re_stats eng) = 0"
  shows "\<exists>eng'. finish_replay elapsed rows eng = (None, eng') \<and> re_producer eng' = re_producer eng \<and>
    re_slept eng' = re_slept eng \<and> rs_trades_replayed (re_stats eng') = rs_trades_replayed (re_stats eng) \<and>
    rs_depth_updates_replayed (re_stats eng') = rs_depth_updates_replayed (re_stats eng) \<and>
    rs_data_span_seconds (re_stats eng') = secs"
  using assms by (cases "rows = []") (auto simp: finish_replay_def data_span_def Let_def)

definition tagged :: "backtest_config \<Rightarrow> kafka_record \<Rightarrow> bool" where
  "tagged config r \<longleftrightarrow> kr_headers r = Some [(''backtest_id'', bc_backtest_id config)]"

text \<open>
  C31. A replay of stored trades and book snapshots publishes exactly one record per row, the trades
  first and then the depth updates, each in the order of time, under the row's symbol and with the
  header of the backtest; every consumer decodes it to the stored message (exchange and ingestion
  time aside). The pauses add up to the span of the data at the chosen speed.
\<close>

theorem replay_publishes_history:
  assumes "speed_ok config" "bc_backtest_id config \<noteq> ''''" "bc_include_depth config"
    and "sorted (map tr_timestamp_exchange ts)" "sorted (map dp_timestamp_exchange ds)"
  shows "\<exists>eng trade_recs depth_recs.
    replay_run config (Inr (map db_trade_row ts)) (Inr (map db_depth_row ds)) elapsed
      (engine_init (producer_init (Some (bc_backtest_id config))) config) = (None, eng) \<and>
    qp_sent (re_producer eng) = trade_recs @ depth_recs \<and> list_all (tagged config) (qp_sent (re_producer eng)) \<and>
    map (\<lambda>r. (kr_topic r, kr_key r, ebind (loads (kr_value r)) trade_from_json)) trade_recs =
      map (\<lambda>t. (''raw.trades'', Some (tr_symbol t), Inr (replayed_trade t))) ts \<and>
    map (\<lambda>r. (kr_topic r, kr_key r, ebind (loads (kr_value r)) depth_from_json)) depth_recs =
      map (\<lambda>d. (''raw.depth'', Some (dp_symbol d), Inr (replayed_depth d))) ds \<and>
    rs_trades_replayed (re_stats eng) = length ts \<and> rs_depth_updates_replayed (re_stats eng) = length ds \<and>
    rs_data_span_seconds (re_stats eng) = of_int (trades.span_of ts) / 1000 \<and>
    sum_list (re_slept eng) = pace config * of_int (trades.span_of ts + depths.span_of ds)"
proof -
  let ?p = "producer_init (Some (bc_backtest_id config))"
  from trades.pass_spec [OF assms(1,4), of "engine_init ?p config"] obtain eng1 recs1 ps1 where
    t: "replay_pass config (Inr (map db_trade_row ts)) ''raw.trades'' (engine_init ?p config) = (Inr (length ts), eng1)"
      "re_stats eng1 = re_stats (engine_init ?p config)" "re_slept eng1 = ps1"
      "sum_list ps1 = pace config * of_int (trades.span_of ts)" "qp_sent (re_producer eng1) = recs1"
      "qp_backtest_id (re_producer eng1) = Some (bc_backtest_id config)" "list_all2 (trades.record_of ?p) ts recs1"
    by (auto simp: engine_init_def producer_init_def)
  let ?eng = "eng1\<lparr>re_stats := (re_stats eng1)\<lparr>rs_trades_replayed := length ts\<rparr>\<rparr>"
  from depths.pass_spec [OF assms(1,5), of ?eng] obtain eng2 recs2 ps2 where
    d: "replay_pass config (Inr (map db_depth_row ds)) ''raw.depth'' ?eng = (Inr (length ds), eng2)"
      "re_stats eng2 = re_stats ?eng" "re_slept eng2 = ps1 @ ps2"
      "sum_list ps2 = pace config * of_int (depths.span_of ds)" "qp_sent (re_producer eng2) = recs1 @ recs2"
      "list_all2 (depths.record_of (re_producer ?eng)) ds recs2"
    by (auto simp: t(3,5))
  have span: "data_span (map db_trade_row ts) = Inr (of_int (trades.span_of ts) / 1000)"
    by (simp add: data_span_def trades.span_of_def hd_map last_map) (simp add: db_trade_row_def subscript_def)
  have "list_all (tagged config) (recs1 @ recs2)"
    using trades.records_tagged [OF t(7)] depths.records_tagged [OF d(6)] t(6) assms(2)
    by (simp add: tagged_def [abs_def] producer_init_def)
  moreover note trades.records_decoded [OF t(7)] depths.records_decoded [OF d(6)]
  moreover obtain eng3 where "finish_replay elapsed (map db_trade_row ts) (eng2\<lparr>re_stats := (re_stats eng2)\<lparr>rs_depth_updates_replayed := length ds\<rparr>\<rparr>) = (None, eng3)"
    "re_producer eng3 = re_producer eng2" "re_slept eng3 = re_slept eng2"
    "rs_trades_replayed (re_stats eng3) = length ts" "rs_depth_updates_replayed (re_stats eng3) = length ds"
    "rs_data_span_seconds (re_stats eng3) = of_int (trades.span_of ts) / 1000"
    using finish_replay_spec [OF span, of "eng2\<lparr>re_stats := (re_stats eng2)\<lparr>rs_depth_updates_replayed := length ds\<rparr>\<rparr>" elapsed]
      d(2) t(2) by (auto simp: engine_init_def)
  moreover have "replay_run config (Inr (map db_trade_row ts)) (Inr (map db_depth_row ds)) elapsed (engine_init ?p config) =
      finish_replay elapsed (map db_trade_row ts) (eng2\<lparr>re_stats := (re_stats eng2)\<lparr>rs_depth_updates_replayed := length ds\<rparr>\<rparr>)"
    using assms(3) by (simp add: replay_run_def t(1) d(1))
  ultimately show ?thesis
    using t(4) d(3,4,5)
    by (intro exI [of _ eng3] exI [of _ recs1] exI [of _ recs2]) (simp add: distrib_left)
qed

definition sample_replay :: backtest_config where
  "sample_replay = \<lparr>bc_backtest_id = ''bt-1'', bc_symbol = ''BTCUSD'', bc_start_time = ''2026-03-21'',
     bc_end_time = ''2026-03-22'', bc_replay_speed = SCALED, bc_speed_multiplier = 10, bc_include_depth = True\<rparr>"

definition sample_history :: "trade list" where
  "sample_history = map (\<lambda>(ts, p). trade_default\<lparr>tr_symbol := ''BTCUSD'', tr_price := p, tr_quantity := 1, tr_timestamp_exchange := ts\<rparr>)
     [(1000, 50000), (4000, 50010), (6000, 49990)]"

theorem replay_publishes_history_witness:
  "\<exists>eng. replay_run sample_replay (Inr (map db_trade_row sample_history)) (Inr []) 1
     (engine_init (producer_init (Some ''bt-1'')) sample_replay) = (None, eng) \<and>
     sum_list (re_slept eng) = 1 / 2 \<and> map kr_topic (qp_sent (re_producer eng)) = [''raw.trades'', ''raw.trades'', ''raw.trades'']"
proof -
  have ok: "speed_ok sample_replay" "bc_backtest_id sample_replay \<noteq> ''''" "bc_include_depth sample_replay"
    "sorted (map tr_timestamp_exchange sample_history)" "sorted (map dp_timestamp_exchange [])"
    and vals: "bc_backtest_id sample_replay = ''bt-1''" "trades.span_of sample_history = 5000" "pace sample_replay = 1 / 10000"
      "depths.span_of [] = 0"
    by (simp_all add: speed_ok_def sample_replay_def sample_history_def trade_default_def trades.span_of_def depths.span_of_def pace_def)
  from replay_publishes_history [OF ok, of 1] obtain eng recs1 recs2 where
    run: "replay_run sample_replay (Inr (map db_trade_row sample_history)) (Inr (map db_depth_row [])) 1
      (engine_init (producer_init (Some (bc_backtest_id sample_replay))) sample_replay) = (None, eng)"
    "qp_sent (re_producer eng) = recs1 @ recs2"
    and recs: "map (\<lambda>r. (kr_topic r, kr_key r, ebind (loads (kr_value r)) trade_from_json)) recs1 =
      map (\<lambda>t. (''raw.trades'', Some (tr_symbol t), Inr (replayed_trade t))) sample_history"
    "map (\<lambda>r. (kr_topic r, kr_key r, ebind (loads (kr_value r)) depth_from_json)) recs2 =
      map (\<lambda>d. (''raw.depth'', Some (dp_symbol d), Inr (replayed_depth d))) []"
    and slept: "sum_list (re_slept eng) = pace sample_replay * of_int (trades.span_of sample_history + depths.span_of [])"
    by blast
  have "map kr_topic recs1 = map fst (map (\<lambda>r. (kr_topic r, kr_key r, ebind (loads (kr_value r)) trade_from_json)) recs1)"
    by simp
  also have "\<dots> = [''raw.trades'', ''raw.trades'', ''raw.trades'']"
    unfolding recs(1) by (simp add: sample_history_def)
  finally have "map kr_topic (qp_sent (re_producer eng)) = [''raw.trades'', ''raw.trades'', ''raw.trades'']"
    using recs(2) run(2) by simp
  moreover have "sum_list (re_slept eng) = 1 / 2" using slept by (simp only: vals) simp
  moreover have "replay_run sample_replay (Inr (map db_trade_row sample_history)) (Inr []) 1
     (engine_init (producer_init (Some ''bt-1'')) sample_replay) = (None, eng)"
    using run(1) unfolding vals list.map(1) .
  ultimately show ?thesis by (intro exI [of _ eng] conjI)
qed

end
