(* ===== verification/Comparison.thy ===== *)
theory Comparison
  imports Replay Py_Lists
begin

text \<open>
  The store of backtest results, \<open>backtest_svc/results.py\<close>, and the comparison of runs,
  \<open>backtest_svc/comparison.py\<close>. The results directory is a dictionary from file names to their
  contents in the order the file system lists them; the time of a save is an argument.
\<close>

type_synonym result_dir = "(string, stored) dict"

section \<open>The result store\<close>

definition result_file :: "string \<Rightarrow> string" where
  "result_file backtest_id = backtest_id @ ''.json''"

definition result_data :: "string \<Rightarrow> replay_stats \<Rightarrow> backtest_config \<Rightarrow> (string, json) dict" where
  "result_data now st config =
     [(''backtest_id'', JStr (rs_backtest_id st)), (''symbol'', JStr (bc_symbol config)),
      (''start_time'', JStr (bc_start_time config)), (''end_time'', JStr (bc_end_time config)),
      (''replay_speed'', JStr (speed_str (bc_replay_speed config))), (''speed_multiplier'', JNum (bc_speed_multiplier config)),
      (''trades_replayed'', JInt (int (rs_trades_replayed st))),
      (''depth_updates_replayed'', JInt (int (rs_depth_updates_replayed st))),
      (''duration_seconds'', JNum (rs_duration_seconds st)), (''data_span_seconds'', JNum (rs_data_span_seconds st)),
      (''messages_per_second'', JNum (rs_messages_per_second st)), (''timestamp'', JStr now)]"

definition save_result :: "string \<Rightarrow> replay_stats \<Rightarrow> backtest_config \<Rightarrow> result_dir \<Rightarrow> result_dir" where
  "save_result now st config dir = AList.update (result_file (rs_backtest_id st)) (Document (JObj (result_data now st config))) dir"

definition get_result :: "string \<Rightarrow> result_dir \<Rightarrow> py_error + json option" where
  "get_result backtest_id dir =
     (case map_of dir (result_file backtest_id) of
        None \<Rightarrow> Inr None
      | Some text \<Rightarrow> ebind (loads text) (\<lambda>j. Inr (Some j)))"

definition is_json_file :: "string \<Rightarrow> bool" where
  "is_json_file name \<longleftrightarrow> 5 \<le> length name \<and> drop (length name - 5) name = ''.json''"

definition readable :: "result_dir \<Rightarrow> json list" where
  \<comment> \<open>files that are no JSON are skipped\<close>
  "readable dir = concat (map (\<lambda>(name, text). if is_json_file name then (case loads text of Inl _ \<Rightarrow> [] | Inr j \<Rightarrow> [j]) else []) dir)"

definition list_results :: "result_dir \<Rightarrow> py_error + (string, json) dict list" where
  "list_results dir =
     ebind (emap as_dict (readable dir)) (\<lambda>ds.
     ebind (emap (\<lambda>d. ebind (as_str (dget d ''timestamp'' (JStr ''''))) (\<lambda>ts. Inr (ts, d))) ds) (\<lambda>tds.
     Inr (map snd (sort_rev fst tds))))"

definition delete_result :: "string \<Rightarrow> result_dir \<Rightarrow> bool \<times> result_dir" where
  "delete_result backtest_id dir =
     (if map_of dir (result_file backtest_id) \<noteq> None then (True, AList.delete (result_file backtest_id) dir) else (False, dir))"

section \<open>Metrics of a run\<close>

record run_metrics =
  rm_backtest_id :: string
  rm_symbol :: string
  rm_start_time :: string
  rm_end_time :: string
  rm_trades_replayed :: int
  rm_duration_seconds :: real
  rm_data_span_seconds :: real
  rm_messages_per_second :: real
  rm_sharpe :: real
  rm_total_return :: real
  rm_max_drawdown :: real
  rm_win_rate :: real
  rm_profit_factor :: real
  rm_num_fills :: int

definition run_metrics_of :: "(string, json) dict \<Rightarrow> py_error + run_metrics" where
  "run_metrics_of data =
     ebind (arg as_str data ''backtest_id'' '''') (\<lambda>bid.
     ebind (arg as_str data ''symbol'' '''') (\<lambda>sym.
     ebind (arg as_str data ''start_time'' '''') (\<lambda>st.
     ebind (arg as_str data ''end_time'' '''') (\<lambda>et.
     ebind (arg as_int data ''trades_replayed'' 0) (\<lambda>tr.
     ebind (arg as_num data ''duration_seconds'' 0) (\<lambda>dur.
     ebind (arg as_num data ''data_span_seconds'' 0) (\<lambda>spn.
     ebind (arg as_num data ''messages_per_second'' 0) (\<lambda>mps.
     ebind (arg as_num data ''sharpe'' 0) (\<lambda>sh.
     ebind (arg as_num data ''total_return'' 0) (\<lambda>ret.
     ebind (arg as_num data ''max_drawdown'' 0) (\<lambda>dd.
     ebind (arg as_num data ''win_rate'' 0) (\<lambda>win.
     ebind (arg as_num data ''profit_factor'' 0) (\<lambda>pf.
     ebind (arg as_int data ''num_fills'' 0) (\<lambda>nf.
     Inr \<lparr>rm_backtest_id = bid, rm_symbol = sym, rm_start_time = st, rm_end_time = et, rm_trades_replayed = tr,
       rm_duration_seconds = dur, rm_data_span_seconds = spn, rm_messages_per_second = mps, rm_sharpe = sh,
       rm_total_return = ret, rm_max_drawdown = dd, rm_win_rate = win, rm_profit_factor = pf, rm_num_fills = nf\<rparr>))))))))))))))"

definition requested_runs :: "result_dir \<Rightarrow> string list \<Rightarrow> py_error + (string, json) dict list" where
  "requested_runs dir ids =
     (if ids \<noteq> [] then ebind (emap (\<lambda>bid. get_result bid dir) ids) (\<lambda>raw. emap as_dict (map the (filter (\<lambda>r. r \<noteq> None) raw)))
      else list_results dir)"

definition load_run_metrics :: "result_dir \<Rightarrow> string list \<Rightarrow> py_error + run_metrics list" where
  \<comment> \<open>\<open>ids\<close>: the empty list for \<open>None\<close> as well\<close>
  "load_run_metrics dir ids = ebind (requested_runs dir ids) (emap run_metrics_of)"

section \<open>Comparison\<close>

record metric_delta =
  dl_metric_name :: string
  dl_run_a_value :: real
  dl_run_b_value :: real
  dl_absolute_delta :: real
  dl_pct_change :: real

record pairwise_comparison =
  pw_run_a_id :: string
  pw_run_b_id :: string
  pw_deltas :: "metric_delta list"
  pw_better_run :: string

record comparison_result =
  cr_runs :: "run_metrics list"
  cr_ranked_by_sharpe :: "string list"
  cr_ranked_by_return :: "string list"
  cr_pairwise :: "pairwise_comparison list"

definition metric_delta_of :: "string \<times> real \<times> real \<Rightarrow> metric_delta" where
  "metric_delta_of = (\<lambda>(name, val_a, val_b).
     let abs_delta = val_b - val_a in
     \<lparr>dl_metric_name = name, dl_run_a_value = val_a, dl_run_b_value = val_b, dl_absolute_delta = abs_delta,
      dl_pct_change = (if val_a \<noteq> 0 then abs_delta / \<bar>val_a\<bar> * 100 else 0)\<rparr>)"

definition compare_pair :: "run_metrics \<Rightarrow> run_metrics \<Rightarrow> pairwise_comparison" where
  "compare_pair run_a run_b =
     (let metric_pairs =
        [(''sharpe'', rm_sharpe run_a, rm_sharpe run_b),
         (''total_return'', rm_total_return run_a, rm_total_return run_b),
         (''max_drawdown'', rm_max_drawdown run_a, rm_max_drawdown run_b),
         (''win_rate'', rm_win_rate run_a, rm_win_rate run_b),
         (''profit_factor'', rm_profit_factor run_a, rm_profit_factor run_b),
         (''trades_replayed'', of_int (rm_trades_replayed run_a), of_int (rm_trades_replayed run_b)),
         (''messages_per_second'', rm_messages_per_second run_a, rm_messages_per_second run_b)] in
      \<lparr>pw_run_a_id = rm_backtest_id run_a, pw_run_b_id = rm_backtest_id run_b,
       pw_deltas = map metric_delta_of metric_pairs,
       pw_better_run = (if rm_sharpe run_b \<le> rm_sharpe run_a then rm_backtest_id run_a else rm_backtest_id run_b)\<rparr>)"

fun all_pairs :: "run_metrics list \<Rightarrow> pairwise_comparison list" where
  "all_pairs [] = []"
| "all_pairs (r # rs) = map (compare_pair r) rs @ all_pairs rs"

definition compare_runs :: "result_dir \<Rightarrow> string list \<Rightarrow> py_error + comparison_result" where
  "compare_runs dir ids = ebind (load_run_metrics dir ids) (\<lambda>runs. Inr
     (if runs = [] then \<lparr>cr_runs = [], cr_ranked_by_sharpe = [], cr_ranked_by_return = [], cr_pairwise = []\<rparr>
      else \<lparr>cr_runs = runs, cr_ranked_by_sharpe = map rm_backtest_id (sort_desc rm_sharpe runs),
        cr_ranked_by_return = map rm_backtest_id (sort_desc rm_total_return runs), cr_pairwise = all_pairs runs\<rparr>))"

section \<open>What is stored comes back\<close>

definition saved_metrics :: "replay_stats \<Rightarrow> backtest_config \<Rightarrow> run_metrics" where
  "saved_metrics st config = \<lparr>rm_backtest_id = rs_backtest_id st, rm_symbol = bc_symbol config,
     rm_start_time = bc_start_time config, rm_end_time = bc_end_time config,
     rm_trades_replayed = int (rs_trades_replayed st), rm_duration_seconds = rs_duration_seconds st,
     rm_data_span_seconds = rs_data_span_seconds st, rm_messages_per_second = rs_messages_per_second st,
     rm_sharpe = 0, rm_total_return = 0, rm_max_drawdown = 0, rm_win_rate = 0, rm_profit_factor = 0, rm_num_fills = 0\<rparr>"

lemma run_metrics_saved: "run_metrics_of (result_data now st config) = Inr (saved_metrics st config)"
  by (simp add: run_metrics_of_def result_data_def arg_def saved_metrics_def)

lemma get_saved:
  "get_result bid (save_result now st config dir) =
     (if bid = rs_backtest_id st then Inr (Some (JObj (result_data now st config))) else get_result bid dir)"
  by (simp add: get_result_def save_result_def dict.lookup_insert result_file_def)

text \<open>
  A saved run is found again under its identifier with every figure that was saved, until it is
  deleted; other runs are not touched. The figures that the comparison ranks by are not saved:
  they come back as 0.
\<close>

theorem saved_run_is_loaded:
  "load_run_metrics (save_result now st config dir) [rs_backtest_id st] = Inr [saved_metrics st config] \<and>
   get_result bid (save_result now st config dir) =
     (if bid = rs_backtest_id st then Inr (Some (JObj (result_data now st config))) else get_result bid dir) \<and>
   fst (delete_result (rs_backtest_id st) (save_result now st config dir)) \<and>
   get_result bid (snd (delete_result (rs_backtest_id st) (save_result now st config dir))) =
     (if bid = rs_backtest_id st then Inr None else get_result bid dir)"
  by (simp add: load_run_metrics_def requested_runs_def get_saved run_metrics_saved)
     (simp add: delete_result_def save_result_def dict.lookup_insert get_result_def dict.lookup_remove result_file_def)

section \<open>Rankings\<close>

lemma length_all_pairs: "2 * length (all_pairs rs) = length rs * (length rs - 1)"
proof (induction rs)
  case (Cons r rs)
  then show ?case by (cases rs) (auto simp: algebra_simps)
qed simp

lemma all_pairs_in: "pw \<in> set (all_pairs rs) \<Longrightarrow> \<exists>a b. a \<in> set rs \<and> b \<in> set rs \<and> pw = compare_pair a b"
  by (induction rs) fastforce+

definition pair_ok :: "run_metrics list \<Rightarrow> pairwise_comparison \<Rightarrow> bool" where
  \<comment> \<open>the better of two runs is one of them and its Sharpe ratio is the greater one\<close>
  "pair_ok runs pw \<longleftrightarrow> list_ex (\<lambda>a. list_ex (\<lambda>b. pw = compare_pair a b \<and>
     list_ex (\<lambda>r. rm_backtest_id r = pw_better_run pw \<and> rm_sharpe r = max (rm_sharpe a) (rm_sharpe b)) [a, b]) runs) runs"

lemma pair_ok: "pw \<in> set (all_pairs runs) \<Longrightarrow> pair_ok runs pw"
  using all_pairs_in [of pw runs] by (fastforce simp: pair_ok_def list_ex_iff compare_pair_def max_def)

text \<open>
  A comparison ranks all its runs, best first and ties in the order of the request, and sets every
  run against every other one exactly once.
\<close>

theorem comparison_ranks_runs:
  assumes "compare_runs dir ids = Inr res"
  shows "\<exists>by_sharpe by_return.
    mset by_sharpe = mset (cr_runs res) \<and> sorted_wrt (\<lambda>a b. rm_sharpe b \<le> rm_sharpe a) by_sharpe \<and>
    cr_ranked_by_sharpe res = map rm_backtest_id by_sharpe \<and>
    mset by_return = mset (cr_runs res) \<and> sorted_wrt (\<lambda>a b. rm_total_return b \<le> rm_total_return a) by_return \<and>
    cr_ranked_by_return res = map rm_backtest_id by_return \<and>
    2 * length (cr_pairwise res) = length (cr_runs res) * (length (cr_runs res) - 1) \<and>
    list_all (pair_ok (cr_runs res)) (cr_pairwise res)"
proof -
  have "cr_ranked_by_sharpe res = map rm_backtest_id (sort_desc rm_sharpe (cr_runs res)) \<and>
    cr_ranked_by_return res = map rm_backtest_id (sort_desc rm_total_return (cr_runs res)) \<and>
    cr_pairwise res = all_pairs (cr_runs res)"
    using assms by (auto simp: compare_runs_def ebind_eq_Inr sort_desc_def split: if_splits)
  then show ?thesis
    by (intro exI [of _ "sort_desc rm_sharpe (cr_runs res)"] exI [of _ "sort_desc rm_total_return (cr_runs res)"])
      (auto simp: sort_desc_props sort_desc_sorted length_all_pairs list_all_iff intro: pair_ok)
qed

definition save_all :: "(string \<times> replay_stats \<times> backtest_config) list \<Rightarrow> result_dir \<Rightarrow> result_dir" where
  "save_all saves dir = foldl (\<lambda>d (now, st, config). save_result now st config d) dir saves"

lemma get_save_all:
  "bid \<in> set (map (rs_backtest_id \<circ> fst \<circ> snd) saves) \<Longrightarrow>
   \<exists>now st config. rs_backtest_id st = bid \<and> get_result bid (save_all saves dir) = Inr (Some (JObj (result_data now st config)))"
proof (induction saves rule: rev_induct)
  case (snoc s saves)
  obtain now st config where s: "s = (now, st, config)" by (cases s)
  with snoc show ?case by (cases "bid = rs_backtest_id st") (auto simp: save_all_def get_saved)
qed simp

lemma load_saved:
  assumes "set ids \<subseteq> set (map (rs_backtest_id \<circ> fst \<circ> snd) saves)" "ids \<noteq> []"
  shows "\<exists>ms. load_run_metrics (save_all saves dir) ids = Inr ms \<and> map rm_backtest_id ms = ids \<and>
    list_all (\<lambda>m. rm_sharpe m = 0 \<and> rm_total_return m = 0) ms"
proof -
  have "\<exists>ms ds. emap (\<lambda>bid. get_result bid (save_all saves dir)) ids = Inr (map (Some \<circ> JObj) ds) \<and>
    emap run_metrics_of ds = Inr ms \<and> map rm_backtest_id ms = ids \<and> list_all (\<lambda>m. rm_sharpe m = 0 \<and> rm_total_return m = 0) ms"
    using assms(1)
  proof (induction ids)
    case (Cons bid ids)
    obtain now st config where g: "rs_backtest_id st = bid"
      "get_result bid (save_all saves dir) = Inr (Some (JObj (result_data now st config)))"
      using get_save_all [of bid saves dir] Cons.prems by auto
    from Cons.prems have "set ids \<subseteq> set (map (rs_backtest_id \<circ> fst \<circ> snd) saves)" by simp
    from Cons.IH [OF this] obtain ms ds where "emap (\<lambda>bid. get_result bid (save_all saves dir)) ids = Inr (map (Some \<circ> JObj) ds)"
      "emap run_metrics_of ds = Inr ms" "map rm_backtest_id ms = ids" "list_all (\<lambda>m. rm_sharpe m = 0 \<and> rm_total_return m = 0) ms"
      by blast
    with g show ?case
      by (intro exI [of _ "saved_metrics st config # ms"] exI [of _ "result_data now st config # ds"])
        (simp add: run_metrics_saved, simp add: saved_metrics_def)
  qed simp
  then obtain ms ds where ok: "emap (\<lambda>bid. get_result bid (save_all saves dir)) ids = Inr (map (Some \<circ> JObj) ds)"
    "emap run_metrics_of ds = Inr ms" "map rm_backtest_id ms = ids" "list_all (\<lambda>m. rm_sharpe m = 0 \<and> rm_total_return m = 0) ms"
    by blast
  have "emap as_dict (map JObj ds) = Inr ds"
    by (induction ds) simp_all
  with ok show ?thesis
    using assms(2) by (simp add: load_run_metrics_def requested_runs_def filter_map o_def)
qed

text \<open>
  The code saves no Sharpe ratio and no return: whatever the runs achieved, a comparison of saved
  runs ranks them in the order of the request and calls the first of every pair the better one.
\<close>

theorem saved_runs_rank_as_asked:
  assumes "set ids \<subseteq> set (map (rs_backtest_id \<circ> fst \<circ> snd) saves)" "ids \<noteq> []"
  shows "\<exists>res. compare_runs (save_all saves dir) ids = Inr res \<and> cr_ranked_by_sharpe res = ids \<and>
    cr_ranked_by_return res = ids \<and> list_all (\<lambda>pw. pw_better_run pw = pw_run_a_id pw) (cr_pairwise res)"
proof -
  obtain ms where ms: "load_run_metrics (save_all saves dir) ids = Inr ms" "map rm_backtest_id ms = ids"
    "list_all (\<lambda>m. rm_sharpe m = 0 \<and> rm_total_return m = 0) ms" using load_saved [OF assms] by blast
  from ms(3) have "sort_desc rm_sharpe ms = ms" "sort_desc rm_total_return ms = ms"
    by (auto intro!: sort_desc_constant [of _ 0] simp: list_all_iff)
  moreover have "pw_better_run pw = pw_run_a_id pw" if "pw \<in> set (all_pairs ms)" for pw
    using all_pairs_in [OF that] ms(3) by (auto simp: compare_pair_def list_all_iff)
  ultimately show ?thesis
    using ms assms(2) by (auto simp: compare_runs_def list_all_iff)
qed

definition sample_results :: result_dir where
  "sample_results = [(''a.json'', Document (JObj [(''backtest_id'', JStr ''a''), (''sharpe'', JNum 1)])),
     (''b.json'', Document (JObj [(''backtest_id'', JStr ''b''), (''sharpe'', JNum 2)]))]"

theorem comparison_ranks_runs_witness:
  "\<exists>res. compare_runs sample_results [''a'', ''b''] = Inr res \<and> cr_ranked_by_sharpe res = [''b'', ''a''] \<and>
     list_all (pair_ok (cr_runs res)) (cr_pairwise res)"
proof -
  obtain res where res: "compare_runs sample_results [''a'', ''b''] = Inr res" "cr_ranked_by_sharpe res = [''b'', ''a'']"
    by (simp add: compare_runs_def load_run_metrics_def requested_runs_def get_result_def sample_results_def
        result_file_def run_metrics_of_def arg_def sort_desc_def)
  from comparison_ranks_runs [OF res(1)] res show ?thesis by blast
qed

definition sample_save :: "string \<Rightarrow> string \<times> replay_stats \<times> backtest_config" where
  "sample_save bid = (''2026-03-22T00:00:00+00:00'',
     \<lparr>rs_backtest_id = bid, rs_trades_replayed = 3, rs_depth_updates_replayed = 0, rs_duration_seconds = 1,
      rs_data_span_seconds = 5, rs_messages_per_second = 3\<rparr>, sample_replay)"

theorem saved_runs_rank_as_asked_witness:
  "\<exists>res. compare_runs (save_all [sample_save ''a'', sample_save ''b''] []) [''b'', ''a''] = Inr res \<and>
     cr_ranked_by_sharpe res = [''b'', ''a'']"
proof -
  have "set [''b'', ''a''] \<subseteq> set (map (rs_backtest_id \<circ> fst \<circ> snd) [sample_save ''a'', sample_save ''b''])"
    "[''b'', ''a''] \<noteq> []" by (simp_all add: sample_save_def)
  from saved_runs_rank_as_asked [OF this, of "[]"] show ?thesis by blast
qed

end
