(* ===== verification/Validation.thy ===== *)
theory Validation
  imports Walk_Forward Monte_Carlo Sensitivity_Sweep Py_Strings
begin

text \<open>
  The validation report, \<open>backtest_svc/validation.py\<close>: the results of a walk-forward run, a Monte
  Carlo simulation and a cost sweep are turned into flags, the flags into a grade.
\<close>

datatype validation_grade = STRONG | MODERATE | WEAK | FAIL

fun grade_value :: "validation_grade \<Rightarrow> string" where
  "grade_value STRONG = ''STRONG''"
| "grade_value MODERATE = ''MODERATE''"
| "grade_value WEAK = ''WEAK''"
| "grade_value FAIL = ''FAIL''"

record validation_flag =
  vf_category :: string
  vf_severity :: string
  vf_message :: string

definition flag :: "string \<Rightarrow> string \<Rightarrow> string \<Rightarrow> validation_flag list" where
  "flag category severity message = [\<lparr>vf_category = category, vf_severity = severity, vf_message = message\<rparr>]"

section \<open>Assessments: the flags each one appends\<close>

definition assess_walk_forward :: "'p wf_result \<Rightarrow> validation_flag list" where
  "assess_walk_forward res =
     (if wf_folds res = [] then flag ''walk_forward'' ''warning'' ''No walk-forward folds available''
      else
        (if 3 < wf_overfitting_ratio res then flag ''overfitting'' ''critical''
           (''Severe overfitting: train/test Sharpe ratio = '' @ fixed 1 (wf_overfitting_ratio res) @ ''x'')
         else if 15 / 10 < wf_overfitting_ratio res then flag ''overfitting'' ''warning''
           (''Moderate overfitting: train/test Sharpe ratio = '' @ fixed 1 (wf_overfitting_ratio res) @ ''x'')
         else flag ''overfitting'' ''info''
           (''Low overfitting: train/test ratio = '' @ fixed 1 (wf_overfitting_ratio res) @ ''x''))
        @ (if 50 < wf_degradation_pct res then flag ''degradation'' ''critical''
             (''Performance degrades '' @ fixed 0 (wf_degradation_pct res) @ ''% out-of-sample'')
           else if 25 < wf_degradation_pct res then flag ''degradation'' ''warning''
             (''Performance degrades '' @ fixed 0 (wf_degradation_pct res) @ ''% out-of-sample'')
           else [])
        @ (if 1 < wf_std_test_sharpe res then flag ''consistency'' ''warning''
             (''Inconsistent fold performance: Sharpe std = '' @ fixed 2 (wf_std_test_sharpe res))
           else [])
        @ (if wf_mean_test_sharpe res < 0 then flag ''performance'' ''critical''
             (''Negative out-of-sample Sharpe: '' @ fixed 2 (wf_mean_test_sharpe res))
           else if wf_mean_test_sharpe res < 5 / 10 then flag ''performance'' ''warning''
             (''Low out-of-sample Sharpe: '' @ fixed 2 (wf_mean_test_sharpe res))
           else []))"

definition ci_value :: "real \<Rightarrow> metric_distribution \<Rightarrow> real" where
  \<comment> \<open>the first interval of a level, 0 without one\<close>
  "ci_value level distr = dget (md_confidence_intervals distr) level 0"

definition assess_monte_carlo :: "mc_result \<Rightarrow> validation_flag list" where
  "assess_monte_carlo mc =
     (if mr_n_simulations mc = 0 then flag ''monte_carlo'' ''warning'' ''No Monte Carlo simulations run''
      else
        (if mr_prob_positive_sharpe mc < 5 / 10 then flag ''robustness'' ''critical''
           (''Only '' @ percent 0 (mr_prob_positive_sharpe mc) @ '' chance of positive Sharpe'')
         else if mr_prob_positive_sharpe mc < 75 / 100 then flag ''robustness'' ''warning''
           (percent 0 (mr_prob_positive_sharpe mc) @ '' chance of positive Sharpe'')
         else flag ''robustness'' ''info'' (percent 0 (mr_prob_positive_sharpe mc) @ '' chance of positive Sharpe''))
        @ (let distr = mr_sharpe_distribution mc in
           if md_confidence_intervals distr = [] then []
           else let ci_low = ci_value (5 / 100) distr; ci_high = ci_value (95 / 100) distr; width = ci_high - ci_low in
             if 3 < width then flag ''uncertainty'' ''warning''
               (''Wide Sharpe CI: ['' @ fixed 2 ci_low @ '', '' @ fixed 2 ci_high @ ''] (width='' @ fixed 2 width @ '')'')
             else []))"

definition assess_cost_sensitivity :: "sweep_result \<Rightarrow> validation_flag list" where
  "assess_cost_sensitivity sweep =
     (if sw_points sweep = [] then flag ''costs'' ''warning'' ''No cost sensitivity data''
      else let be = sw_breakeven sweep in
        (if 0 < be_max_fee_rate be \<and> be_max_fee_rate be < 3 / 1000 then flag ''costs'' ''critical''
           (''Strategy breaks even at only '' @ percent 1 (be_max_fee_rate be) @ '' fee rate'')
         else if 0 < be_max_fee_rate be \<and> be_max_fee_rate be < 6 / 1000 then flag ''costs'' ''warning''
           (''Narrow fee margin: breaks even at '' @ percent 1 (be_max_fee_rate be))
         else [])
        @ (if 0 < be_max_slippage_bps be \<and> be_max_slippage_bps be < 5 then flag ''costs'' ''warning''
             (''Sensitive to slippage: breaks even at '' @ fixed 1 (be_max_slippage_bps be) @ '' bps'')
           else []))"

definition severity_count :: "string \<Rightarrow> validation_flag list \<Rightarrow> nat" where
  "severity_count s flags = length (filter (\<lambda>f. vf_severity f = s) flags)"

definition compute_grade :: "validation_flag list \<Rightarrow> validation_grade" where
  "compute_grade flags =
     (let critical_count = severity_count ''critical'' flags; warning_count = severity_count ''warning'' flags in
      if 2 \<le> critical_count then FAIL
      else if critical_count = 1 then WEAK
      else if 3 \<le> warning_count then WEAK
      else if 1 \<le> warning_count then MODERATE
      else STRONG)"

section \<open>The report\<close>

record 'p validation_report =
  vr_grade :: validation_grade
  vr_flags :: "validation_flag list"
  vr_summary :: string
  vr_walk_forward :: "'p wf_result option"
  vr_monte_carlo :: "mc_result option"
  vr_cost_sensitivity :: "sweep_result option"
  vr_mean_oos_sharpe :: real
  vr_sharpe_95_ci_low :: real
  vr_sharpe_95_ci_high :: real
  vr_overfitting_ratio :: real
  vr_degradation_pct :: real
  vr_max_profitable_fee :: real
  vr_max_profitable_slippage_bps :: real
  vr_prob_positive_sharpe :: real

definition generate_summary :: "'p validation_report \<Rightarrow> string" where
  "generate_summary report =
     (let critical = filter (\<lambda>f. vf_severity f = ''critical'') (vr_flags report);
          parts = [''Validation Grade: '' @ grade_value (vr_grade report)]
            @ (if vr_mean_oos_sharpe report \<noteq> 0 then [''Out-of-sample Sharpe: '' @ fixed 2 (vr_mean_oos_sharpe report)] else [])
            @ (if 0 < vr_prob_positive_sharpe report then [''P(Sharpe > 0): '' @ percent 0 (vr_prob_positive_sharpe report)] else [])
            @ (if 0 < vr_overfitting_ratio report then [''Overfitting ratio: '' @ fixed 1 (vr_overfitting_ratio report) @ ''x''] else [])
            @ (if critical \<noteq> [] then (''Critical issues: '' @ show_nat (length critical)) # map (\<lambda>f. ''  - '' @ vf_message f) critical else []) in
      join '' | '' (take 4 parts) @ (if 4 < length parts then [CHR 0x0A] @ join [CHR 0x0A] (drop 4 parts) else ''''))"

definition report_flags :: "'p wf_result option \<Rightarrow> mc_result option \<Rightarrow> sweep_result option \<Rightarrow> validation_flag list" where
  "report_flags walk_forward monte_carlo cost_sensitivity =
     (let flags = (case walk_forward of None \<Rightarrow> [] | Some res \<Rightarrow> assess_walk_forward res)
            @ (case monte_carlo of None \<Rightarrow> [] | Some mc \<Rightarrow> assess_monte_carlo mc)
            @ (case cost_sensitivity of None \<Rightarrow> [] | Some cs \<Rightarrow> assess_cost_sensitivity cs) in
      if flags = [] then flag ''general'' ''warning'' ''No validation data provided'' else flags)"

definition extract_walk_forward :: "'p wf_result option \<Rightarrow> 'p validation_report \<Rightarrow> 'p validation_report" where
  "extract_walk_forward walk_forward report =
     (case walk_forward of None \<Rightarrow> report | Some res \<Rightarrow>
        if wf_folds res = [] then report
        else report\<lparr>vr_mean_oos_sharpe := wf_mean_test_sharpe res, vr_overfitting_ratio := wf_overfitting_ratio res,
               vr_degradation_pct := wf_degradation_pct res\<rparr>)"

definition extract_monte_carlo :: "mc_result option \<Rightarrow> 'p validation_report \<Rightarrow> 'p validation_report" where
  "extract_monte_carlo monte_carlo report =
     (case monte_carlo of None \<Rightarrow> report | Some mc \<Rightarrow>
        if mr_n_simulations mc = 0 then report
        else let report1 = report\<lparr>vr_prob_positive_sharpe := mr_prob_positive_sharpe mc\<rparr>; distr = mr_sharpe_distribution mc in
          if md_confidence_intervals distr = [] then report1
          else report1\<lparr>vr_sharpe_95_ci_low := ci_value (5 / 100) distr, vr_sharpe_95_ci_high := ci_value (95 / 100) distr\<rparr>)"

definition extract_costs :: "sweep_result option \<Rightarrow> 'p validation_report \<Rightarrow> 'p validation_report" where
  "extract_costs cost_sensitivity report =
     (case cost_sensitivity of None \<Rightarrow> report | Some cs \<Rightarrow>
        report\<lparr>vr_max_profitable_fee := be_max_fee_rate (sw_breakeven cs),
          vr_max_profitable_slippage_bps := be_max_slippage_bps (sw_breakeven cs)\<rparr>)"

definition generate_validation_report :: "'p wf_result option \<Rightarrow> mc_result option \<Rightarrow> sweep_result option \<Rightarrow> 'p validation_report" where
  "generate_validation_report walk_forward monte_carlo cost_sensitivity =
     (let flags = report_flags walk_forward monte_carlo cost_sensitivity;
          report = \<lparr>vr_grade = compute_grade flags, vr_flags = flags, vr_summary = '''', vr_walk_forward = walk_forward,
            vr_monte_carlo = monte_carlo, vr_cost_sensitivity = cost_sensitivity, vr_mean_oos_sharpe = 0,
            vr_sharpe_95_ci_low = 0, vr_sharpe_95_ci_high = 0, vr_overfitting_ratio = 0, vr_degradation_pct = 0,
            vr_max_profitable_fee = 0, vr_max_profitable_slippage_bps = 0, vr_prob_positive_sharpe = 0\<rparr>;
          report' = extract_costs cost_sensitivity (extract_monte_carlo monte_carlo (extract_walk_forward walk_forward report)) in
      report'\<lparr>vr_summary := generate_summary report'\<rparr>)"

section \<open>What a grade means\<close>

fun grade_rank :: "validation_grade \<Rightarrow> nat" where
  "grade_rank FAIL = 0"
| "grade_rank WEAK = 1"
| "grade_rank MODERATE = 2"
| "grade_rank STRONG = 3"

lemma severity_count_append [simp]: "severity_count s (xs @ ys) = severity_count s xs + severity_count s ys"
  by (simp add: severity_count_def)

lemma severity_count_Nil [simp]: "severity_count s [] = 0"
  by (simp add: severity_count_def)

lemma severity_count_flag [simp]: "severity_count s (flag c s' m) = (if s' = s then 1 else 0)"
  by (simp add: severity_count_def flag_def)

lemma flag_ne [simp]: "flag c s m \<noteq> []"
  by (simp add: flag_def)

lemma report_grade: "vr_grade (generate_validation_report w m c) = compute_grade (report_flags w m c)"
  "vr_flags (generate_validation_report w m c) = report_flags w m c"
  by (auto simp: generate_validation_report_def Let_def extract_costs_def extract_monte_carlo_def extract_walk_forward_def
      split: option.splits)

text \<open>Further flags never improve the grade.\<close>

lemma grade_antimono: "grade_rank (compute_grade (flags @ fs)) \<le> grade_rank (compute_grade flags)"
  by (simp add: compute_grade_def Let_def)

definition concerns :: "validation_flag list \<Rightarrow> nat" where
  "concerns flags = severity_count ''critical'' flags + severity_count ''warning'' flags"

lemma concerns_simps [simp]: "concerns (xs @ ys) = concerns xs + concerns ys" "concerns [] = 0"
  "concerns (flag c s m) = (if s = ''critical'' \<or> s = ''warning'' then 1 else 0)"
  by (simp_all add: concerns_def)

lemma strong_iff: "compute_grade flags = STRONG \<longleftrightarrow> concerns flags = 0"
  by (auto simp: compute_grade_def Let_def concerns_def)

definition walk_forward_sound :: "'p wf_result \<Rightarrow> bool" where
  "walk_forward_sound res \<longleftrightarrow> wf_folds res \<noteq> [] \<and> wf_overfitting_ratio res \<le> 15 / 10 \<and> wf_degradation_pct res \<le> 25 \<and>
     wf_std_test_sharpe res \<le> 1 \<and> 5 / 10 \<le> wf_mean_test_sharpe res"

definition monte_carlo_sound :: "mc_result \<Rightarrow> bool" where
  "monte_carlo_sound mc \<longleftrightarrow> mr_n_simulations mc \<noteq> 0 \<and> 75 / 100 \<le> mr_prob_positive_sharpe mc \<and>
     (md_confidence_intervals (mr_sharpe_distribution mc) = [] \<or>
      ci_value (95 / 100) (mr_sharpe_distribution mc) - ci_value (5 / 100) (mr_sharpe_distribution mc) \<le> 3)"

definition costs_sound :: "sweep_result \<Rightarrow> bool" where
  "costs_sound sweep \<longleftrightarrow> sw_points sweep \<noteq> [] \<and>
     (be_max_fee_rate (sw_breakeven sweep) \<le> 0 \<or> 6 / 1000 \<le> be_max_fee_rate (sw_breakeven sweep)) \<and>
     (be_max_slippage_bps (sw_breakeven sweep) \<le> 0 \<or> 5 \<le> be_max_slippage_bps (sw_breakeven sweep))"

lemma assess_walk_forward_sound: "concerns (assess_walk_forward res) = 0 \<longleftrightarrow> walk_forward_sound res"
  by (auto simp: assess_walk_forward_def walk_forward_sound_def)

lemma assess_monte_carlo_sound: "concerns (assess_monte_carlo mc) = 0 \<longleftrightarrow> monte_carlo_sound mc"
  by (auto simp: assess_monte_carlo_def monte_carlo_sound_def Let_def)

lemma assess_costs_sound: "concerns (assess_cost_sensitivity cs) = 0 \<longleftrightarrow> costs_sound cs"
  by (auto simp: assess_cost_sensitivity_def costs_sound_def Let_def)

lemma costs_no_flags: "assess_cost_sensitivity cs = [] \<longleftrightarrow> costs_sound cs"
  by (auto simp: assess_cost_sensitivity_def costs_sound_def Let_def)

lemma assess_ne [simp]: "assess_walk_forward res \<noteq> []" "assess_monte_carlo mc \<noteq> []"
  by (auto simp: assess_walk_forward_def assess_monte_carlo_def)


text \<open>
  The break-even figures of a sweep in which no combination was profitable are 0, and 0 raises no
  flag: unprofitability at every cost counts as sound.
\<close>

lemma unprofitable_sweep_is_sound:
  assumes "points \<noteq> []" and "list_all (\<lambda>p. \<not> sp_net_profitable p) points"
  shows "costs_sound (sweep_summary points)"
proof -
  have "filter sp_net_profitable points = []" using assms(2) by (simp add: filter_empty_conv list_all_iff)
  then show ?thesis
    using assms(1) by (simp add: costs_sound_def sweep_summary_def max_profitable_def sort_desc_def)
qed

lemma unprofitable_sweep_changes_nothing:
  assumes "points \<noteq> []" and "list_all (\<lambda>p. \<not> sp_net_profitable p) points" and "w \<noteq> None \<or> m \<noteq> None"
  shows "vr_grade (generate_validation_report w m (Some (sweep_summary points))) = vr_grade (generate_validation_report w m None)"
proof -
  have "assess_cost_sensitivity (sweep_summary points) = []"
    using unprofitable_sweep_is_sound [OF assms(1,2)] by (simp add: costs_no_flags)
  then show ?thesis
    using assms(3) by (auto simp: report_grade report_flags_def Let_def)
qed

definition sample_walk_forward :: "int wf_result" where
  "sample_walk_forward = aggregate [\<lparr>fo_fold_index = 0, fo_bounds = (0, 70, 70, 100), fo_best_params = 2, fo_train_sharpe = 3 / 2,
     fo_test_sharpe = 5 / 4, fo_train_return = 1 / 100, fo_test_return = 1 / 200, fo_train_max_drawdown = 0,
     fo_test_max_drawdown = 0, fo_num_train_trades = 70, fo_num_test_trades = 30\<rparr>]"


end
