(* ===== verification/Backtest_Analysis.thy ===== *)
theory Backtest_Analysis
  imports Backtest_Metrics Py_Lists Py_Strings "HOL-Library.Product_Lexorder"
begin

text \<open>
  The analysis of a finished backtest, \<open>backtest_svc/backtest_analysis.py\<close>: how well the signals
  predict the returns at several horizons (alpha decay), overall and per strategy, and the
  accounting of the fills of every symbol, which uses the bookkeeping of \<open>Backtest_Metrics\<close>.
\<close>

section \<open>Alpha decay\<close>

record bt_signal =
  bs_signal_id :: string
  bs_timestamp_ms :: int
  bs_strategy_id :: string
  bs_symbol :: string
  bs_side :: string
  bs_strength :: real
  bs_mid_price :: real

record horizon_ic =
  hi_horizon_ms :: int
  hi_horizon_label :: string
  hi_ic :: "real option"
  hi_filled_count :: nat

record strategy_decay =
  sd_strategy_id :: string
  sd_signal_count :: nat
  sd_horizons :: "horizon_ic list"

record backtest_decay =
  bd_total_signals :: nat
  bd_overall_horizons :: "horizon_ic list"
  bd_per_strategy :: "strategy_decay list"

definition backtest_horizons_ms :: "int list" where
  "backtest_horizons_ms = [60000, 300000, 900000, 1800000, 3600000]"

definition decay_label :: "int \<Rightarrow> string" where
  "decay_label ms =
     (let seconds = ms div 1000 in
      if seconds < 60 then show_int seconds @ ''s''
      else let minutes = seconds div 60 in
        if minutes < 60 then show_int minutes @ ''m'' else show_int (minutes div 60) @ ''h'')"

definition decay_pearson :: "real list \<Rightarrow> real list \<Rightarrow> real option" where
  "decay_pearson xs ys =
     (let n = real (length xs) in
      if length xs < 5 then None
      else let cov = co_dev xs ys / n; vx = sq_dev xs / n; vy = sq_dev ys / n; d = sqrt (vx * vy) in
        if d < 1 / 10 ^ 15 then None else Some (cov / d))"

type_synonym timeline = "(int \<times> real) list"

function bisect :: "timeline \<Rightarrow> int \<Rightarrow> nat \<Rightarrow> nat \<Rightarrow> nat" where
  \<comment> \<open>the \<open>while lo < hi\<close> loop\<close>
  "bisect timeline target_ts lo hi =
     (if lo < hi then
        let mid = (lo + hi) div 2 in
        if fst (timeline ! mid) < target_ts then bisect timeline target_ts (mid + 1) hi
        else bisect timeline target_ts lo mid
      else lo)"
  by pat_completeness auto
termination
  by (relation "measure (\<lambda>(timeline, target_ts, lo, hi). hi - lo)") (auto simp: Let_def)

declare bisect.simps [simp del]

definition find_price_at :: "timeline \<Rightarrow> int \<Rightarrow> real option" where
  "find_price_at timeline target_ts =
     (if timeline = [] then None
      else if fst (last timeline) < target_ts then None
      else Some (snd (timeline ! bisect timeline target_ts 0 (length timeline - 1))))"

definition timeline_entry :: "(string, json) dict \<Rightarrow> py_error + string \<times> int \<times> real" where
  "timeline_entry t =
     ebind (as_str (dget t ''symbol'' (JStr ''''))) (\<lambda>sym.
     ebind (as_pyint (dget t ''timestamp_exchange'' (JInt 0))) (\<lambda>ts.
     ebind (as_float (dget t ''price'' (JInt 0))) (\<lambda>price. Inr (sym, ts, price))))"

definition price_timelines :: "(string, json) dict list \<Rightarrow> py_error + (string, timeline) dict" where
  "price_timelines trades =
     ebind (emap timeline_entry trades) (\<lambda>entries. Inr (map (\<lambda>(sym, tl). (sym, sort tl)) (group_by entries)))"

definition horizon_return :: "(string, timeline) dict \<Rightarrow> bt_signal \<Rightarrow> int \<Rightarrow> real option" where
  "horizon_return timelines sig h_ms =
     (case find_price_at (dget timelines (bs_symbol sig) []) (bs_timestamp_ms sig + h_ms) of
        None \<Rightarrow> None
      | Some price \<Rightarrow> if 0 < bs_mid_price sig then Some ((price - bs_mid_price sig) / bs_mid_price sig) else None)"

definition direction :: "bt_signal \<Rightarrow> real" where
  "direction sig = (if upper (bs_side sig) = ''BUY'' then bs_strength sig else - bs_strength sig)"

definition samples_at :: "(string, timeline) dict \<Rightarrow> bt_signal list \<Rightarrow> int \<Rightarrow> (real \<times> real) list" where
  \<comment> \<open>predictions and actuals of the signals whose horizon was reached\<close>
  "samples_at timelines signals h_ms =
     concat (map (\<lambda>sig. case horizon_return timelines sig h_ms of None \<Rightarrow> [] | Some r \<Rightarrow> [(direction sig, r)]) signals)"

definition horizon_ic_of :: "(string, timeline) dict \<Rightarrow> bt_signal list \<Rightarrow> int \<Rightarrow> horizon_ic" where
  "horizon_ic_of timelines signals h_ms =
     (let samples = samples_at timelines signals h_ms; ic = decay_pearson (map fst samples) (map snd samples) in
      \<lparr>hi_horizon_ms = h_ms, hi_horizon_label = decay_label h_ms,
       hi_ic = map_option (\<lambda>x. py_round x 4) ic, hi_filled_count = length samples\<rparr>)"

definition compute_alpha_decay :: "bt_signal list \<Rightarrow> (string, json) dict list \<Rightarrow> int list \<Rightarrow> py_error + backtest_decay" where
  \<comment> \<open>\<open>horizons_ms\<close>: the empty list for \<open>None\<close> as well\<close>
  "compute_alpha_decay signals trades horizons_ms =
     (let horizons = sort (if horizons_ms \<noteq> [] then horizons_ms else backtest_horizons_ms) in
      if signals = [] \<or> trades = [] then Inr \<lparr>bd_total_signals = length signals, bd_overall_horizons = [], bd_per_strategy = []\<rparr>
      else ebind (price_timelines trades) (\<lambda>timelines. Inr
        \<lparr>bd_total_signals = length signals,
         bd_overall_horizons = map (horizon_ic_of timelines signals) horizons,
         bd_per_strategy = map (\<lambda>(strat_id, sigs). \<lparr>sd_strategy_id = strat_id, sd_signal_count = length sigs,
           sd_horizons = map (horizon_ic_of timelines sigs) horizons\<rparr>)
           (group_by (map (\<lambda>sig. (bs_strategy_id sig, sig)) signals))\<rparr>))"

section \<open>Fills per symbol\<close>

record bt_fill_dict =
  \<comment> \<open>the values the loop reads from a fill's dictionary\<close>
  bf_side :: string
  bf_quantity :: real
  bf_fill_price :: real
  bf_fee :: real
  bf_slippage_bps :: real

definition fill_dict_of :: "(string, json) dict \<Rightarrow> py_error + bt_fill_dict" where
  "fill_dict_of f =
     ebind (as_str (dget f ''side'' (JStr ''BUY''))) (\<lambda>side.
     ebind (as_float (dget f ''quantity'' (JInt 0))) (\<lambda>qty.
     ebind (as_float (dget f ''fill_price'' (JInt 0))) (\<lambda>price.
     ebind (as_float (dget f ''fee'' (JInt 0))) (\<lambda>fee.
     ebind (as_float (dget f ''slippage_bps'' (JInt 0))) (\<lambda>slippage.
     Inr \<lparr>bf_side = side, bf_quantity = qty, bf_fill_price = price, bf_fee = fee, bf_slippage_bps = slippage\<rparr>)))))"

record symbol_metrics =
  sy_symbol :: string
  sy_num_fills :: nat
  sy_total_return :: real
  sy_realized_pnl :: real
  sy_max_drawdown :: real
  sy_sharpe :: real
  sy_win_rate :: real
  sy_avg_slippage_bps :: real
  sy_total_fees :: real
  sy_buy_fills :: nat
  sy_sell_fills :: nat

record symbol_acc =
  sa_book :: bt_book
  sa_total_fees :: real
  sa_total_slippage :: real
  sa_wins :: nat
  sa_buys :: nat
  sa_sells :: nat
  sa_equity :: real
  sa_peak :: real
  sa_max_dd :: real
  sa_returns :: "real list"

definition symbol_start :: "real \<Rightarrow> symbol_acc" where
  "symbol_start initial_equity = \<lparr>sa_book = bt_start, sa_total_fees = 0, sa_total_slippage = 0, sa_wins = 0, sa_buys = 0,
     sa_sells = 0, sa_equity = initial_equity, sa_peak = initial_equity, sa_max_dd = 0, sa_returns = []\<rparr>"

definition symbol_fill :: "real \<Rightarrow> symbol_acc \<Rightarrow> bt_fill_dict \<Rightarrow> symbol_acc" where
  \<comment> \<open>the body of the loop; \<open>prev_equity\<close> is the equity before the fill\<close>
  "symbol_fill initial_equity a f =
     (let s = (if bf_side f = ''BUY'' then bf_quantity f else - bf_quantity f);
          book = bt_fill s (bf_fill_price f) (bf_fee f) (sa_book a);
          win = reduces s (sa_book a) \<and> bf_fee f < close_pnl s (bf_fill_price f) (sa_book a);
          equity = initial_equity + bb_realized_pnl book;
          (peak, max_dd) = track_drawdown equity (sa_peak a) (sa_max_dd a) in
      \<lparr>sa_book = book, sa_total_fees = sa_total_fees a + bf_fee f, sa_total_slippage = sa_total_slippage a + bf_slippage_bps f,
       sa_wins = (if win then sa_wins a + 1 else sa_wins a),
       sa_buys = (if bf_side f = ''BUY'' then sa_buys a + 1 else sa_buys a),
       sa_sells = (if bf_side f = ''BUY'' then sa_sells a else sa_sells a + 1),
       sa_equity = equity, sa_peak = peak, sa_max_dd = max_dd,
       sa_returns = (if 0 < sa_equity a then sa_returns a @ [(equity - sa_equity a) / sa_equity a] else sa_returns a)\<rparr>)"

definition fills_sharpe :: "real list \<Rightarrow> real" where
  "fills_sharpe returns =
     (if length returns < 2 then 0
      else let std_r = sqrt (sq_dev returns / real (length returns)) in
        if 0 < std_r then mean returns / std_r * sqrt 365 else 0)"

definition symbol_report :: "string \<Rightarrow> real \<Rightarrow> nat \<Rightarrow> symbol_acc \<Rightarrow> symbol_metrics" where
  "symbol_report symbol initial_equity n a =
     \<lparr>sy_symbol = symbol, sy_num_fills = n,
      sy_total_return = py_round (if 0 < initial_equity then (sa_equity a - initial_equity) / initial_equity else 0) 6,
      sy_realized_pnl = py_round (bb_realized_pnl (sa_book a)) 2, sy_max_drawdown = py_round (sa_max_dd a) 6,
      sy_sharpe = py_round (fills_sharpe (sa_returns a)) 4,
      sy_win_rate = py_round (if n = 0 then 0 else real (sa_wins a) / real n) 4,
      sy_avg_slippage_bps = py_round (if n = 0 then 0 else sa_total_slippage a / real n) 2,
      sy_total_fees = py_round (sa_total_fees a) 4, sy_buy_fills = sa_buys a, sy_sell_fills = sa_sells a\<rparr>"

definition compute_symbol_metrics :: "string \<Rightarrow> (string, json) dict list \<Rightarrow> real \<Rightarrow> py_error + symbol_metrics" where
  "compute_symbol_metrics symbol fills initial_equity =
     ebind (emap fill_dict_of fills) (\<lambda>fs. Inr (symbol_report symbol initial_equity (length fills)
       (foldl (symbol_fill initial_equity) (symbol_start initial_equity) fs)))"

record per_symbol_analysis =
  ps_symbols :: "symbol_metrics list"
  ps_best_symbol :: string
  ps_worst_symbol :: string

definition fill_symbol :: "(string, json) dict \<Rightarrow> py_error + string" where
  "fill_symbol f = as_str (dget f ''symbol'' (JStr ''''))"

definition compute_per_symbol_analysis :: "(string, json) dict list \<Rightarrow> real \<Rightarrow> py_error + per_symbol_analysis" where
  "compute_per_symbol_analysis fills initial_equity =
     (if fills = [] then Inr \<lparr>ps_symbols = [], ps_best_symbol = '''', ps_worst_symbol = ''''\<rparr>
      else ebind (emap (\<lambda>f. ebind (fill_symbol f) (\<lambda>sym. Inr (sym, f))) fills) (\<lambda>tagged.
        ebind (emap (\<lambda>(sym, fs). compute_symbol_metrics sym fs initial_equity) (sort_key fst (group_by tagged))) (\<lambda>ms.
        Inr (if ms = [] then \<lparr>ps_symbols = [], ps_best_symbol = '''', ps_worst_symbol = ''''\<rparr>
          else \<lparr>ps_symbols = ms, ps_best_symbol = sy_symbol (max_by sy_total_return ms),
            ps_worst_symbol = sy_symbol (min_by sy_total_return ms)\<rparr>))))"

section \<open>The report of a run\<close>

definition horizon_json :: "horizon_ic \<Rightarrow> json" where
  "horizon_json h = JObj [(''horizon_ms'', JInt (hi_horizon_ms h)), (''horizon_label'', JStr (hi_horizon_label h)),
     (''ic'', of_opt JNum (hi_ic h)), (''filled_count'', JInt (int (hi_filled_count h)))]"

definition decay_json :: "backtest_decay \<Rightarrow> json" where
  "decay_json decay = JObj [(''total_signals'', JInt (int (bd_total_signals decay))),
     (''overall_horizons'', JList (map horizon_json (bd_overall_horizons decay))),
     (''per_strategy'', JList (map (\<lambda>s. JObj [(''strategy_id'', JStr (sd_strategy_id s)),
        (''signal_count'', JInt (int (sd_signal_count s))), (''horizons'', JList (map horizon_json (sd_horizons s)))])
        (bd_per_strategy decay)))]"

definition symbol_json :: "symbol_metrics \<Rightarrow> json" where
  "symbol_json m = JObj [(''symbol'', JStr (sy_symbol m)), (''num_fills'', JInt (int (sy_num_fills m))),
     (''total_return'', JNum (sy_total_return m)), (''realized_pnl'', JNum (sy_realized_pnl m)),
     (''max_drawdown'', JNum (sy_max_drawdown m)), (''sharpe'', JNum (sy_sharpe m)), (''win_rate'', JNum (sy_win_rate m)),
     (''avg_slippage_bps'', JNum (sy_avg_slippage_bps m)), (''total_fees'', JNum (sy_total_fees m)),
     (''buy_fills'', JInt (int (sy_buy_fills m))), (''sell_fills'', JInt (int (sy_sell_fills m)))]"

definition per_symbol_json :: "per_symbol_analysis \<Rightarrow> json" where
  "per_symbol_json a = JObj [(''best_symbol'', JStr (ps_best_symbol a)), (''worst_symbol'', JStr (ps_worst_symbol a)),
     (''symbols'', JList (map symbol_json (ps_symbols a)))]"

definition analyze_backtest_run :: "string \<Rightarrow> bt_signal list \<Rightarrow> (string, json) dict list \<Rightarrow> (string, json) dict list \<Rightarrow> int list \<Rightarrow> py_error + json" where
  "analyze_backtest_run backtest_id signals trades fills horizons_ms =
     ebind (if signals \<noteq> [] \<and> trades \<noteq> []
       then ebind (compute_alpha_decay signals trades horizons_ms) (\<lambda>d. Inr [(''alpha_decay'', decay_json d)]) else Inr []) (\<lambda>decay.
     ebind (if fills \<noteq> []
       then ebind (compute_per_symbol_analysis fills 100000) (\<lambda>a. Inr [(''per_symbol'', per_symbol_json a)]) else Inr []) (\<lambda>symbols.
     Inr (JObj ([(''backtest_id'', JStr backtest_id)] @ decay @ symbols))))"

section \<open>The binary search\<close>

lemma bisect_step:
  "lo < hi \<Longrightarrow> bisect line target lo hi =
     (if fst (line ! ((lo + hi) div 2)) < target then bisect line target ((lo + hi) div 2 + 1) hi
      else bisect line target lo ((lo + hi) div 2))"
  "\<not> lo < hi \<Longrightarrow> bisect line target lo hi = lo"
  by (subst bisect.simps, simp add: Let_def)+

definition first_from :: "timeline \<Rightarrow> int \<Rightarrow> nat \<Rightarrow> nat \<Rightarrow> bool" where
  "first_from line target hi k \<longleftrightarrow> k \<le> hi \<and> target \<le> fst (line ! k) \<and> (\<forall>i<k. fst (line ! i) < target)"

lemma bisect_spec:
  assumes "lo \<le> hi" "hi < length line" "sorted (map fst line)" "target \<le> fst (line ! hi)" "\<forall>i<lo. fst (line ! i) < target"
  shows "first_from line target hi (bisect line target lo hi)"
  using assms
proof (induction line target lo hi rule: bisect.induct)
  case (1 line target lo hi)
  let ?mid = "(lo + hi) div 2"
  show ?case
  proof (cases "lo < hi")
    case True
    then have mid: "lo \<le> ?mid" "?mid < hi" by auto
    show ?thesis
    proof (cases "fst (line ! ?mid) < target")
      case less: True
      have "\<forall>i<?mid + 1. fst (line ! i) < target"
      proof (intro allI impI)
        fix i assume i: "i < ?mid + 1"
        have "fst (line ! i) \<le> fst (line ! ?mid)"
          using sorted_nth_mono [OF 1(5), of i ?mid] i mid 1(4) by simp
        with less show "fst (line ! i) < target" by simp
      qed
      with 1(1) [OF True refl less] mid 1(4,5,6) have "first_from line target hi (bisect line target (?mid + 1) hi)" by simp
      with True less show ?thesis by (simp only: bisect_step if_True)
    next
      case False
      with 1(2) [OF True refl False] mid 1(4,5,7) have "first_from line target ?mid (bisect line target lo ?mid)" by simp
      with mid have "first_from line target hi (bisect line target lo ?mid)" by (simp add: first_from_def)
      with True False show ?thesis by (simp only: bisect_step if_False)
    qed
  next
    case False
    with 1 show ?thesis by (simp add: bisect_step first_from_def)
  qed
qed

text \<open>
  C34. On a timeline in order of time the binary search finds the first price at or after the target.
\<close>

theorem find_price_at_first:
  assumes "sorted (map fst timeline)"
  shows "find_price_at timeline target = map_option snd (find (\<lambda>e. target \<le> fst e) timeline)"
proof (cases "timeline = [] \<or> fst (last timeline) < target")
  case True
  have "find (\<lambda>e. target \<le> fst e) timeline = None"
  proof (unfold find_None_iff, rule notI, elim exE conjE)
    fix e assume e: "e \<in> set timeline" "target \<le> fst e"
    then obtain i where i: "i < length timeline" "timeline ! i = e" by (auto simp: in_set_conv_nth)
    from e True have ne: "timeline \<noteq> []" "fst (last timeline) < target" by auto
    have "fst e \<le> fst (last timeline)"
      using sorted_nth_mono [OF assms, of i "length timeline - 1"] i ne by (simp add: last_conv_nth)
    with e ne show False by simp
  qed
  with True show ?thesis by (auto simp: find_price_at_def)
next
  case False
  let ?n = "length timeline - 1" let ?k = "bisect timeline target 0 ?n"
  have "target \<le> fst (timeline ! ?n)" using False by (auto simp: last_conv_nth)
  from bisect_spec [OF _ _ assms this, of 0] False have "first_from timeline target ?n ?k" by auto
  then have k: "?k \<le> ?n" "target \<le> fst (timeline ! ?k)"
    "\<forall>i<?k. fst (timeline ! i) < target" by (simp_all add: first_from_def)
  have "find (\<lambda>e. target \<le> fst e) timeline = Some (timeline ! ?k)"
    unfolding find_Some_iff using k False by (intro exI [of _ ?k]) (auto simp: not_le Suc_le_eq le_less_trans)
  then show ?thesis using False by (simp add: find_price_at_def)
qed

theorem find_price_at_first_witness:
  "find_price_at [(10, 1), (20, 2), (20, 3), (40, 4)] 15 = Some 2"
  using find_price_at_first [of "[(10, 1), (20, 2), (20, 3), (40, 4)]" 15] by simp

section \<open>Alpha decay of a run\<close>

lemma sorted_timeline: "sorted (map fst (sort (line :: timeline)))"
proof -
  have "sorted (sort line)" by simp
  then show ?thesis by (rule sorted_map_mono) (auto simp: mono_on_def less_eq_prod_def intro: less_imp_le)
qed

lemma decay_pearson_bound:
  assumes "length xs = length ys" "decay_pearson xs ys = Some c"
  shows "\<bar>c\<bar> \<le> 1 \<and> 5 \<le> length xs"
proof -
  define n d where "n = real (length xs)" and "d = sqrt (sq_dev xs / n * (sq_dev ys / n))"
  have c: "5 \<le> length xs" "\<not> d < 1 / 10 ^ 15" "c = co_dev xs ys / n / d"
    using assms(2) by (auto simp: decay_pearson_def Let_def n_def d_def split: if_splits)
  have "0 < n" using c(1) by (cases xs) (simp_all add: n_def)
  then have "\<bar>co_dev xs ys / n\<bar> \<le> d" using correlation_bound [OF assms(1)] by (simp add: d_def)
  moreover have "(0::real) < 1 / 10 ^ 15" by simp
  then have "0 < d" using c(2) by linarith
  ultimately show ?thesis
    using c(1) unfolding c(3) by (simp only: abs_divide [of _ d] abs_of_pos divide_le_eq_1_pos)
qed

definition ic_ok :: "nat \<Rightarrow> horizon_ic \<Rightarrow> bool" where
  "ic_ok n h \<longleftrightarrow> hi_filled_count h \<le> n \<and>
     (case hi_ic h of None \<Rightarrow> True | Some c \<Rightarrow> - 1 \<le> c \<and> c \<le> 1 \<and> 5 \<le> hi_filled_count h)"

lemma samples_count:
  "hi_filled_count (horizon_ic_of timelines sigs h) =
   sum_list (map (\<lambda>sig. if horizon_return timelines sig h = None then 0 else 1) sigs)"
  by (induction sigs) (auto simp: horizon_ic_of_def samples_at_def Let_def split: option.splits)

lemma horizon_ic_ok: "ic_ok (length sigs) (horizon_ic_of timelines sigs h)"
proof -
  have "hi_filled_count (horizon_ic_of timelines sigs h) \<le> length sigs"
    unfolding samples_count by (induction sigs) auto
  moreover have "hi_filled_count (horizon_ic_of timelines sigs h) = length (samples_at timelines sigs h)"
    by (simp add: horizon_ic_of_def Let_def)
  ultimately show ?thesis
    using decay_pearson_bound [of "map fst (samples_at timelines sigs h)" "map snd (samples_at timelines sigs h)"] py_round_le_1
    by (auto simp: ic_ok_def horizon_ic_of_def Let_def abs_le_iff split: option.splits)
qed

text \<open>
  Every signal belongs to exactly one strategy, and so does every sample of a horizon; an
  information coefficient needs five samples and lies between -1 and 1.
\<close>

theorem alpha_decay_partitions_signals:
  assumes "compute_alpha_decay signals trades horizons_ms = Inr d"
  shows "bd_total_signals d = length signals \<and> list_all (ic_ok (length signals)) (bd_overall_horizons d) \<and>
    list_all (\<lambda>s. list_all (ic_ok (sd_signal_count s)) (sd_horizons s)) (bd_per_strategy d) \<and>
    (bd_overall_horizons d = [] \<or> sum_list (map sd_signal_count (bd_per_strategy d)) = length signals) \<and>
    map hi_filled_count (bd_overall_horizons d) =
      map (\<lambda>i. sum_list (map (\<lambda>s. hi_filled_count (sd_horizons s ! i)) (bd_per_strategy d))) [0..<length (bd_overall_horizons d)]"
proof (cases "signals = [] \<or> trades = []")
  case True
  then show ?thesis using assms by (auto simp: compute_alpha_decay_def)
next
  case False
  define horizons where "horizons = sort (if horizons_ms \<noteq> [] then horizons_ms else backtest_horizons_ms)"
  define groups where "groups = group_by (map (\<lambda>sig. (bs_strategy_id sig, sig)) signals)"
  from False assms obtain timelines where d: "d = \<lparr>bd_total_signals = length signals,
         bd_overall_horizons = map (horizon_ic_of timelines signals) horizons,
         bd_per_strategy = map (\<lambda>(strat_id, sigs). \<lparr>sd_strategy_id = strat_id, sd_signal_count = length sigs,
           sd_horizons = map (horizon_ic_of timelines sigs) horizons\<rparr>) groups\<rparr>"
    by (auto simp: compute_alpha_decay_def ebind_eq_Inr horizons_def [symmetric] groups_def [symmetric])
  have sum: "sum_list (map (\<lambda>(k, sigs). sum_list (map f sigs)) groups) = sum_list (map f signals)" for f :: "bt_signal \<Rightarrow> nat"
    using group_by_sum [of f "map (\<lambda>sig. (bs_strategy_id sig, sig)) signals"] by (simp add: groups_def o_def)
  have "map hi_filled_count (bd_overall_horizons d) =
      map (\<lambda>i. sum_list (map (\<lambda>s. hi_filled_count (sd_horizons s ! i)) (bd_per_strategy d))) [0..<length (bd_overall_horizons d)]"
  proof (rule nth_equalityI)
    fix i assume "i < length (map hi_filled_count (bd_overall_horizons d))"
    then have i: "i < length horizons" by (simp add: d)
    have "hi_filled_count (horizon_ic_of timelines signals (horizons ! i)) =
        sum_list (map (\<lambda>(k, sigs). hi_filled_count (horizon_ic_of timelines sigs (horizons ! i))) groups)"
      by (simp add: samples_count sum)
    then show "map hi_filled_count (bd_overall_horizons d) ! i =
      map (\<lambda>i. sum_list (map (\<lambda>s. hi_filled_count (sd_horizons s ! i)) (bd_per_strategy d))) [0..<length (bd_overall_horizons d)] ! i"
      using i by (simp add: d o_def case_prod_unfold)
  qed simp
  moreover have "sum_list (map sd_signal_count (bd_per_strategy d)) = length signals"
    using sum [of "\<lambda>_. 1"] by (simp add: d o_def case_prod_unfold sum_list_triv)
  ultimately show ?thesis
    using horizon_ic_ok by (auto simp: d list_all_iff)
qed

definition sample_bt_signals :: "bt_signal list" where
  "sample_bt_signals = map (\<lambda>(strat, side, ts). \<lparr>bs_signal_id = ''s'', bs_timestamp_ms = ts, bs_strategy_id = strat,
     bs_symbol = ''BTCUSD'', bs_side = side, bs_strength = 1, bs_mid_price = 100\<rparr>) [(''mr'', ''BUY'', 0), (''mo'', ''SELL'', 0)]"

definition sample_bt_trades :: "(string, json) dict list" where
  "sample_bt_trades = [[(''symbol'', JStr ''BTCUSD''), (''timestamp_exchange'', JInt 60000), (''price'', JNum 101)]]"

theorem alpha_decay_partitions_signals_witness:
  "\<exists>d. compute_alpha_decay sample_bt_signals sample_bt_trades [60000] = Inr d \<and>
     map hi_filled_count (bd_overall_horizons d) = [2] \<and> sum_list (map sd_signal_count (bd_per_strategy d)) = 2"
proof -
  obtain d where d: "compute_alpha_decay sample_bt_signals sample_bt_trades [60000] = Inr d"
    "map hi_filled_count (bd_overall_horizons d) = [2]"
    by (simp add: compute_alpha_decay_def sample_bt_signals_def sample_bt_trades_def price_timelines_def timeline_entry_def
        dget_def group_by_def group_add_def samples_count horizon_return_def find_price_at_def bisect_step)
  from alpha_decay_partitions_signals [OF d(1)] d show ?thesis by (auto simp: sample_bt_signals_def)
qed

section \<open>Accounts per symbol\<close>

lemma symbol_fold_counts:
  "sa_buys (foldl (symbol_fill e) a fs) + sa_sells (foldl (symbol_fill e) a fs) = sa_buys a + sa_sells a + length fs \<and>
   sa_max_dd a \<le> sa_max_dd (foldl (symbol_fill e) a fs)"
proof (induction fs arbitrary: a)
  case (Cons f fs)
  have "sa_buys (symbol_fill e a f) + sa_sells (symbol_fill e a f) = Suc (sa_buys a + sa_sells a)"
    "sa_max_dd a \<le> sa_max_dd (symbol_fill e a f)"
    by (auto simp: symbol_fill_def Let_def track_drawdown_def split: prod.splits)
  with Cons.IH [of "symbol_fill e a f"] show ?case by simp
qed simp

definition symbol_ok :: "symbol_metrics \<Rightarrow> bool" where
  "symbol_ok m \<longleftrightarrow> sy_buy_fills m + sy_sell_fills m = sy_num_fills m \<and> 0 \<le> sy_max_drawdown m"

lemma symbol_metrics_spec:
  assumes "compute_symbol_metrics symb fills e = Inr m"
  shows "symbol_ok m \<and> sy_symbol m = symb \<and> sy_num_fills m = length fills"
proof -
  obtain fs where fs: "emap fill_dict_of fills = Inr fs"
    "m = symbol_report symb e (length fills) (foldl (symbol_fill e) (symbol_start e) fs)"
    using assms by (auto simp: compute_symbol_metrics_def ebind_eq_Inr)
  from symbol_fold_counts [of e "symbol_start e" fs] emap_length [OF fs(1)] show ?thesis
    by (simp add: fs(2) symbol_ok_def symbol_report_def symbol_start_def py_round_nonneg)
qed

lemma emap_map: "emap f xs = Inr ys \<Longrightarrow> (\<And>x y. x \<in> set xs \<Longrightarrow> f x = Inr y \<Longrightarrow> g y = h x) \<Longrightarrow> map g ys = map h xs"
  by (induction xs arbitrary: ys) (auto simp: ebind_eq_Inr)

lemma emap_set: "emap f xs = Inr ys \<Longrightarrow> y \<in> set ys \<Longrightarrow> \<exists>x \<in> set xs. f x = Inr y"
  by (induction xs arbitrary: ys) (auto simp: ebind_eq_Inr)

text \<open>
  The analysis has one entry per symbol that was filled, in alphabetical order; every fill is
  counted in exactly one entry, as a buy or a sell; the best and the worst symbol are those with
  the greatest and the smallest return.
\<close>

theorem per_symbol_partitions_fills:
  assumes "compute_per_symbol_analysis fills equity = Inr res" "fills \<noteq> []"
  shows "sorted_wrt (<) (map sy_symbol (ps_symbols res)) \<and> list_all symbol_ok (ps_symbols res) \<and>
    Inr ` set (map sy_symbol (ps_symbols res)) = fill_symbol ` set fills \<and>
    sum_list (map sy_num_fills (ps_symbols res)) = length fills \<and>
    list_ex (\<lambda>b. sy_symbol b = ps_best_symbol res \<and> list_all (\<lambda>m. sy_total_return m \<le> sy_total_return b) (ps_symbols res)) (ps_symbols res) \<and>
    list_ex (\<lambda>w. sy_symbol w = ps_worst_symbol res \<and> list_all (\<lambda>m. sy_total_return w \<le> sy_total_return m) (ps_symbols res)) (ps_symbols res)"
proof -
  obtain tagged ms where tagged: "emap (\<lambda>f. ebind (fill_symbol f) (\<lambda>sym. Inr (sym, f))) fills = Inr tagged"
    and ms: "emap (\<lambda>(sym, fs). compute_symbol_metrics sym fs equity) (sort_key fst (group_by tagged)) = Inr ms"
    and res: "ps_symbols res = ms" "ms \<noteq> [] \<longrightarrow> ps_best_symbol res = sy_symbol (max_by sy_total_return ms) \<and>
      ps_worst_symbol res = sy_symbol (min_by sy_total_return ms)"
    using assms by (auto simp: compute_per_symbol_analysis_def ebind_eq_Inr split: if_splits)
  let ?groups = "sort_key fst (group_by tagged)"
  have snds: "map snd tagged = fills"
    using emap_map [OF tagged, of snd "\<lambda>f. f"] by (auto simp: ebind_eq_Inr)
  have fsts: "map (Inr \<circ> fst) tagged = map fill_symbol fills"
    by (rule emap_map [OF tagged]) (auto simp: ebind_eq_Inr)
  have syms: "map sy_symbol ms = map fst ?groups"
    by (rule emap_map [OF ms]) (auto dest: symbol_metrics_spec)
  have counts: "map sy_num_fills ms = map (length \<circ> snd) ?groups"
    by (rule emap_map [OF ms]) (auto dest: symbol_metrics_spec)
  have "list_all symbol_ok ms"
    using emap_set [OF ms] symbol_metrics_spec by (fastforce simp: list_all_iff)
  moreover have "distinct (map fst ?groups)" "sorted (map fst ?groups)"
    using group_by_spec(1) [of tagged] by (simp_all add: dict_wf_def distinct_map inj_on_def)
  then have "sorted_wrt (<) (map sy_symbol ms)" unfolding syms by (simp only: strict_sorted_iff)
  moreover have "fst ` set ?groups = fst ` set tagged" using group_by_spec(3) by simp
  then have "Inr ` set (map sy_symbol ms) = fill_symbol ` set fills"
    unfolding syms set_map using fsts by (metis image_comp list.set_map)
  moreover have "sum_list (map sy_num_fills ms) = length fills"
  proof -
    have "sum_list (map (length \<circ> snd) ?groups) = sum_list (map (length \<circ> snd) (group_by tagged))"
      by (metis mset_map mset_sort sum_mset_sum_list)
    also have "\<dots> = length tagged"
      using group_by_sum [of "\<lambda>_. 1 :: nat" tagged] by (simp add: o_def case_prod_unfold sum_list_triv)
    also have "\<dots> = length fills" using emap_length [OF tagged] .
    finally show ?thesis by (simp only: counts)
  qed
  moreover have "ms \<noteq> []" using calculation(4) assms(2) by auto
  ultimately show ?thesis
    using res max_by_spec [of ms sy_total_return] min_by_spec [of ms sy_total_return] by (auto simp: list_ex_iff)
qed

definition sample_fill_dicts :: "(string, json) dict list" where
  "sample_fill_dicts = map (\<lambda>(s, side, p). [(''symbol'', JStr s), (''side'', JStr side), (''quantity'', JNum 1), (''fill_price'', JNum p)])
     [(''ETHUSD'', ''BUY'', 100), (''BTCUSD'', ''BUY'', 200), (''ETHUSD'', ''SELL'', 110)]"

theorem per_symbol_partitions_fills_witness:
  "\<exists>res. compute_per_symbol_analysis sample_fill_dicts 100000 = Inr res \<and>
     sum_list (map sy_num_fills (ps_symbols res)) = 3 \<and> Inr ` set (map sy_symbol (ps_symbols res)) = fill_symbol ` set sample_fill_dicts"
proof -
  obtain res where res: "compute_per_symbol_analysis sample_fill_dicts 100000 = Inr res"
    by (simp add: compute_per_symbol_analysis_def compute_symbol_metrics_def sample_fill_dicts_def fill_symbol_def dget_def
        group_by_def group_add_def fill_dict_of_def)
  have "sample_fill_dicts \<noteq> []" by (simp add: sample_fill_dicts_def)
  from per_symbol_partitions_fills [OF res this] res show ?thesis by (auto simp: sample_fill_dicts_def)
qed

end
