(* ===== verification/Job_Store.thy ===== *)
theory Job_Store
  imports Py_Lists Json_Value
begin

text \<open>
  The job store of the post-trade service, the first part of \<open>post_trade_svc/analysis_jobs.py\<close>. Jobs
  are run by the workers of a thread pool: a queue of submitted jobs of which at most
  \<open>max_workers\<close> are taken at a time. Every update of a job happens under the store's lock, so a
  worker is the list of updates it still has to make, and the workers' updates and new
  submissions interleave in any order. What an analysis does is an argument: the progress it
  reports on the way and its result or the text of its exception. Identifiers are fresh.
\<close>

datatype job_status = Pending | Running | Completed | Failed

fun status_value :: "job_status \<Rightarrow> string" where
  "status_value Pending = ''pending''"
| "status_value Running = ''running''"
| "status_value Completed = ''completed''"
| "status_value Failed = ''failed''"

type_synonym job_params = "(string, json) dict"

record analysis_job =
  aj_job_id :: string
  aj_analysis_type :: string
  aj_params :: job_params
  aj_status :: job_status
  aj_progress :: nat
  aj_result :: "json option"
  aj_error :: "string option"
  aj_created_at :: real
  aj_completed_at :: "real option"

definition new_job :: "string \<Rightarrow> string \<Rightarrow> job_params \<Rightarrow> real \<Rightarrow> analysis_job" where
  "new_job job_id analysis_type params now =
     \<lparr>aj_job_id = job_id, aj_analysis_type = analysis_type, aj_params = params, aj_status = Pending, aj_progress = 0,
      aj_result = None, aj_error = None, aj_created_at = now, aj_completed_at = None\<rparr>"

text \<open>One keyword of an update is one assignment to an attribute of the job.\<close>

datatype job_field =
    Set_Status job_status
  | Set_Progress nat
  | Set_Result json
  | Set_Error string
  | Set_Completed_At real

fun set_field :: "job_field \<Rightarrow> analysis_job \<Rightarrow> analysis_job" where
  "set_field (Set_Status st) j = j\<lparr>aj_status := st\<rparr>"
| "set_field (Set_Progress p) j = j\<lparr>aj_progress := p\<rparr>"
| "set_field (Set_Result r) j = j\<lparr>aj_result := Some r\<rparr>"
| "set_field (Set_Error e) j = j\<lparr>aj_error := Some e\<rparr>"
| "set_field (Set_Completed_At t) j = j\<lparr>aj_completed_at := Some t\<rparr>"

type_synonym job_table = "(string, analysis_job) dict"

definition get_job :: "string \<Rightarrow> job_table \<Rightarrow> analysis_job option" where
  "get_job job_id jobs = map_of jobs job_id"

definition update_job :: "string \<Rightarrow> job_field list \<Rightarrow> job_table \<Rightarrow> job_table" where
  "update_job job_id kws jobs =
     (case map_of jobs job_id of
        None \<Rightarrow> jobs
      | Some j \<Rightarrow> AList.update job_id (fold set_field kws j) jobs)"

definition py_prefix :: "int \<Rightarrow> 'a list \<Rightarrow> 'a list" where
  \<comment> \<open>\<open>xs[:n]\<close>, from the end for a negative \<open>n\<close>\<close>
  "py_prefix n xs = (if 0 \<le> n then take (nat n) xs else take (length xs - nat (- n)) xs)"

definition list_jobs :: "int \<Rightarrow> job_table \<Rightarrow> analysis_job list" where
  "list_jobs limit jobs = py_prefix limit (sort_desc aj_created_at (map snd jobs))"

section \<open>Running a job\<close>

type_synonym analysis = "string \<Rightarrow> job_params \<Rightarrow> nat list \<times> (string + json)"

definition final_update :: "real \<Rightarrow> string + json \<Rightarrow> job_field list" where
  "final_update now outcome =
     (case outcome of
        Inr result \<Rightarrow> [Set_Status Completed, Set_Result result, Set_Progress 100, Set_Completed_At now]
      | Inl tb \<Rightarrow> [Set_Status Failed, Set_Error tb, Set_Completed_At now])"

definition run_job :: "analysis \<Rightarrow> real \<Rightarrow> analysis_job option \<Rightarrow> job_field list list" where
  \<comment> \<open>the updates of \<open>_run_job\<close>; \<open>now\<close>: the time at its end\<close>
  "run_job analyse now job =
     [Set_Status Running, Set_Progress 10] #
     (case job of
        None \<Rightarrow> []
      | Some j \<Rightarrow> let (reported, outcome) = analyse (aj_analysis_type j) (aj_params j) in
          map (\<lambda>p. [Set_Progress p]) reported @ [final_update now outcome])"

record job_store =
  js_jobs :: job_table
  js_queue :: "string list"
  js_workers :: "(string \<times> job_field list list) list"
  js_max_workers :: nat

definition job_store_init :: "nat \<Rightarrow> job_store" where
  "job_store_init max_workers = \<lparr>js_jobs = [], js_queue = [], js_workers = [], js_max_workers = max_workers\<rparr>"

definition submit_job :: "string \<Rightarrow> string \<Rightarrow> job_params \<Rightarrow> real \<Rightarrow> job_store \<Rightarrow> job_store" where
  "submit_job job_id analysis_type params now s =
     s\<lparr>js_jobs := AList.update job_id (new_job job_id analysis_type params now) (js_jobs s),
       js_queue := js_queue s @ [job_id]\<rparr>"

inductive job_step :: "analysis \<Rightarrow> job_store \<Rightarrow> job_store \<Rightarrow> bool" for analyse where
  submit: "map_of (js_jobs s) job_id = None \<Longrightarrow> job_step analyse s (submit_job job_id analysis_type params now s)"
| take_job: "js_queue s = job_id # q \<Longrightarrow> length (js_workers s) < js_max_workers s \<Longrightarrow>
    job_step analyse s (s\<lparr>js_queue := q, js_workers := js_workers s @ [(job_id, run_job analyse now (get_job job_id (js_jobs s)))]\<rparr>)"
| update: "js_workers s = ws @ (job_id, u # us) # ws' \<Longrightarrow>
    job_step analyse s (s\<lparr>js_jobs := update_job job_id u (js_jobs s), js_workers := ws @ (job_id, us) # ws'\<rparr>)"
| leave: "js_workers s = ws @ (job_id, []) # ws' \<Longrightarrow> job_step analyse s (s\<lparr>js_workers := ws @ ws'\<rparr>)"

inductive_cases job_stepE: "job_step analyse s s'"

abbreviation job_steps :: "analysis \<Rightarrow> job_store \<Rightarrow> job_store \<Rightarrow> bool" where
  "job_steps analyse \<equiv> rtranclp (job_step analyse)"

section \<open>The life of a job\<close>

text \<open>
  What the fields of a job say together; for a finished job, the result or the error is what the
  analysis of its parameters gives.
\<close>

definition job_ok :: "analysis \<Rightarrow> analysis_job \<Rightarrow> bool" where
  "job_ok analyse j \<longleftrightarrow>
     (let outcome = snd (analyse (aj_analysis_type j) (aj_params j)) in
      case aj_status j of
        Pending \<Rightarrow> aj_result j = None \<and> aj_error j = None \<and> aj_completed_at j = None \<and> aj_progress j = 0
      | Running \<Rightarrow> aj_result j = None \<and> aj_error j = None \<and> aj_completed_at j = None
      | Completed \<Rightarrow> aj_error j = None \<and> aj_completed_at j \<noteq> None \<and> aj_progress j = 100 \<and>
          (case aj_result j of None \<Rightarrow> False | Some r \<Rightarrow> outcome = Inr r)
      | Failed \<Rightarrow> aj_result j = None \<and> aj_completed_at j \<noteq> None \<and>
          (case aj_error j of None \<Rightarrow> False | Some e \<Rightarrow> outcome = Inl e))"

definition finished :: "analysis_job \<Rightarrow> bool" where
  "finished j \<longleftrightarrow> aj_status j = Completed \<or> aj_status j = Failed"

definition worker_script :: "analysis \<Rightarrow> analysis_job \<Rightarrow> job_field list list \<Rightarrow> bool" where
  \<comment> \<open>the updates that are left fit the state of the job\<close>
  "worker_script analyse j us \<longleftrightarrow>
     (aj_status j = Pending \<and> (\<exists>now. us = run_job analyse now (Some j))) \<or>
     (aj_status j = Running \<and> (\<exists>now ps. us = map (\<lambda>p. [Set_Progress p]) ps @ [final_update now (snd (analyse (aj_analysis_type j) (aj_params j)))])) \<or>
     (finished j \<and> us = [])"

definition store_ok :: "analysis \<Rightarrow> job_store \<Rightarrow> bool" where
  "store_ok analyse s \<longleftrightarrow> dict_wf (js_jobs s) \<and> length (js_workers s) \<le> js_max_workers s \<and>
     distinct (js_queue s @ map fst (js_workers s)) \<and>
     (\<forall>job_id j. map_of (js_jobs s) job_id = Some j \<longrightarrow> aj_job_id j = job_id \<and> job_ok analyse j \<and>
        (aj_status j = Pending \<longrightarrow> job_id \<in> set (js_queue s) \<union> fst ` set (js_workers s)) \<and>
        (aj_status j = Running \<longrightarrow> job_id \<in> fst ` set (js_workers s))) \<and>
     (\<forall>job_id \<in> set (js_queue s). \<exists>j. map_of (js_jobs s) job_id = Some j \<and> aj_status j = Pending) \<and>
     (\<forall>(job_id, us) \<in> set (js_workers s). \<exists>j. map_of (js_jobs s) job_id = Some j \<and> worker_script analyse j us)"

lemma store_ok_init: "store_ok analyse (job_store_init n)"
  by (simp add: store_ok_def job_store_init_def)

lemma map_of_update_job:
  "map_of (update_job job_id kws jobs) k =
     (if k = job_id then map_option (fold set_field kws) (map_of jobs job_id) else map_of jobs k)"
  by (auto simp: update_job_def dict.lookup_insert split: option.splits)

lemma update_job_wf: "dict_wf jobs \<Longrightarrow> dict_wf (update_job job_id kws jobs)"
  by (simp add: update_job_def split: option.splits)

text \<open>The next update of a worker takes its job one step along its life.\<close>

lemma worker_script_update:
  assumes "job_ok analyse j" and "worker_script analyse j (u # us)"
  shows "job_ok analyse (fold set_field u j) \<and> worker_script analyse (fold set_field u j) us \<and>
    aj_job_id (fold set_field u j) = aj_job_id j \<and> aj_status (fold set_field u j) \<noteq> Pending \<and> \<not> finished j"
proof -
  obtain reported outcome where an: "analyse (aj_analysis_type j) (aj_params j) = (reported, outcome)" by fastforce
  from assms(2) consider (start) now where "aj_status j = Pending" "u # us = run_job analyse now (Some j)"
    | (run) now ps where "aj_status j = Running" "u # us = map (\<lambda>p. [Set_Progress p]) ps @ [final_update now outcome]"
    by (auto simp: worker_script_def an)
  then show ?thesis
  proof cases
    case start
    then have "u = [Set_Status Running, Set_Progress 10]" "us = map (\<lambda>p. [Set_Progress p]) reported @ [final_update now outcome]"
      by (simp_all add: run_job_def an)
    with start(1) assms(1) show ?thesis
      by (auto simp: job_ok_def worker_script_def an finished_def)
  next
    case run
    show ?thesis
    proof (cases ps)
      case Nil
      with run have "u = final_update now outcome" "us = []" by simp_all
      with run(1) assms(1) show ?thesis
        by (cases outcome) (auto simp: job_ok_def worker_script_def an finished_def final_update_def)
    next
      case (Cons p ps')
      with run have "u = [Set_Progress p]" "us = map (\<lambda>p. [Set_Progress p]) ps' @ [final_update now outcome]" by simp_all
      with run(1) assms(1) show ?thesis
        by (auto simp: job_ok_def worker_script_def an finished_def)
    qed
  qed
qed

lemma store_okD:
  assumes "store_ok analyse s"
  shows "dict_wf (js_jobs s)" "length (js_workers s) \<le> js_max_workers s" "distinct (js_queue s @ map fst (js_workers s))"
    "map_of (js_jobs s) job_id = Some j \<Longrightarrow> aj_job_id j = job_id \<and> job_ok analyse j \<and>
        (aj_status j = Pending \<longrightarrow> job_id \<in> set (js_queue s) \<union> fst ` set (js_workers s)) \<and>
        (aj_status j = Running \<longrightarrow> job_id \<in> fst ` set (js_workers s))"
    "job_id \<in> set (js_queue s) \<Longrightarrow> \<exists>j. map_of (js_jobs s) job_id = Some j \<and> aj_status j = Pending"
    "(job_id, us) \<in> set (js_workers s) \<Longrightarrow> \<exists>j. map_of (js_jobs s) job_id = Some j \<and> worker_script analyse j us"
  using assms by (auto simp: store_ok_def)

lemma store_ok_submit:
  assumes "store_ok analyse s" "map_of (js_jobs s) job_id = None"
  shows "store_ok analyse (submit_job job_id analysis_type params now s)"
proof -
  have "job_id \<notin> set (js_queue s)" and free: "(job_id, us) \<notin> set (js_workers s)" for us
    using store_okD(5,6) [OF assms(1)] assms(2) by fastforce+
  moreover from free have "job_id \<notin> fst ` set (js_workers s)" by force
  moreover have "job_ok analyse (new_job job_id analysis_type params now)"
    by (simp add: job_ok_def new_job_def)
  ultimately show ?thesis
    using assms unfolding store_ok_def submit_job_def
    by (auto simp: dict.lookup_insert new_job_def)
qed

lemma store_ok_take:
  assumes "store_ok analyse s" "js_queue s = job_id # q" "length (js_workers s) < js_max_workers s"
  shows "store_ok analyse (s\<lparr>js_queue := q, js_workers := js_workers s @ [(job_id, run_job analyse now (get_job job_id (js_jobs s)))]\<rparr>)"
proof -
  obtain j where "map_of (js_jobs s) job_id = Some j" "aj_status j = Pending"
    using store_okD(5) [OF assms(1), of job_id] assms(2) by auto
  then have "worker_script analyse j (run_job analyse now (get_job job_id (js_jobs s)))"
    by (auto simp: worker_script_def get_job_def)
  then show ?thesis
    using assms \<open>map_of (js_jobs s) job_id = Some j\<close> unfolding store_ok_def by auto
qed

lemma store_ok_leave:
  assumes "store_ok analyse s" "js_workers s = ws @ (job_id, []) # ws'"
  shows "store_ok analyse (s\<lparr>js_workers := ws @ ws'\<rparr>)"
proof -
  obtain j where j: "map_of (js_jobs s) job_id = Some j" "worker_script analyse j []"
    using store_okD(6) [OF assms(1), of job_id "[]"] assms(2) by auto
  then have "aj_status j \<noteq> Pending" "aj_status j \<noteq> Running"
    by (auto simp: worker_script_def run_job_def finished_def split: prod.splits)
  have live: "aj_job_id i = k \<and> job_ok analyse i \<and>
      (aj_status i = Pending \<longrightarrow> k \<in> set (js_queue s) \<union> fst ` set (ws @ ws')) \<and>
      (aj_status i = Running \<longrightarrow> k \<in> fst ` set (ws @ ws'))" if "map_of (js_jobs s) k = Some i" for k i
    using store_okD(4) [OF assms(1) that] that j(1) \<open>aj_status j \<noteq> Pending\<close> \<open>aj_status j \<noteq> Running\<close>
    by (cases "k = job_id") (auto simp: assms(2))
  show ?thesis
    unfolding store_ok_def using store_okD(1,2,3,5,6) [OF assms(1)] live by (auto simp: assms(2))
qed

lemma store_ok_update:
  assumes "store_ok analyse s" "js_workers s = ws @ (job_id, u # us) # ws'"
  shows "store_ok analyse (s\<lparr>js_jobs := update_job job_id u (js_jobs s), js_workers := ws @ (job_id, us) # ws'\<rparr>)"
proof -
  obtain j where j: "map_of (js_jobs s) job_id = Some j" "worker_script analyse j (u # us)"
    using store_okD(6) [OF assms(1), of job_id "u # us"] assms(2) by auto
  let ?j = "fold set_field u j"
  have "job_ok analyse j" "aj_job_id j = job_id" using store_okD(4) [OF assms(1) j(1)] by simp_all
  with worker_script_update [OF _ j(2)] have ok: "job_ok analyse ?j" "worker_script analyse ?j us" "aj_job_id ?j = job_id"
    "aj_status ?j \<noteq> Pending" by auto
  have other: "k \<noteq> job_id" if "k \<in> set (js_queue s) \<or> (k, vs) \<in> set ws \<or> (k, vs) \<in> set ws'" for k vs
    using store_okD(3) [OF assms(1)] that by (auto simp: assms(2) rev_image_eqI)
  show ?thesis
    unfolding store_ok_def
  proof (intro conjI)
    show "\<forall>k i. map_of (js_jobs (s\<lparr>js_jobs := update_job job_id u (js_jobs s), js_workers := ws @ (job_id, us) # ws'\<rparr>)) k = Some i \<longrightarrow>
      aj_job_id i = k \<and> job_ok analyse i \<and>
      (aj_status i = Pending \<longrightarrow> k \<in> set (js_queue (s\<lparr>js_jobs := update_job job_id u (js_jobs s), js_workers := ws @ (job_id, us) # ws'\<rparr>)) \<union>
         fst ` set (js_workers (s\<lparr>js_jobs := update_job job_id u (js_jobs s), js_workers := ws @ (job_id, us) # ws'\<rparr>))) \<and>
      (aj_status i = Running \<longrightarrow> k \<in> fst ` set (js_workers (s\<lparr>js_jobs := update_job job_id u (js_jobs s), js_workers := ws @ (job_id, us) # ws'\<rparr>)))"
      using ok j(1) store_okD(4) [OF assms(1)] by (auto simp: map_of_update_job assms(2) split: if_splits)
    show "\<forall>k \<in> set (js_queue (s\<lparr>js_jobs := update_job job_id u (js_jobs s), js_workers := ws @ (job_id, us) # ws'\<rparr>)).
      \<exists>i. map_of (js_jobs (s\<lparr>js_jobs := update_job job_id u (js_jobs s), js_workers := ws @ (job_id, us) # ws'\<rparr>)) k = Some i \<and> aj_status i = Pending"
      using store_okD(5) [OF assms(1)] other by (fastforce simp: map_of_update_job)
    show "\<forall>(k, vs) \<in> set (js_workers (s\<lparr>js_jobs := update_job job_id u (js_jobs s), js_workers := ws @ (job_id, us) # ws'\<rparr>)).
      \<exists>i. map_of (js_jobs (s\<lparr>js_jobs := update_job job_id u (js_jobs s), js_workers := ws @ (job_id, us) # ws'\<rparr>)) k = Some i \<and> worker_script analyse i vs"
      using store_okD(6) [OF assms(1)] other ok(2) j(1) by (fastforce simp: map_of_update_job assms(2))
  qed (use store_okD(1,2,3) [OF assms(1)] assms(2) in \<open>auto simp: update_job_wf\<close>)
qed

lemma job_step_ok: "job_step analyse s s' \<Longrightarrow> store_ok analyse s \<Longrightarrow> store_ok analyse s'"
  by (erule job_stepE) (simp_all add: store_ok_submit store_ok_take store_ok_update store_ok_leave)

lemma job_steps_ok: "job_steps analyse s s' \<Longrightarrow> store_ok analyse s \<Longrightarrow> store_ok analyse s'"
  by (induction rule: rtranclp_induct) (auto intro: job_step_ok)

lemma max_workers_const: "job_steps analyse s s' \<Longrightarrow> js_max_workers s' = js_max_workers s"
  by (induction rule: rtranclp_induct) (auto elim!: job_stepE simp: submit_job_def)

lemma reachable_ok: "job_steps analyse (job_store_init n) s \<Longrightarrow> store_ok analyse s \<and> js_max_workers s = n"
  using job_steps_ok [OF _ store_ok_init] max_workers_const [of analyse "job_store_init n" s] by (auto simp: job_store_init_def)

lemma running_bounded:
  assumes "store_ok analyse s"
  shows "length (filter (\<lambda>(_, j). aj_status j = Running) (js_jobs s)) \<le> js_max_workers s"
proof -
  let ?r = "filter (\<lambda>(_, j). aj_status j = Running) (js_jobs s)"
  have "set (map fst ?r) \<subseteq> set (map fst (js_workers s))"
    using store_okD(4) [OF assms] map_of_value [OF store_okD(1) [OF assms]] by (fastforce simp: image_iff)
  then have "card (set (map fst ?r)) \<le> card (set (map fst (js_workers s)))" by (intro card_mono) auto
  moreover have "distinct (map fst ?r)"
    using store_okD(1) [OF assms] by (simp add: dict_wf_def distinct_map_filter)
  moreover have "distinct (map fst (js_workers s))" using store_okD(3) [OF assms] by simp
  ultimately have "length (map fst ?r) \<le> length (map fst (js_workers s))" by (simp only: distinct_card)
  then show ?thesis using store_okD(2) [OF assms] by simp
qed


lemma finished_kept:
  assumes "job_step analyse s s'" "store_ok analyse s" "map_of (js_jobs s) job_id = Some j" "finished j"
  shows "map_of (js_jobs s') job_id = Some j"
  using assms(1)
proof (cases rule: job_step.cases)
  case (update ws k u us ws')
  then obtain i where i: "map_of (js_jobs s) k = Some i" "worker_script analyse i (u # us)"
    using store_okD(6) [OF assms(2), of k "u # us"] by auto
  then have "\<not> finished i"
    using worker_script_update [OF _ i(2)] store_okD(4) [OF assms(2) i(1)] by simp
  with i(1) assms(3,4) have "k \<noteq> job_id" by auto
  with update assms(3) show ?thesis by (simp add: map_of_update_job)
qed (use assms(3) in \<open>auto simp: submit_job_def dict.lookup_insert\<close>)

text \<open>
  Once a job is completed or has failed, nothing changes it any more.
\<close>

theorem finished_jobs_are_final:
  assumes "job_steps analyse (job_store_init max_workers) s" and "job_steps analyse s s'"
    and "map_of (js_jobs s) job_id = Some j" and "finished j"
  shows "map_of (js_jobs s') job_id = Some j"
  using assms(2)
proof (induction rule: rtranclp_induct)
  case (step t t')
  have "store_ok analyse t" using reachable_ok [OF assms(1)] job_steps_ok [OF step(1)] by simp
  from finished_kept [OF step(2) this step(3) assms(4)] show ?case .
qed (rule assms(3))

section \<open>Every job comes to its end\<close>

definition job_inputs :: "job_store \<Rightarrow> (string \<times> string \<times> job_params) list" where
  "job_inputs s = map (\<lambda>(job_id, j). (job_id, aj_analysis_type j, aj_params j)) (js_jobs s)"

lemma set_fields_inputs:
  "aj_analysis_type (fold set_field u j) = aj_analysis_type j \<and> aj_params (fold set_field u j) = aj_params j"
proof (induction u arbitrary: j)
  case (Cons f u)
  then show ?case by (cases f) simp_all
qed simp

lemma map_update_same: "map_of d k = Some w \<Longrightarrow> g (k, v) = g (k, w) \<Longrightarrow> map g (AList.update k v d) = map g d"
  by (induction d) (auto split: if_splits)

lemma update_inputs: "job_inputs (s\<lparr>js_jobs := update_job job_id u (js_jobs s), js_workers := ws\<rparr>) = job_inputs s"
  by (auto simp: job_inputs_def update_job_def set_fields_inputs intro!: map_update_same split: option.splits)

definition remaining :: "(job_store \<times> job_store) set" where
  "remaining = measures [\<lambda>s. length (js_queue s), \<lambda>s. sum_list (map (\<lambda>(_, us). Suc (length us)) (js_workers s))]"

lemma wf_remaining: "wf remaining"
  by (simp add: remaining_def)

lemma job_progress:
  assumes "0 < js_max_workers s" "js_queue s \<noteq> [] \<or> js_workers s \<noteq> []"
  shows "\<exists>s'. job_step analyse s s' \<and> (s', s) \<in> remaining \<and> job_inputs s' = job_inputs s"
proof (cases "js_workers s")
  case Nil
  with assms obtain job_id q where q: "js_queue s = job_id # q" by (cases "js_queue s") auto
  let ?s = "s\<lparr>js_queue := q, js_workers := js_workers s @ [(job_id, run_job analyse 0 (get_job job_id (js_jobs s)))]\<rparr>"
  have "job_step analyse s ?s" by (rule job_step.take_job [OF q]) (use Nil assms(1) in simp)
  moreover have "(?s, s) \<in> remaining" "job_inputs ?s = job_inputs s" by (simp_all add: q remaining_def job_inputs_def)
  ultimately show ?thesis by blast
next
  case (Cons w ws)
  obtain job_id us where w: "w = (job_id, us)" by fastforce
  show ?thesis
  proof (cases us)
    case Nil
    let ?s = "s\<lparr>js_workers := [] @ ws\<rparr>"
    have "job_step analyse s ?s" by (rule job_step.leave) (simp add: Cons w Nil)
    moreover have "(?s, s) \<in> remaining" "job_inputs ?s = job_inputs s" by (simp_all add: Cons w remaining_def job_inputs_def)
    ultimately show ?thesis by blast
  next
    case more: (Cons u us')
    let ?s = "s\<lparr>js_jobs := update_job job_id u (js_jobs s), js_workers := [] @ (job_id, us') # ws\<rparr>"
    have "job_step analyse s ?s" by (rule job_step.update) (simp add: Cons w more)
    moreover have "(?s, s) \<in> remaining" by (simp add: Cons w more remaining_def)
    ultimately show ?thesis using update_inputs by blast
  qed
qed

text \<open>
  C36. No submitted job is lost: whatever has happened so far, the workers can go on until every job
  has ended, each with the result or the error of its own analysis.
\<close>

theorem submitted_jobs_end:
  assumes "job_steps analyse (job_store_init max_workers) s" and "0 < max_workers"
  shows "\<exists>s'. job_steps analyse s s' \<and> job_inputs s' = job_inputs s \<and>
    list_all (\<lambda>(_, j). finished j \<and>
      snd (analyse (aj_analysis_type j) (aj_params j)) = (case aj_result j of Some r \<Rightarrow> Inr r | None \<Rightarrow> Inl (the (aj_error j)))) (js_jobs s')"
proof -
  have ends: "store_ok analyse s \<Longrightarrow> 0 < js_max_workers s \<Longrightarrow>
    \<exists>s'. job_steps analyse s s' \<and> job_inputs s' = job_inputs s \<and> store_ok analyse s' \<and> js_queue s' = [] \<and> js_workers s' = []"
  proof (induction s rule: wf_induct_rule [OF wf_remaining])
    case (1 s)
    show ?case
    proof (cases "js_queue s \<noteq> [] \<or> js_workers s \<noteq> []")
      case True
      from job_progress [OF 1(3) True, of analyse] obtain t where
        t: "job_step analyse s t" "(t, s) \<in> remaining" "job_inputs t = job_inputs s" by blast
      have "store_ok analyse t" "0 < js_max_workers t"
        using job_step_ok [OF t(1) 1(2)] max_workers_const [OF r_into_rtranclp [of "job_step analyse", OF t(1)]] 1(3) by auto
      from 1(1) [OF t(2) this] obtain s' where s': "job_steps analyse t s'" "job_inputs s' = job_inputs t"
        "store_ok analyse s'" "js_queue s' = []" "js_workers s' = []" by blast
      from t(1) s'(1) have "job_steps analyse s s'" by (rule converse_rtranclp_into_rtranclp)
      with s' t(3) show ?thesis by (intro exI [of _ s']) simp
    next
      case False
      with 1(2) show ?thesis by (intro exI [of _ s]) simp
    qed
  qed
  have "store_ok analyse s" "0 < js_max_workers s" using reachable_ok [OF assms(1)] assms(2) by auto
  from ends [OF this] obtain s' where s': "job_steps analyse s s'" "job_inputs s' = job_inputs s" "store_ok analyse s'"
    "js_queue s' = []" "js_workers s' = []" by blast
  have "finished j \<and> snd (analyse (aj_analysis_type j) (aj_params j)) =
      (case aj_result j of Some r \<Rightarrow> Inr r | None \<Rightarrow> Inl (the (aj_error j)))" if "(k, j) \<in> set (js_jobs s')" for k j
  proof -
    have "map_of (js_jobs s') k = Some j" using map_of_value [OF store_okD(1) [OF s'(3)]] that by simp
    from store_okD(4) [OF s'(3) this] s'(4,5) have "job_ok analyse j" "aj_status j \<noteq> Pending" "aj_status j \<noteq> Running" by auto
    then show ?thesis by (cases "aj_status j") (auto simp: job_ok_def finished_def split: option.splits)
  qed
  with s'(1,2) show ?thesis by (intro exI [of _ s']) (auto simp: list_all_iff)
qed

section \<open>A job on one worker\<close>

definition sample_analysis :: analysis where
  "sample_analysis ty params = (if ty = ''monte_carlo'' then ([40], Inr (JInt 7)) else ([], Inl ''ValueError: Unknown analysis type''))"

definition sample_submitted :: job_store where
  "sample_submitted = submit_job ''job-1'' ''monte_carlo'' [] 5 (job_store_init 2)"

definition sample_ended :: job_store where
  "sample_ended = \<lparr>js_jobs = [(''job-1'', \<lparr>aj_job_id = ''job-1'', aj_analysis_type = ''monte_carlo'', aj_params = [],
     aj_status = Completed, aj_progress = 100, aj_result = Some (JInt 7), aj_error = None, aj_created_at = 5,
     aj_completed_at = Some 0\<rparr>)], js_queue = [], js_workers = [(''job-1'', [])], js_max_workers = 2\<rparr>"

lemma sample_submitted_reachable: "job_steps sample_analysis (job_store_init 2) sample_submitted"
  unfolding sample_submitted_def by (rule r_into_rtranclp, rule job_step.submit) (simp add: job_store_init_def)

lemma one_worker:
  assumes "js_workers s = [(job_id, us)]"
  shows "job_steps analyse s (s\<lparr>js_jobs := fold (update_job job_id) us (js_jobs s), js_workers := [(job_id, [])]\<rparr>)"
  using assms
proof (induction us arbitrary: s)
  case (Cons u us)
  have "job_step analyse s (s\<lparr>js_jobs := update_job job_id u (js_jobs s), js_workers := [] @ (job_id, us) # []\<rparr>)"
    by (rule job_step.update) (simp add: Cons.prems)
  moreover have "job_steps analyse (s\<lparr>js_jobs := update_job job_id u (js_jobs s), js_workers := [] @ (job_id, us) # []\<rparr>)
      (s\<lparr>js_jobs := fold (update_job job_id) (u # us) (js_jobs s), js_workers := [(job_id, [])]\<rparr>)"
    using Cons.IH [of "s\<lparr>js_jobs := update_job job_id u (js_jobs s), js_workers := [] @ (job_id, us) # []\<rparr>"] by simp
  ultimately show ?case by (rule converse_rtranclp_into_rtranclp)
next
  case Nil
  then have "s\<lparr>js_jobs := fold (update_job job_id) [] (js_jobs s), js_workers := [(job_id, [])]\<rparr> = s" by (cases s) simp
  then show ?case by simp
qed

lemma sample_ended_reachable: "job_steps sample_analysis sample_submitted sample_ended"
proof -
  let ?t = "sample_submitted\<lparr>js_queue := [], js_workers := js_workers sample_submitted @
     [(''job-1'', run_job sample_analysis 0 (get_job ''job-1'' (js_jobs sample_submitted)))]\<rparr>"
  have "job_step sample_analysis sample_submitted ?t"
    by (rule job_step.take_job) (simp_all add: sample_submitted_def submit_job_def job_store_init_def)
  moreover have "job_steps sample_analysis ?t sample_ended"
    using one_worker [of ?t "''job-1''" "run_job sample_analysis 0 (get_job ''job-1'' (js_jobs sample_submitted))" sample_analysis]
    by (simp add: sample_submitted_def submit_job_def job_store_init_def run_job_def get_job_def sample_analysis_def
        final_update_def update_job_def new_job_def sample_ended_def)
  ultimately show ?thesis by (rule converse_rtranclp_into_rtranclp)
qed


theorem finished_jobs_are_final_witness:
  "\<exists>s'. job_step sample_analysis sample_ended s' \<and> js_queue s' = [''job-2''] \<and>
     map_of (js_jobs s') ''job-1'' = map_of (js_jobs sample_ended) ''job-1''"
proof -
  let ?s = "submit_job ''job-2'' ''validate'' [] 6 sample_ended"
  have step: "job_step sample_analysis sample_ended ?s" by (rule job_step.submit) (simp add: sample_ended_def)
  have "finished (the (map_of (js_jobs sample_ended) ''job-1''))" "map_of (js_jobs sample_ended) ''job-1'' = Some (the (map_of (js_jobs sample_ended) ''job-1''))"
    by (simp_all add: sample_ended_def finished_def)
  from finished_jobs_are_final [OF rtranclp_trans [OF sample_submitted_reachable sample_ended_reachable]
      r_into_rtranclp [of "job_step sample_analysis", OF step] this(2,1)] this(2)
  have "map_of (js_jobs ?s) ''job-1'' = map_of (js_jobs sample_ended) ''job-1''" by simp
  with step show ?thesis by (intro exI [of _ ?s]) (simp add: submit_job_def, simp add: sample_ended_def)
qed

theorem submitted_jobs_end_witness:
  "\<exists>s'. job_steps sample_analysis sample_submitted s' \<and> job_inputs s' = [(''job-1'', ''monte_carlo'', [])] \<and>
     list_all (\<lambda>(_, j). finished j) (js_jobs s')"
proof -
  obtain s' where "job_steps sample_analysis sample_submitted s'" "job_inputs s' = job_inputs sample_submitted"
    "list_all (\<lambda>(_, j). finished j \<and>
      snd (sample_analysis (aj_analysis_type j) (aj_params j)) = (case aj_result j of Some r \<Rightarrow> Inr r | None \<Rightarrow> Inl (the (aj_error j)))) (js_jobs s')"
    using submitted_jobs_end [OF sample_submitted_reachable] by auto
  moreover have "job_inputs sample_submitted = [(''job-1'', ''monte_carlo'', [])]"
    by (simp add: job_inputs_def sample_submitted_def submit_job_def job_store_init_def new_job_def)
  ultimately show ?thesis by (intro exI [of _ s']) (auto simp: list_all_iff)
qed

text \<open>A job alone in the store can be run to its end.\<close>

lemma update_of_lone_job: "update_job job_id u [(job_id, j)] = [(job_id, fold set_field u j)]"
  by (simp add: update_job_def)

lemma updates_of_lone_job:
  "fold (update_job job_id) us [(job_id, j)] = [(job_id, fold (fold set_field) us j)]"
  by (induction us arbitrary: j) (simp_all add: update_of_lone_job)

lemma progress_updates:
  "\<exists>p. fold (fold set_field) (map (\<lambda>p. [Set_Progress p]) ps) j = j\<lparr>aj_progress := p\<rparr>"
proof (induction ps arbitrary: j)
  case Nil
  show ?case by (intro exI [of _ "aj_progress j"]) simp
next
  case (Cons p ps)
  from Cons [of "j\<lparr>aj_progress := p\<rparr>"] show ?case by auto
qed

lemma lone_job_completes:
  assumes "analyse analysis_type params = (reported, Inr res)"
  shows "\<exists>s j. job_steps analyse (job_store_init 1) s \<and> map_of (js_jobs s) job_id = Some j \<and> aj_status j = Completed \<and>
    aj_analysis_type j = analysis_type \<and> aj_params j = params"
proof -
  let ?j = "new_job job_id analysis_type params now"
  let ?s = "submit_job job_id analysis_type params now (job_store_init 1)"
  let ?us = "run_job analyse now (Some ?j)"
  let ?t = "?s\<lparr>js_queue := [], js_workers := [(job_id, ?us)]\<rparr>"
  have "job_step analyse (job_store_init 1) ?s" by (rule job_step.submit) (simp add: job_store_init_def)
  moreover have "job_step analyse ?s ?t"
    using job_step.take_job [of ?s job_id "[]" analyse now] by (simp add: submit_job_def job_store_init_def get_job_def)
  ultimately have to_t: "job_steps analyse (job_store_init 1) ?t" by simp
  let ?u = "?t\<lparr>js_jobs := fold (update_job job_id) ?us (js_jobs ?t), js_workers := [(job_id, [])]\<rparr>"
  have "job_steps analyse ?t ?u" by (rule one_worker) simp
  with to_t have "job_steps analyse (job_store_init 1) ?u" by (rule rtranclp_trans)
  moreover obtain p where "fold (fold set_field) (map (\<lambda>p. [Set_Progress p]) reported)
      (?j\<lparr>aj_status := Running, aj_progress := 10\<rparr>) = ?j\<lparr>aj_status := Running, aj_progress := p\<rparr>"
    using progress_updates [of reported "?j\<lparr>aj_status := Running, aj_progress := 10\<rparr>"] by auto
  then have "map_of (js_jobs ?u) job_id = Some (?j\<lparr>aj_status := Completed, aj_progress := 100, aj_result := Some res,
      aj_completed_at := Some now\<rparr>)"
    using assms by (simp add: submit_job_def job_store_init_def update_of_lone_job updates_of_lone_job run_job_def final_update_def new_job_def)
  ultimately show ?thesis by (intro exI conjI) (assumption | simp add: new_job_def)+
qed

end
