(* ===== verification/Job_Data.thy ===== *)
theory Job_Data
  imports Py_Lists Py_Strings
begin

text \<open>
  The trades that the analysis jobs of \<open>post_trade_svc/analysis_jobs.py\<close> work on: rows of the database,
  files of earlier backtests, or synthetic prices. The database is the reply to the query the code
  builds; the candidate directories are given in the order the code tries them (\<open>None\<close>: no
  directory); the random generator is a source of draws.
\<close>

type_synonym trade_dict = "(string, json) dict"

section \<open>From the database\<close>

type_synonym db_reply = "string \<Rightarrow> json list \<Rightarrow> py_error + (json \<times> json \<times> json \<times> json \<times> json) list"

definition trades_query :: "string list \<Rightarrow> string" where
  "trades_query conditions =
     ''SELECT extract(epoch from time) * 1000 AS ts_ms, '' @
     ''price::float8 AS price, quantity::float8 AS quantity, '' @
     ''is_buyer_maker, trade_id '' @ ''FROM trades '' @
     ''WHERE '' @ join '' AND '' conditions @ '' '' @ ''ORDER BY time ASC '' @ ''LIMIT %s''"

definition db_trade :: "string \<Rightarrow> json \<times> json \<times> json \<times> json \<times> json \<Rightarrow> py_error + trade_dict" where
  "db_trade symbol = (\<lambda>(ts_ms, price, quantity, is_buyer_maker, trade_id).
     ebind (as_float price) (\<lambda>p.
     ebind (as_float quantity) (\<lambda>q.
     ebind (as_pyint ts_ms) (\<lambda>ts.
     ebind (if trade_id \<noteq> JNull then as_pyint trade_id else Inr 0) (\<lambda>tid.
     Inr [(''symbol'', JStr symbol), (''price'', JNum p), (''quantity'', JNum q), (''timestamp_exchange'', JInt ts),
       (''is_buyer_maker'', JBool (truthy is_buyer_maker)), (''trade_id'', JInt tid)])))))"

definition load_db_trades :: "db_reply \<Rightarrow> string \<Rightarrow> json \<Rightarrow> json \<Rightarrow> int \<Rightarrow> py_error + trade_dict list" where
  \<comment> \<open>\<open>JNull\<close> bounds are \<open>None\<close>\<close>
  "load_db_trades db symbol start_ms end_ms limit =
     (let lower_bound = (if start_ms \<noteq> JNull then [(''time >= to_timestamp(%s / 1000.0)'', start_ms)] else []);
          upper_bound = (if end_ms \<noteq> JNull then [(''time <= to_timestamp(%s / 1000.0)'', end_ms)] else []);
          conditions = [''symbol = %s'', ''backtest_id IS NULL''] @ map fst (lower_bound @ upper_bound);
          args = [JStr symbol] @ map snd (lower_bound @ upper_bound) @ [JInt limit] in
      ebind (db (trades_query conditions) args) (emap (db_trade symbol)))"

section \<open>From files of earlier runs\<close>

record results_base =
  rb_lines :: "(string, stored option list) dict"  \<comment> \<open>\<open>.jsonl\<close> files, \<open>None\<close> for a blank line\<close>
  rb_files :: "(string, stored) dict"  \<comment> \<open>other files, in the order of the listing\<close>

definition nonblank :: "stored option list \<Rightarrow> stored list" where
  "nonblank ls = map the (filter (\<lambda>l. l \<noteq> None) ls)"

definition trades_of_json :: "json \<Rightarrow> py_error + json" where
  \<comment> \<open>\<open>data if isinstance(data, list) else data.get('trades', [])\<close>\<close>
  "trades_of_json data = (case data of JList js \<Rightarrow> Inr data | _ \<Rightarrow> ebind (as_dict data) (\<lambda>d. Inr (dget d ''trades'' (JList []))))"

definition base_trades :: "string \<Rightarrow> results_base \<Rightarrow> py_error + json list" where
  \<comment> \<open>the trades of one directory, none if it has no file or no trade\<close>
  "base_trades backtest_id b =
     ebind (case map_of (rb_lines b) (backtest_id @ ''_trades.jsonl'') of None \<Rightarrow> Inr [] | Some ls \<Rightarrow> emap loads (nonblank ls)) (\<lambda>lines.
     if lines \<noteq> [] then Inr lines
     else case map_of (rb_files b) (backtest_id @ ''_trades.json'') of
        None \<Rightarrow> Inr []
      | Some text \<Rightarrow> ebind (loads text) (\<lambda>data. ebind (trades_of_json data) (\<lambda>ts. if truthy ts then items_of ts else Inr [])))"

fun load_historical_trades :: "results_base option list \<Rightarrow> string \<Rightarrow> py_error + json list" where
  "load_historical_trades [] backtest_id = Inl (ExternalError ''FileNotFoundError'')"
| "load_historical_trades (None # bs) backtest_id = load_historical_trades bs backtest_id"
| "load_historical_trades (Some b # bs) backtest_id =
     ebind (base_trades backtest_id b) (\<lambda>ts. if ts \<noteq> [] then Inr ts else load_historical_trades bs backtest_id)"

fun contains :: "string \<Rightarrow> string \<Rightarrow> bool" where
  \<comment> \<open>\<open>sub in s\<close>\<close>
  "contains sub [] = (sub = [])"
| "contains sub (c # s) = (take (length sub) (c # s) = sub \<or> contains sub s)"

definition ends_with :: "string \<Rightarrow> string \<Rightarrow> bool" where
  "ends_with s suff \<longleftrightarrow> length suff \<le> length s \<and> drop (length s - length suff) s = suff"

function without_all :: "string \<Rightarrow> string \<Rightarrow> string" where
  \<comment> \<open>\<open>s.replace(sub, '')\<close> for a non-empty \<open>sub\<close>\<close>
  "without_all sub [] = []"
| "without_all sub (c # s) =
     (if sub \<noteq> [] \<and> take (length sub) (c # s) = sub then without_all sub (drop (length sub) (c # s)) else c # without_all sub s)"
  by pat_completeness auto
termination
  by (relation "measure (length \<circ> snd)") auto

record run_listing =
  rl_backtest_id :: string
  rl_symbol :: json
  rl_timestamp :: string
  rl_trades_replayed :: json
  rl_duration_seconds :: json
  rl_has_trades :: bool

definition listing_of :: "results_base \<Rightarrow> string \<Rightarrow> trade_dict \<Rightarrow> py_error + run_listing" where
  \<comment> \<open>the timestamp is read as the text that the list is sorted by\<close>
  "listing_of b fname data =
     ebind (as_str (dget data ''backtest_id'' (JStr (without_all ''.json'' fname)))) (\<lambda>bid.
     ebind (as_str (dget data ''timestamp'' (JStr ''''))) (\<lambda>ts.
     Inr \<lparr>rl_backtest_id = bid, rl_symbol = dget data ''symbol'' (JStr ''unknown''), rl_timestamp = ts,
       rl_trades_replayed = dget data ''trades_replayed'' (JInt 0), rl_duration_seconds = dget data ''duration_seconds'' (JInt 0),
       rl_has_trades = (map_of (rb_lines b) (bid @ ''_trades.jsonl'') \<noteq> None \<or> map_of (rb_files b) (bid @ ''_trades.json'') \<noteq> None)\<rparr>))"

definition metadata_file :: "string \<Rightarrow> bool" where
  "metadata_file fname \<longleftrightarrow> ends_with fname ''.json'' \<and> \<not> contains ''_trades.'' fname"

fun list_files :: "results_base \<Rightarrow> (string \<times> stored) list \<Rightarrow> run_listing list \<Rightarrow> py_error + run_listing list" where
  \<comment> \<open>files that are no JSON are skipped, and so are runs listed already\<close>
  "list_files b [] found = Inr found"
| "list_files b ((fname, text) # fs) found =
     (if \<not> metadata_file fname then list_files b fs found
      else case loads text of
          Inl _ \<Rightarrow> list_files b fs found
        | Inr j \<Rightarrow> ebind (as_dict j) (\<lambda>data. ebind (listing_of b fname data) (\<lambda>r.
            list_files b fs (if rl_backtest_id r \<in> set (map rl_backtest_id found) then found else found @ [r]))))"

fun list_bases :: "results_base option list \<Rightarrow> run_listing list \<Rightarrow> py_error + run_listing list" where
  "list_bases [] found = Inr found"
| "list_bases (None # bs) found = list_bases bs found"
| "list_bases (Some b # bs) found = ebind (list_files b (rb_files b) found) (list_bases bs)"

definition list_historical_backtests :: "results_base option list \<Rightarrow> py_error + run_listing list" where
  "list_historical_backtests bs = ebind (list_bases bs []) (\<lambda>found. Inr (sort_rev rl_timestamp found))"

section \<open>Synthetic trades\<close>

record price_draws =
  pd_gauss :: "nat \<Rightarrow> real"  \<comment> \<open>standard normal\<close>
  pd_random :: "nat \<Rightarrow> real"  \<comment> \<open>in \<open>[0, 1)\<close>\<close>

definition start_ts :: int where "start_ts = 1700000000000"

definition quantity_draw :: "price_draws \<Rightarrow> nat \<Rightarrow> real \<Rightarrow> real \<Rightarrow> json" where
  \<comment> \<open>\<open>round(rng.uniform(a, b), 4)\<close>\<close>
  "quantity_draw rng k a b = JNum (py_round (a + (b - a) * pd_random rng k) 4)"

definition coin_draw :: "price_draws \<Rightarrow> nat \<Rightarrow> json" where
  "coin_draw rng k = JBool (1 / 2 < pd_random rng k)"

definition synthetic_trade :: "json \<Rightarrow> real \<Rightarrow> json \<Rightarrow> int \<Rightarrow> json \<Rightarrow> trade_dict" where
  "synthetic_trade symbol price quantity ts maker =
     [(''symbol'', symbol), (''price'', JNum (py_round price 2)), (''quantity'', quantity), (''timestamp_exchange'', JInt ts),
      (''is_buyer_maker'', maker)]"

fun single_walk :: "price_draws \<Rightarrow> json \<Rightarrow> int \<Rightarrow> nat list \<Rightarrow> real \<Rightarrow> trade_dict list" where
  "single_walk rng symbol dt_ms [] price = []"
| "single_walk rng symbol dt_ms (i # is) price =
     (let price1 = max (price + (pd_gauss rng i * 50 - (price - 50000) * (1 / 1000))) 100 in
      synthetic_trade symbol price1 (quantity_draw rng (2 * i) (1 / 1000) (1 / 10)) (start_ts + int i * dt_ms) (coin_draw rng (2 * i + 1))
      # single_walk rng symbol dt_ms is price1)"

fun pair_walk :: "price_draws \<Rightarrow> json \<Rightarrow> json \<Rightarrow> int \<Rightarrow> nat list \<Rightarrow> real \<Rightarrow> real \<Rightarrow> trade_dict list" where
  "pair_walk rng symbol_a symbol_b dt_ms [] price_a price_b = []"
| "pair_walk rng symbol_a symbol_b dt_ms (i # is) price_a price_b =
     (let shared = pd_gauss rng (3 * i) * 30;
          a1 = max (price_a + (shared + pd_gauss rng (3 * i + 1) * 20 - (price_a - 50000) * (1 / 1000))) 100;
          b1 = max (price_b + (shared * (7 / 100) + pd_gauss rng (3 * i + 2) * (3 / 2) - (price_b - 3500) * (1 / 1000))) 10;
          ts = start_ts + int i * dt_ms in
      synthetic_trade symbol_a a1 (quantity_draw rng (4 * i) (1 / 1000) (1 / 10)) ts (coin_draw rng (4 * i + 1))
      # synthetic_trade symbol_b b1 (quantity_draw rng (4 * i + 2) (1 / 100) 1) (ts + dt_ms div 2) (coin_draw rng (4 * i + 3))
      # pair_walk rng symbol_a symbol_b dt_ms is a1 b1)"

definition make_trades :: "price_draws \<Rightarrow> (string, json) dict \<Rightarrow> string \<Rightarrow> py_error + trade_dict list" where
  "make_trades rng params strategy =
     (let symbol_a = dget params ''symbol'' (JStr ''BTCUSD''); symbol_b = dget params ''symbol_b'' (JStr ''ETHUSD'') in
      ebind (as_pyint (dget params ''num_trades'' (JInt 5000))) (\<lambda>n.
      ebind (as_pyint (dget params ''span_ms'' (JInt (7 * 24 * 60 * 60 * 1000)))) (\<lambda>span_ms.
      let dt_ms = max 1 (span_ms div max n 1) in
      Inr (if strategy = ''pairs_trading''
        then pair_walk rng symbol_a symbol_b dt_ms [0..<nat n] 50000 3500
        else single_walk rng symbol_a dt_ms [0..<nat n] 50000))))"

section \<open>Synthetic trades are well-formed\<close>

definition pdraws_ok :: "price_draws \<Rightarrow> bool" where
  "pdraws_ok rng \<longleftrightarrow> (\<forall>k. 0 \<le> pd_random rng k \<and> pd_random rng k < 1)"

definition trade_price :: "trade_dict \<Rightarrow> real" where
  "trade_price t = (case dget t ''price'' JNull of JNum x \<Rightarrow> x | _ \<Rightarrow> 0)"

definition trade_quantity :: "trade_dict \<Rightarrow> real" where
  "trade_quantity t = (case dget t ''quantity'' JNull of JNum x \<Rightarrow> x | _ \<Rightarrow> 0)"

definition trade_time :: "trade_dict \<Rightarrow> int" where
  "trade_time t = (case dget t ''timestamp_exchange'' JNull of JInt i \<Rightarrow> i | _ \<Rightarrow> 0)"

definition tradable :: "trade_dict \<Rightarrow> bool" where
  "tradable t \<longleftrightarrow> 10 \<le> trade_price t \<and> 1 / 1000 \<le> trade_quantity t \<and> trade_quantity t \<le> 1"

lemma synthetic_parts [simp]:
  "trade_price (synthetic_trade s p (JNum q) ts m) = py_round p 2"
  "trade_quantity (synthetic_trade s p (JNum q) ts m) = q"
  "trade_time (synthetic_trade s p (JNum q) ts m) = ts"
  by (simp_all add: trade_price_def trade_quantity_def trade_time_def synthetic_trade_def dget_def)

lemma quantity_bounds:
  fixes a b :: real
  assumes "pdraws_ok rng" "of_int l / 10 ^ 4 \<le> a" "a \<le> b" "b \<le> of_int u / 10 ^ 4"
  shows "\<exists>q. quantity_draw rng k a b = JNum q \<and> of_int l / 10 ^ 4 \<le> q \<and> q \<le> of_int u / 10 ^ 4"
proof -
  have r: "0 \<le> pd_random rng k" "pd_random rng k \<le> 1" using assms(1) by (simp_all add: pdraws_ok_def less_imp_le)
  have "0 \<le> (b - a) * pd_random rng k" "(b - a) * pd_random rng k \<le> b - a"
    using r assms(3) mult_left_mono [of "pd_random rng k" 1 "b - a"] by simp_all
  then have "a \<le> a + (b - a) * pd_random rng k" "a + (b - a) * pd_random rng k \<le> b" by linarith+
  from py_round_between [OF order_trans [OF assms(2) this(1)] order_trans [OF this(2) assms(4)]]
  show ?thesis by (simp add: quantity_draw_def)
qed

lemma small_quantity:
  assumes "pdraws_ok rng"
  shows "\<exists>q. quantity_draw rng k (1 / 1000) (1 / 10) = JNum q \<and> 1 / 1000 \<le> q \<and> q \<le> 1"
    "\<exists>q. quantity_draw rng k (1 / 100) 1 = JNum q \<and> 1 / 1000 \<le> q \<and> q \<le> 1"
  using quantity_bounds [OF assms, of 10 "1 / 1000" "1 / 10" 10000 k] quantity_bounds [OF assms, of 10 "1 / 100" 1 10000 k] by auto

lemma price_floor: "10 \<le> py_round (max x 100) 2" "10 \<le> py_round (max x 10) 2"
  using py_round_ge [of 1000 2 "max x 100"] py_round_ge [of 1000 2 "max x 10"] by simp_all

lemma single_walk_ok:
  assumes "pdraws_ok rng" "sorted is"
  shows "list_all tradable (single_walk rng symbol dt is price) \<and>
    map trade_time (single_walk rng symbol dt is price) = map (\<lambda>i. start_ts + int i * dt) is"
  using assms(2)
proof (induction "is" arbitrary: price)
  case (Cons i "is")
  obtain q where "quantity_draw rng (2 * i) (1 / 1000) (1 / 10) = JNum q" "1 / 1000 \<le> q" "q \<le> 1"
    using small_quantity(1) [OF assms(1)] by blast
  with Cons show ?case by (simp add: Let_def tradable_def price_floor)
qed simp

lemma pair_walk_ok:
  assumes "pdraws_ok rng"
  shows "list_all tradable (pair_walk rng symbol_a symbol_b dt is price_a price_b) \<and>
    map trade_time (pair_walk rng symbol_a symbol_b dt is price_a price_b) =
      concat (map (\<lambda>i. [start_ts + int i * dt, start_ts + int i * dt + dt div 2]) is)"
proof (induction "is" arbitrary: price_a price_b)
  case (Cons i "is")
  obtain q q' where "quantity_draw rng (4 * i) (1 / 1000) (1 / 10) = JNum q" "1 / 1000 \<le> q" "q \<le> 1"
    "quantity_draw rng (4 * i + 2) (1 / 100) 1 = JNum q'" "1 / 1000 \<le> q'" "q' \<le> 1"
    using small_quantity [OF assms] by meson
  with Cons show ?case by (simp add: Let_def tradable_def price_floor)
qed simp

lemma walk_length:
  "length (single_walk rng symbol dt is price) = length is"
  "length (pair_walk rng symbol_a symbol_b dt is price_a price_b) = 2 * length is"
  by (induction "is" arbitrary: price price_a price_b) (simp_all add: Let_def)

lemma sorted_times:
  fixes dt :: int
  assumes "1 \<le> dt"
  shows "sorted (map (\<lambda>i. start_ts + int i * dt) [0..<n]) \<and>
    sorted (concat (map (\<lambda>i. [start_ts + int i * dt, start_ts + int i * dt + dt div 2]) [0..<n])) \<and>
    list_all (\<lambda>t. t < start_ts + int n * dt) (concat (map (\<lambda>i. [start_ts + int i * dt, start_ts + int i * dt + dt div 2]) [0..<n]))"
proof (induction n)
  case (Suc n)
  have "dt div 2 < dt" "0 \<le> dt div 2" using assms by simp_all
  with Suc show ?case
    using assms by (auto simp: sorted_append list_all_iff algebra_simps intro: less_imp_le mult_right_mono)
qed simp

text \<open>
  Synthetic data are trades that a strategy can trade on: in the order of time, one per step (two
  for a pair), with a price of at least 10 and a quantity between 0.001 and 1.
\<close>

theorem synthetic_trades_well_formed:
  assumes "pdraws_ok rng" and "make_trades rng params strategy = Inr trades"
  shows "list_all tradable trades \<and> sorted (map trade_time trades) \<and>
    (case dget params ''num_trades'' (JInt 5000) of
       JInt n \<Rightarrow> length trades = (if strategy = ''pairs_trading'' then 2 else 1) * nat n | _ \<Rightarrow> True)"
proof -
  obtain n span_ms where n: "as_pyint (dget params ''num_trades'' (JInt 5000)) = Inr n"
    and trades: "trades = (if strategy = ''pairs_trading''
        then pair_walk rng (dget params ''symbol'' (JStr ''BTCUSD'')) (dget params ''symbol_b'' (JStr ''ETHUSD''))
          (max 1 (span_ms div max n 1)) [0..<nat n] 50000 3500
        else single_walk rng (dget params ''symbol'' (JStr ''BTCUSD'')) (max 1 (span_ms div max n 1)) [0..<nat n] 50000)"
    using assms(2) by (auto simp: make_trades_def ebind_eq_Inr Let_def)
  have dt: "1 \<le> max 1 (span_ms div max n 1)" by simp
  have "length trades = (if strategy = ''pairs_trading'' then 2 else 1) * nat n \<and> list_all tradable trades \<and> sorted (map trade_time trades)"
  proof (cases "strategy = ''pairs_trading''")
    case True
    note w = pair_walk_ok [OF assms(1)]
    show ?thesis using True w sorted_times [OF dt, of "nat n"] by (simp add: trades walk_length)
  next
    case False
    note w = single_walk_ok [OF assms(1), of "[0..<nat n]"]
    show ?thesis using False w sorted_times [OF dt, of "nat n"] by (simp add: trades walk_length)
  qed
  with n show ?thesis by (auto split: json.splits)
qed

definition sample_price_draws :: price_draws where
  "sample_price_draws = \<lparr>pd_gauss = (\<lambda>k. real k - 1), pd_random = (\<lambda>k. 1 / real (k + 2))\<rparr>"

theorem synthetic_trades_well_formed_witness:
  "\<exists>trades. make_trades sample_price_draws [(''num_trades'', JInt 3)] ''pairs_trading'' = Inr trades \<and>
     length trades = 6 \<and> list_all tradable trades"
proof -
  have ok: "pdraws_ok sample_price_draws" by (simp add: pdraws_ok_def sample_price_draws_def)
  obtain trades where t: "make_trades sample_price_draws [(''num_trades'', JInt 3)] ''pairs_trading'' = Inr trades"
    by (simp add: make_trades_def dget_def Let_def)
  from synthetic_trades_well_formed [OF ok t] t show ?thesis by (simp add: dget_def)
qed

section \<open>Which earlier runs are found\<close>

lemma load_historical_found:
  "load_historical_trades bs backtest_id = Inr ts \<Longrightarrow>
   ts \<noteq> [] \<and> list_ex (\<lambda>c. case c of None \<Rightarrow> False | Some b \<Rightarrow> base_trades backtest_id b = Inr ts) bs"
  by (induction bs backtest_id rule: load_historical_trades.induct) (auto simp: ebind_eq_Inr split: if_splits)

definition lists_run :: "results_base \<Rightarrow> string \<times> stored \<Rightarrow> string \<Rightarrow> bool" where
  \<comment> \<open>the file describes a run of that identifier\<close>
  "lists_run b = (\<lambda>(fname, text) bid. metadata_file fname \<and>
     (case ebind (loads text) as_dict of
        Inl _ \<Rightarrow> False
      | Inr data \<Rightarrow> (case listing_of b fname data of Inl _ \<Rightarrow> False | Inr r \<Rightarrow> rl_backtest_id r = bid)))"

lemma list_files_spec:
  assumes "list_files b fs found = Inr found'" "distinct (map rl_backtest_id found)"
  shows "distinct (map rl_backtest_id found') \<and>
    set (map rl_backtest_id found') = set (map rl_backtest_id found) \<union> {bid. \<exists>fl \<in> set fs. lists_run b fl bid}"
  using assms
proof (induction b fs found rule: list_files.induct)
  case (2 b fname content fs found)
  show ?case
  proof (cases "metadata_file fname")
    case False
    with 2 show ?thesis by (auto simp: lists_run_def)
  next
    case meta: True
    show ?thesis
    proof (cases "loads content")
      case (Inl e)
      with 2 meta show ?thesis by (auto simp: lists_run_def)
    next
      case (Inr j)
      with 2(4) meta obtain data r where r: "as_dict j = Inr data" "listing_of b fname data = Inr r"
        "list_files b fs (if rl_backtest_id r \<in> set (map rl_backtest_id found) then found else found @ [r]) = Inr found'"
        by (auto simp: ebind_eq_Inr)
      let ?found = "if rl_backtest_id r \<in> set (map rl_backtest_id found) then found else found @ [r]"
      have "distinct (map rl_backtest_id ?found)" using 2(5) by auto
      with 2(3) meta Inr r have "distinct (map rl_backtest_id found') \<and>
        set (map rl_backtest_id found') = set (map rl_backtest_id ?found) \<union> {bid. \<exists>fl \<in> set fs. lists_run b fl bid}" by auto
      moreover have "set (map rl_backtest_id ?found) = insert (rl_backtest_id r) (set (map rl_backtest_id found))" by auto
      moreover have "lists_run b (fname, content) bid \<longleftrightarrow> bid = rl_backtest_id r" for bid
        using Inr meta r by (auto simp: lists_run_def)
      ultimately show ?thesis by auto
    qed
  qed
qed simp

lemma list_bases_spec:
  assumes "list_bases bs found = Inr found'" "distinct (map rl_backtest_id found)"
  shows "distinct (map rl_backtest_id found') \<and> set (map rl_backtest_id found') = set (map rl_backtest_id found) \<union>
    {bid. \<exists>b fl. Some b \<in> set bs \<and> fl \<in> set (rb_files b) \<and> lists_run b fl bid}"
  using assms
proof (induction bs found rule: list_bases.induct)
  case (3 b bs found)
  then obtain found1 where f: "list_files b (rb_files b) found = Inr found1" "list_bases bs found1 = Inr found'"
    by (auto simp: ebind_eq_Inr)
  from list_files_spec [OF f(1) 3(3)] have ok: "distinct (map rl_backtest_id found1)"
    "set (map rl_backtest_id found1) = set (map rl_backtest_id found) \<union> {bid. \<exists>fl \<in> set (rb_files b). lists_run b fl bid}" by auto
  from 3(1) [OF f(2) ok(1)] have "distinct (map rl_backtest_id found')" "set (map rl_backtest_id found') =
    set (map rl_backtest_id found1) \<union> {bid. \<exists>b fl. Some b \<in> set bs \<and> fl \<in> set (rb_files b) \<and> lists_run b fl bid}" by auto
  then show ?case unfolding ok(2) by auto
qed auto

text \<open>
  The list of earlier runs names every run with a readable metadata file in some candidate
  directory exactly once, the newest first.
\<close>

theorem backtests_listed_once:
  assumes "list_historical_backtests bs = Inr runs"
  shows "distinct (map rl_backtest_id runs) \<and> sorted_wrt (\<lambda>a b. rl_timestamp b \<le> rl_timestamp a) runs \<and>
    set (map rl_backtest_id runs) = {bid. \<exists>b fl. Some b \<in> set bs \<and> fl \<in> set (rb_files b) \<and> lists_run b fl bid}"
proof -
  obtain found where f: "list_bases bs [] = Inr found" "runs = sort_rev rl_timestamp found"
    using assms by (auto simp: list_historical_backtests_def ebind_eq_Inr)
  have "mset (map rl_backtest_id runs) = mset (map rl_backtest_id found)" by (simp add: f(2) sort_rev_props)
  then have "distinct (map rl_backtest_id runs) = distinct (map rl_backtest_id found)"
    "set (map rl_backtest_id runs) = set (map rl_backtest_id found)"
    by (rule mset_eq_imp_distinct_iff, rule mset_eq_setD)
  then show ?thesis
    using list_bases_spec [OF f(1)] sort_rev_props(3) [of rl_timestamp found] f(2) by simp
qed

definition sample_base :: results_base where
  "sample_base = \<lparr>rb_lines = [(''bt-1_trades.jsonl'', [])],
     rb_files = [(''bt-1.json'', Document (JObj [(''backtest_id'', JStr ''bt-1''), (''timestamp'', JStr ''2026-01-01'')])),
       (''bt-2.json'', Document (JObj [(''timestamp'', JStr ''2026-02-01'')])), (''bt-1_trades.json'', Document (JList [])),
       (''notes.json'', Unparsable ''?'')]\<rparr>"

theorem backtests_listed_once_witness:
  "\<exists>runs. list_historical_backtests [None, Some sample_base, Some sample_base] = Inr runs \<and>
     map rl_backtest_id runs = [''bt-2'', ''bt-1''] \<and> distinct (map rl_backtest_id runs)"
proof -
  obtain runs where runs: "list_historical_backtests [None, Some sample_base, Some sample_base] = Inr runs"
    "map rl_backtest_id runs = [''bt-2'', ''bt-1'']"
    by (simp add: list_historical_backtests_def sample_base_def metadata_file_def ends_with_def listing_of_def dget_def sort_rev_def)
  from backtests_listed_once [OF runs(1)] have "distinct (map rl_backtest_id runs)" by (rule conjunct1)
  with runs show ?thesis by (intro exI [of _ runs] conjI)
qed

end
