(* ===== verification/Analysis_Jobs.thy ===== *)
theory Analysis_Jobs
  imports Job_Store Job_Data Evaluator Param_Sensitivity Monte_Carlo Validation "HOL-Library.Sublist"
begin

text \<open>
  What the analysis jobs do, the second part of \<open>post_trade_svc/analysis_jobs.py\<close>: the trades are
  loaded, the strategy evaluator is set up, and one of the backtest analyses runs over them. A run
  is the progress it reports to the job store on the way, and its result or exception. The
  evaluator, the generators' draws, the data sources and the text of a traceback are the
  environment; \<open>local_evaluator\<close> is the evaluator of the backtest service.
\<close>

section \<open>Runs that report progress\<close>

type_synonym 'a tracked_run = "nat list \<times> (py_error + 'a)"

definition tbind :: "'a tracked_run \<Rightarrow> ('a \<Rightarrow> 'b tracked_run) \<Rightarrow> 'b tracked_run" where
  "tbind m f = (case snd m of Inl e \<Rightarrow> (fst m, Inl e) | Inr x \<Rightarrow> (fst m @ fst (f x), snd (f x)))"

definition report :: "nat \<Rightarrow> 'a tracked_run \<Rightarrow> 'a tracked_run" where
  \<comment> \<open>\<open>store._update(job_id, progress=p)\<close> before the rest\<close>
  "report p m = (p # fst m, snd m)"

definition attempt :: "py_error + 'a \<Rightarrow> ('a \<Rightarrow> 'b tracked_run) \<Rightarrow> 'b tracked_run" where
  "attempt r f = (case r of Inl e \<Rightarrow> ([], Inl e) | Inr x \<Rightarrow> f x)"

definition result :: "'a \<Rightarrow> 'a tracked_run" where
  "result x = ([], Inr x)"

section \<open>The evaluator\<close>

type_synonym job_evaluator = "json list \<Rightarrow> pdict \<Rightarrow> py_error + bt_metrics"

definition metrics_of :: "bt_metrics \<Rightarrow> metrics_dict" where
  \<comment> \<open>the numbers of the evaluator's dictionary\<close>
  "metrics_of m = [(''sharpe'', bm_sharpe m), (''total_return'', bm_total_return m), (''max_drawdown'', bm_max_drawdown m),
     (''num_trades'', real (bm_num_trades m)), (''num_signals'', real (bm_num_signals m)), (''bucket_ms'', of_int (bm_bucket_ms m)),
     (''total_costs'', bm_total_costs m)]"

definition scalar_evaluator :: "job_evaluator \<Rightarrow> (json, pdict) evaluator" where
  "scalar_evaluator ev trades p = ebind (ev trades p) (\<lambda>m. Inr (metrics_of m))"

definition numeric :: "cost_params \<Rightarrow> pdict" where
  "numeric p = map (\<lambda>(k, v). (k, PNum v)) p"

definition cost_evaluator_of :: "job_evaluator \<Rightarrow> json cost_evaluator" where
  "cost_evaluator_of ev trades p = scalar_evaluator ev trades (numeric p)"

definition param_num :: "pdict \<Rightarrow> string \<Rightarrow> real \<Rightarrow> py_error + real" where
  \<comment> \<open>\<open>{**DEFAULTS, **params}[k]\<close> of a numeric parameter\<close>
  "param_num p k dflt = (case map_of p k of None \<Rightarrow> Inr dflt | Some (PNum x) \<Rightarrow> Inr x | Some _ \<Rightarrow> Inl TypeError)"

definition vwap_params_of :: "pdict \<Rightarrow> py_error + vwap_params" where
  "vwap_params_of p =
     ebind (param_num p ''window_size'' (real (vp_window_size default_params))) (\<lambda>w.
     ebind (param_num p ''threshold_std'' (vp_threshold_std default_params)) (\<lambda>th.
     ebind (param_num p ''warmup_trades'' (of_int (vp_warmup_trades default_params))) (\<lambda>wu.
     ebind (param_num p ''cooldown_trades'' (of_int (vp_cooldown_trades default_params))) (\<lambda>cd.
     ebind (param_num p ''target_risk_usd'' (vp_target_risk_usd default_params)) (\<lambda>tr.
     ebind (param_num p ''max_notional_usd'' (vp_max_notional_usd default_params)) (\<lambda>mx.
     ebind (param_num p ''min_notional_usd'' (vp_min_notional_usd default_params)) (\<lambda>mn.
     ebind (param_num p ''holding_period_trades'' (vp_holding_period_trades default_params)) (\<lambda>hp.
     Inr \<lparr>vp_window_size = nat (py_int w), vp_threshold_std = th, vp_warmup_trades = py_int wu, vp_cooldown_trades = py_int cd,
       vp_target_risk_usd = tr, vp_max_notional_usd = mx, vp_min_notional_usd = mn, vp_holding_period_trades = hp\<rparr>))))))))"

definition pairs_params_of :: "pdict \<Rightarrow> py_error + pairs_params" where
  "pairs_params_of p =
     ebind (param_num p ''entry_threshold'' (pp_entry_threshold pairs_default_params)) (\<lambda>en.
     ebind (param_num p ''min_correlation'' (pp_min_correlation pairs_default_params)) (\<lambda>mc.
     ebind (param_num p ''base_quantity'' (pp_base_quantity pairs_default_params)) (\<lambda>bq.
     ebind (param_num p ''cooldown_trades'' (of_int (pp_cooldown_trades pairs_default_params))) (\<lambda>cd.
     ebind (param_num p ''warmup_trades'' (of_int (pp_warmup_trades pairs_default_params))) (\<lambda>wu.
     Inr \<lparr>pp_entry_threshold = en, pp_min_correlation = mc, pp_base_quantity = bq, pp_cooldown_trades = py_int cd,
       pp_warmup_trades = py_int wu\<rparr>)))))"

definition eval_params_of :: "pdict \<Rightarrow> py_error + eval_params" where
  "eval_params_of p =
     ebind (case map_of p ''fee_rate'' of None \<Rightarrow> Inr None | Some PNone \<Rightarrow> Inr (Some None)
       | Some (PNum x) \<Rightarrow> Inr (Some (Some x)) | Some (PStr _) \<Rightarrow> Inl TypeError) (\<lambda>fee.
     ebind (case map_of p ''slippage_bps'' of None \<Rightarrow> Inr None | Some (PNum x) \<Rightarrow> Inr (Some x) | Some _ \<Rightarrow> Inl TypeError) (\<lambda>slip.
     ebind (vwap_params_of p) (\<lambda>vp.
     ebind (pairs_params_of p) (\<lambda>pp.
     ebind (param_num p ''window'' 200) (\<lambda>w.
     Inr \<lparr>ep_fee_rate = fee, ep_slippage_bps = slip, ep_vwap = vp, ep_pairs = pp, ep_window = nat (py_int w)\<rparr>)))))"

definition local_evaluator :: "(nat \<Rightarrow> eval_env) \<Rightarrow> evaluator_config \<Rightarrow> job_evaluator" where
  \<comment> \<open>\<open>envs i\<close>: identifiers, clock and draws while the \<open>i\<close>-th trade is replayed\<close>
  "local_evaluator envs config trades p =
     ebind (eval_params_of p) (\<lambda>ps. ebind (emap as_dict trades) (\<lambda>ts.
     evaluate config (zip (map envs [0..<length ts]) ts) ps))"

section \<open>Parameters of a job\<close>

definition int_param :: "job_params \<Rightarrow> string \<Rightarrow> int \<Rightarrow> py_error + int" where
  "int_param params k dflt = as_pyint (dget params k (JInt dflt))"

definition float_param :: "job_params \<Rightarrow> string \<Rightarrow> real \<Rightarrow> py_error + real" where
  "float_param params k dflt = as_float (dget params k (JNum dflt))"

definition job_strategy :: "job_params \<Rightarrow> json" where
  "job_strategy params = dget params ''strategy'' (JStr ''mean_reversion'')"

definition vwap_strategy_job :: "job_params \<Rightarrow> bool" where
  "vwap_strategy_job params \<longleftrightarrow> job_strategy params = JStr ''mean_reversion'' \<or> job_strategy params = JStr ''momentum''"

definition grid_range :: "string \<Rightarrow> real list \<Rightarrow> param_range" where
  "grid_range name vals = \<lparr>pr_name = name, pr_values = map PNum vals, pr_low = 0, pr_high = 1, pr_log_scale = False,
     pr_dtype = ''float''\<rparr>"

fun pvalue_json :: "pvalue \<Rightarrow> json" where
  "pvalue_json PNone = JNull"
| "pvalue_json (PNum x) = JNum x"
| "pvalue_json (PStr s) = JStr s"

definition pdict_json :: "pdict \<Rightarrow> json" where
  "pdict_json p = JObj (map (\<lambda>(k, v). (k, pvalue_json v)) p)"

abbreviation rounded :: "real \<Rightarrow> nat \<Rightarrow> json" where
  "rounded x n \<equiv> JNum (py_round x n)"

section \<open>The analyses\<close>

definition sensitivity_ranges :: "job_params \<Rightarrow> param_range list" where
  "sensitivity_ranges params =
     (if vwap_strategy_job params
      then [grid_range ''threshold_std'' [1, 15 / 10, 2, 25 / 10, 3], grid_range ''window_size'' [50, 100, 200],
        grid_range ''cooldown_trades'' [5, 10, 20]]
      else [grid_range ''entry_threshold'' [15 / 10, 2, 25 / 10, 3], grid_range ''min_correlation'' [3 / 10, 5 / 10, 7 / 10],
        grid_range ''window'' [50, 100, 200]])"

definition sensitivity_json :: "sens_result \<Rightarrow> json" where
  \<comment> \<open>\<open>JNull\<close> stands for minus infinity\<close>
  "sensitivity_json res = JObj
     [(''best_params'', pdict_json (sr_best_params res)), (''best_sharpe'', of_opt JNum (sr_best_sharpe res)),
      (''num_evaluations'', JInt (int (sr_num_evaluations res))),
      (''search_method'', JStr (case sr_search_method res of GRID \<Rightarrow> ''grid'' | RANDOM \<Rightarrow> ''random'')),
      (''param_impacts'', JList (map (\<lambda>i. JObj [(''name'', JStr (pi_param_name i)), (''sharpe_range'', rounded (pi_sharpe_range i) 4),
         (''correlation'', rounded (pi_correlation_with_sharpe i) 3), (''best_value'', pvalue_json (pi_best_value i)),
         (''worst_value'', pvalue_json (pi_worst_value i))]) (sr_param_impacts res)))]"

definition sensitivity_job :: "draws \<Rightarrow> job_evaluator \<Rightarrow> json list \<Rightarrow> job_params \<Rightarrow> json tracked_run" where
  "sensitivity_job rng ev trades params =
     report 30 (attempt (int_param params ''random_samples'' 50) (\<lambda>n.
       attempt (run_sensitivity (scalar_evaluator ev) rng trades (sensitivity_ranges params)
           (if truthy (dget params ''random_search'' JNull) then RANDOM else GRID) (nat n)) (\<lambda>res.
       report 90 (result (sensitivity_json res)))))"

definition walk_forward_ranges :: "job_params \<Rightarrow> param_range list" where
  "walk_forward_ranges params =
     (if vwap_strategy_job params
      then [grid_range ''threshold_std'' [15 / 10, 2, 25 / 10], grid_range ''window_size'' [50, 100]]
      else [grid_range ''entry_threshold'' [15 / 10, 2, 25 / 10], grid_range ''min_correlation'' [3 / 10, 5 / 10]])"

definition walk_forward_json :: "pdict wf_result \<Rightarrow> json" where
  "walk_forward_json res = JObj
     [(''mean_test_sharpe'', rounded (wf_mean_test_sharpe res) 4), (''std_test_sharpe'', rounded (wf_std_test_sharpe res) 4),
      (''mean_test_return'', rounded (wf_mean_test_return res) 6), (''overfitting_ratio'', rounded (wf_overfitting_ratio res) 2),
      (''degradation_pct'', rounded (wf_degradation_pct res) 1),
      (''folds'', JList (map (\<lambda>f. JObj [(''fold'', JInt (int (fo_fold_index f))), (''train_sharpe'', rounded (fo_train_sharpe f) 4),
         (''test_sharpe'', rounded (fo_test_sharpe f) 4), (''best_params'', pdict_json (fo_best_params f))]) (wf_folds res)))]"

definition walk_forward_job :: "job_evaluator \<Rightarrow> json list \<Rightarrow> job_params \<Rightarrow> json tracked_run" where
  "walk_forward_job ev trades params =
     report 20 (attempt (int_param params ''splits'' 5) (\<lambda>splits.
       attempt (float_param params ''train_pct'' (7 / 10)) (\<lambda>train_pct.
       attempt (int_param params ''min_train'' 200) (\<lambda>min_train.
       attempt (int_param params ''min_test'' 200) (\<lambda>min_test.
       report 40 (attempt (run_walk_forward (scalar_evaluator ev) [] (build_grid (walk_forward_ranges params))
           \<lparr>wc_n_splits = splits, wc_train_pct = train_pct,
            wc_window_type = (if truthy (dget params ''expanding'' JNull) then EXPANDING else ROLLING),
            wc_min_train_size = min_train, wc_min_test_size = min_test\<rparr> trades) (\<lambda>res.
       report 90 (result (walk_forward_json res)))))))))"

definition monte_carlo_json :: "mc_result \<Rightarrow> json" where
  "monte_carlo_json res = JObj
     [(''observed_sharpe'', rounded (mr_observed_sharpe res) 4), (''observed_return'', rounded (mr_observed_total_return res) 6),
      (''observed_max_drawdown'', rounded (mr_observed_max_drawdown res) 6),
      (''prob_positive_sharpe'', rounded (mr_prob_positive_sharpe res) 4),
      (''prob_sharpe_above_1'', rounded (mr_prob_sharpe_above_1 res) 4),
      (''sharpe_mean'', rounded (md_mean (mr_sharpe_distribution res)) 4), (''sharpe_std'', rounded (md_std (mr_sharpe_distribution res)) 4),
      (''confidence_intervals'', JList (map (\<lambda>(level, v). JObj [(''level'', rounded level 2), (''value'', rounded v 4)])
         (md_confidence_intervals (mr_sharpe_distribution res))))]"

definition equity_of :: "bt_metrics \<Rightarrow> real list" where
  \<comment> \<open>the bucketed equity after the initial one\<close>
  "equity_of baseline = 100000 # bm_equity_series baseline"

definition monte_carlo_job :: "rng \<Rightarrow> job_evaluator \<Rightarrow> json list \<Rightarrow> job_params \<Rightarrow> json tracked_run" where
  \<comment> \<open>negative counts run like 0\<close>
  "monte_carlo_job rand ev trades params =
     report 20 (attempt (ev trades []) (\<lambda>baseline.
       report 40 (attempt (int_param params ''simulations'' 1000) (\<lambda>sims.
       attempt (int_param params ''block_size'' 1) (\<lambda>block.
       let res = run_monte_carlo rand (equity_of baseline)
         (mc_default\<lparr>mc_n_simulations := nat sims, mc_block_size := nat block\<rparr>) (bm_bucket_ms baseline) in
       report 90 (result (monte_carlo_json res)))))))"

definition dimensions_of :: "job_params \<Rightarrow> py_error + string list" where
  \<comment> \<open>the names that iterating over the parameter yields\<close>
  "dimensions_of params =
     (case dget params ''dimensions'' (JList [JStr ''fee_rate'', JStr ''slippage_bps'']) of
        JList js \<Rightarrow> Inr (concat (map (\<lambda>j. case j of JStr s \<Rightarrow> [s] | _ \<Rightarrow> []) js))
      | JStr s \<Rightarrow> Inr (map (\<lambda>c. [c]) s)
      | JObj kvs \<Rightarrow> Inr (map fst kvs)
      | _ \<Rightarrow> Inl TypeError)"

definition cost_sweep_json :: "sweep_result \<Rightarrow> json" where
  "cost_sweep_json res = JObj
     [(''num_scenarios'', JInt (int (length (sw_points res)))), (''best_sharpe'', rounded (sp_sharpe (sw_best_case res)) 4),
      (''best_fee_rate'', rounded (sp_fee_rate (sw_best_case res)) 4), (''best_slippage_bps'', rounded (sp_slippage_bps (sw_best_case res)) 1),
      (''worst_sharpe'', rounded (sp_sharpe (sw_worst_case res)) 4), (''worst_fee_rate'', rounded (sp_fee_rate (sw_worst_case res)) 4),
      (''worst_slippage_bps'', rounded (sp_slippage_bps (sw_worst_case res)) 1),
      (''breakeven_fee'', rounded (be_max_fee_rate (sw_breakeven res)) 4),
      (''breakeven_slippage_bps'', rounded (be_max_slippage_bps (sw_breakeven res)) 1),
      (''sensitivity_to_fees'', rounded (sw_sharpe_sensitivity_to_fees res) 2),
      (''sensitivity_to_slippage'', rounded (sw_sharpe_sensitivity_to_slippage res) 4)]"

definition cost_sweep_job :: "job_evaluator \<Rightarrow> json list \<Rightarrow> job_params \<Rightarrow> json tracked_run" where
  "cost_sweep_job ev trades params =
     report 20 (attempt (dimensions_of params) (\<lambda>dims.
       attempt (run_sensitivity_sweep (cost_evaluator_of ev) trades [(''threshold_std'', 2)]
           (sweep_default\<lparr>sc_sweep_dimensions := dims\<rparr>)) (\<lambda>res.
       report 90 (result (cost_sweep_json res)))))"

definition validate_json :: "pdict validation_report \<Rightarrow> json" where
  "validate_json rep = JObj
     [(''grade'', JStr (grade_value (vr_grade rep))), (''mean_oos_sharpe'', rounded (vr_mean_oos_sharpe rep) 4),
      (''overfitting_ratio'', rounded (vr_overfitting_ratio rep) 2), (''prob_positive_sharpe'', rounded (vr_prob_positive_sharpe rep) 4),
      (''max_profitable_fee'', rounded (vr_max_profitable_fee rep) 4),
      (''max_profitable_slippage_bps'', rounded (vr_max_profitable_slippage_bps rep) 1), (''summary'', JStr (vr_summary rep)),
      (''flags'', JList (map (\<lambda>f. JObj [(''category'', JStr (vf_category f)), (''severity'', JStr (vf_severity f)),
         (''message'', JStr (vf_message f))]) (vr_flags rep)))]"

definition validate_job :: "rng \<Rightarrow> job_evaluator \<Rightarrow> json list \<Rightarrow> job_params \<Rightarrow> json tracked_run" where
  "validate_job rand ev trades params =
     report 10 (attempt (int_param params ''splits'' 5) (\<lambda>splits.
       attempt (run_walk_forward (scalar_evaluator ev) []
           (build_grid [grid_range ''threshold_std'' [15 / 10, 2, 25 / 10], grid_range ''window_size'' [50, 100]])
           (wf_default\<lparr>wc_n_splits := splits, wc_min_train_size := 50, wc_min_test_size := 20\<rparr>) trades) (\<lambda>wf_res.
       report 35 (attempt (ev trades [(''threshold_std'', PNum 2)]) (\<lambda>baseline.
       attempt (int_param params ''simulations'' 500) (\<lambda>sims.
       let mc_res = run_monte_carlo rand (equity_of baseline) (mc_default\<lparr>mc_n_simulations := nat sims\<rparr>) (bm_bucket_ms baseline) in
       report 65 (attempt (run_sensitivity_sweep (cost_evaluator_of ev) trades [(''threshold_std'', 2)]
           (sweep_default\<lparr>sc_sweep_dimensions := [''fee_rate'', ''slippage_bps'']\<rparr>)) (\<lambda>sweep_res.
       report 85 (result (validate_json (generate_validation_report (Some wf_res) (Some mc_res) (Some sweep_res))))))))))))"

definition all_job :: "draws \<Rightarrow> rng \<Rightarrow> rng \<Rightarrow> job_evaluator \<Rightarrow> json list \<Rightarrow> job_params \<Rightarrow> json tracked_run" where
  "all_job rng rand rand' ev trades params =
     report 5 (tbind (sensitivity_job rng ev trades params) (\<lambda>sensitivity.
     report 20 (tbind (walk_forward_job ev trades params) (\<lambda>walk_forward.
     report 40 (tbind (monte_carlo_job rand ev trades params) (\<lambda>monte_carlo.
     report 60 (tbind (cost_sweep_job ev trades params) (\<lambda>cost_sweep.
     report 80 (tbind (validate_job rand' ev trades params) (\<lambda>validate.
     report 95 (result (JObj [(''sensitivity'', sensitivity), (''walk_forward'', walk_forward), (''monte_carlo'', monte_carlo),
       (''cost_sweep'', cost_sweep), (''validate'', validate)]))))))))))))"

section \<open>Dispatch\<close>

record analysis_env =
  an_db :: db_reply
  an_bases :: "results_base option list"
  an_price_draws :: price_draws
  an_draws :: draws
  an_mc_rng :: rng  \<comment> \<open>of the Monte Carlo analysis\<close>
  an_validate_rng :: rng  \<comment> \<open>of the Monte Carlo part of a validation\<close>
  an_evaluator :: "evaluator_config \<Rightarrow> job_evaluator"
  an_traceback :: "py_error \<Rightarrow> string"

definition text_of :: "json \<Rightarrow> string" where
  \<comment> \<open>a strategy that is no text is no known strategy\<close>
  "text_of j = (case j of JStr s \<Rightarrow> s | _ \<Rightarrow> '''')"

definition strategy_type_of :: "string \<Rightarrow> strategy_type" where
  "strategy_type_of s =
     (if s = ''mean_reversion'' then Mean_Reversion_Type else if s = ''momentum'' then Momentum_Type
      else if s = ''pairs_trading'' then Pairs_Type else Other_Type s)"

definition quoted :: "string \<Rightarrow> string" where
  "quoted s = [CHR 0x27] @ s @ [CHR 0x27]"

definition job_trades :: "analysis_env \<Rightarrow> job_params \<Rightarrow> string \<Rightarrow> py_error + json list" where
  "job_trades env params symbol =
     (let data_source = dget params ''data_source'' (JStr ''generated'') in
      if data_source = JStr ''database'' then
        ebind (int_param params ''db_limit'' 50000) (\<lambda>limit.
        ebind (load_db_trades (an_db env) symbol (dget params ''start_ms'' JNull) (dget params ''end_ms'' JNull) limit) (\<lambda>trades.
        if trades = [] then Inl (ValueError (''No trades found in database for '' @ symbol @ '' in the given range''))
        else Inr (map JObj trades)))
      else if data_source = JStr ''historical'' then
        let backtest_id = dget params ''backtest_id'' JNull in
        if \<not> truthy backtest_id then Inl (ValueError (''backtest_id is required when data_source is '' @ quoted ''historical''))
        else ebind (as_str backtest_id) (load_historical_trades (an_bases env))
      else ebind (make_trades (an_price_draws env) params (text_of (job_strategy params))) (\<lambda>trades. Inr (map JObj trades)))"

definition job_config :: "job_params \<Rightarrow> string \<Rightarrow> py_error + evaluator_config" where
  "job_config params symbol =
     ebind (float_param params ''fee_rate'' (6 / 1000)) (\<lambda>fee_rate.
     ebind (float_param params ''slippage_bps'' 1) (\<lambda>slippage_bps.
     Inr \<lparr>ec_fee_rate = Some fee_rate, ec_slippage_bps = slippage_bps, ec_initial_equity = 100000,
       ec_strategy_type = strategy_type_of (text_of (job_strategy params)), ec_symbol = symbol, ec_symbol_b = ''ETHUSD''\<rparr>))"

definition dispatch :: "analysis_env \<Rightarrow> string \<Rightarrow> job_evaluator \<Rightarrow> json list \<Rightarrow> job_params \<Rightarrow> json tracked_run" where
  "dispatch env analysis_type evaluator trades params =
     (if analysis_type = ''sensitivity'' then sensitivity_job (an_draws env) evaluator trades params
      else if analysis_type = ''walk_forward'' then walk_forward_job evaluator trades params
      else if analysis_type = ''monte_carlo'' then monte_carlo_job (an_mc_rng env) evaluator trades params
      else if analysis_type = ''cost_sweep'' then cost_sweep_job evaluator trades params
      else if analysis_type = ''validate'' then validate_job (an_validate_rng env) evaluator trades params
      else if analysis_type = ''run_all'' then all_job (an_draws env) (an_mc_rng env) (an_validate_rng env) evaluator trades params
      else ([], Inl (ValueError (''Unknown analysis type: '' @ analysis_type))))"

definition execute_analysis :: "analysis_env \<Rightarrow> string \<Rightarrow> job_params \<Rightarrow> json tracked_run" where
  "execute_analysis env analysis_type params =
     attempt (as_str (dget params ''symbol'' (JStr ''BTCUSD''))) (\<lambda>symbol.
     attempt (job_trades env params symbol) (\<lambda>trades.
     attempt (job_config params symbol) (\<lambda>config.
     dispatch env analysis_type (an_evaluator env config) trades params)))"

definition job_analysis :: "analysis_env \<Rightarrow> analysis" where
  \<comment> \<open>what the worker's \<open>try\<close> makes of a run: its result, or the text of the exception's traceback\<close>
  "job_analysis env analysis_type params =
     (case execute_analysis env analysis_type params of
        (reported, Inr res) \<Rightarrow> (reported, Inr res)
      | (reported, Inl e) \<Rightarrow> (reported, Inl (an_traceback env e)))"

section \<open>Progress follows a fixed plan\<close>

lemma tracked_simps [simp]:
  "snd (tbind m f) = ebind (snd m) (\<lambda>x. snd (f x))"
  "snd (report p m) = snd m"
  "snd (attempt r g) = ebind r (\<lambda>x. snd (g x))"
  "snd (result x) = Inr x"
  by (simp_all add: tbind_def report_def attempt_def result_def ebind_def split: sum.split)

definition runs_through :: "nat list \<Rightarrow> 'a tracked_run \<Rightarrow> bool" where
  \<comment> \<open>the run reports the plan, all of it if it returns\<close>
  "runs_through plan m \<longleftrightarrow> prefix (fst m) plan \<and> (case snd m of Inl _ \<Rightarrow> True | Inr _ \<Rightarrow> fst m = plan)"

named_theorems plan_intros

lemma runs_result [plan_intros]: "runs_through [] (result x)"
  by (simp add: runs_through_def result_def)

lemma runs_report [plan_intros]: "runs_through plan m \<Longrightarrow> runs_through (p # plan) (report p m)"
  by (simp add: runs_through_def report_def split: sum.splits)

lemma runs_attempt [plan_intros]: "(\<And>x. runs_through plan (f x)) \<Longrightarrow> runs_through plan (attempt r f)"
  by (cases r) (simp_all add: runs_through_def attempt_def)

lemma runs_tbind:
  assumes "runs_through plan m" "\<And>x. runs_through plan' (f x)"
  shows "runs_through (plan @ plan') (tbind m f)"
proof (cases "snd m")
  case (Inl e)
  then show ?thesis using assms(1) by (simp add: runs_through_def tbind_def)
next
  case (Inr x)
  then show ?thesis using assms(1) assms(2) [of x] by (simp add: runs_through_def tbind_def split: sum.splits)
qed

lemma analyses_run [plan_intros]:
  "runs_through [30, 90] (sensitivity_job rng ev trades params)"
  "runs_through [20, 40, 90] (walk_forward_job ev trades params)"
  "runs_through [20, 40, 90] (monte_carlo_job rand ev trades params)"
  "runs_through [20, 90] (cost_sweep_job ev trades params)"
  "runs_through [10, 35, 65, 85] (validate_job rand ev trades params)"
  unfolding sensitivity_job_def walk_forward_job_def monte_carlo_job_def cost_sweep_job_def validate_job_def Let_def
  by (intro plan_intros)+

definition all_plan :: "nat list" where
  "all_plan = 5 # [30, 90] @ 20 # [20, 40, 90] @ 40 # [20, 40, 90] @ 60 # [20, 90] @ 80 # [10, 35, 65, 85] @ [95]"

lemma all_runs [plan_intros]: "runs_through all_plan (all_job rng rand rand' ev trades params)"
  unfolding all_job_def all_plan_def by (intro runs_tbind plan_intros)

definition progress_plan :: "string \<Rightarrow> nat list" where
  "progress_plan analysis_type =
     (if analysis_type = ''sensitivity'' then [30, 90]
      else if analysis_type = ''walk_forward'' \<or> analysis_type = ''monte_carlo'' then [20, 40, 90]
      else if analysis_type = ''cost_sweep'' then [20, 90]
      else if analysis_type = ''validate'' then [10, 35, 65, 85]
      else if analysis_type = ''run_all'' then all_plan
      else [])"

lemma dispatch_runs: "runs_through (progress_plan analysis_type) (dispatch env analysis_type ev trades params)"
  by (simp add: dispatch_def progress_plan_def plan_intros) (simp add: runs_through_def)

lemma execute_runs: "runs_through (progress_plan analysis_type) (execute_analysis env analysis_type params)"
  unfolding execute_analysis_def by (intro runs_attempt dispatch_runs)

lemma plan_bounds:
  "list_all (\<lambda>p. p < 100) (progress_plan analysis_type)"
  "analysis_type \<noteq> ''run_all'' \<Longrightarrow> sorted (progress_plan analysis_type)"
  by (simp_all add: progress_plan_def all_plan_def)

text \<open>
  The progress of a job: an analysis reports a fixed sequence of percentages below 100, all of
  it when it returns and an initial part when it fails, and no analysis but the combined one ever
  reports less than before.
\<close>

theorem progress_follows_plan:
  "(case execute_analysis env analysis_type params of
      (reported, Inl e) \<Rightarrow> prefix reported (progress_plan analysis_type)
    | (reported, Inr res) \<Rightarrow> reported = progress_plan analysis_type) \<and>
   list_all (\<lambda>p. p < 100) (fst (execute_analysis env analysis_type params)) \<and>
   (analysis_type = ''run_all'' \<or> sorted (fst (execute_analysis env analysis_type params)))"
proof -
  let ?run = "execute_analysis env analysis_type params"
  have run: "prefix (fst ?run) (progress_plan analysis_type)" "snd ?run = Inr r \<Longrightarrow> fst ?run = progress_plan analysis_type" for r
    using execute_runs [of analysis_type env params] by (simp_all add: runs_through_def split: sum.splits)
  obtain zs where plan: "progress_plan analysis_type = fst ?run @ zs" using run(1) by (auto simp: prefix_def)
  have "list_all (\<lambda>p. p < 100) (fst ?run)" using plan_bounds(1) [of analysis_type] by (simp add: plan)
  moreover have "analysis_type = ''run_all'' \<or> sorted (fst ?run)"
    using plan_bounds(2) [of analysis_type] by (auto simp: plan sorted_append)
  moreover have "case ?run of (reported, Inl e) \<Rightarrow> prefix reported (progress_plan analysis_type)
      | (reported, Inr res) \<Rightarrow> reported = progress_plan analysis_type"
    using run by (cases ?run) (auto split: sum.split)
  ultimately show ?thesis by blast
qed

section \<open>The combined analysis\<close>

definition single_analyses :: "string list" where
  "single_analyses = [''sensitivity'', ''walk_forward'', ''monte_carlo'', ''cost_sweep'', ''validate'']"

text \<open>
  The combined analysis is the five analyses on the same trades: its result holds exactly what each
  of them returns for the same parameters, under its name, and it fails with the first exception
  that one of them raises.
\<close>

theorem run_all_is_all_five:
  "snd (execute_analysis env ''run_all'' params) =
     ebind (emap (\<lambda>t. snd (execute_analysis env t params)) single_analyses) (\<lambda>rs. Inr (JObj (zip single_analyses rs)))"
proof -
  have "snd (dispatch env ''run_all'' ev trades ps) =
      ebind (emap (\<lambda>t. snd (dispatch env t ev trades ps)) single_analyses) (\<lambda>rs. Inr (JObj (zip single_analyses rs)))" for ev trades ps
    by (simp add: all_job_def single_analyses_def dispatch_def ebind_def split: sum.split)
  then show ?thesis
    by (simp add: execute_analysis_def single_analyses_def ebind_def split: sum.split)
qed

definition known_analyses :: "string list" where
  "known_analyses = single_analyses @ [''run_all'']"

text \<open>
  An analysis of another name never runs: it reports nothing and ends in an exception, whatever its
  parameters are.
\<close>

theorem unknown_analysis_fails:
  "analysis_type \<in> set known_analyses \<or>
   (\<exists>e. execute_analysis env analysis_type params = ([], Inl e) \<and> job_analysis env analysis_type params = ([], Inl (an_traceback env e)))"
  by (auto simp: known_analyses_def single_analyses_def job_analysis_def execute_analysis_def dispatch_def attempt_def
      split: sum.split)

section \<open>Jobs in the store\<close>


definition sample_analysis_env :: analysis_env where
  "sample_analysis_env = \<lparr>an_db = (\<lambda>_ _. Inr []), an_bases = [], an_price_draws = \<lparr>pd_gauss = (\<lambda>_. 0), pd_random = (\<lambda>_. 0)\<rparr>,
     an_draws = \<lparr>dr_choose = (\<lambda>_ _. 0), dr_rand = (\<lambda>_. 0)\<rparr>, an_mc_rng = (\<lambda>_ _. 0), an_validate_rng = (\<lambda>_ _. 0),
     an_evaluator = (\<lambda>config trades params. compute_metrics_from_fills [] 100000 0), an_traceback = (\<lambda>_. ''Traceback'')\<rparr>"

definition sample_job_params :: job_params where
  "sample_job_params = [(''num_trades'', JInt 1), (''simulations'', JInt 0)]"

lemma sample_job: "\<exists>res. job_analysis sample_analysis_env ''monte_carlo'' sample_job_params = ([20, 40, 90], Inr res)"
  by (simp add: job_analysis_def execute_analysis_def job_trades_def job_config_def make_trades_def sample_analysis_env_def
      sample_job_params_def dispatch_def monte_carlo_job_def int_param_def float_param_def dget_def attempt_def report_def
      result_def compute_metrics_from_fills_def Let_def upt_conv_Cons)


end
