(* ===== verification/Dashboard.thy ===== *)
theory Dashboard
  imports Post_Trade_State Job_Store Job_Data
begin

text \<open>
  The dashboard of the post-trade service, \<open>post_trade_svc/dashboard.py\<close>: the HTTP endpoints over the
  state and the job store, and the Excel export. The web framework turns the values into
  responses and is not modelled; a workbook is the list of its sheets, each the list of the cells
  that are written, in order, without fonts, fills and column widths.
\<close>

section \<open>The views as documents\<close>

definition position_json :: "position_view \<Rightarrow> json" where
  "position_json v = JObj
     [(''quantity'', JNum (pv_quantity v)), (''avg_entry_price'', JNum (pv_avg_entry_price v)),
      (''realized_pnl'', JNum (pv_realized_pnl v)), (''unrealized_pnl'', JNum (pv_unrealized_pnl v)),
      (''total_fees'', JNum (pv_total_fees v)), (''current_price'', JNum (pv_current_price v))]"

definition pnl_json :: "pnl_summary \<Rightarrow> json" where
  "pnl_json s = JObj
     [(''initial_equity'', JNum (sm_initial_equity s)), (''current_equity'', JNum (sm_current_equity s)),
      (''total_realized_pnl'', JNum (sm_total_realized_pnl s)), (''total_unrealized_pnl'', JNum (sm_total_unrealized_pnl s)),
      (''total_fees'', JNum (sm_total_fees s)), (''total_return_pct'', JNum (sm_total_return_pct s)),
      (''positions'', JObj (map (\<lambda>(sym, v). (sym, position_json v)) (sm_positions s))),
      (''num_fills'', JInt (int (sm_num_fills s)))]"

fun sortino_json :: "py_float \<Rightarrow> json" where
  "sortino_json (Fin x) = JNum x"
| "sortino_json Inf = JStr ''inf''"

definition risk_metrics_json :: "risk_metrics \<Rightarrow> json" where
  "risk_metrics_json m = JObj
     [(''sharpe_ratio'', JNum (rm_sharpe m)), (''sortino_ratio'', sortino_json (rm_sortino m)),
      (''calmar_ratio'', JNum (rm_calmar m)), (''max_drawdown_pct'', JNum (rm_max_drawdown_pct m)),
      (''max_drawdown_duration_periods'', JInt (int (rm_max_drawdown_duration m))),
      (''total_return_pct'', JNum (rm_total_return_pct m)), (''annualized_return_pct'', JNum (rm_annualized_return_pct m)),
      (''win_rate_pct'', JNum (rm_win_rate_pct m)), (''profit_factor'', JNum (rm_profit_factor m)),
      (''num_trades'', JInt (int (rm_num_trades m))), (''current_equity'', JNum (rm_current_equity m)),
      (''peak_equity'', JNum (rm_peak_equity m))]"

definition decay_horizon_json :: "(string, json) dict \<Rightarrow> horizon_stat \<Rightarrow> json" where
  "decay_horizon_json extra h = JObj
     ([(''horizon_ms'', JInt (hs_horizon_ms h)), (''horizon_label'', JStr (hs_horizon_label h)),
       (''ic'', of_opt JNum (hs_ic h)), (''filled_count'', JInt (int (hs_filled_count h)))] @ extra)"

definition alpha_decay_json :: "decay_data \<Rightarrow> json" where
  "alpha_decay_json d = JObj
     [(''horizons'', JList (map (decay_horizon_json [(''total_signals'', JInt (int (dd_total_signals d)))]) (dd_horizons d))),
      (''total_signals'', JInt (int (dd_total_signals d))),
      (''strategies'', JObj (map (\<lambda>(strat, n, hs). (strat, JObj [(''signal_count'', JInt (int n)),
         (''horizons'', JList (map (decay_horizon_json []) hs))])) (dd_strategies d)))]"

definition get_all_data_for_export :: "post_trade_state \<Rightarrow> py_error + json" where
  "get_all_data_for_export st =
     ebind (get_pnl_summary None st) (\<lambda>pnl.
     ebind (get_risk_metrics st) (\<lambda>risk.
     Inr (JObj [(''pnl'', pnl_json pnl), (''tca'', get_tca_summary None st),
       (''alpha_decay'', alpha_decay_json (get_alpha_decay None st)), (''risk_metrics'', risk_metrics_json risk),
       (''drawdown'', get_drawdown_data st), (''fills'', get_fill_analysis None st)])))"

section \<open>The workbook\<close>

type_synonym cells = "(nat \<times> nat \<times> json) list"  \<comment> \<open>row, column and value\<close>
type_synonym workbook = "(string \<times> cells) list"

definition row_at :: "nat \<Rightarrow> nat \<Rightarrow> json list \<Rightarrow> cells" where
  "row_at row col vs = map (\<lambda>(c, v). (row, c, v)) (zip [col..<col + length vs] vs)"

fun rows_from :: "nat \<Rightarrow> json list list \<Rightarrow> cells" where
  "rows_from row [] = []"
| "rows_from row (vs # vss) = row_at row 1 vs @ rows_from (Suc row) vss"

definition write_header :: "string list \<Rightarrow> nat \<Rightarrow> cells" where
  "write_header headers row = row_at row 1 (map JStr headers)"

definition table :: "string list \<Rightarrow> json list list \<Rightarrow> cells" where
  "table headers rows = write_header headers 1 @ rows_from 2 rows"

definition field_of :: "json \<Rightarrow> string \<Rightarrow> py_error + json" where
  \<comment> \<open>\<open>j[k]\<close>\<close>
  "field_of j k = ebind (as_obj j) (\<lambda>d. subscript d k)"

definition get_of :: "json \<Rightarrow> string \<Rightarrow> json \<Rightarrow> py_error + json" where
  \<comment> \<open>\<open>j.get(k, dflt)\<close>\<close>
  "get_of j k dflt = ebind (as_dict j) (\<lambda>d. Inr (dget d k dflt))"

definition metric_rows :: "string list \<Rightarrow> json list \<Rightarrow> json list list" where
  "metric_rows labels vs = map (\<lambda>(l, v). [JStr l, v]) (zip labels vs)"

definition short_id :: "json \<Rightarrow> py_error + json" where
  "short_id j = ebind (as_str j) (\<lambda>s. Inr (JStr (take 12 s)))"

definition position_row :: "string \<times> json \<Rightarrow> py_error + json list" where
  "position_row = (\<lambda>(sym, pos).
     ebind (emap (field_of pos) [''quantity'', ''avg_entry_price'', ''realized_pnl'', ''unrealized_pnl'', ''total_fees'']) (\<lambda>vs.
     Inr (JStr sym # vs)))"

definition pnl_labels :: "string list" where
  "pnl_labels = [''Initial Equity'', ''Current Equity'', ''Total Realized PnL'', ''Total Unrealized PnL'', ''Total Fees'',
     ''Total Return %'', ''Number of Fills'']"

definition pnl_keys :: "string list" where
  "pnl_keys = [''initial_equity'', ''current_equity'', ''total_realized_pnl'', ''total_unrealized_pnl'', ''total_fees'',
     ''total_return_pct'', ''num_fills'']"

definition pnl_table :: "json list \<Rightarrow> cells" where
  "pnl_table vs = table [''Metric'', ''Value''] (metric_rows pnl_labels vs)"

definition positions_table :: "json list list \<Rightarrow> cells" where
  "positions_table rows =
     (let row = length pnl_labels + 4 in
      [(row - 1, 1, JStr ''Positions'')] @
      write_header [''Symbol'', ''Quantity'', ''Avg Entry'', ''Realized PnL'', ''Unrealized PnL'', ''Fees''] row @
      rows_from (row + 1) rows)"

definition pnl_sheet :: "json \<Rightarrow> py_error + cells" where
  "pnl_sheet pnl =
     ebind (emap (field_of pnl) pnl_keys) (\<lambda>vs. ebind (field_of pnl ''positions'') (\<lambda>ps.
     if \<not> truthy ps then Inr (pnl_table vs)
     else ebind (as_dict ps) (\<lambda>kvs. ebind (emap position_row kvs) (\<lambda>rows. Inr (pnl_table vs @ positions_table rows)))))"

definition tca_costs :: "string list" where
  "tca_costs = [''spread_cost_bps'', ''slippage_bps'', ''market_impact_bps'', ''fee_bps'', ''total_cost_bps'']"

definition tca_row :: "json \<Rightarrow> py_error + json list" where
  "tca_row f =
     ebind (field_of f ''fill_id'') (\<lambda>i. ebind (short_id i) (\<lambda>fill_id.
     ebind (emap (field_of f) ([''symbol'', ''side''] @ tca_costs)) (\<lambda>vs. Inr (fill_id # vs))))"

definition tca_table :: "nat \<Rightarrow> json list list \<Rightarrow> json list \<Rightarrow> cells" where
  \<comment> \<open>\<open>n\<close>: the number of fills\<close>
  "tca_table n rows vs =
     (let row = n + 3 in
      table [''Fill ID'', ''Symbol'', ''Side'', ''Spread (bps)'', ''Slippage (bps)'', ''Market Impact (bps)'', ''Fee (bps)'',
        ''Total Cost (bps)''] rows @ (row, 1, JStr ''AVERAGES'') # row_at row 4 vs)"

definition tca_sheet :: "json \<Rightarrow> py_error + cells" where
  "tca_sheet tca =
     ebind (get_of tca ''fills'' JNull) (\<lambda>fills.
     if \<not> truthy fills then Inr []
     else ebind (items_of fills) (\<lambda>fs. ebind (emap tca_row fs) (\<lambda>rows.
       ebind (field_of tca ''averages'') (\<lambda>avgs. ebind (emap (field_of avgs) tca_costs) (\<lambda>vs.
       Inr (tca_table (length fs) rows vs))))))"

definition strategy_block :: "nat \<Rightarrow> string \<Rightarrow> int \<Rightarrow> json list list \<Rightarrow> cells" where
  "strategy_block row strat_id n rows =
     [(row, 1, JStr strat_id), (row, 2, JStr (''('' @ show_int n @ '' signals)''))] @
     write_header [''Horizon'', ''IC'', ''Filled Signals''] (row + 1) @ rows_from (row + 2) rows"

definition horizon_row :: "json \<Rightarrow> py_error + json list" where
  "horizon_row h = emap (field_of h) [''horizon_label'', ''ic'', ''filled_count'']"

fun strategy_blocks :: "nat \<Rightarrow> (string \<times> json) list \<Rightarrow> py_error + cells" where
  "strategy_blocks row [] = Inr []"
| "strategy_blocks row ((strat_id, strat_data) # ss) =
     ebind (field_of strat_data ''signal_count'') (\<lambda>c. ebind (as_int c) (\<lambda>n.
     ebind (field_of strat_data ''horizons'') (\<lambda>h. ebind (items_of h) (\<lambda>hs.
     ebind (emap horizon_row hs) (\<lambda>rows.
     ebind (strategy_blocks (row + 2 + length hs + 1) ss) (\<lambda>rest.
     Inr (strategy_block row strat_id n rows @ rest)))))))"

definition overall_row :: "json \<Rightarrow> py_error + json list" where
  "overall_row h = emap (field_of h) [''horizon_label'', ''ic'', ''filled_count'', ''total_signals'']"

definition alpha_sheet :: "json \<Rightarrow> py_error + cells" where
  "alpha_sheet alpha =
     ebind (get_of alpha ''horizons'' (JList [])) (\<lambda>h. ebind (items_of h) (\<lambda>hs.
     ebind (emap overall_row hs) (\<lambda>rows.
     ebind (get_of alpha ''strategies'' (JObj [])) (\<lambda>s. ebind (as_dict s) (\<lambda>ss.
     ebind (strategy_blocks (length hs + 4) ss) (\<lambda>blocks.
     Inr (table [''Horizon'', ''IC'', ''Filled Signals'', ''Total Signals''] rows @ blocks)))))))"

definition risk_keys :: "string list" where
  "risk_keys = [''sharpe_ratio'', ''sortino_ratio'', ''calmar_ratio'', ''max_drawdown_pct'', ''max_drawdown_duration_periods'',
     ''total_return_pct'', ''annualized_return_pct'', ''win_rate_pct'', ''profit_factor'', ''num_trades'', ''current_equity'',
     ''peak_equity'']"

definition risk_labels :: "string list" where
  "risk_labels = [''Sharpe Ratio'', ''Sortino Ratio'', ''Calmar Ratio'', ''Max Drawdown %'', ''Max DD Duration (periods)'',
     ''Total Return %'', ''Annualized Return %'', ''Win Rate %'', ''Profit Factor'', ''Number of Trades'', ''Current Equity'',
     ''Peak Equity'']"

definition risk_sheet :: "json \<Rightarrow> py_error + cells" where
  "risk_sheet metrics =
     ebind (emap (field_of metrics) risk_keys) (\<lambda>vs.
     Inr (table [''Metric'', ''Value''] (metric_rows risk_labels vs)))"

definition drawdown_row :: "json \<times> json \<Rightarrow> py_error + json list" where
  "drawdown_row = (\<lambda>(eq, ddc).
     ebind (emap (field_of eq) [''timestamp'', ''equity'']) (\<lambda>vs. ebind (field_of ddc ''drawdown_pct'') (\<lambda>d. Inr (vs @ [d]))))"

definition drawdown_sheet :: "json \<Rightarrow> py_error + cells" where
  "drawdown_sheet dd =
     ebind (field_of dd ''equity_curve'') (\<lambda>e. ebind (items_of e) (\<lambda>eqs.
     ebind (field_of dd ''drawdown_curve'') (\<lambda>d. ebind (items_of d) (\<lambda>ddcs.
     ebind (emap drawdown_row (zip eqs ddcs)) (\<lambda>rows.
     Inr (table [''Timestamp'', ''Equity'', ''Drawdown %''] rows))))))"

definition fill_row :: "json \<Rightarrow> py_error + json list" where
  "fill_row f =
     ebind (field_of f ''fill_id'') (\<lambda>i. ebind (short_id i) (\<lambda>fill_id.
     ebind (emap (field_of f) [''timestamp'', ''symbol'', ''side'', ''quantity'', ''fill_price'', ''fee'', ''slippage_bps'',
       ''strategy_id'']) (\<lambda>vs.
     ebind (get_of f ''trading_mode'' (JStr ''paper'')) (\<lambda>mode. Inr ([fill_id] @ vs @ [mode])))))"

definition fills_sheet :: "json \<Rightarrow> py_error + cells" where
  "fills_sheet fills =
     ebind (get_of fills ''fills'' JNull) (\<lambda>fl.
     if \<not> truthy fl then Inr []
     else ebind (items_of fl) (\<lambda>fs. ebind (emap fill_row fs) (\<lambda>rows.
       Inr (table [''Fill ID'', ''Timestamp'', ''Symbol'', ''Side'', ''Quantity'', ''Price'', ''Fee'', ''Slippage (bps)'',
         ''Strategy'', ''Mode''] rows))))"

definition build_excel :: "json \<Rightarrow> py_error + workbook" where
  "build_excel data =
     ebind (field_of data ''pnl'') (\<lambda>pnl. ebind (pnl_sheet pnl) (\<lambda>ws_pnl.
     ebind (field_of data ''tca'') (\<lambda>tca. ebind (tca_sheet tca) (\<lambda>ws_tca.
     ebind (field_of data ''alpha_decay'') (\<lambda>alpha. ebind (alpha_sheet alpha) (\<lambda>ws_alpha.
     ebind (field_of data ''risk_metrics'') (\<lambda>metrics. ebind (risk_sheet metrics) (\<lambda>ws_risk.
     ebind (field_of data ''drawdown'') (\<lambda>dd. ebind (drawdown_sheet dd) (\<lambda>ws_dd.
     ebind (field_of data ''fills'') (\<lambda>fills. ebind (fills_sheet fills) (\<lambda>ws_fills.
     Inr [(''PnL Summary'', ws_pnl), (''TCA'', ws_tca), (''Alpha Decay'', ws_alpha), (''Risk Metrics'', ws_risk),
       (''Drawdown'', ws_dd), (''Fills'', ws_fills)]))))))))))))"

section \<open>The endpoints\<close>

datatype dashboard_request =
    Health
  | Active_Symbols
  | Pnl_View "string option"
  | Tca_View "string option"
  | Alpha_View "string option"
  | Risk_View
  | Drawdown_View
  | Fills_View "string option"
  | Excel_Export
  | Submit_Analysis string job_params
  | Job_Status_View string
  | Job_Result_View string
  | Backtests_View
  | Db_Symbols_View
  | Jobs_View int

datatype dashboard_reply = Json_Reply json | Excel_Reply workbook

record dashboard_env =
  de_job_id :: string
  de_now :: real
  de_bases :: "results_base option list"
  de_symbol_rows :: "string \<Rightarrow> py_error + (json \<times> json \<times> json \<times> json) list"

definition job_status_json :: "analysis_job option \<Rightarrow> json" where
  "job_status_json job =
     (case job of
        None \<Rightarrow> JObj [(''error'', JStr ''Job not found'')]
      | Some j \<Rightarrow> JObj [(''job_id'', JStr (aj_job_id j)), (''analysis_type'', JStr (aj_analysis_type j)),
          (''status'', JStr (status_value (aj_status j))), (''progress'', JInt (int (aj_progress j))),
          (''error'', of_opt JStr (aj_error j)), (''has_result'', JBool (aj_result j \<noteq> None))])"

definition job_result_json :: "analysis_job option \<Rightarrow> json" where
  "job_result_json job =
     (case job of
        None \<Rightarrow> JObj [(''error'', JStr ''Job not found'')]
      | Some j \<Rightarrow> (case aj_result j of
          None \<Rightarrow> JObj [(''error'', JStr ''Job not yet completed''), (''status'', JStr (status_value (aj_status j)))]
        | Some res \<Rightarrow> JObj [(''job_id'', JStr (aj_job_id j)), (''analysis_type'', JStr (aj_analysis_type j)),
            (''status'', JStr (status_value (aj_status j))), (''result'', res)]))"

definition listing_json :: "run_listing \<Rightarrow> json" where
  "listing_json r = JObj
     [(''backtest_id'', JStr (rl_backtest_id r)), (''symbol'', rl_symbol r), (''timestamp'', JStr (rl_timestamp r)),
      (''trades_replayed'', rl_trades_replayed r), (''duration_seconds'', rl_duration_seconds r),
      (''has_trades'', JBool (rl_has_trades r))]"

definition symbols_query :: string where
  "symbols_query = ''SELECT symbol, count(*), '' @ ''extract(epoch from min(time)) * 1000, '' @
     ''extract(epoch from max(time)) * 1000 '' @ ''FROM trades '' @ ''WHERE backtest_id IS NULL '' @
     ''GROUP BY symbol ORDER BY count(*) DESC''"

definition list_db_symbols :: "dashboard_env \<Rightarrow> py_error + json" where
  "list_db_symbols env =
     ebind (de_symbol_rows env symbols_query) (\<lambda>rows.
     ebind (emap (\<lambda>(symbol, n, first, last).
       ebind (as_pyint n) (\<lambda>n. ebind (as_pyint first) (\<lambda>f. ebind (as_pyint last) (\<lambda>l.
       Inr (JObj [(''symbol'', symbol), (''count'', JInt n), (''start_ms'', JInt f), (''end_ms'', JInt l)]))))) rows) (\<lambda>js.
     Inr (JObj [(''symbols'', JList js)])))"

definition jobs_json :: "int \<Rightarrow> job_table \<Rightarrow> json" where
  "jobs_json limit jobs = JObj [(''jobs'', JList (map (\<lambda>j. JObj
     [(''job_id'', JStr (aj_job_id j)), (''analysis_type'', JStr (aj_analysis_type j)), (''status'', JStr (status_value (aj_status j))),
      (''progress'', JInt (int (aj_progress j))), (''created_at'', JNum (aj_created_at j)),
      (''completed_at'', of_opt JNum (aj_completed_at j)), (''has_result'', JBool (aj_result j \<noteq> None)),
      (''error'', of_opt JStr (aj_error j))]) (list_jobs limit jobs)))]"

definition reply :: "json \<Rightarrow> py_error + dashboard_reply" where
  "reply j = Inr (Json_Reply j)"

fun handle_request :: "dashboard_env \<Rightarrow> post_trade_state \<Rightarrow> dashboard_request \<Rightarrow> job_store \<Rightarrow>
    (py_error + dashboard_reply) \<times> job_store" where
  "handle_request env st Health s = (reply (JObj [(''status'', JStr ''ok'')]), s)"
| "handle_request env st Active_Symbols s = (reply (get_active_symbols st), s)"
| "handle_request env st (Pnl_View symbol) s = (ebind (get_pnl_summary symbol st) (\<lambda>p. reply (pnl_json p)), s)"
| "handle_request env st (Tca_View symbol) s = (reply (get_tca_summary symbol st), s)"
| "handle_request env st (Alpha_View symbol) s = (reply (alpha_decay_json (get_alpha_decay symbol st)), s)"
| "handle_request env st Risk_View s = (ebind (get_risk_metrics st) (\<lambda>m. reply (risk_metrics_json m)), s)"
| "handle_request env st Drawdown_View s = (reply (get_drawdown_data st), s)"
| "handle_request env st (Fills_View symbol) s = (reply (get_fill_analysis symbol st), s)"
| "handle_request env st Excel_Export s =
     (ebind (get_all_data_for_export st) (\<lambda>data. ebind (build_excel data) (\<lambda>wb. Inr (Excel_Reply wb))), s)"
| "handle_request env st (Submit_Analysis analysis_type params) s =
     (reply (JObj [(''job_id'', JStr (de_job_id env))]), submit_job (de_job_id env) analysis_type params (de_now env) s)"
| "handle_request env st (Job_Status_View job_id) s = (reply (job_status_json (get_job job_id (js_jobs s))), s)"
| "handle_request env st (Job_Result_View job_id) s = (reply (job_result_json (get_job job_id (js_jobs s))), s)"
| "handle_request env st Backtests_View s =
     (ebind (list_historical_backtests (de_bases env)) (\<lambda>rs. reply (JObj [(''backtests'', JList (map listing_json rs))])), s)"
| "handle_request env st Db_Symbols_View s = (ebind (list_db_symbols env) reply, s)"
| "handle_request env st (Jobs_View limit) s = (reply (jobs_json limit (js_jobs s)), s)"

section \<open>Polling a job\<close>

text \<open>
  The result endpoint: in every state that submissions and workers can reach, a job's result is served
  once the job is completed and is then what its analysis returned; a job that is not completed
  gives the error with its status and no result.
\<close>

theorem result_served_when_completed:
  assumes "job_steps analyse (job_store_init max_workers) s" and "map_of (js_jobs s) job_id = Some j"
  shows "\<exists>doc. handle_request env st (Job_Result_View job_id) s = (Inr (Json_Reply (JObj doc)), s) \<and>
    map_of doc ''status'' = Some (JStr (status_value (aj_status j))) \<and>
    (if aj_status j = Completed
     then map_of doc ''error'' = None \<and>
       (case snd (analyse (aj_analysis_type j) (aj_params j)) of Inl _ \<Rightarrow> False | Inr res \<Rightarrow> map_of doc ''result'' = Some res)
     else map_of doc ''result'' = None \<and> map_of doc ''error'' = Some (JStr ''Job not yet completed''))"
proof -
  have "store_ok analyse s" using reachable_ok [OF assms(1)] by simp
  from store_okD(4) [OF this assms(2)] have ok: "job_ok analyse j" by blast
  show ?thesis
  proof (cases "aj_status j = Completed")
    case True
    with ok obtain res where "aj_result j = Some res" "snd (analyse (aj_analysis_type j) (aj_params j)) = Inr res"
      by (auto simp: job_ok_def split: option.splits)
    with True assms(2) show ?thesis by (simp add: job_result_json_def get_job_def reply_def)
  next
    case False
    with ok have "aj_result j = None" by (cases "aj_status j") (auto simp: job_ok_def)
    with False assms(2) show ?thesis by (simp add: job_result_json_def get_job_def reply_def)
  qed
qed

theorem result_served_when_completed_witness:
  "\<exists>s j. map_of (js_jobs s) ''job-1'' = Some j \<and> aj_status j = Completed \<and>
     (\<exists>doc. fst (handle_request env st (Job_Result_View ''job-1'') s) = Inr (Json_Reply (JObj doc)) \<and>
        map_of doc ''result'' = Some (JInt 7))"
proof -
  obtain s j where s: "job_steps sample_analysis (job_store_init 1) s" "map_of (js_jobs s) ''job-1'' = Some j"
    and j: "aj_status j = Completed" "aj_analysis_type j = ''monte_carlo''"
    using lone_job_completes [of sample_analysis "''monte_carlo''" "[]" "[40]" "JInt 7" "''job-1''"] by (auto simp: sample_analysis_def)
  from result_served_when_completed [OF s, of env st] j obtain doc where
    "handle_request env st (Job_Result_View ''job-1'') s = (Inr (Json_Reply (JObj doc)), s)"
    "map_of doc ''result'' = Some (JInt 7)"
    by (auto simp: sample_analysis_def)
  with s(2) j show ?thesis by (intro exI [of _ s] exI [of _ j]) auto
qed

section \<open>No cell is written twice\<close>

definition cell_keys :: "cells \<Rightarrow> (nat \<times> nat) list" where
  "cell_keys cs = map (\<lambda>(r, c, v). (r, c)) cs"

definition block :: "nat \<Rightarrow> nat \<Rightarrow> cells \<Rightarrow> bool" where
  \<comment> \<open>cells of their own in the rows from \<open>lo\<close> to below \<open>hi\<close>\<close>
  "block lo hi cs \<longleftrightarrow> distinct (cell_keys cs) \<and> (\<forall>(r, c, v) \<in> set cs. lo \<le> r \<and> r < hi)"

definition cell_value :: "cells \<Rightarrow> nat \<Rightarrow> nat \<Rightarrow> json option" where
  \<comment> \<open>the last write wins\<close>
  "cell_value cs r c = map_of (rev (map (\<lambda>(r, c, v). ((r, c), v)) cs)) (r, c)"

lemma cell_value_iff:
  assumes "distinct (cell_keys cs)"
  shows "cell_value cs r c = Some v \<longleftrightarrow> (r, c, v) \<in> set cs"
proof -
  have "map fst (rev (map (\<lambda>(r, c, v). ((r, c), v)) cs)) = rev (cell_keys cs)"
    by (simp add: cell_keys_def rev_map comp_def case_prod_unfold)
  then have "distinct (map fst (rev (map (\<lambda>(r, c, v). ((r, c), v)) cs)))" using assms by simp
  then show ?thesis unfolding cell_value_def by (force simp: map_of_eq_Some_iff)
qed

lemma block_append:
  assumes "block a b xs" "block b' c ys" "a \<le> b'" "b \<le> b'" "b' \<le> c"
  shows "block a c (xs @ ys)"
  using assms by (fastforce simp: block_def cell_keys_def)

lemma block_widen: "block a b cs \<Longrightarrow> a' \<le> a \<Longrightarrow> b \<le> b' \<Longrightarrow> block a' b' cs"
  by (fastforce simp: block_def)

lemma row_at_keys: "cell_keys (row_at r col vs) = map (Pair r) [col..<col + length vs]"
  unfolding cell_keys_def row_at_def by (rule nth_equalityI) (auto simp: nth_append)

lemma block_row: "block r (Suc r) (row_at r col vs)"
  by (auto simp: block_def row_at_keys distinct_map inj_on_def) (auto simp: row_at_def)

lemma block_header: "block r (Suc r) (write_header hs r)"
  unfolding write_header_def by (rule block_row)

lemma block_rows: "block r (r + length vss) (rows_from r vss)"
proof (induction vss arbitrary: r)
  case Nil
  then show ?case by (simp add: block_def cell_keys_def)
next
  case (Cons vs vss)
  from block_append [OF block_row Cons [of "Suc r"]] show ?case by simp
qed

lemma block_cell: "block r (Suc r) [(r, c, v)]"
  by (simp add: block_def cell_keys_def)

lemma block_table: "block r (Suc r + length vss) (write_header hs r @ rows_from (Suc r) vss)"
  using block_append [OF block_header block_rows [of "Suc r" vss], of r hs] by simp

lemma block_table1: "block 1 (2 + length rows) (table hs rows)"
  using block_table [of 1 rows hs] by (simp add: table_def numeral_2_eq_2)

lemma block_Nil: "block 1 1 []"
  by (simp add: block_def cell_keys_def)

lemma block_pnl: "block 1 9 (pnl_table vs)"
  unfolding pnl_table_def
  by (rule block_widen [OF block_table1]) (simp_all add: metric_rows_def pnl_labels_def)

lemma block_positions: "block 10 (12 + length rows) (positions_table rows)"
  using block_append [OF block_cell block_table [of 11 rows]] by (simp add: positions_table_def pnl_labels_def)

lemma block_averages: "block r (Suc r) ((r, 1, v) # row_at r 4 vs)"
  using block_row [of r 4 vs] by (auto simp: block_def row_at_keys cell_keys_def [of "_ # _"] simp flip: cell_keys_def)

lemma block_tca: "length rows = n \<Longrightarrow> block 1 (n + 4) (tca_table n rows vs)"
  using block_append [OF block_table1 block_averages [of "n + 3"], of rows]
  by (simp add: tca_table_def Let_def add.commute)

lemma block_strategy: "block row (row + 2 + length rows) (strategy_block row i n rows)"
proof -
  have "block row (Suc row) [(row, 1, JStr i), (row, 2, JStr (''('' @ show_int n @ '' signals)''))]"
    by (simp add: block_def cell_keys_def)
  from block_append [OF this block_table [of "Suc row" rows]] show ?thesis by (simp add: strategy_block_def)
qed

lemma strategy_blocks_Cons:
  assumes "strategy_blocks row ((i, data) # ss) = Inr cs"
  obtains n rows rest where "strategy_blocks (row + 3 + length rows) ss = Inr rest" "cs = strategy_block row i n rows @ rest"
proof -
  from assms obtain n hs rows rest where "emap horizon_row hs = Inr rows"
    "strategy_blocks (row + 2 + length hs + 1) ss = Inr rest" "cs = strategy_block row i n rows @ rest"
    by (auto simp: ebind_eq_Inr)
  with that [of rows rest n] show thesis by (simp add: emap_length eval_nat_numeral)
qed

lemma block_strategies:
  "strategy_blocks row ss = Inr cs \<Longrightarrow> \<exists>hi. row \<le> hi \<and> block row hi cs"
proof (induction ss arbitrary: row cs)
  case Nil
  then show ?case by (intro exI [of _ row]) (simp add: block_def cell_keys_def)
next
  case (Cons s ss)
  obtain i data where s: "s = (i, data)" by (cases s)
  obtain n rows rest where rest: "strategy_blocks (row + 3 + length rows) ss = Inr rest" and cs: "cs = strategy_block row i n rows @ rest"
    using Cons.prems unfolding s by (rule strategy_blocks_Cons)
  from Cons.IH [OF rest] obtain hi where "row + 3 + length rows \<le> hi" and hi: "block (row + 3 + length rows) hi rest" by blast
  then show ?case using block_append [OF block_strategy hi] by (intro exI [of _ hi]) (simp add: cs)
qed

lemmas sheet_blocks = block_Nil block_pnl block_tca block_table1
  block_append [OF block_pnl block_positions]

lemma alpha_distinct: "alpha_sheet j = Inr cs \<Longrightarrow> distinct (cell_keys cs)"
proof -
  assume "alpha_sheet j = Inr cs"
  then obtain hs rows ss blocks where "emap overall_row hs = Inr rows" and blocks: "strategy_blocks (length hs + 4) ss = Inr blocks"
    and cs: "cs = table [''Horizon'', ''IC'', ''Filled Signals'', ''Total Signals''] rows @ blocks"
    by (auto simp: alpha_sheet_def ebind_eq_Inr)
  then obtain hi where "length rows + 4 \<le> hi" and hi: "block (length rows + 4) hi blocks"
    using block_strategies [OF blocks] emap_length [of overall_row hs rows] by auto
  then have "block 1 hi cs" unfolding cs using block_append [OF block_table1 hi] by simp
  then show ?thesis by (simp add: block_def)
qed

lemma sheets_distinct:
  "pnl_sheet j = Inr cs \<Longrightarrow> distinct (cell_keys cs)"
  "tca_sheet j = Inr cs \<Longrightarrow> distinct (cell_keys cs)"
  "risk_sheet j = Inr cs \<Longrightarrow> distinct (cell_keys cs)"
  "drawdown_sheet j = Inr cs \<Longrightarrow> distinct (cell_keys cs)"
  "fills_sheet j = Inr cs \<Longrightarrow> distinct (cell_keys cs)"
  using sheet_blocks
  by (auto simp: pnl_sheet_def tca_sheet_def risk_sheet_def drawdown_sheet_def fills_sheet_def ebind_eq_Inr block_def
      split: if_splits dest: emap_length)

section \<open>The views fill the workbook\<close>

lemma of_object [simp]: "field_of (JObj d) k = subscript d k" "get_of (JObj d) k j = Inr (dget d k j)"
  by (simp_all add: field_of_def get_of_def)

lemma pnl_view: "\<exists>cs. pnl_sheet (pnl_json s) = Inr cs"
proof -
  have "emap position_row (map (\<lambda>(sym, v). (sym, position_json v)) ps) = Inr (map (\<lambda>(sym, v).
      [JStr sym, JNum (pv_quantity v), JNum (pv_avg_entry_price v), JNum (pv_realized_pnl v), JNum (pv_unrealized_pnl v),
       JNum (pv_total_fees v)]) ps)" for ps
    by (induction ps) (auto simp: position_row_def position_json_def subscript_def)
  then show ?thesis by (simp add: pnl_sheet_def pnl_json_def pnl_keys_def subscript_def)
qed

lemma tca_rows:
  "emap tca_row (map (\<lambda>t. JObj
            [(''fill_id'', JStr (tc_fill_id t)), (''symbol'', JStr (tc_symbol t)), (''side'', JStr (tc_side t)),
             (''spread_cost_bps'', JNum (py_round (tc_spread_cost_bps t) 2)),
             (''slippage_bps'', JNum (py_round (tc_slippage_bps t) 2)),
             (''market_impact_bps'', JNum (py_round (tc_market_impact_bps t) 2)),
             (''fee_bps'', JNum (py_round (tc_fee_bps t) 2)),
             (''total_cost_bps'', JNum (py_round (tc_total_cost_bps t) 2))]) ts) =
   Inr (map (\<lambda>t. [JStr (take 12 (tc_fill_id t)), JStr (tc_symbol t), JStr (tc_side t), JNum (py_round (tc_spread_cost_bps t) 2),
     JNum (py_round (tc_slippage_bps t) 2), JNum (py_round (tc_market_impact_bps t) 2), JNum (py_round (tc_fee_bps t) 2),
     JNum (py_round (tc_total_cost_bps t) 2)]) ts)"
  by (induction ts) (simp_all add: tca_row_def short_id_def tca_costs_def subscript_def)

lemma tca_view: "\<exists>cs. tca_sheet (get_tca_summary symbol st) = Inr cs"
  by (simp add: get_tca_summary_def Let_def tca_sheet_def tca_rows) (simp add: lookups tca_costs_def tca_rows)

lemma alpha_view: "\<exists>cs. alpha_sheet (alpha_decay_json d) = Inr cs"
proof -
  have rows: "emap horizon_row (map (decay_horizon_json []) hs) = Inr (map (\<lambda>h. [JStr (hs_horizon_label h), of_opt JNum (hs_ic h),
      JInt (int (hs_filled_count h))]) hs)" for hs
    by (induction hs) (simp_all add: horizon_row_def decay_horizon_json_def subscript_def)
  have "\<exists>cs. strategy_blocks row (map (\<lambda>(strat, n, hs). (strat, JObj [(''signal_count'', JInt (int n)),
         (''horizons'', JList (map (decay_horizon_json []) hs))])) ss) = Inr cs" for row ss
    by (induction ss arbitrary: row) (auto simp: subscript_def rows ebind_eq_Inr)
  moreover have "emap overall_row (map (decay_horizon_json [(''total_signals'', JInt n)]) hs) =
    Inr (map (\<lambda>h. [JStr (hs_horizon_label h), of_opt JNum (hs_ic h), JInt (int (hs_filled_count h)), JInt n]) hs)" for n hs
    by (induction hs) (simp_all add: overall_row_def decay_horizon_json_def subscript_def)
  ultimately show ?thesis by (simp add: alpha_sheet_def alpha_decay_json_def dget_def ebind_eq_Inr)
qed

lemma risk_view: "\<exists>cs. risk_sheet (risk_metrics_json m) = Inr cs"
  by (simp add: risk_sheet_def risk_metrics_json_def risk_keys_def subscript_def)

lemma drawdown_rows:
  "emap drawdown_row (zip (map (\<lambda>s. JObj [(''timestamp'', JInt (eq_timestamp s)), (''equity'', JNum (py_round (eq_equity s) 2))]) ss)
     (drawdown_curve peak ss')) \<noteq> Inl e"
  by (induction peak ss' arbitrary: ss rule: drawdown_curve.induct)
    (auto simp: drawdown_row_def subscript_def Let_def ebind_def zip_Cons split: list.splits sum.splits)

lemma drawdown_view: "\<exists>cs. drawdown_sheet (get_drawdown_data st) = Inr cs"
proof -
  have "\<exists>rows. emap drawdown_row (zip (map (\<lambda>s. JObj [(''timestamp'', JInt (eq_timestamp s)), (''equity'', JNum (py_round (eq_equity s) 2))]) ss)
     (drawdown_curve peak ss')) = Inr rows" for ss peak ss'
    using drawdown_rows [of ss peak ss'] by (cases "emap drawdown_row (zip (map (\<lambda>s. JObj [(''timestamp'', JInt (eq_timestamp s)), (''equity'', JNum (py_round (eq_equity s) 2))]) ss)
     (drawdown_curve peak ss'))") auto
  then show ?thesis by (auto simp: drawdown_sheet_def get_drawdown_data_def Let_def subscript_def ebind_eq_Inr)
qed

definition fill_cells :: "fill_record \<Rightarrow> json list" where
  "fill_cells f = [JStr (take 12 (fr_fill_id f)), JInt (fr_timestamp f), JStr (fr_symbol f), JStr (fr_side f),
     JNum (fr_quantity f), JNum (py_round (fr_fill_price f) 2), JNum (py_round (fr_fee f) 4),
     JNum (py_round (fr_slippage_bps f) 2), JStr (fr_strategy_id f), JStr (fr_trading_mode f)]"

lemma fill_rows:
  "emap fill_row (map (\<lambda>f. JObj
            [(''fill_id'', JStr (fr_fill_id f)), (''timestamp'', JInt (fr_timestamp f)), (''symbol'', JStr (fr_symbol f)),
             (''side'', JStr (fr_side f)), (''quantity'', JNum (fr_quantity f)),
             (''fill_price'', JNum (py_round (fr_fill_price f) 2)), (''fee'', JNum (py_round (fr_fee f) 4)),
             (''slippage_bps'', JNum (py_round (fr_slippage_bps f) 2)), (''strategy_id'', JStr (fr_strategy_id f)),
             (''trading_mode'', JStr (fr_trading_mode f))]) fs) =
   Inr (map fill_cells fs)"
  by (induction fs) (simp_all add: fill_row_def short_id_def fill_cells_def lookups)

lemma fills_view:
  "fills_sheet (get_fill_analysis None st) = Inr (if st_fills st = [] then [] else
     table [''Fill ID'', ''Timestamp'', ''Symbol'', ''Side'', ''Quantity'', ''Price'', ''Fee'', ''Slippage (bps)'', ''Strategy'',
       ''Mode''] (map fill_cells (last_n 100 (st_fills st))))"
proof -
  have "last_n 100 (st_fills st) \<noteq> [] \<longleftrightarrow> st_fills st \<noteq> []" by (cases "st_fills st") (auto simp: last_n_def)
  then show ?thesis
    by (simp add: get_fill_analysis_def wanted_def fills_sheet_def fill_rows Let_def) (simp add: dget_def fill_rows)
qed

lemma rows_from_cells:
  "i < length vss \<Longrightarrow> c < length (vss ! i) \<Longrightarrow> (r + i, Suc c, vss ! i ! c) \<in> set (rows_from r vss)"
proof (induction vss arbitrary: r i)
  case (Cons vs vss)
  have "c < length vs \<Longrightarrow> (r, Suc c, vs ! c) \<in> set (row_at r 1 vs)"
    using nth_mem [of c "row_at r 1 vs"] by (simp add: row_at_def del: upt_Suc)
  then show ?case using Cons.prems Cons.IH [of "i - 1" "Suc r"] by (cases i) auto
qed simp

text \<open>
  C40. The Excel export: whenever the views can be computed, the workbook is built, with its six sheets, and no
  cell of a sheet is written twice; the last sheet shows each of the last hundred fills in a row
  of its own below the header, column by column.
\<close>

theorem excel_export_complete:
  assumes "get_all_data_for_export st = Inr data"
  shows "\<exists>wb. build_excel data = Inr wb \<and>
    map fst wb = [''PnL Summary'', ''TCA'', ''Alpha Decay'', ''Risk Metrics'', ''Drawdown'', ''Fills''] \<and>
    list_all (\<lambda>(name, cs). distinct (cell_keys cs)) wb \<and>
    (\<forall>i < length (last_n 100 (st_fills st)). \<forall>c < 10.
       cell_value (snd (last wb)) (i + 2) (Suc c) = Some (fill_cells (last_n 100 (st_fills st) ! i) ! c))"
proof -
  obtain pnl risk where data: "data = JObj [(''pnl'', pnl_json pnl), (''tca'', get_tca_summary None st),
       (''alpha_decay'', alpha_decay_json (get_alpha_decay None st)), (''risk_metrics'', risk_metrics_json risk),
       (''drawdown'', get_drawdown_data st), (''fills'', get_fill_analysis None st)]"
    using assms by (auto simp: get_all_data_for_export_def ebind_eq_Inr)
  obtain ws1 ws2 ws3 ws4 ws5 where ws: "pnl_sheet (pnl_json pnl) = Inr ws1" "tca_sheet (get_tca_summary None st) = Inr ws2"
    "alpha_sheet (alpha_decay_json (get_alpha_decay None st)) = Inr ws3" "risk_sheet (risk_metrics_json risk) = Inr ws4"
    "drawdown_sheet (get_drawdown_data st) = Inr ws5"
    using pnl_view tca_view alpha_view risk_view drawdown_view by metis
  define ws6 where "ws6 = (if st_fills st = [] then [] else
     table [''Fill ID'', ''Timestamp'', ''Symbol'', ''Side'', ''Quantity'', ''Price'', ''Fee'', ''Slippage (bps)'', ''Strategy'',
       ''Mode''] (map fill_cells (last_n 100 (st_fills st))))"
  have ws6: "fills_sheet (get_fill_analysis None st) = Inr ws6" unfolding ws6_def by (rule fills_view)
  let ?wb = "[(''PnL Summary'', ws1), (''TCA'', ws2), (''Alpha Decay'', ws3), (''Risk Metrics'', ws4), (''Drawdown'', ws5), (''Fills'', ws6)]"
  have "build_excel data = Inr ?wb" by (simp add: build_excel_def data subscript_def ws ws6)
  moreover have "list_all (\<lambda>(name, cs). distinct (cell_keys cs)) ?wb"
    using sheets_distinct alpha_distinct ws ws6 by simp
  moreover have "cell_value ws6 (i + 2) (Suc c) = Some (fill_cells (last_n 100 (st_fills st) ! i) ! c)"
    if "i < length (last_n 100 (st_fills st))" "c < 10" for i c
  proof -
    have "st_fills st \<noteq> []" using that(1) by (auto simp: last_n_def)
    then show ?thesis
      using that rows_from_cells [of i "map fill_cells (last_n 100 (st_fills st))" c 2] sheets_distinct(5) [OF ws6]
      by (simp add: cell_value_iff ws6_def table_def fill_cells_def add.commute)
  qed
  ultimately show ?thesis by (intro exI [of _ ?wb]) simp
qed

definition listed_fill :: fill_record where
  "listed_fill = \<lparr>fr_fill_id = ''fill-0123456789'', fr_timestamp = 1, fr_symbol = ''BTCUSD'', fr_side = ''BUY'', fr_quantity = 2,
     fr_fill_price = 10, fr_fee = 0, fr_slippage_bps = 0, fr_strategy_id = ''s'', fr_decision_price = 0, fr_trading_mode = ''paper''\<rparr>"

theorem excel_export_complete_witness:
  "\<exists>data wb. get_all_data_for_export ((state_init 100)\<lparr>st_fills := [listed_fill]\<rparr>) = Inr data \<and> build_excel data = Inr wb \<and>
     cell_value (snd (last wb)) 2 1 = Some (JStr ''fill-0123456'')"
proof -
  let ?st = "(state_init 100)\<lparr>st_fills := [listed_fill]\<rparr>"
  obtain data where data: "get_all_data_for_export ?st = Inr data"
    by (auto simp: get_all_data_for_export_def get_pnl_summary_def get_risk_metrics_def state_init_def Let_def
        compute_max_drawdown_def)
  have recent: "last_n 100 (st_fills ?st) = [listed_fill]" by (simp add: last_n_def)
  from excel_export_complete [OF data] obtain wb where "build_excel data = Inr wb"
    "cell_value (snd (last wb)) (0 + 2) (Suc 0) = Some (fill_cells listed_fill ! 0)"
    unfolding recent by force
  with data show ?thesis by (intro exI [of _ data] exI [of _ wb]) (simp add: fill_cells_def listed_fill_def numeral_2_eq_2)
qed

end
