(* ===== verification/Paper_Validator.thy ===== *)
theory Paper_Validator
  imports Dashboard
begin

text \<open>
  The validator of paper trading, \<open>scripts/paper_trading_validator.py\<close>: nine checks of the running
  system, the report over them, and the loop that repeats them. The answers of Redis and of the
  services' HTTP endpoints, the texts \<open>str(e)\<close> and \<open>str(value)\<close>, and the clock are arguments. Where
  the code iterates over a document, the document is a list of objects as the dashboard sends it.
\<close>

record check_result =
  cr_name :: string
  cr_passed :: bool
  cr_severity :: string
  cr_message :: string
  cr_details :: "(string, json) dict"

record validator_env =
  ve_ping :: "py_error + bool"
  ve_breaker :: "py_error + json"
  ve_health :: "py_error + json"
  ve_hgetall :: "string \<Rightarrow> py_error + redis_hash"
  ve_symbols :: "py_error + int \<times> (py_error + json)"  \<comment> \<open>status code and body\<close>
  ve_fills :: "py_error + json"
  ve_pnl :: "py_error + json"
  ve_risk :: "py_error + json"
  ve_order_keys :: "string \<Rightarrow> py_error + string list"
  ve_str :: "json \<Rightarrow> string"
  ve_error :: "py_error \<Rightarrow> string"
  ve_timestamp :: string
  ve_elapsed :: real

section \<open>The checks\<close>

definition check :: "string \<Rightarrow> bool \<Rightarrow> string \<Rightarrow> string \<Rightarrow> (string, json) dict \<Rightarrow> py_error + check_result" where
  \<comment> \<open>\<open>self._add(name, passed, severity, message, **details)\<close>: a detail may not be named like a parameter\<close>
  "check name passed severity message details =
     (if list_ex (\<lambda>(k, _). k \<in> set [''self'', ''name'', ''passed'', ''severity'', ''message'']) details then Inl TypeError
      else Inr \<lparr>cr_name = name, cr_passed = passed, cr_severity = severity, cr_message = message, cr_details = details\<rparr>)"

definition failed_check :: "validator_env \<Rightarrow> string \<Rightarrow> string \<Rightarrow> string \<Rightarrow> py_error \<Rightarrow> check_result" where
  "failed_check env name severity what e =
     \<lparr>cr_name = name, cr_passed = False, cr_severity = severity, cr_message = what @ '': '' @ ve_error env e, cr_details = []\<rparr>"

definition guarded :: "(py_error \<Rightarrow> check_result) \<Rightarrow> py_error + check_result \<Rightarrow> check_result list" where
  \<comment> \<open>\<open>try: ... except Exception as e: ...\<close>\<close>
  "guarded handler r = (case r of Inl e \<Rightarrow> [handler e] | Inr c \<Rightarrow> [c])"

definition check_redis_connectivity :: "validator_env \<Rightarrow> check_result list" where
  "check_redis_connectivity env = guarded (failed_check env ''redis_connectivity'' ''critical'' ''Cannot connect to Redis'')
     (ebind (ve_ping env) (\<lambda>pong. check ''redis_connectivity'' pong ''critical''
        (if pong then ''Redis is reachable'' else ''Redis did not respond'') []))"

definition check_circuit_breaker :: "validator_env \<Rightarrow> check_result list" where
  "check_circuit_breaker env = guarded (failed_check env ''circuit_breaker'' ''critical'' ''Cannot reach risk gateway'')
     (ebind (ve_breaker env) (\<lambda>reply. ebind (as_dict reply) (\<lambda>data.
      let tripped = truthy (dget data ''tripped'' (JBool False)) in
      check ''circuit_breaker'' (\<not> tripped) ''critical''
        (if \<not> tripped then ''Circuit breaker is clear''
         else ''Circuit breaker is TRIPPED: '' @ ve_str env (dget data ''reason'' (JStr ''unknown''))) data)))"

definition check_risk_gateway_health :: "validator_env \<Rightarrow> check_result list" where
  "check_risk_gateway_health env = guarded (failed_check env ''risk_gateway_activity'' ''critical'' ''Cannot reach risk gateway'')
     (ebind (ve_health env) (\<lambda>reply. ebind (as_dict reply) (\<lambda>data.
      let approved = dget data ''approved'' (JInt 0); rejected = dget data ''rejected'' (JInt 0) in
      ebind (as_num approved) (\<lambda>a. ebind (as_num rejected) (\<lambda>r.
      let total = a + r in
      if total = 0 then check ''risk_gateway_activity'' False ''warning'' ''No signals processed yet'' data
      else let reject_rate = r / total; passed = (reject_rate < 95 / 100) in
        check ''risk_gateway_activity'' passed (if \<not> passed then ''warning'' else ''info'')
          (''Approved: '' @ ve_str env approved @ '', Rejected: '' @ ve_str env rejected @ '' ('' @ percent 1 reject_rate @
           '' rejection rate)'') data)))))"

definition check_portfolio_state :: "validator_env \<Rightarrow> string \<Rightarrow> check_result list" where
  "check_portfolio_state env run_id = guarded (failed_check env ''portfolio_state'' ''critical'' ''Error reading portfolio state'')
     (ebind (ve_hgetall env (''portfolio:'' @ run_id)) (\<lambda>data.
      if data = [] then check ''portfolio_state'' False ''warning'' ''No portfolio state in Redis (no fills yet?)'' []
      else ebind (hash_float data ''current_equity'' 0) (\<lambda>equity. ebind (hash_float data ''peak_equity'' 0) (\<lambda>peak.
        check ''portfolio_state'' True ''info''
          (''Portfolio state found: equity=$'' @ grouped 2 equity @ '', peak=$'' @ grouped 2 peak)
          [(''current_equity'', JNum equity), (''peak_equity'', JNum peak)]))))"

fun py_len :: "json \<Rightarrow> py_error + nat" where
  "py_len (JStr s) = Inr (length s)"
| "py_len (JList js) = Inr (length js)"
| "py_len (JObj kvs) = Inr (length kvs)"
| "py_len _ = Inl TypeError"

definition check_api_health :: "validator_env \<Rightarrow> check_result list" where
  "check_api_health env = guarded (failed_check env ''dashboard_api'' ''critical'' ''Cannot reach dashboard API'')
     (ebind (ve_symbols env) (\<lambda>(status_code, body).
      if status_code = 200 then
        ebind body (\<lambda>symbols. ebind (py_len symbols) (\<lambda>n.
        check ''dashboard_api'' True ''info'' (''Dashboard API responding, '' @ show_nat n @ '' symbols active'')
          [(''symbols'', symbols)]))
      else check ''dashboard_api'' False ''critical'' (''Dashboard API returned '' @ show_int status_code) []))"

definition column :: "string \<Rightarrow> (string, json) dict list \<Rightarrow> json list" where
  \<comment> \<open>\<open>[f[k] for f in fills if k in f]\<close>\<close>
  "column k ds = concat (map (\<lambda>d. case map_of d k of None \<Rightarrow> [] | Some j \<Rightarrow> [j]) ds)"

definition slippage_check :: "json list \<Rightarrow> py_error + check_result list" where
  "slippage_check slippages =
     (if slippages = [] then Inr []
      else ebind (emap as_num slippages) (\<lambda>xs.
        let avg_slippage = mean xs; max_slippage = Max (set xs); reasonable = (max_slippage < 100) in
        ebind (check ''fill_slippage'' reasonable (if \<not> reasonable then ''warning'' else ''info'')
          (''Avg slippage: '' @ fixed 2 avg_slippage @ '' bps, Max: '' @ fixed 2 max_slippage @ '' bps'')
          [(''avg_slippage_bps'', JNum avg_slippage), (''max_slippage_bps'', JNum max_slippage)]) (\<lambda>c. Inr [c])))"

definition fee_check :: "json list \<Rightarrow> py_error + check_result list" where
  "fee_check fees =
     (if fees = [] then Inr []
      else ebind (emap as_num fees) (\<lambda>xs.
        ebind (check ''fill_fees'' True ''info'' (''Total fees: $'' @ fixed 4 (sum_list xs)) []) (\<lambda>c. Inr [c])))"

definition check_fills :: "validator_env \<Rightarrow> check_result list" where
  \<comment> \<open>the checks added before an exception stay in the list\<close>
  "check_fills env =
     (let handler = failed_check env ''fills_exist'' ''critical'' ''Cannot fetch fills'' in
      case ebind (ve_fills env) (\<lambda>reply. ebind (as_dict reply) (\<lambda>data. Inr (dget data ''fills'' (JList [])))) of
        Inl e \<Rightarrow> [handler e]
      | Inr fills \<Rightarrow>
          if \<not> truthy fills then guarded handler (check ''fills_exist'' False ''warning'' ''No fills recorded yet'' [])
          else (case items_of fills of
              Inl e \<Rightarrow> [handler e]
            | Inr fs \<Rightarrow>
                guarded handler (check ''fills_exist'' True ''info'' (show_nat (length fs) @ '' fills recorded'') []) @
                (case emap as_obj fs of
                    Inl e \<Rightarrow> [handler e]
                  | Inr ds \<Rightarrow> (case slippage_check (column ''slippage_bps'' ds) of
                        Inl e \<Rightarrow> [handler e]
                      | Inr cs \<Rightarrow> cs @ (case fee_check (column ''fee'' ds) of Inl e \<Rightarrow> [handler e] | Inr cs' \<Rightarrow> cs')))))"

definition check_pnl_consistency :: "validator_env \<Rightarrow> check_result list" where
  "check_pnl_consistency env = guarded (failed_check env ''pnl_sanity'' ''warning'' ''Cannot fetch PnL'')
     (ebind (ve_pnl env) (\<lambda>reply. ebind (as_dict reply) (\<lambda>data.
      ebind (emap (\<lambda>k. as_num (dget data k (JInt 0))) [''current_equity'', ''total_realized_pnl'', ''total_unrealized_pnl'', ''total_fees''])
        (\<lambda>vs. let equity = vs ! 0; realized = vs ! 1; unrealized = vs ! 2; fees = vs ! 3; fees_ok = (0 \<le> fees) in
      check ''pnl_sanity'' fees_ok (if \<not> fees_ok then ''warning'' else ''info'')
        (''Equity: $'' @ grouped 2 equity @ '', Realized: $'' @ grouped 2 realized @ '', Unrealized: $'' @ grouped 2 unrealized @
         '', Fees: $'' @ grouped 4 fees)
        [(''current_equity'', JNum equity), (''realized_pnl'', JNum realized), (''unrealized_pnl'', JNum unrealized),
         (''total_fees'', JNum fees)]))))"

definition optional_part :: "json \<Rightarrow> (real \<Rightarrow> string) \<Rightarrow> py_error + string" where
  \<comment> \<open>\<open>(f'...{x}' if x else '')\<close>\<close>
  "optional_part j show = (if truthy j then ebind (as_num j) (\<lambda>x. Inr (show x)) else Inr '''')"

definition check_risk_metrics :: "validator_env \<Rightarrow> check_result list" where
  "check_risk_metrics env = guarded (failed_check env ''risk_metrics'' ''warning'' ''Cannot fetch risk metrics'')
     (ebind (ve_risk env) (\<lambda>reply. ebind (as_dict reply) (\<lambda>data.
      ebind (as_num (dget data ''max_drawdown_pct'' (JInt 0))) (\<lambda>drawdown.
      let drawdown_ok = (drawdown < 10 / 100) in
      ebind (optional_part (dget data ''sharpe_ratio'' JNull) (\<lambda>x. '', Sharpe: '' @ fixed 2 x)) (\<lambda>sharpe.
      ebind (optional_part (dget data ''win_rate'' JNull) (\<lambda>x. '', Win rate: '' @ percent 1 x)) (\<lambda>win_rate.
      check ''risk_metrics'' drawdown_ok (if \<not> drawdown_ok then ''critical'' else ''info'')
        (''Max drawdown: '' @ percent 1 drawdown @ sharpe @ win_rate) data))))))"

definition check_order_keys_in_redis :: "validator_env \<Rightarrow> string \<Rightarrow> check_result list" where
  "check_order_keys_in_redis env run_id = guarded (failed_check env ''order_tracking'' ''warning'' ''Error scanning order keys'')
     (ebind (ve_order_keys env (''order:'' @ run_id @ '':*'')) (\<lambda>keys.
      let n = length keys in
      check ''order_tracking'' (0 < n) (if n = 0 then ''warning'' else ''info'')
        (if 0 < n then show_nat n @ '' order state keys in Redis'' else ''No order state keys found (no orders yet?)'')
        [(''order_count'', JInt (int n))]))"

section \<open>The report\<close>

record paper_report =
  ppr_timestamp :: string
  ppr_duration_seconds :: real
  ppr_checks :: "check_result list"

definition report_passed :: "paper_report \<Rightarrow> bool" where
  "report_passed r \<longleftrightarrow> list_all cr_passed (filter (\<lambda>c. cr_severity c = ''critical'') (ppr_checks r))"

definition report_warnings :: "paper_report \<Rightarrow> nat" where
  "report_warnings r = length (filter (\<lambda>c. \<not> cr_passed c \<and> cr_severity c = ''warning'') (ppr_checks r))"

definition report_json :: "paper_report \<Rightarrow> json" where
  "report_json r = JObj
     [(''timestamp'', JStr (ppr_timestamp r)), (''duration_seconds'', JNum (ppr_duration_seconds r)),
      (''overall_pass'', JBool (report_passed r)), (''total_checks'', JInt (int (length (ppr_checks r)))),
      (''passed_checks'', JInt (int (length (filter cr_passed (ppr_checks r))))),
      (''failed_critical'', JInt (int (length (filter (\<lambda>c. \<not> cr_passed c \<and> cr_severity c = ''critical'') (ppr_checks r))))),
      (''warnings'', JInt (int (report_warnings r))),
      (''checks'', JList (map (\<lambda>c. JObj [(''name'', JStr (cr_name c)), (''passed'', JBool (cr_passed c)),
         (''severity'', JStr (cr_severity c)), (''message'', JStr (cr_message c)), (''details'', JObj (cr_details c))]) (ppr_checks r)))]"

definition all_checks :: "validator_env \<Rightarrow> string \<Rightarrow> check_result list" where
  "all_checks env run_id = check_redis_connectivity env @ check_circuit_breaker env @ check_risk_gateway_health env @
     check_portfolio_state env run_id @ check_api_health env @ check_fills env @ check_pnl_consistency env @
     check_risk_metrics env @ check_order_keys_in_redis env run_id"

definition run_all_checks :: "validator_env \<Rightarrow> string \<Rightarrow> paper_report" where
  "run_all_checks env run_id =
     \<lparr>ppr_timestamp = ve_timestamp env, ppr_duration_seconds = py_round (ve_elapsed env) 3, ppr_checks = all_checks env run_id\<rparr>"

section \<open>The loop\<close>

partial_function (option) validation_loop :: "(nat \<Rightarrow> real) \<Rightarrow> (nat \<Rightarrow> real) \<Rightarrow> (nat \<Rightarrow> paper_report) \<Rightarrow> real \<Rightarrow> real \<Rightarrow> nat \<Rightarrow>
    (paper_report \<times> bool) list option" where
  \<comment> \<open>the clock at the test of the loop and at the end of a pass; the flag: whether the pass ends in a pause\<close>
  "validation_loop test finish reports end_time interval i =
     (if test i < end_time
      then Option.bind (validation_loop test finish reports end_time interval (Suc i))
        (\<lambda>rest. Some ((reports i, interval < end_time - finish i) # rest))
      else Some [])"

definition pass_rate :: "paper_report list \<Rightarrow> real" where
  "pass_rate snapshots =
     (let total = length snapshots; all_passed = length (filter report_passed snapshots) in
      if 0 < total then real all_passed / real total else 0)"

definition summary_json :: "real \<Rightarrow> paper_report list \<Rightarrow> json" where
  "summary_json duration_minutes snapshots =
     (let total = length snapshots; all_passed = length (filter report_passed snapshots) in
      JObj [(''summary'', JObj [(''total_iterations'', JInt (int total)), (''passed_iterations'', JInt (int all_passed)),
          (''failed_iterations'', JInt (int total - int all_passed)), (''pass_rate'', JNum (pass_rate snapshots)),
          (''duration_minutes'', JNum duration_minutes)]),
        (''snapshots'', JList (map report_json snapshots))])"

definition run_continuous :: "(nat \<Rightarrow> real) \<Rightarrow> (nat \<Rightarrow> real) \<Rightarrow> (nat \<Rightarrow> paper_report) \<Rightarrow> real \<Rightarrow> real \<Rightarrow> real \<Rightarrow> paper_report list option" where
  "run_continuous test finish reports start duration_minutes interval =
     map_option (map fst) (validation_loop test finish reports (start + duration_minutes * 60) interval 0)"

definition exit_code_once :: "paper_report \<Rightarrow> int" where
  "exit_code_once r = (if report_passed r then 0 else 1)"

definition exit_code :: "paper_report list \<Rightarrow> int" where
  "exit_code snapshots = (if 8 / 10 \<le> pass_rate snapshots then 0 else 1)"

section \<open>When a report passes\<close>

definition free_of_parameters :: "(string, json) dict \<Rightarrow> bool" where
  "free_of_parameters details \<longleftrightarrow> fst ` set details \<inter> {''self'', ''name'', ''passed'', ''severity'', ''message''} = {}"

definition numeric_field :: "(string, json) dict \<Rightarrow> string \<Rightarrow> bool" where
  "numeric_field data k \<longleftrightarrow> (\<exists>x. as_num (dget data k (JInt 0)) = Inr x)"

definition breaker_clear :: "validator_env \<Rightarrow> bool" where
  "breaker_clear env \<longleftrightarrow> (\<exists>data. ve_breaker env = Inr (JObj data) \<and> \<not> truthy (dget data ''tripped'' (JBool False)) \<and>
     free_of_parameters data)"

definition gateway_answers :: "validator_env \<Rightarrow> bool" where
  "gateway_answers env \<longleftrightarrow> (\<exists>data. ve_health env = Inr (JObj data) \<and> numeric_field data ''approved'' \<and>
     numeric_field data ''rejected'' \<and> free_of_parameters data)"

definition portfolio_readable :: "validator_env \<Rightarrow> string \<Rightarrow> bool" where
  "portfolio_readable env run_id \<longleftrightarrow> (\<exists>h. ve_hgetall env (''portfolio:'' @ run_id) = Inr h \<and>
     (h = [] \<or> (\<exists>x y. hash_float h ''current_equity'' 0 = Inr x \<and> hash_float h ''peak_equity'' 0 = Inr y)))"

definition dashboard_answers :: "validator_env \<Rightarrow> bool" where
  "dashboard_answers env \<longleftrightarrow> (\<exists>symbols n. ve_symbols env = Inr (200, Inr symbols) \<and> py_len symbols = Inr n)"

definition fills_readable :: "validator_env \<Rightarrow> bool" where
  "fills_readable env \<longleftrightarrow> (\<exists>data. ve_fills env = Inr (JObj data) \<and>
     (\<not> truthy (dget data ''fills'' (JList [])) \<or>
      (\<exists>fs ds xs ys. dget data ''fills'' (JList []) = JList fs \<and> emap as_obj fs = Inr ds \<and>
         emap as_num (column ''slippage_bps'' ds) = Inr xs \<and> emap as_num (column ''fee'' ds) = Inr ys)))"

definition drawdown_alarm :: "validator_env \<Rightarrow> bool" where
  "drawdown_alarm env \<longleftrightarrow> (\<exists>data x s w. ve_risk env = Inr (JObj data) \<and>
     as_num (dget data ''max_drawdown_pct'' (JInt 0)) = Inr x \<and> 10 / 100 \<le> x \<and>
     optional_part (dget data ''sharpe_ratio'' JNull) (\<lambda>_. []) = Inr s \<and>
     optional_part (dget data ''win_rate'' JNull) (\<lambda>_. []) = Inr w \<and> free_of_parameters data)"

definition alarms :: "check_result list \<Rightarrow> check_result list" where
  \<comment> \<open>the critical checks that failed\<close>
  "alarms cs = filter (\<lambda>c. cr_severity c = ''critical'' \<and> \<not> cr_passed c) cs"

lemma alarms_append [simp]: "alarms (xs @ ys) = alarms xs @ alarms ys"
  by (simp add: alarms_def)

lemma alarms_Cons: "alarms (c # cs) = (if cr_severity c = ''critical'' \<and> \<not> cr_passed c then c # alarms cs else alarms cs)" "alarms [] = []"
  by (simp_all add: alarms_def)

lemma passed_alarms: "report_passed r \<longleftrightarrow> alarms (ppr_checks r) = []"
  by (auto simp: report_passed_def alarms_def list_all_iff filter_empty_conv)

lemma check_cases:
  "check name passed severity message details =
     (if free_of_parameters details
      then Inr \<lparr>cr_name = name, cr_passed = passed, cr_severity = severity, cr_message = message, cr_details = details\<rparr>
      else Inl TypeError)"
proof -
  have "list_ex (\<lambda>(k, _). k \<in> K) details \<longleftrightarrow> fst ` set details \<inter> K \<noteq> {}" for K
    by (auto simp: list_ex_iff)
  then show ?thesis by (simp only: check_def free_of_parameters_def list.set if_not_P if_distrib) (simp del: disjoint_insert)
qed

lemma free_details [simp]:
  "free_of_parameters []" "free_of_parameters [(''current_equity'', a), (''peak_equity'', b)]"
  "free_of_parameters [(''symbols'', a)]" "free_of_parameters [(''order_count'', a)]"
  "free_of_parameters [(''avg_slippage_bps'', a), (''max_slippage_bps'', b)]"
  "free_of_parameters [(''current_equity'', a), (''realized_pnl'', b), (''unrealized_pnl'', c), (''total_fees'', d)]"
  by (simp_all add: free_of_parameters_def)

lemma as_dict_Inr [simp]: "as_dict j = Inr d \<longleftrightarrow> j = JObj d"
  by (cases j) simp_all

lemma items_of_Inr [simp]: "items_of j = Inr js \<longleftrightarrow> j = JList js"
  by (cases j) simp_all

lemmas check_simps = guarded_def failed_check_def check_cases alarms_Cons ebind_def Let_def

lemma alarm_redis: "alarms (check_redis_connectivity env) = [] \<longleftrightarrow> ve_ping env = Inr True"
  by (cases "ve_ping env") (simp_all add: check_redis_connectivity_def check_simps)

lemma alarm_breaker: "alarms (check_circuit_breaker env) = [] \<longleftrightarrow> breaker_clear env"
  by (auto simp: check_circuit_breaker_def breaker_clear_def check_simps split: sum.splits)

lemma alarm_gateway: "alarms (check_risk_gateway_health env) = [] \<longleftrightarrow> gateway_answers env"
  by (auto simp: check_risk_gateway_health_def gateway_answers_def numeric_field_def check_simps split: sum.splits)

lemma alarm_portfolio: "alarms (check_portfolio_state env run_id) = [] \<longleftrightarrow> portfolio_readable env run_id"
  by (auto simp: check_portfolio_state_def portfolio_readable_def check_simps split: sum.splits)

lemma alarm_api: "alarms (check_api_health env) = [] \<longleftrightarrow> dashboard_answers env"
  by (auto simp: check_api_health_def dashboard_answers_def check_simps split: sum.splits prod.splits)

lemma alarm_fills: "alarms (check_fills env) = [] \<longleftrightarrow> fills_readable env"
  by (auto simp: check_fills_def fills_readable_def slippage_check_def fee_check_def check_simps split: sum.splits)

lemma no_alarm: "alarms (check_pnl_consistency env) = []" "alarms (check_order_keys_in_redis env run_id) = []"
  by (auto simp: check_pnl_consistency_def check_order_keys_in_redis_def check_simps split: sum.splits)

lemma optional_part_ok:
  "(case optional_part j show of Inl e \<Rightarrow> P e | Inr s \<Rightarrow> Q s) =
   (if \<exists>s. optional_part j (\<lambda>_. []) = Inr s then Q (projr (optional_part j show)) else P (projl (optional_part j show)))"
  by (cases "as_num j") (simp_all add: optional_part_def)

lemma alarm_risk: "alarms (check_risk_metrics env) = [] \<longleftrightarrow> \<not> drawdown_alarm env"
proof -
  have "alarms (check_risk_metrics env) = [] \<longleftrightarrow> \<not> drawdown_alarm env" if "ve_risk env = Inr (JObj data)" for data
    by (cases "as_num (dget data ''max_drawdown_pct'' (JInt 0))")
      (simp_all add: check_risk_metrics_def drawdown_alarm_def that check_simps optional_part_ok not_le del: One_nat_def)
  moreover have "alarms (check_risk_metrics env) = [] \<and> \<not> drawdown_alarm env" if no: "\<nexists>data. ve_risk env = Inr (JObj data)"
  proof (cases "ve_risk env")
    case (Inr j)
    with no show ?thesis by (cases j) (simp_all add: check_risk_metrics_def drawdown_alarm_def check_simps)
  qed (simp add: check_risk_metrics_def drawdown_alarm_def check_simps)
  ultimately show ?thesis by blast
qed


section \<open>The validator on the dashboard's risk view\<close>

text \<open>
  The validator and the dashboard do not agree on the unit of the drawdown: on the dashboard's own risk view,
  any drawdown of a tenth of a percent or more is a critical failure of the report.
\<close>

theorem small_drawdown_is_critical:
  assumes "get_risk_metrics st = Inr m" and "ve_risk env = Inr (risk_metrics_json m)"
    and "compute_max_drawdown (map eq_equity (st_equity_curve st)) = Inr (drawdown, duration)" and "1 / 1000 \<le> drawdown"
  shows "\<not> report_passed (run_all_checks env run_id)"
proof -
  have "rm_max_drawdown_pct m = py_round (drawdown * 100) 4"
    using assms(1,3) by (auto simp: get_risk_metrics_def Let_def ebind_eq_Inr)
  moreover have "of_int 1000 / 10 ^ 4 \<le> py_round (drawdown * 100) 4"
    by (rule py_round_ge) (use assms(4) in simp)
  ultimately have "10 / 100 \<le> rm_max_drawdown_pct m" by simp
  then have "drawdown_alarm env"
    using assms(2) by (simp add: drawdown_alarm_def risk_metrics_json_def free_of_parameters_def optional_part_def dget_def)
  then show ?thesis using alarm_risk [of env] by (simp add: passed_alarms run_all_checks_def all_checks_def)
qed

definition sample_answers :: validator_env where
  "sample_answers = \<lparr>ve_ping = Inr True, ve_breaker = Inr (JObj [(''tripped'', JBool False)]),
     ve_health = Inr (JObj [(''approved'', JInt 3), (''rejected'', JInt 1)]), ve_hgetall = (\<lambda>_. Inr []),
     ve_symbols = Inr (200, Inr (JObj [(''symbols'', JList [])])), ve_fills = Inr (JObj [(''fills'', JList [])]),
     ve_pnl = Inr (JObj []), ve_risk = Inl TypeError, ve_order_keys = (\<lambda>_. Inr []), ve_str = (\<lambda>_. []), ve_error = (\<lambda>_. []),
     ve_timestamp = [], ve_elapsed = 0\<rparr>"

definition sample_book :: post_trade_state where
  "sample_book = (state_init 100)\<lparr>st_equity_curve := map (\<lambda>x. \<lparr>eq_timestamp = 0, eq_equity = x, eq_realized_pnl = 0,
     eq_unrealized_pnl = 0\<rparr>) [100, 99]\<rparr>"

theorem small_drawdown_is_critical_witness:
  "\<exists>m. get_risk_metrics sample_book = Inr m \<and> report_passed (run_all_checks sample_answers ''live'') \<and>
     \<not> report_passed (run_all_checks (sample_answers\<lparr>ve_risk := Inr (risk_metrics_json m)\<rparr>) ''live'')"
proof -
  have dd: "compute_max_drawdown (map eq_equity (st_equity_curve sample_book)) = Inr (1 / 100, 1)"
    by (simp add: sample_book_def compute_max_drawdown_def Let_def)
  obtain m where m: "get_risk_metrics sample_book = Inr m"
    using dd by (auto simp: get_risk_metrics_def sample_book_def state_init_def Let_def)
  have "report_passed (run_all_checks sample_answers ''live'')"
    by (simp add: passed_alarms run_all_checks_def all_checks_def alarm_redis alarm_breaker alarm_gateway alarm_portfolio
      alarm_api alarm_fills no_alarm alarm_risk)
      (simp add: sample_answers_def breaker_clear_def gateway_answers_def portfolio_readable_def dashboard_answers_def
        fills_readable_def drawdown_alarm_def free_of_parameters_def numeric_field_def dget_def)
  with small_drawdown_is_critical [OF m _ dd, of "sample_answers\<lparr>ve_risk := Inr (risk_metrics_json m)\<rparr>" "''live''"] m
  show ?thesis by simp
qed

section \<open>The loop ends\<close>

lemma validation_loop_runs:
  assumes "end_time \<le> test (i + n)"
  shows "\<exists>k. validation_loop test finish reports end_time interval i =
      Some (map (\<lambda>j. (reports j, interval < end_time - finish j)) [i..<k]) \<and>
    i \<le> k \<and> (\<forall>j \<in> {i..<k}. test j < end_time) \<and> end_time \<le> test k"
  using assms
proof (induction n arbitrary: i)
  case 0
  then show ?case by (subst validation_loop.simps) (auto intro!: exI [of _ i])
next
  case (Suc n)
  show ?case
  proof (cases "test i < end_time")
    case True
    from Suc.IH [of "Suc i"] Suc.prems obtain k where k: "validation_loop test finish reports end_time interval (Suc i) =
        Some (map (\<lambda>j. (reports j, interval < end_time - finish j)) [Suc i..<k])" "Suc i \<le> k"
      "\<forall>j \<in> {Suc i..<k}. test j < end_time" "end_time \<le> test k" by auto
    have "\<forall>j \<in> {i..<k}. test j < end_time" using k(3) True by (auto simp: Suc_le_eq nat_less_le)
    with k True show ?thesis
      by (subst validation_loop.simps) (intro exI [of _ k], simp add: upt_conv_Cons)
  next
    case False
    then show ?thesis by (subst validation_loop.simps) (auto intro!: exI [of _ i])
  qed
qed

lemma test_grows:
  fixes test :: "nat \<Rightarrow> real"
  assumes "\<And>i. test i + step \<le> test (Suc i)"
  shows "test 0 + real n * step \<le> test n"
proof (induction n)
  case (Suc n)
  then show ?case using assms [of n] by (simp add: algebra_simps)
qed simp



text \<open>
  A duration of at most the interval is never paused: the passes follow each other as fast as the
  checks allow, and so do those of the last interval of a longer run.
\<close>

theorem last_interval_is_unpaused:
  fixes test :: "nat \<Rightarrow> real"
  assumes "\<And>i. test i = start + pass * real i" "\<And>i. finish i = start + pass * real (Suc i)" "0 < pass"
    and "0 < duration_minutes" "duration_minutes * 60 \<le> interval"
  shows "\<exists>k. validation_loop test finish reports (start + duration_minutes * 60) interval 0 = Some (map (\<lambda>j. (reports j, False)) [0..<k]) \<and>
    duration_minutes * 60 \<le> pass * real k"
proof -
  let ?stop = "start + duration_minutes * 60"
  obtain n where "duration_minutes * 60 < real n * pass" using reals_Archimedean3 [OF assms(3)] by blast
  then have "?stop \<le> test (0 + n)" by (simp add: assms(1) mult.commute)
  from validation_loop_runs [where test = test, OF this, of finish reports interval] obtain k where
    k: "validation_loop test finish reports ?stop interval 0 = Some (map (\<lambda>j. (reports j, interval < ?stop - finish j)) [0..<k])"
    "?stop \<le> test k" by blast
  have "\<not> interval < ?stop - finish j" for j
  proof -
    have "0 \<le> pass * real (Suc j)" using assms(3) by simp
    then show ?thesis using assms(5) unfolding assms(2) by linarith
  qed
  then show ?thesis using k by (intro exI [of _ k]) (simp add: assms(1))
qed

end
