(* ===== verification/Cli_Analysis.thy ===== *)
theory Cli_Analysis
  imports Analysis_Jobs Comparison
begin

text \<open>
  The analysis commands, \<open>backtest_svc/cli_analysis.py\<close>. A command is a function from its parsed
  arguments and the environment (files, random draws, the evaluator, \<open>str\<close> of a parameter or of
  a dictionary of parameters) to the texts it prints, one per \<open>print\<close>, and the JSON file it
  writes, if any; what was printed before an exception is not kept.
\<close>

record cli_args =
  ca_trades :: "string option"
  ca_symbol :: string
  ca_strategy :: string
  ca_output :: "string option"
  ca_num_trades :: int

record cli_env =
  ce_lines :: "string \<Rightarrow> py_error + stored option list"  \<comment> \<open>lines of a file, \<open>None\<close> for a blank one\<close>
  ce_file :: "string \<Rightarrow> py_error + stored"
  ce_price_draws :: price_draws
  ce_draws :: draws
  ce_rng :: rng
  ce_evaluator :: "evaluator_config \<Rightarrow> job_evaluator"
  ce_show :: "pvalue \<Rightarrow> string"
  ce_show_params :: "pdict \<Rightarrow> string"

record cli_out =
  co_printed :: "string list"
  co_written :: "(string \<times> json) option"

section \<open>Input and output\<close>

definition load_trades :: "cli_env \<Rightarrow> string \<Rightarrow> py_error + json list" where
  "load_trades env path = ebind (ce_lines env path) (\<lambda>ls. emap loads (nonblank ls))"

definition load_equity :: "cli_env \<Rightarrow> string \<Rightarrow> py_error + real list" where
  "load_equity env path =
     ebind (ce_file env path) (\<lambda>text. ebind (loads text) (\<lambda>data.
     case data of
       JList vs \<Rightarrow> emap as_float vs
     | JObj d \<Rightarrow> (case map_of d ''equity_curve'' of None \<Rightarrow> Inr [] | Some vs \<Rightarrow> ebind (items_of vs) (emap as_float))
     | _ \<Rightarrow> Inr []))"

fun sample_walk :: "price_draws \<Rightarrow> string \<Rightarrow> nat list \<Rightarrow> real \<Rightarrow> trade_dict list" where
  "sample_walk rng symbol [] price = []"
| "sample_walk rng symbol (i # is) price =
     (let price1 = max (price + (pd_gauss rng i * 50 - (price - 50000) * (1 / 1000))) 100 in
      synthetic_trade (JStr symbol) price1 (quantity_draw rng (2 * i) (1 / 1000) (1 / 10)) (1000000 + int i * 1000)
        (coin_draw rng (2 * i + 1)) # sample_walk rng symbol is price1)"

definition generate_sample_trades :: "price_draws \<Rightarrow> string \<Rightarrow> int \<Rightarrow> trade_dict list" where
  "generate_sample_trades rng symbol n = sample_walk rng symbol [0..<nat n] 50000"

definition nonempty_option :: "string option \<Rightarrow> string option" where
  \<comment> \<open>an option of the command line that is neither missing nor empty\<close>
  "nonempty_option s = (if s = Some '''' then None else s)"

definition cli_trades :: "cli_env \<Rightarrow> 'a cli_args_scheme \<Rightarrow> py_error + string list \<times> json list" where
  "cli_trades env args =
     (case nonempty_option (ca_trades args) of
        Some path \<Rightarrow> ebind (load_trades env path) (\<lambda>ts. Inr ([], ts))
      | None \<Rightarrow> Inr ([''No --trades file provided, using synthetic data.''],
          map JObj (generate_sample_trades (ce_price_draws env) (ca_symbol args) (ca_num_trades args))))"

definition cli_config :: "'a cli_args_scheme \<Rightarrow> evaluator_config" where
  "cli_config args = \<lparr>ec_fee_rate = None, ec_slippage_bps = 1, ec_initial_equity = 100000,
     ec_strategy_type = strategy_type_of (ca_strategy args), ec_symbol = ca_symbol args, ec_symbol_b = ''ETHUSD''\<rparr>"

definition write_json :: "'a cli_args_scheme \<Rightarrow> string list \<Rightarrow> json \<Rightarrow> cli_out" where
  "write_json args printed data =
     (case nonempty_option (ca_output args) of
        None \<Rightarrow> \<lparr>co_printed = printed, co_written = None\<rparr>
      | Some path \<Rightarrow> \<lparr>co_printed = printed @ [''Results written to '' @ path], co_written = Some (path, data)\<rparr>)"

definition newline :: string where "newline = [CHR 0x0A]"

definition bar :: string where "bar = replicate 60 (CHR ''='')"

definition titled :: "string \<Rightarrow> string list \<Rightarrow> string list" where
  \<comment> \<open>the texts between the bars\<close>
  "titled title body = [newline @ bar, ''  '' @ title, bar] @ body @ [bar @ newline]"

definition fixed_opt :: "nat \<Rightarrow> real option \<Rightarrow> string" where
  "fixed_opt n x = (case x of None \<Rightarrow> ''-inf'' | Some r \<Rightarrow> fixed n r)"

section \<open>Sensitivity\<close>

record sensitivity_args = cli_args +
  sa_random :: bool
  sa_random_samples :: int
  sa_fee_rate :: real
  sa_slippage_bps :: real

definition cli_ranges :: "string \<Rightarrow> param_range list option" where
  "cli_ranges strategy =
     (if strategy = ''mean_reversion'' then Some [grid_range ''threshold_std'' [1, 15 / 10, 2, 25 / 10, 3],
        grid_range ''window_size'' [50, 100, 200], grid_range ''cooldown_trades'' [5, 10, 20]]
      else if strategy = ''pairs_trading'' then Some [grid_range ''entry_threshold'' [15 / 10, 2, 25 / 10, 3],
        grid_range ''min_correlation'' [3 / 10, 5 / 10, 7 / 10], grid_range ''window'' [50, 100, 200]]
      else None)"

definition sensitivity_lines :: "cli_env \<Rightarrow> sens_result \<Rightarrow> string list" where
  "sensitivity_lines env res =
     titled (''Parameter Sensitivity Analysis ('' @ (case sr_search_method res of GRID \<Rightarrow> ''grid'' | RANDOM \<Rightarrow> ''random'') @ '')'')
       ([''  Evaluations: '' @ show_nat (sr_num_evaluations res), ''  Best Sharpe:  '' @ fixed_opt 4 (sr_best_sharpe res),
         ''  Best params:  '' @ ce_show_params env (sr_best_params res), '''', ''  Parameter Impacts:''] @
        map (\<lambda>i. ''    '' @ ljust 20 (pi_param_name i) @ '' range='' @ fixed 4 (pi_sharpe_range i) @ ''  corr='' @
          fixed 3 (pi_correlation_with_sharpe i) @ ''  best='' @ ce_show env (pi_best_value i) @ ''  worst='' @
          ce_show env (pi_worst_value i)) (sr_param_impacts res))"

definition sensitivity_file :: "sens_result \<Rightarrow> json" where
  "sensitivity_file res = JObj
     [(''best_params'', pdict_json (sr_best_params res)), (''best_sharpe'', of_opt JNum (sr_best_sharpe res)),
      (''num_evaluations'', JInt (int (sr_num_evaluations res))),
      (''param_impacts'', JList (map (\<lambda>i. JObj [(''name'', JStr (pi_param_name i)), (''sharpe_range'', JNum (pi_sharpe_range i)),
         (''correlation'', JNum (pi_correlation_with_sharpe i)), (''best_value'', pvalue_json (pi_best_value i)),
         (''worst_value'', pvalue_json (pi_worst_value i))]) (sr_param_impacts res)))]"

definition cmd_sensitivity :: "cli_env \<Rightarrow> sensitivity_args \<Rightarrow> py_error + cli_out" where
  "cmd_sensitivity env args =
     ebind (cli_trades env args) (\<lambda>(printed, trades).
     let ev = ce_evaluator env ((cli_config args)\<lparr>ec_fee_rate := Some (sa_fee_rate args), ec_slippage_bps := sa_slippage_bps args\<rparr>) in
     case cli_ranges (ca_strategy args) of
       None \<Rightarrow> Inr \<lparr>co_printed = printed @ [''Unknown strategy: '' @ ca_strategy args], co_written = None\<rparr>
     | Some ranges \<Rightarrow>
         ebind (run_sensitivity (scalar_evaluator ev) (ce_draws env) trades ranges (if sa_random args then RANDOM else GRID)
           (nat (sa_random_samples args))) (\<lambda>res.
         Inr (write_json args (printed @ sensitivity_lines env res) (sensitivity_file res))))"

section \<open>Walk-forward\<close>

record walk_forward_args = cli_args +
  wa_splits :: int
  wa_train_pct :: real
  wa_expanding :: bool
  wa_min_train :: int
  wa_min_test :: int

definition cli_wf_ranges :: "string \<Rightarrow> param_range list" where
  "cli_wf_ranges strategy =
     (if strategy = ''mean_reversion''
      then [grid_range ''threshold_std'' [15 / 10, 2, 25 / 10], grid_range ''window_size'' [50, 100]]
      else [grid_range ''entry_threshold'' [15 / 10, 2, 25 / 10], grid_range ''min_correlation'' [3 / 10, 5 / 10]])"

definition walk_forward_lines :: "cli_env \<Rightarrow> window_type \<Rightarrow> pdict wf_result \<Rightarrow> string list" where
  "walk_forward_lines env wt res =
     titled (''Walk-Forward Optimization ('' @ (case wt of ROLLING \<Rightarrow> ''rolling'' | EXPANDING \<Rightarrow> ''expanding'') @ '')'')
       ([''  Folds:               '' @ show_nat (length (wf_folds res)),
         ''  Mean test Sharpe:    '' @ fixed 4 (wf_mean_test_sharpe res),
         ''  Std test Sharpe:     '' @ fixed 4 (wf_std_test_sharpe res),
         ''  Mean test return:    '' @ percent 4 (wf_mean_test_return res),
         ''  Overfitting ratio:   '' @ fixed 2 (wf_overfitting_ratio res) @ ''x'',
         ''  Degradation:         '' @ fixed 1 (wf_degradation_pct res) @ ''%'', ''''] @
        map (\<lambda>f. ''  Fold '' @ show_nat (fo_fold_index f) @ '': train_sharpe='' @ fixed 3 (fo_train_sharpe f) @ ''  test_sharpe='' @
          fixed 3 (fo_test_sharpe f) @ ''  params='' @ ce_show_params env (fo_best_params f)) (wf_folds res))"

definition walk_forward_file :: "pdict wf_result \<Rightarrow> json" where
  "walk_forward_file res = JObj
     [(''mean_test_sharpe'', JNum (wf_mean_test_sharpe res)), (''std_test_sharpe'', JNum (wf_std_test_sharpe res)),
      (''overfitting_ratio'', JNum (wf_overfitting_ratio res)), (''degradation_pct'', JNum (wf_degradation_pct res)),
      (''folds'', JList (map (\<lambda>f. JObj [(''fold'', JInt (int (fo_fold_index f))), (''train_sharpe'', JNum (fo_train_sharpe f)),
         (''test_sharpe'', JNum (fo_test_sharpe f)), (''best_params'', pdict_json (fo_best_params f))]) (wf_folds res)))]"

definition cmd_walk_forward :: "cli_env \<Rightarrow> walk_forward_args \<Rightarrow> py_error + cli_out" where
  "cmd_walk_forward env args =
     ebind (cli_trades env args) (\<lambda>(printed, trades).
     let ev = ce_evaluator env (cli_config args); wt = (if wa_expanding args then EXPANDING else ROLLING) in
     ebind (run_walk_forward (scalar_evaluator ev) [] (build_grid (cli_wf_ranges (ca_strategy args)))
         \<lparr>wc_n_splits = wa_splits args, wc_train_pct = wa_train_pct args, wc_window_type = wt,
          wc_min_train_size = wa_min_train args, wc_min_test_size = wa_min_test args\<rparr> trades) (\<lambda>res.
     Inr (write_json args (printed @ walk_forward_lines env wt res) (walk_forward_file res))))"

section \<open>Monte Carlo\<close>

record monte_carlo_args = cli_args +
  ma_equity :: "string option"
  ma_simulations :: int
  ma_block_size :: int

definition straight_equity :: "real \<Rightarrow> nat \<Rightarrow> real list" where
  \<comment> \<open>the curve built from a total return: \<open>n\<close> equal steps from the initial to the final equity\<close>
  "straight_equity total_return num_trades =
     (let initial = 100000; final = initial * (1 + total_return); n = max (num_trades div 10) 2; step = (final - initial) / real n in
      map (\<lambda>i. initial + real i * step) [0..<n + 1])"

definition cli_equity :: "cli_env \<Rightarrow> monte_carlo_args \<Rightarrow> py_error + real list option" where
  "cli_equity env args =
     (case nonempty_option (ma_equity args) of
        Some path \<Rightarrow> ebind (load_equity env path) (\<lambda>eq. Inr (Some eq))
      | None \<Rightarrow> (case nonempty_option (ca_trades args) of
          Some path \<Rightarrow> ebind (load_trades env path) (\<lambda>trades.
            ebind (ce_evaluator env (cli_config args) trades []) (\<lambda>m.
            Inr (Some (straight_equity (bm_total_return m) (length trades)))))
        | None \<Rightarrow> Inr None))"

definition monte_carlo_lines :: "mc_result \<Rightarrow> string list" where
  "monte_carlo_lines res =
     titled (''Monte Carlo Simulation ('' @ show_nat (mr_n_simulations res) @ '' runs)'')
       ([''  Observed Sharpe:     '' @ fixed 4 (mr_observed_sharpe res),
         ''  Observed return:     '' @ percent 4 (mr_observed_total_return res),
         ''  Observed max DD:     '' @ percent 4 (mr_observed_max_drawdown res), '''',
         ''  Simulated Sharpe:    '' @ fixed 4 (md_mean (mr_sharpe_distribution res)) @ '' +/- '' @
           fixed 4 (md_std (mr_sharpe_distribution res)),
         ''  P(Sharpe > 0):       '' @ percent 1 (mr_prob_positive_sharpe res),
         ''  P(Sharpe > 1):       '' @ percent 1 (mr_prob_sharpe_above_1 res), '''', ''  Sharpe Confidence Intervals:''] @
        map (\<lambda>(level, v). ''    '' @ rjust 6 (percent 0 level) @ '': '' @ fixed 4 v)
          (md_confidence_intervals (mr_sharpe_distribution res)))"

definition monte_carlo_file :: "mc_result \<Rightarrow> json" where
  "monte_carlo_file res = JObj
     [(''observed_sharpe'', JNum (mr_observed_sharpe res)), (''observed_return'', JNum (mr_observed_total_return res)),
      (''observed_max_drawdown'', JNum (mr_observed_max_drawdown res)), (''prob_positive_sharpe'', JNum (mr_prob_positive_sharpe res)),
      (''prob_sharpe_above_1'', JNum (mr_prob_sharpe_above_1 res)), (''sharpe_mean'', JNum (md_mean (mr_sharpe_distribution res))),
      (''sharpe_std'', JNum (md_std (mr_sharpe_distribution res))),
      (''confidence_intervals'', JList (map (\<lambda>(level, v). JObj [(''level'', JNum level), (''value'', JNum v)])
         (md_confidence_intervals (mr_sharpe_distribution res))))]"

definition cmd_monte_carlo :: "cli_env \<Rightarrow> monte_carlo_args \<Rightarrow> py_error + cli_out" where
  \<comment> \<open>negative counts run like 0\<close>
  "cmd_monte_carlo env args =
     ebind (cli_equity env args) (\<lambda>equity.
     case equity of
       None \<Rightarrow> Inr \<lparr>co_printed = [''Provide --equity or --trades for Monte Carlo simulation.''], co_written = None\<rparr>
     | Some eq \<Rightarrow>
         let res = run_monte_carlo (ce_rng env) eq
           (mc_default\<lparr>mc_n_simulations := nat (ma_simulations args), mc_block_size := nat (ma_block_size args)\<rparr>) hour_ms in
         Inr (write_json args (monte_carlo_lines res) (monte_carlo_file res)))"

section \<open>Cost sweep\<close>

record cost_sweep_args = cli_args +
  xa_dimensions :: string

definition cost_case :: "sweep_point \<Rightarrow> string" where
  "cost_case p = fixed 4 (sp_sharpe p) @ '' (fee='' @ percent 1 (sp_fee_rate p) @ '', slip='' @ fixed 1 (sp_slippage_bps p) @ ''bps)''"

definition cost_sweep_lines :: "sweep_result \<Rightarrow> string list" where
  "cost_sweep_lines res =
     titled ''Slippage/Fee Sensitivity Sweep''
       [''  Scenarios evaluated: '' @ show_nat (length (sw_points res)),
        ''  Best Sharpe:         '' @ cost_case (sw_best_case res), ''  Worst Sharpe:        '' @ cost_case (sw_worst_case res), '''',
        ''  Breakeven:'', ''    Max fee rate:      '' @ percent 2 (be_max_fee_rate (sw_breakeven res)),
        ''    Max slippage:      '' @ fixed 1 (be_max_slippage_bps (sw_breakeven res)) @ '' bps'', '''',
        ''  dSharpe/dFee:        '' @ fixed 1 (sw_sharpe_sensitivity_to_fees res),
        ''  dSharpe/dSlippage:   '' @ fixed 4 (sw_sharpe_sensitivity_to_slippage res)]"

definition cost_sweep_file :: "sweep_result \<Rightarrow> json" where
  "cost_sweep_file res = JObj
     [(''best_sharpe'', JNum (sp_sharpe (sw_best_case res))), (''worst_sharpe'', JNum (sp_sharpe (sw_worst_case res))),
      (''breakeven_fee'', JNum (be_max_fee_rate (sw_breakeven res))),
      (''breakeven_slippage_bps'', JNum (be_max_slippage_bps (sw_breakeven res))),
      (''sensitivity_to_fees'', JNum (sw_sharpe_sensitivity_to_fees res)),
      (''sensitivity_to_slippage'', JNum (sw_sharpe_sensitivity_to_slippage res)),
      (''num_scenarios'', JInt (int (length (sw_points res))))]"

definition cmd_cost_sweep :: "cli_env \<Rightarrow> cost_sweep_args \<Rightarrow> py_error + cli_out" where
  "cmd_cost_sweep env args =
     ebind (cli_trades env args) (\<lambda>(printed, trades).
     ebind (run_sensitivity_sweep (cost_evaluator_of (ce_evaluator env (cli_config args))) trades [(''threshold_std'', 2)]
         (sweep_default\<lparr>sc_sweep_dimensions := split_on (CHR '','') (xa_dimensions args)\<rparr>)) (\<lambda>res.
     Inr (write_json args (printed @ cost_sweep_lines res) (cost_sweep_file res))))"

section \<open>Validation\<close>

record validate_args = cli_args +
  va_splits :: int
  va_simulations :: int

definition severity_icon :: "string \<Rightarrow> py_error + string" where
  "severity_icon s =
     (if s = ''info'' then Inr ''  '' else if s = ''warning'' then Inr ''! '' else if s = ''critical'' then Inr ''!!'' else Inl (KeyError s))"

definition validation_lines :: "pdict validation_report \<Rightarrow> py_error + string list" where
  "validation_lines rep =
     ebind (emap (\<lambda>f. ebind (severity_icon (vf_severity f)) (\<lambda>icon.
       Inr (''    '' @ icon @ '' ['' @ vf_category f @ ''] '' @ vf_message f))) (vr_flags rep)) (\<lambda>flags.
     Inr (titled ''OUT-OF-SAMPLE VALIDATION REPORT''
       ([''  Grade:               '' @ grade_value (vr_grade rep), ''  OOS Sharpe:          '' @ fixed 4 (vr_mean_oos_sharpe rep),
         ''  Overfitting ratio:   '' @ fixed 2 (vr_overfitting_ratio rep) @ ''x'',
         ''  P(Sharpe > 0):       '' @ percent 1 (vr_prob_positive_sharpe rep),
         ''  Max profitable fee:  '' @ percent 2 (vr_max_profitable_fee rep),
         ''  Max profitable slip: '' @ fixed 1 (vr_max_profitable_slippage_bps rep) @ '' bps'', '''', ''  Flags:''] @ flags @
        ['''', ''  '' @ vr_summary rep])))"

definition validation_file :: "pdict validation_report \<Rightarrow> json" where
  "validation_file rep = JObj
     [(''grade'', JStr (grade_value (vr_grade rep))), (''mean_oos_sharpe'', JNum (vr_mean_oos_sharpe rep)),
      (''overfitting_ratio'', JNum (vr_overfitting_ratio rep)), (''prob_positive_sharpe'', JNum (vr_prob_positive_sharpe rep)),
      (''max_profitable_fee'', JNum (vr_max_profitable_fee rep)),
      (''max_profitable_slippage_bps'', JNum (vr_max_profitable_slippage_bps rep)),
      (''flags'', JList (map (\<lambda>f. JObj [(''category'', JStr (vf_category f)), (''severity'', JStr (vf_severity f)),
         (''message'', JStr (vf_message f))]) (vr_flags rep))),
      (''summary'', JStr (vr_summary rep))]"

definition cli_validation :: "cli_env \<Rightarrow> validate_args \<Rightarrow> json list \<Rightarrow> py_error + pdict validation_report" where
  "cli_validation env args trades =
     (let ev = ce_evaluator env (cli_config args) in
      ebind (run_walk_forward (scalar_evaluator ev) []
          (build_grid [grid_range ''threshold_std'' [15 / 10, 2, 25 / 10], grid_range ''window_size'' [50, 100]])
          (wf_default\<lparr>wc_n_splits := va_splits args, wc_min_train_size := 50, wc_min_test_size := 20\<rparr>) trades) (\<lambda>wf_res.
      ebind (ev trades [(''threshold_std'', PNum 2)]) (\<lambda>baseline.
      let mc_res = run_monte_carlo (ce_rng env) (straight_equity (bm_total_return baseline) (length trades))
        (mc_default\<lparr>mc_n_simulations := nat (va_simulations args)\<rparr>) hour_ms in
      ebind (run_sensitivity_sweep (cost_evaluator_of ev) trades [(''threshold_std'', 2)]
          (sweep_default\<lparr>sc_sweep_dimensions := [''fee_rate'', ''slippage_bps'']\<rparr>)) (\<lambda>sweep_res.
      Inr (generate_validation_report (Some wf_res) (Some mc_res) (Some sweep_res))))))"

definition cmd_validate :: "cli_env \<Rightarrow> validate_args \<Rightarrow> py_error + cli_out" where
  "cmd_validate env args =
     ebind (cli_trades env args) (\<lambda>(printed, trades).
     ebind (cli_validation env args trades) (\<lambda>rep. ebind (validation_lines rep) (\<lambda>lines.
     Inr (write_json args (printed @ [''Running walk-forward optimization...'', ''Running Monte Carlo simulation...'',
       ''Running cost sensitivity sweep...''] @ lines) (validation_file rep)))))"

section \<open>Comparison\<close>

definition sharpe_delta :: "pairwise_comparison \<Rightarrow> py_error + metric_delta" where
  \<comment> \<open>\<open>next(...)\<close> raises \<open>StopIteration\<close> if there is none\<close>
  "sharpe_delta pw = (case find (\<lambda>d. dl_metric_name d = ''sharpe'') (pw_deltas pw) of
     None \<Rightarrow> Inl (ExternalError ''StopIteration'') | Some d \<Rightarrow> Inr d)"

definition pair_line :: "pairwise_comparison \<Rightarrow> py_error + string" where
  "pair_line pw = ebind (sharpe_delta pw) (\<lambda>d.
     Inr (''    '' @ pw_run_a_id pw @ '' vs '' @ pw_run_b_id pw @ '': Sharpe delta='' @ plus_signed 4 (dl_absolute_delta d) @ '' ('' @
       plus_signed 1 (dl_pct_change d) @ ''%) better='' @ pw_better_run pw))"

definition cmd_compare :: "result_dir \<Rightarrow> string list \<Rightarrow> py_error + string list" where
  \<comment> \<open>\<open>ids\<close>: the empty list for no option as well\<close>
  "cmd_compare dir ids =
     ebind (compare_runs dir ids) (\<lambda>res.
     if cr_runs res = [] then Inr [''No runs found to compare.'']
     else ebind (emap pair_line (cr_pairwise res)) (\<lambda>pairs.
       Inr ([newline @ bar, ''  Backtest Comparison'', bar,
           newline @ ''  '' @ ljust 20 ''ID'' @ '' '' @ rjust 8 ''Sharpe'' @ '' '' @ rjust 10 ''Return'' @ '' '' @ rjust 8 ''Max DD'' @
             '' '' @ rjust 8 ''Trades'',
           ''  '' @ replicate 56 (CHR ''-'')] @
         map (\<lambda>run. ''  '' @ ljust 20 (rm_backtest_id run) @ '' '' @ rjust 8 (fixed 4 (rm_sharpe run)) @ '' '' @
           rjust 9 (percent 4 (rm_total_return run)) @ '' '' @ rjust 7 (percent 4 (rm_max_drawdown run)) @ '' '' @
           rjust 8 (grouped_int (rm_trades_replayed run))) (cr_runs res) @
         [newline @ ''  Ranked by Sharpe:  '' @ join '' > '' (cr_ranked_by_sharpe res),
          ''  Ranked by Return:  '' @ join '' > '' (cr_ranked_by_return res)] @
         (if cr_pairwise res \<noteq> [] then (newline @ ''  Pairwise Comparisons:'') # pairs else []) @ [bar @ newline])))"

section \<open>Commands\<close>

datatype cli_command =
    Sensitivity_Command sensitivity_args
  | Walk_Forward_Command walk_forward_args
  | Monte_Carlo_Command monte_carlo_args
  | Cost_Sweep_Command cost_sweep_args
  | Validate_Command validate_args
  | Compare_Command "string list"

fun run_command :: "cli_env \<Rightarrow> result_dir \<Rightarrow> cli_command \<Rightarrow> py_error + cli_out" where
  "run_command env dir (Sensitivity_Command args) = cmd_sensitivity env args"
| "run_command env dir (Walk_Forward_Command args) = cmd_walk_forward env args"
| "run_command env dir (Monte_Carlo_Command args) = cmd_monte_carlo env args"
| "run_command env dir (Cost_Sweep_Command args) = cmd_cost_sweep env args"
| "run_command env dir (Validate_Command args) = cmd_validate env args"
| "run_command env dir (Compare_Command ids) =
     ebind (cmd_compare dir ids) (\<lambda>printed. Inr \<lparr>co_printed = printed, co_written = None\<rparr>)"

section \<open>Reports can always be printed\<close>

lemma pair_lines: "\<exists>ls. emap pair_line (all_pairs runs) = Inr ls \<and> length ls = length (all_pairs runs)"
proof -
  have "sharpe_delta (compare_pair a b) = Inr (metric_delta_of (''sharpe'', rm_sharpe a, rm_sharpe b))" for a b
    by (simp add: sharpe_delta_def compare_pair_def metric_delta_of_def Let_def)
  then have pairs: "\<exists>l. pair_line p = Inr l" if "p \<in> set (all_pairs rs)" for p rs
    using that by (induction rs) (auto simp: pair_line_def)
  have "\<exists>ls. emap pair_line ps = Inr ls \<and> length ls = length ps" if "\<forall>p \<in> set ps. \<exists>l. pair_line p = Inr l" for ps
    using that
  proof (induction ps)
    case (Cons p ps)
    then obtain l ls where "pair_line p = Inr l" "emap pair_line ps = Inr ls" "length ls = length ps" by auto
    then show ?case by simp
  qed simp
  then show ?thesis using pairs by blast
qed

definition printable_flag :: "validation_flag \<Rightarrow> bool" where
  "printable_flag f \<longleftrightarrow> (case severity_icon (vf_severity f) of Inl _ \<Rightarrow> False | Inr _ \<Rightarrow> True)"

lemma printable_flags [simp]:
  "list_all printable_flag (flag c ''info'' m)" "list_all printable_flag (flag c ''warning'' m)"
  "list_all printable_flag (flag c ''critical'' m)"
  by (simp_all add: printable_flag_def flag_def severity_icon_def)

lemma printable_if: "list_all P (if b then xs else ys) = (if b then list_all P xs else list_all P ys)"
  by simp

lemma assessments_printable:
  "list_all printable_flag (assess_walk_forward wf_res)" "list_all printable_flag (assess_monte_carlo mc_res)"
  "list_all printable_flag (assess_cost_sensitivity sweep_res)"
  unfolding assess_walk_forward_def assess_monte_carlo_def assess_cost_sensitivity_def Let_def list_all_append printable_if
  by simp_all

lemma flags_printable: "list_all printable_flag (report_flags wf_res mc_res sweep_res)"
  by (simp add: report_flags_def Let_def assessments_printable split: option.split)

text \<open>
  The comparison command prints a report for every set of runs that can be read: nothing in it can fail,
  and it has a line for every run and for every pair of runs.
\<close>

theorem comparison_always_prints:
  "case load_run_metrics dir ids of
      Inl e \<Rightarrow> cmd_compare dir ids = Inl e
    | Inr runs \<Rightarrow> (case cmd_compare dir ids of Inl _ \<Rightarrow> False
        | Inr printed \<Rightarrow> (if runs = [] then length printed = 1
            else length printed = 8 + length runs + (if length runs < 2 then 0 else 1 + length (all_pairs runs))))"
proof (cases "load_run_metrics dir ids")
  case (Inl e)
  then show ?thesis by (simp add: cmd_compare_def compare_runs_def)
next
  case (Inr runs)
  obtain ls where ls: "emap pair_line (all_pairs runs) = Inr ls" "length ls = length (all_pairs runs)"
    using pair_lines by blast
  have "all_pairs runs = [] \<longleftrightarrow> length runs < 2"
    by (cases runs rule: all_pairs.cases) (auto split: list.splits simp: neq_Nil_conv)
  then show ?thesis using Inr ls by (simp add: cmd_compare_def compare_runs_def)
qed

section \<open>The straight curve\<close>

lemma rising_returns:
  "sorted es \<Longrightarrow> list_all (\<lambda>e. 0 < e) es \<Longrightarrow> list_all (\<lambda>r. 0 \<le> r) (compute_returns es)"
  by (induction es rule: compute_returns.induct) auto

lemma rising_drawdown:
  "list_all (\<lambda>r. 0 \<le> r) rs \<Longrightarrow> 0 < e \<Longrightarrow> 0 \<le> m \<Longrightarrow> dd_returns e e m rs = m"
proof (induction rs arbitrary: e)
  case (Cons r rs)
  have "e \<le> e * (1 + r)" using Cons.prems by (simp add: algebra_simps)
  then have "(if e < e * (1 + r) then e * (1 + r) else e) = e * (1 + r)" by simp
  moreover have "0 < e * (1 + r)" using Cons.prems by (simp add: mult_pos_pos)
  ultimately show ?case using Cons by (simp add: Let_def)
qed simp

lemma rising_sharpe: "list_all (\<lambda>r. 0 \<le> r) rs \<Longrightarrow> 0 \<le> sharpe_from_returns hour_ms rs"
  by (simp add: sharpe_from_returns_def Let_def mean_def sum_list_nonneg list_all_iff ms_per_year_def hour_ms_def)

lemma straight_equity_rises:
  assumes "0 \<le> total_return"
  shows "list_all (\<lambda>r. 0 \<le> r) (compute_returns (straight_equity total_return n))"
proof (rule rising_returns)
  define m where "m = max (n div 10) 2"
  define step where "step = (100000 * (1 + total_return) - 100000) / real m"
  have step: "0 \<le> step" using assms by (simp add: step_def)
  have eq: "straight_equity total_return n = map (\<lambda>i. 100000 + real i * step) [0..<m + 1]"
    by (simp add: straight_equity_def Let_def m_def step_def)
  show "sorted (straight_equity total_return n)"
    unfolding eq sorted_iff_nth_mono by (auto simp: nth_append intro!: mult_right_mono step)
  show "list_all (\<lambda>e. 0 < e) (straight_equity total_return n)"
    unfolding eq using step by (auto simp: list_all_iff intro!: add_pos_nonneg)
qed

text \<open>
  The Monte Carlo commands of the command line do not simulate the run: from trades they build a straight
  equity curve out of the total return alone, so that after any gain no simulation has a drawdown
  or a negative Sharpe ratio, whatever the trades between were, and no simulated loss is possible.
\<close>

theorem straight_curve_has_no_risk:
  assumes "rng_ok rand" and "0 \<le> total_return"
  shows "case run_monte_carlo rand (straight_equity total_return n) config hour_ms of r \<Rightarrow>
    mr_observed_max_drawdown r = 0 \<and>
    list_all (\<lambda>v. v = 0) (md_simulated_values (mr_drawdown_distribution r)) \<and>
    list_all (\<lambda>v. 0 \<le> v) (mr_observed_sharpe r # md_simulated_values (mr_sharpe_distribution r))"
proof -
  define returns where "returns = compute_returns (straight_equity total_return n)"
  define sims where "sims = simulations rand returns (mc_block_size config) (mc_n_simulations config) 0"
  have up: "list_all (\<lambda>r. 0 \<le> r) returns" unfolding returns_def using assms(2) by (rule straight_equity_rises)
  have flat: "max_drawdown_from_returns rs = 0" if "list_all (\<lambda>r. 0 \<le> r) rs" for rs
    using rising_drawdown [OF that, of 1 0] by (simp add: max_drawdown_from_returns_def)
  have "list_all (\<lambda>rs. set rs \<subseteq> set returns \<and> length rs = length returns) sims"
    using simulations_sound [OF assms(1)] unfolding sims_def by blast
  then have ups: "list_all (list_all (\<lambda>r. 0 \<le> r)) sims" using up by (auto simp: list_all_iff)
  then have "list_all (\<lambda>v. v = 0) (map max_drawdown_from_returns sims)"
    "list_all (\<lambda>v. 0 \<le> v) (map (sharpe_from_returns hour_ms) sims)"
    using flat rising_sharpe by (auto simp: list_all_iff)
  then show ?thesis
    using flat [OF up] rising_sharpe [OF up]
    by (simp add: run_monte_carlo_def Let_def empty_mc_result_def build_distribution_def flip: returns_def sims_def)
qed

theorem straight_curve_has_no_risk_witness:
  "mr_observed_max_drawdown (run_monte_carlo (\<lambda>n k. k mod n) (straight_equity (1 / 10) 50) mc_default hour_ms) = 0"
  using straight_curve_has_no_risk [of "\<lambda>n k. k mod n" "1 / 10" 50 mc_default] by (simp add: rng_ok_def)

end
