(* ===== verification/Backtest_Cli.thy ===== *)
theory Backtest_Cli
  imports Comparison Config
begin

text \<open>
  The backtest command line, \<open>backtest_svc/cli.py\<close>: a replay is run and its statistics stored, the
  stored runs are listed, one of them is shown. The environment variables, the rows of the
  database, the measured duration, the fresh identifier and the time of the save are arguments;
  a command returns the texts it prints, one per \<open>print\<close>, and a shown document as such.
\<close>

record run_args =
  ra_backtest_id :: string
  ra_symbol :: string
  ra_start :: string
  ra_end :: string
  ra_speed :: string
  ra_multiplier :: real
  ra_no_depth :: bool

record run_env =
  rv_environ :: environ
  rv_uuid_hex :: string
  rv_trade_rows :: "py_error + db_row list"
  rv_depth_rows :: "py_error + db_row list"
  rv_elapsed :: real
  rv_now :: string

fun speed_of :: "string \<Rightarrow> py_error + replay_speed" where
  \<comment> \<open>\<open>ReplaySpeed(s)\<close>\<close>
  "speed_of s =
     (if s = ''as_fast_as_possible'' then Inr AS_FAST_AS_POSSIBLE else if s = ''real_time'' then Inr REAL_TIME
      else if s = ''scaled'' then Inr SCALED else Inl (ValueError (s @ '' is not a valid ReplaySpeed'')))"

definition backtest_config_of :: "run_env \<Rightarrow> run_args \<Rightarrow> py_error + backtest_config" where
  "backtest_config_of env args =
     ebind (speed_of (ra_speed args)) (\<lambda>speed.
     Inr (post_init (rv_uuid_hex env) \<lparr>bc_backtest_id = ra_backtest_id args, bc_symbol = upper (ra_symbol args),
       bc_start_time = ra_start args, bc_end_time = ra_end args, bc_replay_speed = speed,
       bc_speed_multiplier = ra_multiplier args, bc_include_depth = (\<not> ra_no_depth args)\<rparr>))"

definition run_summary :: "replay_stats \<Rightarrow> string list" where
  "run_summary stats =
     [[CHR 0x0A] @ replicate 60 (CHR ''=''), ''  Backtest Complete: '' @ rs_backtest_id stats, replicate 60 (CHR ''=''),
      ''  Trades replayed:      '' @ grouped_int (int (rs_trades_replayed stats)),
      ''  Depth updates:        '' @ grouped_int (int (rs_depth_updates_replayed stats)),
      ''  Data span:            '' @ fixed 1 (rs_data_span_seconds stats) @ ''s'',
      ''  Wall-clock time:      '' @ fixed 1 (rs_duration_seconds stats) @ ''s'',
      ''  Throughput:           '' @ grouped 0 (rs_messages_per_second stats) @ '' msg/s'', replicate 60 (CHR ''=''),
      [CHR 0x0A] @ ''  View results at: http://localhost:8080/api/pnl'',
      ''  (set BACKTEST_ID='' @ rs_backtest_id stats @ '' on services to analyze)'' @ [CHR 0x0A]]"

definition run_backtest :: "run_env \<Rightarrow> run_args \<Rightarrow> result_dir \<Rightarrow> (py_error + string list) \<times> kafka_record list \<times> result_dir" where
  \<comment> \<open>output, records published, results directory; an exception of the replay keeps what was published before\<close>
  "run_backtest env args dir =
     (case app_config_from_env (rv_environ env) of
        Inl e \<Rightarrow> (Inl e, [], dir)
      | Inr _ \<Rightarrow>
        case backtest_config_of env args of
          Inl e \<Rightarrow> (Inl e, [], dir)
        | Inr config \<Rightarrow>
          let producer = producer_init (Some (bc_backtest_id config)) in
          case replay_run config (rv_trade_rows env) (rv_depth_rows env) (rv_elapsed env) (engine_init producer config) of
            (Some e, eng) \<Rightarrow> (Inl e, qp_sent (re_producer eng), dir)
          | (None, eng) \<Rightarrow> (Inr (run_summary (re_stats eng)), qp_sent (re_producer eng),
              save_result (rv_now env) (re_stats eng) config dir))"

definition list_line :: "(string, json) dict \<Rightarrow> py_error + string" where
  \<comment> \<open>texts and numbers as they are stored by a run\<close>
  "list_line run =
     ebind (ebind (subscript run ''backtest_id'') as_str) (\<lambda>bid.
     ebind (as_str (dget run ''symbol'' (JStr ''N/A''))) (\<lambda>symbol.
     ebind (ebind (subscript run ''trades_replayed'') as_int) (\<lambda>trades.
     ebind (ebind (subscript run ''duration_seconds'') as_num) (\<lambda>duration.
     ebind (ebind (subscript run ''messages_per_second'') as_num) (\<lambda>rate.
     ebind (as_str (dget run ''timestamp'' (JStr ''N/A''))) (\<lambda>ts.
     Inr (ljust 20 bid @ '' '' @ ljust 10 symbol @ '' '' @ rjust 10 (grouped_int trades) @ '' '' @ rjust 9 (fixed 1 duration) @ ''s '' @
       rjust 11 (grouped 0 rate) @ ''/s '' @ ts)))))))"

definition list_backtests :: "result_dir \<Rightarrow> py_error + string list" where
  "list_backtests dir =
     ebind (list_results dir) (\<lambda>runs.
     if runs = [] then Inr [''No backtest runs found.'']
     else ebind (emap list_line runs) (\<lambda>rows.
       Inr ([[CHR 0x0A] @ ljust 20 ''ID'' @ '' '' @ ljust 10 ''Symbol'' @ '' '' @ rjust 10 ''Trades'' @ '' '' @ rjust 10 ''Duration'' @
           '' '' @ rjust 12 ''Throughput'' @ '' Date'', replicate 80 (CHR ''-'')] @ rows @ [''''])))"

definition show_results :: "string \<Rightarrow> result_dir \<Rightarrow> py_error + string + json" where
  "show_results backtest_id dir =
     ebind (get_result backtest_id dir) (\<lambda>res. Inr (case res of
        None \<Rightarrow> Inl (''No results found for backtest ID: '' @ backtest_id)
      | Some doc \<Rightarrow> Inr doc))"

section \<open>A run is stored and shown\<close>

definition engine_ok :: "backtest_config \<Rightarrow> replay_engine \<Rightarrow> bool" where
  \<comment> \<open>statistics and records are of this run\<close>
  "engine_ok config eng \<longleftrightarrow> rs_backtest_id (re_stats eng) = bc_backtest_id config \<and>
     qp_backtest_id (re_producer eng) = Some (bc_backtest_id config) \<and> list_all (tagged config) (qp_sent (re_producer eng))"

lemma publish_ok:
  assumes "engine_ok config eng" "bc_backtest_id config \<noteq> ''''"
  shows "engine_ok config (eng\<lparr>re_producer := publish topic k j (re_producer eng)\<rparr>)"
  using assms by (simp add: engine_ok_def qp_sent_produce tagged_def msg_headers_def)

lemma pace_ok: "keep_pace config prev_ts msg eng = Inr (ts, eng') \<Longrightarrow> engine_ok config eng' = engine_ok config eng"
  by (auto simp: keep_pace_def ebind_eq_Inr Let_def sleep_for_def engine_ok_def split: if_splits replay_speed.splits)

lemma loop_ok:
  assumes "bc_backtest_id config \<noteq> []"
  shows "engine_ok config eng \<Longrightarrow> engine_ok config (snd (replay_loop config topic prev_ts msgs eng))"
proof (induction msgs arbitrary: prev_ts eng)
  case (Cons msg msgs)
  show ?case
  proof (cases "keep_pace config prev_ts msg eng")
    case (Inr p)
    obtain ts eng1 where p: "p = (ts, eng1)" by (cases p)
    have ok: "engine_ok config eng1" using pace_ok [of config prev_ts msg eng ts eng1] Inr p Cons.prems by simp
    then have "engine_ok config (eng1\<lparr>re_producer := publish topic k j (re_producer eng1)\<rparr>)" for k j
      using assms by (rule publish_ok)
    then show ?thesis using Cons.IH ok Inr p by (auto split: sum.split)
  qed (use Cons.prems in simp)
qed simp

lemma messages_ok:
  assumes "bc_backtest_id config \<noteq> []" "engine_ok config eng"
  shows "engine_ok config (snd (replay_messages config rows topic eng))"
  using assms(2) loop_ok [OF assms] by (simp add: replay_messages_def split: list.split sum.split del: replay_loop.simps)

lemma pass_ok:
  assumes "bc_backtest_id config \<noteq> []" "engine_ok config eng"
  shows "engine_ok config (snd (replay_pass config fetched topic eng))"
proof (cases fetched)
  case (Inr rows)
  obtain r eng' where "replay_messages config rows topic eng = (r, eng')" by fastforce
  then show ?thesis using messages_ok [OF assms, of rows topic] Inr by (cases r) (simp_all add: replay_pass_def)
qed (use assms in \<open>simp add: replay_pass_def\<close>)

lemma counted_ok [simp]:
  "engine_ok config (eng\<lparr>re_stats := (re_stats eng)\<lparr>rs_trades_replayed := n\<rparr>\<rparr>) = engine_ok config eng"
  "engine_ok config (eng\<lparr>re_stats := (re_stats eng)\<lparr>rs_depth_updates_replayed := n\<rparr>\<rparr>) = engine_ok config eng"
  "engine_ok config (snd (finish_replay elapsed trades eng)) = engine_ok config eng"
  by (simp_all add: engine_ok_def finish_replay_def Let_def split: sum.split)

lemma run_ok:
  assumes "bc_backtest_id config \<noteq> []" "engine_ok config eng"
  shows "engine_ok config (snd (replay_run config trade_rows depth_rows elapsed eng))"
proof -
  obtain r1 eng1 where p1: "replay_pass config trade_rows ''raw.trades'' eng = (r1, eng1)" by fastforce
  then have ok1: "engine_ok config eng1" using pass_ok [OF assms, of trade_rows "''raw.trades''"] by simp
  show ?thesis
  proof (cases r1)
    case (Inr n)
    let ?eng2 = "eng1\<lparr>re_stats := (re_stats eng1)\<lparr>rs_trades_replayed := n\<rparr>\<rparr>"
    obtain r3 eng3 where p3: "replay_pass config depth_rows ''raw.depth'' ?eng2 = (r3, eng3)" by fastforce
    then have "engine_ok config eng3" using pass_ok [OF assms(1), of ?eng2 depth_rows "''raw.depth''"] ok1 by simp
    then show ?thesis using Inr p1 p3 ok1 by (simp add: replay_run_def Let_def split: sum.split)
  qed (use p1 ok1 in \<open>simp add: replay_run_def\<close>)
qed

lemma config_named: "backtest_config_of env args = Inr config \<Longrightarrow> bc_backtest_id config \<noteq> []"
  by (auto simp: backtest_config_of_def ebind_eq_Inr post_init_def simp del: speed_of.simps split: if_splits)

text \<open>
  C32. A backtest run from the command line: if it ends, its statistics are stored under its identifier, printed,
  and shown again by the results command, every other stored run stays as it was, and every
  record it published carries the identifier; if it fails, nothing is stored.
\<close>

theorem finished_run_is_shown:
  "case run_backtest env args dir of
     (Inl e, recs, dir') \<Rightarrow> dir' = dir
   | (Inr printed, recs, dir') \<Rightarrow> (\<exists>config stats. backtest_config_of env args = Inr config \<and>
       rs_backtest_id stats = bc_backtest_id config \<and> printed = run_summary stats \<and> list_all (tagged config) recs \<and>
       (\<forall>bid. show_results bid dir' = (if bid = bc_backtest_id config
          then Inr (Inr (JObj (result_data (rv_now env) stats config))) else show_results bid dir)))"
proof (cases "fst (run_backtest env args dir)")
  case (Inl e)
  then show ?thesis by (auto simp: run_backtest_def Let_def split: sum.splits prod.splits option.splits)
next
  case (Inr printed)
  then obtain config eng where config: "backtest_config_of env args = Inr config"
    and run: "replay_run config (rv_trade_rows env) (rv_depth_rows env) (rv_elapsed env)
      (engine_init (producer_init (Some (bc_backtest_id config))) config) = (None, eng)"
    and out: "run_backtest env args dir = (Inr (run_summary (re_stats eng)), qp_sent (re_producer eng),
      save_result (rv_now env) (re_stats eng) config dir)"
    by (auto simp: run_backtest_def Let_def split: sum.splits prod.splits option.splits)
  have "engine_ok config (engine_init (producer_init (Some (bc_backtest_id config))) config)"
    by (simp add: engine_ok_def engine_init_def producer_init_def)
  from run_ok [OF config_named [OF config] this, of "rv_trade_rows env" "rv_depth_rows env" "rv_elapsed env"] run
  have ok: "engine_ok config eng" by simp
  then have "show_results bid (save_result (rv_now env) (re_stats eng) config dir) = (if bid = bc_backtest_id config
      then Inr (Inr (JObj (result_data (rv_now env) (re_stats eng) config))) else show_results bid dir)" for bid
    by (simp add: show_results_def get_saved engine_ok_def)
  then show ?thesis using out config ok by (auto simp: engine_ok_def intro!: exI [of _ "re_stats eng"])
qed

end
