(* ===== verification/Trading_Loop.thy ===== *)
theory Trading_Loop
  imports Risk_Gateway Execution_Service Post_Trade_Service
begin

text \<open>
  The services composed: the orders the risk gateway publishes are consumed by the execution
  service, its fills by the post-trade service, and what that writes to Redis is read by the
  gateway. Kafka is the order of the records of a topic; the services run independently of each
  other and see any other messages in between. The lemmas here follow an order from signal to
  position; the properties stand in the root theory.
\<close>

section \<open>From fills to the risk gateway\<close>

text \<open>
  The keys the post-trade service has ever written: its portfolio key and the keys of positions it
  still holds. The portfolio only gains symbols, so this is kept by every message.
\<close>

fun cmd_key :: "redis_cmd \<Rightarrow> string" where
  "cmd_key (HSet key h) = key"

definition run_keys :: "string \<Rightarrow> portfolio \<Rightarrow> string set" where
  "run_keys run pf = insert (key_portfolio run) (key_position run ` fst ` set pf)"

definition written_keys_ok :: "post_trade_svc \<Rightarrow> bool" where
  "written_keys_ok svc \<longleftrightarrow> cmd_key ` set (pt_redis_cmds svc) \<subseteq> run_keys (pt_run_id svc) (st_portfolio (pt_state svc))"

lemma run_keys_mono: "fst ` set pf \<subseteq> fst ` set pf' \<Longrightarrow> run_keys run pf \<subseteq> run_keys run pf'"
  unfolding run_keys_def by (rule insert_mono, rule image_mono)

lemma apply_cmds_keys:
  "fst ` set (foldl apply_cmd base cmds) = fst ` set base \<union> cmd_key ` set cmds"
proof (induction cmds arbitrary: base)
  case (Cons c cmds)
  then show ?case by (cases c) (simp add: dom_update)
qed simp

lemma portfolio_keys_grow:
  "fst ` set (st_portfolio st) \<subseteq> fst ` set (st_portfolio (state_step st ev))"
  by (cases ev) (auto simp: book_fill_portfolio dom_update state_record_signal_def)

lemma sync_cmds_keys:
  "cmd_key ` set (sync_portfolio_to_redis run ps eq peak r u fees) =
     insert (key_portfolio run) (key_position run ` fst ` set ps)"
  by (simp add: sync_portfolio_to_redis_def image_image case_prod_unfold)

lemma positions_dom:
  "get_pnl_summary None st = Inr d \<Longrightarrow> fst ` set (positions_for_redis d) = fst ` set (st_portfolio st)"
  using summary_positions(1) [of st d] positions_keys [of d] by (metis set_map)

text \<open>A fill either stops the service or is synchronised, if Redis accepts the pipeline.\<close>

lemma on_fill_cases:
  obtains (stopped) "\<not> pt_running (on_fill env f svc)" "pt_redis_cmds (on_fill env f svc) = pt_redis_cmds svc"
  | (kept) "pt_redis_cmds (on_fill env f svc) = pt_redis_cmds svc"
      "pe_redis_error env \<noteq> None \<or> (\<exists>e. get_pnl_summary None (pt_state (on_fill env f svc)) = Inl e)"
  | (synced) d where "get_pnl_summary None (pt_state (on_fill env f svc)) = Inr d" "pe_redis_error env = None"
      "pt_redis_cmds (on_fill env f svc) = pt_redis_cmds svc @ sync_portfolio_to_redis (pt_run_id svc)
         (positions_for_redis d) (sm_current_equity d) (st_peak_equity (pt_state (on_fill env f svc)))
         (sm_total_realized_pnl d) (sm_total_unrealized_pnl d) (sm_total_fees d)"
proof -
  obtain r st where r: "process_fill (record_of_fill f) (pt_state svc) = (r, st)" by fastforce
  show ?thesis
  proof (cases r)
    case (Some e)
    with r show ?thesis by (intro stopped) (simp_all add: on_fill_def)
  next
    case None
    with r have st: "pt_state (on_fill env f svc) = st" by simp
    show ?thesis
    proof (cases "get_pnl_summary None st")
      case (Inl e)
      with r None show ?thesis by (intro kept) (simp_all add: on_fill_def sync_state_def)
    next
      case (Inr d)
      show ?thesis
      proof (cases "pe_redis_error env = None")
        case True
        with r None Inr show ?thesis by (intro synced [of d]) (simp_all add: on_fill_def sync_state_def Let_def)
      next
        case False
        with r None Inr show ?thesis by (intro kept) (simp_all add: on_fill_def sync_state_def Let_def)
      qed
    qed
  qed
qed

lemma on_fill_run_id [simp]: "pt_run_id (on_fill env f svc) = pt_run_id svc"
  by (simp add: on_fill_def split: prod.split option.split)

lemma written_keys_fill: "written_keys_ok svc \<Longrightarrow> written_keys_ok (on_fill env f svc)"
proof -
  assume ok: "written_keys_ok svc"
  have old: "cmd_key ` set (pt_redis_cmds svc) \<subseteq> run_keys (pt_run_id svc) (st_portfolio (pt_state (on_fill env f svc)))"
    using ok run_keys_mono [OF portfolio_keys_grow [of "pt_state svc" "Fill_event (record_of_fill f)"]]
    unfolding written_keys_ok_def on_fill_state by (rule subset_trans)
  show ?thesis
  proof (cases rule: on_fill_cases [of env f svc])
    case (synced d)
    have "cmd_key ` set (pt_redis_cmds (on_fill env f svc)) = cmd_key ` set (pt_redis_cmds svc) \<union>
        run_keys (pt_run_id svc) (st_portfolio (pt_state (on_fill env f svc)))"
      unfolding synced(3) set_append image_Un sync_cmds_keys positions_dom [OF synced(1)] run_keys_def ..
    with old show ?thesis unfolding written_keys_ok_def on_fill_run_id by simp
  qed (use old in \<open>simp_all only: written_keys_ok_def on_fill_run_id\<close>)
qed

lemma written_keys_signal: "written_keys_ok (on_signal_message sig svc) = written_keys_ok svc"
  by (simp add: written_keys_ok_def on_signal_message_def state_record_signal_def)

lemma written_keys_step: "written_keys_ok svc \<Longrightarrow> written_keys_ok (post_trade_step svc e)"
proof -
  assume ok: "written_keys_ok svc"
  obtain env msg where e: "e = (env, msg)" by fastforce
  have "post_trade_step svc e = svc \<or> (\<exists>f. post_trade_step svc e = on_fill env f svc) \<or>
      (\<exists>sig. post_trade_step svc e = on_signal_message sig svc)"
    by (auto simp: e post_trade_step_def split: option.splits sum.splits)
  with ok show ?thesis by (auto simp: written_keys_fill written_keys_signal)
qed

interpretation written_keys: machine post_trade_step "\<lambda>_. True" written_keys_ok
  by unfold_locales (rule written_keys_step)

lemma initial_equity_kept:
  "st_initial_equity (foldl state_step (state_init e) evs) = e"
  using equity_inv_events [of e evs] by (simp add: equity_inv_def)

lemma portfolio_wf: "dict_wf (st_portfolio (foldl state_step (state_init e) evs))"
  using equity_inv_events [of e evs] by (simp add: equity_inv_def)

lemma gateway_reads_store:
  fixes env :: post_trade_env and msgs :: "(post_trade_env \<times> kafka_message option) list"
    and f :: fill and backtest_id :: "string option" and evs0 :: "state_event list"
  defines "svc \<equiv> foldl post_trade_step (post_trade_init backtest_id) msgs"
  defines "svc' \<equiv> on_fill env f svc" and "evs \<equiv> evs0 @ [Fill_event (record_of_fill f)]"
  assumes evs0: "pt_state svc = foldl state_step (state_init initial_equity) evs0"
    and "pt_running svc'" and "pe_redis_error env = None"
    and "\<forall>s \<in> fst ` set (st_portfolio (pt_state svc')). colon \<notin> set s"
    and "serves (foldl apply_cmd [] (pt_redis_cmds svc')) hgetall scan"
  shows "\<exists>data. read_portfolio_from_redis hgetall scan (pt_run_id svc') [] = Inr data \<and>
    pt_state svc' = foldl state_step (state_init initial_equity) evs \<and>
    (\<forall>s. dget (pd_positions data) s 0 = net_quantity (map fill_of (filter (\<lambda>g. fr_symbol g = s) (fills_of evs)))) \<and>
    pd_current_equity data = py_round (compute_equity (pt_state svc')) 2 \<and>
    pd_peak_equity data = st_peak_equity (pt_state svc')"
proof -
  have svc': "svc' = on_fill env f svc" by (simp add: svc'_def)
  have st: "pt_state svc' = foldl state_step (state_init initial_equity) evs"
    by (simp add: svc' evs_def evs0)
  have "written_keys_ok (post_trade_init backtest_id)" by (simp add: written_keys_ok_def post_trade_init_def)
  then have keys: "written_keys_ok svc"
    unfolding svc_def by (rule written_keys.inv_run) (simp add: list_all_iff)
  have "\<exists>d. get_pnl_summary None (pt_state svc') = Inr d"
    by (simp add: get_pnl_summary_def Let_def st initial_equity_kept initial_equity_def)
  with assms(5,6) obtain d where d: "get_pnl_summary None (pt_state svc') = Inr d"
      "pt_redis_cmds svc' = pt_redis_cmds svc @ sync_portfolio_to_redis (pt_run_id svc)
         (positions_for_redis d) (sm_current_equity d) (st_peak_equity (pt_state svc'))
         (sm_total_realized_pnl d) (sm_total_unrealized_pnl d) (sm_total_fees d)"
    unfolding svc' by (cases rule: on_fill_cases [of env f svc]) auto
  have dom: "fst ` set (positions_for_redis d) = fst ` set (st_portfolio (pt_state svc'))"
    by (rule positions_dom [OF d(1)])
  have wf: "dict_wf (positions_for_redis d)"
    using portfolio_wf [of initial_equity evs] summary_positions(1) [OF d(1)]
    by (simp add: dict_wf_def positions_keys flip: st)
  have grow: "fst ` set (st_portfolio (pt_state svc)) \<subseteq> fst ` set (st_portfolio (pt_state svc'))"
    unfolding svc' on_fill_state by (rule portfolio_keys_grow)
  have base: "\<forall>k \<in> fst ` set (foldl apply_cmd [] (pt_redis_cmds svc)). prefix (position_prefix (pt_run_id svc)) k \<longrightarrow>
      k \<in> key_position (pt_run_id svc) ` fst ` set (positions_for_redis d)"
  proof (intro ballI impI)
    fix k
    assume k: "k \<in> fst ` set (foldl apply_cmd [] (pt_redis_cmds svc))" "prefix (position_prefix (pt_run_id svc)) k"
    then have "k \<in> run_keys (pt_run_id svc) (st_portfolio (pt_state svc))"
      using keys unfolding apply_cmds_keys written_keys_ok_def by auto
    moreover have "k \<noteq> key_portfolio (pt_run_id svc)" using k(2) by auto
    ultimately show "k \<in> key_position (pt_run_id svc) ` fst ` set (positions_for_redis d)"
      using grow unfolding dom run_keys_def by blast
  qed
  obtain data where data: "read_portfolio_from_redis hgetall scan (pt_run_id svc) [] = Inr data"
      "pd_current_equity data = sm_current_equity d" "pd_peak_equity data = st_peak_equity (pt_state svc')"
      "\<forall>s. map_of (pd_positions data) s = (case map_of (positions_for_redis d) s of None \<Rightarrow> None
        | Some pos \<Rightarrow> if dget pos ''quantity'' 0 = 0 then None else Some (dget pos ''quantity'' 0))"
    using portfolio_sync_roundtrip_helper [OF wf _ base] assms(7,8) unfolding dom d(2) foldl_append by blast
  have "dget (pd_positions data) s 0 = net_quantity (map fill_of (filter (\<lambda>g. fr_symbol g = s) (fills_of evs)))" for s
  proof -
    have "dget (pd_positions data) s 0 = pn_quantity (position_of (st_portfolio (pt_state svc')) s)"
      using data(4)
      by (auto simp: dget_def [of "pd_positions data"] map_of_positions summary_positions(2) [OF d(1)] position_of_def
          new_position_def view_position_def Let_def dget_def split: option.split)
    also have "\<dots> = net_quantity (map fill_of (filter (\<lambda>g. fr_symbol g = s) (fills_of evs)))"
      unfolding st position_of_def portfolio_fold
      by (simp add: apply_all_quantity new_position_def net_quantity_def)
    finally show ?thesis .
  qed
  with data st summary_positions(3) [OF d(1)] show ?thesis
    by (intro exI [of _ data]) (simp add: svc')
qed

section \<open>From orders to fills\<close>

text \<open>
  The order an iteration of the execution service takes from its message, and whether the service
  fills it: the breaker is clear, the symbol has been quoted on both sides, and a live order is
  accepted by the exchange.
\<close>

fun order_value :: "exec_event \<Rightarrow> stored option" where
  "order_value (Iteration env (Some m)) = (if km_error m = None \<and> km_topic m = topic_orders then Some (km_value m) else None)"
| "order_value _ = None"

definition orders_in :: "exec_event list \<Rightarrow> stored list" where
  "orders_in evs = List.map_filter order_value evs"

fun order_in :: "exec_event \<Rightarrow> (exec_env \<times> order) option" where
  "order_in (Iteration env msg) = (case order_value (Iteration env msg) of None \<Rightarrow> None
     | Some v \<Rightarrow> (case ebind (loads v) (order_from_json (en_uid env 0)) of Inl _ \<Rightarrow> None | Inr rd \<Rightarrow> Some (env, rd)))"
| "order_in _ = None"

definition fillable :: "exec_svc \<Rightarrow> exec_env \<times> order \<Rightarrow> bool" where
  "fillable ex = (\<lambda>(env, rd). \<not> fst (is_tripped (en_monotonic env) (en_redis env) (ex_breaker ex)) \<and>
     map_of (ex_latest_mid ex) (upper (or_symbol rd)) \<noteq> None \<and>
     (get_mode (or_strategy_id rd) (ex_modes ex) = ''live'' \<longrightarrow>
        ex_live_client ex \<and> (case ebind (en_place_order env) as_obj of Inl _ \<Rightarrow> False | Inr _ \<Rightarrow> True)))"

definition executed_by :: "exec_svc \<Rightarrow> exec_event \<Rightarrow> order list" where
  "executed_by ex e = (case order_in e of None \<Rightarrow> [] | Some p \<Rightarrow> if fillable ex p then [snd p] else [])"

fun executed :: "exec_svc \<Rightarrow> exec_event list \<Rightarrow> order list" where
  \<comment> \<open>the orders a run of the service fills\<close>
  "executed ex [] = []"
| "executed ex (e # es) = executed_by ex e @ executed (exec_run_step ex e) es"

fun all_fillable :: "exec_svc \<Rightarrow> exec_event list \<Rightarrow> bool" where
  "all_fillable ex [] = True"
| "all_fillable ex (e # es) =
     ((case order_in e of None \<Rightarrow> True | Some p \<Rightarrow> fillable ex p) \<and> all_fillable (exec_run_step ex e) es)"

definition fill_for :: "order \<Rightarrow> fill \<Rightarrow> bool" where
  "fill_for rd f \<longleftrightarrow> fl_order_id f = or_order_id rd \<and> fl_symbol f = or_symbol rd \<and> fl_side f = or_side rd \<and>
     fl_quantity f = or_quantity rd"

definition order_docs :: "order list \<Rightarrow> stored list" where
  "order_docs rds = map (\<lambda>rd. Document (order_to_json rd)) rds"

definition fill_docs :: "fill list \<Rightarrow> stored list" where
  "fill_docs fs = map (\<lambda>f. Document (fill_to_json f)) fs"

lemma execute_None:
  assumes "execute env rd mode mid spread ex = (None, ex')"
  shows "mode = ''live'' \<and> (ex_live_client ex \<longrightarrow> (\<exists>e. ebind (en_place_order env) as_obj = Inl e))"
  using assms by (auto simp: execute_def call_exchange_def Let_def split: if_splits prod.splits bool.splits sum.splits)

lemma accept_client [simp]: "ex_live_client (accept_order env rd ex) = ex_live_client ex"
  by simp

lemma on_order_fills:
  "if fillable ex (env, rd) then \<exists>f. fill_for rd f \<and> fills_sent (on_order env rd ex) = fills_sent ex @ fill_docs [f]
   else fills_sent (on_order env rd ex) = fills_sent ex"
proof (cases rule: on_order_cases [of env ex rd])
  case (ended cb mid ex')
  from execute_None [OF ended(3)] have "\<not> fillable ex (env, rd)" by (auto simp: fillable_def)
  with ended(4) execute_fields [OF ended(3)] show ?thesis by simp
next
  case (filled cb mid f0 f ex')
  have "fillable ex (env, rd)"
    using filled(1,2) execute_Some(1) [OF filled(3)] by (auto simp: fillable_def)
  moreover have "fill_for rd f"
    unfolding filled(4) by (simp add: fill_for_def execute_Some(2) [OF filled(3)] simulate_fill_def Let_def split: prod.split)
  moreover have "fills_sent (on_order env rd ex) = fills_sent ex @ fill_docs [f]"
    using filled(5) execute_fields [OF filled(3)] by (simp add: fill_docs_def)
  ultimately show ?thesis by auto
qed (simp_all add: fillable_def)

lemma step_fills:
  "\<exists>fs. list_all2 fill_for (executed_by ex e) fs \<and> fills_sent (exec_run_step ex e) = fills_sent ex @ fill_docs fs"
proof (cases "order_in e")
  case None
  then have "fills_sent (exec_run_step ex e) = fills_sent ex"
    by (cases e) (auto simp: execution_step_def split: option.splits sum.splits if_splits)
  with None show ?thesis by (simp add: executed_by_def fill_docs_def)
next
  case (Some p)
  obtain env rd where p: "p = (env, rd)" by (cases p)
  from Some have "exec_run_step ex e = on_order env rd ex"
    unfolding p by (cases e) (auto simp: execution_step_def topic_raw_depth_def topic_orders_def split: option.splits sum.splits if_splits)
  with Some p on_order_fills [of ex env rd] show ?thesis
    by (auto simp: executed_by_def fill_docs_def split: if_splits)
qed

lemma run_fills:
  "\<exists>fs. list_all2 fill_for (executed ex evs) fs \<and> fills_sent (foldl exec_run_step ex evs) = fills_sent ex @ fill_docs fs"
proof (induction evs arbitrary: ex)
  case (Cons e es)
  obtain fs where "list_all2 fill_for (executed_by ex e) fs" "fills_sent (exec_run_step ex e) = fills_sent ex @ fill_docs fs"
    using step_fills by blast
  moreover obtain gs where "list_all2 fill_for (executed (exec_run_step ex e) es) gs"
    "fills_sent (foldl exec_run_step (exec_run_step ex e) es) = fills_sent (exec_run_step ex e) @ fill_docs gs"
    using Cons by blast
  ultimately show ?case by (intro exI [of _ "fs @ gs"]) (simp add: fill_docs_def list_all2_appendI)
qed (simp add: fill_docs_def)

lemma executed_subseq:
  "orders_in evs = order_docs rds \<Longrightarrow> subseq (executed ex evs) rds"
proof (induction evs arbitrary: ex rds)
  case (Cons e es)
  show ?case
  proof (cases "order_value e")
    case None
    then have "order_in e = None" by (cases e) simp_all
    with Cons None show ?thesis by (simp add: executed_by_def orders_in_def map_filter_simps)
  next
    case (Some v)
    then obtain rd rest where rds: "rds = rd # rest" "v = Document (order_to_json rd)"
        "orders_in es = order_docs rest"
      using Cons.prems by (auto simp: orders_in_def order_docs_def map_filter_simps Cons_eq_map_conv)
    have "executed_by ex e = [] \<or> executed_by ex e = [rd]"
      using Some rds(2) by (cases e) (auto simp: executed_by_def)
    with Cons.IH [OF rds(3)] rds(1) show ?thesis by auto
  qed
qed (simp add: orders_in_def order_docs_def map_filter_simps)

lemma executed_all:
  "orders_in evs = order_docs rds \<Longrightarrow> all_fillable ex evs \<Longrightarrow> executed ex evs = rds"
proof (induction evs arbitrary: ex rds)
  case (Cons e es)
  show ?case
  proof (cases "order_value e")
    case None
    then have "order_in e = None" by (cases e) simp_all
    with Cons None show ?thesis by (simp add: executed_by_def orders_in_def map_filter_simps)
  next
    case (Some v)
    then obtain rd rest where rds: "rds = rd # rest" "v = Document (order_to_json rd)" "orders_in es = order_docs rest"
      using Cons.prems by (auto simp: orders_in_def order_docs_def map_filter_simps Cons_eq_map_conv)
    have "executed_by ex e = [rd]"
      using Some rds(2) Cons.prems(2) by (cases e) (auto simp: executed_by_def)
    with Cons.IH [OF rds(3)] Cons.prems(2) rds(1) show ?thesis by simp
  qed
qed (simp add: orders_in_def order_docs_def map_filter_simps)

section \<open>From fills to positions\<close>

fun fill_value :: "post_trade_env \<times> kafka_message option \<Rightarrow> stored option" where
  "fill_value (env, Some m) = (if km_error m = None \<and> km_topic m = topic_fills then Some (km_value m) else None)"
| "fill_value (env, None) = None"

definition fills_in :: "(post_trade_env \<times> kafka_message option) list \<Rightarrow> stored list" where
  "fills_in msgs = List.map_filter fill_value msgs"

definition net_ordered :: "string \<Rightarrow> order list \<Rightarrow> real" where
  \<comment> \<open>the signed quantity of the orders in a symbol\<close>
  "net_ordered s rds = sum_list (map (\<lambda>rd. signed_qty (or_side rd) (or_quantity rd)) (filter (\<lambda>rd. or_symbol rd = s) rds))"

lemma stopped_stays: "\<not> pt_running svc \<Longrightarrow> foldl post_trade_step svc msgs = svc"
proof (induction msgs)
  case (Cons m msgs)
  then have "post_trade_step svc m = svc" by (simp add: post_trade_step_def split: prod.split)
  with Cons show ?case by simp
qed simp

lemma message_reaches_store:
  assumes "pt_running svc" and "fill_value e = None"
  shows "\<exists>evs. pt_state (post_trade_step svc e) = foldl state_step (pt_state svc) evs \<and> fills_of evs = []"
proof -
  obtain env msg where e: "e = (env, msg)" by (cases e)
  have "post_trade_step svc e = svc \<or> (\<exists>sig. post_trade_step svc e = on_signal_message sig svc)"
    using assms by (auto simp: e post_trade_step_def split: option.splits sum.splits if_splits)
  then show ?thesis
  proof
    assume "\<exists>sig. post_trade_step svc e = on_signal_message sig svc"
    then obtain sig where "post_trade_step svc e = on_signal_message sig svc" by blast
    then show ?thesis
      by (intro exI [of _ "[Signal_event (sg_signal_id sig) (sg_timestamp sig) (sg_strategy_id sig) (sg_symbol sig)
        (sg_side sig) (sg_strength sig) (sg_mid_price_at_signal sig)]"]) (simp add: on_signal_message_def)
  qed (auto intro: exI [of _ "[]"])
qed

lemma fill_step:
  assumes "pt_running svc" and "fill_value (env, msg) = Some (Document (fill_to_json f))"
  shows "post_trade_step svc (env, msg) = on_fill env f svc"
  using assms by (cases msg) (auto simp: post_trade_step_def split: if_splits)

lemma fills_booked:
  "fills_in msgs = fill_docs fs \<Longrightarrow> pt_running (foldl post_trade_step svc msgs) \<Longrightarrow>
   \<exists>evs. pt_state (foldl post_trade_step svc msgs) = foldl state_step (pt_state svc) evs \<and> fills_of evs = map record_of_fill fs"
proof (induction msgs arbitrary: svc fs)
  case Nil
  then show ?case by (auto simp: fills_in_def fill_docs_def map_filter_simps intro: exI [of _ "[]"])
next
  case (Cons e msgs)
  have run: "pt_running svc" using Cons.prems(2) stopped_stays by metis
  show ?case
  proof (cases "fill_value e")
    case None
    obtain evs where evs: "pt_state (post_trade_step svc e) = foldl state_step (pt_state svc) evs" "fills_of evs = []"
      using message_reaches_store [OF run None] by blast
    obtain evs' where "pt_state (foldl post_trade_step (post_trade_step svc e) msgs) =
        foldl state_step (pt_state (post_trade_step svc e)) evs'" "fills_of evs' = map record_of_fill fs"
      using Cons.IH [of fs "post_trade_step svc e"] Cons.prems None by (auto simp: fills_in_def map_filter_simps)
    with evs show ?thesis by (intro exI [of _ "evs @ evs'"]) simp
  next
    case (Some v)
    then obtain f gs where fs: "fs = f # gs" "v = Document (fill_to_json f)" "fills_in msgs = fill_docs gs"
      using Cons.prems(1) by (auto simp: fills_in_def fill_docs_def map_filter_simps Cons_eq_map_conv)
    obtain env msg where e: "e = (env, msg)" by (cases e)
    have step: "post_trade_step svc e = on_fill env f svc" using fill_step run Some fs(2) unfolding e by simp
    obtain evs where "pt_state (foldl post_trade_step (post_trade_step svc e) msgs) =
        foldl state_step (pt_state (post_trade_step svc e)) evs" "fills_of evs = map record_of_fill gs"
      using Cons.IH [OF fs(3), of "post_trade_step svc e"] Cons.prems(2) by auto
    then show ?thesis by (intro exI [of _ "Fill_event (record_of_fill f) # evs"]) (simp add: step fs(1))
  qed
qed

lemma net_of_fills:
  "list_all2 fill_for rds fs \<Longrightarrow>
   net_quantity (map fill_of (filter (\<lambda>g. fr_symbol g = s) (map record_of_fill fs))) = net_ordered s rds"
  by (induction rule: list_all2_induct)
     (simp_all add: net_quantity_def net_ordered_def fill_for_def record_of_fill_def fill_of_def)

lemma fill_symbols: "list_all2 fill_for rds fs \<Longrightarrow> fl_symbol ` set fs = or_symbol ` set rds"
  by (induction rule: list_all2_induct) (simp_all add: fill_for_def)

lemma portfolio_symbols:
  "fst ` set (st_portfolio (foldl state_step (state_init e) evs)) = fr_symbol ` set (fills_of evs)"
proof -
  have "s \<in> fst ` set (st_portfolio (foldl state_step (state_init e) evs)) \<longleftrightarrow> s \<in> fr_symbol ` set (fills_of evs)" for s
    using portfolio_fold [of e evs s] map_of_eq_None_iff [of "st_portfolio (foldl state_step (state_init e) evs)" s]
    by (auto simp: filter_empty_conv split: if_splits)
  then show ?thesis by blast
qed

section \<open>From signals to orders\<close>

fun signal_in :: "gateway_event \<Rightarrow> signal list" where
  \<comment> \<open>the signal that an event of the gateway brings, if any\<close>
  "signal_in (Signal_iteration env (Some m)) =
     (if km_error m \<noteq> None then []
      else case ebind (loads (km_value m)) (signal_from_json (ge_uid env 0)) of Inl _ \<Rightarrow> [] | Inr sig \<Rightarrow> [sig])"
| "signal_in _ = []"

definition signals_in :: "gateway_event list \<Rightarrow> signal list" where
  "signals_in gevs = concat (map signal_in gevs)"

definition order_key :: "order \<Rightarrow> string \<times> string \<times> string \<times> string" where
  "order_key rd = (or_signal_id rd, or_strategy_id rd, or_symbol rd, or_side rd)"

definition signal_key :: "signal \<Rightarrow> string \<times> string \<times> string \<times> string" where
  "signal_key sig = (sg_signal_id sig, sg_strategy_id sig, sg_symbol sig, sg_side sig)"

lemma signal_run_id [simp]: "rg_run_id (on_signal env sig rg) = rg_run_id rg"
  by (cases rule: on_signal_cases [of env rg sig])
     (simp_all add: block_signal_def approve_signal_def reject_signal_def Let_def)

lemma on_signal_orders:
  "\<exists>rds. orders_sent (on_signal env sig rg) = orders_sent rg @ order_docs rds \<and> subseq (map order_key rds) [signal_key sig]"
proof (cases rule: on_signal_cases [of env rg sig])
  case (decided cb st d rg1)
  show ?thesis
  proof (cases "rd_decision d = ''APPROVED''")
    case True
    have "order_key (order_of_signal env (rg_backtest_id rg1) sig d) = signal_key sig"
      by (simp add: order_key_def signal_key_def order_of_signal_def split: prod.split)
    with True show ?thesis
      by (intro exI [of _ "[order_of_signal env (rg_backtest_id rg1) sig d]"]) (simp add: decided(4,5) order_docs_def)
  qed (auto simp: decided(4,5) order_docs_def)
qed (auto simp: order_docs_def)

lemma gateway_step_orders:
  "\<exists>rds. orders_sent (gateway_run_step rg e) = orders_sent rg @ order_docs rds \<and>
    subseq (map order_key rds) (map signal_key (signal_in e)) \<and> rg_run_id (gateway_run_step rg e) = rg_run_id rg"
proof (cases "\<exists>env sig. signal_in e = [sig] \<and> gateway_run_step rg e = on_signal env sig rg")
  case True
  then obtain env sig where "signal_in e = [sig]" "gateway_run_step rg e = on_signal env sig rg" by blast
  with on_signal_orders [of env sig rg] show ?thesis by auto
next
  case False
  have "orders_sent (gateway_run_step rg e) = orders_sent rg \<and> rg_run_id (gateway_run_step rg e) = rg_run_id rg"
  proof (cases e)
    case (Signal_iteration env msg)
    with False have "gateway_run_step rg e = rg" by (auto simp: gateway_step_def split: option.splits sum.splits if_splits)
    then show ?thesis by simp
  qed (simp_all add: trip_breaker_def reset_breaker_def gateway_heartbeat_def gateway_audit_def split: sum.split prod.split)
  then show ?thesis by (intro exI [of _ "[]"]) (simp add: order_docs_def)
qed

lemma gateway_run_orders:
  "\<exists>rds. orders_sent (foldl gateway_run_step rg gevs) = orders_sent rg @ order_docs rds \<and>
    subseq (map order_key rds) (map signal_key (signals_in gevs)) \<and> rg_run_id (foldl gateway_run_step rg gevs) = rg_run_id rg"
proof (induction gevs arbitrary: rg)
  case (Cons e gevs)
  obtain rds where "orders_sent (gateway_run_step rg e) = orders_sent rg @ order_docs rds"
      "subseq (map order_key rds) (map signal_key (signal_in e))" "rg_run_id (gateway_run_step rg e) = rg_run_id rg"
    using gateway_step_orders by blast
  moreover obtain rds' where "orders_sent (foldl gateway_run_step (gateway_run_step rg e) gevs) = orders_sent (gateway_run_step rg e) @ order_docs rds'"
      "subseq (map order_key rds') (map signal_key (signals_in gevs))"
      "rg_run_id (foldl gateway_run_step (gateway_run_step rg e) gevs) = rg_run_id (gateway_run_step rg e)"
    using Cons by blast
  ultimately show ?case
    by (intro exI [of _ "rds @ rds'"]) (simp add: order_docs_def signals_in_def list_emb_append_mono)
qed (auto simp: order_docs_def signals_in_def)

lemma run_ids:
  "rg_run_id (gateway_init b lms) = pt_run_id (post_trade_init b)"
  "pt_run_id (foldl post_trade_step svc msgs) = pt_run_id svc"
proof -
  have "pt_run_id (post_trade_step svc e) = pt_run_id svc" for svc e
    by (auto simp: post_trade_step_def on_signal_message_def split: prod.split option.split sum.split)
  then show "pt_run_id (foldl post_trade_step svc msgs) = pt_run_id svc"
    by (induction msgs arbitrary: svc) simp_all
qed (simp add: gateway_init_def post_trade_init_def Let_def)

lemma gateway_orders:
  obtains rds where "orders_sent (foldl gateway_run_step (gateway_init b lms) gevs) = order_docs rds"
    "subseq (map order_key rds) (map signal_key (signals_in gevs))"
    "rg_run_id (foldl gateway_run_step (gateway_init b lms) gevs) = pt_run_id (post_trade_init b)"
  using gateway_run_orders [of "gateway_init b lms" gevs] by (auto simp: run_ids)

end
