(* ===== verification/History.thy ===== *)
theory History
  imports Storage_Service Replay "HOL-Library.Multiset"
begin

text \<open>
  Storage and replay over one database: the queries of \<open>backtest_svc/replay.py\<close> on the rows that the
  batch writer stored, with the column types of \<open>scripts/init_db.sql\<close>. The order the database gives rows
  of one time, and the parsing of the two times of a configuration, are arguments.
\<close>

section \<open>The tables\<close>

definition decimal8 :: "real \<Rightarrow> real" where
  \<comment> \<open>a column \<open>DECIMAL(18,8)\<close>: eight decimals, halves away from zero\<close>
  "decimal8 x = sgn x * of_int \<lfloor>\<bar>x\<bar> * 10 ^ 8 + 1 / 2\<rfloor> / 10 ^ 8"

definition decimal_fits :: "real \<Rightarrow> bool" where
  "decimal_fits x \<longleftrightarrow> \<bar>decimal8 x\<bar> < 10 ^ 10"

definition hex_digit :: "char \<Rightarrow> bool" where
  "hex_digit c \<longleftrightarrow> c \<in> set ''0123456789abcdefABCDEF''"

definition uuid_text :: "string \<Rightarrow> bool" where
  \<comment> \<open>a text that a column \<open>UUID\<close> takes: 32 hexadecimal digits, dashes aside\<close>
  "uuid_text s \<longleftrightarrow> (let ds = filter (\<lambda>c. c \<noteq> CHR ''-'') s in length ds = 32 \<and> list_all hex_digit ds)"

definition run_id_fits :: "string option \<Rightarrow> bool" where
  "run_id_fits b \<longleftrightarrow> (case b of None \<Rightarrow> True | Some s \<Rightarrow> uuid_text s)"

definition trade_fits :: "pending_trade \<Rightarrow> bool" where
  "trade_fits p \<longleftrightarrow> length (pt_symbol p) \<le> 20 \<and> - (2 ^ 63) \<le> pt_trade_id p \<and> pt_trade_id p < 2 ^ 63 \<and>
     decimal_fits (pt_price p) \<and> decimal_fits (pt_quantity p) \<and>
     (case pt_ingestion_latency_us p of None \<Rightarrow> True | Some l \<Rightarrow> - (2 ^ 31) \<le> l \<and> l < 2 ^ 31) \<and>
     run_id_fits (pt_backtest_id p)"

definition book_fits :: "pending_book \<Rightarrow> bool" where
  "book_fits b \<longleftrightarrow> length (pb_symbol b) \<le> 20 \<and>
     list_all decimal_fits (pb_bid_prices b @ pb_bid_sizes b @ pb_ask_prices b @ pb_ask_sizes b @ [pb_spread b, pb_mid_price b]) \<and>
     run_id_fits (pb_backtest_id b)"

definition enforces_schema :: "db_answers \<Rightarrow> batch_writer \<Rightarrow> bool" where
  \<comment> \<open>a database that refuses a batch with a value its column does not take\<close>
  "enforces_schema db w \<longleftrightarrow> db_acquire db = None \<and>
     (list_all trade_fits (bw_trade_buffer w) \<or> db_copy_trades db \<noteq> None) \<and>
     (list_all book_fits (bw_book_buffer w) \<or> db_copy_books db \<noteq> None)"

section \<open>The queries\<close>

definition selected :: "backtest_config \<Rightarrow> int \<Rightarrow> int \<Rightarrow> string \<Rightarrow> int \<Rightarrow> string option \<Rightarrow> bool" where
  \<comment> \<open>the \<open>WHERE\<close> clause of both queries\<close>
  "selected config start stop symbol time backtest_id \<longleftrightarrow>
     symbol = bc_symbol config \<and> start \<le> time \<and> time < stop \<and> backtest_id = None"

definition trade_columns :: "pending_trade \<Rightarrow> db_row" where
  "trade_columns p =
     [(''timestamp_exchange'', JNum (of_int (pt_time p))), (''symbol'', JStr (pt_symbol p)), (''trade_id'', JInt (pt_trade_id p)),
      (''price'', JNum (decimal8 (pt_price p))), (''quantity'', JNum (decimal8 (pt_quantity p))),
      (''is_buyer_maker'', JBool (pt_is_buyer_maker p))]"

definition fetch_trades :: "(string \<Rightarrow> py_error + int) \<Rightarrow> py_error option \<Rightarrow> (pending_trade list \<Rightarrow> pending_trade list) \<Rightarrow>
    pending_trade list \<Rightarrow> backtest_config \<Rightarrow> py_error + db_row list" where
  "fetch_trades ptime db_error arrange db_rows config =
     ebind (ptime (bc_start_time config)) (\<lambda>start. ebind (ptime (bc_end_time config)) (\<lambda>stop.
     case db_error of Some e \<Rightarrow> Inl e
     | None \<Rightarrow> Inr (map trade_columns (arrange (filter (\<lambda>p.
         selected config start stop (pt_symbol p) (pt_time p) (pt_backtest_id p)) db_rows)))))"

definition depth_columns :: "pending_book \<Rightarrow> db_row" where
  "depth_columns b =
     [(''timestamp_exchange'', JNum (of_int (pb_time b))), (''symbol'', JStr (pb_symbol b)),
      (''bid_prices'', JList (map (JNum \<circ> decimal8) (pb_bid_prices b))), (''bid_sizes'', JList (map (JNum \<circ> decimal8) (pb_bid_sizes b))),
      (''ask_prices'', JList (map (JNum \<circ> decimal8) (pb_ask_prices b))), (''ask_sizes'', JList (map (JNum \<circ> decimal8) (pb_ask_sizes b)))]"

definition fetch_depth :: "(string \<Rightarrow> py_error + int) \<Rightarrow> py_error option \<Rightarrow> (pending_book list \<Rightarrow> pending_book list) \<Rightarrow>
    pending_book list \<Rightarrow> backtest_config \<Rightarrow> py_error + db_row list" where
  "fetch_depth ptime db_error arrange db_rows config =
     ebind (ptime (bc_start_time config)) (\<lambda>start. ebind (ptime (bc_end_time config)) (\<lambda>stop.
     case db_error of Some e \<Rightarrow> Inl e
     | None \<Rightarrow> Inr (map depth_columns (arrange (filter (\<lambda>b.
         selected config start stop (pb_symbol b) (pb_time b) (pb_backtest_id b)) db_rows)))))"

definition by_time :: "('r \<Rightarrow> int) \<Rightarrow> ('r list \<Rightarrow> 'r list) \<Rightarrow> bool" where
  \<comment> \<open>what \<open>ORDER BY time ASC\<close> promises; rows of one time come in any order\<close>
  "by_time time arrange \<longleftrightarrow> (\<forall>rs. mset (arrange rs) = mset rs \<and> sorted (map time (arrange rs)))"

section \<open>From rows to messages\<close>

lemma decimal8_exact:
  assumes "x * 10 ^ 8 = of_int k"
  shows "decimal8 x = x"
proof -
  have "\<bar>x\<bar> * 10 ^ 8 = of_int \<bar>k\<bar>" using assms by (simp add: abs_mult flip: of_int_abs)
  then have "\<lfloor>\<bar>x\<bar> * 10 ^ 8 + 1 / 2\<rfloor> = \<bar>k\<bar>" by linarith
  then have "decimal8 x = sgn x * (\<bar>x\<bar> * 10 ^ 8) / 10 ^ 8" using \<open>\<bar>x\<bar> * 10 ^ 8 = of_int \<bar>k\<bar>\<close> by (simp add: decimal8_def)
  then show ?thesis by (simp add: sgn_mult_abs)
qed

definition stored_trade :: "pending_trade \<Rightarrow> trade" where
  "stored_trade p = trade_default\<lparr>tr_symbol := pt_symbol p, tr_trade_id := pt_trade_id p, tr_price := decimal8 (pt_price p),
     tr_quantity := decimal8 (pt_quantity p), tr_timestamp_exchange := pt_time p, tr_is_buyer_maker := pt_is_buyer_maker p\<rparr>"

definition stored_depth :: "pending_book \<Rightarrow> depth_update" where
  "stored_depth b = depth_default\<lparr>dp_symbol := pb_symbol b, dp_timestamp_exchange := pb_time b,
     dp_bids := zip (map decimal8 (pb_bid_prices b)) (map decimal8 (pb_bid_sizes b)),
     dp_asks := zip (map decimal8 (pb_ask_prices b)) (map decimal8 (pb_ask_sizes b))\<rparr>"

definition level_lists :: "pending_book \<Rightarrow> bool" where
  "level_lists b \<longleftrightarrow> length (pb_bid_prices b) = length (pb_bid_sizes b) \<and> length (pb_ask_prices b) = length (pb_ask_sizes b)"

lemma trade_columns_row: "trade_columns p = db_trade_row (stored_trade p)"
  by (simp add: trade_columns_def db_trade_row_def stored_trade_def)

lemma depth_columns_row: "level_lists b \<Longrightarrow> depth_columns b = db_depth_row (stored_depth b)"
  by (simp add: depth_columns_def db_depth_row_def stored_depth_def level_lists_def flip: map_map)

text \<open>The live trades of a stream of messages, and the row of each.\<close>

definition live_trade :: "unpacked \<Rightarrow> trade option" where
  "live_trade = (\<lambda>(topic, _, value, hdrs).
     if topic = topic_raw_trades \<and> map_of hdrs ''backtest_id'' = None
     then (case ebind (loads value) trade_from_json of Inl _ \<Rightarrow> None
       | Inr t \<Rightarrow> (case utc_time (tr_timestamp_exchange t) of Inl _ \<Rightarrow> None | Inr _ \<Rightarrow> Some t))
     else None)"

definition live_trades :: "unpacked list \<Rightarrow> trade list" where
  "live_trades msgs = List.map_filter live_trade msgs"

definition column_rounded :: "trade \<Rightarrow> trade" where
  "column_rounded t = t\<lparr>tr_price := decimal8 (tr_price t), tr_quantity := decimal8 (tr_quantity t)\<rparr>"

lemma utc_time_Inr: "utc_time n = Inr m \<Longrightarrow> m = n"
  by (simp add: utc_time_def split: if_splits)

lemma untagged_rows:
  "map (replayed_trade \<circ> stored_trade) (filter (\<lambda>p. pt_backtest_id p = None \<and> P (pt_symbol p) (pt_time p)) (List.map_filter trade_row_of msgs)) =
   map (replayed_trade \<circ> column_rounded) (filter (\<lambda>t. P (tr_symbol t) (tr_timestamp_exchange t)) (live_trades msgs))"
proof (induction msgs)
  case (Cons m msgs)
  obtain topic k v hdrs where m: "m = (topic, k, v, hdrs)" by (cases m)
  show ?case
  proof (cases "topic = topic_raw_trades \<and> (\<exists>t ts. ebind (loads v) trade_from_json = Inr t \<and> utc_time (tr_timestamp_exchange t) = Inr ts)")
    case True
    then obtain t where t: "ebind (loads v) trade_from_json = Inr t" "utc_time (tr_timestamp_exchange t) = Inr (tr_timestamp_exchange t)"
      using utc_time_Inr by metis
    have row: "trade_row v b = Inr p \<Longrightarrow> pt_backtest_id p = b \<and> pt_symbol p = tr_symbol t \<and> pt_time p = tr_timestamp_exchange t \<and>
        replayed_trade (stored_trade p) = replayed_trade (column_rounded t)" for b p
      using t by (auto simp: trade_row_def stored_trade_def column_rounded_def replayed_trade_def trade_default_def)
    obtain p where p: "trade_row v (map_of hdrs ''backtest_id'') = Inr p" using t by (simp add: trade_row_def)
    then show ?thesis using row [OF p] Cons True t
      by (simp add: m live_trades_def trade_row_of_def live_trade_def List.map_filter_simps)
  next
    case False
    then have "trade_row_of m = None" "live_trade m = None"
      by (auto simp: m trade_row_of_def live_trade_def trade_row_def ebind_eq_Inr split: sum.splits)
    with Cons show ?thesis by (simp add: live_trades_def List.map_filter_simps)
  qed
qed (simp add: live_trades_def List.map_filter_simps)

lemma book_row_levels: "book_row d b = Some x \<Longrightarrow> level_lists x"
  by (auto simp: book_row_def level_lists_def Let_def split: if_splits sum.splits)

lemma stored_levels:
  assumes "b \<in> set (snapshots ds)"
  shows "level_lists b"
proof -
  obtain i where "snapshot_at ds i = Some b" using assms by (auto simp: snapshots_def List.map_filter_def)
  then have "book_row (fst (ds ! i)) (snd (ds ! i)) = Some b" by (simp add: snapshot_at_def case_prod_unfold Let_def split: if_splits)
  then show ?thesis by (rule book_row_levels)
qed

section \<open>What was live is replayed\<close>

lemma stream_values:
  "map (\<lambda>r. (kr_topic r, kr_key r, ebind (loads (kr_value r)) decode)) recs = map (\<lambda>m. (topic, Some (symbol m), Inr (replayed m))) ms \<Longrightarrow>
   map (\<lambda>v. ebind (loads v) decode) (map kr_value recs) = map (Inr \<circ> replayed) ms \<and>
   filter (\<lambda>r. kr_topic r = topic') recs = (if topic = topic' then recs else [])"
proof (induction recs arbitrary: ms)
  case (Cons r recs)
  then obtain m rest where "ms = m # rest" by (cases ms) auto
  with Cons show ?case by auto
qed simp

lemma replay_sends:
  assumes "speed_ok config" "bc_include_depth config"
    and "sorted (map tr_timestamp_exchange ts)" "sorted (map dp_timestamp_exchange ds)"
  shows "\<exists>eng. replay_run config (Inr (map db_trade_row ts)) (Inr (map db_depth_row ds)) elapsed (engine_init p config) = (None, eng) \<and>
    map (\<lambda>v. ebind (loads v) trade_from_json) (sent_on topic_raw_trades (re_producer eng)) =
      map (\<lambda>v. ebind (loads v) trade_from_json) (sent_on topic_raw_trades p) @ map (Inr \<circ> replayed_trade) ts \<and>
    map (\<lambda>v. ebind (loads v) depth_from_json) (sent_on topic_raw_depth (re_producer eng)) =
      map (\<lambda>v. ebind (loads v) depth_from_json) (sent_on topic_raw_depth p) @ map (Inr \<circ> replayed_depth) ds"
proof -
  from trades.pass_spec [OF assms(1,3), of "engine_init p config"] obtain eng1 recs1 where
    t: "replay_pass config (Inr (map db_trade_row ts)) ''raw.trades'' (engine_init p config) = (Inr (length ts), eng1)"
      "re_stats eng1 = re_stats (engine_init p config)" "qp_sent (re_producer eng1) = qp_sent p @ recs1"
      "list_all2 (trades.record_of p) ts recs1"
    by (auto simp: engine_init_def)
  let ?eng = "eng1\<lparr>re_stats := (re_stats eng1)\<lparr>rs_trades_replayed := length ts\<rparr>\<rparr>"
  from depths.pass_spec [OF assms(1,4), of ?eng] obtain eng2 recs2 where
    d: "replay_pass config (Inr (map db_depth_row ds)) ''raw.depth'' ?eng = (Inr (length ds), eng2)"
      "re_stats eng2 = re_stats ?eng" "qp_sent (re_producer eng2) = qp_sent p @ recs1 @ recs2"
      "list_all2 (depths.record_of (re_producer ?eng)) ds recs2"
    by (auto simp: t(3))
  have span: "data_span (map db_trade_row ts) = Inr (of_int (trades.span_of ts) / 1000)"
    by (simp add: data_span_def trades.span_of_def hd_map last_map) (simp add: db_trade_row_def subscript_def)
  obtain eng3 where eng3: "finish_replay elapsed (map db_trade_row ts) (eng2\<lparr>re_stats := (re_stats eng2)\<lparr>rs_depth_updates_replayed := length ds\<rparr>\<rparr>) = (None, eng3)"
    "re_producer eng3 = re_producer eng2"
    using finish_replay_spec [OF span, of "eng2\<lparr>re_stats := (re_stats eng2)\<lparr>rs_depth_updates_replayed := length ds\<rparr>\<rparr>" elapsed]
      d(2) t(2) by (auto simp: engine_init_def)
  have run: "replay_run config (Inr (map db_trade_row ts)) (Inr (map db_depth_row ds)) elapsed (engine_init p config) = (None, eng3)"
    using assms(2) by (simp add: replay_run_def t(1) d(1) eng3(1))
  note ds = stream_values [OF trades.records_decoded [OF t(4)]] stream_values [OF depths.records_decoded [OF d(4)]]
  have "sent_on topic_raw_trades (re_producer eng3) = sent_on topic_raw_trades p @ map kr_value recs1"
    "sent_on topic_raw_depth (re_producer eng3) = sent_on topic_raw_depth p @ map kr_value recs2"
    using ds by (simp_all add: eng3(2) d(3) sent_on_def topic_raw_trades_def topic_raw_depth_def)
  with ds show ?thesis using run by (intro exI [of _ eng3]) simp
qed

text \<open>
  C26. Market data survives storage and replay: when the storage service has run on any stream of
  messages with a database that accepts its rows, and its trades are written out, a replay of a
  period publishes exactly the well-formed live trades of its symbol in that period, in the order of
  time, equal but for the rounding to eight decimals and the fields that are not stored; no trade
  of another backtest is among them. The depth it replays is that of the stored snapshots.
\<close>

theorem live_history_replays:
  fixes rounds :: "storage_round list" and batch_size batch_timeout :: int and now :: real and config :: backtest_config
  defines "sv \<equiv> foldl storage_step (storage_init batch_size batch_timeout now) rounds"
  defines "trades_in \<equiv> \<lambda>start stop. filter (\<lambda>t. tr_symbol t = bc_symbol config \<and> start \<le> tr_timestamp_exchange t \<and>
      tr_timestamp_exchange t < stop) (live_trades (polled rounds))"
    and "books_in \<equiv> \<lambda>start stop. filter (\<lambda>b. selected config start stop (pb_symbol b) (pb_time b) (pb_backtest_id b)) (bw_db_books (ss_writer sv))"
  assumes "list_all (\<lambda>r. sr_db r = db_ok \<and> sr_final_db r = db_ok) rounds" and "bw_trade_buffer (ss_writer sv) = []"
    and "ptime (bc_start_time config) = Inr start" and "ptime (bc_end_time config) = Inr stop"
    and "by_time pt_time arrange" and "by_time pb_time arrange_books"
    and "speed_ok config" and "bc_include_depth config"
  shows "\<exists>eng ts ds. replay_run config (fetch_trades ptime None arrange (bw_db_trades (ss_writer sv)) config)
      (fetch_depth ptime None arrange_books (bw_db_books (ss_writer sv)) config) elapsed (engine_init p config) = (None, eng) \<and>
    map (\<lambda>v. ebind (loads v) trade_from_json) (sent_on topic_raw_trades (re_producer eng)) =
      map (\<lambda>v. ebind (loads v) trade_from_json) (sent_on topic_raw_trades p) @ map Inr ts \<and>
    map (\<lambda>v. ebind (loads v) depth_from_json) (sent_on topic_raw_depth (re_producer eng)) =
      map (\<lambda>v. ebind (loads v) depth_from_json) (sent_on topic_raw_depth p) @ map Inr ds \<and>
    sorted (map tr_timestamp_exchange ts) \<and> mset ts = mset (map (replayed_trade \<circ> column_rounded) (trades_in start stop)) \<and>
    sorted (map dp_timestamp_exchange ds) \<and> mset ds = mset (map (replayed_depth \<circ> stored_depth) (books_in start stop))"
proof -
  have "storage_inv [] (storage_init batch_size batch_timeout now)"
    by (simp add: storage_inv_def storage_init_def writer_init_def trades_kept_def books_kept_def snapshots_def
        List.map_filter_simps updates_of_def)
  from storage_rounds [OF this _ assms(4)] have "storage_inv (polled rounds) sv"
    by (simp add: sv_def storage_init_def storage_good_def)
  then have table: "bw_db_trades (ss_writer sv) = List.map_filter trade_row_of (polled rounds)"
    and "bw_db_books (ss_writer sv) @ bw_book_buffer (ss_writer sv) = snapshots (List.map_filter depth_of (polled rounds))"
    using assms(5) by (simp_all add: storage_inv_def Let_def trades_kept_def books_kept_def)
  then have books: "set (bw_db_books (ss_writer sv)) \<subseteq> set (snapshots (List.map_filter depth_of (polled rounds)))"
    by (metis Un_upper1 set_append)
  define rows where "rows = arrange (filter (\<lambda>p. selected config start stop (pt_symbol p) (pt_time p) (pt_backtest_id p)) (bw_db_trades (ss_writer sv)))"
  define brows where "brows = arrange_books (books_in start stop)"
  have "set brows \<subseteq> set (bw_db_books (ss_writer sv))"
    using assms(9) mset_eq_setD [of brows "books_in start stop"] by (auto simp: brows_def books_in_def by_time_def)
  then have "map depth_columns brows = map (db_depth_row \<circ> stored_depth) brows"
    using books stored_levels depth_columns_row by fastforce
  then have fetched: "fetch_trades ptime None arrange (bw_db_trades (ss_writer sv)) config = Inr (map db_trade_row (map stored_trade rows))"
    "fetch_depth ptime None arrange_books (bw_db_books (ss_writer sv)) config = Inr (map db_depth_row (map stored_depth brows))"
    using assms(6,7) by (simp_all add: fetch_trades_def fetch_depth_def rows_def brows_def books_in_def trade_columns_row)
  have times: "map tr_timestamp_exchange (map stored_trade rows) = map pt_time rows"
    "map dp_timestamp_exchange (map stored_depth brows) = map pb_time brows"
    by (simp_all add: stored_trade_def stored_depth_def o_def)
  then have sorted: "sorted (map tr_timestamp_exchange (map stored_trade rows))" "sorted (map dp_timestamp_exchange (map stored_depth brows))"
    using assms(8,9) unfolding times by (simp_all add: by_time_def rows_def brows_def)
  obtain eng where run: "replay_run config (Inr (map db_trade_row (map stored_trade rows))) (Inr (map db_depth_row (map stored_depth brows)))
      elapsed (engine_init p config) = (None, eng)"
    and sent: "map (\<lambda>v. ebind (loads v) trade_from_json) (sent_on topic_raw_trades (re_producer eng)) =
      map (\<lambda>v. ebind (loads v) trade_from_json) (sent_on topic_raw_trades p) @ map (Inr \<circ> replayed_trade) (map stored_trade rows)"
    "map (\<lambda>v. ebind (loads v) depth_from_json) (sent_on topic_raw_depth (re_producer eng)) =
      map (\<lambda>v. ebind (loads v) depth_from_json) (sent_on topic_raw_depth p) @ map (Inr \<circ> replayed_depth) (map stored_depth brows)"
    using replay_sends [OF assms(10,11) sorted] by blast
  have "mset (map (replayed_trade \<circ> stored_trade) rows) =
      mset (map (replayed_trade \<circ> stored_trade) (filter (\<lambda>p. pt_backtest_id p = None \<and>
        (pt_symbol p = bc_symbol config \<and> start \<le> pt_time p \<and> pt_time p < stop)) (List.map_filter trade_row_of (polled rounds))))"
    using assms(8) by (simp add: by_time_def rows_def table selected_def conj_ac)
  also have "\<dots> = mset (map (replayed_trade \<circ> column_rounded) (trades_in start stop))"
    unfolding untagged_rows [where P = "\<lambda>s t. s = bc_symbol config \<and> start \<le> t \<and> t < stop"] trades_in_def ..
  finally have "mset (map (replayed_trade \<circ> stored_trade) rows) = mset (map (replayed_trade \<circ> column_rounded) (trades_in start stop))" .
  moreover have "mset (map (replayed_depth \<circ> stored_depth) brows) = mset (map (replayed_depth \<circ> stored_depth) (books_in start stop))"
    using assms(9) by (simp add: by_time_def brows_def)
  moreover have "tr_timestamp_exchange \<circ> replayed_trade = tr_timestamp_exchange" "dp_timestamp_exchange \<circ> replayed_depth = dp_timestamp_exchange"
    by (simp_all add: fun_eq_iff replayed_trade_def replayed_depth_def)
  ultimately show ?thesis
    using run sent sorted unfolding fetched
    by (intro exI [of _ eng] exI [of _ "map (replayed_trade \<circ> stored_trade) rows"] exI [of _ "map (replayed_depth \<circ> stored_depth) brows"])
       (simp add: o_assoc)
qed

definition sample_stored :: trade where
  "sample_stored = trade_default\<lparr>tr_symbol := ''BTCUSD'', tr_price := 100\<rparr>"

lemma sample_poll:
  "km_error m = None \<Longrightarrow> poll_messages 500 [Some m] = (Inr [unpack m], [])" "poll_messages 500 [] = (Inr [], [])"
  by (simp_all add: poll_messages_def numeral_eq_Suc)

lemma sample_polled: "live_trades (polled sample_rounds) = [sample_stored]"
  by (simp add: sample_rounds_def sample_poll live_trades_def live_trade_def unpack_def sample_stored_def utc_time_def
      List.map_filter_simps trade_default_def)

lemma sample_written: "bw_trade_buffer (ss_writer (foldl storage_step (storage_init 1000 1000 0) sample_rounds)) = []"
  by (simp add: sample_rounds_def sample_poll storage_step_def process_batch_def storage_init_def writer_init_def unpack_def
      handle_message_def handle_trade_def trade_row_def utc_time_def trade_default_def should_flush_def add_trade_def
      flush_def db_ok_def write_trades_def write_books_def Let_def)

lemma live_history_replays_witness:
  "\<exists>eng ts. replay_run sample_replay
      (fetch_trades (\<lambda>s. Inr (if s = ''2026-03-21'' then 0 else 1000)) None (sort_key pt_time)
        (bw_db_trades (ss_writer (foldl storage_step (storage_init 1000 1000 0) sample_rounds))) sample_replay)
      (fetch_depth (\<lambda>s. Inr (if s = ''2026-03-21'' then 0 else 1000)) None (sort_key pb_time)
        (bw_db_books (ss_writer (foldl storage_step (storage_init 1000 1000 0) sample_rounds))) sample_replay)
      1 (engine_init (producer_init None) sample_replay) = (None, eng) \<and>
    map (\<lambda>v. ebind (loads v) trade_from_json) (sent_on topic_raw_trades (re_producer eng)) = map Inr ts \<and>
    ts = [replayed_trade (column_rounded sample_stored)]"
proof -
  have ok: "list_all (\<lambda>r. sr_db r = db_ok \<and> sr_final_db r = db_ok) sample_rounds" by (simp add: sample_rounds_def)
  have times: "(\<lambda>s. Inr (if s = ''2026-03-21'' then 0 else 1000) :: py_error + int) (bc_start_time sample_replay) = Inr 0"
    "(\<lambda>s. Inr (if s = ''2026-03-21'' then 0 else 1000) :: py_error + int) (bc_end_time sample_replay) = Inr 1000"
    by (simp_all add: sample_replay_def)
  have orders: "by_time pt_time (sort_key pt_time)" "by_time pb_time (sort_key pb_time)" by (simp_all add: by_time_def)
  have config: "speed_ok sample_replay" "bc_include_depth sample_replay" by (simp_all add: sample_replay_def speed_ok_def)
  have "filter (\<lambda>t. tr_symbol t = bc_symbol sample_replay \<and> 0 \<le> tr_timestamp_exchange t \<and> tr_timestamp_exchange t < 1000)
      (live_trades (polled sample_rounds)) = [sample_stored]"
    by (simp add: sample_polled) (simp add: sample_stored_def sample_replay_def trade_default_def)
  with live_history_replays [OF ok sample_written times orders config, of 1 "producer_init None"]
  show ?thesis by (auto simp: mset_single_iff_right)
qed

section \<open>A replay and the storage service\<close>

definition delivered_record :: "kafka_record \<Rightarrow> kafka_message" where
  \<comment> \<open>a published record as its consumers get it\<close>
  "delivered_record r = \<lparr>km_error = None, km_topic = kr_topic r, km_key = kr_key r, km_value = kr_value r, km_headers = kr_headers r\<rparr>"

lemma generated_id_misfits: "\<not> uuid_text (''bt-'' @ uuid_hex)"
  by (simp add: uuid_text_def hex_digit_def Let_def)

text \<open>
  C18. A replay under a generated identifier stops the storage service: the identifier is not a text
  the \<open>UUID\<close> column of the schema takes, so as soon as a replayed trade is in the buffer, the next flush
  is refused by a database that works, the service ends, and with the replayed trade every live
  trade that was buffered beside it is lost.
\<close>

theorem replay_stops_storage:
  fixes db final :: db_answers and now :: real
  assumes "ss_running sv" and "bc_backtest_id config = []"
    and "tagged (post_init uuid_hex config) r" and "kr_topic r = topic_raw_trades"
    and "ebind (loads (kr_value r)) trade_from_json = Inr t" and "utc_time (tr_timestamp_exchange t) = Inr ts"
  defines "sv1 \<equiv> handle_message sv (unpack (delivered_record r))"
  assumes "should_flush now (ss_writer sv1)" and "enforces_schema db (ss_writer sv1)"
  defines "sv2 \<equiv> storage_step sv1 \<lparr>sr_replies = [], sr_now = now, sr_db = db, sr_final_db = final\<rparr>"
  shows "\<not> ss_running sv2 \<and> bw_trade_buffer (ss_writer sv2) = [] \<and> bw_db_trades (ss_writer sv2) = bw_db_trades (ss_writer sv) \<and>
    length (bw_trade_buffer (ss_writer sv1)) = Suc (length (bw_trade_buffer (ss_writer sv)))"
proof -
  obtain k where "unpack (delivered_record r) = (topic_raw_trades, k, kr_value r, [(''backtest_id'', ''bt-'' @ uuid_hex)])"
    using assms(2-4) by (simp add: unpack_def delivered_record_def tagged_def post_init_def dict_merge_def)
  moreover obtain p where p: "trade_row (kr_value r) (Some (''bt-'' @ uuid_hex)) = Inr p" "pt_backtest_id p = Some (''bt-'' @ uuid_hex)"
    using assms(5,6) by (simp add: trade_row_def)
  ultimately have sv1: "sv1 = sv\<lparr>ss_writer := add_trade p (ss_writer sv)\<rparr>"
    by (simp add: sv1_def handle_message_def handle_trade_def)
  have "\<not> trade_fits p" using generated_id_misfits [of uuid_hex] by (simp add: trade_fits_def run_id_fits_def p(2))
  then obtain e where "db_acquire db = None" "db_copy_trades db = Some e"
    using assms(9) by (auto simp: enforces_schema_def sv1 add_trade_def)
  then have "flush now db (ss_writer sv1) = (Some e,
      (ss_writer sv1)\<lparr>bw_trade_buffer := [], bw_book_buffer := [], bw_last_flush := now\<rparr>)"
    by (simp add: flush_def write_trades_def sv1 add_trade_def Let_def)
  then have "sv2 = shut_down now final (sv1\<lparr>ss_writer := (ss_writer sv1)\<lparr>bw_trade_buffer := [], bw_book_buffer := [], bw_last_flush := now\<rparr>\<rparr>)"
    using assms(1,8) by (simp add: sv2_def storage_step_def process_batch_def poll_messages_def sv1)
  then show ?thesis by (simp add: shut_down_def flush_def sv1 add_trade_def Let_def)
qed

definition sample_replayed :: kafka_record where
  "sample_replayed = \<lparr>kr_topic = topic_raw_trades, kr_value = Document (trade_to_json sample_stored), kr_key = Some ''BTCUSD'',
     kr_headers = Some [(''backtest_id'', ''bt-0123456789ab'')]\<rparr>"

lemma replay_stops_storage_witness:
  "\<not> ss_running (storage_step (handle_message (storage_init 1 1000 0) (unpack (delivered_record sample_replayed)))
     \<lparr>sr_replies = [], sr_now = 1, sr_db = db_ok\<lparr>db_copy_trades := Some (ExternalError ''DataError'')\<rparr>, sr_final_db = db_ok\<rparr>)"
proof -
  let ?config = "sample_replay\<lparr>bc_backtest_id := []\<rparr>"
  let ?sv = "handle_message (storage_init 1 1000 0) (unpack (delivered_record sample_replayed))"
  have tag: "tagged (post_init ''0123456789ab'' ?config) sample_replayed"
    by (simp add: tagged_def post_init_def sample_replayed_def)
  have vals: "ebind (loads (kr_value sample_replayed)) trade_from_json = Inr sample_stored" "kr_topic sample_replayed = topic_raw_trades"
    "utc_time (tr_timestamp_exchange sample_stored) = Inr 0"
    by (simp_all add: sample_replayed_def sample_stored_def trade_default_def utc_time_def)
  have flushed: "should_flush 1 (ss_writer ?sv)" and books: "bw_book_buffer (ss_writer ?sv) = []"
    using vals(3)
    by (simp_all add: unpack_def delivered_record_def sample_replayed_def handle_message_def handle_trade_def trade_row_def
        storage_init_def writer_init_def add_trade_def should_flush_def)
  have "enforces_schema (db_ok\<lparr>db_copy_trades := Some (ExternalError ''DataError'')\<rparr>) (ss_writer ?sv)"
    by (simp add: enforces_schema_def db_ok_def books)
  from replay_stops_storage [OF _ _ tag vals(2,1,3) flushed this, of db_ok] show ?thesis by (simp add: storage_init_def)
qed

end
