(* ===== verification/Log_Lines.thy ===== *)
theory Log_Lines
  imports Json_Value
begin

text \<open>
  \<open>lib/quant_core/logging.py\<close>: the JSON formatter and the set-up of the root logger, and the hash helper of
  \<open>lib/quant_core/redis_utils.py\<close>. A log record is what the \<open>logging\<close> module hands to the
  formatter: its level, logger and message, the formatted exception if there is one, and the
  attributes passed as \<open>extra\<close>.
\<close>

section \<open>The formatter\<close>

record log_record =
  lg_levelname :: string
  lg_name :: string
  lg_message :: string
  lg_exception :: "string option"
  lg_extra :: "(string, json) dict"

definition extra_keys :: "string list" where
  "extra_keys = [''symbol'', ''topic'', ''backtest_id'', ''latency_ms'', ''count'']"

fun with_extras :: "(string, json) dict \<Rightarrow> string list \<Rightarrow> (string, json) dict \<Rightarrow> (string, json) dict" where
  "with_extras extra [] entry = entry"
| "with_extras extra (k # ks) entry =
     with_extras extra ks (case map_of extra k of None \<Rightarrow> entry | Some v \<Rightarrow> AList.update k v entry)"

definition format_record :: "string \<Rightarrow> string \<Rightarrow> log_record \<Rightarrow> json" where
  \<comment> \<open>\<open>now\<close>: the time in ISO format\<close>
  "format_record service_name now r =
     (let log_entry = [(''timestamp'', JStr now), (''level'', JStr (lg_levelname r)), (''service'', JStr service_name),
            (''logger'', JStr (lg_name r)), (''message'', JStr (lg_message r))];
          log_entry1 = (case lg_exception r of None \<Rightarrow> log_entry
            | Some e \<Rightarrow> AList.update ''exception'' (JStr e) log_entry) in
      JObj (with_extras (lg_extra r) extra_keys log_entry1))"

section \<open>The root logger\<close>

record root_logger =
  rl_level :: int
  rl_handlers :: "string list"  \<comment> \<open>the service name of the formatter of each handler\<close>
  rl_levels :: "(string, int) dict"

definition log_level :: "string \<Rightarrow> py_error + int" where
  \<comment> \<open>\<open>getattr(logging, level.upper(), logging.INFO)\<close> as \<open>setLevel\<close> takes it; two attributes with
     such a name are no levels\<close>
  "log_level level =
     (let s = upper level in
      if s = ''CRITICAL'' \<or> s = ''FATAL'' then Inr 50 else if s = ''ERROR'' then Inr 40
      else if s = ''WARNING'' \<or> s = ''WARN'' then Inr 30 else if s = ''DEBUG'' then Inr 10
      else if s = ''NOTSET'' then Inr 0 else if s = ''BASIC_FORMAT'' then Inl (ValueError ''Unknown level'')
      else if s = ''_STYLES'' then Inl TypeError else Inr 20)"

definition setup_logging :: "string \<Rightarrow> string \<Rightarrow> root_logger \<Rightarrow> py_error + root_logger" where
  "setup_logging service_name level logger =
     ebind (log_level level) (\<lambda>n. Inr (logger\<lparr>rl_level := n, rl_handlers := [service_name],
       rl_levels := AList.update ''websockets'' 30 (AList.update ''confluent_kafka'' 30 (rl_levels logger))\<rparr>))"

section \<open>Hashes\<close>

datatype hash_text = Dumped json | Plain string

definition flat_value :: "(json \<Rightarrow> string) \<Rightarrow> json \<Rightarrow> hash_text" where
  \<comment> \<open>\<open>show\<close>: \<open>str\<close> of a value that is no dictionary and no list\<close>
  "flat_value show v = (case v of JObj _ \<Rightarrow> Dumped v | JList _ \<Rightarrow> Dumped v | _ \<Rightarrow> Plain (show v))"

definition async_hset_dict :: "(json \<Rightarrow> string) \<Rightarrow> string \<Rightarrow> (string, json) dict \<Rightarrow> string \<times> (string, hash_text) dict" where
  \<comment> \<open>the \<open>hset\<close> command\<close>
  "async_hset_dict show key data = (key, map (\<lambda>(k, v). (k, flat_value show v)) data)"

section \<open>What is logged\<close>

lemma map_of_extras:
  "distinct ks \<Longrightarrow> map_of (with_extras extra ks entry) k =
     (if k \<in> set ks \<and> map_of extra k \<noteq> None then map_of extra k else map_of entry k)"
  by (induction ks arbitrary: entry) (auto simp: update_conv' split: option.split)

text \<open>
  A log line says where it comes from and keeps what it was given: the five fixed fields are those of the
  record whatever attributes it carries, the exception is there when there was one, and of the
  attributes exactly the five known ones are kept, unchanged.
\<close>

theorem log_line_complete:
  "\<exists>entry. format_record service_name now r = JObj entry \<and>
    map_of entry ''service'' = Some (JStr service_name) \<and> map_of entry ''message'' = Some (JStr (lg_message r)) \<and>
    map_of entry ''level'' = Some (JStr (lg_levelname r)) \<and> map_of entry ''logger'' = Some (JStr (lg_name r)) \<and>
    map_of entry ''timestamp'' = Some (JStr now) \<and> map_of entry ''exception'' = map_option JStr (lg_exception r) \<and>
    list_all (\<lambda>k. map_of entry k = map_of (lg_extra r) k) extra_keys"
proof -
  define base where "base = [(''timestamp'', JStr now), (''level'', JStr (lg_levelname r)), (''service'', JStr service_name),
    (''logger'', JStr (lg_name r)), (''message'', JStr (lg_message r))]"
  define entry where "entry = (case lg_exception r of None \<Rightarrow> base | Some e \<Rightarrow> AList.update ''exception'' (JStr e) base)"
  have fixed_fields: "map_of entry k = (if k = ''exception'' then map_option JStr (lg_exception r) else map_of base k)" for k
    by (cases "lg_exception r") (simp_all add: entry_def update_conv' base_def)
  have "distinct extra_keys" by (simp add: extra_keys_def)
  note fields = map_of_extras [OF this, of "lg_extra r" entry]
  have "format_record service_name now r = JObj (with_extras (lg_extra r) extra_keys entry)"
    by (simp only: format_record_def Let_def entry_def base_def)
  moreover have "list_all (\<lambda>k. map_of (with_extras (lg_extra r) extra_keys entry) k = map_of (lg_extra r) k) extra_keys"
    by (simp add: fields fixed_fields) (simp add: extra_keys_def base_def)
  moreover have "map_of (with_extras (lg_extra r) extra_keys entry) k = map_of entry k" if "k \<notin> set extra_keys" for k
    using that by (simp add: fields)
  ultimately show ?thesis
    by (intro exI [of _ "with_extras (lg_extra r) extra_keys entry"]) (simp add: extra_keys_def fixed_fields base_def)
qed

text \<open>Setting up twice is setting up once: there is one handler, whatever was installed before.\<close>

lemma setup_logging_once:
  "ebind (setup_logging s level logger) (setup_logging s level) = setup_logging s level logger"
proof (cases "log_level level")
  case (Inr n)
  have "AList.update ''websockets'' (30 :: int) (AList.update ''confluent_kafka'' 30
      (AList.update ''websockets'' 30 (AList.update ''confluent_kafka'' 30 d))) =
    AList.update ''websockets'' 30 (AList.update ''confluent_kafka'' 30 d)" for d
    by (induction d) auto
  with Inr show ?thesis by (simp add: setup_logging_def)
qed (simp add: setup_logging_def)

end
