(* ===== verification/Service_Edges.thy ===== *)
theory Service_Edges
  imports Config Metrics_Registry Market_Data Storage_Service Reconciliation
begin

text \<open>
  Small operations at the edges of the services: the settings that the Kafka wrappers hand to the
  client library, the HTTP handler of the metrics registry, the JSON of reconciliation reports, and the
  statistics that the market data and storage services log when they stop.
\<close>

section \<open>Settings of the Kafka clients\<close>

definition producer_settings :: "kafka_config \<Rightarrow> (string, json) dict" where
  "producer_settings config =
     [(''bootstrap.servers'', JStr (kc_bootstrap_servers config)), (''acks'', JStr (kc_producer_acks config)),
      (''linger.ms'', JInt (kc_producer_linger_ms config)), (''batch.size'', JInt (kc_producer_batch_size config)),
      (''compression.type'', JStr ''lz4'')]"

definition consumer_settings :: "kafka_config \<Rightarrow> string \<Rightarrow> (string, json) dict" where
  "consumer_settings config group_id =
     [(''bootstrap.servers'', JStr (kc_bootstrap_servers config)), (''group.id'', JStr group_id),
      (''auto.offset.reset'', JStr (kc_consumer_auto_offset_reset config)), (''enable.auto.commit'', JBool True),
      (''max.poll.interval.ms'', JInt 300000)]"

text \<open>
  The settings for the commit of offsets, the default group and the size of a poll have no effect: offsets are always
  committed automatically.
\<close>

theorem commit_setting_ignored:
  "consumer_settings (config\<lparr>kc_consumer_enable_auto_commit := b, kc_consumer_group_id := g, kc_consumer_max_poll_records := n\<rparr>) group_id =
     consumer_settings config group_id \<and>
   map_of (consumer_settings config group_id) ''enable.auto.commit'' = Some (JBool True)"
  by (simp add: consumer_settings_def)

section \<open>The metrics endpoint\<close>

datatype metrics_body = Exposition "export_line list" | Healthy | No_Body

definition metrics_do_GET :: "string \<Rightarrow> metrics \<Rightarrow> nat \<times> (string, string) dict \<times> metrics_body" where
  \<comment> \<open>status, headers (the length of the body aside), body\<close>
  "metrics_do_GET path m =
     (if path = ''/metrics'' then (200, [(''Content-Type'', ''text/plain; charset=utf-8'')], Exposition (export m))
      else if path = ''/health'' then (200, [(''Content-Type'', ''application/json'')], Healthy)
      else (404, [], No_Body))"

section \<open>Reports of the reconciliation as JSON\<close>

definition discrepancy_json :: "discrepancy \<Rightarrow> json" where
  "discrepancy_json d = JObj
     [(''symbol'', JStr (pd_symbol d)), (''internal_quantity'', JNum (pd_internal_quantity d)),
      (''exchange_quantity'', JNum (pd_exchange_quantity d)), (''difference'', JNum (pd_difference d)),
      (''difference_pct'', JNum (pd_difference_pct d)), (''severity'', JStr (pd_severity d))]"

definition recon_report_json :: "recon_report \<Rightarrow> json" where
  \<comment> \<open>\<open>asdict\<close> goes into the lists\<close>
  "recon_report_json r = JObj
     [(''timestamp'', JInt (rr_timestamp r)), (''symbols_checked'', JInt (int (rr_symbols_checked r))),
      (''discrepancies'', JList (map discrepancy_json (rr_discrepancies r))),
      (''exchange_balances'', JObj (map (\<lambda>(k, v). (k, JNum v)) (rr_exchange_balances r))),
      (''internal_positions'', JObj (map (\<lambda>(k, v). (k, JNum v)) (rr_internal_positions r))),
      (''status'', JStr (rr_status r)), (''error'', of_opt JStr (rr_error r))]"

section \<open>Statistics\<close>

definition writer_stats :: "batch_writer \<Rightarrow> (string, nat) dict" where
  "writer_stats w =
     [(''total_trades_written'', bw_total_trades w), (''total_books_written'', bw_total_books w),
      (''trade_buffer_size'', length (bw_trade_buffer w)), (''book_buffer_size'', length (bw_book_buffer w))]"

definition publisher_stats :: "market_svc \<Rightarrow> (string, nat) dict" where
  "publisher_stats md = [(''trades_published'', md_trade_count md), (''depth_updates_published'', md_depth_count md)]"

text \<open>
  While the database accepts its rows, the statistics account for all of the storage service's input: written and
  buffered trades together are the well-formed trades it polled.
\<close>

lemma statistics_add_up:
  fixes batch_size batch_timeout :: int and now :: real
  assumes "list_all (\<lambda>r. sr_db r = db_ok \<and> sr_final_db r = db_ok) rounds"
  defines "stats \<equiv> writer_stats (ss_writer (foldl storage_step (storage_init batch_size batch_timeout now) rounds))"
  shows "dget stats ''total_trades_written'' 0 + dget stats ''trade_buffer_size'' 0 =
      length (List.map_filter trade_row_of (polled rounds)) \<and>
    dget stats ''total_books_written'' 0 + dget stats ''book_buffer_size'' 0 =
      length (snapshots (List.map_filter depth_of (polled rounds)))"
proof -
  have "storage_inv [] (storage_init batch_size batch_timeout now)"
    by (simp add: storage_inv_def storage_init_def writer_init_def trades_kept_def books_kept_def snapshots_def
        List.map_filter_simps updates_of_def)
  from storage_rounds [OF this _ assms(1)]
  have inv: "storage_inv (polled rounds) (foldl storage_step (storage_init batch_size batch_timeout now) rounds)"
    by (simp add: storage_init_def storage_good_def)
  let ?w = "ss_writer (foldl storage_step (storage_init batch_size batch_timeout now) rounds)"
  have kept: "trades_kept ?w = List.map_filter trade_row_of (polled rounds)"
    "books_kept ?w = snapshots (List.map_filter depth_of (polled rounds))"
    and totals: "bw_total_trades ?w = length (bw_db_trades ?w)" "bw_total_books ?w = length (bw_db_books ?w)"
    using inv by (simp_all add: storage_inv_def Let_def)
  have "length (trades_kept ?w) = length (bw_db_trades ?w) + length (bw_trade_buffer ?w)"
    "length (books_kept ?w) = length (bw_db_books ?w) + length (bw_book_buffer ?w)"
    by (simp_all add: trades_kept_def books_kept_def)
  then show ?thesis unfolding kept using totals by (simp add: stats_def writer_stats_def dget_def)
qed

end
