(* ===== verification/Start_Up.thy ===== *)
theory Start_Up
  imports Config Execution_Service Risk_Gateway Alpha_Engine Post_Trade_Service Market_Data Storage_Service
begin

text \<open>
  The beginnings of the services' \<open>main\<close> functions: each reads the configuration from its
  environment and makes its first state from it, or ends with an exception. With them, two
  properties of the running system from its configuration on: without Coinbase credentials nothing
  reaches the exchange, and one request to the kill switch stops all services that were started
  with the same environment. Of Redis, the three commands of the breaker are modelled as
  documented: \<open>SET\<close>, \<open>DEL\<close> and \<open>GET\<close> on a string key. Servers, threads and connections are not.
\<close>

section \<open>First states\<close>

definition run_id_of :: "app_config \<Rightarrow> string" where
  \<comment> \<open>\<open>config.backtest_id or 'live'\<close>\<close>
  "run_id_of cfg = (case ac_backtest_id cfg of None \<Rightarrow> ''live'' | Some b \<Rightarrow> if b = '''' then ''live'' else b)"

definition env_text :: "string \<Rightarrow> redis_text" where
  \<comment> \<open>a variable as \<open>float\<close> sees it\<close>
  "env_text s = (case float_of_str s of Inl _ \<Rightarrow> Raw s | Inr x \<Rightarrow> Float_Text x)"

definition start_execution :: "bool \<Rightarrow> environ \<Rightarrow> py_error + exec_svc" where
  "start_execution client_ok env =
     ebind (app_config_from_env env) (\<lambda>cfg.
     Inr (exec_init (ac_trading_mode cfg) (ac_strategy_modes cfg)
       (start_live_client client_ok env cfg (execution_modes cfg)) (run_id_of cfg) (ac_backtest_id cfg)))"

definition start_gateway :: "environ \<Rightarrow> py_error + risk_svc" where
  "start_gateway env =
     ebind (app_config_from_env env) (\<lambda>cfg.
     ebind (load_risk_limits (map_option env_text \<circ> map_of env)) (\<lambda>limits.
     ebind (int_of_str (dget env ''RISK_API_PORT'' ''8090'')) (\<lambda>kill_port.
     Inr (gateway_init (ac_backtest_id cfg) limits))))"

definition start_alpha :: "environ \<Rightarrow> py_error + alpha_svc" where
  "start_alpha env =
     ebind (app_config_from_env env) (\<lambda>cfg. Inr (alpha_init (ac_symbols cfg) (ac_backtest_id cfg)))"

definition start_post_trade :: "environ \<Rightarrow> py_error + post_trade_svc" where
  "start_post_trade env = ebind (app_config_from_env env) (\<lambda>cfg. Inr (post_trade_init (ac_backtest_id cfg)))"

definition start_market :: "environ \<Rightarrow> py_error + market_svc" where
  "start_market env = ebind (app_config_from_env env) (\<lambda>cfg. Inr (market_init (ac_backtest_id cfg)))"

definition start_storage :: "real \<Rightarrow> environ \<Rightarrow> py_error + storage_svc" where
  \<comment> \<open>\<open>now\<close>: the clock when the writer is made\<close>
  "start_storage now env =
     ebind (app_config_from_env env) (\<lambda>cfg.
     ebind (int_of_str (dget env ''BATCH_SIZE'' ''1000'')) (\<lambda>batch_size.
     ebind (int_of_str (dget env ''BATCH_TIMEOUT_MS'' ''1000'')) (\<lambda>batch_timeout.
     Inr (storage_init batch_size batch_timeout now))))"

lemmas start_defs = start_execution_def start_gateway_def start_alpha_def start_post_trade_def
  start_market_def start_storage_def ebind_eq_Inr

lemma started_keys:
  assumes "start_gateway env = Inr rg" and "start_alpha env = Inr al" and "start_execution client_ok env = Inr ex"
  shows "cb_key (ae_breaker al) = cb_key (rg_breaker rg)" "cb_key (ex_breaker ex) = cb_key (rg_breaker rg)"
  using assms
  by (auto simp: start_defs run_id_of_def exec_init_def gateway_init_def alpha_init_def breaker_init_def Let_def)

text \<open>
  All services that start with one environment use one run id, so they look at the same breaker
  and the gateway reads the portfolio that the post-trade service writes.
\<close>

theorem started_services_share_run:
  assumes "start_gateway env = Inr rg" and "start_alpha env = Inr al"
    and "start_execution client_ok env = Inr ex" and "start_post_trade env = Inr pt"
  shows "rg_run_id rg = pt_run_id pt \<and> cb_key (ae_breaker al) = cb_key (rg_breaker rg) \<and>
    cb_key (ex_breaker ex) = cb_key (rg_breaker rg) \<and> cb_key (rg_breaker rg) = circuit_breaker_key (rg_run_id rg)"
  using assms
  by (auto simp: start_defs run_id_of_def exec_init_def gateway_init_def alpha_init_def post_trade_init_def
      breaker_init_def Let_def)

section \<open>Without credentials nothing reaches the exchange\<close>

definition exec_paper_only :: "exec_svc \<Rightarrow> bool" where
  "exec_paper_only ex \<longleftrightarrow> \<not> ex_live_client ex \<and> ex_exchange_calls ex = [] \<and>
     list_all (\<lambda>v. \<not> is_live_fill v) (fills_sent ex) \<and>
     mm_default (ex_modes ex) \<noteq> ''live'' \<and> (\<forall>s. get_mode s (ex_modes ex) \<noteq> ''live'')"

lemma tripped_key: "is_tripped now reply cb = (t, cb') \<Longrightarrow> cb_key cb' = cb_key cb"
  by (auto simp: is_tripped_def Let_def split: if_splits)

lemma call_exchange_keeps:
  "ex_live_client (snd (call_exchange env rd m ex)) = ex_live_client ex"
  "ex_breaker (snd (call_exchange env rd m ex)) = ex_breaker ex"
  "ex_modes (snd (call_exchange env rd m ex)) = ex_modes ex"
  by (simp_all add: call_exchange_def Let_def split: sum.split)

lemma execute_keeps:
  assumes "execute env rd mode mid sp ex = (r, ex')"
  shows "ex_live_client ex' = ex_live_client ex" "ex_breaker ex' = ex_breaker ex" "ex_modes ex' = ex_modes ex"
  using assms call_exchange_keeps [of env rd mode ex]
  by (auto simp: execute_def fill_order_def reject_order_def Let_def split: if_splits prod.splits bool.splits)

lemma handler_keeps [simp]:
  "ex_live_client (breaker_block env rd ex) = ex_live_client ex" "ex_modes (breaker_block env rd ex) = ex_modes ex"
  "ex_live_client (record_fill env rd m f ex) = ex_live_client ex" "ex_breaker (record_fill env rd m f ex) = ex_breaker ex"
  "ex_breaker (tracked i s q p r n k rd ex) = ex_breaker ex" "ex_breaker (accept_order env rd ex) = ex_breaker ex"
  by (simp_all add: breaker_block_def record_fill_def accept_order_def tracked_def Let_def split: prod.split option.split)

lemma on_order_keeps [simp]:
  "ex_live_client (on_order env rd ex) = ex_live_client ex" "ex_modes (on_order env rd ex) = ex_modes ex"
  "cb_key (ex_breaker (on_order env rd ex)) = cb_key (ex_breaker ex)"
proof -
  have "ex_live_client (on_order env rd ex) = ex_live_client ex \<and> ex_modes (on_order env rd ex) = ex_modes ex \<and>
      cb_key (ex_breaker (on_order env rd ex)) = cb_key (ex_breaker ex)"
  proof (cases rule: on_order_cases [of env ex rd])
    case (blocked cb)
    with tripped_key [OF blocked(1)] show ?thesis by simp
  next
    case (skipped cb)
    with tripped_key [OF skipped(1)] show ?thesis by simp
  next
    case (ended cb mid ex')
    with execute_keeps [OF ended(3)] tripped_key [OF ended(1)] show ?thesis by simp
  next
    case (filled cb mid f0 f ex')
    with execute_keeps [OF filled(3)] tripped_key [OF filled(1)] show ?thesis by simp
  qed
  then show "ex_live_client (on_order env rd ex) = ex_live_client ex" "ex_modes (on_order env rd ex) = ex_modes ex"
    "cb_key (ex_breaker (on_order env rd ex)) = cb_key (ex_breaker ex)" by auto
qed

lemma paper_only_order: "exec_paper_only ex \<Longrightarrow> exec_paper_only (on_order env rd ex)"
proof (cases rule: on_order_cases [of env ex rd])
  case (ended cb mid ex')
  assume "exec_paper_only ex"
  with ended(4) execute_fields [OF ended(3)] execute_keeps [OF ended(3)] show ?thesis by (simp add: exec_paper_only_def)
next
  case (filled cb mid f0 f ex')
  assume "exec_paper_only ex"
  with filled(4,5) execute_fields [OF filled(3)] execute_keeps [OF filled(3)] show ?thesis
    by (simp add: exec_paper_only_def)
qed (simp_all add: exec_paper_only_def)

lemma paper_only_step: "exec_paper_only ex \<Longrightarrow> exec_paper_only (exec_run_step ex e)"
proof (cases e)
  case (Iteration env msg)
  assume p: "exec_paper_only ex"
  then have "exec_paper_only (on_depth v ex)" for v
    by (simp add: exec_paper_only_def on_depth_def Let_def split: sum.split)
  with p Iteration execution_step_cases [of ex env msg] show ?thesis by (auto simp: paper_only_order)
next
  case (Api req)
  assume "exec_paper_only ex"
  with Api no_live_step [of "ex_modes ex" req] show ?thesis by (simp add: exec_paper_only_def)
qed (simp add: exec_paper_only_def execution_heartbeat_def)

interpretation paper_execution: machine exec_run_step "\<lambda>_. True" exec_paper_only
  by unfold_locales (rule paper_only_step)

text \<open>
  C23. Without both Coinbase credentials in its environment the execution service, if it starts at
  all, trades on paper only: whatever orders, market data and mode requests reach it, it never
  calls the exchange, publishes no fill tagged \<open>live\<close> and has no strategy in live mode.
\<close>

theorem no_credentials_no_exchange:
  assumes "start_execution client_ok env = Inr ex" and "\<not> is_configured (coinbase_config_from_env env)"
  shows "ex_exchange_calls (foldl exec_run_step ex evs) = [] \<and>
    filter is_live_fill (fills_sent (foldl exec_run_step ex evs)) = [] \<and>
    get_mode s (ex_modes (foldl exec_run_step ex evs)) \<noteq> ''live''"
proof -
  obtain cfg where cfg: "app_config_from_env env = Inr cfg"
    and ex: "ex = exec_init (ac_trading_mode cfg) (ac_strategy_modes cfg)
       (start_live_client client_ok env cfg (execution_modes cfg)) (run_id_of cfg) (ac_backtest_id cfg)"
    using assms(1) by (auto simp: start_defs)
  have paper: "ac_trading_mode cfg \<noteq> ''live'' \<and> ''live'' \<notin> snd ` set (ac_strategy_modes cfg)"
    by (rule app_config_cases [OF cfg]) (use assms(2) in simp)
  have "\<not> has_any_live (mode_manager_init (ac_trading_mode cfg) (ac_strategy_modes cfg))"
    using paper by (simp add: mode_manager_init_def has_any_live_def)
  moreover from paper have "mm_default (mode_manager_init (ac_trading_mode cfg) (ac_strategy_modes cfg)) \<noteq> ''live''"
    by (simp add: mode_manager_init_def)
  ultimately have "exec_paper_only ex"
    using assms(2) has_live_get by (auto simp: exec_paper_only_def ex exec_init_def start_live_client_def)
  from paper_execution.inv_run [OF this, of evs] show ?thesis
    by (simp add: exec_paper_only_def list_all_iff filter_empty_conv)
qed

definition paper_start :: exec_svc where
  \<comment> \<open>the execution service started with the empty environment\<close>
  "paper_start = exec_init ''paper'' [] False ''live'' None"

lemma paper_start_started: "start_execution True [] = Inr paper_start"
  by code_simp

lemma no_credentials_no_exchange_witness:
  "ex_exchange_calls (foldl exec_run_step paper_start
     [Api (Post ''/set'' [(''strategy_id'', [''mom'']), (''mode'', [''live''])]),
      Iteration (Execution_Service.sample_env 11 (Inr None)) (Some (message topic_orders (order_to_json sample_order)))]) = []"
proof -
  have "\<not> is_configured (coinbase_config_from_env [])"
    by (simp add: is_configured_def coinbase_config_from_env_def dget_def)
  from no_credentials_no_exchange [OF paper_start_started this] show ?thesis by blast
qed

section \<open>One request stops all services\<close>

text \<open>The breaker's commands on Redis, with the texts as the JSON they stand for.\<close>

fun redis_apply :: "(string, json) dict \<Rightarrow> redis_call \<Rightarrow> (string, json) dict" where
  "redis_apply store (RSet k v) = AList.update k v store"
| "redis_apply store (RDelete k) = AList.delete k store"

fun redis_states :: "(string, json) dict \<Rightarrow> redis_call list \<Rightarrow> (string, json) dict list" where
  \<comment> \<open>the contents that Redis goes through\<close>
  "redis_states store [] = [store]"
| "redis_states store (c # cs) = store # redis_states (redis_apply store c) cs"

definition answers :: "(string, json) dict list \<Rightarrow> string \<Rightarrow> redis_reply \<Rightarrow> bool" where
  \<comment> \<open>a reply to \<open>GET key\<close>: what one of the contents has, or an exception if Redis cannot be reached\<close>
  "answers stores key reply =
     (case reply of Inl _ \<Rightarrow> True
      | Inr val \<Rightarrow> list_ex (\<lambda>store. val = map_option Document (map_of store key)) stores)"

text \<open>
  The events of a service from half a second after \<open>T\<close> on, while its breaker asks for \<open>key\<close> and
  Redis goes through these contents; the gateway is not asked to reset.
\<close>

fun exec_event_in :: "(string, json) dict list \<Rightarrow> string \<Rightarrow> real \<Rightarrow> exec_event \<Rightarrow> bool" where
  "exec_event_in stores key T (Iteration env msg) =
     (T + check_interval_s \<le> en_monotonic env \<and> answers stores key (en_redis env))"
| "exec_event_in stores key T _ = True"

fun alpha_event_in :: "(string, json) dict list \<Rightarrow> string \<Rightarrow> real \<Rightarrow> alpha_env \<times> kafka_message option \<Rightarrow> bool" where
  "alpha_event_in stores key T (env, msg) =
     (T + check_interval_s \<le> av_monotonic env \<and> answers stores key (av_redis env))"

fun gateway_event_in :: "(string, json) dict list \<Rightarrow> string \<Rightarrow> real \<Rightarrow> gateway_event \<Rightarrow> bool" where
  "gateway_event_in stores key T (Signal_iteration env msg) =
     (T + check_interval_s \<le> ge_monotonic env \<and> answers stores key (ge_redis env))"
| "gateway_event_in stores key T (Trip_request reason who now an r) = True"
| "gateway_event_in stores key T (Reset_request who now an r) = False"
| "gateway_event_in stores key T (Gateway_beat t reply now) = answers stores key reply"

lemma event_in_halted:
  assumes "list_all (\<lambda>store. map_of store key \<noteq> None) stores"
  shows "exec_event_in stores key T e \<Longrightarrow> halted_event T e"
    "alpha_event_in stores key T a \<Longrightarrow> halted_iteration T a"
    "gateway_event_in stores key T g \<Longrightarrow> halted_gateway_event T g"
proof -
  have held: "\<not> answers stores key (Inr None)"
    using assms by (simp add: answers_def list_all_iff list_ex_iff)
  show "exec_event_in stores key T e \<Longrightarrow> halted_event T e" by (cases e) (use held in auto)
  show "alpha_event_in stores key T a \<Longrightarrow> halted_iteration T a" by (cases a) (use held in auto)
  show "gateway_event_in stores key T g \<Longrightarrow> halted_gateway_event T g" by (cases g) (use held in auto)
qed

lemma held_until_deleted:
  "map_of store key \<noteq> None \<Longrightarrow> RDelete key \<notin> set calls \<Longrightarrow>
   list_all (\<lambda>s. map_of s key \<noteq> None) (redis_states store calls)"
proof (induction calls arbitrary: store)
  case (Cons c calls)
  then have "map_of (redis_apply store c) key \<noteq> None"
    by (cases c) (auto simp: update_conv' delete_conv')
  with Cons show ?case by auto
qed simp

text \<open>No step of a service changes the key its breaker asks for.\<close>

lemma exec_key_step: "cb_key (ex_breaker ex) = k \<Longrightarrow> cb_key (ex_breaker (exec_run_step ex e)) = k"
proof (cases e)
  case (Iteration env msg)
  assume "cb_key (ex_breaker ex) = k"
  with Iteration execution_step_cases [of ex env msg] show ?thesis by auto
qed simp_all

lemma gateway_key_step: "cb_key (rg_breaker rg) = k \<Longrightarrow> cb_key (rg_breaker (gateway_run_step rg e)) = k"
proof -
  assume k: "cb_key (rg_breaker rg) = k"
  have signal: "cb_key (rg_breaker (on_signal env sig rg)) = k" for env sig
  proof (cases rule: on_signal_cases [of env rg sig])
    case (blocked cb)
    with k tripped_key [OF blocked(1)] show ?thesis by simp
  next
    case (dead cb e)
    with k tripped_key [OF dead(1)] show ?thesis by simp
  next
    case (decided cb st d rg1)
    with k tripped_key [OF decided(1)] show ?thesis by (simp add: approve_signal_def reject_signal_def Let_def)
  qed
  have op: "cb_key (breaker_step cb x) = cb_key cb" for cb x
    by (cases x) (auto simp: is_tripped_def trip_def reset_def Let_def split: option.split)
  show ?thesis
  proof (cases e)
    case (Signal_iteration env msg)
    with k signal gateway_step_cases [of rg env msg] show ?thesis by auto
  qed (simp_all add: op k del: breaker_step.simps)
qed


lemma run_strategies_breaker [simp]: "ae_breaker (run_strategies envs k t sids svc) = ae_breaker svc"
proof (induction envs k t sids svc rule: run_strategies.induct)
  case (2 envs k t sid sids svc)
  have "ae_breaker (emit_counterpart sid (emit_signal sig x)) = ae_breaker x" for sig x
    by (simp add: emit_counterpart_def emit_signal_def Let_def split: option.split strategy.split prod.split)
  with 2 show ?case by (simp add: Let_def split: option.split sum.split prod.split)
qed simp

lemma alpha_key_step: "cb_key (ae_breaker al) = k \<Longrightarrow> cb_key (ae_breaker (alpha_step al e)) = k"
proof -
  assume k: "cb_key (ae_breaker al) = k"
  obtain env msg where e: "e = (env, msg)" by fastforce
  obtain t cb where cb: "is_tripped (av_monotonic env) (av_redis env) (ae_breaker al) = (t, cb)" by fastforce
  have "cb_key (ae_breaker (on_trade_tick env tr al)) = k" for tr
    using k tripped_key [OF cb] by (simp add: on_trade_tick_def Let_def cb)
  with k show ?thesis unfolding e by (cases rule: alpha_step_cases [of al env msg]) simp_all
qed

interpretation exec_key: machine exec_run_step "\<lambda>_. True" "\<lambda>ex. cb_key (ex_breaker ex) = k" for k
  by unfold_locales (rule exec_key_step)

interpretation gateway_key: machine gateway_run_step "\<lambda>_. True" "\<lambda>rg. cb_key (rg_breaker rg) = k" for k
  by unfold_locales (rule gateway_key_step)

interpretation alpha_key: machine alpha_step "\<lambda>_. True" "\<lambda>al. cb_key (ae_breaker al) = k" for k
  by unfold_locales (rule alpha_key_step)


text \<open>
  C2. One request to the kill switch stops every service that was started with the gateway's
  environment, whatever the services did before: the gateway writes the key that the breakers
  of the others ask for, and until somebody deletes it, half a second after each service's last
  check no order, no signal and no fill is published and the exchange is not called, even where
  Redis can no longer be reached. Each service has its own clock.
\<close>

theorem one_request_stops_all:
  fixes gevs gevs' aevs aevs' xevs xevs' rg0 al0 ex0 reason who now audit_now redis0 later
  defines "rg \<equiv> foldl gateway_run_step rg0 gevs"
    and "al \<equiv> foldl alpha_step al0 aevs"
    and "ex \<equiv> foldl exec_run_step ex0 xevs"
  defines "rg' \<equiv> gateway_run_step rg (Trip_request reason who now audit_now None)"
    and "redis \<equiv> foldl redis_apply redis0 (fst (trip reason who now now None (rg_breaker rg)))"
  assumes "start_gateway env = Inr rg0" and "start_alpha env = Inr al0" and "start_execution client_ok env = Inr ex0"
    and "RDelete (cb_key (rg_breaker rg)) \<notin> set later"
    and "now \<le> Tg" and "cb_last_check (ae_breaker al) \<le> Ta" and "cb_last_check (ex_breaker ex) \<le> Tx"
    and "list_all (gateway_event_in (redis_states redis later) (cb_key (rg_breaker rg')) Tg) gevs'"
    and "list_all (alpha_event_in (redis_states redis later) (cb_key (ae_breaker al)) Ta) aevs'"
    and "list_all (exec_event_in (redis_states redis later) (cb_key (ex_breaker ex)) Tx) xevs'"
  shows "orders_sent (foldl gateway_run_step rg' gevs') = orders_sent rg \<and>
    signals_sent (foldl alpha_step al aevs') = signals_sent al \<and>
    fills_sent (foldl exec_run_step ex xevs') = fills_sent ex \<and>
    ex_exchange_calls (foldl exec_run_step ex xevs') = ex_exchange_calls ex"
proof -
  let ?k = "cb_key (rg_breaker rg0)"
  have "cb_key (ae_breaker al0) = ?k" "cb_key (ex_breaker ex0) = ?k"
    using assms(6-8) by (rule started_keys)+
  then have keys: "cb_key (rg_breaker rg) = ?k" "cb_key (ae_breaker al) = ?k" "cb_key (ex_breaker ex) = ?k"
    unfolding rg_def al_def ex_def
    by (intro gateway_key.inv_run alpha_key.inv_run exec_key.inv_run; simp add: list_all_iff)+
  have trip: "rg_breaker rg' = (rg_breaker rg)\<lparr>cb_cached_state := True, cb_last_check := now\<rparr>"
    by (simp add: rg'_def trip_def Let_def)
  have "map_of redis ?k \<noteq> None"
    by (simp add: redis_def trip_def Let_def keys update_conv')
  then have held: "list_all (\<lambda>s. map_of s ?k \<noteq> None) (redis_states redis later)"
    using assms(9) by (intro held_until_deleted) (simp_all add: keys)
  note halted = event_in_halted [OF held]
  have "quiet_gateway Tg (orders_sent rg) rg'"
    using assms(10) by (simp add: quiet_gateway_def halt_inv_def trip) (simp add: rg'_def)
  moreover have "list_all (halted_gateway_event Tg) gevs'"
    using assms(13) by (rule list.pred_mono_strong) (simp add: halted(3) trip keys)
  ultimately have g: "orders_sent (foldl gateway_run_step rg' gevs') = orders_sent rg"
    using halted_gateway.inv_run unfolding quiet_gateway_def by blast
  have "silent Ta (signals_sent al) (all_trades_seen (ae_registry al)) al"
    using assms(11) by (simp add: silent_def halt_inv_def)
  moreover have "list_all (halted_iteration Ta) aevs'"
    using assms(14) by (rule list.pred_mono_strong) (simp add: halted(2) keys)
  ultimately have a: "signals_sent (foldl alpha_step al aevs') = signals_sent al"
    using halted_alpha.inv_run unfolding silent_def by blast
  have "quiet Tx (fills_sent ex) (ex_exchange_calls ex) (tk_orders (ex_tracker ex)) ex"
    using assms(12) by (simp add: quiet_def halt_inv_def)
  moreover have "list_all (halted_event Tx) xevs'"
    using assms(15) by (rule list.pred_mono_strong) (simp add: halted(1) keys)
  ultimately have "quiet Tx (fills_sent ex) (ex_exchange_calls ex) (tk_orders (ex_tracker ex)) (foldl exec_run_step ex xevs')"
    by (rule halted_execution.inv_run)
  with g a show ?thesis by (simp add: quiet_def)
qed


definition sample_start :: risk_svc where
  \<comment> \<open>the gateway started with the empty environment\<close>
  "sample_start = gateway_init None (default_limits\<lparr>rl_max_drawdown_pct := 5 / 100\<rparr>)"

lemma services_start:
  "start_gateway [] = Inr sample_start" "start_alpha [] = Inr (alpha_init [''btcusdt''] None)"
proof -
  have "app_config_from_env [] = Inr \<lparr>ac_kafka = kafka_config_default, ac_redis_url = ''redis://localhost:6379/0'',
     ac_database = database_config_default, ac_coinbase = \<lparr>bc_api_key = [], bc_api_secret = []\<rparr>,
     ac_symbols = [''btcusdt''], ac_log_level = ''INFO'', ac_backtest_id = None,
     ac_trading_mode = ''paper'', ac_strategy_modes = []\<rparr>" by code_simp
  moreover have "int_of_str ''8090'' = Inr 8090" by code_simp
  moreover have "load_risk_limits (map_option env_text \<circ> map_of []) = Inr (default_limits\<lparr>rl_max_drawdown_pct := 5 / 100\<rparr>)"
    by (simp add: load_risk_limits_def default_limits_def)
  ultimately show "start_gateway [] = Inr sample_start" "start_alpha [] = Inr (alpha_init [''btcusdt''] None)"
    by (auto simp: start_gateway_def start_alpha_def dget_def sample_start_def)
qed

definition held_reply :: redis_reply where
  \<comment> \<open>what Redis answers after the request below\<close>
  "held_reply = Inr (Some (Document (JObj [(''tripped'', JBool True), (''reason'', JStr ''manual''),
     (''triggered_by'', JStr ''api''), (''timestamp'', JNum 10)])))"

lemma one_request_stops_all_witness:
  "orders_sent (foldl gateway_run_step (gateway_run_step sample_start (Trip_request ''manual'' ''api'' 10 0 None))
     [Signal_iteration (sample_risk_env 11 held_reply) (Some (signal_message (sample_signal ''BUY'' 5)))]) = [] \<and>
   signals_sent (foldl alpha_step (alpha_init [''btcusdt''] None)
     [(\<lparr>av_monotonic = 11, av_redis = held_reply, av_strategy = quiet_env\<rparr>,
       Some (trade_message (trade_default\<lparr>tr_symbol := ''BTCUSDT'', tr_price := 100\<rparr>)))]) = [] \<and>
   fills_sent (foldl exec_run_step paper_start
     [Iteration (Execution_Service.sample_env 11 (Inl (ExternalError ''down''))) (Some (message topic_orders (order_to_json sample_order)))]) = []"
proof -
  let ?g = "[Signal_iteration (sample_risk_env 11 held_reply) (Some (signal_message (sample_signal ''BUY'' 5)))]"
  let ?a = "[(\<lparr>av_monotonic = 11, av_redis = held_reply, av_strategy = quiet_env\<rparr>,
       Some (trade_message (trade_default\<lparr>tr_symbol := ''BTCUSDT'', tr_price := 100\<rparr>)))]"
  let ?x = "[Iteration (Execution_Service.sample_env 11 (Inl (ExternalError ''down''))) (Some (message topic_orders (order_to_json sample_order)))]"
  let ?rg = "gateway_run_step sample_start (Trip_request ''manual'' ''api'' 10 0 None)"
  let ?redis = "foldl redis_apply [] (fst (trip ''manual'' ''api'' 10 10 None (rg_breaker sample_start)))"
  have rg: "rg_breaker sample_start = breaker_init ''live''" "orders_sent sample_start = []"
    and al: "ae_breaker (alpha_init [''btcusdt''] None) = breaker_init ''live''" "signals_sent (alpha_init [''btcusdt''] None) = []"
    and ex: "ex_breaker paper_start = breaker_init ''live''" "fills_sent paper_start = []"
    by (simp_all add: sample_start_def gateway_init_def alpha_init_def paper_start_def exec_init_def Let_def)
  have keys: "cb_key (breaker_init ''live'') = circuit_breaker_key ''live''" "cb_last_check (breaker_init ''live'') = 0"
      "cb_key (rg_breaker ?rg) = circuit_breaker_key ''live''"
    by (simp_all add: rg breaker_init_def trip_def Let_def)
  have "answers (redis_states ?redis []) (circuit_breaker_key ''live'') held_reply"
    by (simp add: answers_def held_reply_def rg trip_def keys Let_def)
  then have "list_all (gateway_event_in (redis_states ?redis []) (cb_key (rg_breaker ?rg)) 10) ?g"
      "list_all (alpha_event_in (redis_states ?redis []) (cb_key (ae_breaker (alpha_init [''btcusdt''] None))) 0) ?a"
    unfolding keys al by (simp_all add: sample_risk_env_def check_interval_s_def del: redis_states.simps)
  moreover have "list_all (exec_event_in (redis_states ?redis []) (cb_key (ex_breaker paper_start)) 0) ?x"
    by (simp add: Execution_Service.sample_env_def check_interval_s_def answers_def)
  ultimately show ?thesis
    using one_request_stops_all [OF services_start paper_start_started, where gevs = "[]" and aevs = "[]" and xevs = "[]"
      and later = "[]" and now = 10 and Tg = 10 and Ta = 0 and Tx = 0 and ?redis0.0 = "[]" and reason = "''manual''"
      and who = "''api''" and audit_now = 0 and gevs' = ?g and aevs' = ?a and xevs' = ?x]
    unfolding foldl.simps(1) rg(2) al(2) ex(2) al(1) ex(1) keys by simp
qed

end
