(* ===== verification/Spec2Isabelle.thy ===== *)
theory Spec2Isabelle
  imports Py_Base Json_Value Models Metrics_Registry Rate_Limiter Circuit_Breaker Kafka_Utils Portfolio_Sync
    Order_Tracker Strategy_Mode Fill_Simulator Execution_Service Risk_Checks Var_Model Risk_Gateway
    Pnl Perf_Metrics Tca Alpha_Decay Post_Trade_State Post_Trade_Service
    Order_Book Feature_Engine Cross_Asset Ols Signal_Strategy Vwap_Strategies Linear_Regression Pairs_Trading Alpha_Engine
    Py_Strings Py_Lists Config Reconciliation Coinbase_Client Market_Data Storage_Service
    Backtest_Metrics Evaluator Walk_Forward Monte_Carlo Sensitivity_Sweep Param_Sensitivity
    Replay Comparison Validation Backtest_Analysis
    Job_Store Job_Data Analysis_Jobs Dashboard Paper_Validator Cli_Analysis Backtest_Cli
    Trading_Loop History Log_Lines Service_Edges Start_Up
begin

text \<open>
  A verification development for a crypto trading system of independent services around Kafka,
  Redis and a SQL database (\<open>src/services\<close>, with the shared library \<open>src/lib/quant_core\<close>).

  \<^bold>\<open>The program.\<close> The market data service turns messages of the exchange into trades and depth
  updates on two Kafka topics. The alpha engine keeps an order book and features per symbol and
  runs its strategies on them, which publish signals. The risk gateway answers every signal with
  a decision and, if it approves, with an order. The execution service fills orders by a
  simulator or sends them to the exchange, and publishes fills. The post-trade service books fills
  into positions, writes the portfolio to Redis, where the gateway reads it for its next
  decision, and shows its state in a dashboard. The storage service writes market data to the
  database; a backtest replays it to the topics, or runs the strategies on it directly and analyses
  the outcome. A kill switch in Redis stops the gateway, the execution service and the alpha engine.

  \<^bold>\<open>How the code is modelled.\<close> A service is a record of its state and a step function; an iteration of
  its loop is one step, whose argument holds everything that comes from outside: the polled
  message, the clocks, fresh identifiers, random draws, answers of Redis, the database and the
  exchange. Threads of a service (consume loop, heartbeat, HTTP handlers) interleave as
  sequences of such events. What a service sends is kept in its producer, what it writes to
  Redis as a list of commands, what it asks the exchange as a list of calls. An exception is a value of
  type \<open>py_error\<close>; where one escapes a loop, the service stops (\<open>rg_running\<close>, \<open>pt_running\<close>,
  \<open>ss_running\<close> turn false). Messages are JSON trees; a payload that is no JSON is \<open>Unparsable\<close>. Floats
  are exact real numbers: rounding of doubles, infinities and NaN are outside the model, division by
  zero is an exception. A value of minus infinity in results is \<open>None\<close>.

  \<^bold>\<open>Theories.\<close>

  \<^item> Prelude: \<open>Py_Base\<close> (exceptions, numbers, dictionaries, windows, and the interfaces below),
    \<open>Py_Strings\<close>, \<open>Py_Lists\<close>, \<open>Json_Value\<close>.
  \<^item> Shared library (\<open>lib/quant_core\<close>): \<open>Models\<close> (\<open>models.py\<close>, every message with its encoding and decoding),
    \<open>Metrics_Registry\<close>, \<open>Rate_Limiter\<close>, \<open>Circuit_Breaker\<close>, \<open>Kafka_Utils\<close>, \<open>Config\<close>, \<open>Reconciliation\<close>,
    \<open>Log_Lines\<close> (\<open>logging.py\<close>), \<open>Coinbase_Client\<close> (\<open>coinbase_rest.py\<close>), \<open>Portfolio_Sync\<close> (\<open>portfolio_state.py\<close>,
    the keys of \<open>redis_utils.py\<close>).
  \<^item> Market data: \<open>Market_Data\<close>. Storage: \<open>Storage_Service\<close>.
  \<^item> Alpha engine: \<open>Order_Book\<close>, \<open>Feature_Engine\<close>, \<open>Cross_Asset\<close>, \<open>Ols\<close>, the strategies \<open>Vwap_Strategies\<close> (mean
    reversion and momentum), \<open>Linear_Regression\<close> and \<open>Pairs_Trading\<close> over the interface
    \<open>Signal_Strategy\<close>, and the service \<open>Alpha_Engine\<close>.
  \<^item> Risk gateway: \<open>Risk_Checks\<close>, \<open>Var_Model\<close>, \<open>Risk_Gateway\<close>.
  \<^item> Execution: \<open>Order_Tracker\<close>, \<open>Strategy_Mode\<close>, \<open>Fill_Simulator\<close>, \<open>Execution_Service\<close>.
  \<^item> Post-trade: \<open>Pnl\<close>, \<open>Perf_Metrics\<close>, \<open>Tca\<close>, \<open>Alpha_Decay\<close>, \<open>Post_Trade_State\<close>, \<open>Post_Trade_Service\<close>, the analysis
    jobs \<open>Job_Store\<close>, \<open>Job_Data\<close>, \<open>Analysis_Jobs\<close> (\<open>analysis_jobs.py\<close>) and \<open>Dashboard\<close> (\<open>dashboard.py\<close>, with
    its Excel export).
  \<^item> Backtest: \<open>Replay\<close>, \<open>Backtest_Metrics\<close> and \<open>Evaluator\<close> (\<open>evaluator.py\<close>), \<open>Walk_Forward\<close>, \<open>Monte_Carlo\<close>,
    \<open>Sensitivity_Sweep\<close>, \<open>Param_Sensitivity\<close>, \<open>Comparison\<close> (\<open>results.py\<close>, \<open>comparison.py\<close>), \<open>Validation\<close>,
    \<open>Backtest_Analysis\<close>, and the command lines \<open>Cli_Analysis\<close> and \<open>Backtest_Cli\<close>.
  \<^item> \<open>Paper_Validator\<close>: \<open>scripts/paper_trading_validator.py\<close>.
  \<^item> Services composed: \<open>Trading_Loop\<close> (gateway, execution, post-trade and back), \<open>History\<close> (storage, the
    database schema of \<open>scripts/init_db.sql\<close>, replay), \<open>Start_Up\<close> (the first states of the services from one environment, and what holds of
    them together), and this theory. \<open>Service_Edges\<close> holds the settings
    of the Kafka clients, the metrics endpoint and the statistics of two services.

  Constants keep the names of the source; where that is not possible (a clash with the library, a
  method that several classes have) the record or the class is added to the name.

  \<^bold>\<open>Interfaces.\<close> Five locales state what components rely on, each interpreted on the model's own
  definitions: \<open>table\<close> (a dictionary: what is found after an update or a deletion; association lists),
  \<open>window\<close> (a queue that forgets: its content is the last elements appended; \<open>deque\<close>),
  \<open>machine\<close> (a step function keeps an invariant under admissible events; every service, tracker and
  registry), \<open>replayed_stream\<close> (rows that encode messages; trades and depth) and \<open>signal_strategy\<close> (a strategy
  over a cooldown, a position tracker and an invariant; the four strategies).

  \<^bold>\<open>What is proved.\<close>

  \<^item> The trading loop: from the orders of the gateway through execution and post-trade back to the portfolio
    that the gateway reads; positions are the net of all fills, equity is cash plus inventory,
    profit is conserved; an approved order respects the limits that the code checks.
  \<^item> Safety of the kill switch: it fails safe, takes effect within its check interval, and once it is in
    force no order leaves the gateway, none is executed and no signal is published; one request stops
    all services that were started with one environment. Without credentials nothing reaches the
    exchange; no live fill without a call to it.
  \<^item> State machines: the order life cycle as an inductive relation that the tracker refines; the jobs
    as a transition relation with reachability, its invariant and the liveness of submitted jobs.
  \<^item> Equivalence with reference definitions: incremental features, least squares, binary search, drawdown,
    the evaluator against the live strategy, the backtest's accounts against the live ones.
  \<^item> Delivery: market data in order and once, storage without loss while the database accepts, replay of
    what was stored, encodings that decode to what was encoded.
  \<^item> Bounds: rate limits, risk estimates, probabilities, resampled figures, fees, correlations.
  \<^item> Termination: the blocking acquire, the retry loop of the exchange client, the repeated validation.
  \<^item> Errors: which exceptions stop a service and what is lost then; what each analysis does with data it
    cannot use. Some of these theorems show what the code should not do: trades never update
    prices, a fill at price 0 stops post-trade, a refused batch is lost, a replay under a generated
    identifier stops the storage service, a flipped position is misvalued by the backtest.

  \<^bold>\<open>Loops.\<close> Recursion is structural wherever the loop runs over data. The blocking \<open>acquire\<close> takes fuel;
  two rounds are proved to be enough on a clock that sleeps at least as long as asked. The retry loop of
  the client is bounded by the maximal number of retries of its policy. The repeated validation is a
  partial function, proved to return whenever the clock advances and passes the end of the period.
  Elimination, resampling and grids run over index ranges.

  \<^bold>\<open>Not modelled.\<close> The connections, signal handlers, threads and HTTP servers that the services set up and
  shut down, log lines of the services, parsing of command line options, output printed before an
  exception, fonts and widths of the Excel sheets: they call libraries and decide nothing.
  The libraries themselves (Kafka and Redis clients, the database driver, the HTTP client, the web
  framework, random generators, \<open>str\<close> of floats, ISO times) are arguments of the definitions that use
  them. The C++ extension (\<open>src/cpp\<close>) is another language and no service imports it; its
  benchmark, \<open>accelerated.py\<close> and the packaging scripts have no behaviour of the system. In
  the evaluator, random draws are a function of the trades and parameters rather than one shared stream.
\<close>

section \<open>From fills to the risk gateway\<close>


definition sample_service :: post_trade_svc where
  "sample_service = on_fill \<lparr>pe_uid = ''u'', pe_redis_error = None\<rparr> (sample_fill 100) (post_trade_init None)"

definition service_store :: "(string, redis_hash) dict" where
  "service_store = foldl apply_cmd [] (pt_redis_cmds sample_service)"

lemma sample_service_ok:
  "pt_running sample_service"
  "\<forall>s \<in> fst ` set (st_portfolio (pt_state sample_service)). colon \<notin> set s"
  "pt_run_id sample_service = ''live''"
  by (simp_all add: sample_service_def on_fill_def process_fill_def Let_def record_of_fill_def dget_def analyze_fill_def
      post_trade_init_def sample_fill_def state_init_def sync_state_def get_pnl_summary_def initial_equity_def colon_def
      book_fill_portfolio split: prod.split option.split sum.split)

lemma service_serves:
  "serves (foldl apply_cmd [] (pt_redis_cmds sample_service)) (\<lambda>k. Inr (dget service_store k []))
     (\<lambda>p. [filter (\<lambda>k. prefix p k) (map fst service_store)])"
  by (auto simp: serves_def service_store_def)


section \<open>The trading loop\<close>

text \<open>
  C5. From the gateway's orders back to its portfolio: whatever the gateway approved, when its orders
  reach the execution service in order among any other events, and the fills of that service reach
  the post-trade service in order among any other messages, the last of which was a fill that the
  service survived and could write to Redis, then the gateway reads back, for every symbol,
  exactly the signed quantity of the orders that were executed; those are a subsequence of the
  orders it sent, and these of the signals it received, with the same strategy, symbol and side:
  nothing is executed twice and nothing is invented. If every order met a clear breaker, a quoted
  symbol and, when live, an exchange that took it, all of them were executed.
\<close>

theorem orders_reach_portfolio:
  fixes backtest_id :: "string option" and limits :: risk_limits and gevs :: "gateway_event list"
    and trading_mode run_id :: string and strategy_modes :: "(string, string) dict" and live_client :: bool
    and evs :: "exec_event list" and msgs :: "(post_trade_env \<times> kafka_message option) list"
    and env :: post_trade_env and msg :: "kafka_message option"
  defines "rg \<equiv> foldl gateway_run_step (gateway_init backtest_id limits) gevs"
    and "rds \<equiv> executed (exec_init trading_mode strategy_modes live_client run_id backtest_id) evs"
    and "ex \<equiv> foldl exec_run_step (exec_init trading_mode strategy_modes live_client run_id backtest_id) evs"
    and "svc \<equiv> foldl post_trade_step (post_trade_init backtest_id) (msgs @ [(env, msg)])"
  assumes "orders_in evs = orders_sent rg" and "fills_in (msgs @ [(env, msg)]) = fills_sent ex"
    and "fill_value (env, msg) \<noteq> None" and "pe_redis_error env = None" and "pt_running svc"
    and "\<forall>rd \<in> set rds. colon \<notin> set (or_symbol rd)"
    and "serves (foldl apply_cmd [] (pt_redis_cmds svc)) hgetall scan"
  shows "\<exists>data sent. read_portfolio_from_redis hgetall scan (rg_run_id rg) [] = Inr data \<and>
    (\<forall>s. dget (pd_positions data) s 0 = net_ordered s rds) \<and>
    orders_sent rg = order_docs sent \<and> subseq rds sent \<and>
    (all_fillable (exec_init trading_mode strategy_modes live_client run_id backtest_id) evs \<longrightarrow> rds = sent) \<and>
    subseq (map order_key sent) (map signal_key (signals_in gevs))"
proof -
  obtain sent where sent: "orders_sent rg = order_docs sent" "subseq (map order_key sent) (map signal_key (signals_in gevs))"
      "rg_run_id rg = pt_run_id (post_trade_init backtest_id)"
    unfolding rg_def by (rule gateway_orders)
  have sub: "subseq rds sent" unfolding rds_def by (rule executed_subseq) (use assms(5) sent(1) in simp)
  have all: "all_fillable (exec_init trading_mode strategy_modes live_client run_id backtest_id) evs \<longrightarrow> rds = sent"
    unfolding rds_def using executed_all assms(5) sent(1) by metis
  have "fills_sent (exec_init trading_mode strategy_modes live_client run_id backtest_id) = []" by (simp add: exec_init_def)
  then obtain fs where fs: "list_all2 fill_for rds fs" "fills_sent ex = fill_docs fs"
    using run_fills unfolding rds_def ex_def by (metis append_Nil)
  obtain v where v: "fill_value (env, msg) = Some v" using assms(7) by auto
  have split: "fill_docs fs = fills_in msgs @ [v]"
    using assms(6) v fs(2) by (simp add: fills_in_def map_filter_def)
  then obtain gs f where fs': "fs = gs @ [f]" "fills_in msgs = fill_docs gs" "v = Document (fill_to_json f)"
    unfolding fill_docs_def by (auto simp: map_eq_append_conv)
  define svc0 where "svc0 = foldl post_trade_step (post_trade_init backtest_id) msgs"
  have svc: "svc = post_trade_step svc0 (env, msg)" by (simp add: svc_def svc0_def)
  have run: "pt_running svc0"
    using assms(9) stopped_stays [of svc0 "[(env, msg)]"] unfolding svc by (cases "pt_running svc0") auto
  obtain evs0 where evs0: "pt_state svc0 = foldl state_step (state_init initial_equity) evs0" "fills_of evs0 = map record_of_fill gs"
    using fills_booked [OF fs'(2) run [unfolded svc0_def]] unfolding svc0_def by (auto simp: post_trade_init_def)
  have step: "svc = on_fill env f svc0" unfolding svc by (rule fill_step [OF run]) (simp add: v fs'(3))
  have fills: "fills_of (evs0 @ [Fill_event (record_of_fill f)]) = map record_of_fill fs" by (simp add: evs0(2) fs'(1))
  have st: "pt_state svc = foldl state_step (state_init initial_equity) (evs0 @ [Fill_event (record_of_fill f)])"
    by (simp add: step evs0(1))
  have symbols: "\<forall>s \<in> fst ` set (st_portfolio (pt_state svc)). colon \<notin> set s"
    using assms(10) unfolding st portfolio_symbols fills
    by (simp add: image_image record_of_fill_def fill_symbols [OF fs(1)])
  have "rg_run_id rg = pt_run_id svc" by (simp add: sent(3) svc_def run_ids del: foldl_append)
  with gateway_reads_store [OF evs0(1) [unfolded svc0_def] assms(9) [unfolded step svc0_def] assms(8)
      symbols [unfolded step svc0_def] assms(11) [unfolded step svc0_def]]
  obtain data where "read_portfolio_from_redis hgetall scan (rg_run_id rg) [] = Inr data"
      "\<forall>s. dget (pd_positions data) s 0 = net_quantity (map fill_of (filter (\<lambda>g. fr_symbol g = s)
         (fills_of (evs0 @ [Fill_event (record_of_fill f)]))))"
    unfolding step svc0_def by metis
  then show ?thesis using sub all sent(1,2) unfolding fills net_of_fills [OF fs(1)] by blast
qed

text \<open>One signal on its way: approved against an empty Redis, quoted, filled on paper, booked.\<close>

definition loop_risk_env :: risk_env where
  "loop_risk_env = (sample_risk_env 11 (Inr None))\<lparr>ge_hgetall := (\<lambda>k. Inr []), ge_scan := (\<lambda>p. [])\<rparr>"

definition loop_gateway :: "gateway_event list" where
  "loop_gateway = [Signal_iteration loop_risk_env (Some (signal_message (sample_signal ''BUY'' 5)))]"

definition loop_order :: order where
  "loop_order = \<lparr>or_order_id = ''u'', or_timestamp = 2, or_symbol = ''BTCUSD'', or_side = ''BUY'', or_order_type = ''MARKET'',
     or_quantity = 5, or_limit_price = None, or_status = ''SUBMITTED'', or_signal_id = ''s1'', or_strategy_id = ''m'',
     or_backtest_id = None\<rparr>"

definition loop_depth :: depth_update where
  "loop_depth = depth_default\<lparr>dp_symbol := ''BTCUSD'', dp_bids := [(99, 1)], dp_asks := [(101, 1)]\<rparr>"

definition loop_events :: "exec_event list" where
  "loop_events = [Iteration (Execution_Service.sample_env 1 (Inr None)) (Some (message topic_raw_depth (depth_to_json loop_depth))),
     Iteration (Execution_Service.sample_env 11 (Inr None)) (Some (message topic_orders (order_to_json loop_order)))]"

lemma loop_order_sent:
  "orders_sent (foldl gateway_run_step (gateway_init None default_limits) loop_gateway) = [Document (order_to_json loop_order)]"
proof -
  let ?st = "\<lparr>ps_positions = [], ps_unrealized_pnl = 0, ps_realized_pnl = 0, ps_peak_equity = 100000, ps_current_equity = 100000\<rparr>"
  let ?sig = "sample_signal ''BUY'' 5"
  have st: "get_portfolio_state loop_risk_env run = Inr ?st" for run
    by (simp add: get_portfolio_state_def loop_risk_env_def read_portfolio_from_redis_def initial_equity_def)
  have clear: "is_tripped 11 (Inr None) (breaker_init run) = (False, (breaker_init run)\<lparr>cb_last_check := 11\<rparr>)" for run
    by (simp add: is_tripped_def breaker_init_def check_interval_s_def)
  have "check_position_notional ?sig ?st default_limits = None" "check_order_notional ?sig default_limits = None"
    "check_drawdown ?st default_limits = None" "check_total_exposure ?sig ?st default_limits [] = None"
    by (simp_all add: check_position_notional_def check_order_notional_def check_drawdown_def check_total_exposure_def
        sample_signal_def default_limits_def dget_def total_exposure_def Let_def)
  then have "run_risk_checks n ?sig ?st default_limits None [] =
      \<lparr>rd_signal_id = ''s1'', rd_decision = ''APPROVED'', rd_reason = ''all_checks_passed'', rd_adjusted_quantity = 5,
       rd_timestamp = n, rd_checks_passed = map fst (check_results ?sig ?st default_limits None []), rd_checks_failed = []\<rparr>" for n
    by (simp add: run_risk_checks_def check_results_def check_var_def drawdown_scale_factor_def Let_def)
       (simp add: sample_signal_def)
  note decision = this
  let ?rg = "gateway_init None default_limits"
  have clear: "\<not> fst (is_tripped (ge_monotonic loop_risk_env) (ge_redis loop_risk_env) (rg_breaker ?rg))"
    by (simp add: loop_risk_env_def sample_risk_env_def is_tripped_def check_interval_s_def)
  have "orders_sent (on_signal loop_risk_env ?sig ?rg) = [Document (order_to_json loop_order)]"
  proof (cases rule: on_signal_cases [of loop_risk_env ?rg ?sig])
    case (decided cb st d rg1)
    have "st = ?st" using decided(2) st by simp
    then have d: "rd_decision d = ''APPROVED''" "rd_adjusted_quantity d = 5" by (simp_all add: decided(3) decision)
    have "rg_backtest_id ?rg = None" by (simp add: gateway_init_def Let_def)
    note d = d this
    then have "order_of_signal loop_risk_env None ?sig d = loop_order"
      by (simp add: order_of_signal_def loop_order_def loop_risk_env_def sample_risk_env_def sample_signal_def)
    with d show ?thesis by (simp add: decided(4,5))
  qed (use clear st in simp_all)
  then show ?thesis by (simp add: loop_gateway_def gateway_step_def signal_message_def)
qed

definition loop_exec :: exec_svc where
  "loop_exec = foldl exec_run_step (exec_init ''paper'' [] False ''live'' None) loop_events"

lemma loop_quoted:
  "exec_run_step (exec_init ''paper'' [] False ''live'' None)
      (Iteration (Execution_Service.sample_env 1 (Inr None)) (Some (message topic_raw_depth (depth_to_json loop_depth)))) =
    (exec_init ''paper'' [] False ''live'' None)\<lparr>ex_latest_mid := [(''BTCUSD'', 100)], ex_latest_spread := [(''BTCUSD'', 2)]\<rparr>"
  by (simp add: execution_step_def message_def on_depth_def loop_depth_def depth_default_def exec_init_def Let_def
      letter_case)

lemma loop_fillable:
  "upper (or_symbol loop_order) = ''BTCUSD''"
  "fillable ((exec_init ''paper'' [] False ''live'' None)\<lparr>ex_latest_mid := [(''BTCUSD'', 100)], ex_latest_spread := [(''BTCUSD'', 2)]\<rparr>)
    (Execution_Service.sample_env 11 (Inr None), loop_order)"
  by (simp_all add: fillable_def exec_init_def Execution_Service.sample_env_def is_tripped_def breaker_init_def check_interval_s_def
      loop_order_def get_mode_def mode_manager_init_def dget_def letter_case)

lemma loop_executed: "executed (exec_init ''paper'' [] False ''live'' None) loop_events = [loop_order]"
  using loop_fillable(2)
  by (simp add: loop_events_def executed_by_def loop_quoted del: exec_run_step.simps)
     (simp add: message_def topic_raw_depth_def topic_orders_def)

lemma loop_fill: "\<exists>f. fills_sent loop_exec = fill_docs [f] \<and> fl_fill_price f = 101"
proof -
  let ?ex = "(exec_init ''paper'' [] False ''live'' None)\<lparr>ex_latest_mid := [(''BTCUSD'', 100)], ex_latest_spread := [(''BTCUSD'', 2)]\<rparr>"
    and ?env = "Execution_Service.sample_env 11 (Inr None)"
  have ex: "loop_exec = on_order ?env loop_order ?ex"
    by (simp add: loop_exec_def loop_events_def execution_step_order loop_quoted [unfolded exec_run_step.simps])
  show ?thesis
  proof (cases rule: on_order_cases [of ?env ?ex loop_order])
    case (filled cb mid f0 f ex')
    have "mid = 100" using filled(2) loop_fillable(1) by simp
    then have "fl_fill_price f = 101"
      unfolding filled(4) using execute_Some(2) [OF filled(3)] loop_fillable(1)
      by (simp add: simulate_fill_def fill_price_of_def simple_fill_def loop_order_def exec_init_def fill_simulator_init_def
          dget_def Let_def split: prod.split)
    moreover have "fills_sent loop_exec = fill_docs [f]"
      using filled(5) execute_fields [OF filled(3)] by (simp add: ex fill_docs_def exec_init_def)
    ultimately show ?thesis by blast
  next
    case (ended cb mid ex')
    from execute_None [OF ended(3)] loop_fillable(2) show ?thesis by (auto simp: fillable_def)
  qed (use loop_fillable(2) in \<open>auto simp: fillable_def\<close>)
qed

lemma good_fill_keeps_running:
  assumes "pt_running svc" and "fl_fill_price f \<noteq> 0" and "st_latest_prices (pt_state svc) = []"
  shows "pt_running (on_fill env f svc)"
proof -
  let ?p = "fl_fill_price f"
  obtain r where "analyze_fill (fl_fill_id f) (fl_symbol f) (fl_side f) ?p ?p ?p (fl_fee f) (fl_quantity f) = Inr r"
    using analyze_fill_error [of "fl_fill_id f" "fl_symbol f" "fl_side f" ?p ?p ?p "fl_fee f" "fl_quantity f"] assms(2)
    by (cases "analyze_fill (fl_fill_id f) (fl_symbol f) (fl_side f) ?p ?p ?p (fl_fee f) (fl_quantity f)") auto
  then have "fst (process_fill (record_of_fill f) (pt_state svc)) = None"
    using assms(3) by (simp add: process_fill_def record_of_fill_def dget_def Let_def)
  with assms(1) show ?thesis by (auto simp: on_fill_def split: prod.split)
qed

definition loop_env :: post_trade_env where
  "loop_env = \<lparr>pe_uid = ''u'', pe_redis_error = None\<rparr>"

definition loop_fill_message :: kafka_message where
  "loop_fill_message = (message topic_fills (JObj []))\<lparr>km_value := hd (fills_sent loop_exec)\<rparr>"

definition loop_svc :: post_trade_svc where
  "loop_svc = foldl post_trade_step (post_trade_init None) ([] @ [(loop_env, Some loop_fill_message)])"

definition loop_store :: "(string, redis_hash) dict" where
  "loop_store = foldl apply_cmd [] (pt_redis_cmds loop_svc)"

lemma orders_reach_portfolio_witness:
  "\<exists>data. read_portfolio_from_redis (\<lambda>k. Inr (dget loop_store k [])) (\<lambda>p. [filter (\<lambda>k. prefix p k) (map fst loop_store)])
      ''live'' [] = Inr data \<and> dget (pd_positions data) ''BTCUSD'' 0 = 5"
proof -
  obtain f where f: "fills_sent loop_exec = fill_docs [f]" "fl_fill_price f = 101" using loop_fill by blast
  have m: "fill_value (loop_env, Some loop_fill_message) = Some (Document (fill_to_json f))"
    by (simp add: loop_fill_message_def message_def f(1) fill_docs_def)
  have "loop_svc = on_fill loop_env f (post_trade_init None)"
    unfolding loop_svc_def using fill_step [OF _ m, of "post_trade_init None"] by (simp add: post_trade_init_def)
  then have run: "pt_running loop_svc"
    using good_fill_keeps_running [of "post_trade_init None" f loop_env] f(2) by (simp add: post_trade_init_def state_init_def)
  have ins: "orders_in loop_events = orders_sent (foldl gateway_run_step (gateway_init None default_limits) loop_gateway)"
    unfolding loop_order_sent
    by (simp add: orders_in_def loop_events_def map_filter_simps message_def topic_raw_depth_def topic_orders_def)
  have fills: "fills_in ([] @ [(loop_env, Some loop_fill_message)]) = fills_sent loop_exec"
    using m by (simp add: fills_in_def map_filter_simps f(1) fill_docs_def)
  have live: "rg_run_id (foldl gateway_run_step (gateway_init None default_limits) loop_gateway) = ''live''"
    by (rule gateway_orders [of None default_limits loop_gateway]) (simp add: post_trade_init_def)
  have ok: "pe_redis_error loop_env = None" "\<forall>rd \<in> set [loop_order]. colon \<notin> set (or_symbol rd)"
    "fill_value (loop_env, Some loop_fill_message) \<noteq> None"
    using m by (simp_all add: loop_env_def loop_order_def colon_def)
  have "serves (foldl apply_cmd [] (pt_redis_cmds loop_svc)) (\<lambda>k. Inr (dget loop_store k []))
      (\<lambda>p. [filter (\<lambda>k. prefix p k) (map fst loop_store)])"
    by (auto simp: serves_def loop_store_def)
  from orders_reach_portfolio [OF ins fills [unfolded loop_exec_def] ok(3) ok(1) run [unfolded loop_svc_def]
      ok(2) [folded loop_executed] this [unfolded loop_svc_def], unfolded loop_executed]
  obtain data where "read_portfolio_from_redis (\<lambda>k. Inr (dget loop_store k [])) (\<lambda>p. [filter (\<lambda>k. prefix p k) (map fst loop_store)])
      ''live'' [] = Inr data" "\<forall>s. dget (pd_positions data) s 0 = net_ordered s [loop_order]"
    unfolding live by blast
  moreover have "net_ordered ''BTCUSD'' [loop_order] = 5" by (simp add: net_ordered_def loop_order_def signed_qty_def)
  ultimately show ?thesis by auto
qed

end
